(* ===== verification/Prelude.thy ===== *)
theory Prelude
  imports Main "HOL-Library.AList" "HOL-Library.Sublist" "HOL-Library.Char_ord"
    "HOL-Library.List_Lexorder" "HOL-Library.Product_Lexorder"
begin

text \<open>
  What every component of the development shares: the lemma collections, the reading of Go's
  basic types (times, 64-bit integers, byte strings, maps), the functions of Go's standard
  library the program calls, and the parameters that stand for code outside the repository.

  A Go \<open>time.Time\<close> is an integer number of nanoseconds since the Unix epoch, a
  \<open>time.Duration\<close> an integer number of nanoseconds; \<open>a.After(b)\<close> is \<open>b < a\<close> and
  \<open>a.Before(b)\<close> is \<open>a < b\<close>. A pointer that may be nil is an option. Strings and byte
  slices are lists of 8-bit characters, as in Go. A Go map is an association list whose order
  stands for the iteration order; every theorem holds for every order, because it is stated for
  every list with distinct keys.
\<close>

named_theorems gomap_simps "lookups after updates, deletions and filters of Go maps"
named_theorems inv_intros "one lemma per operation: the operation keeps its component's invariant"
named_theorems frame_simps "one lemma per operation: the parts of the state it leaves alone"

section \<open>Times and 64-bit integers\<close>

type_synonym time = int
type_synonym duration = int
type_synonym int64 = int
type_synonym bytes = string

abbreviation microsecond :: duration where "microsecond \<equiv> 1000"
abbreviation second :: duration where "second \<equiv> 1000000000"
abbreviation minute :: duration where "minute \<equiv> 60 * second"
abbreviation hour :: duration where "hour \<equiv> 60 * minute"

text \<open>\<open>t.Truncate(time.Microsecond)\<close>: the zero time is a whole number of microseconds from the epoch.\<close>

definition truncate_us :: "time \<Rightarrow> time" where
  "truncate_us t = t - t mod microsecond"

text \<open>The zero \<open>time.Time\<close>, 1 January of the year 1, and \<open>IsZero\<close>.\<close>

definition zero_time :: time where
  "zero_time = -62135596800 * second"

definition int64_min :: int where "int64_min = -(2 ^ 63)"
definition int64_max :: int where "int64_max = 2 ^ 63 - 1"

definition wrap64 :: "int \<Rightarrow> int64" where
  "wrap64 x = (x + 2 ^ 63) mod 2 ^ 64 - 2 ^ 63"

definition add64 :: "int64 \<Rightarrow> int64 \<Rightarrow> int64" where
  "add64 a b = wrap64 (a + b)"

definition sub64 :: "int64 \<Rightarrow> int64 \<Rightarrow> int64" where
  "sub64 a b = wrap64 (a - b)"

text \<open>\<open>t.Sub(u)\<close> saturates at the ends of the duration range.\<close>

definition time_sub :: "time \<Rightarrow> time \<Rightarrow> duration" where
  "time_sub t u = max int64_min (min int64_max (t - u))"

lemma truncate_us_le [simp]: "truncate_us t \<le> t"
  by (simp add: truncate_us_def)

lemma truncate_us_idem [simp]: "truncate_us (truncate_us t) = truncate_us t"
  by (simp add: truncate_us_def)

lemma truncate_us_close: "t - truncate_us t < microsecond"
  by (simp add: truncate_us_def)

lemma wrap64_id: "int64_min \<le> x \<Longrightarrow> x \<le> int64_max \<Longrightarrow> wrap64 x = x"
  by (simp add: wrap64_def int64_min_def int64_max_def)

lemma wrap64_range: "int64_min \<le> wrap64 x \<and> wrap64 x \<le> int64_max"
proof -
  have "0 \<le> (x + 2 ^ 63) mod 2 ^ 64 \<and> (x + 2 ^ 63) mod 2 ^ 64 < 2 ^ 64" by simp
  then show ?thesis by (simp add: wrap64_def int64_min_def int64_max_def)
qed

lemma wrap64_shift: "\<exists>k. wrap64 x = x + k * 2 ^ 64"
proof -
  have "wrap64 x = x + (- ((x + 2 ^ 63) div 2 ^ 64)) * 2 ^ 64"
    unfolding wrap64_def using div_mult_mod_eq [of "x + 2 ^ 63" "2 ^ 64"] by linarith
  then show ?thesis by blast
qed

lemma wrap64_wrap64_add [simp]: "wrap64 (wrap64 x + y) = wrap64 (x + y)"
proof -
  have "(wrap64 x + y + 2 ^ 63) mod 2 ^ 64 = (x + y + 2 ^ 63) mod (2 ^ 64 :: int)"
  proof -
    obtain k where k: "wrap64 x = x + k * 2 ^ 64" using wrap64_shift by blast
    have "wrap64 x + y + 2 ^ 63 = (x + y + 2 ^ 63) + k * 2 ^ 64" using k by simp
    then show ?thesis by (simp only: mod_mult_self1)
  qed
  then show ?thesis by (simp only: wrap64_def)
qed

lemma wrap64_add_wrap64 [simp]: "wrap64 (y + wrap64 x) = wrap64 (y + x)"
  using wrap64_wrap64_add [of x y] by (simp add: add.commute)

section \<open>Go maps\<close>

type_synonym ('k, 'v) gomap = "('k \<times> 'v) list"

abbreviation mput :: "'k \<Rightarrow> 'v \<Rightarrow> ('k, 'v) gomap \<Rightarrow> ('k, 'v) gomap" where
  "mput \<equiv> AList.update"

definition mdelete :: "'k \<Rightarrow> ('k, 'v) gomap \<Rightarrow> ('k, 'v) gomap" where
  "mdelete k m = filter (\<lambda>(k', v). k' \<noteq> k) m"

definition mretain :: "('k \<Rightarrow> 'v \<Rightarrow> bool) \<Rightarrow> ('k, 'v) gomap \<Rightarrow> ('k, 'v) gomap" where
  "mretain P m = filter (\<lambda>(k, v). P k v) m"

definition mapply :: "('k \<Rightarrow> 'v \<Rightarrow> 'w) \<Rightarrow> ('k, 'v) gomap \<Rightarrow> ('k, 'w) gomap" where
  "mapply f m = map (\<lambda>(k, v). (k, f k v)) m"

definition mkeys :: "('k, 'v) gomap \<Rightarrow> 'k list" where
  "mkeys m = map fst m"

definition mvals :: "('k, 'v) gomap \<Rightarrow> 'v list" where
  "mvals m = map snd m"

definition wf_map :: "('k, 'v) gomap \<Rightarrow> bool" where
  "wf_map m \<longleftrightarrow> distinct (map fst m)"

text \<open>Reading a missing key of a Go map gives the zero value of the element type.\<close>

definition mget :: "'v \<Rightarrow> ('k, 'v) gomap \<Rightarrow> 'k \<Rightarrow> 'v" where
  "mget z m k = (case map_of m k of None \<Rightarrow> z | Some v \<Rightarrow> v)"

lemma map_of_mput [gomap_simps, simp]: "map_of (mput k v m) = (map_of m)(k \<mapsto> v)"
  by (rule update_conv')

lemma map_of_filter_keys:
  "distinct (map fst m) \<Longrightarrow> map_of (filter (\<lambda>(k, v). P k v) m) k =
     (case map_of m k of None \<Rightarrow> None | Some v \<Rightarrow> if P k v then Some v else None)"
  by (induction m) (auto split: option.splits simp: map_of_eq_None_iff image_iff)

lemma map_of_mdelete [gomap_simps, simp]: "map_of (mdelete k m) = (map_of m)(k := None)"
  by (induction m) (auto simp: mdelete_def fun_eq_iff)

lemma map_of_mretain [gomap_simps]:
  "wf_map m \<Longrightarrow> map_of (mretain P m) k =
     (case map_of m k of None \<Rightarrow> None | Some v \<Rightarrow> if P k v then Some v else None)"
  unfolding mretain_def wf_map_def by (rule map_of_filter_keys)

lemma map_of_mapply [gomap_simps, simp]: "map_of (mapply f m) k = map_option (f k) (map_of m k)"
  by (induction m) (auto simp: mapply_def)

lemma map_of_all_Cons:
  assumes "map_of m k = None"
  shows "(\<forall>k' v'. map_of ((k, v) # m) k' = Some v' \<longrightarrow> Q k' v')
    \<longleftrightarrow> Q k v \<and> (\<forall>k' v'. map_of m k' = Some v' \<longrightarrow> Q k' v')"
proof -
  have "map_of ((k, v) # m) k' = Some v' \<longleftrightarrow> (k' = k \<and> v' = v) \<or> map_of m k' = Some v'" for k' v'
    using assms by (cases "k' = k") auto
  then show ?thesis by (simp only:) blast
qed

lemma wf_map_Nil [inv_intros, simp]: "wf_map []"
  by (simp add: wf_map_def)

lemma wf_map_mput [inv_intros, simp]: "wf_map m \<Longrightarrow> wf_map (mput k v m)"
  by (simp add: wf_map_def distinct_update)

lemma wf_map_mretain [inv_intros, simp]: "wf_map m \<Longrightarrow> wf_map (mretain P m)"
  by (simp add: wf_map_def mretain_def distinct_map_filter)

lemma wf_map_mdelete [inv_intros, simp]: "wf_map m \<Longrightarrow> wf_map (mdelete k m)"
  by (simp add: wf_map_def mdelete_def distinct_map_filter)

lemma wf_map_mapply [inv_intros, simp]: "wf_map (mapply f m) = wf_map m"
  by (simp add: wf_map_def mapply_def comp_def case_prod_unfold)

lemma wf_map_Cons [simp]: "wf_map ((k, v) # m) \<longleftrightarrow> k \<notin> fst ` set m \<and> wf_map m"
  by (simp add: wf_map_def)

lemma in_set_wf_map: "wf_map m \<Longrightarrow> (k, v) \<in> set m \<longleftrightarrow> map_of m k = Some v"
  by (simp add: wf_map_def)

lemma mvals_in_set: "wf_map m \<Longrightarrow> v \<in> set (mvals m) \<longleftrightarrow> (\<exists>k. map_of m k = Some v)"
  by (force simp: mvals_def in_set_wf_map [symmetric])

lemma set_mretain [simp]: "set (mretain P m) = {(k, v). (k, v) \<in> set m \<and> P k v}"
  by (auto simp: mretain_def)

lemma mdelete_absent: "map_of m k = None \<Longrightarrow> mdelete k m = m"
  by (induction m) (auto simp: mdelete_def split: if_splits)

lemma mdelete_mput_fresh: "map_of m k = None \<Longrightarrow> mdelete k (mput k v m) = m"
  by (induction m) (auto simp: mdelete_def split: if_splits intro: filter_True)

lemma mput_fresh: "map_of m k = None \<Longrightarrow> mput k v m = m @ [(k, v)]"
  by (induction m) (auto split: if_splits)

lemma mput_mput [simp]: "mput k v (mput k w m) = mput k v m"
  by (induction m) auto

lemma mput_same: "map_of m k = Some v \<Longrightarrow> wf_map m \<Longrightarrow> mput k v m = m"
  by (induction m) (auto split: if_splits)

section \<open>Go strings\<close>

text \<open>
  \<open>strings.TrimSpace\<close> removes leading and trailing Unicode white space. The lists below are the
  UTF-8 encodings of the code points \<open>unicode.IsSpace\<close> accepts; a continuation byte is never the
  first byte of an encoding, so comparing prefixes and suffixes with them is what decoding one rune
  at either end does.
\<close>

definition byte_str :: "nat list \<Rightarrow> string" where
  "byte_str = map char_of"

definition space_encodings :: "string list" where
  "space_encodings = map byte_str
     ([[9], [10], [11], [12], [13], [32], [194, 133], [194, 160], [225, 154, 128]]
      @ map (\<lambda>i. [226, 128, i]) ([128..<139] @ [168, 169, 175])
      @ [[226, 129, 159], [227, 128, 128]])"

fun strip_first :: "string list \<Rightarrow> string \<Rightarrow> string option" where
  "strip_first [] s = None"
| "strip_first (e # es) s =
     (if e \<noteq> [] \<and> prefix e s then Some (drop (length e) s) else strip_first es s)"

lemma strip_first_shorter: "strip_first es s = Some t \<Longrightarrow> length t < length s"
  by (induction es) (auto simp: prefix_def split: if_splits)

function trim_left_of :: "string list \<Rightarrow> string \<Rightarrow> string" where
  "trim_left_of es s = (case strip_first es s of None \<Rightarrow> s | Some t \<Rightarrow> trim_left_of es t)"
  by pat_completeness auto
termination
  by (relation "measure (\<lambda>(es, s). length s)") (auto dest: strip_first_shorter)

declare trim_left_of.simps [simp del]

definition trim_space :: "string \<Rightarrow> string" where
  "trim_space s =
     rev (trim_left_of (map rev space_encodings) (rev (trim_left_of space_encodings s)))"

lemma trim_left_of_Nil [simp]: "trim_left_of es [] = []"
proof -
  have "strip_first es [] = None" by (induction es) auto
  then show ?thesis by (simp add: trim_left_of.simps [of es "[]"])
qed

lemma trim_left_of_suffix: "suffix (trim_left_of es s) s"
proof (induction es s rule: trim_left_of.induct)
  case (1 es s)
  show ?case
  proof (cases "strip_first es s")
    case None
    then show ?thesis by (simp add: trim_left_of.simps [of es s])
  next
    case (Some t)
    have "suffix t s"
      using Some by (induction es) (auto simp: suffix_drop split: if_splits)
    with 1 [OF Some] Some show ?thesis
      by (auto simp: trim_left_of.simps [of es s] intro: suffix_order.trans)
  qed
qed

lemma trim_space_length: "length (trim_space s) \<le> length s"
proof -
  have "length (trim_left_of es t) \<le> length t" for es t
    by (rule suffix_length_le) (rule trim_left_of_suffix)
  from this [of "map rev space_encodings" "rev (trim_left_of space_encodings s)"]
    this [of space_encodings s]
  show ?thesis by (simp add: trim_space_def)
qed

lemma trim_space_subset: "set (trim_space s) \<subseteq> set s"
proof -
  have "set (trim_left_of es t) \<subseteq> set t" for es t
    using set_mono_suffix [OF trim_left_of_suffix] .
  from this [of "map rev space_encodings" "rev (trim_left_of space_encodings s)"]
    this [of space_encodings s]
  show ?thesis by (auto simp: trim_space_def)
qed

lemma trim_left_of_fixed: "strip_first es (trim_left_of es s) = None"
proof (induction es s rule: trim_left_of.induct)
  case (1 es s)
  then show ?case
    by (cases "strip_first es s") (simp_all add: trim_left_of.simps [of es s])
qed

lemma strip_first_None_iff:
  "strip_first es s = None \<longleftrightarrow> (\<forall>e \<in> set es. e \<noteq> [] \<longrightarrow> \<not> prefix e s)"
  by (induction es) auto

lemma trim_left_of_None: "strip_first es s = None \<Longrightarrow> trim_left_of es s = s"
  by (simp add: trim_left_of.simps [of es s])

text \<open>A string of printable ASCII characters other than the space is not changed.\<close>

definition plain_char :: "char \<Rightarrow> bool" where
  "plain_char c \<longleftrightarrow> 33 \<le> (of_char c :: nat) \<and> (of_char c :: nat) < 128"

lemma space_encodings_not_plain:
  "\<forall>e \<in> set space_encodings. e \<noteq> [] \<and> \<not> plain_char (hd e) \<and> \<not> plain_char (List.last e)"
  by code_simp

lemma not_prefix_plain: "e \<noteq> [] \<Longrightarrow> \<not> plain_char (hd e) \<Longrightarrow> \<forall>c \<in> set s. plain_char c \<Longrightarrow> \<not> prefix e s"
  by (cases e; cases s) auto

lemma trim_space_plain:
  assumes "\<forall>c \<in> set s. plain_char c"
  shows "trim_space s = s"
proof -
  have "strip_first space_encodings s = None" "strip_first (map rev space_encodings) (rev s) = None"
    unfolding strip_first_None_iff
    using space_encodings_not_plain assms not_prefix_plain [of _ s] not_prefix_plain [of _ "rev s"]
    by (auto simp: hd_rev)
  then show ?thesis by (simp add: trim_space_def trim_left_of_None)
qed

lemma trim_space_idem [simp]: "trim_space (trim_space s) = trim_space s"
proof -
  define l where "l = trim_left_of space_encodings s"
  define r where "r = trim_left_of (map rev space_encodings) (rev l)"
  have t: "trim_space s = rev r" by (simp add: trim_space_def l_def r_def)
  have "prefix (rev r) l"
    using trim_left_of_suffix [of "map rev space_encodings" "rev l"]
    by (simp add: r_def suffix_to_prefix)
  then have "strip_first space_encodings (rev r) = None"
    using trim_left_of_fixed [of space_encodings s]
    by (auto simp: strip_first_None_iff l_def intro: prefix_order.trans)
  then have left: "trim_left_of space_encodings (rev r) = rev r" by (rule trim_left_of_None)
  have "strip_first (map rev space_encodings) r = None"
    using trim_left_of_fixed [of "map rev space_encodings" "rev l"] by (simp add: r_def)
  then have "trim_left_of (map rev space_encodings) r = r" by (rule trim_left_of_None)
  with left show ?thesis by (simp add: t) (simp add: trim_space_def)
qed

definition contains_any :: "string \<Rightarrow> string \<Rightarrow> bool" where
  "contains_any s chars \<longleftrightarrow> list_ex (\<lambda>c. c \<in> set chars) s"

definition contains_str :: "string \<Rightarrow> string \<Rightarrow> bool" where
  "contains_str s t \<longleftrightarrow> sublist t s"

definition CRLFNUL :: string where
  "CRLFNUL = byte_str [13, 10, 0]"

definition NUL :: string where
  "NUL = byte_str [0]"

lemma plain_no_control: "\<forall>c \<in> set s. plain_char c \<Longrightarrow> \<not> contains_any s CRLFNUL"
  by (auto simp: contains_any_def CRLFNUL_def byte_str_def plain_char_def list_ex_iff)

definition is_ascii :: "string \<Rightarrow> bool" where
  "is_ascii s \<longleftrightarrow> list_all (\<lambda>c. (of_char c :: nat) < 128) s"

definition ascii_lower :: "char \<Rightarrow> char" where
  "ascii_lower c = (let n = (of_char c :: nat) in if 65 \<le> n \<and> n \<le> 90 then char_of (n + 32) else c)"

definition ascii_upper :: "char \<Rightarrow> char" where
  "ascii_upper c = (let n = (of_char c :: nat) in if 97 \<le> n \<and> n \<le> 122 then char_of (n - 32) else c)"

text \<open>\<open>hex.EncodeToString\<close>: two lower-case digits per byte.\<close>

definition hex_digit :: "nat \<Rightarrow> char" where
  "hex_digit n = ''0123456789abcdef'' ! n"

definition hex_encode :: "bytes \<Rightarrow> string" where
  "hex_encode b = concat (map (\<lambda>c. let n = (of_char c :: nat) in [hex_digit (n div 16), hex_digit (n mod 16)]) b)"

lemma length_hex_encode [simp]: "length (hex_encode b) = 2 * length b"
  by (induction b) (auto simp: hex_encode_def Let_def)

text \<open>\<open>binary.BigEndian\<close> encodings of 32- and 64-bit unsigned values.\<close>

fun be_bytes :: "nat \<Rightarrow> nat \<Rightarrow> bytes" where
  "be_bytes 0 n = []"
| "be_bytes (Suc k) n = be_bytes k (n div 256) @ [char_of (n mod 256)]"

definition be32 :: "int \<Rightarrow> bytes" where
  "be32 n = be_bytes 4 (nat (n mod 2 ^ 32))"

definition be64 :: "int \<Rightarrow> bytes" where
  "be64 n = be_bytes 8 (nat (n mod 2 ^ 64))"

lemma length_be_bytes [simp]: "length (be_bytes k n) = k"
  by (induction k arbitrary: n) auto

lemma length_be32 [simp]: "length (be32 n) = 4" and length_be64 [simp]: "length (be64 n) = 8"
  by (simp_all add: be32_def be64_def)

lemma be_bytes_0: "be_bytes k 0 = replicate k (char_of (0::nat))"
  by (induction k) (simp_all add: replicate_append_same)

lemma be_bytes_inj: "be_bytes k m = be_bytes k n \<Longrightarrow> m < 256 ^ k \<Longrightarrow> n < 256 ^ k \<Longrightarrow> m = n"
proof (induction k arbitrary: m n)
  case (Suc k)
  from Suc.prems(1) have tl: "be_bytes k (m div 256) = be_bytes k (n div 256)"
    and hd: "(char_of (m mod 256) :: char) = char_of (n mod 256)" by auto
  from hd have "m mod 256 = n mod 256"
    by (metis mod_mod_trivial of_char_of)
  moreover have "m div 256 = n div 256"
    using Suc.prems by (intro Suc.IH [OF tl]) (auto simp: less_mult_imp_div_less)
  ultimately show ?case by (metis div_mod_decomp)
qed simp

lemma be32_inj: "be32 m = be32 n \<Longrightarrow> 0 \<le> m \<Longrightarrow> m < 2 ^ 32 \<Longrightarrow> 0 \<le> n \<Longrightarrow> n < 2 ^ 32 \<Longrightarrow> m = n"
  unfolding be32_def by (drule be_bytes_inj) auto

lemma be64_inj:
  assumes "be64 m = be64 n" "int64_min \<le> m" "m \<le> int64_max" "int64_min \<le> n" "n \<le> int64_max"
  shows "m = n"
proof -
  have "nat (m mod 2 ^ 64) = nat (n mod 2 ^ 64)"
    using assms(1) unfolding be64_def
    by (rule be_bytes_inj) (simp_all add: nat_less_iff)
  then have "m mod 2 ^ 64 = n mod 2 ^ 64" by (simp add: eq_nat_nat_iff)
  then have "2 ^ 64 dvd m - n" by (simp add: mod_eq_dvd_iff)
  moreover have "\<bar>m - n\<bar> < 2 ^ 64" using assms(2-5) by (auto simp: int64_min_def int64_max_def)
  ultimately show ?thesis
    by (metis dvd_imp_le_int eq_iff_diff_eq_0 linorder_not_less abs_numeral power_abs)
qed

text \<open>
  A length-prefixed field, as \<open>writeField\<close> and \<open>canonicalAAD\<close> write it. Two concatenations of as
  many fields are equal only when the fields are.
\<close>

definition length_field :: "bytes \<Rightarrow> bytes" where
  "length_field v = be32 (int (length v)) @ v"

lemma length_field_append_inj:
  assumes "length_field a @ x = length_field b @ y"
    and "length a < 2 ^ 32" and "length b < 2 ^ 32"
  shows "a = b \<and> x = y"
proof -
  from assms(1) have "be32 (int (length a)) = be32 (int (length b))" and rest: "a @ x = b @ y"
    by (simp_all add: length_field_def append_eq_append_conv)
  then have "int (length a) = int (length b)"
    using assms(2,3) by (intro be32_inj) auto
  with rest show ?thesis by (simp add: append_eq_append_conv)
qed

lemma concat_length_field_inj:
  assumes "concat (map length_field as) @ x = concat (map length_field bs) @ y"
    and "length as = length bs"
    and "\<forall>a \<in> set as. length a < 2 ^ 32" and "\<forall>b \<in> set bs. length b < 2 ^ 32"
  shows "as = bs \<and> x = y"
  using assms(2,1,3,4)
proof (induction as bs arbitrary: x y rule: list_induct2)
  case (Cons a as b bs)
  then have "a = b \<and> concat (map length_field as) @ x = concat (map length_field bs) @ y"
    by (intro length_field_append_inj) auto
  with Cons show ?case by auto
qed simp

section \<open>Code outside the repository\<close>

text \<open>
  The cryptographic primitives (\<open>crypto/sha256\<close>, \<open>crypto/hmac\<close>, AES-GCM, bcrypt of
  golang.org/x/crypto), the RFC 5322 address parser \<open>mail.ParseAddress\<close>, the Unicode tables
  behind \<open>strings.ToLower\<close>, \<open>strings.ToUpper\<close> and \<open>unicode.IsLower\<close> for text that is not
  ASCII, and the RFC 3339 rendering of a time are fields of this record. Every definition that uses
  one takes the record as its argument \<open>P\<close>; a theorem that relies on a law of one names it.
  Random values are arguments of the operations that draw them.
\<close>

datatype rune_class = Lower | Upper | Number | OtherRune

record platform =
  p_sha256 :: "bytes \<Rightarrow> bytes"
  p_hmac_sha256 :: "bytes \<Rightarrow> bytes \<Rightarrow> bytes"
  p_hmac_sha1 :: "bytes \<Rightarrow> bytes \<Rightarrow> bytes"
  p_bcrypt_hash :: "bytes \<Rightarrow> nat \<Rightarrow> bytes \<Rightarrow> bytes"
  p_bcrypt_matches :: "bytes \<Rightarrow> bytes \<Rightarrow> bool"
  p_gcm_seal :: "bytes \<Rightarrow> bytes \<Rightarrow> bytes \<Rightarrow> bytes \<Rightarrow> bytes"
  p_gcm_open :: "bytes \<Rightarrow> bytes \<Rightarrow> bytes \<Rightarrow> bytes \<Rightarrow> bytes option"
  p_parse_address :: "string \<Rightarrow> string option"
  p_unicode_lower :: "string \<Rightarrow> string"
  p_unicode_upper :: "string \<Rightarrow> string"
  p_unicode_fold_eq :: "string \<Rightarrow> string \<Rightarrow> bool"
  p_unicode_classes :: "string \<Rightarrow> rune_class list"
  p_rfc3339 :: "time \<Rightarrow> string"

definition to_lower :: "platform \<Rightarrow> string \<Rightarrow> string" where
  "to_lower P s = (if is_ascii s then map ascii_lower s else p_unicode_lower P s)"

definition to_upper :: "platform \<Rightarrow> string \<Rightarrow> string" where
  "to_upper P s = (if is_ascii s then map ascii_upper s else p_unicode_upper P s)"

definition equal_fold :: "platform \<Rightarrow> string \<Rightarrow> string \<Rightarrow> bool" where
  "equal_fold P s t =
     (if is_ascii s \<and> is_ascii t then map ascii_lower s = map ascii_lower t
      else p_unicode_fold_eq P s t)"

text \<open>The class of each rune of a string, in the order of Go's \<open>range\<close> loop.\<close>

definition ascii_class :: "char \<Rightarrow> rune_class" where
  "ascii_class c = (let n = (of_char c :: nat) in
     if 97 \<le> n \<and> n \<le> 122 then Lower
     else if 65 \<le> n \<and> n \<le> 90 then Upper
     else if 48 \<le> n \<and> n \<le> 57 then Number else OtherRune)"

definition rune_classes :: "platform \<Rightarrow> string \<Rightarrow> rune_class list" where
  "rune_classes P s = (if is_ascii s then map ascii_class s else p_unicode_classes P s)"

text \<open>\<open>aes.NewCipher\<close> accepts keys of 16, 24 and 32 bytes; \<open>cipher.NewGCM\<close> then cannot fail and has nonces of 12 bytes.\<close>

definition valid_aes_key :: "bytes \<Rightarrow> bool" where
  "valid_aes_key key \<longleftrightarrow> length key = 16 \<or> length key = 24 \<or> length key = 32"

text \<open>The documented law of authenticated encryption: opening what was sealed gives it back.\<close>

definition gcm_correct :: "platform \<Rightarrow> bool" where
  "gcm_correct P \<longleftrightarrow> (\<forall>k n p a. p_gcm_open P k n (p_gcm_seal P k n p a) a = Some p)"

text \<open>What was sealed is not shorter than the plaintext (it carries the authentication tag).\<close>

definition gcm_grows :: "platform \<Rightarrow> bool" where
  "gcm_grows P \<longleftrightarrow> (\<forall>k n p a. length p \<le> length (p_gcm_seal P k n p a))"

text \<open>Idealised binding of the additional data: what was sealed with some data opens only with the same.\<close>

definition gcm_binds_data :: "platform \<Rightarrow> bool" where
  "gcm_binds_data P \<longleftrightarrow>
     (\<forall>k n p a k' n' p' a'. p_gcm_open P k' n' (p_gcm_seal P k n p a) a' = Some p' \<longrightarrow> a' = a)"

text \<open>
  Idealised collision resistance: equal digests or authentication codes mean equal messages. The
  theorems about tamper evidence name the one they rely on.
\<close>

definition sha_collision_free :: "platform \<Rightarrow> bool" where
  "sha_collision_free P \<longleftrightarrow> inj (p_sha256 P)"

definition hmac_collision_free :: "platform \<Rightarrow> bool" where
  "hmac_collision_free P \<longleftrightarrow>
     (\<forall>k m k' m'. p_hmac_sha256 P k m = p_hmac_sha256 P k' m' \<longrightarrow> m = m')"

text \<open>Times render differently; used where a rendered time is part of canonical bytes.\<close>

definition rfc3339_injective :: "platform \<Rightarrow> bool" where
  "rfc3339_injective P \<longleftrightarrow> inj (p_rfc3339 P)"

text \<open>
  A concrete instance of the parameters, used by the witnesses only: a transparent stand-in for
  each primitive that satisfies the laws the theorems name.
\<close>

primrec unary_marks :: "string \<Rightarrow> string" where
  "unary_marks [] = []"
| "unary_marks (c # m) = CHR ''1'' # c # unary_marks m"

definition self_delimited :: "string \<Rightarrow> string" where
  "self_delimited m = unary_marks m @ ''0''"

definition demo_platform :: platform where
  "demo_platform = \<lparr>
     p_sha256 = (\<lambda>b. b),
     p_hmac_sha256 = (\<lambda>k m. unary_marks m @ CHR ''0'' # k),
     p_hmac_sha1 = (\<lambda>k m. take 20 (m @ k @ replicate 20 (CHR ''0''))),
     p_bcrypt_hash = (\<lambda>salt cost m. m),
     p_bcrypt_matches = (\<lambda>h m. h = m),
     p_gcm_seal = (\<lambda>k n p a. self_delimited a @ self_delimited k @ self_delimited n @ p),
     p_gcm_open = (\<lambda>k n c a. let h = self_delimited a @ self_delimited k @ self_delimited n in
        if prefix h c then Some (drop (length h) c) else None),
     p_parse_address = (\<lambda>s. if CHR ''@'' \<in> set s then Some s else None),
     p_unicode_lower = (\<lambda>s. s), p_unicode_upper = (\<lambda>s. s),
     p_unicode_fold_eq = (\<lambda>s t. s = t),
     p_unicode_classes = (\<lambda>s. map ascii_class s),
     p_rfc3339 = (\<lambda>t. (if t < 0 then CHR ''-'' else CHR ''+'') # replicate (nat \<bar>t\<bar>) (CHR ''I'')) \<rparr>"

lemma demo_gcm_correct: "gcm_correct demo_platform"
  by (simp add: gcm_correct_def demo_platform_def Let_def)

lemma demo_gcm_grows: "gcm_grows demo_platform"
  by (simp add: gcm_grows_def demo_platform_def)

lemma unary_marks_inj:
  "unary_marks m @ CHR ''0'' # k = unary_marks m' @ CHR ''0'' # k' \<Longrightarrow> m = m'"
  by (induction m arbitrary: m') (case_tac m'; simp)+

lemma self_delimited_inj: "self_delimited m @ x = self_delimited m' @ x' \<Longrightarrow> m = m'"
  unfolding self_delimited_def using unary_marks_inj by auto

lemma demo_gcm_binds_data: "gcm_binds_data demo_platform"
  unfolding gcm_binds_data_def demo_platform_def platform.simps Let_def
  by (auto split: if_splits simp: prefix_def dest: self_delimited_inj)

lemma demo_hmac_collision_free: "hmac_collision_free demo_platform"
  unfolding hmac_collision_free_def demo_platform_def platform.simps
  using unary_marks_inj by blast

lemma demo_rfc3339_injective: "rfc3339_injective demo_platform"
proof -
  have "t = u" if "p_rfc3339 demo_platform t = p_rfc3339 demo_platform u" for t u
  proof -
    from that have "(t < 0) = (u < 0)" and
      "replicate (nat \<bar>t\<bar>) (CHR ''I'') = replicate (nat \<bar>u\<bar>) (CHR ''I'')"
      by (auto simp: demo_platform_def split: if_splits)
    then have "nat \<bar>t\<bar> = nat \<bar>u\<bar>" by (metis length_replicate)
    with \<open>(t < 0) = (u < 0)\<close> show ?thesis by arith
  qed
  then show ?thesis by (auto simp: rfc3339_injective_def inj_def)
qed

lemma demo_sha_collision_free: "sha_collision_free demo_platform"
  by (simp add: sha_collision_free_def demo_platform_def)

section \<open>Lists\<close>

lemma sum_list_filter_le:
  fixes f :: "'a \<Rightarrow> int"
  assumes "\<forall>x \<in> set xs. 0 \<le> f x"
  shows "sum_list (map f (filter P xs)) \<le> sum_list (map f xs)"
  using assms by (induction xs) auto

lemma sum_list_nonneg_map:
  fixes f :: "'a \<Rightarrow> int"
  shows "\<forall>x \<in> set xs. 0 \<le> f x \<Longrightarrow> 0 \<le> sum_list (map f xs)"
  by (induction xs) auto

lemma find_SomeD: "find p xs = Some y \<Longrightarrow> y \<in> set xs \<and> p y"
  by (induction xs) (auto split: if_splits)

lemma find_distinct:
  "distinct (map f xs) \<Longrightarrow> y \<in> set xs \<Longrightarrow> f y = a \<Longrightarrow> find (\<lambda>x. f x = a) xs = Some y"
  by (induction xs) (auto simp: rev_image_eqI)

lemma find_ex: "x \<in> set xs \<Longrightarrow> p x \<Longrightarrow> \<exists>y. find p xs = Some y"
  by (induction xs) auto

lemma filter_not_taken:
  assumes "distinct (map f xs)"
  shows "filter (\<lambda>x. f x \<notin> f ` set (take n xs)) xs = drop n xs"
proof -
  have d: "distinct (map f (take n xs) @ map f (drop n xs))"
    using assms by (simp add: map_append [symmetric] del: map_append)
  have "filter (\<lambda>x. f x \<notin> f ` set (take n xs)) (take n xs @ drop n xs) = [] @ drop n xs"
    unfolding filter_append using d
    by (intro arg_cong2 [where f = append]) (auto simp: filter_empty_conv filter_id_conv)
  then show ?thesis by simp
qed

lemma distinct_map_filter_one:
  "distinct (map f xs) \<Longrightarrow> a \<in> f ` set xs \<Longrightarrow> length (filter (\<lambda>x. f x = a) xs) = 1"
proof (induction xs)
  case (Cons x xs)
  show ?case
  proof (cases "f x = a")
    case True
    with Cons.prems(1) have "filter (\<lambda>x. f x = a) xs = []"
      unfolding filter_empty_conv by (metis distinct.simps(2) image_eqI image_set list.simps(9))
    with True show ?thesis by simp
  next
    case False
    with Cons show ?thesis by auto
  qed
qed simp

text \<open>\<open>items[offset:end]\<close> with \<open>end\<close> capped at the length: the page of a listing.\<close>

definition page_of :: "int \<Rightarrow> int \<Rightarrow> 'a list \<Rightarrow> 'a list" where
  "page_of offset limit xs =
     (let total = int (length xs) in
      if offset \<ge> total then []
      else let end' = (if offset + limit > total then total else offset + limit)
           in take (nat (end' - offset)) (drop (nat offset) xs))"

lemma page_of_length: "0 \<le> limit \<Longrightarrow> length (page_of offset limit xs) \<le> nat limit"
  by (auto simp: page_of_def Let_def)

lemma page_of_subset: "set (page_of offset limit xs) \<subseteq> set xs"
  by (auto simp: page_of_def Let_def dest!: in_set_takeD in_set_dropD)

end
