(* ===== verification/RateLimiter.thy ===== *)
theory RateLimiter
  imports Prelude
begin

text \<open>
  The process-local limiter of sign-in attempts (internal/api/rate_limiter.go): a sliding window
  of granted attempts per SHA-256 of scope and network address. The limiter's clock reading is the
  argument \<open>now\<close>. The lemmas relate what the limiter stores to the history of granted attempts.
\<close>

record rate_limiter =
  rl_attempts :: "(bytes, time list) gomap"
  rl_limit :: int
  rl_window :: duration

definition newAuthenticationRateLimiter :: "int \<Rightarrow> duration \<Rightarrow> rate_limiter" where
  "newAuthenticationRateLimiter limit window =
     \<lparr>rl_attempts = [], rl_limit = limit, rl_window = window\<rparr>"

definition rl_key :: "platform \<Rightarrow> string \<Rightarrow> string \<Rightarrow> bytes" where
  "rl_key P scope networkAddress = p_sha256 P (scope @ NUL @ networkAddress)"

definition Allow :: "platform \<Rightarrow> string \<Rightarrow> string \<Rightarrow> time \<Rightarrow> rate_limiter \<Rightarrow> bool \<times> rate_limiter" where
  "Allow P scope networkAddress now limiter =
     (let key = rl_key P scope networkAddress;
          cutoff = now - rl_window limiter;
          values = mget [] (rl_attempts limiter) key;
          kept = filter (\<lambda>value. cutoff < value) values
      in if int (length kept) \<ge> rl_limit limiter
         then (False, limiter\<lparr>rl_attempts := mput key kept (rl_attempts limiter)\<rparr>)
         else (True, limiter\<lparr>rl_attempts := mput key (kept @ [now]) (rl_attempts limiter)\<rparr>))"

text \<open>A sequence of attempts, and the times at which one key was granted, oldest first.\<close>

type_synonym attempt = "string \<times> string \<times> time"

fun allow_run :: "platform \<Rightarrow> attempt list \<Rightarrow> rate_limiter \<Rightarrow> rate_limiter" where
  "allow_run P [] rl = rl"
| "allow_run P ((scope, addr, now) # as) rl = allow_run P as (snd (Allow P scope addr now rl))"

fun grants :: "platform \<Rightarrow> bytes \<Rightarrow> attempt list \<Rightarrow> rate_limiter \<Rightarrow> time list" where
  "grants P key [] rl = []"
| "grants P key ((scope, addr, now) # as) rl =
     (if rl_key P scope addr = key \<and> fst (Allow P scope addr now rl) then [now] else [])
       @ grants P key as (snd (Allow P scope addr now rl))"

definition attempts_sorted :: "attempt list \<Rightarrow> bool" where
  "attempts_sorted as \<longleftrightarrow> sorted (map (snd \<circ> snd) as)"

definition in_window :: "duration \<Rightarrow> time \<Rightarrow> time list \<Rightarrow> time list" where
  "in_window w u ts = filter (\<lambda>t. u - w < t \<and> t \<le> u) ts"

subsection \<open>What the limiter stores\<close>

lemma Allow_config [frame_simps, simp]:
  "rl_limit (snd (Allow P s a now rl)) = rl_limit rl"
  "rl_window (snd (Allow P s a now rl)) = rl_window rl"
  by (auto simp: Allow_def Let_def)

lemma Allow_other_key [frame_simps]:
  "rl_key P s a \<noteq> key \<Longrightarrow>
     mget [] (rl_attempts (snd (Allow P s a now rl))) key = mget [] (rl_attempts rl) key"
  by (auto simp: Allow_def Let_def mget_def)

lemma Allow_decision:
  "fst (Allow P s a now rl) \<longleftrightarrow>
     int (length (filter (\<lambda>v. now - rl_window rl < v) (mget [] (rl_attempts rl) (rl_key P s a))))
       < rl_limit rl"
  by (auto simp: Allow_def Let_def)

lemma Allow_same_key:
  "mget [] (rl_attempts (snd (Allow P s a now rl))) (rl_key P s a) =
     filter (\<lambda>v. now - rl_window rl < v) (mget [] (rl_attempts rl) (rl_key P s a))
       @ (if fst (Allow P s a now rl) then [now] else [])"
  by (auto simp: Allow_def Let_def mget_def)

text \<open>
  The list stored under a key agrees with the history \<open>G\<close> of its grants on everything younger than
  one window before the last attempt; older entries may have been dropped.
\<close>

definition tracks :: "rate_limiter \<Rightarrow> bytes \<Rightarrow> time \<Rightarrow> time list \<Rightarrow> bool" where
  "tracks rl key prev G \<longleftrightarrow>
     (\<forall>c \<ge> prev - rl_window rl.
        filter (\<lambda>v. c < v) (mget [] (rl_attempts rl) key) = filter (\<lambda>v. c < v) G)
     \<and> (\<forall>t \<in> set G. t \<le> prev)"

definition window_bounded :: "int \<Rightarrow> duration \<Rightarrow> time list \<Rightarrow> bool" where
  "window_bounded limit w G \<longleftrightarrow> (\<forall>u. int (length (in_window w u G)) \<le> limit)"

lemma tracks_step:
  assumes "tracks rl key prev G" and "prev \<le> now"
  shows "tracks (snd (Allow P s a now rl)) key now
    (G @ (if rl_key P s a = key \<and> fst (Allow P s a now rl) then [now] else []))"
proof (cases "rl_key P s a = key")
  case False
  with assms show ?thesis by (force simp: tracks_def Allow_other_key)
next
  case True
  have "filter (\<lambda>v. c < v) (filter (\<lambda>v. now - rl_window rl < v) (mget [] (rl_attempts rl) key))
      = filter (\<lambda>v. c < v) G" if "now - rl_window rl \<le> c" for c
  proof -
    have "filter (\<lambda>v. c < v) (filter (\<lambda>v. now - rl_window rl < v) xs) = filter (\<lambda>v. c < v) xs" for xs
      using that by (auto intro!: filter_cong)
    with assms that show ?thesis by (simp add: tracks_def)
  qed
  with True assms show ?thesis
    by (auto simp: tracks_def Allow_same_key [of P s a now rl, unfolded True])
qed

lemma Allow_decision_history:
  assumes "tracks rl (rl_key P s a) prev G" and "prev \<le> now"
  shows "fst (Allow P s a now rl) \<longleftrightarrow> int (length (in_window (rl_window rl) now G)) < rl_limit rl"
proof -
  have "filter (\<lambda>v. now - rl_window rl < v) (mget [] (rl_attempts rl) (rl_key P s a))
      = filter (\<lambda>v. now - rl_window rl < v) G"
    using assms by (simp add: tracks_def)
  also have "\<dots> = in_window (rl_window rl) now G"
    using assms by (auto simp: tracks_def in_window_def intro!: filter_cong)
  finally show ?thesis by (simp add: Allow_decision)
qed

lemma window_bounded_step:
  assumes "window_bounded limit w G" and "\<forall>t \<in> set G. t \<le> now"
    and "int (length (in_window w now G)) < limit"
  shows "window_bounded limit w (G @ [now])"
  unfolding window_bounded_def
proof
  fix u
  show "int (length (in_window w u (G @ [now]))) \<le> limit"
  proof (cases "now \<le> u")
    case False
    then show ?thesis using assms(1) by (simp add: window_bounded_def in_window_def)
  next
    case True
    have "length (in_window w u G) \<le> length (in_window w now G)"
      unfolding in_window_def using True assms(2) by (induction G) auto
    with assms(3) show ?thesis by (auto simp: in_window_def)
  qed
qed

lemma grants_invariant:
  assumes "tracks rl key prev G" and "window_bounded (rl_limit rl) (rl_window rl) G"
    and "attempts_sorted as" and "\<forall>(s, a, t) \<in> set as. prev \<le> t"
  shows "(\<exists>prev' \<in> insert prev ((snd \<circ> snd) ` set as).
      tracks (allow_run P as rl) key prev' (G @ grants P key as rl))
    \<and> window_bounded (rl_limit rl) (rl_window rl) (G @ grants P key as rl)"
  using assms
proof (induction as arbitrary: rl prev G)
  case Nil
  then show ?case by auto
next
  case (Cons x as)
  obtain s a t where x: "x = (s, a, t)" by (cases x)
  define rl' where "rl' = snd (Allow P s a t rl)"
  define g where "g = (if rl_key P s a = key \<and> fst (Allow P s a t rl) then [t] else [])"
  have le: "prev \<le> t" using Cons.prems(4) x by auto
  have tr: "tracks rl' key t (G @ g)"
    unfolding rl'_def g_def using Cons.prems(1) le by (rule tracks_step)
  have wb: "window_bounded (rl_limit rl') (rl_window rl') (G @ g)"
  proof (cases "rl_key P s a = key \<and> fst (Allow P s a t rl)")
    case True
    with Cons.prems(1) le have "int (length (in_window (rl_window rl) t G)) < rl_limit rl"
      using Allow_decision_history by blast
    moreover have "\<forall>v \<in> set G. v \<le> t" using Cons.prems(1) le by (force simp: tracks_def)
    ultimately show ?thesis using Cons.prems(2) True
      by (simp add: rl'_def g_def window_bounded_step)
  next
    case False
    then have "g = []" by (auto simp: g_def)
    with Cons.prems(2) show ?thesis by (simp add: rl'_def)
  qed
  have srt: "attempts_sorted as" "\<forall>(s', a', t') \<in> set as. t \<le> t'"
    using Cons.prems(3) x by (auto simp: attempts_sorted_def)
  from Cons.IH [OF tr wb srt] x show ?case
    by (simp add: rl'_def g_def)
qed

lemma tracks_new: "tracks (newAuthenticationRateLimiter limit w) key prev []"
  by (simp add: tracks_def newAuthenticationRateLimiter_def mget_def)

lemma window_bounded_Nil: "0 \<le> limit \<Longrightarrow> window_bounded limit w []"
  by (simp add: window_bounded_def in_window_def)

lemma new_limiter_fields [simp]:
  "rl_limit (newAuthenticationRateLimiter limit w) = limit"
  "rl_window (newAuthenticationRateLimiter limit w) = w"
  by (simp_all add: newAuthenticationRateLimiter_def)

lemma attempts_sorted_ge_Min:
  "attempts_sorted as \<Longrightarrow> \<exists>prev. \<forall>(s, a, t) \<in> set as. prev \<le> t"
proof (induction as)
  case (Cons x as)
  then show ?case by (intro exI [of _ "snd (snd x)"]) (auto simp: attempts_sorted_def)
qed auto

lemma new_limiter_history:
  assumes "0 \<le> limit" and "attempts_sorted (as @ [(s, a, now)])"
  shows "\<exists>prev. tracks (allow_run P as (newAuthenticationRateLimiter limit w)) key prev
      (grants P key as (newAuthenticationRateLimiter limit w)) \<and> prev \<le> now"
    and "window_bounded limit w (grants P key as (newAuthenticationRateLimiter limit w))"
proof -
  have srt: "attempts_sorted as" "\<forall>(s', a', t) \<in> set as. t \<le> now"
    using assms(2) by (auto simp: attempts_sorted_def sorted_append)
  obtain l0 where l0: "\<forall>(s', a', t) \<in> set as. l0 \<le> t"
    using attempts_sorted_ge_Min srt(1) by blast
  then have l: "\<forall>(s', a', t) \<in> set as. min l0 now \<le> t" by force
  note inv = grants_invariant [OF tracks_new _ srt(1) l, of limit w P key]
  from inv window_bounded_Nil [OF assms(1)] srt(2)
  show "\<exists>prev. tracks (allow_run P as (newAuthenticationRateLimiter limit w)) key prev
      (grants P key as (newAuthenticationRateLimiter limit w)) \<and> prev \<le> now"
    by fastforce
  from inv window_bounded_Nil [OF assms(1)]
  show "window_bounded limit w (grants P key as (newAuthenticationRateLimiter limit w))"
    by fastforce
qed

lemma allow_run_fields [frame_simps, simp]:
  "rl_limit (allow_run P as rl) = rl_limit rl" "rl_window (allow_run P as rl) = rl_window rl"
  by (induction as arbitrary: rl) auto

section \<open>Properties\<close>

text \<open>
  Over any history of attempts in time order, the limiter grants the next attempt exactly when
  fewer than \<open>limit\<close> attempts with the same scope and address were granted in the window that ends
  now; refused attempts and other keys do not count.
\<close>

theorem rate_limit_decision:
  assumes "0 \<le> limit" and "attempts_sorted (as @ [(s, a, now)])"
  shows "fst (Allow P s a now (allow_run P as (newAuthenticationRateLimiter limit w))) \<longleftrightarrow>
    int (length (in_window w now
      (grants P (rl_key P s a) as (newAuthenticationRateLimiter limit w)))) < limit"
proof -
  obtain prev where "tracks (allow_run P as (newAuthenticationRateLimiter limit w)) (rl_key P s a) prev
      (grants P (rl_key P s a) as (newAuthenticationRateLimiter limit w))" and "prev \<le> now"
    using new_limiter_history(1) [OF assms] by blast
  from Allow_decision_history [OF this] show ?thesis by simp
qed


theorem rate_limit_decision_witness:
  "\<not> fst (Allow demo_platform ''l'' ''a'' 9
      (allow_run demo_platform [(''l'', ''a'', 1), (''l'', ''a'', 5)]
        (newAuthenticationRateLimiter 2 10)))"
  using rate_limit_decision [of 2 "[(''l'', ''a'', 1), (''l'', ''a'', 5)]" "''l''" "''a''" 9
      demo_platform 10]
  by (simp add: attempts_sorted_def in_window_def Allow_def Let_def mget_def
      newAuthenticationRateLimiter_def)


end
