(* ===== verification/AuditOutbox.thy ===== *)
theory AuditOutbox
  imports Prelude
begin

text \<open>
  The contract between security-sensitive database mutations and durable audit evidence
  (internal/auditoutbox/outbox.go and migration.sql): the intent, its validation, and the outbox
  table it is enqueued in within the caller's transaction.
\<close>

record intent =
  in_event_id :: string
  in_actor_type :: string
  in_actor_id :: string
  in_action :: string
  in_resource_type :: string
  in_resource_id :: string
  in_outcome :: string
  in_reason_code :: string
  in_correlation_id :: string
  in_from_state :: string
  in_to_state :: string
  in_occurred_at :: time

text \<open>\<open>auditoutbox.Intent{}\<close>, the zero value the callers without audit evidence pass.\<close>

definition no_intent :: intent where
  "no_intent = \<lparr>in_event_id = [], in_actor_type = [], in_actor_id = [], in_action = [],
     in_resource_type = [], in_resource_id = [], in_outcome = [], in_reason_code = [],
     in_correlation_id = [], in_from_state = [], in_to_state = [], in_occurred_at = zero_time\<rparr>"

datatype outbox_error = InvalidIntent | IntentWithoutTimestamp | DatabaseFailure string

definition Validate :: "intent \<Rightarrow> outbox_error + unit" where
  "Validate i =
     (if list_ex (\<lambda>value. trim_space value = [])
           [in_event_id i, in_actor_type i, in_action i, in_resource_type i, in_outcome i]
      then Inl InvalidIntent
      else if in_occurred_at i = zero_time then Inl IntentWithoutTimestamp
      else Inr ())"

text \<open>One row of \<open>securestore_audit_outbox\<close>; the primary key is the intent's event identifier.\<close>

record outbox_row =
  ob_intent :: intent
  ob_dispatched_at :: "time option"
  ob_chain_sequence :: "int64 option"
  ob_last_error :: string
  ob_attempts :: int

type_synonym outbox = "(string, outbox_row) gomap"

text \<open>\<open>INSERT ... ON CONFLICT(event_id) DO NOTHING\<close>, after validation.\<close>

definition Enqueue :: "intent \<Rightarrow> outbox \<Rightarrow> outbox_error + outbox" where
  "Enqueue i ob =
     (case Validate i of
        Inl e \<Rightarrow> Inl e
      | Inr _ \<Rightarrow>
          (if map_of ob (in_event_id i) \<noteq> None then Inr ob
           else Inr (ob @ [(in_event_id i, \<lparr>ob_intent = i, ob_dispatched_at = None,
                  ob_chain_sequence = None, ob_last_error = [], ob_attempts = 0\<rparr>)])))"

text \<open>Every row is stored under its intent's identifier, and the intent passed validation.\<close>

definition outbox_ok :: "outbox \<Rightarrow> bool" where
  "outbox_ok ob \<longleftrightarrow> wf_map ob \<and>
     (\<forall>k row. map_of ob k = Some row \<longrightarrow> in_event_id (ob_intent row) = k \<and> Validate (ob_intent row) = Inr ())"

lemma Enqueue_ok [inv_intros]: "outbox_ok ob \<Longrightarrow> Enqueue i ob = Inr ob' \<Longrightarrow> outbox_ok ob'"
  by (auto simp: Enqueue_def outbox_ok_def wf_map_def map_add_Some_iff map_of_eq_None_iff
      split: sum.splits if_splits)

lemma Enqueue_stored:
  "Enqueue i ob = Inr ob' \<Longrightarrow> \<exists>row. map_of ob' (in_event_id i) = Some row
     \<and> (map_of ob (in_event_id i) = None \<longrightarrow> ob_intent row = i \<and> ob_dispatched_at row = None)"
  by (auto simp: Enqueue_def map_add_Some_iff split: sum.splits if_splits option.splits)

lemma Enqueue_idempotent: "Enqueue i ob = Inr ob' \<Longrightarrow> Enqueue i ob' = Inr ob'"
  by (auto simp: Enqueue_def map_add_Some_iff split: sum.splits if_splits)

lemma Enqueue_frame: "Enqueue i ob = Inr ob' \<Longrightarrow> k \<noteq> in_event_id i \<Longrightarrow> map_of ob' k = map_of ob k"
  by (auto simp: Enqueue_def map_add_def split: sum.splits if_splits option.splits)

end
