(* ===== verification/Base64.thy ===== *)
theory Base64
  imports Prelude
begin

text \<open>
  \<open>base64.RawURLEncoding\<close> of Go's standard library, which the program uses for opaque identifiers,
  tokens, anchor checkpoints and fingerprints: the URL alphabet, no padding, carriage returns and
  line feeds ignored on decoding, unused trailing bits ignored. The round trip is proved.
\<close>

definition b64_alphabet :: string where
  "b64_alphabet = ''ABCDEFGHIJKLMNOPQRSTUVWXYZabcdefghijklmnopqrstuvwxyz0123456789-_''"

definition b64_char :: "nat \<Rightarrow> char" where
  "b64_char n = b64_alphabet ! n"

fun index_of :: "'a \<Rightarrow> 'a list \<Rightarrow> nat option" where
  "index_of x [] = None"
| "index_of x (y # ys) = (if x = y then Some 0 else map_option Suc (index_of x ys))"

definition b64_value :: "char \<Rightarrow> nat option" where
  "b64_value c = index_of c b64_alphabet"

fun b64_digits :: "nat list \<Rightarrow> nat list" where
  "b64_digits (a # b # c # r) =
     (let n = (a * 256 + b) * 256 + c
      in [n div 262144, n div 4096 mod 64, n div 64 mod 64, n mod 64] @ b64_digits r)"
| "b64_digits [a, b] = (let n = (a * 256 + b) * 4 in [n div 4096, n div 64 mod 64, n mod 64])"
| "b64_digits [a] = (let n = a * 16 in [n div 64, n mod 64])"
| "b64_digits [] = []"

definition b64_encode :: "bytes \<Rightarrow> string" where
  "b64_encode b = map b64_char (b64_digits (map of_char b))"

fun b64_undigits :: "nat list \<Rightarrow> nat list option" where
  "b64_undigits (a # b # c # d # r) =
     (let n = ((a * 64 + b) * 64 + c) * 64 + d
      in map_option (\<lambda>t. [n div 65536, n div 256 mod 256, n mod 256] @ t) (b64_undigits r))"
| "b64_undigits [a, b, c] =
     (let n = ((a * 64 + b) * 64 + c) div 4 in Some [n div 256, n mod 256])"
| "b64_undigits [a, b] = Some [(a * 64 + b) div 16]"
| "b64_undigits [a] = None"
| "b64_undigits [] = Some []"

fun all_some :: "'a option list \<Rightarrow> 'a list option" where
  "all_some [] = Some []"
| "all_some (None # xs) = None"
| "all_some (Some x # xs) = map_option (\<lambda>t. x # t) (all_some xs)"

definition b64_decode :: "string \<Rightarrow> bytes option" where
  "b64_decode s =
     (case all_some (map b64_value (filter (\<lambda>c. c \<notin> set (byte_str [13, 10])) s)) of
        None \<Rightarrow> None
      | Some ds \<Rightarrow> map_option (map char_of) (b64_undigits ds))"

text \<open>The round trip: the alphabet is invertible, and so is the regrouping of bits.\<close>

lemma b64_value_char: "n < 64 \<Longrightarrow> b64_value (b64_char n) = Some n"
proof -
  assume "n < 64"
  moreover have "list_all (\<lambda>n. b64_value (b64_char n) = Some n) [0..<64]" by code_simp
  ultimately show ?thesis by (simp add: list_all_iff)
qed

lemma b64_char_no_newline: "n < 64 \<Longrightarrow> b64_char n \<notin> set (byte_str [13, 10])"
proof -
  assume "n < 64"
  moreover have "list_all (\<lambda>n. b64_char n \<notin> set (byte_str [13, 10])) [0..<64]" by code_simp
  ultimately show ?thesis by (simp add: list_all_iff)
qed

lemma b64_digits_bound: "\<forall>x \<in> set xs. x < 256 \<Longrightarrow> \<forall>d \<in> set (b64_digits xs). d < 64"
  by (induction xs rule: b64_digits.induct) (auto simp: Let_def)

text \<open>Regrouping: a number is put together again from its base-64 or base-256 digits.\<close>

lemma split_18:
  fixes n :: nat
  shows "(n div 4096 * 64 + n div 64 mod 64) * 64 + n mod 64 = n"
proof -
  have "n div 4096 = n div 64 div 64" by (simp add: div_mult2_eq [symmetric])
  then show ?thesis by (simp only: div_mult_mod_eq)
qed

lemma split_24:
  fixes n :: nat
  shows "((n div 262144 * 64 + n div 4096 mod 64) * 64 + n div 64 mod 64) * 64 + n mod 64 = n"
proof -
  have "n div 4096 div 64 = n div 262144" by (simp add: div_mult2_eq [symmetric])
  then have "n div 262144 * 64 + n div 4096 mod 64 = n div 4096" by (metis div_mult_mod_eq)
  then show ?thesis by (simp only: split_18)
qed

lemma bytes_16:
  fixes m b :: nat
  assumes "b < 256"
  shows "(m * 256 + b) div 256 = m" and "(m * 256 + b) mod 256 = b"
  using assms by simp_all

lemma bytes_24:
  fixes a b c :: nat
  assumes "a < 256" "b < 256" "c < 256" and n: "n = (a * 256 + b) * 256 + c"
  shows "n div 65536 = a" and "n div 256 mod 256 = b" and "n mod 256 = c"
proof -
  have hi: "n div 256 = a * 256 + b" using assms bytes_16 by blast
  then show "n div 256 mod 256 = b" using assms(2) bytes_16 by metis
  have "n div 65536 = n div 256 div 256" by (simp add: div_mult2_eq [symmetric])
  then show "n div 65536 = a" using hi assms(2) bytes_16 by metis
  show "n mod 256 = c" using assms bytes_16 by blast
qed

lemma b64_undigits_digits: "\<forall>x \<in> set xs. x < 256 \<Longrightarrow> b64_undigits (b64_digits xs) = Some xs"
proof (induction xs rule: b64_digits.induct)
  case (1 a b c r)
  define n where "n = (a * 256 + b) * 256 + c"
  have "b64_digits (a # b # c # r) =
      [n div 262144, n div 4096 mod 64, n div 64 mod 64, n mod 64] @ b64_digits r"
    by (simp only: b64_digits.simps Let_def n_def)
  moreover from 1 have "b64_undigits (b64_digits r) = Some r" by simp
  ultimately have "b64_undigits (b64_digits (a # b # c # r)) =
      Some ([n div 65536, n div 256 mod 256, n mod 256] @ r)"
    by (simp only: append.simps b64_undigits.simps Let_def split_24) simp
  with 1 n_def show ?case by (simp add: bytes_24 [of a b c])
next
  case (2 a b)
  define n where "n = (a * 256 + b) * 4"
  have "b64_digits [a, b] = [n div 4096, n div 64 mod 64, n mod 64]"
    by (simp only: b64_digits.simps Let_def n_def)
  then have "b64_undigits (b64_digits [a, b]) = Some [n div 4 div 256, n div 4 mod 256]"
    by (simp only: b64_undigits.simps Let_def split_18)
  with 2 bytes_16 show ?case by (simp add: n_def)
next
  case (3 a)
  have "b64_undigits (b64_digits [a]) = Some [(a * 16) div 16]"
    by (simp only: b64_digits.simps b64_undigits.simps Let_def div_mult_mod_eq)
  then show ?case by simp
qed simp

lemma all_some_map: "\<forall>x \<in> set xs. f x = Some (g x) \<Longrightarrow> all_some (map f xs) = Some (map g xs)"
  by (induction xs) auto

theorem b64_roundtrip: "b64_decode (b64_encode b) = Some b"
proof -
  define ds where "ds = b64_digits (map of_char b)"
  have bound: "\<forall>d \<in> set ds. d < 64"
    unfolding ds_def by (rule b64_digits_bound) simp
  have "filter (\<lambda>c. c \<notin> set (byte_str [13, 10])) (map b64_char ds) = map b64_char ds"
    using bound b64_char_no_newline by (auto intro: filter_True)
  moreover have "all_some (map b64_value (map b64_char ds)) = Some ds"
    using bound b64_value_char all_some_map [of ds "b64_value \<circ> b64_char" id] by simp
  moreover have "b64_undigits ds = Some (map of_char b)"
    unfolding ds_def by (rule b64_undigits_digits) simp
  ultimately show ?thesis
    by (simp add: b64_decode_def b64_encode_def ds_def [symmetric] comp_def)
qed

corollary b64_encode_inj: "b64_encode a = b64_encode b \<longleftrightarrow> a = b"
  by (metis b64_roundtrip option.inject)

lemma b64_char_plain: "n < 64 \<Longrightarrow> plain_char (b64_char n)"
proof -
  assume "n < 64"
  moreover have "length b64_alphabet = 64" by (simp add: b64_alphabet_def)
  moreover have "\<forall>c \<in> set b64_alphabet. plain_char c" by (simp add: b64_alphabet_def plain_char_def)
  ultimately show ?thesis unfolding b64_char_def by (metis nth_mem)
qed

lemma b64_encode_plain: "c \<in> set (b64_encode b) \<Longrightarrow> plain_char c"
proof -
  have "\<forall>x \<in> set (map of_char b). x < (256 :: nat)" by auto
  then have "\<forall>d \<in> set (b64_digits (map of_char b)). d < 64" by (rule b64_digits_bound)
  then show "c \<in> set (b64_encode b) \<Longrightarrow> plain_char c" by (auto simp: b64_encode_def b64_char_plain)
qed

lemma trim_space_b64 [simp]: "trim_space (b64_encode b) = b64_encode b"
  by (rule trim_space_plain) (simp add: b64_encode_plain)

lemma length_b64_digits: "length (b64_digits xs) = (4 * length xs + 2) div 3"
  by (induction xs rule: b64_digits.induct) (auto simp: Let_def)

lemma length_b64_encode [simp]: "length (b64_encode b) = (4 * length b + 2) div 3"
  by (simp add: b64_encode_def length_b64_digits)

end
