(* ===== verification/AuditChain.thy ===== *)
theory AuditChain
  imports AuditOutbox Base64
begin

text \<open>
  The tamper-evident HMAC chain (internal/audit/service.go, memory_repository.go,
  postgres_repository.go): its events, the canonical bytes each MAC covers, the two repositories
  that append to it, and the walk that verifies it. The interface \<open>Repository\<close> of the Go code is
  the record \<open>audit_ops\<close> of operations; \<open>memory_ops\<close> and \<open>postgres_ops\<close> are its two implementations.
  The locale \<open>audit_repository\<close> states what the service relies on, and both are interpretations.
\<close>

section \<open>Data\<close>

record event =
  ev_sequence :: int64
  ev_id :: string
  ev_occurred_at :: time
  ev_actor_type :: string
  ev_actor_id :: string
  ev_action :: string
  ev_resource_type :: string
  ev_resource_id :: string
  ev_outcome :: string
  ev_reason_code :: string
  ev_correlation_id :: string
  ev_from_state :: string
  ev_to_state :: string
  ev_key_version :: string
  ev_network_source :: string
  ev_previous_mac :: bytes
  ev_mac :: bytes

record query =
  q_search :: string
  q_actor_id :: string
  q_action :: string
  q_resource_type :: string
  q_outcome :: string
  q_network_address :: string
  q_from :: time
  q_to :: time
  q_limit :: int
  q_offset :: int

record audit_summary =
  as_total :: int
  as_matching :: int
  as_successful :: int
  as_denied :: int
  as_failed :: int
  as_last_24_hours :: int
  as_distinct_actors :: int
  as_high_risk :: int

record checkpoint =
  cp_chain_id :: string
  cp_key_version :: string
  cp_last_sequence :: int64
  cp_last_mac :: bytes
  cp_updated_at :: time

datatype audit_error =
    RepositoryOrKeyRequired | KeyVersionUnsafe | HistoricalKeyUnavailable | RequestedKeyUnavailable
  | AnchorRequired | AnchorKeyRequired | RandomFailure string | InvalidAuditSearch | InvalidAuditDateRange
  | InvalidAuditQuery | ErrAnchorUnavailable | RepositoryFailure string | NoRows

definition chainID :: string where "chainID = ''securestore-main-v2''"
definition defaultKeyVersion :: string where "defaultKeyVersion = ''v1''"

definition genesisMAC :: "platform \<Rightarrow> bytes" where
  "genesisMAC P = p_sha256 P ''securestore-audit-genesis-v2''"

section \<open>Canonical bytes and the MAC\<close>

text \<open>\<open>writeField\<close>: a 32-bit big-endian length and the bytes.\<close>

definition writeField :: "bytes \<Rightarrow> bytes \<Rightarrow> bytes" where
  "writeField destination v = destination @ length_field v"

definition canonical_fields :: "platform \<Rightarrow> event \<Rightarrow> string list" where
  "canonical_fields P e =
     [ev_id e, p_rfc3339 P (ev_occurred_at e), ev_actor_type e, ev_actor_id e, ev_action e,
      ev_resource_type e, ev_resource_id e, ev_outcome e, ev_reason_code e, ev_correlation_id e,
      ev_from_state e, ev_to_state e, ev_key_version e]"

definition canonicalEvent :: "platform \<Rightarrow> event \<Rightarrow> bytes" where
  "canonicalEvent P e =
     (let buffer = fold (\<lambda>v buf. writeField buf v) (canonical_fields P e) []
      in if ev_network_source e \<noteq> [] then writeField buffer (ev_network_source e) else buffer)"

type_synonym keyring = "(string, bytes) gomap"

definition mac_message :: "platform \<Rightarrow> int64 \<Rightarrow> bytes \<Rightarrow> event \<Rightarrow> bytes" where
  "mac_message P sequence previous e =
     writeField (writeField (writeField [] ''securestore.audit.chain.v2'' @ be64 sequence) previous)
       (canonicalEvent P e)"

definition computeMAC :: "platform \<Rightarrow> keyring \<Rightarrow> int64 \<Rightarrow> bytes \<Rightarrow> event \<Rightarrow> bytes" where
  "computeMAC P keys sequence previous e =
     p_hmac_sha256 P (mget [] keys (ev_key_version e)) (mac_message P sequence previous e)"

section \<open>The repository interface\<close>

record 'r outbox_ops =
  oo_pending :: "int \<Rightarrow> 'r \<Rightarrow> audit_error + intent list"
  oo_mark_dispatched :: "string \<Rightarrow> int64 \<Rightarrow> time \<Rightarrow> 'r \<Rightarrow> 'r \<times> (audit_error + unit)"
  oo_mark_failure :: "string \<Rightarrow> audit_error \<Rightarrow> 'r \<Rightarrow> 'r \<times> (audit_error + unit)"
  oo_pending_count :: "'r \<Rightarrow> audit_error + int"

record 'r audit_ops =
  op_append :: "event \<Rightarrow> (int64 \<Rightarrow> bytes \<Rightarrow> event \<Rightarrow> bytes) \<Rightarrow> 'r \<Rightarrow> 'r \<times> (audit_error + event)"
  op_load_chain :: "'r \<Rightarrow> audit_error + (event list \<times> checkpoint)"
  op_list :: "query \<Rightarrow> 'r \<Rightarrow> audit_error + (event list \<times> int)"
  op_summary :: "query \<Rightarrow> time \<Rightarrow> 'r \<Rightarrow> audit_error + audit_summary"
  op_durable :: bool
  op_outbox :: "'r outbox_ops option"

section \<open>The memory repository\<close>

record memory_audit =
  ma_events :: "event list"
  ma_checkpoint :: checkpoint

definition NewMemoryRepository :: "platform \<Rightarrow> memory_audit" where
  "NewMemoryRepository P = \<lparr>ma_events = [],
     ma_checkpoint = \<lparr>cp_chain_id = chainID, cp_key_version = defaultKeyVersion,
        cp_last_sequence = 0, cp_last_mac = genesisMAC P, cp_updated_at = zero_time\<rparr>\<rparr>"

definition chained :: "(int64 \<Rightarrow> bytes \<Rightarrow> event \<Rightarrow> bytes) \<Rightarrow> int64 \<Rightarrow> bytes \<Rightarrow> event \<Rightarrow> event" where
  "chained compute sequence previous e =
     (let e = e\<lparr>ev_sequence := sequence, ev_previous_mac := previous\<rparr>
      in e\<lparr>ev_mac := compute sequence previous e\<rparr>)"

definition checkpoint_of :: "event \<Rightarrow> checkpoint" where
  "checkpoint_of e = \<lparr>cp_chain_id = chainID, cp_key_version = ev_key_version e,
     cp_last_sequence = ev_sequence e, cp_last_mac = ev_mac e, cp_updated_at = ev_occurred_at e\<rparr>"

definition memory_Append ::
    "event \<Rightarrow> (int64 \<Rightarrow> bytes \<Rightarrow> event \<Rightarrow> bytes) \<Rightarrow> memory_audit \<Rightarrow> memory_audit \<times> (audit_error + event)" where
  "memory_Append e compute r =
     (case (if ev_id e = [] then None else find (\<lambda>existing. ev_id existing = ev_id e) (ma_events r)) of
        Some existing \<Rightarrow> (r, Inr existing)
      | None \<Rightarrow>
          (let e' = chained compute (int (length (ma_events r)) + 1) (cp_last_mac (ma_checkpoint r)) e
           in (r\<lparr>ma_events := ma_events r @ [e'], ma_checkpoint := checkpoint_of e'\<rparr>, Inr e')))"

definition memory_LoadChain :: "memory_audit \<Rightarrow> audit_error + (event list \<times> checkpoint)" where
  "memory_LoadChain r = Inr (ma_events r, ma_checkpoint r)"

definition matchesQuery :: "platform \<Rightarrow> event \<Rightarrow> query \<Rightarrow> bool" where
  "matchesQuery P e q =
     (let search = to_lower P (q_search q);
          joined = to_lower P (ev_action e @ '' '' @ ev_actor_id e @ '' '' @ ev_resource_type e @ '' ''
            @ ev_resource_id e @ '' '' @ ev_outcome e @ '' '' @ ev_reason_code e @ '' ''
            @ ev_correlation_id e @ '' '' @ ev_network_source e)
      in (search = [] \<or> contains_str joined search)
       \<and> (q_actor_id q = [] \<or> equal_fold P (ev_actor_id e) (q_actor_id q))
       \<and> (q_action q = [] \<or> equal_fold P (ev_action e) (q_action q))
       \<and> (q_resource_type q = [] \<or> equal_fold P (ev_resource_type e) (q_resource_type q))
       \<and> (q_outcome q = [] \<or> equal_fold P (ev_outcome e) (q_outcome q))
       \<and> (q_network_address q = [] \<or> ev_network_source e = q_network_address q)
       \<and> (q_from q = zero_time \<or> \<not> ev_occurred_at e < q_from q)
       \<and> (q_to q = zero_time \<or> \<not> q_to q < ev_occurred_at e))"

definition highRisk :: "event \<Rightarrow> bool" where
  "highRisk e \<longleftrightarrow> ev_outcome e = ''failed'' \<or> ev_outcome e = ''denied''
     \<or> ev_action e = ''ACCOUNT_STATUS_UPDATED'' \<or> ev_action e = ''OWNER_QUOTA_UPDATED''
     \<or> ev_action e = ''FILE_GRANT_REVOKED'' \<or> ev_action e = ''FILE_CRYPTOGRAPHICALLY_DELETED''
     \<or> ev_action e = ''LEGAL_HOLD_UPDATED''"

definition memory_List :: "platform \<Rightarrow> query \<Rightarrow> memory_audit \<Rightarrow> audit_error + (event list \<times> int)" where
  "memory_List P q r =
     (let matches = filter (\<lambda>e. matchesQuery P e q) (rev (ma_events r))
      in Inr (page_of (q_offset q) (q_limit q) matches, int (length matches)))"

definition count_if :: "('a \<Rightarrow> bool) \<Rightarrow> 'a list \<Rightarrow> int" where
  "count_if p xs = int (length (filter p xs))"

definition summary_of :: "int \<Rightarrow> event list \<Rightarrow> time \<Rightarrow> audit_summary" where
  "summary_of everything matching now = \<lparr>
     as_total = everything,
     as_matching = int (length matching),
     as_successful = count_if (\<lambda>e. ev_outcome e = ''success'') matching,
     as_denied = count_if (\<lambda>e. ev_outcome e = ''denied'') matching,
     as_failed = count_if (\<lambda>e. ev_outcome e = ''failed'') matching,
     as_last_24_hours = count_if (\<lambda>e. \<not> ev_occurred_at e < now - 24 * hour) matching,
     as_distinct_actors = int (length (remdups (filter (\<lambda>a. a \<noteq> []) (map ev_actor_id matching)))),
     as_high_risk = count_if highRisk matching\<rparr>"

definition memory_Summary :: "platform \<Rightarrow> query \<Rightarrow> time \<Rightarrow> memory_audit \<Rightarrow> audit_error + audit_summary" where
  "memory_Summary P q now r =
     Inr (summary_of (int (length (ma_events r))) (filter (\<lambda>e. matchesQuery P e q) (ma_events r)) now)"

definition memory_ops :: "platform \<Rightarrow> memory_audit audit_ops" where
  "memory_ops P = \<lparr>op_append = memory_Append, op_load_chain = memory_LoadChain,
     op_list = memory_List P, op_summary = memory_Summary P, op_durable = False, op_outbox = None\<rparr>"

section \<open>The PostgreSQL repository\<close>

text \<open>
  The two audit tables and the outbox as one value. Each call is one transaction: when the database
  fails (\<open>pa_fault\<close> holds the driver's message) it is rolled back and the call returns an error. The SQL text is
  translated; \<open>LIKE\<close> treats \<open>%\<close>, \<open>_\<close> and the backslash of the search text specially, as PostgreSQL does.
\<close>

record postgres_audit =
  pa_events :: "event list"
  pa_checkpoint :: "checkpoint option"
  pa_outbox :: outbox
  pa_fault :: "string option"

definition postgres_Append ::
    "platform \<Rightarrow> event \<Rightarrow> (int64 \<Rightarrow> bytes \<Rightarrow> event \<Rightarrow> bytes) \<Rightarrow> postgres_audit
       \<Rightarrow> postgres_audit \<times> (audit_error + event)" where
  "postgres_Append P e compute r =
     (if pa_fault r \<noteq> None then (r, Inl (RepositoryFailure (the (pa_fault r))))
      else
        let (sequence, previous) =
              (case pa_checkpoint r of None \<Rightarrow> (0, genesisMAC P)
               | Some cp \<Rightarrow> (cp_last_sequence cp, cp_last_mac cp));
            e' = chained compute (sequence + 1) previous e
        in if list_ex (\<lambda>x. ev_id x = ev_id e \<or> ev_sequence x = ev_sequence e') (pa_events r)
           then (r, case find (\<lambda>x. ev_id x = ev_id e) (pa_events r) of
                      None \<Rightarrow> Inl NoRows | Some existing \<Rightarrow> Inr existing)
           else (r\<lparr>pa_events := pa_events r @ [e'], pa_checkpoint := Some (checkpoint_of e')\<rparr>, Inr e'))"

definition postgres_LoadChain :: "platform \<Rightarrow> postgres_audit \<Rightarrow> audit_error + (event list \<times> checkpoint)" where
  "postgres_LoadChain P r =
     (if pa_fault r \<noteq> None then Inl (RepositoryFailure (the (pa_fault r)))
      else Inr (sort_key ev_sequence (pa_events r),
                case pa_checkpoint r of
                  None \<Rightarrow> \<lparr>cp_chain_id = chainID, cp_key_version = defaultKeyVersion,
                     cp_last_sequence = 0, cp_last_mac = genesisMAC P, cp_updated_at = zero_time\<rparr>
                | Some cp \<Rightarrow> cp\<lparr>cp_chain_id := chainID\<rparr>))"

fun sql_like :: "string \<Rightarrow> string \<Rightarrow> bool" where
  "sql_like [] s = (s = [])"
| "sql_like (c # pat) s =
     (if c = CHR ''%'' then list_ex (sql_like pat) (suffixes s)
      else case s of
        [] \<Rightarrow> False
      | x # xs \<Rightarrow>
          if c = CHR ''_'' then sql_like pat xs
          else if c = CHR 0x5C then (case pat of [] \<Rightarrow> False | d # pat' \<Rightarrow> x = d \<and> sql_like pat' xs)
          else x = c \<and> sql_like pat xs)"

definition postgres_matches :: "platform \<Rightarrow> event \<Rightarrow> query \<Rightarrow> bool" where
  "postgres_matches P e q =
     (let pattern = ''%'' @ to_lower P (q_search q) @ ''%'';
          joined = to_lower P (ev_action e @ '' '' @ ev_actor_id e @ '' '' @ ev_resource_type e @ '' ''
            @ ev_resource_id e @ '' '' @ ev_outcome e @ '' '' @ ev_reason_code e @ '' ''
            @ ev_correlation_id e @ '' '' @ ev_network_source e)
      in (q_search q = [] \<or> sql_like pattern joined)
       \<and> (q_actor_id q = [] \<or> to_lower P (ev_actor_id e) = to_lower P (q_actor_id q))
       \<and> (q_action q = [] \<or> to_lower P (ev_action e) = to_lower P (q_action q))
       \<and> (q_resource_type q = [] \<or> to_lower P (ev_resource_type e) = to_lower P (q_resource_type q))
       \<and> (q_outcome q = [] \<or> to_lower P (ev_outcome e) = to_lower P (q_outcome q))
       \<and> (q_network_address q = [] \<or> ev_network_source e = q_network_address q)
       \<and> (q_from q = zero_time \<or> q_from q \<le> ev_occurred_at e)
       \<and> (q_to q = zero_time \<or> ev_occurred_at e \<le> q_to q))"

definition postgres_List :: "platform \<Rightarrow> query \<Rightarrow> postgres_audit \<Rightarrow> audit_error + (event list \<times> int)" where
  "postgres_List P q r =
     (if pa_fault r \<noteq> None then Inl (RepositoryFailure (the (pa_fault r)))
      else let matches = filter (\<lambda>e. postgres_matches P e q) (rev (sort_key ev_sequence (pa_events r)))
           in Inr (take (nat (q_limit q)) (drop (nat (q_offset q)) matches), int (length matches)))"

definition postgres_Summary :: "platform \<Rightarrow> query \<Rightarrow> time \<Rightarrow> postgres_audit \<Rightarrow> audit_error + audit_summary" where
  "postgres_Summary P q now r =
     (if pa_fault r \<noteq> None then Inl (RepositoryFailure (the (pa_fault r)))
      else Inr (summary_of (int (length (pa_events r)))
             (filter (\<lambda>e. postgres_matches P e q) (pa_events r)) now))"

definition pending_row :: "outbox_row \<Rightarrow> bool" where
  "pending_row row \<longleftrightarrow> ob_dispatched_at row = None"

definition pending_intents :: "outbox \<Rightarrow> intent list" where
  "pending_intents ob =
     sort_key (\<lambda>i. (in_occurred_at i, in_event_id i)) (map ob_intent (filter pending_row (mvals ob)))"

definition postgres_PendingOutbox :: "int \<Rightarrow> postgres_audit \<Rightarrow> audit_error + intent list" where
  "postgres_PendingOutbox limit r =
     (if pa_fault r \<noteq> None then Inl (RepositoryFailure (the (pa_fault r)))
      else Inr (take (nat limit) (pending_intents (pa_outbox r))))"

text \<open>\<open>UPDATE ... WHERE event_id = $1 AND dispatched_at IS NULL\<close>.\<close>

definition update_pending :: "string \<Rightarrow> (outbox_row \<Rightarrow> outbox_row) \<Rightarrow> outbox \<Rightarrow> outbox" where
  "update_pending eventID f ob = mapply (\<lambda>k row. if k = eventID \<and> pending_row row then f row else row) ob"

definition postgres_MarkOutboxDispatched ::
    "string \<Rightarrow> int64 \<Rightarrow> time \<Rightarrow> postgres_audit \<Rightarrow> postgres_audit \<times> (audit_error + unit)" where
  "postgres_MarkOutboxDispatched eventID sequence now r =
     (if pa_fault r \<noteq> None then (r, Inl (RepositoryFailure (the (pa_fault r))))
      else (r\<lparr>pa_outbox := update_pending eventID
               (\<lambda>row. row\<lparr>ob_dispatched_at := Some now, ob_chain_sequence := Some sequence,
                  ob_last_error := [], ob_attempts := ob_attempts row + 1\<rparr>) (pa_outbox r)\<rparr>, Inr ()))"

text \<open>\<open>Error()\<close> of the errors the repositories and the service return.\<close>

fun audit_error_message :: "audit_error \<Rightarrow> string" where
  "audit_error_message (RepositoryFailure m) = m"
| "audit_error_message NoRows = ''no rows in result set''"
| "audit_error_message RepositoryOrKeyRequired = ''audit repository and a key of at least 32 bytes are required''"
| "audit_error_message KeyVersionUnsafe = ''every audit key requires a safe version and at least 32 bytes''"
| "audit_error_message HistoricalKeyUnavailable = ''current audit checkpoint requires an unavailable historical key''"
| "audit_error_message RequestedKeyUnavailable = ''requested audit key version is unavailable''"
| "audit_error_message AnchorRequired = ''checkpoint anchor is required''"
| "audit_error_message AnchorKeyRequired = ''local checkpoint anchors require a separate key of at least 32 bytes''"
| "audit_error_message (RandomFailure m) = m"
| "audit_error_message InvalidAuditSearch = ''invalid audit search''"
| "audit_error_message InvalidAuditDateRange = ''invalid audit date range''"
| "audit_error_message InvalidAuditQuery = ''invalid audit query''"
| "audit_error_message ErrAnchorUnavailable = ''audit checkpoint anchor is unavailable''"

definition postgres_MarkOutboxFailure ::
    "string \<Rightarrow> audit_error \<Rightarrow> postgres_audit \<Rightarrow> postgres_audit \<times> (audit_error + unit)" where
  "postgres_MarkOutboxFailure eventID failure r =
     (if pa_fault r \<noteq> None then (r, Inl (RepositoryFailure (the (pa_fault r))))
      else (r\<lparr>pa_outbox := update_pending eventID
               (\<lambda>row. row\<lparr>ob_attempts := ob_attempts row + 1,
                  ob_last_error := take 240 (audit_error_message failure)\<rparr>) (pa_outbox r)\<rparr>, Inr ()))"

definition postgres_PendingOutboxCount :: "postgres_audit \<Rightarrow> audit_error + int" where
  "postgres_PendingOutboxCount r =
     (if pa_fault r \<noteq> None then Inl (RepositoryFailure (the (pa_fault r)))
      else Inr (int (length (filter pending_row (mvals (pa_outbox r))))))"

definition postgres_ops :: "platform \<Rightarrow> postgres_audit audit_ops" where
  "postgres_ops P = \<lparr>op_append = postgres_Append P, op_load_chain = postgres_LoadChain P,
     op_list = postgres_List P, op_summary = postgres_Summary P, op_durable = True,
     op_outbox = Some \<lparr>oo_pending = postgres_PendingOutbox,
        oo_mark_dispatched = postgres_MarkOutboxDispatched,
        oo_mark_failure = postgres_MarkOutboxFailure,
        oo_pending_count = postgres_PendingOutboxCount\<rparr>\<rparr>"

section \<open>What a well-formed chain is\<close>

text \<open>
  The events are numbered from the start of the chain and each carries the MAC of the one before;
  the checkpoint is the head of the chain.
\<close>

fun linked_from :: "int64 \<Rightarrow> bytes \<Rightarrow> event list \<Rightarrow> bool" where
  "linked_from n prev [] = True"
| "linked_from n prev (e # es) =
     (ev_sequence e = n + 1 \<and> ev_previous_mac e = prev \<and> linked_from (n + 1) (ev_mac e) es)"

fun end_mac :: "bytes \<Rightarrow> event list \<Rightarrow> bytes" where
  "end_mac prev [] = prev"
| "end_mac prev (e # es) = end_mac (ev_mac e) es"

definition head_agrees :: "platform \<Rightarrow> event list \<Rightarrow> checkpoint \<Rightarrow> bool" where
  "head_agrees P es cp \<longleftrightarrow> cp_chain_id cp = chainID
     \<and> cp_last_sequence cp = int (length es) \<and> cp_last_mac cp = end_mac (genesisMAC P) es
     \<and> (es \<noteq> [] \<longrightarrow> cp_key_version cp = ev_key_version (List.last es))"

definition authentic :: "platform \<Rightarrow> keyring \<Rightarrow> event \<Rightarrow> bool" where
  "authentic P keys e \<longleftrightarrow> map_of keys (ev_key_version e) \<noteq> None
     \<and> ev_mac e = computeMAC P keys (ev_sequence e) (ev_previous_mac e) e"

lemma linked_from_append [simp]:
  "linked_from n prev (es @ fs) \<longleftrightarrow>
     linked_from n prev es \<and> linked_from (n + int (length es)) (end_mac prev es) fs"
  by (induction es arbitrary: n prev) (auto simp: algebra_simps)

lemma end_mac_append [simp]: "end_mac prev (es @ fs) = end_mac (end_mac prev es) fs"
  by (induction es arbitrary: prev) auto

lemma linked_from_sequence:
  "linked_from n prev es \<Longrightarrow> e \<in> set es \<Longrightarrow> n < ev_sequence e \<and> ev_sequence e \<le> n + int (length es)"
  by (induction es arbitrary: n prev) fastforce+

lemma linked_from_sorted: "linked_from n prev es \<Longrightarrow> sorted (map ev_sequence es)"
proof (induction es arbitrary: n prev)
  case (Cons e es)
  then have "linked_from (n + 1) (ev_mac e) es" and "ev_sequence e = n + 1" by auto
  with Cons.IH linked_from_sequence show ?case by fastforce
qed simp

lemma canonicalEvent_update [simp]:
  "canonicalEvent P (e\<lparr>ev_sequence := n, ev_previous_mac := p\<rparr>) = canonicalEvent P e"
  "canonicalEvent P (e\<lparr>ev_mac := m\<rparr>) = canonicalEvent P e"
  by (cases "ev_network_source e = []"; simp add: canonicalEvent_def canonical_fields_def)+

lemma chained_fields [simp]:
  "ev_sequence (chained f n p e) = n" "ev_previous_mac (chained f n p e) = p"
  "ev_id (chained f n p e) = ev_id e" "ev_key_version (chained f n p e) = ev_key_version e"
  "ev_occurred_at (chained f n p e) = ev_occurred_at e"
  by (simp_all add: chained_def Let_def)

lemma chained_authentic:
  "map_of keys (ev_key_version e) \<noteq> None \<Longrightarrow> authentic P keys (chained (computeMAC P keys) n p e)"
  by (auto simp: authentic_def chained_def Let_def computeMAC_def mac_message_def)

section \<open>The contract of a repository\<close>

text \<open>
  What the service relies on: a failed call changes nothing; appending an event whose identifier is
  known returns the recorded event; appending another extends the chain at its head by the event
  with the next number, the head's MAC and the MAC computed from them.
\<close>

locale audit_repository =
  fixes P :: platform
    and ops :: "'r audit_ops"
    and invar :: "'r \<Rightarrow> bool"
    and chain :: "'r \<Rightarrow> event list"
    and head :: "'r \<Rightarrow> checkpoint"
  assumes load: "\<lbrakk>invar r; op_load_chain ops r = Inr (es, cp)\<rbrakk> \<Longrightarrow> es = chain r \<and> cp = head r"
    and append_error: "\<lbrakk>invar r; op_append ops e f r = (r', Inl err)\<rbrakk> \<Longrightarrow> r' = r"
    and append_known: "\<lbrakk>invar r; op_append ops e f r = (r', Inr e'); x \<in> set (chain r);
          ev_id x = ev_id e; ev_id e \<noteq> []\<rbrakk> \<Longrightarrow> r' = r \<and> e' \<in> set (chain r) \<and> ev_id e' = ev_id e"
    and append_new: "\<lbrakk>invar r; op_append ops e f r = (r', Inr e'); r' \<noteq> r\<rbrakk> \<Longrightarrow>
          e' = chained f (int (length (chain r)) + 1) (cp_last_mac (head r)) e
          \<and> chain r' = chain r @ [e'] \<and> head r' = checkpoint_of e' \<and> invar r'"
    and append_fresh: "\<lbrakk>invar r; op_append ops e f r = (r', Inr e'); \<forall>x \<in> set (chain r). ev_id x \<noteq> ev_id e\<rbrakk>
          \<Longrightarrow> r' \<noteq> r"
    and dispatched_frame: "\<lbrakk>invar r; op_outbox ops = Some oo\<rbrakk> \<Longrightarrow>
          invar (fst (oo_mark_dispatched oo i n t r))
          \<and> chain (fst (oo_mark_dispatched oo i n t r)) = chain r
          \<and> head (fst (oo_mark_dispatched oo i n t r)) = head r"
    and failure_frame: "\<lbrakk>invar r; op_outbox ops = Some oo\<rbrakk> \<Longrightarrow>
          invar (fst (oo_mark_failure oo i err r))
          \<and> chain (fst (oo_mark_failure oo i err r)) = chain r
          \<and> head (fst (oo_mark_failure oo i err r)) = head r"
    and well_formed: "invar r \<Longrightarrow> linked_from 0 (genesisMAC P) (chain r) \<and> head_agrees P (chain r) (head r)"

context audit_repository
begin

lemma append_invar: "invar r \<Longrightarrow> invar (fst (op_append ops e f r))"
  by (metis append_error append_new eq_fst_iff old.sum.exhaust)

lemma append_chain:
  assumes "invar r" and "op_append ops e f r = (r', res)"
  shows "chain r' = chain r \<or>
    (\<exists>e'. res = Inr e' \<and> chain r' = chain r @ [e']
       \<and> e' = chained f (int (length (chain r)) + 1) (cp_last_mac (head r)) e)"
proof (cases "r' = r")
  case False
  with assms obtain e' where "res = Inr e'" using append_error by (cases res) auto
  with append_new [OF assms(1), of e f r' e'] assms(2) False show ?thesis by auto
qed simp

lemma append_authentic:
  assumes "invar r" and "\<forall>x \<in> set (chain r). authentic P keys x"
    and "map_of keys (ev_key_version e) \<noteq> None"
    and "op_append ops e (computeMAC P keys) r = (r', res)"
  shows "\<forall>x \<in> set (chain r'). authentic P keys x"
  using append_chain [OF assms(1,4)] assms(2,3) chained_authentic by auto

lemma append_prefix:
  assumes "invar r" and "op_append ops e f r = (r', res)"
  shows "prefix (chain r) (chain r')"
  using append_chain [OF assms] by auto

end

definition memory_invar :: "platform \<Rightarrow> memory_audit \<Rightarrow> bool" where
  "memory_invar P r \<longleftrightarrow>
     linked_from 0 (genesisMAC P) (ma_events r) \<and> head_agrees P (ma_events r) (ma_checkpoint r)"

lemma head_agrees_extend:
  "head_agrees P es cp \<Longrightarrow> linked_from 0 (genesisMAC P) es \<Longrightarrow>
   linked_from 0 (genesisMAC P) (es @ [chained f (int (length es) + 1) (cp_last_mac cp) e])
   \<and> head_agrees P (es @ [chained f (int (length es) + 1) (cp_last_mac cp) e])
       (checkpoint_of (chained f (int (length es) + 1) (cp_last_mac cp) e))"
  by (simp add: head_agrees_def checkpoint_of_def)

lemma memory_Append_invar [inv_intros]:
  assumes "memory_invar P r"
  shows "memory_invar P (fst (memory_Append e f r))"
proof -
  define e' where "e' = chained f (int (length (ma_events r)) + 1) (cp_last_mac (ma_checkpoint r)) e"
  have "fst (memory_Append e f r) = r \<or> fst (memory_Append e f r) =
      r\<lparr>ma_events := ma_events r @ [e'], ma_checkpoint := checkpoint_of e'\<rparr>"
    by (auto simp: memory_Append_def Let_def e'_def split: option.splits)
  moreover have "linked_from 0 (genesisMAC P) (ma_events r @ [e'])
      \<and> head_agrees P (ma_events r @ [e']) (checkpoint_of e')"
    unfolding e'_def using assms head_agrees_extend by (simp add: memory_invar_def)
  ultimately show ?thesis using assms by (auto simp: memory_invar_def)
qed

lemma memory_Append_new:
  assumes "memory_Append e f r = (r', Inr e')" and "r' \<noteq> r"
  shows "e' = chained f (int (length (ma_events r)) + 1) (cp_last_mac (ma_checkpoint r)) e
    \<and> ma_events r' = ma_events r @ [e'] \<and> ma_checkpoint r' = checkpoint_of e'"
  using assms by (auto simp: memory_Append_def Let_def split: option.splits)

lemma memory_Append_known:
  assumes "memory_Append e f r = (r', Inr e')" and "x \<in> set (ma_events r)" "ev_id x = ev_id e" "ev_id e \<noteq> []"
  shows "r' = r \<and> e' \<in> set (ma_events r) \<and> ev_id e' = ev_id e"
proof -
  obtain y where y: "find (\<lambda>z. ev_id z = ev_id e) (ma_events r) = Some y"
    using find_ex [OF assms(2)] assms(3) by metis
  with assms(1,4) have "r' = r \<and> e' = y" by (simp add: memory_Append_def)
  with find_SomeD [OF y] show ?thesis by simp
qed

interpretation memory_repository: audit_repository P "memory_ops P" "memory_invar P" ma_events ma_checkpoint
  for P
proof unfold_locales
  fix r es cp assume "op_load_chain (memory_ops P) r = Inr (es, cp)"
  then show "es = ma_events r \<and> cp = ma_checkpoint r"
    by (simp add: memory_ops_def memory_LoadChain_def)
next
  fix r r' e f err assume "op_append (memory_ops P) e f r = (r', Inl err)"
  then show "r' = r" by (auto simp: memory_ops_def memory_Append_def Let_def split: option.splits)
next
  fix r r' e f e' x
  assume "op_append (memory_ops P) e f r = (r', Inr e')" "x \<in> set (ma_events r)"
    "ev_id x = ev_id e" "ev_id e \<noteq> []"
  then show "r' = r \<and> e' \<in> set (ma_events r) \<and> ev_id e' = ev_id e"
    using memory_Append_known [of e f r r' e' x] by (simp add: memory_ops_def)
next
  fix r r' e f e'
  assume inv: "memory_invar P r" and app: "op_append (memory_ops P) e f r = (r', Inr e')" and "r' \<noteq> r"
  then have "memory_Append e f r = (r', Inr e')" by (simp add: memory_ops_def)
  then show "e' = chained f (int (length (ma_events r)) + 1) (cp_last_mac (ma_checkpoint r)) e
      \<and> ma_events r' = ma_events r @ [e'] \<and> ma_checkpoint r' = checkpoint_of e' \<and> memory_invar P r'"
    using memory_Append_new [of e f r r' e'] \<open>r' \<noteq> r\<close> memory_Append_invar [OF inv, of e f] by simp
next
  fix r r' e f e'
  assume "op_append (memory_ops P) e f r = (r', Inr e')" and new: "\<forall>x \<in> set (ma_events r). ev_id x \<noteq> ev_id e"
  moreover have "find (\<lambda>x. ev_id x = ev_id e) (ma_events r) = None"
    using new by (simp add: find_None_iff)
  ultimately have "ma_events r' = ma_events r @ [e']"
    by (cases "ev_id e = []") (auto simp: memory_ops_def memory_Append_def Let_def)
  then show "r' \<noteq> r" by auto
qed (simp_all add: memory_invar_def memory_ops_def)

text \<open>The PostgreSQL tables satisfy the same contract, and add a durable outbox.\<close>

definition postgres_head :: "platform \<Rightarrow> postgres_audit \<Rightarrow> checkpoint" where
  "postgres_head P r =
     (case pa_checkpoint r of
        None \<Rightarrow> \<lparr>cp_chain_id = chainID, cp_key_version = defaultKeyVersion,
           cp_last_sequence = 0, cp_last_mac = genesisMAC P, cp_updated_at = zero_time\<rparr>
      | Some cp \<Rightarrow> cp)"

lemma update_pending_ok [inv_intros]:
  assumes "outbox_ok ob" and "\<And>row. ob_intent (f row) = ob_intent row"
  shows "outbox_ok (update_pending eid f ob)"
  using assms by (auto simp: outbox_ok_def update_pending_def)

definition postgres_invar :: "platform \<Rightarrow> postgres_audit \<Rightarrow> bool" where
  "postgres_invar P r \<longleftrightarrow>
     linked_from 0 (genesisMAC P) (pa_events r) \<and> head_agrees P (pa_events r) (postgres_head P r)
     \<and> outbox_ok (pa_outbox r) \<and> distinct (map ev_id (pa_events r))"

lemma postgres_LoadChain_eq:
  assumes "postgres_invar P r" and "pa_fault r = None"
  shows "postgres_LoadChain P r = Inr (pa_events r, postgres_head P r)"
proof -
  have "sort_key ev_sequence (pa_events r) = pa_events r"
    using assms(1) linked_from_sorted sort_key_id_if_sorted postgres_invar_def by metis
  moreover have "cp\<lparr>cp_chain_id := chainID\<rparr> = cp" if "pa_checkpoint r = Some cp" for cp
    using assms(1) that by (simp add: postgres_invar_def head_agrees_def postgres_head_def)
  ultimately show ?thesis using assms(2)
    by (auto simp: postgres_LoadChain_def postgres_head_def split: option.splits)
qed

definition postgres_next :: "platform \<Rightarrow> event \<Rightarrow> (int64 \<Rightarrow> bytes \<Rightarrow> event \<Rightarrow> bytes) \<Rightarrow> postgres_audit \<Rightarrow> event" where
  "postgres_next P e f r = chained f (int (length (pa_events r)) + 1) (cp_last_mac (postgres_head P r)) e"

lemma postgres_Append_eq:
  assumes "postgres_invar P r" and "pa_fault r = None"
  shows "postgres_Append P e f r =
    (case find (\<lambda>x. ev_id x = ev_id e) (pa_events r) of
       Some existing \<Rightarrow> (r, Inr existing)
     | None \<Rightarrow> (r\<lparr>pa_events := pa_events r @ [postgres_next P e f r],
                 pa_checkpoint := Some (checkpoint_of (postgres_next P e f r))\<rparr>,
               Inr (postgres_next P e f r)))"
proof -
  have head: "(case pa_checkpoint r of None \<Rightarrow> (0, genesisMAC P)
      | Some cp \<Rightarrow> (cp_last_sequence cp, cp_last_mac cp))
    = (int (length (pa_events r)), cp_last_mac (postgres_head P r))"
    using assms(1) by (auto simp: postgres_invar_def head_agrees_def postgres_head_def split: option.splits)
  have seq: "\<forall>x \<in> set (pa_events r). ev_sequence x \<noteq> int (length (pa_events r)) + 1"
    using assms(1) linked_from_sequence by (fastforce simp: postgres_invar_def)
  show ?thesis
  proof (cases "find (\<lambda>x. ev_id x = ev_id e) (pa_events r)")
    case None
    then have "\<forall>x \<in> set (pa_events r). ev_id x \<noteq> ev_id e" by (auto simp: find_None_iff)
    with seq have "\<not> list_ex (\<lambda>x. ev_id x = ev_id e \<or> ev_sequence x = int (length (pa_events r)) + 1) (pa_events r)"
      by (auto simp: list_ex_iff)
    with None assms(2) head show ?thesis
      by (simp add: postgres_Append_def Let_def postgres_next_def)
  next
    case (Some y)
    then have "list_ex (\<lambda>x. ev_id x = ev_id e \<or> ev_sequence x = int (length (pa_events r)) + 1) (pa_events r)"
      using find_SomeD by (fastforce simp: list_ex_iff)
    with Some assms(2) head show ?thesis by (simp add: postgres_Append_def Let_def)
  qed
qed

lemma postgres_Append_fault: "pa_fault r = Some m \<Longrightarrow> postgres_Append P e f r = (r, Inl (RepositoryFailure m))"
  by (simp add: postgres_Append_def)

lemma postgres_Append_cases:
  assumes "postgres_invar P r" and "postgres_Append P e f r = (r', res)"
  obtains m where "r' = r" "res = Inl (RepositoryFailure m)"
  | y where "r' = r" "res = Inr y" "y \<in> set (pa_events r)" "ev_id y = ev_id e"
  | "pa_fault r = None" "\<forall>x \<in> set (pa_events r). ev_id x \<noteq> ev_id e"
    "r' = r\<lparr>pa_events := pa_events r @ [postgres_next P e f r],
       pa_checkpoint := Some (checkpoint_of (postgres_next P e f r))\<rparr>"
    "res = Inr (postgres_next P e f r)"
proof (cases "pa_fault r")
  case (Some m)
  from assms(2) postgres_Append_fault [OF this, of P e f] have "r' = r" "res = Inl (RepositoryFailure m)"
    by simp_all
  then show ?thesis by (rule that(1))
next
  case None
  show ?thesis
  proof (cases "find (\<lambda>x. ev_id x = ev_id e) (pa_events r)")
    case (Some y)
    with assms None have "r' = r" "res = Inr y" by (simp_all add: postgres_Append_eq)
    with find_SomeD [OF Some] that(2) show ?thesis by blast
  next
    case none: None
    then have "\<forall>x \<in> set (pa_events r). ev_id x \<noteq> ev_id e" by (auto simp: find_None_iff)
    with assms None none that(3) show ?thesis by (simp add: postgres_Append_eq)
  qed
qed

lemma postgres_Append_invar [inv_intros]:
  assumes "postgres_invar P r"
  shows "postgres_invar P (fst (postgres_Append P e f r))"
proof -
  obtain r' res where app: "postgres_Append P e f r = (r', res)" by fastforce
  show ?thesis
  proof (rule postgres_Append_cases [OF assms app])
    assume r': "r' = r\<lparr>pa_events := pa_events r @ [postgres_next P e f r],
       pa_checkpoint := Some (checkpoint_of (postgres_next P e f r))\<rparr>"
    have "linked_from 0 (genesisMAC P) (pa_events r @ [postgres_next P e f r])
        \<and> head_agrees P (pa_events r @ [postgres_next P e f r]) (checkpoint_of (postgres_next P e f r))"
      unfolding postgres_next_def using assms head_agrees_extend by (simp add: postgres_invar_def)
    moreover have "postgres_head P r' = checkpoint_of (postgres_next P e f r)"
      by (simp add: r' postgres_head_def)
    moreover assume "\<forall>x \<in> set (pa_events r). ev_id x \<noteq> ev_id e"
    then have "distinct (map ev_id (pa_events r @ [postgres_next P e f r]))"
      using assms by (auto simp: postgres_invar_def postgres_next_def)
    ultimately show ?thesis using assms r' app by (simp add: postgres_invar_def)
  qed (use assms app in auto)
qed

interpretation postgres_repository:
  audit_repository P "postgres_ops P" "postgres_invar P" pa_events "postgres_head P" for P
proof unfold_locales
  fix r es cp assume "postgres_invar P r" "op_load_chain (postgres_ops P) r = Inr (es, cp)"
  then show "es = pa_events r \<and> cp = postgres_head P r"
    by (cases "pa_fault r") (auto simp: postgres_ops_def postgres_LoadChain_eq, auto simp: postgres_LoadChain_def)
next
  fix r r' e f err assume "postgres_invar P r" "op_append (postgres_ops P) e f r = (r', Inl err)"
  then show "r' = r" by (auto simp: postgres_ops_def elim: postgres_Append_cases)
next
  fix r r' e f e' x
  assume "postgres_invar P r" "op_append (postgres_ops P) e f r = (r', Inr e')"
    and x: "x \<in> set (pa_events r)" "ev_id x = ev_id e"
  then have "postgres_Append P e f r = (r', Inr e')" by (simp add: postgres_ops_def)
  with \<open>postgres_invar P r\<close> show "r' = r \<and> e' \<in> set (pa_events r) \<and> ev_id e' = ev_id e"
    by (rule postgres_Append_cases) (use x in auto)
next
  fix r r' e f e'
  assume inv: "postgres_invar P r" and "op_append (postgres_ops P) e f r = (r', Inr e')" and ne: "r' \<noteq> r"
  then have app: "postgres_Append P e f r = (r', Inr e')" by (simp add: postgres_ops_def)
  have inv': "postgres_invar P r'" using postgres_Append_invar [OF inv, of e f] app by simp
  from inv app show "e' = chained f (int (length (pa_events r)) + 1) (cp_last_mac (postgres_head P r)) e
      \<and> pa_events r' = pa_events r @ [e'] \<and> postgres_head P r' = checkpoint_of e' \<and> postgres_invar P r'"
    by (rule postgres_Append_cases) (use ne inv' in \<open>auto simp: postgres_next_def postgres_head_def\<close>)
next
  fix r r' e f e'
  assume "postgres_invar P r" "op_append (postgres_ops P) e f r = (r', Inr e')"
    and new: "\<forall>x \<in> set (pa_events r). ev_id x \<noteq> ev_id e"
  then have "postgres_Append P e f r = (r', Inr e')" by (simp add: postgres_ops_def)
  with \<open>postgres_invar P r\<close> show "r' \<noteq> r"
    by (rule postgres_Append_cases) (use new in \<open>auto dest: arg_cong [where f = pa_events]\<close>)
next
  fix r oo i n t
  assume "postgres_invar P r" "op_outbox (postgres_ops P) = Some oo"
  then show "postgres_invar P (fst (oo_mark_dispatched oo i n t r))
      \<and> pa_events (fst (oo_mark_dispatched oo i n t r)) = pa_events r
      \<and> postgres_head P (fst (oo_mark_dispatched oo i n t r)) = postgres_head P r"
    by (auto simp: postgres_ops_def postgres_MarkOutboxDispatched_def
        postgres_invar_def postgres_head_def update_pending_ok)
next
  fix r oo i err
  assume "postgres_invar P r" "op_outbox (postgres_ops P) = Some oo"
  then show "postgres_invar P (fst (oo_mark_failure oo i err r))
      \<and> pa_events (fst (oo_mark_failure oo i err r)) = pa_events r
      \<and> postgres_head P (fst (oo_mark_failure oo i err r)) = postgres_head P r"
    by (auto simp: postgres_ops_def postgres_MarkOutboxFailure_def
        postgres_invar_def postgres_head_def update_pending_ok)
qed (simp_all add: postgres_invar_def)

end
