(* ===== verification/AuditService.thy ===== *)
theory AuditService
  imports AuditChain
begin

text \<open>
  The audit service (internal/audit/service.go) over an abstract repository and checkpoint anchor
  (anchor.go): appending and rotating keys, delivering and flushing mutation evidence, listing,
  alerts, and the verification of the whole chain against its checkpoint. The two Go interfaces are
  records of operations; the service's state carries the repository and anchor values they act on.
\<close>

section \<open>Checkpoint anchors\<close>

record anchor_record =
  ar_chain_id :: string
  ar_sequence :: int64
  ar_checkpoint :: string
  ar_previous_checkpoint :: string
  ar_key_version :: string
  ar_anchored_at :: time
  ar_signature :: string

record anchor_posture =
  ap_connected :: bool
  ap_production_ready :: bool
  ap_adapter :: string
  ap_detail :: string

text \<open>
  \<open>CheckpointAnchor\<close>; \<open>an_verify\<close> is present exactly when the adapter also implements
  \<open>anchorReceiptVerifier\<close>.
\<close>

record 'a anchor_ops =
  an_append :: "anchor_record \<Rightarrow> 'a \<Rightarrow> 'a \<times> (audit_error + unit)"
  an_latest :: "'a \<Rightarrow> audit_error + anchor_record"
  an_posture :: "'a \<Rightarrow> anchor_posture"
  an_verify :: "('a \<Rightarrow> anchor_record \<Rightarrow> bool) option"

text \<open>
  \<open>FileCheckpointAnchor\<close>: the lines of its file, \<open>None\<close> for a line that is not the JSON of a
  record, and the error the file system reports when it is not usable.
\<close>

record file_anchor =
  fa_lines :: "anchor_record option list"
  fa_fault :: "audit_error option"

definition file_Append :: "anchor_record \<Rightarrow> file_anchor \<Rightarrow> file_anchor \<times> (audit_error + unit)" where
  "file_Append rec a =
     (case fa_fault a of Some e \<Rightarrow> (a, Inl e)
      | None \<Rightarrow> (a\<lparr>fa_lines := fa_lines a @ [Some rec]\<rparr>, Inr ()))"

fun latest_line :: "anchor_record option \<Rightarrow> anchor_record option list \<Rightarrow> audit_error + anchor_record" where
  "latest_line None [] = Inl ErrAnchorUnavailable"
| "latest_line (Some latest) [] = Inr latest"
| "latest_line found (None # ls) = Inl ErrAnchorUnavailable"
| "latest_line found (Some rec # ls) = latest_line (Some rec) ls"

definition file_Latest :: "file_anchor \<Rightarrow> audit_error + anchor_record" where
  "file_Latest a = (case fa_fault a of Some e \<Rightarrow> Inl e | None \<Rightarrow> latest_line None (fa_lines a))"

definition file_Posture :: "file_anchor \<Rightarrow> anchor_posture" where
  "file_Posture a = \<lparr>ap_connected = True, ap_production_ready = False,
     ap_adapter = ''append-only-local-file'',
     ap_detail = ''Signed checkpoints are stored outside PostgreSQL, but remain on the application host. Production requires an independent append-only service.''\<rparr>"

definition file_anchor_ops :: "file_anchor anchor_ops" where
  "file_anchor_ops = \<lparr>an_append = file_Append, an_latest = file_Latest, an_posture = file_Posture,
     an_verify = None\<rparr>"

definition signAnchor :: "platform \<Rightarrow> bytes \<Rightarrow> anchor_record \<Rightarrow> string" where
  "signAnchor P key rec =
     (let m = writeField [] ''securestore.audit.anchor.v1'';
          m = writeField m (ar_chain_id rec);
          m = m @ be64 (ar_sequence rec);
          m = writeField m (ar_checkpoint rec);
          m = writeField m (ar_key_version rec);
          m = writeField m (p_rfc3339 P (ar_anchored_at rec))
      in b64_encode (p_hmac_sha256 P key m))"

definition validAnchorSignature :: "platform \<Rightarrow> bytes \<Rightarrow> anchor_record \<Rightarrow> bool" where
  "validAnchorSignature P key rec =
     (case b64_decode (ar_signature rec) of None \<Rightarrow> False
      | Some provided \<Rightarrow>
          (case b64_decode (signAnchor P key (rec\<lparr>ar_signature := []\<rparr>)) of None \<Rightarrow> False
           | Some expected \<Rightarrow> provided = expected))"

section \<open>The service\<close>

record anchor_verification =
  av_connected :: bool
  av_production_ready :: bool
  av_adapter :: string
  av_detail :: string
  av_valid :: bool
  av_anchored_through :: int64
  av_anchored_at :: time
  av_failure_category :: string

record verification =
  vf_valid :: bool
  vf_event_count :: int
  vf_verified_through :: int64
  vf_checkpoint_at :: time
  vf_checkpoint_trust :: string
  vf_failure_category :: string
  vf_first_invalid_sequence :: int64
  vf_anchor :: anchor_verification

record audit_input =
  ip_actor_type :: string
  ip_actor_id :: string
  ip_action :: string
  ip_resource_type :: string
  ip_resource_id :: string
  ip_outcome :: string
  ip_reason_code :: string
  ip_correlation_id :: string
  ip_from_state :: string
  ip_to_state :: string
  ip_network_address :: string

record audit_alert =
  al_id :: string
  al_type :: string
  al_severity :: string
  al_title :: string
  al_detail :: string
  al_count :: int
  al_detected_at :: time

record audit_page =
  pg_events :: "event list"
  pg_total :: int
  pg_limit :: int
  pg_offset :: int
  pg_verification :: verification
  pg_summary :: audit_summary
  pg_alerts :: "audit_alert list"

record ('r, 'a) audit_service =
  sv_ops :: "'r audit_ops"
  sv_repo :: 'r
  sv_keys :: keyring
  sv_current_key_version :: string
  sv_anchor :: "('a anchor_ops \<times> 'a) option"
  sv_anchor_key :: bytes

definition safe :: "string \<Rightarrow> string" where
  "safe v = (let v = trim_space v in if length v > 160 then take 160 v else v)"

fun clone_keys :: "keyring \<Rightarrow> keyring \<Rightarrow> audit_error + keyring" where
  "clone_keys cloned [] = Inr cloned"
| "clone_keys cloned ((version, key) # ks) =
     (if safe version = [] \<or> length key < 32 then Inl KeyVersionUnsafe
      else clone_keys (mput (safe version) key cloned) ks)"

definition NewServiceWithKeyring ::
    "'r audit_ops \<Rightarrow> 'r \<Rightarrow> string \<Rightarrow> keyring \<Rightarrow> audit_error + ('r, 'a) audit_service" where
  "NewServiceWithKeyring ops repository currentVersion keys =
     (let currentVersion = safe currentVersion in
      if currentVersion = [] \<or> length (mget [] keys currentVersion) < 32 then Inl RepositoryOrKeyRequired
      else case clone_keys [] keys of Inl e \<Rightarrow> Inl e
      | Inr cloned \<Rightarrow>
          (case op_load_chain ops repository of Inl e \<Rightarrow> Inl e
           | Inr (_, checkpoint) \<Rightarrow>
               if cp_last_sequence checkpoint > 0 \<and> length (mget [] cloned (cp_key_version checkpoint)) < 32
               then Inl HistoricalKeyUnavailable
               else Inr \<lparr>sv_ops = ops, sv_repo = repository, sv_keys = cloned,
                      sv_current_key_version =
                        (if cp_last_sequence checkpoint > 0 then cp_key_version checkpoint else currentVersion),
                      sv_anchor = None, sv_anchor_key = []\<rparr>))"

definition ConfigureCheckpointAnchor ::
    "('a anchor_ops \<times> 'a) option \<Rightarrow> bytes \<Rightarrow> ('r, 'a) audit_service \<Rightarrow> audit_error + ('r, 'a) audit_service" where
  "ConfigureCheckpointAnchor anchor key sv =
     (case anchor of None \<Rightarrow> Inl AnchorRequired
      | Some (aops, a) \<Rightarrow>
          if an_verify aops = None \<and> length key < 32 then Inl AnchorKeyRequired
          else Inr (sv\<lparr>sv_anchor := Some (aops, a), sv_anchor_key := key\<rparr>))"

definition networkFingerprint :: "platform \<Rightarrow> ('r, 'a) audit_service \<Rightarrow> string \<Rightarrow> string" where
  "networkFingerprint P sv address =
     (let address = trim_space address in
      if address = [] then []
      else let m = writeField (writeField [] ''securestore.audit.network.v1'') address
           in ''net_'' @ b64_encode (take 12
                (p_hmac_sha256 P (mget [] (sv_keys sv) (sv_current_key_version sv)) m)))"

definition anchor_record_of :: "event \<Rightarrow> time \<Rightarrow> anchor_record" where
  "anchor_record_of committed now = \<lparr>ar_chain_id = chainID, ar_sequence = ev_sequence committed,
     ar_checkpoint = b64_encode (ev_mac committed),
     ar_previous_checkpoint = b64_encode (ev_previous_mac committed),
     ar_key_version = ev_key_version committed, ar_anchored_at = truncate_us now, ar_signature = []\<rparr>"

text \<open>
  \<open>appendEvent\<close>: the repository first; a failure to anchor afterwards leaves the event committed and
  is reported by verification only.
\<close>

definition appendEvent ::
    "platform \<Rightarrow> time \<Rightarrow> event \<Rightarrow> ('r, 'a) audit_service \<Rightarrow> ('r, 'a) audit_service \<times> (audit_error + event)" where
  "appendEvent P now e sv =
     (case op_append (sv_ops sv) e (computeMAC P (sv_keys sv)) (sv_repo sv) of
        (r', Inl err) \<Rightarrow> (sv\<lparr>sv_repo := r'\<rparr>, Inl err)
      | (r', Inr committed) \<Rightarrow>
          (case sv_anchor sv of
             None \<Rightarrow> (sv\<lparr>sv_repo := r'\<rparr>, Inr committed)
           | Some (aops, a) \<Rightarrow>
               (let rec = anchor_record_of committed now;
                    rec = (if an_verify aops = None
                           then rec\<lparr>ar_signature := signAnchor P (sv_anchor_key sv) rec\<rparr> else rec)
                in (sv\<lparr>sv_repo := r', sv_anchor := Some (aops, fst (an_append aops rec a))\<rparr>, Inr committed))))"

definition event_of_input :: "string \<Rightarrow> time \<Rightarrow> string \<Rightarrow> string \<Rightarrow> audit_input \<Rightarrow> event" where
  "event_of_input eid now keyVersion network i = \<lparr>ev_sequence = 0, ev_id = eid,
     ev_occurred_at = truncate_us now, ev_actor_type = safe (ip_actor_type i),
     ev_actor_id = safe (ip_actor_id i), ev_action = safe (ip_action i),
     ev_resource_type = safe (ip_resource_type i), ev_resource_id = safe (ip_resource_id i),
     ev_outcome = safe (ip_outcome i), ev_reason_code = safe (ip_reason_code i),
     ev_correlation_id = safe (ip_correlation_id i), ev_from_state = safe (ip_from_state i),
     ev_to_state = safe (ip_to_state i), ev_key_version = keyVersion, ev_network_source = network,
     ev_previous_mac = [], ev_mac = []\<rparr>"

text \<open>\<open>opaqueID\<close>: 18 random bytes (the argument, or the error of the random source), base64-encoded.\<close>

definition audit_opaqueID :: "string + bytes \<Rightarrow> audit_error + string" where
  "audit_opaqueID random =
     (case random of Inl m \<Rightarrow> Inl (RandomFailure m) | Inr raw \<Rightarrow> Inr (''aud_'' @ b64_encode raw))"

text \<open>\<open>clk i\<close> is the \<open>i\<close>-th reading of the service's clock during the call.\<close>

definition Append ::
    "platform \<Rightarrow> string + bytes \<Rightarrow> (nat \<Rightarrow> time) \<Rightarrow> audit_input \<Rightarrow> ('r, 'a) audit_service
       \<Rightarrow> ('r, 'a) audit_service \<times> (audit_error + event)" where
  "Append P random clk input sv =
     (case audit_opaqueID random of Inl e \<Rightarrow> (sv, Inl e)
      | Inr eid \<Rightarrow> appendEvent P (clk 1)
          (event_of_input eid (clk 0) (sv_current_key_version sv)
             (networkFingerprint P sv (ip_network_address input)) input) sv)"

definition rotation_input :: "string \<Rightarrow> string \<Rightarrow> audit_input" where
  "rotation_input previous version = \<lparr>ip_actor_type = ''system'', ip_actor_id = ''audit-key-manager'',
     ip_action = ''AUDIT_KEY_ROTATED'', ip_resource_type = ''audit_key'', ip_resource_id = version,
     ip_outcome = ''success'', ip_reason_code = ''configured_key_rotation'', ip_correlation_id = [],
     ip_from_state = previous, ip_to_state = version, ip_network_address = []\<rparr>"

text \<open>\<open>RotateTo\<close>; a result of \<open>None\<close> is the zero event returned when the version is current.\<close>

definition RotateTo ::
    "platform \<Rightarrow> string + bytes \<Rightarrow> (nat \<Rightarrow> time) \<Rightarrow> string \<Rightarrow> ('r, 'a) audit_service
       \<Rightarrow> ('r, 'a) audit_service \<times> (audit_error + event option)" where
  "RotateTo P random clk version sv =
     (let version = safe version in
      if version = [] \<or> length (mget [] (sv_keys sv) version) < 32 then (sv, Inl RequestedKeyUnavailable)
      else if version = sv_current_key_version sv then (sv, Inr None)
      else
        let previous = sv_current_key_version sv in
        case Append P random clk (rotation_input previous version)
               (sv\<lparr>sv_current_key_version := version\<rparr>) of
          (sv', Inl e) \<Rightarrow> (sv'\<lparr>sv_current_key_version := previous\<rparr>, Inl e)
        | (sv', Inr e) \<Rightarrow> (sv', Inr (Some e)))"

definition NewMutationIntent :: "string + bytes \<Rightarrow> time \<Rightarrow> audit_input \<Rightarrow> audit_error + intent" where
  "NewMutationIntent random now i =
     (case audit_opaqueID random of Inl e \<Rightarrow> Inl e
      | Inr eid \<Rightarrow> Inr \<lparr>in_event_id = eid, in_actor_type = safe (ip_actor_type i),
          in_actor_id = safe (ip_actor_id i), in_action = safe (ip_action i),
          in_resource_type = safe (ip_resource_type i), in_resource_id = safe (ip_resource_id i),
          in_outcome = safe (ip_outcome i), in_reason_code = safe (ip_reason_code i),
          in_correlation_id = safe (ip_correlation_id i), in_from_state = safe (ip_from_state i),
          in_to_state = safe (ip_to_state i), in_occurred_at = truncate_us now\<rparr>)"

definition event_of_intent :: "(string \<Rightarrow> string) \<Rightarrow> (time \<Rightarrow> time) \<Rightarrow> string \<Rightarrow> intent \<Rightarrow> event" where
  "event_of_intent s t keyVersion i = \<lparr>ev_sequence = 0, ev_id = s (in_event_id i),
     ev_occurred_at = t (in_occurred_at i), ev_actor_type = s (in_actor_type i),
     ev_actor_id = s (in_actor_id i), ev_action = s (in_action i),
     ev_resource_type = s (in_resource_type i), ev_resource_id = s (in_resource_id i),
     ev_outcome = s (in_outcome i), ev_reason_code = s (in_reason_code i),
     ev_correlation_id = s (in_correlation_id i), ev_from_state = s (in_from_state i),
     ev_to_state = s (in_to_state i), ev_key_version = keyVersion, ev_network_source = [],
     ev_previous_mac = [], ev_mac = []\<rparr>"

text \<open>
  \<open>FlushOutbox\<close>: the loop over the pending intents stops at the first failure; the row of a failed
  append is marked and stays pending. The \<open>i\<close>-th delivery reads the clock at \<open>2 i\<close> (for the anchor)
  and \<open>2 i + 1\<close> (for the acknowledgement).
\<close>

fun flush_loop ::
    "platform \<Rightarrow> (nat \<Rightarrow> time) \<Rightarrow> 'r outbox_ops \<Rightarrow> nat \<Rightarrow> intent list \<Rightarrow> ('r, 'a) audit_service
       \<Rightarrow> ('r, 'a) audit_service \<times> int \<times> audit_error option" where
  "flush_loop P clk oo delivered [] sv = (sv, int delivered, None)"
| "flush_loop P clk oo delivered (i # is) sv =
     (let e = event_of_intent safe truncate_us (sv_current_key_version sv) i in
      case appendEvent P (clk (2 * delivered)) e sv of
        (sv1, Inl err) \<Rightarrow>
          (sv1\<lparr>sv_repo := fst (oo_mark_failure oo (in_event_id i) err (sv_repo sv1))\<rparr>, int delivered, Some err)
      | (sv1, Inr committed) \<Rightarrow>
          (case oo_mark_dispatched oo (in_event_id i) (ev_sequence committed)
                  (truncate_us (clk (2 * delivered + 1))) (sv_repo sv1) of
             (r2, Inl err) \<Rightarrow> (sv1\<lparr>sv_repo := r2\<rparr>, int delivered, Some err)
           | (r2, Inr _) \<Rightarrow> flush_loop P clk oo (Suc delivered) is (sv1\<lparr>sv_repo := r2\<rparr>)))"

definition FlushOutbox ::
    "platform \<Rightarrow> (nat \<Rightarrow> time) \<Rightarrow> int \<Rightarrow> ('r, 'a) audit_service
       \<Rightarrow> ('r, 'a) audit_service \<times> int \<times> audit_error option" where
  "FlushOutbox P clk limit sv =
     (case op_outbox (sv_ops sv) of None \<Rightarrow> (sv, 0, None)
      | Some oo \<Rightarrow>
          (let limit = (if limit < 1 \<or> limit > 500 then 100 else limit) in
           case oo_pending oo limit (sv_repo sv) of Inl e \<Rightarrow> (sv, 0, Some e)
           | Inr intents \<Rightarrow> flush_loop P clk oo 0 intents sv))"

definition DeliverMutationIntent ::
    "platform \<Rightarrow> (nat \<Rightarrow> time) \<Rightarrow> intent \<Rightarrow> bool \<Rightarrow> ('r, 'a) audit_service
       \<Rightarrow> ('r, 'a) audit_service \<times> audit_error option" where
  "DeliverMutationIntent P clk i durable sv =
     (if durable then (fst (FlushOutbox P clk 100 sv), None)
      else case appendEvent P (clk 0) (event_of_intent id id (sv_current_key_version sv) i) sv of
             (sv', Inl e) \<Rightarrow> (sv', Some e)
           | (sv', Inr _) \<Rightarrow> (sv', None))"

definition PendingOutboxCount :: "('r, 'a) audit_service \<Rightarrow> audit_error + int" where
  "PendingOutboxCount sv =
     (case op_outbox (sv_ops sv) of None \<Rightarrow> Inr 0 | Some oo \<Rightarrow> oo_pending_count oo (sv_repo sv))"

section \<open>Verification\<close>

definition no_anchor_verification :: anchor_verification where
  "no_anchor_verification = \<lparr>av_connected = False, av_production_ready = False, av_adapter = [],
     av_detail = ''No independent checkpoint anchor is configured.'', av_valid = False,
     av_anchored_through = 0, av_anchored_at = zero_time, av_failure_category = ''not_configured''\<rparr>"

definition anchorVerification ::
    "platform \<Rightarrow> ('r, 'a) audit_service \<Rightarrow> checkpoint \<Rightarrow> anchor_verification" where
  "anchorVerification P sv cp =
     (case sv_anchor sv of None \<Rightarrow> no_anchor_verification
      | Some (aops, a) \<Rightarrow>
          (let posture = an_posture aops a;
               result = \<lparr>av_connected = ap_connected posture,
                 av_production_ready = ap_production_ready posture, av_adapter = ap_adapter posture,
                 av_detail = ap_detail posture, av_valid = False, av_anchored_through = 0,
                 av_anchored_at = zero_time, av_failure_category = []\<rparr>
           in case an_latest aops a of
                Inl _ \<Rightarrow> result\<lparr>av_failure_category := ''anchor_unavailable''\<rparr>
              | Inr rec \<Rightarrow>
                  (let result = result\<lparr>av_anchored_through := ar_sequence rec,
                         av_anchored_at := ar_anchored_at rec\<rparr>;
                       validReceipt = (case an_verify aops of
                           None \<Rightarrow> validAnchorSignature P (sv_anchor_key sv) rec
                         | Some verifier \<Rightarrow> verifier a rec)
                   in if \<not> validReceipt
                      then result\<lparr>av_failure_category := ''anchor_signature_invalid''\<rparr>
                      else if b64_decode (ar_checkpoint rec) = None
                           \<or> ar_chain_id rec \<noteq> cp_chain_id cp \<or> ar_key_version rec \<noteq> cp_key_version cp
                           \<or> ar_sequence rec \<noteq> cp_last_sequence cp
                           \<or> b64_decode (ar_checkpoint rec) \<noteq> Some (cp_last_mac cp)
                      then result\<lparr>av_failure_category := ''anchor_checkpoint_mismatch''\<rparr>
                      else result\<lparr>av_valid := True\<rparr>)))"

definition invalid_at :: "verification \<Rightarrow> int64 \<Rightarrow> string \<Rightarrow> verification" where
  "invalid_at result sequence category =
     result\<lparr>vf_valid := False, vf_first_invalid_sequence := sequence, vf_failure_category := category\<rparr>"

text \<open>
  The loop of \<open>Verify\<close>: the result so far, and the MAC of the last verified event, or \<open>None\<close> when an
  event was rejected.
\<close>

fun verify_events ::
    "platform \<Rightarrow> keyring \<Rightarrow> int64 \<Rightarrow> bytes \<Rightarrow> verification \<Rightarrow> event list \<Rightarrow> verification \<times> bytes option" where
  "verify_events P keys index previous result [] = (result, Some previous)"
| "verify_events P keys index previous result (e # es) =
     (let expectedSequence = index + 1 in
      if ev_sequence e \<noteq> expectedSequence
      then (invalid_at result expectedSequence ''sequence_discontinuity'', None)
      else if ev_previous_mac e \<noteq> previous
      then (invalid_at result (ev_sequence e) ''previous_mac_mismatch'', None)
      else if map_of keys (ev_key_version e) = None
      then (invalid_at result (ev_sequence e) ''historical_key_unavailable'', None)
      else if ev_mac e \<noteq> computeMAC P keys (ev_sequence e) previous e
      then (invalid_at result (ev_sequence e) ''event_mac_mismatch'', None)
      else verify_events P keys expectedSequence (ev_mac e)
             (result\<lparr>vf_verified_through := ev_sequence e\<rparr>) es)"

definition initial_verification :: "anchor_verification \<Rightarrow> event list \<Rightarrow> checkpoint \<Rightarrow> verification" where
  "initial_verification anchor events cp = \<lparr>vf_valid = True, vf_event_count = int (length events),
     vf_verified_through = 0, vf_checkpoint_at = cp_updated_at cp,
     vf_checkpoint_trust = (if av_connected anchor
        then ''database checkpoint with separately signed anchor evidence''
        else ''database-backed checkpoint only''),
     vf_failure_category = [], vf_first_invalid_sequence = 0, vf_anchor = anchor\<rparr>"

definition verify_chain ::
    "platform \<Rightarrow> keyring \<Rightarrow> anchor_verification \<Rightarrow> event list \<Rightarrow> checkpoint \<Rightarrow> verification" where
  "verify_chain P keys anchor events cp =
     (case verify_events P keys 0 (genesisMAC P) (initial_verification anchor events cp) events of
        (result, None) \<Rightarrow> result
      | (result, Some previous) \<Rightarrow>
          if cp_last_sequence cp \<noteq> int (length events) \<or> cp_last_mac cp \<noteq> previous
          then invalid_at result (cp_last_sequence cp) ''checkpoint_mismatch''
          else result)"

definition Verify :: "platform \<Rightarrow> ('r, 'a) audit_service \<Rightarrow> audit_error + verification" where
  "Verify P sv =
     (case op_load_chain (sv_ops sv) (sv_repo sv) of Inl e \<Rightarrow> Inl e
      | Inr (events, cp) \<Rightarrow>
          Inr (verify_chain P (sv_keys sv) (anchorVerification P sv cp) events cp))"

section \<open>Listing, export and alerts\<close>

definition empty_query :: query where
  "empty_query = \<lparr>q_search = [], q_actor_id = [], q_action = [], q_resource_type = [], q_outcome = [],
     q_network_address = [], q_from = zero_time, q_to = zero_time, q_limit = 0, q_offset = 0\<rparr>"

definition alert :: "string \<Rightarrow> string \<Rightarrow> string \<Rightarrow> string \<Rightarrow> string \<Rightarrow> int \<Rightarrow> time \<Rightarrow> audit_alert" where
  "alert i t sev title detail n now = \<lparr>al_id = i, al_type = t, al_severity = sev, al_title = title,
     al_detail = detail, al_count = n, al_detected_at = now\<rparr>"

definition denial_alert ::
    "('r, 'a) audit_service \<Rightarrow> string \<Rightarrow> time \<Rightarrow> int \<Rightarrow> (int \<Rightarrow> audit_alert) \<Rightarrow> audit_error + audit_alert list" where
  "denial_alert sv action window threshold mk =
     (case op_list (sv_ops sv) (empty_query\<lparr>q_action := action, q_outcome := ''denied'',
              q_from := window, q_limit := 1\<rparr>) (sv_repo sv) of
        Inl e \<Rightarrow> Inl e
      | Inr (_, count) \<Rightarrow> Inr (if count \<ge> threshold then [mk count] else []))"

definition alerts ::
    "time \<Rightarrow> verification \<Rightarrow> ('r, 'a) audit_service \<Rightarrow> audit_error + audit_alert list" where
  "alerts now v sv =
     (let window = now - 15 * minute in
      case denial_alert sv ''AUTHENTICATION'' window 5
             (\<lambda>n. alert ''repeated-authentication-denials'' ''authentication'' ''high''
                ''Repeated sign-in denials''
                ''Five or more denied authentication attempts occurred within 15 minutes.'' n now) of
        Inl e \<Rightarrow> Inl e
      | Inr a1 \<Rightarrow>
      (case denial_alert sv ''FILE_DOWNLOAD'' window 3
             (\<lambda>n. alert ''repeated-download-denials'' ''file_access'' ''high''
                ''Repeated download denials''
                ''Three or more denied file-download attempts occurred within 15 minutes.'' n now) of
        Inl e \<Rightarrow> Inl e
      | Inr a2 \<Rightarrow>
      (let a3 = (if \<not> vf_valid v then [alert ''audit-integrity-failure'' ''audit_integrity'' ''critical''
                   ''Audit integrity verification failed''
                   ''The ordered audit chain no longer agrees with its checkpoint.'' 1 now] else []);
           a4 = (if av_connected (vf_anchor v) \<and> \<not> av_valid (vf_anchor v)
                 then [alert ''audit-anchor-failure'' ''audit_anchor'' ''critical''
                   ''Audit checkpoint anchor requires attention''
                   ''The signed checkpoint anchor is unavailable, invalid, or does not match the database checkpoint.'' 1 now]
                 else [])
       in case PendingOutboxCount sv of
            Inl e \<Rightarrow> Inl e
          | Inr pending \<Rightarrow>
              Inr (a1 @ a2 @ a3 @ a4 @
                (if pending > 0 then [alert ''audit-outbox-backlog'' ''audit_delivery'' ''high''
                   ''Committed audit evidence is awaiting delivery''
                   ''One or more protected mutations are durable but have not yet reached the signed audit chain.'' pending now]
                 else [])))))"

definition audit_List ::
    "platform \<Rightarrow> (nat \<Rightarrow> time) \<Rightarrow> query \<Rightarrow> ('r, 'a) audit_service \<Rightarrow> audit_error + audit_page" where
  "audit_List P clk q sv =
     (let q = q\<lparr>q_search := trim_space (q_search q), q_actor_id := safe (q_actor_id q),
            q_action := safe (q_action q), q_resource_type := safe (q_resource_type q),
            q_outcome := safe (q_outcome q)\<rparr>
      in if length (q_search q) > 120 then Inl InvalidAuditSearch
      else let q = q\<lparr>q_limit := (if q_limit q < 1 \<or> q_limit q > 100 then 50 else q_limit q),
                 q_offset := (if q_offset q < 0 then 0 else q_offset q)\<rparr>
      in if q_from q \<noteq> zero_time \<and> q_to q \<noteq> zero_time \<and> q_to q < q_from q then Inl InvalidAuditDateRange
      else let q = q\<lparr>q_network_address := networkFingerprint P sv (q_network_address q)\<rparr>
      in case op_list (sv_ops sv) q (sv_repo sv) of Inl e \<Rightarrow> Inl e
      | Inr (events, n) \<Rightarrow>
      (case op_summary (sv_ops sv) q (clk 0) (sv_repo sv) of Inl e \<Rightarrow> Inl e
      | Inr summary \<Rightarrow>
      (case Verify P sv of Inl e \<Rightarrow> Inl e
      | Inr v \<Rightarrow>
      (case alerts (clk 1) v sv of Inl e \<Rightarrow> Inl e
      | Inr as \<Rightarrow> Inr \<lparr>pg_events = events, pg_total = n, pg_limit = q_limit q, pg_offset = q_offset q,
           pg_verification = v, pg_summary = summary, pg_alerts = as\<rparr>))))"

definition Export ::
    "platform \<Rightarrow> query \<Rightarrow> int \<Rightarrow> ('r, 'a) audit_service \<Rightarrow> audit_error + (event list \<times> verification)" where
  "Export P q maximum sv =
     (let q = q\<lparr>q_search := trim_space (q_search q)\<rparr>
      in if length (q_search q) > 120
           \<or> (q_from q \<noteq> zero_time \<and> q_to q \<noteq> zero_time \<and> q_to q < q_from q)
      then Inl InvalidAuditQuery
      else let maximum = (if maximum < 1 \<or> maximum > 10000 then 5000 else maximum);
               q = q\<lparr>q_limit := maximum, q_offset := 0, q_actor_id := safe (q_actor_id q),
                 q_action := safe (q_action q), q_resource_type := safe (q_resource_type q),
                 q_outcome := safe (q_outcome q),
                 q_network_address := networkFingerprint P sv (q_network_address q)\<rparr>
      in case op_list (sv_ops sv) q (sv_repo sv) of Inl e \<Rightarrow> Inl e
      | Inr (events, _) \<Rightarrow>
          (case Verify P sv of Inl e \<Rightarrow> Inl e | Inr v \<Rightarrow> Inr (events, v)))"

section \<open>What the operations keep\<close>

lemma appendEvent_repo:
  "sv_repo (fst (appendEvent P now e sv)) =
     fst (op_append (sv_ops sv) e (computeMAC P (sv_keys sv)) (sv_repo sv))"
  by (auto simp: appendEvent_def Let_def split: prod.splits sum.splits option.splits)

lemma appendEvent_result:
  "snd (appendEvent P now e sv) = snd (op_append (sv_ops sv) e (computeMAC P (sv_keys sv)) (sv_repo sv))"
  by (auto simp: appendEvent_def Let_def split: prod.splits sum.splits option.splits)

lemma appendEvent_frame [frame_simps, simp]:
  "sv_ops (fst (appendEvent P now e sv)) = sv_ops sv"
  "sv_keys (fst (appendEvent P now e sv)) = sv_keys sv"
  "sv_current_key_version (fst (appendEvent P now e sv)) = sv_current_key_version sv"
  by (auto simp: appendEvent_def Let_def split: prod.splits sum.splits option.splits)

lemma Append_frame [frame_simps, simp]:
  "sv_ops (fst (Append P random clk input sv)) = sv_ops sv"
  "sv_keys (fst (Append P random clk input sv)) = sv_keys sv"
  "sv_current_key_version (fst (Append P random clk input sv)) = sv_current_key_version sv"
  by (auto simp: Append_def split: sum.splits)

lemma event_of_input_key [simp]: "ev_key_version (event_of_input eid now v n i) = v"
  by (simp add: event_of_input_def)

lemma event_of_intent_fields [simp]:
  "ev_key_version (event_of_intent s t v i) = v" "ev_id (event_of_intent s t v i) = s (in_event_id i)"
  by (simp_all add: event_of_intent_def)

lemma safe_length: "length (safe v) \<le> 160"
  by (auto simp: safe_def Let_def)

text \<open>The walk succeeds exactly on linked, authentic chains.\<close>

lemma verify_events_ok:
  assumes "linked_from n prev es" and "\<forall>e \<in> set es. authentic P keys e"
  shows "verify_events P keys n prev res es =
    (if es = [] then res else res\<lparr>vf_verified_through := n + int (length es)\<rparr>, Some (end_mac prev es))"
  using assms
proof (induction es arbitrary: n prev res)
  case (Cons e es)
  have "verify_events P keys n prev res (e # es) =
      verify_events P keys (n + 1) (ev_mac e) (res\<lparr>vf_verified_through := n + 1\<rparr>) es"
    using Cons.prems by (auto simp: Let_def authentic_def)
  with Cons show ?case by (cases "es = []") simp_all
qed simp

lemma verify_events_sound:
  assumes "verify_events P keys n prev res es = (res', Some m)"
  shows "linked_from n prev es \<and> (\<forall>e \<in> set es. authentic P keys e) \<and> m = end_mac prev es"
  using assms
proof (induction es arbitrary: n prev res)
  case (Cons e es)
  then show ?case by (auto simp: Let_def authentic_def split: if_splits)
qed simp

lemma verify_events_invalid:
  "verify_events P keys n prev res es = (res', None) \<Longrightarrow> \<not> vf_valid res'"
proof (induction es arbitrary: n prev res)
  case (Cons e es)
  then show ?case by (auto simp: Let_def invalid_at_def split: if_splits)
qed simp

definition chain_ok :: "platform \<Rightarrow> keyring \<Rightarrow> event list \<Rightarrow> checkpoint \<Rightarrow> bool" where
  "chain_ok P keys es cp \<longleftrightarrow> linked_from 0 (genesisMAC P) es \<and> (\<forall>e \<in> set es. authentic P keys e)
     \<and> cp_last_sequence cp = int (length es) \<and> cp_last_mac cp = end_mac (genesisMAC P) es"

lemma verify_chain_ok:
  assumes "chain_ok P keys es cp"
  shows "verify_chain P keys anchor es cp = (initial_verification anchor es cp)
    \<lparr>vf_verified_through := int (length es)\<rparr>"
  using assms by (simp add: verify_chain_def chain_ok_def verify_events_ok initial_verification_def)

lemma verify_chain_valid_iff: "vf_valid (verify_chain P keys anchor es cp) \<longleftrightarrow> chain_ok P keys es cp"
proof
  assume "chain_ok P keys es cp"
  then show "vf_valid (verify_chain P keys anchor es cp)"
    by (simp add: verify_chain_ok initial_verification_def)
next
  assume valid: "vf_valid (verify_chain P keys anchor es cp)"
  obtain res m where walk:
    "verify_events P keys 0 (genesisMAC P) (initial_verification anchor es cp) es = (res, m)"
    by fastforce
  show "chain_ok P keys es cp"
  proof (cases m)
    case None
    with walk valid verify_events_invalid [of P keys 0 "genesisMAC P"] show ?thesis
      by (simp add: verify_chain_def)
  next
    case (Some p)
    with valid walk have "cp_last_sequence cp = int (length es) \<and> cp_last_mac cp = p"
      by (simp add: verify_chain_def invalid_at_def split: if_splits)
    with verify_events_sound [of P keys 0 "genesisMAC P"] walk Some show ?thesis
      by (simp add: chain_ok_def)
  qed
qed

section \<open>Histories of the service\<close>

text \<open>
  Everything that can happen to a running service: its operations, with any arguments, random bytes
  and clock readings, and changes of the repository's environment (a parameter of the relation).
\<close>

inductive audit_step ::
    "platform \<Rightarrow> ('r \<Rightarrow> 'r \<Rightarrow> bool) \<Rightarrow> ('r, 'a) audit_service \<Rightarrow> ('r, 'a) audit_service \<Rightarrow> bool"
  for P env where
  append: "audit_step P env sv (fst (Append P random clk input sv))"
| rotate: "audit_step P env sv (fst (RotateTo P random clk version sv))"
| deliver: "audit_step P env sv (fst (DeliverMutationIntent P clk i durable sv))"
| flush: "audit_step P env sv (fst (FlushOutbox P clk limit sv))"
| anchor: "ConfigureCheckpointAnchor anc key sv = Inr sv' \<Longrightarrow> audit_step P env sv sv'"
| environment: "env (sv_repo sv) r' \<Longrightarrow> audit_step P env sv (sv\<lparr>sv_repo := r'\<rparr>)"

inductive audit_reachable ::
    "platform \<Rightarrow> ('r \<Rightarrow> 'r \<Rightarrow> bool) \<Rightarrow> ('r, 'a) audit_service \<Rightarrow> ('r, 'a) audit_service \<Rightarrow> bool"
  for P env sv0 where
  start: "audit_reachable P env sv0 sv0"
| step: "audit_reachable P env sv0 sv \<Longrightarrow> audit_step P env sv sv' \<Longrightarrow> audit_reachable P env sv0 sv'"

context audit_repository
begin

definition service_good :: "('r, 'a) audit_service \<Rightarrow> bool" where
  "service_good sv \<longleftrightarrow> sv_ops sv = ops \<and> invar (sv_repo sv)
     \<and> (\<forall>e \<in> set (chain (sv_repo sv)). authentic P (sv_keys sv) e)
     \<and> map_of (sv_keys sv) (sv_current_key_version sv) \<noteq> None"

lemma appendEvent_good:
  assumes "service_good sv" and "map_of (sv_keys sv) (ev_key_version e) \<noteq> None"
  shows "service_good (fst (appendEvent P now e sv))"
proof -
  obtain r' res where app: "op_append ops e (computeMAC P (sv_keys sv)) (sv_repo sv) = (r', res)"
    by fastforce
  with assms append_invar [of "sv_repo sv" e "computeMAC P (sv_keys sv)"]
    append_authentic [OF _ _ assms(2) app]
  show ?thesis by (auto simp: service_good_def appendEvent_repo)
qed

lemma service_good_fields:
  assumes "service_good sv" and "sv_ops sv' = sv_ops sv" "sv_repo sv' = sv_repo sv" "sv_keys sv' = sv_keys sv"
    and "map_of (sv_keys sv) (sv_current_key_version sv') \<noteq> None"
  shows "service_good sv'"
  using assms by (simp add: service_good_def)

lemma Append_good: "service_good sv \<Longrightarrow> service_good (fst (Append P random clk input sv))"
  by (auto simp: Append_def split: sum.splits intro!: appendEvent_good) (simp add: service_good_def)

lemma RotateTo_good:
  assumes "service_good sv"
  shows "service_good (fst (RotateTo P random clk version sv))"
proof -
  define sv1 where "sv1 = sv\<lparr>sv_current_key_version := safe version\<rparr>"
  obtain sv2 res where app: "Append P random clk (rotation_input (sv_current_key_version sv) (safe version)) sv1
      = (sv2, res)" by fastforce
  show ?thesis
  proof (cases "safe version = [] \<or> length (mget [] (sv_keys sv) (safe version)) < 32
      \<or> safe version = sv_current_key_version sv")
    case True
    with assms show ?thesis by (auto simp: RotateTo_def Let_def)
  next
    case False
    then have key: "map_of (sv_keys sv) (safe version) \<noteq> None"
      by (auto simp: mget_def split: option.splits)
    then have "service_good sv1" using assms by (simp add: sv1_def service_good_def)
    then have good: "service_good sv2" using Append_good app by (metis fst_conv)
    have "sv_keys sv2 = sv_keys (fst (Append P random clk
        (rotation_input (sv_current_key_version sv) (safe version)) sv1))" by (simp add: app)
    then have "sv_keys sv2 = sv_keys sv" by (simp add: sv1_def)
    then have "map_of (sv_keys sv2) (sv_current_key_version sv) \<noteq> None"
      using assms by (simp add: service_good_def)
    with good have "service_good (sv2\<lparr>sv_current_key_version := sv_current_key_version sv\<rparr>)"
      by (simp add: service_good_def)
    with good False app show ?thesis
      by (auto simp: RotateTo_def Let_def sv1_def [symmetric] split: sum.splits)
  qed
qed

lemma flush_loop_good:
  assumes "service_good sv" and "op_outbox ops = Some oo"
  shows "service_good (fst (flush_loop P clk oo n is sv))"
  using assms(1)
proof (induction "is" arbitrary: n sv)
  case (Cons i "is")
  define e where "e = event_of_intent safe truncate_us (sv_current_key_version sv) i"
  obtain sv1 res where app: "appendEvent P (clk (2 * n)) e sv = (sv1, res)" by fastforce
  have "service_good (fst (appendEvent P (clk (2 * n)) e sv))"
    using Cons.prems by (intro appendEvent_good) (simp_all add: e_def service_good_def)
  then have g1: "service_good sv1" by (simp add: app)
  have frame: "service_good (sv1\<lparr>sv_repo := fst (oo_mark_dispatched oo j k t (sv_repo sv1))\<rparr>)"
    "service_good (sv1\<lparr>sv_repo := fst (oo_mark_failure oo j err (sv_repo sv1))\<rparr>)" for j k t err
    using g1 dispatched_frame [OF _ assms(2)] failure_frame [OF _ assms(2)]
    by (simp_all add: service_good_def)
  show ?case
  proof (cases res)
    case (Inl err)
    with app frame(2) show ?thesis by (simp add: Let_def e_def)
  next
    case (Inr c)
    obtain r2 res2 where m: "oo_mark_dispatched oo (in_event_id i) (ev_sequence c)
        (truncate_us (clk (2 * n + 1))) (sv_repo sv1) = (r2, res2)" by fastforce
    then have "service_good (sv1\<lparr>sv_repo := r2\<rparr>)" using frame(1) by (metis fst_conv)
    with Inr app m Cons.IH show ?thesis by (cases res2) (simp_all add: Let_def e_def)
  qed
qed simp

lemma FlushOutbox_good: "service_good sv \<Longrightarrow> service_good (fst (FlushOutbox P clk limit sv))"
  using flush_loop_good [of sv]
  by (cases "op_outbox ops") (auto simp: FlushOutbox_def Let_def service_good_def [THEN iffD1, THEN conjunct1]
      split: sum.splits)

lemma DeliverMutationIntent_good:
  assumes "service_good sv"
  shows "service_good (fst (DeliverMutationIntent P clk i durable sv))"
proof -
  have "service_good (fst (appendEvent P (clk 0) (event_of_intent id id (sv_current_key_version sv) i) sv))"
    using assms by (intro appendEvent_good) (simp_all add: service_good_def)
  with assms FlushOutbox_good [OF assms] show ?thesis
    by (auto simp: DeliverMutationIntent_def split: prod.splits sum.splits)
qed

lemma audit_step_good:
  assumes "audit_step P env sv sv'" and "service_good sv"
    and "\<And>r r'. env r r' \<Longrightarrow> invar r \<Longrightarrow> invar r' \<and> chain r' = chain r"
  shows "service_good sv'"
  using assms(1,2)
proof cases
  case (anchor anc key)
  with assms(2) show ?thesis
    by (auto simp: ConfigureCheckpointAnchor_def service_good_def split: option.splits if_splits)
next
  case (environment r')
  with assms(2,3) show ?thesis by (simp add: service_good_def)
qed (simp_all add: Append_good RotateTo_good DeliverMutationIntent_good FlushOutbox_good)

lemma audit_reachable_good:
  assumes "audit_reachable P env sv0 sv" and "service_good sv0"
    and "\<And>r r'. env r r' \<Longrightarrow> invar r \<Longrightarrow> invar r' \<and> chain r' = chain r"
  shows "service_good sv"
  using assms(1,2) by (induction rule: audit_reachable.induct) (auto intro: audit_step_good [OF _ _ assms(3)])

lemma service_good_chain_ok:
  "service_good sv \<Longrightarrow> chain_ok P (sv_keys sv) (chain (sv_repo sv)) (head (sv_repo sv))"
  using well_formed by (auto simp: service_good_def chain_ok_def head_agrees_def)

lemma service_good_Verify:
  assumes "service_good sv" and "Verify P sv = Inr v"
  shows "vf_valid v \<and> vf_event_count v = int (length (chain (sv_repo sv)))
    \<and> vf_verified_through v = int (length (chain (sv_repo sv)))"
proof -
  obtain es cp where load': "op_load_chain ops (sv_repo sv) = Inr (es, cp)"
    and v: "v = verify_chain P (sv_keys sv) (anchorVerification P sv cp) es cp"
    using assms by (auto simp: Verify_def service_good_def split: sum.splits)
  with load [of "sv_repo sv"] assms(1) have "es = chain (sv_repo sv)" "cp = head (sv_repo sv)"
    by (auto simp: service_good_def)
  with v service_good_chain_ok [OF assms(1)] show ?thesis
    by (simp add: verify_chain_ok initial_verification_def)
qed

end

end
