(* ===== verification/AuditProperties.thy ===== *)
theory AuditProperties
  imports AuditService
begin

text \<open>
  The properties of the audit component: every history verifies, the checkpoint determines the
  evidence, outbox delivery is exactly once, rotation is atomic, and a committed event is anchored.
\<close>

section \<open>The checkpoint determines the chain\<close>

definition small_field :: "bytes \<Rightarrow> bool" where
  "small_field v \<longleftrightarrow> length v < 2 ^ 32"

definition event_small :: "platform \<Rightarrow> event \<Rightarrow> bool" where
  "event_small P e \<longleftrightarrow> (\<forall>v \<in> set (canonical_fields P e). small_field v)
     \<and> small_field (ev_network_source e) \<and> small_field (ev_previous_mac e)
     \<and> int64_min \<le> ev_sequence e \<and> ev_sequence e \<le> int64_max"

lemma fold_writeField: "fold (\<lambda>v buf. buf @ length_field v) vs buf = buf @ concat (map length_field vs)"
  by (induction vs arbitrary: buf) auto

lemma canonicalEvent_eq:
  "canonicalEvent P e = concat (map length_field (canonical_fields P e))
     @ (if ev_network_source e \<noteq> [] then length_field (ev_network_source e) else [])"
  by (cases "ev_network_source e = []") (simp_all add: canonicalEvent_def fold_writeField writeField_def Let_def)

lemma length_field_Nil_iff [simp]: "length_field v \<noteq> []" "[] \<noteq> length_field v"
proof -
  have "length (length_field v) = 4 + length v" by (simp add: length_field_def)
  then show "length_field v \<noteq> []" "[] \<noteq> length_field v" by auto
qed

lemma canonicalEvent_inj:
  assumes "canonicalEvent P e = canonicalEvent P e'" and "event_small P e" and "event_small P e'"
  shows "canonical_fields P e = canonical_fields P e' \<and> ev_network_source e = ev_network_source e'"
proof -
  define tail where "tail = (\<lambda>e::event. if ev_network_source e \<noteq> [] then length_field (ev_network_source e) else [])"
  from assms(1) have "concat (map length_field (canonical_fields P e)) @ tail e
      = concat (map length_field (canonical_fields P e')) @ tail e'"
    by (simp only: canonicalEvent_eq tail_def)
  then have "canonical_fields P e = canonical_fields P e' \<and> tail e = tail e'"
    using assms(2,3)
    by (intro concat_length_field_inj) (auto simp: event_small_def small_field_def canonical_fields_def)
  moreover from this have "ev_network_source e = ev_network_source e'"
    using assms(2,3) length_field_append_inj [of "ev_network_source e" "[]" "ev_network_source e'" "[]"]
    by (auto simp: tail_def event_small_def small_field_def split: if_splits)
  ultimately show ?thesis by blast
qed

lemma mac_message_inj:
  assumes "mac_message P n p e = mac_message P n' p' e'"
    and "small_field p" "small_field p'" "int64_min \<le> n" "n \<le> int64_max" "int64_min \<le> n'" "n' \<le> int64_max"
  shows "n = n' \<and> p = p' \<and> canonicalEvent P e = canonicalEvent P e'"
proof -
  from assms(1) have eq: "be64 n @ length_field p @ length_field (canonicalEvent P e)
      = be64 n' @ length_field p' @ length_field (canonicalEvent P e')"
    by (simp add: mac_message_def writeField_def)
  then have n: "be64 n = be64 n'" and "length_field p @ length_field (canonicalEvent P e)
      = length_field p' @ length_field (canonicalEvent P e')"
    by (simp_all add: append_eq_append_conv)
  then have "p = p' \<and> length_field (canonicalEvent P e) = length_field (canonicalEvent P e')"
    using assms(2,3) by (intro length_field_append_inj) (auto simp: small_field_def)
  moreover have "n = n'" using n assms(4-7) by (rule be64_inj)
  ultimately show ?thesis by (auto simp: length_field_def append_eq_append_conv)
qed

lemma canonical_fields_inj:
  assumes "canonical_fields P e = canonical_fields P e'" and "rfc3339_injective P"
    and "ev_network_source e = ev_network_source e'" "ev_sequence e = ev_sequence e'"
    "ev_previous_mac e = ev_previous_mac e'" "ev_mac e = ev_mac e'"
  shows "e = e'"
  using assms by (cases e, cases e') (auto simp: canonical_fields_def rfc3339_injective_def inj_def)

lemma authentic_event_determined:
  assumes "authentic P keys e" "authentic P keys' e'" "ev_mac e = ev_mac e'"
    and "event_small P e" "event_small P e'" "hmac_collision_free P" "rfc3339_injective P"
  shows "e = e'"
proof -
  from assms(1-3,6) have "mac_message P (ev_sequence e) (ev_previous_mac e) e
      = mac_message P (ev_sequence e') (ev_previous_mac e') e'"
    unfolding authentic_def computeMAC_def hmac_collision_free_def by metis
  then have "ev_sequence e = ev_sequence e' \<and> ev_previous_mac e = ev_previous_mac e'
      \<and> canonicalEvent P e = canonicalEvent P e'"
    using assms(4,5) by (intro mac_message_inj) (auto simp: event_small_def)
  with canonicalEvent_inj [of P e e'] assms show ?thesis by (intro canonical_fields_inj) auto
qed

lemma linked_chain_determined:
  assumes "length es = length es'" and "linked_from n prev es" "linked_from n prev es'"
    and "\<forall>e \<in> set es. authentic P keys e \<and> event_small P e"
    and "\<forall>e \<in> set es'. authentic P keys' e \<and> event_small P e"
    and "end_mac prev es = end_mac prev es'" and "hmac_collision_free P" "rfc3339_injective P"
  shows "es = es'"
  using assms(1-6)
proof (induction es arbitrary: es' rule: rev_induct)
  case (snoc e es)
  from snoc.prems(1) obtain fs f where es': "es' = fs @ [f]" by (cases es' rule: rev_cases) auto
  from snoc.prems es' have "ev_mac e = ev_mac f" by simp
  with snoc.prems es' assms(7,8) have ef: "e = f"
    by (intro authentic_event_determined [of P keys e keys' f]) auto
  moreover have "es = fs"
    using snoc.prems es' ef by (intro snoc.IH) auto
  ultimately show ?case by (simp add: es')
qed simp

text \<open>
  C6: tamper evidence. Two event logs that both verify against checkpoints with the same last
  sequence and MAC, under whatever keyrings the verifiers hold, are the same log, event for event
  and field for field. The hypotheses are collision resistance of the HMAC, distinct renderings of
  distinct times, and fields shorter than the 32-bit length prefix can say.
\<close>

theorem checkpoint_determines_log:
  assumes "hmac_collision_free P" and "rfc3339_injective P"
    and "vf_valid (verify_chain P keys anchor es cp)" and "vf_valid (verify_chain P keys' anchor' es' cp')"
    and "cp_last_sequence cp = cp_last_sequence cp'" and "cp_last_mac cp = cp_last_mac cp'"
    and "\<forall>e \<in> set es \<union> set es'. event_small P e"
  shows "es = es'"
  using assms unfolding verify_chain_valid_iff chain_ok_def
  by (intro linked_chain_determined [of es es' 0 "genesisMAC P" P keys keys']) auto

definition demo_keys :: keyring where
  "demo_keys = [(''v1'', replicate 32 (CHR ''k''))]"

definition demo_event :: event where
  "demo_event = chained (computeMAC demo_platform demo_keys) 1 (genesisMAC demo_platform)
     (event_of_input ''aud_1'' 0 ''v1'' [] (rotation_input ''v0'' ''v1''))"

definition demo_checkpoint :: checkpoint where
  "demo_checkpoint = checkpoint_of demo_event"

lemma demo_chain_ok: "chain_ok demo_platform demo_keys [demo_event] demo_checkpoint"
  by (auto simp: chain_ok_def demo_checkpoint_def demo_event_def checkpoint_of_def demo_keys_def
      intro!: chained_authentic)

lemma length_safe: "length (safe v) \<le> 160"
  by (simp add: safe_def Let_def)

lemma safe_below [simp]: "length (safe v) < 4294967296"
  using length_safe [of v] by simp

lemma demo_event_small: "event_small demo_platform demo_event"
  unfolding event_small_def small_field_def canonical_fields_def demo_event_def chained_def Let_def
    event_of_input_def
  by (simp add: demo_platform_def truncate_us_def genesisMAC_def int64_min_def int64_max_def)

definition demo_auditor_keys :: keyring where
  "demo_auditor_keys = (''v0'', replicate 40 (CHR ''z'')) # demo_keys"

definition demo_memory_log :: "event list" where
  "demo_memory_log = ma_events (fst (memory_Append
     (event_of_input ''aud_1'' 0 ''v1'' [] (rotation_input ''v0'' ''v1''))
     (computeMAC demo_platform demo_keys) (NewMemoryRepository demo_platform)))"

lemma demo_memory_log_eq: "demo_memory_log = [demo_event]"
  by (simp add: demo_memory_log_def memory_Append_def NewMemoryRepository_def Let_def demo_event_def
      event_of_input_def)

lemma demo_memory_log_ok: "chain_ok demo_platform demo_auditor_keys demo_memory_log demo_checkpoint"
proof -
  have "authentic demo_platform demo_keys demo_event" "ev_key_version demo_event = ''v1''"
    using demo_chain_ok by (simp_all add: chain_ok_def demo_event_def)
  then have "authentic demo_platform demo_auditor_keys demo_event"
    by (simp add: authentic_def computeMAC_def demo_auditor_keys_def mget_def)
  then show ?thesis using demo_chain_ok by (simp add: demo_memory_log_eq chain_ok_def)
qed

theorem checkpoint_determines_log_witness:
  "vf_valid (verify_chain demo_platform demo_auditor_keys no_anchor_verification demo_memory_log demo_checkpoint)
     \<and> demo_memory_log = [demo_event]"
proof -
  have valid: "vf_valid (verify_chain demo_platform demo_keys no_anchor_verification [demo_event] demo_checkpoint)"
    "vf_valid (verify_chain demo_platform demo_auditor_keys no_anchor_verification demo_memory_log demo_checkpoint)"
    by (simp_all add: verify_chain_valid_iff demo_chain_ok demo_memory_log_ok)
  have "\<forall>e \<in> set demo_memory_log \<union> set [demo_event]. event_small demo_platform e"
    using demo_event_small by (simp add: demo_memory_log_eq)
  from checkpoint_determines_log [OF demo_hmac_collision_free demo_rfc3339_injective valid(2,1) refl refl this]
  show ?thesis using valid by simp
qed

section \<open>Every history verifies\<close>

text \<open>
  What happens to the tables besides the service: the mutation transactions of the other components
  enqueue intents, and the database goes down and comes back.
\<close>

inductive postgres_env :: "postgres_audit \<Rightarrow> postgres_audit \<Rightarrow> bool" where
  enqueue: "Enqueue i (pa_outbox r) = Inr ob \<Longrightarrow> postgres_env r (r\<lparr>pa_outbox := ob\<rparr>)"
| fault: "postgres_env r (r\<lparr>pa_fault := f\<rparr>)"

definition empty_tables :: postgres_audit where
  "empty_tables = \<lparr>pa_events = [], pa_checkpoint = None, pa_outbox = [], pa_fault = None\<rparr>"

lemma empty_tables_invar: "postgres_invar P empty_tables"
  by (simp add: postgres_invar_def empty_tables_def head_agrees_def postgres_head_def outbox_ok_def)

lemma postgres_env_invar:
  "postgres_env r r' \<Longrightarrow> postgres_invar P r \<Longrightarrow> postgres_invar P r' \<and> pa_events r' = pa_events r"
  by (induction rule: postgres_env.induct)
    (auto simp: postgres_invar_def postgres_head_def intro: Enqueue_ok)

lemma clone_keys_keeps:
  "clone_keys cloned keys = Inr out \<Longrightarrow> map_of cloned k \<noteq> None \<Longrightarrow> map_of out k \<noteq> None"
  by (induction cloned keys rule: clone_keys.induct) (auto split: if_splits)

lemma clone_keys_has:
  "clone_keys cloned keys = Inr out \<Longrightarrow> map_of keys k \<noteq> None \<Longrightarrow> map_of out (safe k) \<noteq> None"
proof (induction cloned keys rule: clone_keys.induct)
  case (2 cloned v key ks)
  then show ?case
    using clone_keys_keeps [of "mput (safe v) key cloned" ks out "safe v"]
    by (auto split: if_splits)
qed simp

lemma safe_short: "length (trim_space v) \<le> 160 \<Longrightarrow> safe (safe v) = safe v"
  by (simp add: safe_def Let_def trim_space_idem)

lemma NewServiceWithKeyring_good:
  assumes "NewServiceWithKeyring (postgres_ops P) empty_tables v keys = Inr sv"
    and "length (trim_space v) \<le> 160"
  shows "postgres_repository.service_good P sv"
proof -
  obtain cloned where cloned: "clone_keys [] keys = Inr cloned" and has: "length (mget [] keys (safe v)) \<ge> 32"
    and sv: "sv = \<lparr>sv_ops = postgres_ops P, sv_repo = empty_tables, sv_keys = cloned,
       sv_current_key_version = safe v, sv_anchor = None, sv_anchor_key = []\<rparr>"
    using assms(1) by (auto simp: NewServiceWithKeyring_def Let_def postgres_ops_def postgres_LoadChain_def
        empty_tables_def split: sum.splits if_splits)
  from has have "map_of keys (safe v) \<noteq> None" by (auto simp: mget_def split: option.splits)
  with clone_keys_has [OF cloned] safe_short [OF assms(2)] have "map_of cloned (safe v) \<noteq> None" by metis
  then show ?thesis
    by (simp add: postgres_repository.service_good_def sv empty_tables_invar) (simp add: empty_tables_def)
qed

text \<open>
  C7: the audit log always verifies. Whatever a service started on empty tables does - appends, key
  rotations, outbox flushes and direct deliveries in any order, with any inputs, random bytes and
  clocks, with intents enqueued and the database failing in between - whenever the database answers,
  verification reports a valid chain, and all recorded events counted and verified.
\<close>

theorem audit_history_verifies:
  assumes "NewServiceWithKeyring (postgres_ops P) empty_tables v keys = Inr sv0"
    and "length (trim_space v) \<le> 160"
    and "audit_reachable P postgres_env sv0 sv" and "pa_fault (sv_repo sv) = None"
  shows "\<exists>result. Verify P sv = Inr result \<and> vf_valid result
    \<and> vf_event_count result = int (length (pa_events (sv_repo sv)))
    \<and> vf_verified_through result = int (length (pa_events (sv_repo sv)))"
proof -
  have good: "postgres_repository.service_good P sv"
    using postgres_repository.audit_reachable_good [OF assms(3) NewServiceWithKeyring_good [OF assms(1,2)]]
      postgres_env_invar by blast
  then have "sv_ops sv = postgres_ops P" and "postgres_invar P (sv_repo sv)"
    by (simp_all add: postgres_repository.service_good_def)
  with postgres_LoadChain_eq [OF _ assms(4), of P] obtain result where "Verify P sv = Inr result"
    by (simp add: Verify_def postgres_ops_def)
  with postgres_repository.service_good_Verify [OF good] show ?thesis by blast
qed

lemma safe_plain: "\<forall>c \<in> set v. plain_char c \<Longrightarrow> length v \<le> 160 \<Longrightarrow> safe v = v"
  by (simp add: safe_def Let_def trim_space_plain)

definition demo_service :: "(postgres_audit, file_anchor) audit_service" where
  "demo_service = \<lparr>sv_ops = postgres_ops demo_platform, sv_repo = empty_tables, sv_keys = demo_keys,
     sv_current_key_version = ''v1'', sv_anchor = None, sv_anchor_key = []\<rparr>"

lemma demo_service_created:
  "NewServiceWithKeyring (postgres_ops demo_platform) empty_tables ''v1'' demo_keys = Inr demo_service"
proof -
  have "safe ''v1'' = ''v1''" by (rule safe_plain) (simp_all add: plain_char_def)
  then show ?thesis
    by (simp add: NewServiceWithKeyring_def demo_service_def demo_keys_def Let_def postgres_ops_def
        postgres_LoadChain_def empty_tables_def mget_def)
qed

definition demo_input :: audit_input where
  "demo_input = rotation_input ''v1'' ''v2''"

lemma postgres_Append_first:
  "postgres_Append P e f empty_tables = (empty_tables\<lparr>pa_events := [postgres_next P e f empty_tables],
     pa_checkpoint := Some (checkpoint_of (postgres_next P e f empty_tables))\<rparr>,
     Inr (postgres_next P e f empty_tables))"
proof -
  have "pa_fault empty_tables = None" "pa_events empty_tables = []" by (simp_all add: empty_tables_def)
  then show ?thesis by (simp add: postgres_Append_eq [OF empty_tables_invar])
qed

theorem audit_history_verifies_witness:
  "\<exists>result. Verify demo_platform (fst (Append demo_platform (Inr ''r'') (\<lambda>i. 0) demo_input demo_service))
      = Inr result \<and> vf_valid result \<and> vf_event_count result = 1"
proof -
  define sv where "sv = fst (Append demo_platform (Inr ''r'') (\<lambda>i. 0) demo_input demo_service)"
  have "op_append (sv_ops demo_service) = postgres_Append demo_platform" "sv_repo demo_service = empty_tables"
    by (simp_all add: demo_service_def postgres_ops_def)
  then obtain e cp where "sv_repo sv = empty_tables\<lparr>pa_events := [e], pa_checkpoint := cp\<rparr>"
    by (simp add: sv_def Append_def audit_opaqueID_def appendEvent_repo postgres_Append_first)
  then have sv: "pa_fault (sv_repo sv) = None" "length (pa_events (sv_repo sv)) = 1"
    by (simp_all add: empty_tables_def)
  have "audit_reachable demo_platform postgres_env demo_service sv"
    unfolding sv_def
    by (rule audit_reachable.step [OF audit_reachable.start audit_step.append])
  moreover have "length (trim_space ''v1'') \<le> 160"
    using trim_space_length [of "''v1''"] by simp
  ultimately obtain result where "Verify demo_platform sv = Inr result" "vf_valid result"
      "vf_event_count result = 1"
    using audit_history_verifies [OF demo_service_created, of sv] sv by auto
  then show ?thesis unfolding sv_def by blast
qed

section \<open>Outbox delivery\<close>

lemma outbox_ok_Cons:
  "outbox_ok ((k, row) # ob) \<longleftrightarrow> in_event_id (ob_intent row) = k \<and> Validate (ob_intent row) = Inr ()
     \<and> k \<notin> fst ` set ob \<and> outbox_ok ob"
proof (cases "k \<notin> fst ` set ob")
  case True
  then have "map_of ob k = None" by (simp add: map_of_eq_None_iff)
  from map_of_all_Cons [OF this, where v = row and Q = "\<lambda>k row. in_event_id (ob_intent row) = k \<and> Validate (ob_intent row) = Inr ()"] True
  show ?thesis unfolding outbox_ok_def wf_map_Cons by argo
next
  case False
  then show ?thesis unfolding outbox_ok_def wf_map_Cons by blast
qed

lemma map_filter_ob:
  assumes same: "\<And>row. ob_intent (f row) = ob_intent row" and sent: "\<And>row. \<not> pending_row (f row)"
    and "outbox_ok ob"
  shows "map ob_intent (filter pending_row (mvals (update_pending eid f ob)))
     = filter (\<lambda>i. in_event_id i \<noteq> eid) (map ob_intent (filter pending_row (mvals ob)))"
  using assms(3)
proof (induction ob)
  case (Cons x ob)
  obtain k row where x: "x = (k, row)" by fastforce
  have step: "mvals (update_pending eid f (x # ob))
      = (if k = eid \<and> pending_row row then f row else row) # mvals (update_pending eid f ob)"
    "mvals (x # ob) = row # mvals ob"
    by (simp_all add: x update_pending_def mapply_def mvals_def)
  from Cons x have "in_event_id (ob_intent row) = k"
    "map ob_intent (filter pending_row (mvals (update_pending eid f ob)))
      = filter (\<lambda>i. in_event_id i \<noteq> eid) (map ob_intent (filter pending_row (mvals ob)))"
    by (simp_all add: outbox_ok_Cons)
  with step sent [of row] show ?case by (cases "pending_row row") simp_all
qed (simp add: update_pending_def mapply_def mvals_def)

lemma pending_intents_marked:
  assumes "outbox_ok ob" "\<And>row. ob_intent (f row) = ob_intent row" "\<And>row. \<not> pending_row (f row)"
  shows "pending_intents (update_pending eid f ob) = filter (\<lambda>i. in_event_id i \<noteq> eid) (pending_intents ob)"
  using map_filter_ob [OF assms(2,3,1)] by (simp add: pending_intents_def filter_sort)

lemma pending_intents_distinct:
  assumes "outbox_ok ob"
  shows "distinct (map in_event_id (pending_intents ob))"
proof -
  have "distinct (map in_event_id (map ob_intent (filter pending_row (mvals ob))))
      \<and> set (map in_event_id (map ob_intent (mvals ob))) = fst ` set ob"
    using assms
  proof (induction ob)
    case (Cons x ob)
    obtain k row where x: "x = (k, row)" by fastforce
    with Cons have "in_event_id (ob_intent row) = k" "k \<notin> fst ` set ob" "outbox_ok ob"
      by (simp_all add: outbox_ok_Cons)
    with Cons.IH show ?case by (auto simp: x mvals_def)
  qed (simp add: mvals_def)
  then show ?thesis
    by (simp add: pending_intents_def distinct_map) (auto simp: inj_on_def)
qed

text \<open>The outbox operations of the PostgreSQL repository, as the service reaches them.\<close>

definition postgres_outbox_ops :: "postgres_audit outbox_ops" where
  "postgres_outbox_ops = \<lparr>oo_pending = postgres_PendingOutbox,
     oo_mark_dispatched = postgres_MarkOutboxDispatched, oo_mark_failure = postgres_MarkOutboxFailure,
     oo_pending_count = postgres_PendingOutboxCount\<rparr>"

definition delivering :: "platform \<Rightarrow> (postgres_audit, 'a) audit_service \<Rightarrow> bool" where
  "delivering P sv \<longleftrightarrow> sv_ops sv = postgres_ops P \<and> postgres_invar P (sv_repo sv) \<and> pa_fault (sv_repo sv) = None"

lemma appendEvent_postgres:
  assumes "delivering P sv"
  obtains sv' committed where "appendEvent P now e sv = (sv', Inr committed)" "delivering P sv'"
    "pa_outbox (sv_repo sv') = pa_outbox (sv_repo sv)"
    "prefix (pa_events (sv_repo sv)) (pa_events (sv_repo sv'))"
    "ev_id e \<in> ev_id ` set (pa_events (sv_repo sv'))"
proof -
  obtain sv' res where app: "appendEvent P now e sv = (sv', res)" by fastforce
  obtain r' res' where pg: "postgres_Append P e (computeMAC P (sv_keys sv)) (sv_repo sv) = (r', res')" by fastforce
  from assms have ops: "op_append (sv_ops sv) = postgres_Append P" by (simp add: delivering_def postgres_ops_def)
  have r': "sv_repo sv' = r'" using appendEvent_repo [of P now e sv] app pg ops by simp
  have res: "res = res'" using appendEvent_result [of P now e sv] app pg ops by simp
  have sops: "sv_ops sv' = postgres_ops P"
    using appendEvent_frame(1) [of P now e sv] app assms by (simp add: delivering_def)
  from assms have inv: "postgres_invar P (sv_repo sv)" and up: "pa_fault (sv_repo sv) = None"
    by (simp_all add: delivering_def)
  have inv': "postgres_invar P r'" using postgres_Append_invar [OF inv] pg by (metis fst_conv)
  show ?thesis
  proof (cases "find (\<lambda>x. ev_id x = ev_id e) (pa_events (sv_repo sv))")
    case None
    with postgres_Append_eq [OF inv up, of e] pg have
      "r' = (sv_repo sv)\<lparr>pa_events := pa_events (sv_repo sv) @ [postgres_next P e (computeMAC P (sv_keys sv)) (sv_repo sv)],
         pa_checkpoint := Some (checkpoint_of (postgres_next P e (computeMAC P (sv_keys sv)) (sv_repo sv)))\<rparr>"
      "res' = Inr (postgres_next P e (computeMAC P (sv_keys sv)) (sv_repo sv))" by simp_all
    with that [of sv'] app res r' sops inv' up show ?thesis by (simp add: delivering_def postgres_next_def)
  next
    case (Some y)
    with postgres_Append_eq [OF inv up, of e] pg have "r' = sv_repo sv" "res' = Inr y" by simp_all
    with that [of sv'] app res r' sops inv' up find_SomeD [OF Some] show ?thesis
      by (simp add: delivering_def image_iff) metis
  qed
qed

lemma flush_loop_delivers:
  assumes "delivering P sv" and "\<forall>i \<in> set is. safe (in_event_id i) = in_event_id i"
  shows "\<exists>sv'. flush_loop P clk postgres_outbox_ops n is sv = (sv', int (n + length is), None)
    \<and> delivering P sv' \<and> prefix (pa_events (sv_repo sv)) (pa_events (sv_repo sv'))
    \<and> pending_intents (pa_outbox (sv_repo sv')) =
        filter (\<lambda>i. in_event_id i \<notin> in_event_id ` set is) (pending_intents (pa_outbox (sv_repo sv)))
    \<and> in_event_id ` set is \<subseteq> ev_id ` set (pa_events (sv_repo sv'))"
  using assms
proof (induction "is" arbitrary: n sv)
  case (Cons i "is")
  define e where "e = event_of_intent safe truncate_us (sv_current_key_version sv) i"
  obtain sv1 c where app: "appendEvent P (clk (2 * n)) e sv = (sv1, Inr c)" and d1: "delivering P sv1"
    and ob1: "pa_outbox (sv_repo sv1) = pa_outbox (sv_repo sv)"
    and pre1: "prefix (pa_events (sv_repo sv)) (pa_events (sv_repo sv1))"
    and in1: "ev_id e \<in> ev_id ` set (pa_events (sv_repo sv1))"
    using appendEvent_postgres [OF Cons.prems(1)] by metis
  obtain f where f: "\<And>row. ob_intent (f row) = ob_intent row" "\<And>row. \<not> pending_row (f row)"
    and mark: "oo_mark_dispatched postgres_outbox_ops (in_event_id i) (ev_sequence c)
      (truncate_us (clk (2 * n + 1))) (sv_repo sv1)
      = ((sv_repo sv1)\<lparr>pa_outbox := update_pending (in_event_id i) f (pa_outbox (sv_repo sv1))\<rparr>, Inr ())"
    using d1 that [of "\<lambda>row. row\<lparr>ob_dispatched_at := Some (truncate_us (clk (2 * n + 1))),
        ob_chain_sequence := Some (ev_sequence c), ob_last_error := [], ob_attempts := ob_attempts row + 1\<rparr>"]
    by (auto simp: postgres_outbox_ops_def postgres_MarkOutboxDispatched_def pending_row_def delivering_def)
  define sv2 where "sv2 = sv1\<lparr>sv_repo := (sv_repo sv1)\<lparr>pa_outbox :=
      update_pending (in_event_id i) f (pa_outbox (sv_repo sv1))\<rparr>\<rparr>"
  have ok: "outbox_ok (pa_outbox (sv_repo sv1))" using d1 by (simp add: delivering_def postgres_invar_def)
  have d2: "delivering P sv2" using d1 update_pending_ok [OF ok f(1)]
    by (simp add: sv2_def delivering_def postgres_invar_def postgres_head_def)
  have step: "flush_loop P clk postgres_outbox_ops n (i # is) sv = flush_loop P clk postgres_outbox_ops (Suc n) is sv2"
    using app mark by (simp add: e_def [symmetric] sv2_def Let_def)
  obtain sv' where "flush_loop P clk postgres_outbox_ops (Suc n) is sv2 = (sv', int (Suc n + length is), None)"
    and "delivering P sv'" and "prefix (pa_events (sv_repo sv2)) (pa_events (sv_repo sv'))"
    and pend: "pending_intents (pa_outbox (sv_repo sv')) =
        filter (\<lambda>i. in_event_id i \<notin> in_event_id ` set is) (pending_intents (pa_outbox (sv_repo sv2)))"
    and "in_event_id ` set is \<subseteq> ev_id ` set (pa_events (sv_repo sv'))"
    using Cons.IH [OF d2, of "Suc n"] Cons.prems(2) by auto
  moreover have "pending_intents (pa_outbox (sv_repo sv2)) =
      filter (\<lambda>j. in_event_id j \<noteq> in_event_id i) (pending_intents (pa_outbox (sv_repo sv)))"
    using pending_intents_marked [OF ok f] by (simp add: sv2_def ob1)
  moreover have "in_event_id i \<in> ev_id ` set (pa_events (sv_repo sv2))"
    using in1 Cons.prems(2) by (simp add: sv2_def e_def)
  moreover have "pa_events (sv_repo sv2) = pa_events (sv_repo sv1)" by (simp add: sv2_def)
  ultimately show ?case using step pre1
    by (intro exI [of _ sv']) (auto simp: conj_commute dest: set_mono_prefix prefix_order.trans)
qed simp

text \<open>
  C8: exactly-once delivery. While the database answers, flushing delivers the oldest pending intents
  up to the limit (100 where the caller asks for an unusable one): it reports their number, leaves
  exactly the others pending in their order, only extends the log, and every delivered intent then
  has exactly one event in the log, however often earlier flushes had already appended it.
\<close>

theorem flush_exactly_once:
  fixes limit :: int
  assumes "sv_ops sv = postgres_ops P" and "postgres_invar P (sv_repo sv)" and "pa_fault (sv_repo sv) = None"
    and "\<forall>i \<in> set (pending_intents (pa_outbox (sv_repo sv))). safe (in_event_id i) = in_event_id i"
    and "l = nat (if limit < 1 \<or> limit > 500 then 100 else limit)"
    and "FlushOutbox P clk limit sv = (sv', n, err)"
  shows "err = None \<and> n = int (length (take l (pending_intents (pa_outbox (sv_repo sv)))))
    \<and> pending_intents (pa_outbox (sv_repo sv')) = drop l (pending_intents (pa_outbox (sv_repo sv)))
    \<and> prefix (pa_events (sv_repo sv)) (pa_events (sv_repo sv'))
    \<and> (\<forall>i \<in> set (take l (pending_intents (pa_outbox (sv_repo sv)))).
         length (filter (\<lambda>e. ev_id e = in_event_id i) (pa_events (sv_repo sv'))) = 1)"
proof -
  define pending where "pending = pending_intents (pa_outbox (sv_repo sv))"
  have "delivering P sv" using assms(1-3) by (simp add: delivering_def)
  moreover have "\<forall>i \<in> set (take l pending). safe (in_event_id i) = in_event_id i"
    using assms(4) by (auto simp: pending_def dest: in_set_takeD)
  moreover have "FlushOutbox P clk limit sv = flush_loop P clk postgres_outbox_ops 0 (take l pending) sv"
    using assms(1,3,5) by (simp add: FlushOutbox_def postgres_ops_def postgres_outbox_ops_def
        postgres_PendingOutbox_def pending_def)
  ultimately have res: "err = None" "n = int (length (take l pending))" and d: "delivering P sv'"
    and pre: "prefix (pa_events (sv_repo sv)) (pa_events (sv_repo sv'))"
    and rest: "pending_intents (pa_outbox (sv_repo sv')) =
        filter (\<lambda>i. in_event_id i \<notin> in_event_id ` set (take l pending)) pending"
    and del: "in_event_id ` set (take l pending) \<subseteq> ev_id ` set (pa_events (sv_repo sv'))"
    using flush_loop_delivers [of P sv "take l pending" clk 0] assms(6) by (auto simp: pending_def)
  have "distinct (map in_event_id pending)"
    using assms(2) pending_intents_distinct by (simp add: pending_def postgres_invar_def)
  then have "filter (\<lambda>i. in_event_id i \<notin> in_event_id ` set (take l pending)) pending = drop l pending"
    by (rule filter_not_taken)
  moreover have "distinct (map ev_id (pa_events (sv_repo sv')))"
    using d by (simp add: delivering_def postgres_invar_def)
  then have "length (filter (\<lambda>e. ev_id e = in_event_id i) (pa_events (sv_repo sv'))) = 1"
    if "i \<in> set (take l pending)" for i
    using del that by (intro distinct_map_filter_one) auto
  ultimately show ?thesis using res pre rest by (simp add: pending_def)
qed

section \<open>Key rotation\<close>

lemma appendEvent_frames:
  "appendEvent P now e sv = (sv', res) \<Longrightarrow> sv_ops sv' = sv_ops sv \<and> sv_keys sv' = sv_keys sv
     \<and> sv_current_key_version sv' = sv_current_key_version sv"
  using appendEvent_frame [of P now e sv] by (metis fst_conv)

lemma appendEvent_error_repo:
  assumes "sv_ops sv = postgres_ops P" "postgres_invar P (sv_repo sv)"
    and "appendEvent P now e sv = (sv', Inl err)"
  shows "sv' = sv"
proof -
  obtain r' where r': "postgres_Append P e (computeMAC P (sv_keys sv)) (sv_repo sv) = (r', Inl err)"
    and sv': "sv' = sv\<lparr>sv_repo := r'\<rparr>"
    using assms(1,3) by (auto simp: appendEvent_def postgres_ops_def Let_def split: prod.splits sum.splits option.splits)
  have "r' = sv_repo sv" using postgres_Append_cases [OF assms(2) r'] by (metis old.sum.distinct(1))
  with sv' show ?thesis by simp
qed

lemma appendEvent_fresh:
  assumes "sv_ops sv = postgres_ops P" "postgres_invar P (sv_repo sv)"
    and "appendEvent P now e sv = (sv', Inr c)" and "\<forall>x \<in> set (pa_events (sv_repo sv)). ev_id x \<noteq> ev_id e"
  shows "c = postgres_next P e (computeMAC P (sv_keys sv)) (sv_repo sv)
    \<and> sv_repo sv' = (sv_repo sv)\<lparr>pa_events := pa_events (sv_repo sv) @ [c], pa_checkpoint := Some (checkpoint_of c)\<rparr>
    \<and> pa_fault (sv_repo sv) = None"
proof -
  obtain r' where r': "postgres_Append P e (computeMAC P (sv_keys sv)) (sv_repo sv) = (r', Inr c)"
    using assms(1,3) appendEvent_result [of P now e sv]
    by (cases "postgres_Append P e (computeMAC P (sv_keys sv)) (sv_repo sv)") (simp add: postgres_ops_def)
  have "sv_repo sv' = r'" using assms(1,3) r' appendEvent_repo [of P now e sv] by (simp add: postgres_ops_def)
  moreover from assms(2) r' have "c = postgres_next P e (computeMAC P (sv_keys sv)) (sv_repo sv)
      \<and> r' = (sv_repo sv)\<lparr>pa_events := pa_events (sv_repo sv) @ [c], pa_checkpoint := Some (checkpoint_of c)\<rparr>
      \<and> pa_fault (sv_repo sv) = None"
    by (rule postgres_Append_cases) (use assms(4) in auto)
  ultimately show ?thesis by simp
qed

definition demo_intent :: intent where
  "demo_intent = no_intent\<lparr>in_event_id := ''aud_x'', in_actor_type := ''user'', in_action := ''FILE_MOVED'',
     in_resource_type := ''file'', in_outcome := ''success'', in_occurred_at := 1\<rparr>"

definition demo_backlog :: "(postgres_audit, file_anchor) audit_service" where
  "demo_backlog = demo_service\<lparr>sv_repo := empty_tables\<lparr>pa_outbox := [(''aud_x'', \<lparr>ob_intent = demo_intent,
     ob_dispatched_at = None, ob_chain_sequence = None, ob_last_error = [], ob_attempts = 0\<rparr>)]\<rparr>\<rparr>"

lemma demo_service_simps [simp]:
  "sv_ops demo_service = postgres_ops demo_platform" "sv_repo demo_service = empty_tables"
  "sv_keys demo_service = demo_keys" "sv_current_key_version demo_service = ''v1''"
  by (simp_all add: demo_service_def)

lemma outbox_ok_Nil [simp]: "outbox_ok []"
  by (simp add: outbox_ok_def)

lemma demo_backlog_invar: "postgres_invar demo_platform (sv_repo demo_backlog)"
proof -
  have "Validate demo_intent = Inr ()"
    by (simp add: Validate_def demo_intent_def no_intent_def trim_space_plain plain_char_def zero_time_def)
  then show ?thesis
    using empty_tables_invar [of demo_platform]
    by (simp add: demo_backlog_def postgres_invar_def postgres_head_def outbox_ok_Cons demo_intent_def)
qed

theorem flush_exactly_once_witness:
  "\<exists>sv'. FlushOutbox demo_platform (\<lambda>i. 0) 10 demo_backlog = (sv', 1, None)
     \<and> pending_intents (pa_outbox (sv_repo sv')) = []
     \<and> length (filter (\<lambda>e. ev_id e = ''aud_x'') (pa_events (sv_repo sv'))) = 1"
proof -
  obtain sv' n err where flush: "FlushOutbox demo_platform (\<lambda>i. 0) 10 demo_backlog = (sv', n, err)"
    using prod_cases3 by blast
  have pending: "pending_intents (pa_outbox (sv_repo demo_backlog)) = [demo_intent]"
    by (simp add: demo_backlog_def pending_intents_def mvals_def pending_row_def)
  have "safe ''aud_x'' = ''aud_x''" by (rule safe_plain) (simp_all add: plain_char_def)
  then have safe: "safe (in_event_id demo_intent) = in_event_id demo_intent" by (simp add: demo_intent_def)
  have "sv_ops demo_backlog = postgres_ops demo_platform" "pa_fault (sv_repo demo_backlog) = None"
    by (simp_all add: demo_backlog_def empty_tables_def)
  from flush_exactly_once [OF this(1) demo_backlog_invar this(2) _ refl flush] safe pending
  show ?thesis using flush by (simp add: demo_intent_def)
qed

text \<open>
  C9: key rotation is all or nothing. A rotation that fails leaves the service as it was, its key
  version included; a rotation to the version in use changes nothing; otherwise the service then uses
  the requested version, which its keyring holds with at least 32 bytes, and the log has grown by
  exactly the rotation event, authenticated under the new key and naming both versions.
\<close>

theorem rotation_atomic:
  assumes "sv_ops sv = postgres_ops P" and "postgres_invar P (sv_repo sv)"
    and "\<forall>x \<in> set (pa_events (sv_repo sv)). ev_id x \<noteq> ''aud_'' @ b64_encode raw"
    and "RotateTo P (Inr raw) clk version sv = (sv', res)"
  shows "case res of
      Inl _ \<Rightarrow> sv' = sv
    | Inr None \<Rightarrow> sv' = sv \<and> safe version = sv_current_key_version sv
    | Inr (Some e) \<Rightarrow> sv_current_key_version sv' = safe version
        \<and> 32 \<le> length (mget [] (sv_keys sv') (safe version))
        \<and> pa_events (sv_repo sv') = pa_events (sv_repo sv) @ [e]
        \<and> authentic P (sv_keys sv') e \<and> ev_key_version e = safe version
        \<and> ev_action e = safe ''AUDIT_KEY_ROTATED''
        \<and> ev_from_state e = safe (sv_current_key_version sv) \<and> ev_to_state e = safe (safe version)"
proof (cases "safe version = [] \<or> length (mget [] (sv_keys sv) (safe version)) < 32
      \<or> safe version = sv_current_key_version sv")
  case True
  with assms(4) show ?thesis by (auto simp: RotateTo_def Let_def split: if_splits)
next
  case False
  define sv1 where "sv1 = sv\<lparr>sv_current_key_version := safe version\<rparr>"
  define i where "i = rotation_input (sv_current_key_version sv) (safe version)"
  define e where "e = event_of_input (''aud_'' @ b64_encode raw) (clk 0) (safe version)
      (networkFingerprint P sv1 (ip_network_address i)) i"
  obtain sv2 r where app: "appendEvent P (clk 1) e sv1 = (sv2, r)" by fastforce
  have "Append P (Inr raw) clk i sv1 = (sv2, r)"
    using app by (simp add: Append_def audit_opaqueID_def e_def sv1_def)
  with False assms(4) have out: "(sv', res) = (case r of
      Inl x \<Rightarrow> (sv2\<lparr>sv_current_key_version := sv_current_key_version sv\<rparr>, Inl x) | Inr x \<Rightarrow> (sv2, Inr (Some x)))"
    by (simp add: RotateTo_def Let_def sv1_def i_def split: sum.splits)
  have ops: "sv_ops sv1 = postgres_ops P" "postgres_invar P (sv_repo sv1)"
    using assms(1,2) by (simp_all add: sv1_def)
  show ?thesis
  proof (cases r)
    case (Inl x)
    then have "sv2 = sv1" using appendEvent_error_repo [OF ops] app by blast
    then show ?thesis using Inl out by (simp add: sv1_def)
  next
    case (Inr c)
    have eid: "ev_id e = ''aud_'' @ b64_encode raw" "ev_key_version e = safe version"
      by (simp_all add: e_def event_of_input_def)
    from appendEvent_fresh [OF ops] app Inr assms(3) eid have
      c: "c = postgres_next P e (computeMAC P (sv_keys sv)) (sv_repo sv)"
      "pa_events (sv_repo sv2) = pa_events (sv_repo sv) @ [c]"
      by (simp_all add: sv1_def)
    have "map_of (sv_keys sv) (ev_key_version e) \<noteq> None"
      using False eid by (auto simp: mget_def split: option.splits)
    then have "authentic P (sv_keys sv) c" using c(1) chained_authentic by (simp add: postgres_next_def)
    moreover have "ev_action c = safe ''AUDIT_KEY_ROTATED''" "ev_key_version c = safe version"
      "ev_from_state c = safe (sv_current_key_version sv)" "ev_to_state c = safe (safe version)"
      using c(1) by (simp_all add: postgres_next_def chained_def Let_def e_def event_of_input_def
          i_def rotation_input_def)
    moreover have "sv_keys sv2 = sv_keys sv" "sv_current_key_version sv2 = safe version"
      using appendEvent_frames [OF app] by (simp_all add: sv1_def)
    ultimately show ?thesis using False Inr out c(2) by (simp add: not_less)
  qed
qed

definition demo_rotating :: "(postgres_audit, file_anchor) audit_service" where
  "demo_rotating = demo_service\<lparr>sv_keys := (''v2'', replicate 32 (CHR ''q'')) # demo_keys\<rparr>"

theorem rotation_atomic_witness:
  "case snd (RotateTo demo_platform (Inr ''r'') (\<lambda>i. 0) ''v2'' demo_rotating) of Inr (Some e) \<Rightarrow>
     pa_events (sv_repo (fst (RotateTo demo_platform (Inr ''r'') (\<lambda>i. 0) ''v2'' demo_rotating))) = [e]
     \<and> ev_key_version e = ''v2'' | _ \<Rightarrow> False"
proof -
  obtain sv' res where rot: "RotateTo demo_platform (Inr ''r'') (\<lambda>i. 0) ''v2'' demo_rotating = (sv', res)"
    by fastforce
  have v2: "safe ''v2'' = ''v2''" by (rule safe_plain) (simp_all add: plain_char_def)
  have sv: "sv_ops demo_rotating = postgres_ops demo_platform" "sv_repo demo_rotating = empty_tables"
    "mget [] (sv_keys demo_rotating) ''v2'' = replicate 32 (CHR ''q'')"
    "sv_current_key_version demo_rotating = ''v1''"
    by (simp_all add: demo_rotating_def mget_def)
  have none: "pa_events empty_tables = []" by (simp add: empty_tables_def)
  note atomic = rotation_atomic [OF sv(1) _ _ rot, unfolded sv(2) none v2, OF empty_tables_invar]
  have "op_append (postgres_ops demo_platform) = postgres_Append demo_platform" by (simp add: postgres_ops_def)
  then have "\<exists>sv' e. RotateTo demo_platform (Inr ''r'') (\<lambda>i. 0) ''v2'' demo_rotating = (sv', Inr (Some e))"
    using sv v2 by (simp add: RotateTo_def Let_def Append_def audit_opaqueID_def appendEvent_def
        postgres_Append_first split: option.splits prod.splits)
  with rot obtain e where "res = Inr (Some e)" by auto
  with atomic rot show ?thesis by simp
qed

section \<open>Anchoring\<close>

lemma latest_line_snoc: "None \<notin> set ls \<Longrightarrow> latest_line found (ls @ [Some rec]) = Inr rec"
  by (induction found ls rule: latest_line.induct) auto

definition anchored_after :: "platform \<Rightarrow> (postgres_audit, file_anchor) audit_service \<Rightarrow> event \<Rightarrow> time \<Rightarrow> bool" where
  "anchored_after P sv c now \<longleftrightarrow> (\<exists>a ls rec. sv_anchor sv = Some (file_anchor_ops, a) \<and> fa_fault a = None
     \<and> None \<notin> set ls \<and> fa_lines a = ls @ [Some rec] \<and> rec = (anchor_record_of c now)
        \<lparr>ar_signature := signAnchor P (sv_anchor_key sv) (anchor_record_of c now)\<rparr>)"

lemma appendEvent_anchored:
  assumes "appendEvent P now e sv = (sv', Inr c)" and "sv_anchor sv = Some (file_anchor_ops, a)"
    and "fa_fault a = None" "None \<notin> set (fa_lines a)"
  shows "anchored_after P sv' c now"
proof -
  have "an_verify file_anchor_ops = None" "an_append file_anchor_ops = file_Append"
    by (simp_all add: file_anchor_ops_def)
  with assms show ?thesis
    by (auto simp: appendEvent_def Let_def anchored_after_def file_Append_def split: prod.splits sum.splits)
qed

lemma anchorVerification_after:
  assumes "anchored_after P sv c now" and "cp_chain_id cp = chainID"
  shows "av_valid (anchorVerification P sv cp) \<longleftrightarrow> ev_key_version c = cp_key_version cp
      \<and> ev_sequence c = cp_last_sequence cp \<and> ev_mac c = cp_last_mac cp"
    and "av_connected (anchorVerification P sv cp)"
    and "av_anchored_through (anchorVerification P sv cp) = ev_sequence c"
proof -
  define rec where "rec = (anchor_record_of c now)
      \<lparr>ar_signature := signAnchor P (sv_anchor_key sv) (anchor_record_of c now)\<rparr>"
  from assms(1) obtain a ls where a: "sv_anchor sv = Some (file_anchor_ops, a)" "fa_fault a = None"
    "None \<notin> set ls" "fa_lines a = ls @ [Some rec]"
    by (auto simp: anchored_after_def rec_def)
  have latest: "an_latest file_anchor_ops a = Inr rec"
    using a latest_line_snoc by (simp add: file_anchor_ops_def file_Latest_def)
  have "rec\<lparr>ar_signature := []\<rparr> = anchor_record_of c now"
    by (simp add: rec_def anchor_record_of_def)
  then have sig: "validAnchorSignature P (sv_anchor_key sv) rec"
    by (simp add: validAnchorSignature_def rec_def signAnchor_def Let_def b64_roundtrip)
  have posture: "an_verify file_anchor_ops = None" "ap_connected (an_posture file_anchor_ops a)"
    by (simp_all add: file_anchor_ops_def file_Posture_def)
  have rec: "ar_chain_id rec = chainID" "ar_sequence rec = ev_sequence c"
    "ar_key_version rec = ev_key_version c" "b64_decode (ar_checkpoint rec) = Some (ev_mac c)"
    by (simp_all add: rec_def anchor_record_of_def b64_roundtrip)
  have "anchorVerification P sv cp =
     (let result = \<lparr>av_connected = ap_connected (an_posture file_anchor_ops a),
                 av_production_ready = ap_production_ready (an_posture file_anchor_ops a),
                 av_adapter = ap_adapter (an_posture file_anchor_ops a),
                 av_detail = ap_detail (an_posture file_anchor_ops a), av_valid = False,
                 av_anchored_through = ev_sequence c,
                 av_anchored_at = ar_anchored_at rec, av_failure_category = []\<rparr>
      in if ev_key_version c \<noteq> cp_key_version cp \<or> ev_sequence c \<noteq> cp_last_sequence cp \<or> ev_mac c \<noteq> cp_last_mac cp
         then result\<lparr>av_failure_category := ''anchor_checkpoint_mismatch''\<rparr>
         else result\<lparr>av_valid := True\<rparr>)"
    using a(1) latest posture sig rec assms(2) by (auto simp: anchorVerification_def Let_def)
  then show "av_valid (anchorVerification P sv cp) \<longleftrightarrow> ev_key_version c = cp_key_version cp
      \<and> ev_sequence c = cp_last_sequence cp \<and> ev_mac c = cp_last_mac cp"
    and "av_connected (anchorVerification P sv cp)"
    and "av_anchored_through (anchorVerification P sv cp) = ev_sequence c"
    using posture(2) by (simp_all add: Let_def)
qed

lemma Verify_anchor:
  assumes "sv_ops sv = postgres_ops P" "postgres_invar P (sv_repo sv)" "pa_fault (sv_repo sv) = None"
    and "\<forall>e \<in> set (pa_events (sv_repo sv)). authentic P (sv_keys sv) e"
  shows "\<exists>result. Verify P sv = Inr result \<and> vf_valid result
     \<and> vf_anchor result = anchorVerification P sv (postgres_head P (sv_repo sv))"
proof -
  have "chain_ok P (sv_keys sv) (pa_events (sv_repo sv)) (postgres_head P (sv_repo sv))"
    using assms(2,4) by (simp add: chain_ok_def postgres_invar_def head_agrees_def)
  then show ?thesis
    using postgres_LoadChain_eq [OF assms(2,3)] assms(1)
    by (simp add: Verify_def postgres_ops_def verify_chain_ok initial_verification_def)
qed

text \<open>
  C10: anchoring. On a service whose log is authentic and whose anchor file is usable, appending an
  event that is not in the log yet leaves a log that verifies together with its anchor: the last
  anchored record carries the new event's number, MAC and key, under a valid signature.
\<close>

theorem append_anchors_checkpoint:
  assumes "sv_ops sv = postgres_ops P" "postgres_invar P (sv_repo sv)"
    and "\<forall>e \<in> set (pa_events (sv_repo sv)). authentic P (sv_keys sv) e"
    and "map_of (sv_keys sv) (sv_current_key_version sv) \<noteq> None"
    and "sv_anchor sv = Some (file_anchor_ops, a)" "fa_fault a = None" "None \<notin> set (fa_lines a)"
    and "\<forall>x \<in> set (pa_events (sv_repo sv)). ev_id x \<noteq> ''aud_'' @ b64_encode raw"
    and "Append P (Inr raw) clk input sv = (sv', Inr c)"
  shows "\<exists>result. Verify P sv' = Inr result \<and> vf_valid result \<and> av_valid (vf_anchor result)
    \<and> av_anchored_through (vf_anchor result) = int (length (pa_events (sv_repo sv))) + 1"
proof -
  define e where "e = event_of_input (''aud_'' @ b64_encode raw) (clk 0) (sv_current_key_version sv)
      (networkFingerprint P sv (ip_network_address input)) input"
  have app: "appendEvent P (clk 1) e sv = (sv', Inr c)"
    using assms(9) by (simp add: Append_def audit_opaqueID_def e_def)
  have eid: "ev_id e = ''aud_'' @ b64_encode raw" "ev_key_version e = sv_current_key_version sv"
    by (simp_all add: e_def event_of_input_def)
  from appendEvent_fresh [OF assms(1,2) app] assms(8) eid
  have c: "c = postgres_next P e (computeMAC P (sv_keys sv)) (sv_repo sv)" "pa_fault (sv_repo sv) = None"
    and repo: "sv_repo sv' = (sv_repo sv)\<lparr>pa_events := pa_events (sv_repo sv) @ [c],
       pa_checkpoint := Some (checkpoint_of c)\<rparr>" by simp_all
  have keys: "sv_ops sv' = postgres_ops P" "sv_keys sv' = sv_keys sv"
    using appendEvent_frames [OF app] assms(1) by simp_all
  have "authentic P (sv_keys sv) c" using c(1) chained_authentic eid(2) assms(4) by (simp add: postgres_next_def)
  then have auth: "\<forall>e \<in> set (pa_events (sv_repo sv')). authentic P (sv_keys sv') e"
    using assms(3) keys(2) repo by simp
  have "postgres_invar P (sv_repo sv')"
    using postgres_Append_invar [OF assms(2), of e "computeMAC P (sv_keys sv)"]
      appendEvent_repo [of P "clk 1" e sv] app assms(1) by (simp add: postgres_ops_def)
  from Verify_anchor [OF keys(1) this _ auth] c(2) repo obtain result where
    result: "Verify P sv' = Inr result" "vf_valid result"
      "vf_anchor result = anchorVerification P sv' (postgres_head P (sv_repo sv'))" by auto
  have head: "postgres_head P (sv_repo sv') = checkpoint_of c" by (simp add: repo postgres_head_def)
  have "anchored_after P sv' c (clk 1)" by (rule appendEvent_anchored [OF app assms(5-7)])
  from anchorVerification_after [OF this, of "checkpoint_of c"] result head c(1)
  show ?thesis by (simp add: checkpoint_of_def postgres_next_def)
qed

definition demo_anchored :: "(postgres_audit, file_anchor) audit_service" where
  "demo_anchored = demo_service\<lparr>sv_anchor := Some (file_anchor_ops, \<lparr>fa_lines = [], fa_fault = None\<rparr>)\<rparr>"

theorem append_anchors_checkpoint_witness:
  "\<exists>result. Verify demo_platform (fst (Append demo_platform (Inr ''r'') (\<lambda>i. 0) demo_input demo_anchored)) = Inr result
    \<and> av_valid (vf_anchor result) \<and> av_anchored_through (vf_anchor result) = 1"
proof -
  obtain sv' res where app: "Append demo_platform (Inr ''r'') (\<lambda>i. 0) demo_input demo_anchored = (sv', res)"
    by fastforce
  have sv: "sv_ops demo_anchored = postgres_ops demo_platform" "sv_repo demo_anchored = empty_tables"
    "sv_keys demo_anchored = demo_keys" "sv_current_key_version demo_anchored = ''v1''"
    "sv_anchor demo_anchored = Some (file_anchor_ops, \<lparr>fa_lines = [], fa_fault = None\<rparr>)"
    by (simp_all add: demo_anchored_def)
  have none: "pa_events empty_tables = []" by (simp add: empty_tables_def)
  have "op_append (postgres_ops demo_platform) = postgres_Append demo_platform" by (simp add: postgres_ops_def)
  then have "\<exists>c. snd (Append demo_platform (Inr ''r'') (\<lambda>i. 0) demo_input demo_anchored) = Inr c"
    using sv by (simp add: Append_def audit_opaqueID_def appendEvent_result postgres_Append_first)
  with app obtain c where c: "Append demo_platform (Inr ''r'') (\<lambda>i. 0) demo_input demo_anchored = (sv', Inr c)"
    by auto
  have "map_of demo_keys ''v1'' \<noteq> None" by (simp add: demo_keys_def)
  with append_anchors_checkpoint [OF sv(1) _ _ _ sv(5) _ _ _ c, unfolded sv none] empty_tables_invar c
  show ?thesis by auto
qed






end
