(* ===== verification/IdentityRepo.thy ===== *)
theory IdentityRepo
  imports AuditOutbox
begin

text \<open>
  Accounts, sessions and multi-factor state (internal/authn: the types of store.go, mfa.go,
  step_up.go and privileged_provisioning.go, and memory_repository.go). The repository interfaces
  are a record of operations; the memory repository is one value with a map per Go map. The contract
  the identity service relies on is the locale \<open>identity_repository\<close>, interpreted on the memory
  repository.
\<close>

section \<open>Data\<close>

record user =
  u_id :: string
  u_name :: string
  u_email :: string
  u_role :: string

record user_record =
  ur_user :: user
  ur_password_hash :: bytes
  ur_email_verified_at :: "time option"
  ur_verification_sent_at :: "time option"
  ur_created_at :: time
  ur_account_status :: string
  ur_failed_login_attempts :: int
  ur_failed_login_window_started_at :: "time option"
  ur_locked_until :: "time option"

abbreviation ur_id :: "user_record \<Rightarrow> string" where "ur_id rec \<equiv> u_id (ur_user rec)"
abbreviation ur_name :: "user_record \<Rightarrow> string" where "ur_name rec \<equiv> u_name (ur_user rec)"
abbreviation ur_email :: "user_record \<Rightarrow> string" where "ur_email rec \<equiv> u_email (ur_user rec)"
abbreviation ur_role :: "user_record \<Rightarrow> string" where "ur_role rec \<equiv> u_role (ur_user rec)"

text \<open>\<open>User{}\<close> and \<open>UserRecord{}\<close>, what reading a missing key of the account map gives.\<close>

definition zero_user :: user where
  "zero_user = \<lparr>u_id = [], u_name = [], u_email = [], u_role = []\<rparr>"

definition zero_record :: user_record where
  "zero_record = \<lparr>ur_user = zero_user, ur_password_hash = [], ur_email_verified_at = None,
     ur_verification_sent_at = None, ur_created_at = zero_time, ur_account_status = [],
     ur_failed_login_attempts = 0, ur_failed_login_window_started_at = None, ur_locked_until = None\<rparr>"

record admin_user =
  au_id :: string
  au_name :: string
  au_email :: string
  au_role :: string
  au_verification_status :: string
  au_account_status :: string
  au_email_verified_at :: "time option"
  au_created_at :: time

record session =
  ss_user :: user
  ss_audience :: string
  ss_csrf_token :: string
  ss_expires_at :: time

definition SessionAudienceUser :: string where "SessionAudienceUser = ''user''"
definition SessionAudiencePrivileged :: string where "SessionAudiencePrivileged = ''privileged''"

record verification_record =
  vr_user_id :: string
  vr_expires_at :: time
  vr_consumed_at :: "time option"

record mfa_configuration =
  mc_user_id :: string
  mc_secret_ciphertext :: bytes
  mc_secret_nonce :: bytes
  mc_confirmed_at :: time
  mc_last_counter :: int64

record mfa_challenge_record =
  cr_user :: user
  cr_pending_secret_ciphertext :: bytes
  cr_pending_secret_nonce :: bytes
  cr_expires_at :: time

record step_up_proof_record =
  sp_session_hash :: bytes
  sp_user_id :: string
  sp_expires_at :: time

record privileged_invitation =
  pi_invited_by :: string
  pi_name :: string
  pi_email :: string
  pi_role :: string
  pi_expires_at :: time

datatype auth_error =
    ErrInvalidCredentials | ErrEmailNotVerified | ErrRegistration | ErrInvalidInput | ErrSessionNotFound
  | ErrVerificationToken | ErrUserNotFound | ErrDuplicateUser | ErrSelfManagement | ErrMFAInvalid
  | ErrMFAChallenge | ErrMFANotConfigured | ErrStepUpRequired | ErrInvitationToken
  | AuthUnsupported | AuthConfiguration string | AuthRandom string | AuthMail string
  | AuthStorage string | AuthPanic

text \<open>What \<open>roleAllowedForAudience\<close> says of a role at a login boundary.\<close>

definition roleAllowedForAudience :: "string \<Rightarrow> string \<Rightarrow> bool" where
  "roleAllowedForAudience role audience =
     (if audience = SessionAudienceUser then role = ''user''
      else if audience = SessionAudiencePrivileged then role = ''admin'' \<or> role = ''auditor''
      else False)"

definition normalizeEmail :: "platform \<Rightarrow> string \<Rightarrow> string" where
  "normalizeEmail P v = to_lower P (trim_space v)"

section \<open>The repository interfaces\<close>

text \<open>
  \<open>Repository\<close> with its optional extensions: \<open>MFARepository\<close>, \<open>StepUpRepository\<close>,
  \<open>PrivilegedInvitationRepository\<close> and the audited variants a durable repository has. An operation
  that changes the repository returns it with the result; hashes are the 32-byte SHA-256 digests.
\<close>

record 'r mfa_ops =
  mo_configuration :: "string \<Rightarrow> 'r \<Rightarrow> auth_error + mfa_configuration"
  mo_create_challenge :: "bytes \<Rightarrow> mfa_challenge_record \<Rightarrow> time \<Rightarrow> 'r \<Rightarrow> 'r \<times> (auth_error + unit)"
  mo_consume_challenge :: "bytes \<Rightarrow> time \<Rightarrow> 'r \<Rightarrow> 'r \<times> (auth_error + mfa_challenge_record)"
  mo_confirm :: "string \<Rightarrow> bytes \<Rightarrow> bytes \<Rightarrow> int64 \<Rightarrow> bytes list \<Rightarrow> time \<Rightarrow> 'r \<Rightarrow> 'r \<times> (auth_error + unit)"
  mo_advance_counter :: "string \<Rightarrow> int64 \<Rightarrow> 'r \<Rightarrow> 'r \<times> (auth_error + bool)"
  mo_consume_recovery_code :: "string \<Rightarrow> bytes \<Rightarrow> time \<Rightarrow> 'r \<Rightarrow> 'r \<times> (auth_error + bool)"

record 'r step_up_ops =
  so_create_proof :: "bytes \<Rightarrow> bytes \<Rightarrow> string \<Rightarrow> time \<Rightarrow> time \<Rightarrow> 'r \<Rightarrow> 'r \<times> (auth_error + unit)"
  so_proof_valid :: "bytes \<Rightarrow> bytes \<Rightarrow> string \<Rightarrow> time \<Rightarrow> 'r \<Rightarrow> auth_error + bool"

record 'r invitation_ops =
  vo_create :: "bytes \<Rightarrow> privileged_invitation \<Rightarrow> time \<Rightarrow> 'r \<Rightarrow> 'r \<times> (auth_error + unit)"
  vo_accept :: "bytes \<Rightarrow> user_record \<Rightarrow> time \<Rightarrow> 'r \<Rightarrow> 'r \<times> (auth_error + user)"

record 'r audited_identity_ops =
  ao_update_status :: "string \<Rightarrow> string \<Rightarrow> intent \<Rightarrow> 'r \<Rightarrow> 'r \<times> (auth_error + unit)"
  ao_delete_sessions :: "string \<Rightarrow> intent \<Rightarrow> 'r \<Rightarrow> 'r \<times> (auth_error + unit)"
  ao_create_invitation :: "bytes \<Rightarrow> privileged_invitation \<Rightarrow> time \<Rightarrow> intent \<Rightarrow> 'r \<Rightarrow> 'r \<times> (auth_error + unit)"
  ao_accept_invitation :: "bytes \<Rightarrow> user_record \<Rightarrow> time \<Rightarrow> intent \<Rightarrow> 'r \<Rightarrow> 'r \<times> (auth_error + user)"

record 'r identity_ops =
  io_create_user :: "user_record \<Rightarrow> bytes \<Rightarrow> time \<Rightarrow> time \<Rightarrow> 'r \<Rightarrow> 'r \<times> (auth_error + unit)"
  io_user_by_email :: "string \<Rightarrow> 'r \<Rightarrow> auth_error + user_record"
  io_replace_token :: "string \<Rightarrow> bytes \<Rightarrow> time \<Rightarrow> time \<Rightarrow> duration \<Rightarrow> 'r \<Rightarrow> 'r \<times> (auth_error + bool)"
  io_consume_token :: "bytes \<Rightarrow> time \<Rightarrow> 'r \<Rightarrow> 'r \<times> (auth_error + unit)"
  io_create_session :: "bytes \<Rightarrow> session \<Rightarrow> time \<Rightarrow> 'r \<Rightarrow> 'r \<times> (auth_error + unit)"
  io_session_by_hash :: "bytes \<Rightarrow> time \<Rightarrow> 'r \<Rightarrow> 'r \<times> (auth_error + session)"
  io_delete_session :: "bytes \<Rightarrow> 'r \<Rightarrow> 'r \<times> (auth_error + unit)"
  io_list_users :: "string \<Rightarrow> int \<Rightarrow> int \<Rightarrow> (user_record \<Rightarrow> time) \<Rightarrow> 'r \<Rightarrow> auth_error + (admin_user list \<times> int)"
  io_update_status :: "string \<Rightarrow> string \<Rightarrow> 'r \<Rightarrow> 'r \<times> (auth_error + unit)"
  io_delete_sessions :: "string \<Rightarrow> 'r \<Rightarrow> 'r \<times> (auth_error + unit)"
  io_user_exists :: "string \<Rightarrow> 'r \<Rightarrow> auth_error + bool"
  io_user_role :: "string \<Rightarrow> 'r \<Rightarrow> auth_error + string"
  io_record_failure :: "string \<Rightarrow> time \<Rightarrow> duration \<Rightarrow> int \<Rightarrow> duration \<Rightarrow> 'r \<Rightarrow> 'r \<times> (auth_error + bool)"
  io_clear_failures :: "string \<Rightarrow> 'r \<Rightarrow> 'r \<times> (auth_error + unit)"
  io_update_role :: "string \<Rightarrow> string \<Rightarrow> 'r \<Rightarrow> 'r \<times> (auth_error + unit)"
  io_mfa :: "'r mfa_ops option"
  io_step_up :: "'r step_up_ops option"
  io_invitations :: "'r invitation_ops option"
  io_audited :: "'r audited_identity_ops option"

section \<open>The memory repository\<close>

record memory_identity =
  mi_users :: "(string, user_record) gomap"
  mi_email_by_id :: "(string, string) gomap"
  mi_verifications :: "(bytes, verification_record) gomap"
  mi_sessions :: "(bytes, session) gomap"
  mi_mfa_configs :: "(string, mfa_configuration) gomap"
  mi_mfa_challenges :: "(bytes, mfa_challenge_record) gomap"
  mi_recovery_codes :: "(string, (bytes, time option) gomap) gomap"
  mi_step_up_proofs :: "(bytes, step_up_proof_record) gomap"
  mi_invitations :: "(bytes, privileged_invitation) gomap"

definition NewMemoryIdentity :: memory_identity where
  "NewMemoryIdentity = \<lparr>mi_users = [], mi_email_by_id = [], mi_verifications = [], mi_sessions = [],
     mi_mfa_configs = [], mi_mfa_challenges = [], mi_recovery_codes = [], mi_step_up_proofs = [],
     mi_invitations = []\<rparr>"

definition CreateUserWithVerification ::
    "user_record \<Rightarrow> bytes \<Rightarrow> time \<Rightarrow> time \<Rightarrow> memory_identity \<Rightarrow> memory_identity \<times> (auth_error + unit)" where
  "CreateUserWithVerification rec tokenHash expiresAt now r =
     (if map_of (mi_users r) (ur_email rec) \<noteq> None then (r, Inl ErrDuplicateUser)
      else (r\<lparr>mi_users := mput (ur_email rec) (rec\<lparr>ur_verification_sent_at := Some now\<rparr>) (mi_users r),
              mi_email_by_id := mput (ur_id rec) (ur_email rec) (mi_email_by_id r),
              mi_verifications := mput tokenHash \<lparr>vr_user_id = ur_id rec, vr_expires_at = expiresAt,
                 vr_consumed_at = None\<rparr> (mi_verifications r)\<rparr>, Inr ()))"

definition UserByEmail :: "string \<Rightarrow> memory_identity \<Rightarrow> auth_error + user_record" where
  "UserByEmail email r =
     (case map_of (mi_users r) email of None \<Rightarrow> Inl ErrUserNotFound | Some rec \<Rightarrow> Inr rec)"

definition ReplaceVerificationToken ::
    "string \<Rightarrow> bytes \<Rightarrow> time \<Rightarrow> time \<Rightarrow> duration \<Rightarrow> memory_identity \<Rightarrow> memory_identity \<times> (auth_error + bool)" where
  "ReplaceVerificationToken userID tokenHash expiresAt now minimumInterval r =
     (case map_of (mi_email_by_id r) userID of
        None \<Rightarrow> (r, Inl ErrUserNotFound)
      | Some email \<Rightarrow>
          (let rec = mget zero_record (mi_users r) email in
           if ur_email_verified_at rec \<noteq> None then (r, Inr False)
           else if (case ur_verification_sent_at rec of None \<Rightarrow> False
                    | Some sent \<Rightarrow> time_sub now sent < minimumInterval) then (r, Inr False)
           else (r\<lparr>mi_verifications := mput tokenHash \<lparr>vr_user_id = userID, vr_expires_at = expiresAt,
                       vr_consumed_at = None\<rparr>
                     (mretain (\<lambda>h v. \<not> (vr_user_id v = userID \<and> vr_consumed_at v = None)) (mi_verifications r)),
                   mi_users := mput email (rec\<lparr>ur_verification_sent_at := Some now\<rparr>) (mi_users r)\<rparr>,
                 Inr True)))"

definition ConsumeVerificationToken ::
    "bytes \<Rightarrow> time \<Rightarrow> memory_identity \<Rightarrow> memory_identity \<times> (auth_error + unit)" where
  "ConsumeVerificationToken tokenHash now r =
     (case map_of (mi_verifications r) tokenHash of
        None \<Rightarrow> (r, Inl ErrVerificationToken)
      | Some v \<Rightarrow>
          if vr_consumed_at v \<noteq> None \<or> \<not> now < vr_expires_at v then (r, Inl ErrVerificationToken)
          else case map_of (mi_email_by_id r) (vr_user_id v) of
            None \<Rightarrow> (r, Inl ErrVerificationToken)
          | Some email \<Rightarrow>
              (let rec = mget zero_record (mi_users r) email in
               if ur_email_verified_at rec \<noteq> None then (r, Inl ErrVerificationToken)
               else (r\<lparr>mi_verifications := mput tokenHash (v\<lparr>vr_consumed_at := Some now\<rparr>) (mi_verifications r),
                       mi_users := mput email (rec\<lparr>ur_email_verified_at := Some now\<rparr>) (mi_users r)\<rparr>, Inr ())))"

definition CreateSession ::
    "bytes \<Rightarrow> session \<Rightarrow> time \<Rightarrow> memory_identity \<Rightarrow> memory_identity \<times> (auth_error + unit)" where
  "CreateSession tokenHash s createdAt r =
     (r\<lparr>mi_sessions := mput tokenHash s (mi_sessions r)\<rparr>, Inr ())"

definition SessionByHash ::
    "bytes \<Rightarrow> time \<Rightarrow> memory_identity \<Rightarrow> memory_identity \<times> (auth_error + session)" where
  "SessionByHash tokenHash now r =
     (case map_of (mi_sessions r) tokenHash of
        None \<Rightarrow> (r, Inl ErrSessionNotFound)
      | Some s \<Rightarrow>
          if \<not> now < ss_expires_at s
          then (r\<lparr>mi_sessions := mdelete tokenHash (mi_sessions r)\<rparr>, Inl ErrSessionNotFound)
          else (r, Inr s))"

definition DeleteSession :: "bytes \<Rightarrow> memory_identity \<Rightarrow> memory_identity \<times> (auth_error + unit)" where
  "DeleteSession tokenHash r = (r\<lparr>mi_sessions := mdelete tokenHash (mi_sessions r)\<rparr>, Inr ())"

text \<open>
  \<open>ListUsers\<close>: \<open>clock rec\<close> is the clock reading for the record's lock. The sort of the listing is
  not stable in Go; the iteration order it starts from is arbitrary, so the stable sort of an
  arbitrary order has the same results.
\<close>

definition admin_view :: "(user_record \<Rightarrow> time) \<Rightarrow> user_record \<Rightarrow> admin_user" where
  "admin_view clock rec = \<lparr>au_id = ur_id rec, au_name = ur_name rec, au_email = ur_email rec,
     au_role = ur_role rec,
     au_verification_status = (if ur_email_verified_at rec \<noteq> None then ''verified'' else ''pending''),
     au_account_status = (case ur_locked_until rec of None \<Rightarrow> ur_account_status rec
        | Some until \<Rightarrow> if clock rec < until then ''locked'' else ur_account_status rec),
     au_email_verified_at = ur_email_verified_at rec, au_created_at = ur_created_at rec\<rparr>"

definition memory_ListUsers ::
    "platform \<Rightarrow> string \<Rightarrow> int \<Rightarrow> int \<Rightarrow> (user_record \<Rightarrow> time) \<Rightarrow> memory_identity
       \<Rightarrow> auth_error + (admin_user list \<times> int)" where
  "memory_ListUsers P search limit offset clock r =
     (let needle = to_lower P search;
          users = map (admin_view clock)
            (filter (\<lambda>rec. needle = [] \<or> contains_str (to_lower P (ur_name rec)) needle
               \<or> contains_str (ur_email rec) needle) (mvals (mi_users r)));
          users = sort_key (\<lambda>u. - au_created_at u) users
      in Inr (page_of offset limit users, int (length users)))"

definition drop_sessions_of :: "string \<Rightarrow> (bytes, session) gomap \<Rightarrow> (bytes, session) gomap" where
  "drop_sessions_of userID sessions = mretain (\<lambda>h s. u_id (ss_user s) \<noteq> userID) sessions"

definition UpdateUserStatusAndDeleteSessions ::
    "string \<Rightarrow> string \<Rightarrow> memory_identity \<Rightarrow> memory_identity \<times> (auth_error + unit)" where
  "UpdateUserStatusAndDeleteSessions userID status r =
     (case map_of (mi_email_by_id r) userID of
        None \<Rightarrow> (r, Inl ErrUserNotFound)
      | Some email \<Rightarrow>
          (let rec = (mget zero_record (mi_users r) email)\<lparr>ur_account_status := status\<rparr>;
               rec = (if status = ''active''
                      then rec\<lparr>ur_failed_login_attempts := 0, ur_failed_login_window_started_at := None,
                             ur_locked_until := None\<rparr>
                      else rec)
           in (r\<lparr>mi_users := mput email rec (mi_users r),
                 mi_sessions := drop_sessions_of userID (mi_sessions r)\<rparr>, Inr ())))"

definition DeleteSessionsForUser ::
    "string \<Rightarrow> memory_identity \<Rightarrow> memory_identity \<times> (auth_error + unit)" where
  "DeleteSessionsForUser userID r =
     (if map_of (mi_email_by_id r) userID = None then (r, Inl ErrUserNotFound)
      else (r\<lparr>mi_sessions := drop_sessions_of userID (mi_sessions r)\<rparr>, Inr ()))"

definition memory_UserExists :: "string \<Rightarrow> memory_identity \<Rightarrow> auth_error + bool" where
  "memory_UserExists userID r = Inr (map_of (mi_email_by_id r) userID \<noteq> None)"

definition memory_UserRole :: "string \<Rightarrow> memory_identity \<Rightarrow> auth_error + string" where
  "memory_UserRole userID r =
     (case map_of (mi_email_by_id r) userID of None \<Rightarrow> Inl ErrUserNotFound
      | Some email \<Rightarrow> Inr (ur_role (mget zero_record (mi_users r) email)))"

text \<open>The account after a failed attempt: a window that has passed starts anew, the threshold locks.\<close>

definition failed_attempt :: "time \<Rightarrow> duration \<Rightarrow> int \<Rightarrow> duration \<Rightarrow> user_record \<Rightarrow> user_record" where
  "failed_attempt now window threshold lockDuration rec =
     (let rec = (if (case ur_failed_login_window_started_at rec of None \<Rightarrow> True
                     | Some start \<Rightarrow> \<not> now - window < start)
                 then rec\<lparr>ur_failed_login_attempts := 0, ur_failed_login_window_started_at := Some now\<rparr>
                 else rec);
          rec = rec\<lparr>ur_failed_login_attempts := ur_failed_login_attempts rec + 1\<rparr>
      in if ur_failed_login_attempts rec \<ge> threshold
         then rec\<lparr>ur_locked_until := Some (now + lockDuration)\<rparr> else rec)"

definition locked_at :: "user_record \<Rightarrow> time \<Rightarrow> bool" where
  "locked_at rec now = (case ur_locked_until rec of None \<Rightarrow> False | Some until \<Rightarrow> now < until)"

definition RecordAuthenticationFailure ::
    "string \<Rightarrow> time \<Rightarrow> duration \<Rightarrow> int \<Rightarrow> duration \<Rightarrow> memory_identity \<Rightarrow> memory_identity \<times> (auth_error + bool)" where
  "RecordAuthenticationFailure userID now window threshold lockDuration r =
     (case map_of (mi_email_by_id r) userID of
        None \<Rightarrow> (r, Inl ErrUserNotFound)
      | Some email \<Rightarrow>
          (let rec = failed_attempt now window threshold lockDuration (mget zero_record (mi_users r) email);
               locked = locked_at rec now
           in (r\<lparr>mi_users := mput email rec (mi_users r),
                 mi_sessions := (if locked then drop_sessions_of userID (mi_sessions r) else mi_sessions r)\<rparr>,
               Inr locked)))"

definition ClearAuthenticationFailures ::
    "string \<Rightarrow> memory_identity \<Rightarrow> memory_identity \<times> (auth_error + unit)" where
  "ClearAuthenticationFailures userID r =
     (case map_of (mi_email_by_id r) userID of
        None \<Rightarrow> (r, Inl ErrUserNotFound)
      | Some email \<Rightarrow>
          (r\<lparr>mi_users := mput email ((mget zero_record (mi_users r) email)
               \<lparr>ur_failed_login_attempts := 0, ur_failed_login_window_started_at := None,
                 ur_locked_until := None\<rparr>) (mi_users r)\<rparr>, Inr ()))"

definition UpdateUserRole ::
    "platform \<Rightarrow> string \<Rightarrow> string \<Rightarrow> memory_identity \<Rightarrow> memory_identity \<times> (auth_error + unit)" where
  "UpdateUserRole P email role r =
     (if role \<noteq> ''user'' \<and> role \<noteq> ''auditor'' \<and> role \<noteq> ''admin'' then (r, Inl ErrInvalidInput)
      else case map_of (mi_users r) (normalizeEmail P email) of
        None \<Rightarrow> (r, Inl ErrUserNotFound)
      | Some rec \<Rightarrow>
          (r\<lparr>mi_users := mput (ur_email rec) (rec\<lparr>ur_user := (ur_user rec)\<lparr>u_role := role\<rparr>\<rparr>) (mi_users r),
             mi_sessions := drop_sessions_of (ur_id rec) (mi_sessions r)\<rparr>, Inr ()))"

definition memory_MFAConfiguration :: "string \<Rightarrow> memory_identity \<Rightarrow> auth_error + mfa_configuration" where
  "memory_MFAConfiguration userID r =
     (case map_of (mi_mfa_configs r) userID of None \<Rightarrow> Inl ErrMFANotConfigured | Some c \<Rightarrow> Inr c)"

definition CreateMFAChallenge ::
    "bytes \<Rightarrow> mfa_challenge_record \<Rightarrow> time \<Rightarrow> memory_identity \<Rightarrow> memory_identity \<times> (auth_error + unit)" where
  "CreateMFAChallenge hash challenge now r =
     (r\<lparr>mi_mfa_challenges := mput hash challenge (mi_mfa_challenges r)\<rparr>, Inr ())"

definition ConsumeMFAChallenge ::
    "bytes \<Rightarrow> time \<Rightarrow> memory_identity \<Rightarrow> memory_identity \<times> (auth_error + mfa_challenge_record)" where
  "ConsumeMFAChallenge hash now r =
     (case map_of (mi_mfa_challenges r) hash of
        None \<Rightarrow> (r, Inl ErrMFAChallenge)
      | Some challenge \<Rightarrow>
          if \<not> now < cr_expires_at challenge then (r, Inl ErrMFAChallenge)
          else (r\<lparr>mi_mfa_challenges := mdelete hash (mi_mfa_challenges r)\<rparr>, Inr challenge))"

definition ConfirmMFA ::
    "string \<Rightarrow> bytes \<Rightarrow> bytes \<Rightarrow> int64 \<Rightarrow> bytes list \<Rightarrow> time \<Rightarrow> memory_identity
       \<Rightarrow> memory_identity \<times> (auth_error + unit)" where
  "ConfirmMFA userID ciphertext nonce lastCounter hashes now r =
     (if map_of (mi_mfa_configs r) userID \<noteq> None then (r, Inl ErrMFAInvalid)
      else (r\<lparr>mi_mfa_configs := mput userID \<lparr>mc_user_id = userID, mc_secret_ciphertext = ciphertext,
                 mc_secret_nonce = nonce, mc_confirmed_at = now, mc_last_counter = lastCounter\<rparr> (mi_mfa_configs r),
              mi_recovery_codes := mput userID (fold (\<lambda>h codes. mput h None codes) hashes []) (mi_recovery_codes r)\<rparr>,
            Inr ()))"

definition AdvanceMFACounter ::
    "string \<Rightarrow> int64 \<Rightarrow> memory_identity \<Rightarrow> memory_identity \<times> (auth_error + bool)" where
  "AdvanceMFACounter userID counter r =
     (case map_of (mi_mfa_configs r) userID of
        None \<Rightarrow> (r, Inl ErrMFANotConfigured)
      | Some c \<Rightarrow>
          if counter \<le> mc_last_counter c then (r, Inr False)
          else (r\<lparr>mi_mfa_configs := mput userID (c\<lparr>mc_last_counter := counter\<rparr>) (mi_mfa_configs r)\<rparr>, Inr True))"

definition ConsumeMFARecoveryCode ::
    "string \<Rightarrow> bytes \<Rightarrow> time \<Rightarrow> memory_identity \<Rightarrow> memory_identity \<times> (auth_error + bool)" where
  "ConsumeMFARecoveryCode userID hash now r =
     (let codes = mget [] (mi_recovery_codes r) userID in
      case map_of codes hash of
        Some None \<Rightarrow> (r\<lparr>mi_recovery_codes := mput userID (mput hash (Some now) codes) (mi_recovery_codes r)\<rparr>, Inr True)
      | _ \<Rightarrow> (r, Inr False))"

definition memory_CreateStepUpProof ::
    "bytes \<Rightarrow> bytes \<Rightarrow> string \<Rightarrow> time \<Rightarrow> time \<Rightarrow> memory_identity \<Rightarrow> memory_identity \<times> (auth_error + unit)" where
  "memory_CreateStepUpProof tokenHash sessionHash userID expiresAt now r =
     (r\<lparr>mi_step_up_proofs := mput tokenHash \<lparr>sp_session_hash = sessionHash, sp_user_id = userID,
          sp_expires_at = expiresAt\<rparr> (mi_step_up_proofs r)\<rparr>, Inr ())"

definition StepUpProofValid ::
    "bytes \<Rightarrow> bytes \<Rightarrow> string \<Rightarrow> time \<Rightarrow> memory_identity \<Rightarrow> auth_error + bool" where
  "StepUpProofValid tokenHash sessionHash userID now r =
     Inr (case (map_of (mi_step_up_proofs r) tokenHash, map_of (mi_sessions r) sessionHash) of
        (Some proof, Some s) \<Rightarrow> u_id (ss_user s) = userID \<and> now < ss_expires_at s
           \<and> sp_session_hash proof = sessionHash \<and> sp_user_id proof = userID \<and> now < sp_expires_at proof
      | _ \<Rightarrow> False)"

definition CreatePrivilegedInvitation ::
    "bytes \<Rightarrow> privileged_invitation \<Rightarrow> time \<Rightarrow> memory_identity \<Rightarrow> memory_identity \<times> (auth_error + unit)" where
  "CreatePrivilegedInvitation tokenHash invitation now r =
     (if map_of (mi_users r) (pi_email invitation) \<noteq> None then (r, Inl ErrDuplicateUser)
      else if list_ex (\<lambda>pending. pi_email pending = pi_email invitation) (mvals (mi_invitations r))
      then (r, Inl ErrDuplicateUser)
      else (r\<lparr>mi_invitations := mput tokenHash invitation (mi_invitations r)\<rparr>, Inr ()))"

definition AcceptPrivilegedInvitation ::
    "bytes \<Rightarrow> user_record \<Rightarrow> time \<Rightarrow> memory_identity \<Rightarrow> memory_identity \<times> (auth_error + user)" where
  "AcceptPrivilegedInvitation tokenHash rec now r =
     (case map_of (mi_invitations r) tokenHash of
        None \<Rightarrow> (r, Inl ErrInvitationToken)
      | Some invitation \<Rightarrow>
          if \<not> now < pi_expires_at invitation then (r, Inl ErrInvitationToken)
          else if map_of (mi_users r) (pi_email invitation) \<noteq> None then (r, Inl ErrDuplicateUser)
          else
            (let rec = rec\<lparr>ur_user := (ur_user rec)\<lparr>u_name := pi_name invitation,
                    u_email := pi_email invitation, u_role := pi_role invitation\<rparr>,
                   ur_email_verified_at := Some now\<rparr>
             in (r\<lparr>mi_users := mput (ur_email rec) rec (mi_users r),
                   mi_email_by_id := mput (ur_id rec) (ur_email rec) (mi_email_by_id r),
                   mi_invitations := mdelete tokenHash (mi_invitations r)\<rparr>, Inr (ur_user rec))))"

definition memory_identity_ops :: "platform \<Rightarrow> memory_identity identity_ops" where
  "memory_identity_ops P = \<lparr>
     io_create_user = CreateUserWithVerification, io_user_by_email = UserByEmail,
     io_replace_token = ReplaceVerificationToken, io_consume_token = ConsumeVerificationToken,
     io_create_session = CreateSession, io_session_by_hash = SessionByHash,
     io_delete_session = DeleteSession, io_list_users = memory_ListUsers P,
     io_update_status = UpdateUserStatusAndDeleteSessions, io_delete_sessions = DeleteSessionsForUser,
     io_user_exists = memory_UserExists, io_user_role = memory_UserRole,
     io_record_failure = RecordAuthenticationFailure, io_clear_failures = ClearAuthenticationFailures,
     io_update_role = UpdateUserRole P,
     io_mfa = Some \<lparr>mo_configuration = memory_MFAConfiguration, mo_create_challenge = CreateMFAChallenge,
        mo_consume_challenge = ConsumeMFAChallenge, mo_confirm = ConfirmMFA,
        mo_advance_counter = AdvanceMFACounter, mo_consume_recovery_code = ConsumeMFARecoveryCode\<rparr>,
     io_step_up = Some \<lparr>so_create_proof = memory_CreateStepUpProof, so_proof_valid = StepUpProofValid\<rparr>,
     io_invitations = Some \<lparr>vo_create = CreatePrivilegedInvitation, vo_accept = AcceptPrivilegedInvitation\<rparr>,
     io_audited = None\<rparr>"

section \<open>What a sound repository holds\<close>

text \<open>
  The account a session or a challenge belongs to. A live session carries the account's current
  identity, the account is active, verified and not locked, and its role belongs to the boundary
  the session was created at.
\<close>

definition session_fits :: "user_record \<Rightarrow> session \<Rightarrow> bool" where
  "session_fits rec s \<longleftrightarrow> ur_user rec = ss_user s \<and> ur_account_status rec = ''active''
     \<and> ur_email_verified_at rec \<noteq> None \<and> ur_locked_until rec = None
     \<and> roleAllowedForAudience (ur_role rec) (ss_audience s)"

definition challenge_fits :: "user_record \<Rightarrow> mfa_challenge_record \<Rightarrow> bool" where
  "challenge_fits rec c \<longleftrightarrow> (cr_user c)\<lparr>u_role := ur_role rec\<rparr> = ur_user rec \<and> ur_email_verified_at rec \<noteq> None"

definition sound_views ::
    "(string \<Rightarrow> user_record option) \<Rightarrow> (string \<Rightarrow> string option) \<Rightarrow> (bytes \<Rightarrow> session option)
       \<Rightarrow> (bytes \<Rightarrow> mfa_challenge_record option) \<Rightarrow> bool" where
  "sound_views account owner live pending \<longleftrightarrow>
     (\<forall>e rec. account e = Some rec \<longrightarrow> ur_email rec = e \<and> owner (ur_id rec) = Some e)
     \<and> (\<forall>i e. owner i = Some e \<longrightarrow> (\<exists>rec. account e = Some rec \<and> ur_id rec = i))
     \<and> (\<forall>h s. live h = Some s \<longrightarrow> (\<exists>rec. account (u_email (ss_user s)) = Some rec \<and> session_fits rec s))
     \<and> (\<forall>h c. pending h = Some c \<longrightarrow> (\<exists>rec. account (u_email (cr_user c)) = Some rec \<and> challenge_fits rec c))"

lemma sound_account: "sound_views account owner live pending \<Longrightarrow> account e = Some rec
    \<Longrightarrow> ur_email rec = e \<and> owner (ur_id rec) = Some e"
  by (simp add: sound_views_def)

lemma sound_owner: "sound_views account owner live pending \<Longrightarrow> owner i = Some e
    \<Longrightarrow> \<exists>rec. account e = Some rec \<and> ur_id rec = i \<and> ur_email rec = e"
  by (fastforce simp: sound_views_def)

lemma sound_live: "sound_views account owner live pending \<Longrightarrow> live h = Some s
    \<Longrightarrow> \<exists>rec. account (u_email (ss_user s)) = Some rec \<and> session_fits rec s"
  by (simp add: sound_views_def)

lemma sound_pending: "sound_views account owner live pending \<Longrightarrow> pending h = Some c
    \<Longrightarrow> \<exists>rec. account (u_email (cr_user c)) = Some rec \<and> challenge_fits rec c"
  by (simp add: sound_views_def)

lemma sound_views_fewer:
  assumes "sound_views account owner live pending"
    and "\<And>h s. live' h = Some s \<Longrightarrow> live h = Some s" and "\<And>h c. pending' h = Some c \<Longrightarrow> pending h = Some c"
  shows "sound_views account owner live' pending'"
  using assms by (simp add: sound_views_def) blast

text \<open>
  An account changes: its sessions still fit or are gone, its identity stays what the index and the
  challenges say.
\<close>

lemma sound_views_account:
  assumes sound: "sound_views account owner live pending" and rec: "account e = Some rec"
    and user: "(ur_user rec')\<lparr>u_role := ur_role rec\<rparr> = ur_user rec"
    and verified: "ur_email_verified_at rec \<noteq> None \<Longrightarrow> ur_email_verified_at rec' \<noteq> None"
    and sub: "\<And>h s. live' h = Some s \<Longrightarrow> live h = Some s"
    and fits: "\<And>h s. live' h = Some s \<Longrightarrow> u_id (ss_user s) = ur_id rec \<Longrightarrow> session_fits rec s \<Longrightarrow> session_fits rec' s"
  shows "sound_views (account(e \<mapsto> rec')) owner live' pending"
proof -
  have same: "ur_email rec' = ur_email rec" "ur_id rec' = ur_id rec"
    using arg_cong [OF user, of u_email] arg_cong [OF user, of u_id] by simp_all
  have er: "ur_email rec = e" "owner (ur_id rec) = Some e" using sound_account [OF sound rec] by simp_all
  have "\<exists>r. (account(e \<mapsto> rec')) (u_email (ss_user s)) = Some r \<and> session_fits r s" if l: "live' h = Some s" for h s
  proof -
    obtain r where r: "account (u_email (ss_user s)) = Some r" "session_fits r s"
      using sound_live [OF sound sub [OF l]] by blast
    show ?thesis
    proof (cases "u_email (ss_user s) = e")
      case True
      with r rec have "session_fits rec s" by simp
      moreover from this have "u_id (ss_user s) = ur_id rec" by (simp add: session_fits_def)
      ultimately show ?thesis using fits [OF l] True by simp
    qed (use r in simp)
  qed
  moreover have "\<exists>r. (account(e \<mapsto> rec')) (u_email (cr_user c)) = Some r \<and> challenge_fits r c"
    if p: "pending h = Some c" for h c
  proof -
    obtain r where r: "account (u_email (cr_user c)) = Some r" "challenge_fits r c"
      using sound_pending [OF sound p] by blast
    show ?thesis
    proof (cases "u_email (cr_user c) = e")
      case True
      with r rec have c: "(cr_user c)\<lparr>u_role := ur_role rec\<rparr> = ur_user rec" "ur_email_verified_at rec \<noteq> None"
        by (simp_all add: challenge_fits_def)
      have "(cr_user c)\<lparr>u_role := ur_role rec'\<rparr> = ((cr_user c)\<lparr>u_role := ur_role rec\<rparr>)\<lparr>u_role := ur_role rec'\<rparr>" by simp
      also have "\<dots> = ((ur_user rec')\<lparr>u_role := ur_role rec\<rparr>)\<lparr>u_role := ur_role rec'\<rparr>" using c(1) user by simp
      finally have "challenge_fits rec' c" using verified c(2) by (simp add: challenge_fits_def)
      then show ?thesis using True by simp
    qed (use r in simp)
  qed
  moreover have "ur_email r = e' \<and> owner (ur_id r) = Some e'" if "(account(e \<mapsto> rec')) e' = Some r" for e' r
    using that sound_account [OF sound, of e' r] same er by (cases "e' = e") simp_all
  moreover have "\<exists>r. (account(e \<mapsto> rec')) e' = Some r \<and> ur_id r = i" if "owner i = Some e'" for i e'
    using sound_owner [OF sound that] same rec by (cases "e' = e") auto
  ultimately show ?thesis unfolding sound_views_def by blast
qed

lemma sound_views_new_account:
  assumes sound: "sound_views account owner live pending" and new: "account (ur_email rec) = None"
    and fresh: "\<And>e r. account e = Some r \<Longrightarrow> ur_id r \<noteq> ur_id rec"
  shows "sound_views (account(ur_email rec \<mapsto> rec)) (owner(ur_id rec \<mapsto> ur_email rec)) live pending"
proof -
  have "account' (u_email u) = Some r \<Longrightarrow> account' = account \<Longrightarrow>
      (account(ur_email rec \<mapsto> rec)) (u_email u) = Some r" for account' u r
    using new by auto
  then have "\<forall>h s. live h = Some s \<longrightarrow>
      (\<exists>r. (account(ur_email rec \<mapsto> rec)) (u_email (ss_user s)) = Some r \<and> session_fits r s)"
    "\<forall>h c. pending h = Some c \<longrightarrow>
      (\<exists>r. (account(ur_email rec \<mapsto> rec)) (u_email (cr_user c)) = Some r \<and> challenge_fits r c)"
    using sound_live [OF sound] sound_pending [OF sound] by blast+
  moreover have "\<forall>e r. (account(ur_email rec \<mapsto> rec)) e = Some r \<longrightarrow>
      ur_email r = e \<and> (owner(ur_id rec \<mapsto> ur_email rec)) (ur_id r) = Some e"
    using sound_account [OF sound] fresh by auto
  moreover have "\<forall>i e. (owner(ur_id rec \<mapsto> ur_email rec)) i = Some e \<longrightarrow>
      (\<exists>r. (account(ur_email rec \<mapsto> rec)) e = Some r \<and> ur_id r = i)"
  proof (intro allI impI)
    fix i e assume o: "(owner(ur_id rec \<mapsto> ur_email rec)) i = Some e"
    show "\<exists>r. (account(ur_email rec \<mapsto> rec)) e = Some r \<and> ur_id r = i"
    proof (cases "i = ur_id rec")
      case False
      with o sound_owner [OF sound, of i e] new show ?thesis by auto
    qed (use o in auto)
  qed
  ultimately show ?thesis unfolding sound_views_def by blast
qed

lemma sound_views_session:
  assumes "sound_views account owner live pending" and "account (u_email (ss_user s)) = Some rec" "session_fits rec s"
  shows "sound_views account owner (live(h \<mapsto> s)) pending"
  using assms unfolding sound_views_def by (auto split: if_splits)

lemma sound_views_challenge:
  assumes "sound_views account owner live pending" and "account (u_email (cr_user c)) = Some rec" "challenge_fits rec c"
  shows "sound_views account owner live (pending(h \<mapsto> c))"
  using assms unfolding sound_views_def by (auto split: if_splits)

section \<open>The contract the identity service relies on\<close>

definition cleared :: "user_record \<Rightarrow> user_record" where
  "cleared rec = rec\<lparr>ur_failed_login_attempts := 0, ur_failed_login_window_started_at := None,
     ur_locked_until := None\<rparr>"

locale identity_repository =
  fixes ops :: "'r identity_ops"
    and mo :: "'r mfa_ops" and so :: "'r step_up_ops" and vo :: "'r invitation_ops"
    and invar :: "'r \<Rightarrow> bool"
    and account :: "'r \<Rightarrow> string \<Rightarrow> user_record option"
    and owner :: "'r \<Rightarrow> string \<Rightarrow> string option"
    and live :: "'r \<Rightarrow> bytes \<Rightarrow> session option"
    and pending :: "'r \<Rightarrow> bytes \<Rightarrow> mfa_challenge_record option"
  assumes extensions: "io_mfa ops = Some mo" "io_step_up ops = Some so" "io_invitations ops = Some vo"
      "io_audited ops = None"
    and sound: "invar r \<Longrightarrow> sound_views (account r) (owner r) (live r) (pending r)"
    and lookup: "invar r \<Longrightarrow> io_user_by_email ops e r = Inr rec \<Longrightarrow> account r e = Some rec"
    and session_lookup: "invar r \<Longrightarrow> io_session_by_hash ops h now r = (r', res) \<Longrightarrow>
      invar r' \<and> (\<forall>s. res = Inr s \<longrightarrow> live r h = Some s \<and> now < ss_expires_at s)"
    and create_user: "invar r \<Longrightarrow> (\<And>e x. account r e = Some x \<Longrightarrow> ur_id x \<noteq> ur_id rec) \<Longrightarrow>
      invar (fst (io_create_user ops rec h expires now r))"
    and accept: "invar r \<Longrightarrow> (\<And>e x. account r e = Some x \<Longrightarrow> ur_id x \<noteq> ur_id rec) \<Longrightarrow>
      invar (fst (vo_accept vo h rec now r))"
    and keeps: "invar r \<Longrightarrow> invar (fst (io_replace_token ops u h expires now gap r))"
      "invar r \<Longrightarrow> invar (fst (io_consume_token ops h now r))"
      "invar r \<Longrightarrow> invar (fst (io_delete_session ops h r))"
      "invar r \<Longrightarrow> invar (fst (io_update_status ops u status r))"
      "invar r \<Longrightarrow> invar (fst (io_delete_sessions ops u r))"
      "invar r \<Longrightarrow> 0 < lock \<Longrightarrow> invar (fst (io_record_failure ops u now window threshold lock r))"
      "invar r \<Longrightarrow> invar (fst (io_clear_failures ops u r))"
      "invar r \<Longrightarrow> invar (fst (io_update_role ops email role r))"
      "invar r \<Longrightarrow> invar (fst (so_create_proof so h h' u expires now r))"
      "invar r \<Longrightarrow> invar (fst (vo_create vo h invitation now r))"
      "invar r \<Longrightarrow> invar (fst (mo_consume_challenge mo h now r))"
      "invar r \<Longrightarrow> invar (fst (mo_confirm mo u ct nonce counter hashes now r))"
      "invar r \<Longrightarrow> invar (fst (mo_advance_counter mo u counter r))"
      "invar r \<Longrightarrow> invar (fst (mo_consume_recovery_code mo u h now r))"
    and clear: "invar r \<Longrightarrow> io_clear_failures ops u r = (r', Inr x) \<Longrightarrow> account r e = Some rec \<Longrightarrow>
      ur_id rec = u \<Longrightarrow> account r' e = Some (cleared rec)"
    and create_session: "invar r \<Longrightarrow> account r (u_email (ss_user s)) = Some rec \<Longrightarrow> session_fits rec s \<Longrightarrow>
      invar (fst (io_create_session ops h s now r))"
    and create_challenge: "invar r \<Longrightarrow> account r (u_email (cr_user c)) = Some rec \<Longrightarrow> challenge_fits rec c \<Longrightarrow>
      invar (fst (mo_create_challenge mo h c now r))"
    and consume: "invar r \<Longrightarrow> mo_consume_challenge mo h now r = (r', Inr c) \<Longrightarrow>
      pending r h = Some c \<and> account r' = account r"
    and same_accounts: "invar r \<Longrightarrow> account (fst (mo_confirm mo u ct nonce counter hashes now r)) = account r"
      "invar r \<Longrightarrow> account (fst (mo_advance_counter mo u counter r)) = account r"
      "invar r \<Longrightarrow> account (fst (mo_consume_recovery_code mo u h now r)) = account r"

section \<open>The memory repository keeps the contract\<close>

definition memory_account :: "memory_identity \<Rightarrow> string \<Rightarrow> user_record option" where
  "memory_account r = map_of (mi_users r)"
definition memory_owner :: "memory_identity \<Rightarrow> string \<Rightarrow> string option" where
  "memory_owner r = map_of (mi_email_by_id r)"
definition memory_live :: "memory_identity \<Rightarrow> bytes \<Rightarrow> session option" where
  "memory_live r = map_of (mi_sessions r)"
definition memory_pending :: "memory_identity \<Rightarrow> bytes \<Rightarrow> mfa_challenge_record option" where
  "memory_pending r = map_of (mi_mfa_challenges r)"

lemmas memory_views = memory_account_def memory_owner_def memory_live_def memory_pending_def

definition memory_identity_invar :: "memory_identity \<Rightarrow> bool" where
  "memory_identity_invar r \<longleftrightarrow> wf_map (mi_sessions r)
     \<and> sound_views (memory_account r) (memory_owner r) (memory_live r) (memory_pending r)"

lemma memory_sound: "memory_identity_invar r \<Longrightarrow>
    sound_views (map_of (mi_users r)) (map_of (mi_email_by_id r)) (map_of (mi_sessions r)) (map_of (mi_mfa_challenges r))"
  by (simp add: memory_identity_invar_def memory_views)

lemma NewMemoryIdentity_invar: "memory_identity_invar NewMemoryIdentity"
  by (simp add: memory_identity_invar_def memory_views NewMemoryIdentity_def sound_views_def)

lemma drop_sessions_of_sub:
  "wf_map m \<Longrightarrow> map_of (drop_sessions_of u m) h = Some s \<Longrightarrow> map_of m h = Some s \<and> u_id (ss_user s) \<noteq> u"
  by (auto simp: drop_sessions_of_def map_of_mretain split: option.splits if_splits)

lemma wf_map_drop_sessions_of [simp]: "wf_map m \<Longrightarrow> wf_map (drop_sessions_of u m)"
  by (simp add: drop_sessions_of_def)

lemma memory_owner_account:
  assumes "memory_identity_invar r" and "map_of (mi_email_by_id r) u = Some e"
  obtains rec where "map_of (mi_users r) e = Some rec" "mget zero_record (mi_users r) e = rec"
    "ur_id rec = u" "ur_email rec = e"
  using sound_owner [OF memory_sound [OF assms(1)] assms(2)] by (auto simp: mget_def)

lemma memory_identity_invarI:
  "wf_map (mi_sessions r) \<Longrightarrow>
   sound_views (map_of (mi_users r)) (map_of (mi_email_by_id r)) (map_of (mi_sessions r)) (map_of (mi_mfa_challenges r))
   \<Longrightarrow> memory_identity_invar r"
  by (simp add: memory_identity_invar_def memory_views)

lemma memory_wf: "memory_identity_invar r \<Longrightarrow> wf_map (mi_sessions r)"
  by (simp add: memory_identity_invar_def)

text \<open>An account is rewritten without its identity changing, and its sessions are dropped or still fit.\<close>

lemma memory_account_update:
  assumes inv: "memory_identity_invar r" and rec: "map_of (mi_users r) e = Some rec"
    and user: "(ur_user rec')\<lparr>u_role := ur_role rec\<rparr> = ur_user rec"
    and verified: "ur_email_verified_at rec \<noteq> None \<Longrightarrow> ur_email_verified_at rec' \<noteq> None"
    and r': "mi_users r' = mput e rec' (mi_users r)" "mi_email_by_id r' = mi_email_by_id r"
      "mi_mfa_challenges r' = mi_mfa_challenges r"
    and live: "mi_sessions r' = drop_sessions_of (ur_id rec) (mi_sessions r)
      \<or> (mi_sessions r' = mi_sessions r \<and> (\<forall>s. session_fits rec s \<longrightarrow> session_fits rec' s))"
  shows "memory_identity_invar r'"
proof (rule memory_identity_invarI)
  show "wf_map (mi_sessions r')" using live memory_wf [OF inv] by auto
  have "map_of (mi_sessions r) h = Some s" if "map_of (mi_sessions r') h = Some s" for h s
    using live that drop_sessions_of_sub [OF memory_wf [OF inv]] by auto
  moreover have "session_fits rec' s" if "map_of (mi_sessions r') h = Some s" "u_id (ss_user s) = ur_id rec"
    "session_fits rec s" for h s
    using live that drop_sessions_of_sub [OF memory_wf [OF inv]] by auto
  ultimately show "sound_views (map_of (mi_users r')) (map_of (mi_email_by_id r')) (map_of (mi_sessions r'))
      (map_of (mi_mfa_challenges r'))"
    unfolding r' map_of_mput using sound_views_account [OF memory_sound [OF inv] rec user verified] by blast
qed

text \<open>Sessions or challenges are only removed.\<close>

lemma memory_fewer:
  assumes inv: "memory_identity_invar r" and "wf_map (mi_sessions r')"
    and "mi_users r' = mi_users r" "mi_email_by_id r' = mi_email_by_id r"
    and "\<And>h s. map_of (mi_sessions r') h = Some s \<Longrightarrow> map_of (mi_sessions r) h = Some s"
    and "\<And>h c. map_of (mi_mfa_challenges r') h = Some c \<Longrightarrow> map_of (mi_mfa_challenges r) h = Some c"
  shows "memory_identity_invar r'"
  using sound_views_fewer [OF memory_sound [OF inv] assms(5,6)] assms(2-4)
  by (intro memory_identity_invarI) simp_all

lemma memory_same:
  assumes "memory_identity_invar r" "mi_users r' = mi_users r" "mi_email_by_id r' = mi_email_by_id r"
    "mi_sessions r' = mi_sessions r" "mi_mfa_challenges r' = mi_mfa_challenges r"
  shows "memory_identity_invar r'"
  using assms by (simp add: memory_identity_invar_def memory_views)

lemma CreateUser_invar [inv_intros]:
  assumes "memory_identity_invar r" and "\<And>e x. map_of (mi_users r) e = Some x \<Longrightarrow> ur_id x \<noteq> ur_id rec"
  shows "memory_identity_invar (fst (CreateUserWithVerification rec h x now r))"
proof (cases "map_of (mi_users r) (ur_email rec)")
  case None
  then have "sound_views ((map_of (mi_users r))(ur_email rec \<mapsto> rec\<lparr>ur_verification_sent_at := Some now\<rparr>))
      ((map_of (mi_email_by_id r))(ur_id rec \<mapsto> ur_email rec)) (map_of (mi_sessions r)) (map_of (mi_mfa_challenges r))"
    using sound_views_new_account [OF memory_sound [OF assms(1)], of "rec\<lparr>ur_verification_sent_at := Some now\<rparr>"]
      assms(2) by simp
  with None memory_wf [OF assms(1)] show ?thesis
    by (simp add: CreateUserWithVerification_def memory_identity_invar_def memory_views)
qed (use assms(1) in \<open>simp add: CreateUserWithVerification_def\<close>)

lemma AcceptInvitation_invar [inv_intros]:
  assumes "memory_identity_invar r" and "\<And>e x. map_of (mi_users r) e = Some x \<Longrightarrow> ur_id x \<noteq> ur_id rec"
  shows "memory_identity_invar (fst (AcceptPrivilegedInvitation h rec now r))"
proof (cases "map_of (mi_invitations r) h")
  case (Some i)
  define rec' where "rec' = rec\<lparr>ur_user := (ur_user rec)\<lparr>u_name := pi_name i, u_email := pi_email i, u_role := pi_role i\<rparr>,
      ur_email_verified_at := Some now\<rparr>"
  have "sound_views ((map_of (mi_users r))(ur_email rec' \<mapsto> rec')) ((map_of (mi_email_by_id r))(ur_id rec' \<mapsto> ur_email rec'))
      (map_of (mi_sessions r)) (map_of (mi_mfa_challenges r))" if "map_of (mi_users r) (pi_email i) = None"
    using that sound_views_new_account [OF memory_sound [OF assms(1)], of rec'] assms(2) by (simp add: rec'_def)
  with Some assms(1) memory_wf [OF assms(1)] show ?thesis
    by (auto simp: AcceptPrivilegedInvitation_def memory_identity_invar_def memory_views rec'_def Let_def)
qed (use assms(1) in \<open>simp add: AcceptPrivilegedInvitation_def\<close>)

lemma ReplaceToken_invar [inv_intros]:
  assumes "memory_identity_invar r"
  shows "memory_identity_invar (fst (ReplaceVerificationToken u h x now gap r))"
proof (cases "map_of (mi_email_by_id r) u")
  case (Some e)
  with assms obtain rec where rec: "map_of (mi_users r) e = Some rec" "mget zero_record (mi_users r) e = rec"
    by (rule memory_owner_account)
  show ?thesis
    using assms Some
    by (auto simp: rec(2) ReplaceVerificationToken_def Let_def session_fits_def
        intro: memory_account_update [OF assms rec(1), where rec' = "rec\<lparr>ur_verification_sent_at := Some now\<rparr>"])
qed (use assms in \<open>simp add: ReplaceVerificationToken_def\<close>)

lemma ConsumeToken_invar [inv_intros]:
  assumes "memory_identity_invar r"
  shows "memory_identity_invar (fst (ConsumeVerificationToken h now r))"
proof (cases "map_of (mi_verifications r) h")
  case (Some v)
  show ?thesis
  proof (cases "map_of (mi_email_by_id r) (vr_user_id v)")
    case (Some e)
    with assms obtain rec where rec: "map_of (mi_users r) e = Some rec" "mget zero_record (mi_users r) e = rec"
      by (rule memory_owner_account)
    show ?thesis
      using assms Some \<open>map_of (mi_verifications r) h = Some v\<close>
      by (auto simp: rec(2) ConsumeVerificationToken_def Let_def session_fits_def
          intro: memory_account_update [OF assms rec(1), where rec' = "rec\<lparr>ur_email_verified_at := Some now\<rparr>"])
  qed (use assms \<open>map_of (mi_verifications r) h = Some v\<close> in \<open>simp add: ConsumeVerificationToken_def\<close>)
qed (use assms in \<open>simp add: ConsumeVerificationToken_def\<close>)

lemma UpdateStatus_invar [inv_intros]:
  assumes "memory_identity_invar r"
  shows "memory_identity_invar (fst (UpdateUserStatusAndDeleteSessions u status r))"
proof (cases "map_of (mi_email_by_id r) u")
  case (Some e)
  with assms obtain rec where rec: "map_of (mi_users r) e = Some rec" "mget zero_record (mi_users r) e = rec"
    "ur_id rec = u" by (rule memory_owner_account)
  show ?thesis
    using Some rec(3)
    by (auto simp: rec(2) UpdateUserStatusAndDeleteSessions_def Let_def cleared_def
        intro: memory_account_update [OF assms rec(1), where rec' = "cleared (rec\<lparr>ur_account_status := status\<rparr>)"]
          memory_account_update [OF assms rec(1), where rec' = "rec\<lparr>ur_account_status := status\<rparr>"])
qed (use assms in \<open>simp add: UpdateUserStatusAndDeleteSessions_def\<close>)

lemma failed_attempt_frame [simp]:
  "ur_user (failed_attempt now w t l rec) = ur_user rec"
  "ur_account_status (failed_attempt now w t l rec) = ur_account_status rec"
  "ur_email_verified_at (failed_attempt now w t l rec) = ur_email_verified_at rec"
  "ur_password_hash (failed_attempt now w t l rec) = ur_password_hash rec"
  by (simp_all add: failed_attempt_def Let_def split: option.splits)

lemma failed_attempt_lock:
  "0 < l \<Longrightarrow> ur_locked_until rec = None \<Longrightarrow> \<not> locked_at (failed_attempt now w t l rec) now
     \<Longrightarrow> ur_locked_until (failed_attempt now w t l rec) = None"
  by (auto simp: failed_attempt_def Let_def locked_at_def split: option.splits if_splits)

lemma session_fits_failed:
  "0 < l \<Longrightarrow> \<not> locked_at (failed_attempt now w t l rec) now \<Longrightarrow> session_fits rec s
     \<Longrightarrow> session_fits (failed_attempt now w t l rec) s"
  using failed_attempt_lock [of l rec now w t] by (auto simp: session_fits_def)

lemma cleared_frame [simp]:
  "ur_user (cleared rec) = ur_user rec" "ur_account_status (cleared rec) = ur_account_status rec"
  "ur_email_verified_at (cleared rec) = ur_email_verified_at rec" "ur_locked_until (cleared rec) = None"
  by (simp_all add: cleared_def)

lemma session_fits_cleared: "session_fits rec s \<Longrightarrow> session_fits (cleared rec) s"
  by (auto simp: session_fits_def)

lemma RecordFailure_invar [inv_intros]:
  assumes "memory_identity_invar r" and "0 < l"
  shows "memory_identity_invar (fst (RecordAuthenticationFailure u now w t l r))"
proof (cases "map_of (mi_email_by_id r) u")
  case (Some e)
  with assms(1) obtain rec where rec: "map_of (mi_users r) e = Some rec" "mget zero_record (mi_users r) e = rec"
    "ur_id rec = u" by (rule memory_owner_account)
  show ?thesis
    using Some rec(3) session_fits_failed [OF assms(2), where rec = rec and now = now and w = w and t = t]
    by (auto simp: rec(2) RecordAuthenticationFailure_def Let_def
        intro: memory_account_update [OF assms(1) rec(1), where rec' = "failed_attempt now w t l rec"])
qed (use assms in \<open>simp add: RecordAuthenticationFailure_def\<close>)

lemma ClearFailures_invar [inv_intros]:
  assumes "memory_identity_invar r"
  shows "memory_identity_invar (fst (ClearAuthenticationFailures u r))"
proof (cases "map_of (mi_email_by_id r) u")
  case (Some e)
  with assms obtain rec where rec: "map_of (mi_users r) e = Some rec" "mget zero_record (mi_users r) e = rec"
    "ur_id rec = u" by (rule memory_owner_account)
  show ?thesis
    using Some rec(3)
    by (auto simp: rec(2) ClearAuthenticationFailures_def cleared_def [symmetric] session_fits_cleared
        intro: memory_account_update [OF assms rec(1), where rec' = "cleared rec"])
qed (use assms in \<open>simp add: ClearAuthenticationFailures_def\<close>)

lemma UpdateRole_invar [inv_intros]:
  assumes "memory_identity_invar r"
  shows "memory_identity_invar (fst (UpdateUserRole P email role r))"
proof (cases "map_of (mi_users r) (normalizeEmail P email)")
  case (Some rec)
  then have "ur_email rec = normalizeEmail P email"
    using sound_account [OF memory_sound [OF assms]] by blast
  then show ?thesis
    using Some assms
    by (auto simp: UpdateUserRole_def
        intro: memory_account_update [OF assms Some, where rec' = "rec\<lparr>ur_user := (ur_user rec)\<lparr>u_role := role\<rparr>\<rparr>"])
qed (use assms in \<open>simp add: UpdateUserRole_def\<close>)

lemma Challenge_invar:
  assumes "memory_identity_invar r" "map_of (mi_users r) (u_email (cr_user c)) = Some rec" "challenge_fits rec c"
  shows "memory_identity_invar (fst (CreateMFAChallenge h c now r))"
  using sound_views_challenge [OF memory_sound [OF assms(1)] assms(2,3), of h] memory_wf [OF assms(1)]
  by (intro memory_identity_invarI) (simp_all add: CreateMFAChallenge_def)

lemma Session_invar:
  assumes "memory_identity_invar r" "map_of (mi_users r) (u_email (ss_user s)) = Some rec" "session_fits rec s"
  shows "memory_identity_invar (fst (CreateSession h s now r))"
  using sound_views_session [OF memory_sound [OF assms(1)] assms(2,3), of h] memory_wf [OF assms(1)]
  by (intro memory_identity_invarI) (simp_all add: CreateSession_def)

text \<open>The remaining operations leave the accounts and their index alone and only remove sessions or challenges.\<close>

lemma memory_frame_invar [inv_intros]:
  assumes "memory_identity_invar r"
  shows "memory_identity_invar (fst (DeleteSession h r))" "memory_identity_invar (fst (DeleteSessionsForUser u r))"
    "memory_identity_invar (fst (SessionByHash h now r))" "memory_identity_invar (fst (ConsumeMFAChallenge h now r))"
    "memory_identity_invar (fst (ConfirmMFA u ct nonce counter hashes now r))"
    "memory_identity_invar (fst (AdvanceMFACounter u counter r))"
    "memory_identity_invar (fst (ConsumeMFARecoveryCode u h now r))"
    "memory_identity_invar (fst (memory_CreateStepUpProof h h' u expires now r))"
    "memory_identity_invar (fst (CreatePrivilegedInvitation h invitation now r))"
proof -
  note fewer = memory_fewer [OF assms]
  note same = memory_same [OF assms]
  have wf: "wf_map (mi_sessions r)" by (rule memory_wf [OF assms])
  show "memory_identity_invar (fst (DeleteSession h r))"
    by (rule fewer) (auto simp: DeleteSession_def wf split: if_splits)
  show "memory_identity_invar (fst (DeleteSessionsForUser u r))"
    by (rule fewer) (auto simp: DeleteSessionsForUser_def wf dest: drop_sessions_of_sub [OF wf] split: if_splits)
  show "memory_identity_invar (fst (SessionByHash h now r))"
    by (rule fewer) (auto simp: SessionByHash_def wf split: option.splits if_splits)
  show "memory_identity_invar (fst (ConsumeMFAChallenge h now r))"
    by (rule fewer) (auto simp: ConsumeMFAChallenge_def wf split: option.splits if_splits)
  show "memory_identity_invar (fst (ConfirmMFA u ct nonce counter hashes now r))"
    by (rule same) (auto simp: ConfirmMFA_def)
  show "memory_identity_invar (fst (AdvanceMFACounter u counter r))"
    by (rule same) (auto simp: AdvanceMFACounter_def split: option.splits)
  show "memory_identity_invar (fst (ConsumeMFARecoveryCode u h now r))"
    by (rule same) (auto simp: ConsumeMFARecoveryCode_def Let_def split: option.splits)
  show "memory_identity_invar (fst (memory_CreateStepUpProof h h' u expires now r))"
    by (rule same) (auto simp: memory_CreateStepUpProof_def)
  show "memory_identity_invar (fst (CreatePrivilegedInvitation h invitation now r))"
    by (rule same) (auto simp: CreatePrivilegedInvitation_def)
qed

lemma SessionByHash_result:
  assumes "SessionByHash h now r = (r', Inr s)"
  shows "map_of (mi_sessions r) h = Some s \<and> now < ss_expires_at s \<and> r' = r"
  using assms by (auto simp: SessionByHash_def split: option.splits if_splits)

definition memory_mfa_ops :: "memory_identity mfa_ops" where
  "memory_mfa_ops = \<lparr>mo_configuration = memory_MFAConfiguration, mo_create_challenge = CreateMFAChallenge,
     mo_consume_challenge = ConsumeMFAChallenge, mo_confirm = ConfirmMFA,
     mo_advance_counter = AdvanceMFACounter, mo_consume_recovery_code = ConsumeMFARecoveryCode\<rparr>"

definition memory_step_up_ops :: "memory_identity step_up_ops" where
  "memory_step_up_ops = \<lparr>so_create_proof = memory_CreateStepUpProof, so_proof_valid = StepUpProofValid\<rparr>"

definition memory_invitation_ops :: "memory_identity invitation_ops" where
  "memory_invitation_ops = \<lparr>vo_create = CreatePrivilegedInvitation, vo_accept = AcceptPrivilegedInvitation\<rparr>"

lemmas memory_ops_defs = memory_identity_ops_def memory_mfa_ops_def memory_step_up_ops_def
  memory_invitation_ops_def

interpretation memory_store:
  identity_repository "memory_identity_ops P" memory_mfa_ops memory_step_up_ops memory_invitation_ops
    memory_identity_invar memory_account memory_owner memory_live memory_pending for P
proof unfold_locales
  show "io_mfa (memory_identity_ops P) = Some memory_mfa_ops"
    "io_step_up (memory_identity_ops P) = Some memory_step_up_ops"
    "io_invitations (memory_identity_ops P) = Some memory_invitation_ops"
    "io_audited (memory_identity_ops P) = None"
    by (simp_all add: memory_ops_defs)
next
  fix r h now r' res
  assume inv: "memory_identity_invar r" and look: "io_session_by_hash (memory_identity_ops P) h now r = (r', res)"
  then have "SessionByHash h now r = (r', res)" by (simp add: memory_ops_defs)
  with inv memory_frame_invar(3) [OF inv, of h now] SessionByHash_result [of h now r r']
  show "memory_identity_invar r' \<and> (\<forall>s. res = Inr s \<longrightarrow> memory_live r h = Some s \<and> now < ss_expires_at s)"
    by (auto simp: memory_live_def)
next
  fix r u r' and x :: unit and e rec
  assume "memory_identity_invar r" "io_clear_failures (memory_identity_ops P) u r = (r', Inr x)"
    "memory_account r e = Some rec" "ur_id rec = u"
  then show "memory_account r' e = Some (cleared rec)"
    using sound_account [OF memory_sound, of r e rec]
    by (auto simp: memory_ops_defs ClearAuthenticationFailures_def memory_account_def cleared_def mget_def
        split: option.splits)
next
  fix r h now r' c
  assume "memory_identity_invar r" "mo_consume_challenge memory_mfa_ops h now r = (r', Inr c)"
  then show "memory_pending r h = Some c \<and> memory_account r' = memory_account r"
    by (auto simp: memory_ops_defs ConsumeMFAChallenge_def memory_views split: option.splits if_splits)
next
  fix r u ct nonce counter hashes now h
  show "memory_account (fst (mo_confirm memory_mfa_ops u ct nonce counter hashes now r)) = memory_account r"
    "memory_account (fst (mo_advance_counter memory_mfa_ops u counter r)) = memory_account r"
    "memory_account (fst (mo_consume_recovery_code memory_mfa_ops u h now r)) = memory_account r"
    by (simp_all add: memory_ops_defs memory_account_def ConfirmMFA_def AdvanceMFACounter_def
        ConsumeMFARecoveryCode_def Let_def split: option.splits)
next
  fix r assume "memory_identity_invar r"
  then show "sound_views (memory_account r) (memory_owner r) (memory_live r) (memory_pending r)"
    by (simp add: memory_identity_invar_def)
next
  fix r e rec assume "io_user_by_email (memory_identity_ops P) e r = Inr rec"
  then show "memory_account r e = Some rec"
    by (simp add: memory_ops_defs memory_account_def UserByEmail_def split: option.splits)
qed (simp_all add: memory_ops_defs memory_account_def inv_intros Session_invar Challenge_invar)

end
