(* ===== verification/IdentityStore.thy ===== *)
theory IdentityStore
  imports IdentityRepo Base64
begin

text \<open>
  The identity service (internal/authn: store.go, mfa.go, step_up.go, privileged_provisioning.go)
  over an abstract repository. Random draws, clock readings and the mailer's answers are arguments
  or fields: \<open>rnd i\<close> is the \<open>i\<close>-th draw of a call, an error or the bytes drawn, and \<open>clk i\<close> its
  \<open>i\<close>-th reading of the clock. Messages the mailer accepted are kept in the order they were sent.
\<close>

section \<open>Configuration and state\<close>

record verification_message =
  vm_to :: string
  vm_name :: string
  vm_url :: string
  vm_expires_at :: time

record 'r auth_config =
  cf_repository :: "('r identity_ops \<times> 'r) option"
  cf_mailer :: "(verification_message \<Rightarrow> string option) option"
  cf_session_ttl :: duration
  cf_verification_ttl :: duration
  cf_verification_min_resend :: duration
  cf_public_app_url :: string
  cf_require_privileged_mfa :: bool
  cf_mfa_encryption_key :: bytes
  cf_mfa_issuer :: string
  cf_login_failure_window :: duration
  cf_login_failure_threshold :: int
  cf_account_lock_duration :: duration
  cf_step_up_ttl :: duration
  cf_require_admin_step_up :: bool

record 'r store =
  st_ops :: "'r identity_ops"
  st_repo :: 'r
  st_mailer :: "verification_message \<Rightarrow> string option"
  st_sent :: "verification_message list"
  st_dummy_hash :: bytes
  st_session_ttl :: duration
  st_verification_ttl :: duration
  st_verification_min_resend :: duration
  st_public_app_url :: string
  st_require_privileged_mfa :: bool
  st_mfa_encryption_key :: bytes
  st_mfa_issuer :: string
  st_login_failure_window :: duration
  st_login_failure_threshold :: int
  st_account_lock_duration :: duration
  st_step_up_ttl :: duration
  st_require_admin_step_up :: bool

definition passwordHashCost :: nat where "passwordHashCost = 12"
definition mfaChallengeTTL :: duration where "mfaChallengeTTL = 5 * minute"

type_synonym draws = "nat \<Rightarrow> string + bytes"

definition passwordMaterial :: "platform \<Rightarrow> string \<Rightarrow> bytes" where
  "passwordMaterial P password = p_sha256 P password"

definition generateFromPassword :: "platform \<Rightarrow> string + bytes \<Rightarrow> string \<Rightarrow> auth_error + bytes" where
  "generateFromPassword P salt password =
     (case salt of Inl m \<Rightarrow> Inl (AuthRandom m)
      | Inr s \<Rightarrow> Inr (p_bcrypt_hash P s passwordHashCost (passwordMaterial P password)))"

definition trim_right_slashes :: "string \<Rightarrow> string" where
  "trim_right_slashes s = rev (dropWhile (\<lambda>c. c = CHR ''/'') (rev s))"

definition positive_or :: "int \<Rightarrow> int \<Rightarrow> int" where
  "positive_or v fallback = (if v \<le> 0 then fallback else v)"

definition NewStoreWithConfig :: "platform \<Rightarrow> string + bytes \<Rightarrow> 'r auth_config \<Rightarrow> auth_error + 'r store" where
  "NewStoreWithConfig P salt c =
     (case cf_repository c of None \<Rightarrow> Inl (AuthConfiguration ''authentication repository is required'')
      | Some (ops, repo) \<Rightarrow>
     (case cf_mailer c of None \<Rightarrow> Inl (AuthConfiguration ''verification mailer is required'')
      | Some mailer \<Rightarrow>
      if cf_require_privileged_mfa c \<and> length (cf_mfa_encryption_key c) \<noteq> 32
      then Inl (AuthConfiguration ''privileged MFA requires a 32-byte encryption key'')
      else case generateFromPassword P salt ''not-a-real-password-value'' of Inl e \<Rightarrow> Inl e
      | Inr dummyHash \<Rightarrow> Inr \<lparr>st_ops = ops, st_repo = repo, st_mailer = mailer, st_sent = [],
          st_dummy_hash = dummyHash,
          st_session_ttl = positive_or (cf_session_ttl c) (8 * hour),
          st_verification_ttl = positive_or (cf_verification_ttl c) (30 * minute),
          st_verification_min_resend = positive_or (cf_verification_min_resend c) minute,
          st_public_app_url = trim_right_slashes (if trim_space (cf_public_app_url c) = []
             then ''http://127.0.0.1:5173'' else cf_public_app_url c),
          st_require_privileged_mfa = cf_require_privileged_mfa c,
          st_mfa_encryption_key = cf_mfa_encryption_key c,
          st_mfa_issuer = (if trim_space (cf_mfa_issuer c) = [] then ''SecureStore'' else cf_mfa_issuer c),
          st_login_failure_window = positive_or (cf_login_failure_window c) (15 * minute),
          st_login_failure_threshold = positive_or (cf_login_failure_threshold c) 5,
          st_account_lock_duration = positive_or (cf_account_lock_duration c) (15 * minute),
          st_step_up_ttl = positive_or (cf_step_up_ttl c) (5 * minute),
          st_require_admin_step_up = cf_require_admin_step_up c\<rparr>))"

section \<open>Validation of inputs\<close>

definition validEmail :: "platform \<Rightarrow> string \<Rightarrow> bool" where
  "validEmail P v \<longleftrightarrow> \<not> (length v = 0 \<or> length v > 254) \<and> p_parse_address P v = Some v"

definition validName :: "string \<Rightarrow> bool" where
  "validName v \<longleftrightarrow> length v > 0 \<and> length v \<le> 120 \<and> \<not> contains_any v CRLFNUL"

definition strongPassword :: "platform \<Rightarrow> string \<Rightarrow> bool" where
  "strongPassword P v \<longleftrightarrow> \<not> (length v < 12 \<or> length v > 128)
     \<and> (let classes = rune_classes P v in
         Lower \<in> set classes \<and> Upper \<in> set classes \<and> Number \<in> set classes \<and> OtherRune \<in> set classes)"

section \<open>Tokens and messages\<close>

definition randomToken :: "string + bytes \<Rightarrow> auth_error + string" where
  "randomToken draw = (case draw of Inl m \<Rightarrow> Inl (AuthRandom m) | Inr b \<Rightarrow> Inr (b64_encode b))"

definition opaqueID :: "string \<Rightarrow> string + bytes \<Rightarrow> auth_error + string" where
  "opaqueID pre draw =
     (case randomToken draw of Inl e \<Rightarrow> Inl e | Inr v \<Rightarrow> Inr (pre @ ''_'' @ v))"

text \<open>\<open>url.QueryEscape\<close> and \<open>url.PathEscape\<close> byte by byte.\<close>

definition unreserved :: "char \<Rightarrow> bool" where
  "unreserved c = (let n = (of_char c :: nat) in
     (48 \<le> n \<and> n \<le> 57) \<or> (65 \<le> n \<and> n \<le> 90) \<or> (97 \<le> n \<and> n \<le> 122) \<or> c \<in> set ''-_.~'')"

definition percent :: "char \<Rightarrow> string" where
  "percent c = (let n = (of_char c :: nat) in
     [CHR ''%'', ''0123456789ABCDEF'' ! (n div 16), ''0123456789ABCDEF'' ! (n mod 16)])"

definition query_escape :: "string \<Rightarrow> string" where
  "query_escape s = concat (map (\<lambda>c. if unreserved c then [c] else if c = CHR '' '' then ''+'' else percent c) s)"

definition path_escape :: "string \<Rightarrow> string" where
  "path_escape s = concat (map (\<lambda>c. if unreserved c \<or> c \<in> set ''$&+=:@'' then [c] else percent c) s)"

definition send :: "verification_message \<Rightarrow> 'r store \<Rightarrow> 'r store \<times> (auth_error + unit)" where
  "send m st =
     (case st_mailer st m of Some e \<Rightarrow> (st, Inl (AuthMail e))
      | None \<Rightarrow> (st\<lparr>st_sent := st_sent st @ [m]\<rparr>, Inr ()))"

definition deliverVerification ::
    "user \<Rightarrow> string \<Rightarrow> time \<Rightarrow> 'r store \<Rightarrow> 'r store \<times> (auth_error + unit)" where
  "deliverVerification u token expiresAt st =
     send \<lparr>vm_to = u_email u, vm_name = u_name u,
       vm_url = st_public_app_url st @ ''/#verify-email?token='' @ query_escape token,
       vm_expires_at = expiresAt\<rparr> st"

section \<open>Registration and verification\<close>

definition Register ::
    "platform \<Rightarrow> draws \<Rightarrow> time \<Rightarrow> string \<Rightarrow> string \<Rightarrow> string \<Rightarrow> 'r store \<Rightarrow> 'r store \<times> (auth_error + unit)" where
  "Register P rnd now name email password st =
     (let name = trim_space name; email = normalizeEmail P email in
      if \<not> validName name \<or> \<not> validEmail P email \<or> \<not> strongPassword P password then (st, Inl ErrInvalidInput)
      else case generateFromPassword P (rnd 0) password of Inl e \<Rightarrow> (st, Inl e)
      | Inr passwordHash \<Rightarrow>
      (case opaqueID ''usr'' (rnd 1) of Inl e \<Rightarrow> (st, Inl e)
      | Inr userID \<Rightarrow>
      (case randomToken (rnd 2) of Inl e \<Rightarrow> (st, Inl e)
      | Inr rawToken \<Rightarrow>
          let u = \<lparr>u_id = userID, u_name = name, u_email = email, u_role = ''user''\<rparr>;
              rec = zero_record\<lparr>ur_user := u, ur_password_hash := passwordHash, ur_created_at := now,
                 ur_account_status := ''active''\<rparr>
          in case io_create_user (st_ops st) rec (p_sha256 P rawToken) (now + st_verification_ttl st) now (st_repo st) of
            (r', Inl e) \<Rightarrow> (st\<lparr>st_repo := r'\<rparr>, if e = ErrDuplicateUser then Inr () else Inl ErrRegistration)
          | (r', Inr _) \<Rightarrow> deliverVerification u rawToken (now + st_verification_ttl st) (st\<lparr>st_repo := r'\<rparr>))))"

definition ResendVerification ::
    "platform \<Rightarrow> draws \<Rightarrow> time \<Rightarrow> string \<Rightarrow> 'r store \<Rightarrow> 'r store \<times> (auth_error + unit)" where
  "ResendVerification P rnd now email st =
     (let email = normalizeEmail P email in
      if \<not> validEmail P email then (st, Inr ())
      else case io_user_by_email (st_ops st) email (st_repo st) of Inl e \<Rightarrow> (st, Inr ())
      | Inr rec \<Rightarrow>
          if ur_email_verified_at rec \<noteq> None then (st, Inr ())
          else case randomToken (rnd 0) of Inl e \<Rightarrow> (st, Inl e)
          | Inr rawToken \<Rightarrow>
              (case io_replace_token (st_ops st) (ur_id rec) (p_sha256 P rawToken) (now + st_verification_ttl st)
                      now (st_verification_min_resend st) (st_repo st) of
                 (r', Inl e) \<Rightarrow> (st\<lparr>st_repo := r'\<rparr>, Inl e)
               | (r', Inr replaced) \<Rightarrow>
                   if \<not> replaced then (st\<lparr>st_repo := r'\<rparr>, Inr ())
                   else deliverVerification (ur_user rec) rawToken (now + st_verification_ttl st) (st\<lparr>st_repo := r'\<rparr>)))"

definition VerifyEmail :: "platform \<Rightarrow> time \<Rightarrow> string \<Rightarrow> 'r store \<Rightarrow> 'r store \<times> (auth_error + unit)" where
  "VerifyEmail P now token st =
     (let token = trim_space token in
      if length token < 32 \<or> length token > 256 then (st, Inl ErrVerificationToken)
      else case io_consume_token (st_ops st) (p_sha256 P token) now (st_repo st) of
             (r', res) \<Rightarrow> (st\<lparr>st_repo := r'\<rparr>, res))"

section \<open>Credentials and sessions\<close>

definition recordFailure :: "string \<Rightarrow> time \<Rightarrow> 'r store \<Rightarrow> 'r store" where
  "recordFailure userID now st =
     st\<lparr>st_repo := fst (io_record_failure (st_ops st) userID now (st_login_failure_window st)
        (st_login_failure_threshold st) (st_account_lock_duration st) (st_repo st))\<rparr>"

text \<open>Clock readings: 0 for the lock of a failing attempt, 1 for its record, 2 for the lock of a valid one.\<close>

definition verifyCredentials ::
    "platform \<Rightarrow> (nat \<Rightarrow> time) \<Rightarrow> string \<Rightarrow> string \<Rightarrow> string \<Rightarrow> 'r store \<Rightarrow> 'r store \<times> (auth_error + user_record)" where
  "verifyCredentials P clk email password audience st =
     (let email = normalizeEmail P email;
          found = io_user_by_email (st_ops st) email (st_repo st);
          hash = (case found of Inl _ \<Rightarrow> st_dummy_hash st | Inr rec \<Rightarrow> ur_password_hash rec);
          passwordValid = p_bcrypt_matches P hash (passwordMaterial P password)
      in case found of
           Inl _ \<Rightarrow> (st, Inl ErrInvalidCredentials)
         | Inr rec \<Rightarrow>
             if \<not> passwordValid
             then (if ur_account_status rec = ''active'' \<and> \<not> locked_at rec (clk 0)
                   then recordFailure (ur_id rec) (clk 1) st else st, Inl ErrInvalidCredentials)
             else if ur_email_verified_at rec = None then (st, Inl ErrEmailNotVerified)
             else if ur_account_status rec \<noteq> ''active'' \<or> locked_at rec (clk 2)
                \<or> \<not> roleAllowedForAudience (ur_role rec) audience then (st, Inl ErrInvalidCredentials)
             else (st, Inr rec))"

definition createSession ::
    "platform \<Rightarrow> string + bytes \<Rightarrow> string + bytes \<Rightarrow> time \<Rightarrow> user \<Rightarrow> string \<Rightarrow> 'r store
       \<Rightarrow> 'r store \<times> (auth_error + (user \<times> string \<times> session))" where
  "createSession P draw1 draw2 now u audience st =
     (case randomToken draw1 of Inl e \<Rightarrow> (st, Inl e)
      | Inr token \<Rightarrow>
     (case randomToken draw2 of Inl e \<Rightarrow> (st, Inl e)
      | Inr csrfToken \<Rightarrow>
          let s = \<lparr>ss_user = u, ss_audience = audience, ss_csrf_token = csrfToken,
                ss_expires_at = now + st_session_ttl st\<rparr>
          in case io_create_session (st_ops st) (p_sha256 P token) s now (st_repo st) of
               (r', Inl e) \<Rightarrow> (st\<lparr>st_repo := r'\<rparr>, Inl e)
             | (r', Inr _) \<Rightarrow> (st\<lparr>st_repo := r'\<rparr>, Inr (u, token, s))))"

definition loginForAudience ::
    "platform \<Rightarrow> draws \<Rightarrow> (nat \<Rightarrow> time) \<Rightarrow> string \<Rightarrow> string \<Rightarrow> string \<Rightarrow> 'r store
       \<Rightarrow> 'r store \<times> (auth_error + (user \<times> string \<times> session))" where
  "loginForAudience P rnd clk email password audience st =
     (case verifyCredentials P clk email password audience st of
        (st1, Inl e) \<Rightarrow> (st1, Inl e)
      | (st1, Inr rec) \<Rightarrow>
          (case io_clear_failures (st_ops st1) (ur_id rec) (st_repo st1) of
             (r', Inl e) \<Rightarrow> (st1\<lparr>st_repo := r'\<rparr>, Inl e)
           | (r', Inr _) \<Rightarrow> createSession P (rnd 0) (rnd 1) (clk 3) (ur_user rec) audience (st1\<lparr>st_repo := r'\<rparr>)))"

definition Login where
  "Login P rnd clk email password = loginForAudience P rnd clk email password SessionAudienceUser"

definition LoginPrivileged where
  "LoginPrivileged P rnd clk email password = loginForAudience P rnd clk email password SessionAudiencePrivileged"

definition Authenticate :: "platform \<Rightarrow> time \<Rightarrow> string \<Rightarrow> 'r store \<Rightarrow> 'r store \<times> (auth_error + session)" where
  "Authenticate P now token st =
     (if token = [] then (st, Inl ErrSessionNotFound)
      else case io_session_by_hash (st_ops st) (p_sha256 P token) now (st_repo st) of
             (r', res) \<Rightarrow> (st\<lparr>st_repo := r'\<rparr>, res))"

definition Logout :: "platform \<Rightarrow> string \<Rightarrow> 'r store \<Rightarrow> 'r store" where
  "Logout P token st =
     (if token = [] then st
      else st\<lparr>st_repo := fst (io_delete_session (st_ops st) (p_sha256 P token) (st_repo st))\<rparr>)"

section \<open>Administration\<close>

definition ListUsers ::
    "string \<Rightarrow> int \<Rightarrow> int \<Rightarrow> (user_record \<Rightarrow> time) \<Rightarrow> 'r store \<Rightarrow> auth_error + (admin_user list \<times> int \<times> int \<times> int)" where
  "ListUsers search limit offset clock st =
     (let search = trim_space search in
      if length search > 120 then Inl ErrInvalidInput
      else let limit = (if limit < 1 \<or> limit > 100 then 50 else limit);
               offset = (if offset < 0 then 0 else offset)
           in case io_list_users (st_ops st) search limit offset clock (st_repo st) of
                Inl e \<Rightarrow> Inl e
              | Inr (users, n) \<Rightarrow> Inr (users, n, limit, offset))"

text \<open>The audited operations also say whether the evidence was made durable with the mutation.\<close>

definition UpdateUserStatusAudited ::
    "string \<Rightarrow> string \<Rightarrow> string \<Rightarrow> intent \<Rightarrow> 'r store \<Rightarrow> 'r store \<times> bool \<times> (auth_error + unit)" where
  "UpdateUserStatusAudited actorID userID status i st =
     (let userID = trim_space userID in
      if userID = [] \<or> (status \<noteq> ''active'' \<and> status \<noteq> ''suspended'') then (st, False, Inl ErrInvalidInput)
      else if actorID = userID then (st, False, Inl ErrSelfManagement)
      else case (io_audited (st_ops st), in_event_id i \<noteq> []) of
        (Some ao, True) \<Rightarrow>
          (case ao_update_status ao userID status i (st_repo st) of (r', res) \<Rightarrow> (st\<lparr>st_repo := r'\<rparr>, True, res))
      | _ \<Rightarrow>
          (case io_update_status (st_ops st) userID status (st_repo st) of
             (r', res) \<Rightarrow> (st\<lparr>st_repo := r'\<rparr>, False, res)))"

definition RevokeUserSessionsAudited ::
    "string \<Rightarrow> string \<Rightarrow> intent \<Rightarrow> 'r store \<Rightarrow> 'r store \<times> bool \<times> (auth_error + unit)" where
  "RevokeUserSessionsAudited actorID userID i st =
     (let userID = trim_space userID in
      if userID = [] \<or> actorID = userID
      then (st, False, Inl (if actorID = userID then ErrSelfManagement else ErrInvalidInput))
      else case (io_audited (st_ops st), in_event_id i \<noteq> []) of
        (Some ao, True) \<Rightarrow>
          (case ao_delete_sessions ao userID i (st_repo st) of (r', res) \<Rightarrow> (st\<lparr>st_repo := r'\<rparr>, True, res))
      | _ \<Rightarrow>
          (case io_delete_sessions (st_ops st) userID (st_repo st) of
             (r', res) \<Rightarrow> (st\<lparr>st_repo := r'\<rparr>, False, res)))"

definition UpdateUserStatus where
  "UpdateUserStatus actorID userID status st =
     (case UpdateUserStatusAudited actorID userID status no_intent st of (st', _, res) \<Rightarrow> (st', res))"

definition RevokeUserSessions where
  "RevokeUserSessions actorID userID st =
     (case RevokeUserSessionsAudited actorID userID no_intent st of (st', _, res) \<Rightarrow> (st', res))"

definition UserExists :: "string \<Rightarrow> 'r store \<Rightarrow> auth_error + bool" where
  "UserExists userID st =
     (let userID = trim_space userID in
      if userID = [] then Inl ErrInvalidInput else io_user_exists (st_ops st) userID (st_repo st))"

definition UserRole :: "string \<Rightarrow> 'r store \<Rightarrow> auth_error + string" where
  "UserRole userID st =
     (let userID = trim_space userID in
      if userID = [] then Inl ErrInvalidInput else io_user_role (st_ops st) userID (st_repo st))"

definition GrantRecipient :: "platform \<Rightarrow> string \<Rightarrow> 'r store \<Rightarrow> auth_error + user" where
  "GrantRecipient P email st =
     (let email = normalizeEmail P email in
      if \<not> validEmail P email then Inl ErrUserNotFound
      else case io_user_by_email (st_ops st) email (st_repo st) of Inl e \<Rightarrow> Inl ErrUserNotFound
      | Inr rec \<Rightarrow>
          if ur_role rec \<noteq> ''user'' \<or> ur_account_status rec \<noteq> ''active'' \<or> ur_email_verified_at rec = None
          then Inl ErrUserNotFound else Inr (ur_user rec))"

end
