(* ===== verification/IdentityMfa.thy ===== *)
theory IdentityMfa
  imports IdentityStore
begin

text \<open>
  Multi-factor sign-in of privileged accounts, step-up proofs and privileged provisioning
  (internal/authn: mfa.go, step_up.go, privileged_provisioning.go).
\<close>

section \<open>One-time codes\<close>

text \<open>\<open>strconv.Atoi\<close> on a short string: an optional sign and at least one decimal digit.\<close>

definition digit_value :: "char \<Rightarrow> int option" where
  "digit_value c = (let n = (of_char c :: int) in if 48 \<le> n \<and> n \<le> 57 then Some (n - 48) else None)"

fun digits_value :: "int \<Rightarrow> string \<Rightarrow> int option" where
  "digits_value acc [] = Some acc"
| "digits_value acc (c # cs) =
     (case digit_value c of None \<Rightarrow> None | Some d \<Rightarrow> digits_value (acc * 10 + d) cs)"

fun atoi :: "string \<Rightarrow> int option" where
  "atoi [] = None"
| "atoi (c # cs) =
     (if c = CHR ''-'' then (if cs = [] then None else map_option uminus (digits_value 0 cs))
      else if c = CHR ''+'' then (if cs = [] then None else digits_value 0 cs)
      else digits_value 0 (c # cs))"

definition byte_at :: "bytes \<Rightarrow> nat \<Rightarrow> int" where
  "byte_at b i = (of_char (b ! i) :: int)"

definition totpCode :: "platform \<Rightarrow> bytes \<Rightarrow> int64 \<Rightarrow> int" where
  "totpCode P secret counter =
     (let sum = p_hmac_sha1 P secret (be64 counter);
          offset = nat (byte_at sum (length sum - 1) mod 16);
          v = (byte_at sum offset mod 128) * 2 ^ 24 + byte_at sum (offset + 1) * 2 ^ 16
            + byte_at sum (offset + 2) * 2 ^ 8 + byte_at sum (offset + 3)
      in v mod 1000000)"

text \<open>\<open>now.Unix() / 30\<close>: whole seconds since the epoch, and Go's division, which truncates.\<close>

definition time_step :: "time \<Rightarrow> int64" where
  "time_step now = (let s = now div second in sgn s * (\<bar>s\<bar> div 30))"

definition validateTOTP :: "platform \<Rightarrow> bytes \<Rightarrow> string \<Rightarrow> time \<Rightarrow> int64 \<times> bool" where
  "validateTOTP P secret code now =
     (let code = trim_space code in
      if length code \<noteq> 6 then (-1, False)
      else case atoi code of None \<Rightarrow> (-1, False)
      | Some provided \<Rightarrow>
          (let current = time_step now in
           case find (\<lambda>counter. provided = totpCode P secret counter) [current, current - 1, current + 1] of
             Some counter \<Rightarrow> (counter, True)
           | None \<Rightarrow> (-1, False)))"

definition recoveryCodeHash :: "platform \<Rightarrow> string \<Rightarrow> string \<Rightarrow> bytes" where
  "recoveryCodeHash P userID code = p_sha256 P (userID @ NUL @ to_upper P (trim_space code))"

definition recovery_code :: "platform \<Rightarrow> string \<Rightarrow> string" where
  "recovery_code P raw =
     (let raw = to_upper P (map (\<lambda>c. if c = CHR ''-'' then CHR ''A'' else if c = CHR ''_'' then CHR ''B'' else c) raw)
      in take 4 raw @ ''-'' @ take 4 (drop 4 raw))"

fun generateRecoveryCodes :: "platform \<Rightarrow> (string + bytes) list \<Rightarrow> auth_error + string list" where
  "generateRecoveryCodes P [] = Inr []"
| "generateRecoveryCodes P (draw # draws) =
     (case randomToken draw of Inl e \<Rightarrow> Inl e
      | Inr raw \<Rightarrow>
          (case generateRecoveryCodes P draws of Inl e \<Rightarrow> Inl e
           | Inr codes \<Rightarrow> Inr (recovery_code P raw # codes)))"

definition mfa_aad :: bytes where
  "mfa_aad = ''securestore-mfa-v1''"

definition sealMFASecret :: "platform \<Rightarrow> bytes \<Rightarrow> bytes \<Rightarrow> string + bytes \<Rightarrow> auth_error + (bytes \<times> bytes)" where
  "sealMFASecret P key plaintext draw =
     (if \<not> valid_aes_key key then Inl (AuthConfiguration ''invalid key size'')
      else case draw of Inl m \<Rightarrow> Inl (AuthRandom m)
      | Inr nonce \<Rightarrow> Inr (p_gcm_seal P key nonce plaintext mfa_aad, nonce))"

definition openMFASecret :: "platform \<Rightarrow> bytes \<Rightarrow> bytes \<Rightarrow> bytes \<Rightarrow> auth_error + bytes" where
  "openMFASecret P key ciphertext nonce =
     (if \<not> valid_aes_key key then Inl (AuthConfiguration ''invalid key size'')
      else case p_gcm_open P key nonce ciphertext mfa_aad of None \<Rightarrow> Inl ErrMFAInvalid | Some p \<Rightarrow> Inr p)"

text \<open>\<open>base32.StdEncoding.WithPadding(NoPadding)\<close>: five bits per character, most significant first.\<close>

definition byte_bits :: "char \<Rightarrow> bool list" where
  "byte_bits c = map (\<lambda>i. odd ((of_char c :: nat) div 2 ^ i)) [7, 6, 5, 4, 3, 2, 1, 0]"

definition bits_nat :: "bool list \<Rightarrow> nat" where
  "bits_nat bs = foldl (\<lambda>n b. 2 * n + of_bool b) 0 bs"

fun groups5 :: "bool list \<Rightarrow> bool list list" where
  "groups5 [] = []"
| "groups5 (b # bs) = take 5 (b # bs @ replicate 4 False) # groups5 (drop 4 bs)"

definition base32_encode :: "bytes \<Rightarrow> string" where
  "base32_encode b =
     map (\<lambda>g. ''ABCDEFGHIJKLMNOPQRSTUVWXYZ234567'' ! bits_nat g) (groups5 (concat (map byte_bits b)))"

section \<open>Privileged sign-in\<close>

record mfa_challenge =
  mf_mode :: string
  mf_challenge_token :: string
  mf_expires_at :: time
  mf_manual_entry_secret :: string
  mf_otpauth_uri :: string

record mfa_completion =
  mp_user :: user
  mp_token :: string
  mp_session :: session
  mp_recovery_codes :: "string list"

text \<open>
  Draws: 0 the challenge token, 1 the new secret, 2 its nonce. Clock: 0 to 2 in
  \<open>verifyCredentials\<close>, 3 for the challenge. An error of the configuration lookup other than
  \<open>ErrMFANotConfigured\<close> ends the call.
\<close>

definition otpauth_uri :: "string \<Rightarrow> string \<Rightarrow> string \<Rightarrow> string" where
  "otpauth_uri issuer email encoded =
     ''otpauth://totp/'' @ path_escape (issuer @ '':'' @ email)
       @ ''?algorithm=SHA1&digits=6&issuer='' @ query_escape issuer @ ''&period=30&secret='' @ query_escape encoded"

definition BeginPrivilegedLogin ::
    "platform \<Rightarrow> draws \<Rightarrow> (nat \<Rightarrow> time) \<Rightarrow> string \<Rightarrow> string \<Rightarrow> 'r store \<Rightarrow> 'r store \<times> (auth_error + mfa_challenge)" where
  "BeginPrivilegedLogin P rnd clk email password st =
     (if \<not> st_require_privileged_mfa st then (st, Inl ErrMFANotConfigured)
      else case verifyCredentials P clk email password SessionAudiencePrivileged st of
        (st1, Inl e) \<Rightarrow> (st1, Inl e)
      | (st1, Inr rec) \<Rightarrow>
          (case io_mfa (st_ops st1) of None \<Rightarrow> (st1, Inl AuthUnsupported)
           | Some mo \<Rightarrow>
               let now = truncate_us (clk 3) in
               case randomToken (rnd 0) of Inl e \<Rightarrow> (st1, Inl e)
               | Inr challengeToken \<Rightarrow>
                   let expires = now + mfaChallengeTTL;
                       issue = (\<lambda>ciphertext nonce mode encoded uri.
                         case mo_create_challenge mo (p_sha256 P challengeToken)
                             \<lparr>cr_user = ur_user rec, cr_pending_secret_ciphertext = ciphertext,
                               cr_pending_secret_nonce = nonce, cr_expires_at = expires\<rparr> now (st_repo st1) of
                           (r', Inl e) \<Rightarrow> (st1\<lparr>st_repo := r'\<rparr>, Inl e)
                         | (r', Inr _) \<Rightarrow> (st1\<lparr>st_repo := r'\<rparr>, Inr \<lparr>mf_mode = mode,
                             mf_challenge_token = challengeToken, mf_expires_at = expires,
                             mf_manual_entry_secret = encoded, mf_otpauth_uri = uri\<rparr>))
                   in case mo_configuration mo (ur_id rec) (st_repo st1) of
                        Inr _ \<Rightarrow> issue [] [] ''challenge'' [] []
                      | Inl e \<Rightarrow>
                          if e \<noteq> ErrMFANotConfigured then (st1, Inl e)
                          else case rnd 1 of Inl m \<Rightarrow> (st1, Inl (AuthRandom m))
                          | Inr secret \<Rightarrow>
                              (case sealMFASecret P (st_mfa_encryption_key st1) secret (rnd 2) of
                                 Inl e \<Rightarrow> (st1, Inl e)
                               | Inr (ciphertext, nonce) \<Rightarrow>
                                   issue ciphertext nonce ''enroll'' (base32_encode secret)
                                     (otpauth_uri (st_mfa_issuer st1) (ur_email rec) (base32_encode secret)))))"

text \<open>
  \<open>CompletePrivilegedLogin\<close>, from the consumed challenge on: the account as it is now, the secret of
  the pending enrolment or the stored configuration, the code, and the record of its use.
\<close>

definition finish_login ::
    "platform \<Rightarrow> string + bytes \<Rightarrow> string + bytes \<Rightarrow> time \<Rightarrow> user \<Rightarrow> string list \<Rightarrow> 'r store
       \<Rightarrow> 'r store \<times> (auth_error + mfa_completion)" where
  "finish_login P draw1 draw2 at u codes st =
     (case io_clear_failures (st_ops st) (u_id u) (st_repo st) of
        (r', Inl e) \<Rightarrow> (st\<lparr>st_repo := r'\<rparr>, Inl e)
      | (r', Inr _) \<Rightarrow>
          (case createSession P draw1 draw2 at u SessionAudiencePrivileged (st\<lparr>st_repo := r'\<rparr>) of
             (st', Inl e) \<Rightarrow> (st', Inl e)
           | (st', Inr (u', token, s)) \<Rightarrow>
               (st', Inr \<lparr>mp_user = u', mp_token = token, mp_session = s, mp_recovery_codes = codes\<rparr>)))"

definition enroll_login ::
    "platform \<Rightarrow> draws \<Rightarrow> time \<Rightarrow> time \<Rightarrow> 'r mfa_ops \<Rightarrow> user \<Rightarrow> bytes \<Rightarrow> bytes \<Rightarrow> int64 \<Rightarrow> 'r store
       \<Rightarrow> 'r store \<times> (auth_error + mfa_completion)" where
  "enroll_login P rnd now at mo u ciphertext nonce counter st =
     (case generateRecoveryCodes P (map rnd [2..<12]) of Inl e \<Rightarrow> (st, Inl e)
      | Inr codes \<Rightarrow>
          (case mo_confirm mo (u_id u) ciphertext nonce counter (map (recoveryCodeHash P (u_id u)) codes) now (st_repo st) of
             (r', Inl e) \<Rightarrow> (st\<lparr>st_repo := r'\<rparr>, Inl e)
           | (r', Inr _) \<Rightarrow> finish_login P (rnd 0) (rnd 1) at u codes (st\<lparr>st_repo := r'\<rparr>)))"

definition challenge_login ::
    "platform \<Rightarrow> draws \<Rightarrow> time \<Rightarrow> time \<Rightarrow> 'r mfa_ops \<Rightarrow> user \<Rightarrow> int64 \<Rightarrow> 'r store
       \<Rightarrow> 'r store \<times> (auth_error + mfa_completion)" where
  "challenge_login P rnd now at mo u counter st =
     (if counter \<ge> 0
      then case mo_advance_counter mo (u_id u) counter (st_repo st) of
             (r', Inl e) \<Rightarrow> (st\<lparr>st_repo := r'\<rparr>, Inl e)
           | (r', Inr advanced) \<Rightarrow>
               if \<not> advanced then (recordFailure (u_id u) now (st\<lparr>st_repo := r'\<rparr>), Inl ErrMFAInvalid)
               else finish_login P (rnd 0) (rnd 1) at u [] (st\<lparr>st_repo := r'\<rparr>)
      else finish_login P (rnd 0) (rnd 1) at u [] st)"

definition check_code ::
    "platform \<Rightarrow> draws \<Rightarrow> time \<Rightarrow> time \<Rightarrow> 'r mfa_ops \<Rightarrow> user \<Rightarrow> bool \<Rightarrow> bytes \<Rightarrow> bytes \<Rightarrow> string \<Rightarrow> 'r store
       \<Rightarrow> 'r store \<times> (auth_error + mfa_completion)" where
  "check_code P rnd now at mo u enrolling ciphertext nonce code st =
     (case openMFASecret P (st_mfa_encryption_key st) ciphertext nonce of Inl _ \<Rightarrow> (st, Inl ErrMFAInvalid)
      | Inr secret \<Rightarrow>
          let (counter, valid) = validateTOTP P secret code now in
          case (if \<not> valid \<and> \<not> enrolling
                then mo_consume_recovery_code mo (u_id u) (recoveryCodeHash P (u_id u) code) now (st_repo st)
                else (st_repo st, Inr valid)) of
            (r', Inl e) \<Rightarrow> (st\<lparr>st_repo := r'\<rparr>, Inl e)
          | (r', Inr valid) \<Rightarrow>
              (let st = st\<lparr>st_repo := r'\<rparr> in
               if \<not> valid then (recordFailure (u_id u) now st, Inl ErrMFAInvalid)
               else if enrolling then enroll_login P rnd now at mo u ciphertext nonce counter st
               else challenge_login P rnd now at mo u counter st))"

definition CompletePrivilegedLogin ::
    "platform \<Rightarrow> draws \<Rightarrow> (nat \<Rightarrow> time) \<Rightarrow> string \<Rightarrow> string \<Rightarrow> 'r store \<Rightarrow> 'r store \<times> (auth_error + mfa_completion)" where
  "CompletePrivilegedLogin P rnd clk challengeToken code st =
     (if \<not> st_require_privileged_mfa st then (st, Inl ErrMFANotConfigured)
      else if length (trim_space challengeToken) < 32 then (st, Inl ErrMFAChallenge)
      else case io_mfa (st_ops st) of None \<Rightarrow> (st, Inl AuthPanic)
      | Some mo \<Rightarrow>
          (let now = truncate_us (clk 0) in
           case mo_consume_challenge mo (p_sha256 P (trim_space challengeToken)) now (st_repo st) of
             (r', Inl e) \<Rightarrow> (st\<lparr>st_repo := r'\<rparr>, Inl e)
           | (r', Inr challenge) \<Rightarrow>
               (let st = st\<lparr>st_repo := r'\<rparr> in
                case io_user_by_email (st_ops st) (u_email (cr_user challenge)) r' of
                  Inl _ \<Rightarrow> (st, Inl ErrMFAChallenge)
                | Inr current \<Rightarrow>
                    if ur_account_status current \<noteq> ''active'' \<or> locked_at current now
                      \<or> \<not> roleAllowedForAudience (ur_role current) SessionAudiencePrivileged
                    then (st, Inl ErrMFAChallenge)
                    else
                      (let u = (cr_user challenge)\<lparr>u_role := ur_role current\<rparr>;
                           config = mo_configuration mo (u_id u) r';
                           enrolling = cr_pending_secret_ciphertext challenge \<noteq> []
                       in if enrolling
                          then check_code P rnd now (clk 1) mo u True (cr_pending_secret_ciphertext challenge)
                                 (cr_pending_secret_nonce challenge) code st
                          else case config of Inl e \<Rightarrow> (st, Inl e)
                          | Inr c \<Rightarrow> check_code P rnd now (clk 1) mo u False (mc_secret_ciphertext c)
                                 (mc_secret_nonce c) code st))))"

section \<open>Step-up proofs\<close>

record step_up_proof =
  su_token :: string
  su_expires_at :: time

definition CreateStepUpProof ::
    "platform \<Rightarrow> string + bytes \<Rightarrow> (nat \<Rightarrow> time) \<Rightarrow> string \<Rightarrow> session \<Rightarrow> string \<Rightarrow> string \<Rightarrow> 'r store
       \<Rightarrow> 'r store \<times> (auth_error + step_up_proof)" where
  "CreateStepUpProof P draw clk sessionToken s password code st =
     (if ss_audience s \<noteq> SessionAudiencePrivileged \<or> u_role (ss_user s) \<noteq> ''admin'' then (st, Inl ErrStepUpRequired)
      else case verifyCredentials P clk (u_email (ss_user s)) password SessionAudiencePrivileged st of
        (st1, Inl _) \<Rightarrow> (st1, Inl ErrStepUpRequired)
      | (st1, Inr rec) \<Rightarrow>
          if ur_id rec \<noteq> u_id (ss_user s) then (st1, Inl ErrStepUpRequired)
          else case io_mfa (st_ops st1) of None \<Rightarrow> (st1, Inl ErrStepUpRequired)
          | Some mo \<Rightarrow>
          (case mo_configuration mo (ur_id rec) (st_repo st1) of Inl _ \<Rightarrow> (st1, Inl ErrStepUpRequired)
           | Inr c \<Rightarrow>
          (case openMFASecret P (st_mfa_encryption_key st1) (mc_secret_ciphertext c) (mc_secret_nonce c) of
             Inl _ \<Rightarrow> (st1, Inl ErrStepUpRequired)
           | Inr secret \<Rightarrow>
               let now = truncate_us (clk 3); (counter, valid) = validateTOTP P secret code now in
               if \<not> valid then (recordFailure (ur_id rec) now st1, Inl ErrStepUpRequired)
               else case mo_advance_counter mo (ur_id rec) counter (st_repo st1) of
                 (r', Inl e) \<Rightarrow> (st1\<lparr>st_repo := r'\<rparr>, Inl e)
               | (r', Inr advanced) \<Rightarrow>
                   if \<not> advanced then (recordFailure (ur_id rec) now (st1\<lparr>st_repo := r'\<rparr>), Inl ErrStepUpRequired)
                   else case io_clear_failures (st_ops st1) (ur_id rec) r' of
                     (r2, Inl e) \<Rightarrow> (st1\<lparr>st_repo := r2\<rparr>, Inl e)
                   | (r2, Inr _) \<Rightarrow>
                       (case randomToken draw of Inl e \<Rightarrow> (st1\<lparr>st_repo := r2\<rparr>, Inl e)
                        | Inr token \<Rightarrow>
                       (case io_step_up (st_ops st1) of None \<Rightarrow> (st1\<lparr>st_repo := r2\<rparr>, Inl AuthUnsupported)
                        | Some so \<Rightarrow>
                            (case so_create_proof so (p_sha256 P token) (p_sha256 P sessionToken) (ur_id rec)
                                    (now + st_step_up_ttl st1) now r2 of
                               (r3, Inl e) \<Rightarrow> (st1\<lparr>st_repo := r3\<rparr>, Inl e)
                             | (r3, Inr _) \<Rightarrow> (st1\<lparr>st_repo := r3\<rparr>,
                                 Inr \<lparr>su_token = token, su_expires_at = now + st_step_up_ttl st1\<rparr>)))))))"

definition ValidateStepUpProof :: "platform \<Rightarrow> time \<Rightarrow> string \<Rightarrow> session \<Rightarrow> string \<Rightarrow> 'r store \<Rightarrow> bool" where
  "ValidateStepUpProof P now sessionToken s proofToken st =
     (if trim_space proofToken = [] \<or> sessionToken = [] then False
      else case io_step_up (st_ops st) of None \<Rightarrow> False
      | Some so \<Rightarrow> so_proof_valid so (p_sha256 P proofToken) (p_sha256 P sessionToken) (u_id (ss_user s)) now
            (st_repo st) = Inr True)"

section \<open>Privileged provisioning\<close>

definition InvitePrivilegedAccountAudited ::
    "platform \<Rightarrow> string + bytes \<Rightarrow> time \<Rightarrow> string \<Rightarrow> string \<Rightarrow> string \<Rightarrow> string \<Rightarrow> intent \<Rightarrow> 'r store
       \<Rightarrow> 'r store \<times> bool \<times> (auth_error + unit)" where
  "InvitePrivilegedAccountAudited P draw now actorID name email role i st =
     (let name = trim_space name; email = normalizeEmail P email in
      if actorID = [] \<or> \<not> validName name \<or> \<not> validEmail P email \<or> (role \<noteq> ''admin'' \<and> role \<noteq> ''auditor'')
      then (st, False, Inl ErrInvalidInput)
      else case io_user_by_email (st_ops st) email (st_repo st) of
        Inr _ \<Rightarrow> (st, False, Inl ErrDuplicateUser)
      | Inl e \<Rightarrow>
          if e \<noteq> ErrUserNotFound then (st, False, Inl e)
          else case io_invitations (st_ops st) of None \<Rightarrow> (st, False, Inl AuthUnsupported)
          | Some vo \<Rightarrow>
          (case randomToken draw of Inl e \<Rightarrow> (st, False, Inl e)
           | Inr token \<Rightarrow>
               let expires = now + st_verification_ttl st;
                   invitation = \<lparr>pi_invited_by = actorID, pi_name = name, pi_email = email,
                     pi_role = role, pi_expires_at = expires\<rparr>;
                   audited = (io_audited (st_ops st) \<noteq> None \<and> in_event_id i \<noteq> [])
               in case (if audited
                        then ao_create_invitation (the (io_audited (st_ops st))) (p_sha256 P token) invitation now i (st_repo st)
                        else vo_create vo (p_sha256 P token) invitation now (st_repo st)) of
                    (r', Inl e) \<Rightarrow> (st\<lparr>st_repo := r'\<rparr>, False, Inl e)
                  | (r', Inr _) \<Rightarrow>
                      (case send \<lparr>vm_to = email, vm_name = name,
                          vm_url = st_public_app_url st @ ''/#activate-privileged?token='' @ query_escape token,
                          vm_expires_at = expires\<rparr> (st\<lparr>st_repo := r'\<rparr>) of
                         (st', res) \<Rightarrow> (st', audited, res))))"

definition ActivatePrivilegedAccountAudited ::
    "platform \<Rightarrow> draws \<Rightarrow> (nat \<Rightarrow> time) \<Rightarrow> string \<Rightarrow> string \<Rightarrow> intent \<Rightarrow> 'r store
       \<Rightarrow> 'r store \<times> (auth_error + (user \<times> bool))" where
  "ActivatePrivilegedAccountAudited P rnd clk token password i st =
     (let token = trim_space token in
      if length token < 32 \<or> length token > 256 \<or> \<not> strongPassword P password then (st, Inl ErrInvitationToken)
      else case io_invitations (st_ops st) of None \<Rightarrow> (st, Inl AuthUnsupported)
      | Some vo \<Rightarrow>
      (case generateFromPassword P (rnd 0) password of Inl e \<Rightarrow> (st, Inl e)
       | Inr passwordHash \<Rightarrow>
      (case opaqueID ''usr'' (rnd 1) of Inl e \<Rightarrow> (st, Inl e)
       | Inr userID \<Rightarrow>
           let rec = zero_record\<lparr>ur_user := zero_user\<lparr>u_id := userID\<rparr>, ur_password_hash := passwordHash,
                 ur_account_status := ''active'', ur_created_at := clk 0\<rparr>;
               audited = (io_audited (st_ops st) \<noteq> None \<and> in_event_id i \<noteq> [])
           in case (if audited
                    then ao_accept_invitation (the (io_audited (st_ops st))) (p_sha256 P token) rec (clk 1)
                           (i\<lparr>in_resource_id := userID\<rparr>) (st_repo st)
                    else vo_accept vo (p_sha256 P token) rec (clk 1) (st_repo st)) of
                (r', Inl e) \<Rightarrow> (st\<lparr>st_repo := r'\<rparr>,
                   Inl (if e = ErrInvitationToken \<or> e = ErrDuplicateUser then ErrInvitationToken else e))
              | (r', Inr created) \<Rightarrow> (st\<lparr>st_repo := r'\<rparr>, Inr (created, audited)))))"

text \<open>Without evidence: the audited operations with an empty intent.\<close>

definition InvitePrivilegedAccount where
  "InvitePrivilegedAccount P draw now actorID name email role st =
     (case InvitePrivilegedAccountAudited P draw now actorID name email role no_intent st of (st', _, res) \<Rightarrow> (st', res))"

definition ActivatePrivilegedAccount where
  "ActivatePrivilegedAccount P rnd clk token password st =
     (case ActivatePrivilegedAccountAudited P rnd clk token password no_intent st of
        (st', Inl e) \<Rightarrow> (st', Inl e) | (st', Inr (u, _)) \<Rightarrow> (st', Inr u))"

end
