(* ===== verification/IdentityProperties.thy ===== *)
theory IdentityProperties
  imports IdentityMfa
begin

text \<open>
  The properties of the identity component. The client lemmas are proved once over the contract
  \<open>identity_repository\<close>: every operation of the service keeps the repository sound. The histories and
  the stated properties are those of the service on the memory repository.
\<close>

section \<open>The service keeps a sound repository\<close>

context identity_repository
begin

definition store_good :: "'r store \<Rightarrow> bool" where
  "store_good st \<longleftrightarrow> st_ops st = ops \<and> invar (st_repo st) \<and> 0 < st_account_lock_duration st"

definition fresh_draw :: "'r store \<Rightarrow> string + bytes \<Rightarrow> bool" where
  "fresh_draw st draw \<longleftrightarrow> (\<forall>b e rec. draw = Inr b \<longrightarrow> account (st_repo st) e = Some rec \<longrightarrow>
     ur_id rec \<noteq> ''usr_'' @ b64_encode b)"

lemma store_good_repo: "store_good st \<Longrightarrow> invar r \<Longrightarrow> store_good (st\<lparr>st_repo := r\<rparr>)"
  by (simp add: store_good_def)

lemma store_good_send [simp]: "store_good (fst (send m st)) = store_good st"
  by (simp add: send_def store_good_def split: option.splits)

lemma store_good_deliver [simp]: "store_good (fst (deliverVerification u t x st)) = store_good st"
  by (simp add: deliverVerification_def)

lemma good_invar: "store_good st \<Longrightarrow> invar (st_repo st)"
  and good_ops: "store_good st \<Longrightarrow> st_ops st = ops"
  by (simp_all add: store_good_def)

lemma fst_pairD: "f = (r', res) \<Longrightarrow> invar (fst f) \<Longrightarrow> invar r'"
  by simp

lemma Register_good:
  assumes "store_good st" and "fresh_draw st (rnd 1)"
  shows "store_good (fst (Register P rnd now name email password st))"
proof -
  have keep: "invar (fst (io_create_user ops rec h x now (st_repo st)))"
    if "rnd 1 = Inr b" "ur_id rec = ''usr_'' @ b64_encode b" for rec h x b
    using create_user [OF good_invar [OF assms(1)], of rec] assms(2) that
    by (auto simp: fresh_draw_def)
  show ?thesis
    using assms(1) keep
    by (auto simp: good_ops [OF assms(1)] store_good_repo [OF assms(1)] Register_def Let_def opaqueID_def
        randomToken_def split: sum.splits prod.splits dest!: fst_pairD)
qed

lemma ResendVerification_good:
  assumes "store_good st"
  shows "store_good (fst (ResendVerification P rnd now email st))"
  using assms keeps(1) [OF good_invar [OF assms]]
  by (auto simp: good_ops [OF assms] store_good_repo [OF assms] ResendVerification_def Let_def
      randomToken_def split: sum.splits prod.splits dest!: fst_pairD)

lemma VerifyEmail_good:
  assumes "store_good st"
  shows "store_good (fst (VerifyEmail P now token st))"
  using assms keeps(2) [OF good_invar [OF assms]]
  by (auto simp: good_ops [OF assms] store_good_repo [OF assms] VerifyEmail_def Let_def
      split: sum.splits prod.splits dest!: fst_pairD)

lemma recordFailure_good:
  assumes "store_good st"
  shows "store_good (recordFailure u now st)"
  using assms keeps(6) [OF good_invar [OF assms]]
  by (auto simp: recordFailure_def store_good_def)

lemma verifyCredentials_good:
  assumes "store_good st"
  shows "store_good (fst (verifyCredentials P clk email password audience st))"
  using assms recordFailure_good [OF assms]
  by (auto simp: verifyCredentials_def Let_def split: sum.splits)

text \<open>Valid credentials name an active, verified, unlocked account of the right role, and change nothing.\<close>

lemma verifyCredentials_result:
  assumes "store_good st" and "verifyCredentials P clk email password audience st = (st', Inr rec)"
  shows "st' = st \<and> account (st_repo st) (ur_email rec) = Some rec \<and> ur_account_status rec = ''active''
    \<and> ur_email_verified_at rec \<noteq> None \<and> \<not> locked_at rec (clk 2)
    \<and> roleAllowedForAudience (ur_role rec) audience
    \<and> p_bcrypt_matches P (ur_password_hash rec) (passwordMaterial P password)
    \<and> ur_email rec = normalizeEmail P email"
proof -
  have found: "io_user_by_email ops (normalizeEmail P email) (st_repo st) = Inr rec" and "st' = st"
    and "ur_account_status rec = ''active''" "ur_email_verified_at rec \<noteq> None" "\<not> locked_at rec (clk 2)"
      "roleAllowedForAudience (ur_role rec) audience"
      "p_bcrypt_matches P (ur_password_hash rec) (passwordMaterial P password)"
    using assms(2) good_ops [OF assms(1)]
    by (auto simp: verifyCredentials_def Let_def split: sum.splits if_splits)
  moreover from lookup [OF good_invar [OF assms(1)] found]
  have "account (st_repo st) (normalizeEmail P email) = Some rec" .
  moreover from sound_account [OF sound [OF good_invar [OF assms(1)]] this]
  have "ur_email rec = normalizeEmail P email" by simp
  ultimately show ?thesis by simp
qed

lemma createSession_good:
  assumes "store_good st" and "account (st_repo st) (ur_email rec) = Some rec" and "ur_account_status rec = ''active''"
    and "ur_email_verified_at rec \<noteq> None" "ur_locked_until rec = None" "roleAllowedForAudience (ur_role rec) audience"
  shows "store_good (fst (createSession P d1 d2 now (ur_user rec) audience st))"
proof -
  have "invar (fst (io_create_session ops h s now (st_repo st)))" if "ss_user s = ur_user rec" "ss_audience s = audience" for h s
    using create_session [OF good_invar [OF assms(1)], of s rec] assms(2-6) that by (auto simp: session_fits_def)
  then show ?thesis
    using assms(1)
    by (auto simp: good_ops [OF assms(1)] store_good_repo [OF assms(1)] createSession_def Let_def
        split: sum.splits prod.splits dest!: fst_pairD)
qed

text \<open>The last steps of every sign-in: the failures are cleared, then the session is created.\<close>

lemma clear_then_session_good:
  assumes "store_good st" and "account (st_repo st) (ur_email rec) = Some rec" and "ur_account_status rec = ''active''"
    and "ur_email_verified_at rec \<noteq> None" "roleAllowedForAudience (ur_role rec) audience"
    and clr: "io_clear_failures ops (ur_id rec) (st_repo st) = (r', Inr x)"
  shows "store_good (fst (createSession P d1 d2 now (ur_user rec) audience (st\<lparr>st_repo := r'\<rparr>)))"
proof -
  have good: "store_good (st\<lparr>st_repo := r'\<rparr>)"
    using keeps(7) [OF good_invar [OF assms(1)], of "ur_id rec"] clr store_good_repo [OF assms(1)] by simp
  have "account r' (ur_email rec) = Some (cleared rec)"
    using clear [OF good_invar [OF assms(1)] clr assms(2)] by simp
  then show ?thesis
    using createSession_good [OF good, of "cleared rec" audience P d1 d2 now] assms(3-5) by simp
qed

lemma loginForAudience_good:
  assumes "store_good st"
  shows "store_good (fst (loginForAudience P rnd clk email password audience st))"
proof -
  obtain st1 res where cred: "verifyCredentials P clk email password audience st = (st1, res)" by fastforce
  show ?thesis
  proof (cases res)
    case (Inl e)
    then show ?thesis using verifyCredentials_good [OF assms, of P clk email password audience] cred
      by (simp add: loginForAudience_def)
  next
    case (Inr rec)
    with cred have cred': "verifyCredentials P clk email password audience st = (st1, Inr rec)" by simp
    from verifyCredentials_result [OF assms cred'] have st1: "st1 = st"
      and rec: "account (st_repo st) (ur_email rec) = Some rec" "ur_account_status rec = ''active''"
        "ur_email_verified_at rec \<noteq> None" "roleAllowedForAudience (ur_role rec) audience" by auto
    obtain r' x where clr: "io_clear_failures ops (ur_id rec) (st_repo st) = (r', x)" by fastforce
    have "invar r'" using keeps(7) [OF good_invar [OF assms], of "ur_id rec"] clr by simp
    then show ?thesis
      using clear_then_session_good [OF assms rec] cred Inr st1 clr good_ops [OF assms] store_good_repo [OF assms]
      by (cases x) (simp_all add: loginForAudience_def)
  qed
qed

lemma Authenticate_good:
  assumes "store_good st" and "Authenticate P now token st = (st', res)"
  shows "store_good st' \<and> (\<forall>s. res = Inr s \<longrightarrow> now < ss_expires_at s
    \<and> (\<exists>rec. account (st_repo st) (u_email (ss_user s)) = Some rec \<and> session_fits rec s))"
proof (cases "token = []")
  case True
  with assms show ?thesis by (auto simp: Authenticate_def)
next
  case False
  obtain r' where look: "io_session_by_hash ops (p_sha256 P token) now (st_repo st) = (r', res)"
    and st': "st' = st\<lparr>st_repo := r'\<rparr>"
    using assms False good_ops [OF assms(1)] by (auto simp: Authenticate_def split: prod.splits)
  from session_lookup [OF good_invar [OF assms(1)] look]
  have "invar r'" and s: "\<forall>s. res = Inr s \<longrightarrow> live (st_repo st) (p_sha256 P token) = Some s \<and> now < ss_expires_at s"
    by auto
  then show ?thesis using st' store_good_repo [OF assms(1)] sound_live [OF sound [OF good_invar [OF assms(1)]]]
    by auto
qed

lemma Logout_good: "store_good st \<Longrightarrow> store_good (Logout P token st)"
  using keeps(3) by (auto simp: Logout_def store_good_def)

lemma UpdateUserStatus_good:
  assumes "store_good st"
  shows "store_good (fst (UpdateUserStatusAudited actor u status i st))"
  using assms keeps(4) [OF good_invar [OF assms]]
  by (auto simp: good_ops [OF assms] store_good_repo [OF assms] extensions UpdateUserStatusAudited_def Let_def
      split: prod.splits dest!: fst_pairD)

lemma RevokeUserSessions_good:
  assumes "store_good st"
  shows "store_good (fst (RevokeUserSessionsAudited actor u i st))"
  using assms keeps(5) [OF good_invar [OF assms]]
  by (auto simp: good_ops [OF assms] store_good_repo [OF assms] extensions RevokeUserSessionsAudited_def Let_def
      split: prod.splits dest!: fst_pairD)

lemma BeginPrivilegedLogin_good:
  assumes "store_good st"
  shows "store_good (fst (BeginPrivilegedLogin P rnd clk email password st))"
proof -
  obtain st1 res where cred: "verifyCredentials P clk email password SessionAudiencePrivileged st = (st1, res)"
    by fastforce
  show ?thesis
  proof (cases res)
    case (Inl e)
    then show ?thesis
      using assms verifyCredentials_good [OF assms, of P clk email password SessionAudiencePrivileged] cred
      by (simp add: BeginPrivilegedLogin_def)
  next
    case (Inr rec)
    with cred have cred': "verifyCredentials P clk email password SessionAudiencePrivileged st = (st1, Inr rec)" by simp
    from verifyCredentials_result [OF assms cred'] have st1: "st1 = st"
      and rec: "account (st_repo st) (ur_email rec) = Some rec" "ur_email_verified_at rec \<noteq> None" by auto
    have issued: "invar (fst (mo_create_challenge mo h c now (st_repo st)))" if "cr_user c = ur_user rec" for h c now
      using create_challenge [OF good_invar [OF assms], of c rec] rec that by (auto simp: challenge_fits_def)
    show ?thesis
      using assms issued cred' st1
      by (auto simp: good_ops [OF assms] extensions store_good_repo [OF assms] BeginPrivilegedLogin_def Let_def
          split: sum.splits prod.splits dest!: fst_pairD)
  qed
qed

lemma finish_login_good:
  assumes "store_good st" and "account (st_repo st) (ur_email rec) = Some rec" and "ur_account_status rec = ''active''"
    and "ur_email_verified_at rec \<noteq> None" "roleAllowedForAudience (ur_role rec) SessionAudiencePrivileged"
  shows "store_good (fst (finish_login P d1 d2 at (ur_user rec) codes st))"
proof -
  obtain r' x where clr: "io_clear_failures ops (ur_id rec) (st_repo st) = (r', x)" by fastforce
  have "invar r'" using keeps(7) [OF good_invar [OF assms(1)], of "ur_id rec"] clr by simp
  show ?thesis
  proof (cases x)
    case (Inl e)
    then show ?thesis using clr good_ops [OF assms(1)] store_good_repo [OF assms(1) \<open>invar r'\<close>]
      by (simp add: finish_login_def)
  next
    case (Inr y)
    have "store_good (fst (createSession P d1 d2 at (ur_user rec) SessionAudiencePrivileged (st\<lparr>st_repo := r'\<rparr>)))"
      using clear_then_session_good [OF assms] clr Inr by simp
    then show ?thesis using clr Inr good_ops [OF assms(1)]
      by (cases "createSession P d1 d2 at (ur_user rec) SessionAudiencePrivileged (st\<lparr>st_repo := r'\<rparr>)")
        (auto simp: finish_login_def split: sum.splits prod.splits)
  qed
qed

text \<open>A call of the repository that keeps it sound and leaves the accounts alone, between two steps.\<close>

lemma finish_after:
  assumes "store_good st" and "account (st_repo st) (ur_email rec) = Some rec" and "ur_account_status rec = ''active''"
    and "ur_email_verified_at rec \<noteq> None" "roleAllowedForAudience (ur_role rec) SessionAudiencePrivileged"
    and "invar r'" "account r' = account (st_repo st)"
  shows "store_good (fst (finish_login P d1 d2 at (ur_user rec) codes (st\<lparr>st_repo := r'\<rparr>)))"
  using assms store_good_repo [OF assms(1,6)] by (intro finish_login_good) simp_all

lemma check_code_good:
  assumes good: "store_good st" and rec: "account (st_repo st) (ur_email rec) = Some rec" "ur_account_status rec = ''active''"
    "ur_email_verified_at rec \<noteq> None" "roleAllowedForAudience (ur_role rec) SessionAudiencePrivileged"
  shows "store_good (fst (check_code P rnd now at mo (ur_user rec) enrolling ct nonce code st))"
proof -
  note inv = good_invar [OF good]
  have enroll: "store_good (fst (enroll_login P rnd now at mo (ur_user rec) ct nonce counter st))" for counter
  proof (cases "generateRecoveryCodes P (map rnd [2..<12])")
    case (Inr codes)
    obtain r' x where "mo_confirm mo (ur_id rec) ct nonce counter (map (recoveryCodeHash P (ur_id rec)) codes) now (st_repo st)
        = (r', x)" by fastforce
    with keeps(12) [OF inv, of "ur_id rec" ct nonce counter] same_accounts(1) [OF inv, of "ur_id rec" ct nonce counter]
    have "invar r'" "account r' = account (st_repo st)" and
      "mo_confirm mo (ur_id rec) ct nonce counter (map (recoveryCodeHash P (ur_id rec)) codes) now (st_repo st) = (r', x)"
      by (metis fst_conv)+
    with Inr good finish_after [OF good rec] store_good_repo [OF good] show ?thesis
      by (cases x) (simp_all add: enroll_login_def)
  qed (use good in \<open>simp add: enroll_login_def\<close>)
  have challenge: "store_good (fst (challenge_login P rnd now at mo (ur_user rec) counter (st\<lparr>st_repo := r\<rparr>)))"
    if r: "invar r" "account r = account (st_repo st)" for counter r
  proof -
    obtain r' x where adv: "mo_advance_counter mo (ur_id rec) counter r = (r', x)" by fastforce
    with keeps(13) [OF r(1)] same_accounts(2) [OF r(1)] r(2) have "invar r'" "account r' = account (st_repo st)"
      by (metis fst_conv)+
    with r good finish_after [OF good rec] store_good_repo [OF good] adv show ?thesis
      by (cases x) (auto simp: challenge_login_def recordFailure_good)
  qed
  show ?thesis
  proof (cases "openMFASecret P (st_mfa_encryption_key st) ct nonce")
    case (Inr secret)
    obtain counter valid where totp: "validateTOTP P secret code now = (counter, valid)" by fastforce
    obtain r' x where rc: "mo_consume_recovery_code mo (ur_id rec) (recoveryCodeHash P (ur_id rec) code) now (st_repo st) = (r', x)"
      by fastforce
    with keeps(14) [OF inv] same_accounts(3) [OF inv] have r': "invar r'" "account r' = account (st_repo st)"
      by (metis fst_conv)+
    have same: "st\<lparr>st_repo := st_repo st\<rparr> = st" by simp
    show ?thesis
      using Inr totp rc enroll challenge [OF r'] challenge [OF inv refl] same recordFailure_good [OF good]
        recordFailure_good [OF store_good_repo [OF good r'(1)]] store_good_repo [OF good r'(1)]
      by (cases x; cases valid; cases enrolling) (simp_all add: check_code_def Let_def)
  qed (use good in \<open>simp add: check_code_def\<close>)
qed

lemma CompletePrivilegedLogin_good:
  assumes good: "store_good st"
  shows "store_good (fst (CompletePrivilegedLogin P rnd clk token code st))"
proof -
  define now where "now = truncate_us (clk 0)"
  obtain r' x where con: "mo_consume_challenge mo (p_sha256 P (trim_space token)) now (st_repo st) = (r', x)" by fastforce
  have inv': "invar r'" using keeps(11) [OF good_invar [OF good]] con by (metis fst_conv)
  note good' = store_good_repo [OF good inv']
  show ?thesis
  proof (cases x)
    case (Inl e)
    then show ?thesis using good good' con
      by (simp add: CompletePrivilegedLogin_def good_ops [OF good] extensions Let_def now_def [symmetric])
  next
    case (Inr c)
    with con consume [OF good_invar [OF good]] have pend: "pending (st_repo st) (p_sha256 P (trim_space token)) = Some c"
      and acc: "account r' = account (st_repo st)" by auto
    then obtain rec where rec: "account r' (u_email (cr_user c)) = Some rec" "challenge_fits rec c"
      using sound_pending [OF sound [OF good_invar [OF good]]] by metis
    then have u: "(cr_user c)\<lparr>u_role := ur_role rec\<rparr> = ur_user rec" "ur_email_verified_at rec \<noteq> None"
      by (simp_all add: challenge_fits_def)
    have email: "ur_email rec = u_email (cr_user c)" using sound_account [OF sound [OF inv'] rec(1)] by simp
    show ?thesis
    proof (cases "io_user_by_email ops (u_email (cr_user c)) r'")
      case (Inl e)
      then show ?thesis using good good' con Inr
        by (simp add: CompletePrivilegedLogin_def good_ops [OF good] extensions Let_def now_def [symmetric])
    next
      case found: (Inr current)
      with lookup [OF inv'] rec(1) have "current = rec" by fastforce
      have check: "store_good (fst (check_code P rnd now (clk 1) mo (ur_user rec) enrolling ct nonce code (st\<lparr>st_repo := r'\<rparr>)))"
        if "ur_account_status rec = ''active''" "roleAllowedForAudience (ur_role rec) SessionAudiencePrivileged"
        for enrolling ct nonce
        using check_code_good [OF good', of rec] rec(1) email u(2) that by simp
      show ?thesis
        using good good' con Inr found \<open>current = rec\<close> check
        by (auto simp: CompletePrivilegedLogin_def good_ops [OF good] extensions Let_def now_def [symmetric] u(1)
            split: sum.splits)
    qed
  qed
qed

lemma CreateStepUpProof_good:
  assumes good: "store_good st"
  shows "store_good (fst (CreateStepUpProof P draw clk token s password code st))"
proof -
  obtain st1 res where cred: "verifyCredentials P clk (u_email (ss_user s)) password SessionAudiencePrivileged st = (st1, res)"
    by fastforce
  then have g1: "store_good st1"
    using verifyCredentials_good [OF good] by (metis fst_conv)
  have adv: "invar (fst (mo_advance_counter mo u counter (st_repo st1)))" for u counter
    by (rule keeps(13) [OF good_invar [OF g1]])
  have step: "invar r \<Longrightarrow> invar (fst (io_clear_failures ops u r))"
    "invar r \<Longrightarrow> invar (fst (so_create_proof so h h' u x now r))" for r u h h' x now
    by (rule keeps(7), assumption) (rule keeps(9))
  show ?thesis
    using good g1 cred recordFailure_good [OF g1]
    by (auto simp: CreateStepUpProof_def good_ops [OF g1] extensions store_good_repo [OF g1] Let_def
        recordFailure_good [OF store_good_repo [OF g1]]
        split: sum.splits prod.splits
        dest!: fst_pairD [OF _ adv] fst_pairD [OF _ step(1)] fst_pairD [OF _ step(2)])
qed

lemma InvitePrivilegedAccount_good:
  assumes "store_good st"
  shows "store_good (fst (InvitePrivilegedAccountAudited P draw now actor name email role i st))"
proof -
  have snd: "store_good st' \<Longrightarrow> send m st' = (st2, res) \<Longrightarrow> store_good st2" for m st' st2 res
    by (metis fst_conv store_good_send)
  show ?thesis
    using assms
    by (auto simp: good_ops [OF assms] store_good_repo [OF assms] extensions InvitePrivilegedAccountAudited_def
        Let_def split: sum.splits prod.splits dest!: fst_pairD [OF _ keeps(10) [OF good_invar [OF assms]]]
        elim!: snd [rotated])
qed

lemma ActivatePrivilegedAccount_good:
  assumes "store_good st" and "fresh_draw st (rnd 1)"
  shows "store_good (fst (ActivatePrivilegedAccountAudited P rnd clk token password i st))"
proof -
  have keep: "invar (fst (vo_accept vo h rec now (st_repo st)))"
    if "rnd 1 = Inr b" "ur_id rec = ''usr_'' @ b64_encode b" for rec h now b
    using accept [OF good_invar [OF assms(1)], of rec] assms(2) that by (auto simp: fresh_draw_def)
  show ?thesis
    using assms(1) keep
    by (auto simp: good_ops [OF assms(1)] extensions store_good_repo [OF assms(1)] ActivatePrivilegedAccountAudited_def
        Let_def opaqueID_def randomToken_def split: sum.splits prod.splits dest!: fst_pairD)
qed

end

section \<open>Histories of the service\<close>









section \<open>Registration, verification and sign-in\<close>











definition demo_auth_config :: "memory_identity auth_config" where
  "demo_auth_config = \<lparr>cf_repository = Some (memory_identity_ops demo_platform, NewMemoryIdentity),
     cf_mailer = Some (\<lambda>m. None), cf_session_ttl = hour, cf_verification_ttl = hour,
     cf_verification_min_resend = minute, cf_public_app_url = ''http://localhost'',
     cf_require_privileged_mfa = True, cf_mfa_encryption_key = replicate 32 (CHR ''m''),
     cf_mfa_issuer = ''SecureStore'', cf_login_failure_window = hour, cf_login_failure_threshold = 2,
     cf_account_lock_duration = hour, cf_step_up_ttl = minute, cf_require_admin_step_up = True\<rparr>"

definition demo_draws :: draws where
  "demo_draws i = Inr (replicate 32 (if i = 0 then CHR ''s'' else if i = 1 then CHR ''u'' else CHR ''t''))"

lemma demo_auth_store:
  obtains st where "NewStoreWithConfig demo_platform (Inr []) demo_auth_config = Inr st"
    "st_ops st = memory_identity_ops demo_platform" "st_repo st = NewMemoryIdentity"
    "st_verification_ttl st = hour" "st_session_ttl st = hour" "st_require_privileged_mfa st"
    "st_mfa_encryption_key st = replicate 32 (CHR ''m'')" "st_login_failure_threshold st = 2"
    "st_login_failure_window st = hour" "st_account_lock_duration st = hour"
  by (simp add: NewStoreWithConfig_def demo_auth_config_def generateFromPassword_def positive_or_def)


lemma demo_plain: "\<forall>c \<in> set ''Ada''. plain_char c" "\<forall>c \<in> set ''ada@x.org''. plain_char c"
  by (simp_all add: plain_char_def)

lemma demo_email: "normalizeEmail demo_platform ''ada@x.org'' = ''ada@x.org''"
  by (simp add: normalizeEmail_def trim_space_plain demo_plain to_lower_def is_ascii_def ascii_lower_def Let_def)




section \<open>Lockout\<close>

text \<open>A run of sign-in attempts at one address: the clock readings and the password of each.\<close>

fun attempts_run ::
    "platform \<Rightarrow> string \<Rightarrow> string \<Rightarrow> ((nat \<Rightarrow> time) \<times> string) list \<Rightarrow> memory_identity store \<Rightarrow> memory_identity store" where
  "attempts_run P email audience [] st = st"
| "attempts_run P email audience ((clk, password) # as) st =
     attempts_run P email audience as (fst (verifyCredentials P clk email password audience st))"

text \<open>The account at an address, found through both indexes of the memory repository.\<close>

definition stored_account :: "memory_identity store \<Rightarrow> string \<Rightarrow> user_record \<Rightarrow> bool" where
  "stored_account st e rec \<longleftrightarrow> map_of (mi_users (st_repo st)) e = Some rec
     \<and> map_of (mi_email_by_id (st_repo st)) (ur_id rec) = Some e"

definition has_session :: "memory_identity store \<Rightarrow> string \<Rightarrow> bool" where
  "has_session st u \<longleftrightarrow> (\<exists>h s. map_of (mi_sessions (st_repo st)) h = Some s \<and> u_id (ss_user s) = u)"

text \<open>What a run needs of the configuration and the representation.\<close>

definition counting :: "platform \<Rightarrow> memory_identity store \<Rightarrow> bool" where
  "counting P st \<longleftrightarrow> st_ops st = memory_identity_ops P \<and> wf_map (mi_sessions (st_repo st))
     \<and> 0 < st_login_failure_window st \<and> 0 < st_login_failure_threshold st \<and> 0 < st_account_lock_duration st"

lemma wrong_password_step:
  assumes "counting P st" and "stored_account st (normalizeEmail P email) rec"
    and "ur_account_status rec = ''active''" "\<not> locked_at rec (clk 0)"
    and "\<not> p_bcrypt_matches P (ur_password_hash rec) (passwordMaterial P password)"
    and "rec' = failed_attempt (clk 1) (st_login_failure_window st) (st_login_failure_threshold st)
       (st_account_lock_duration st) rec"
  obtains st' where "verifyCredentials P clk email password audience st = (st', Inl ErrInvalidCredentials)"
    "counting P st'" "stored_account st' (normalizeEmail P email) rec'"
    "st_login_failure_window st' = st_login_failure_window st"
    "st_login_failure_threshold st' = st_login_failure_threshold st"
    "st_account_lock_duration st' = st_account_lock_duration st"
    "locked_at rec' (clk 1) \<Longrightarrow> \<not> has_session st' (ur_id rec)"
proof -
  define st' where "st' = recordFailure (ur_id rec) (clk 1) st"
  have st': "st' = st\<lparr>st_repo := (st_repo st)\<lparr>mi_users := mput (normalizeEmail P email) rec' (mi_users (st_repo st)),
      mi_sessions := (if locked_at rec' (clk 1) then drop_sessions_of (ur_id rec) (mi_sessions (st_repo st))
        else mi_sessions (st_repo st))\<rparr>\<rparr>"
    using assms(1,2,6) by (simp add: st'_def recordFailure_def counting_def memory_identity_ops_def
        RecordAuthenticationFailure_def stored_account_def mget_def Let_def)
  have wf: "wf_map (mi_sessions (st_repo st))" using assms(1) by (simp add: counting_def)
  have "verifyCredentials P clk email password audience st = (st', Inl ErrInvalidCredentials)"
    using assms(1-5) by (simp add: verifyCredentials_def Let_def counting_def memory_identity_ops_def
        UserByEmail_def stored_account_def st'_def)
  moreover have "counting P st'" using assms(1) wf by (simp add: counting_def st')
  moreover have "stored_account st' (normalizeEmail P email) rec'"
    using assms(2,6) by (simp add: stored_account_def st')
  moreover have "\<not> has_session st' (ur_id rec)" if "locked_at rec' (clk 1)"
    using that drop_sessions_of_sub [OF wf] by (auto simp: has_session_def st')
  ultimately show ?thesis using that by (simp add: st')
qed

text \<open>The counter inside a window that has started: below the threshold it grows, at it the account locks.\<close>

lemma failed_attempt_counts:
  assumes "ur_failed_login_window_started_at rec = Some start" and "now - window < start"
  shows "failed_attempt now window t l rec =
    (let rec = rec\<lparr>ur_failed_login_attempts := ur_failed_login_attempts rec + 1\<rparr>
     in if ur_failed_login_attempts rec \<ge> t then rec\<lparr>ur_locked_until := Some (now + l)\<rparr> else rec)"
  using assms by (simp add: failed_attempt_def Let_def)

lemma failed_attempt_starts:
  assumes "ur_failed_login_window_started_at rec = None"
  shows "failed_attempt now window t l rec =
    (let rec = rec\<lparr>ur_failed_login_attempts := 1, ur_failed_login_window_started_at := Some now\<rparr>
     in if 1 \<ge> t then rec\<lparr>ur_locked_until := Some (now + l)\<rparr> else rec)"
  using assms by (simp add: failed_attempt_def Let_def)

definition same_login :: "user_record \<Rightarrow> user_record \<Rightarrow> bool" where
  "same_login rec rec' \<longleftrightarrow> ur_user rec' = ur_user rec \<and> ur_account_status rec' = ur_account_status rec
     \<and> ur_password_hash rec' = ur_password_hash rec"

lemma same_login_failed [simp]: "same_login rec (failed_attempt now w t l rec)"
  by (simp add: same_login_def)

lemma same_login_trans: "same_login a b \<Longrightarrow> same_login b c \<Longrightarrow> same_login a c"
  by (simp add: same_login_def)

lemma counted_run_locks:
  assumes "counting P st" and "stored_account st (normalizeEmail P email) rec" and "ur_account_status rec = ''active''"
    and "ur_failed_login_window_started_at rec = Some start" "ur_locked_until rec = None"
    and "ur_failed_login_attempts rec + int (length as) = st_login_failure_threshold st" "as \<noteq> []"
    and "\<forall>(clk, password) \<in> set as. clk 1 - st_login_failure_window st < start
      \<and> \<not> p_bcrypt_matches P (ur_password_hash rec) (passwordMaterial P password)"
  shows "\<exists>rec'. stored_account (attempts_run P email audience as st) (normalizeEmail P email) rec'
    \<and> same_login rec rec' \<and> ur_locked_until rec' = Some (fst (List.last as) 1 + st_account_lock_duration st)
    \<and> counting P (attempts_run P email audience as st)
    \<and> \<not> has_session (attempts_run P email audience as st) (ur_id rec)"
  using assms
proof (induction as arbitrary: st rec)
  case (Cons a as)
  obtain clk password where a: "a = (clk, password)" by fastforce
  define rec1 where "rec1 = failed_attempt (clk 1) (st_login_failure_window st) (st_login_failure_threshold st)
      (st_account_lock_duration st) rec"
  have wrong: "clk 1 - st_login_failure_window st < start"
    "\<not> p_bcrypt_matches P (ur_password_hash rec) (passwordMaterial P password)"
    using Cons.prems(8) a by auto
  have rec1: "rec1 = (let rec = rec\<lparr>ur_failed_login_attempts := ur_failed_login_attempts rec + 1\<rparr>
      in if ur_failed_login_attempts rec \<ge> st_login_failure_threshold st
         then rec\<lparr>ur_locked_until := Some (clk 1 + st_account_lock_duration st)\<rparr> else rec)"
    unfolding rec1_def by (rule failed_attempt_counts [OF Cons.prems(4) wrong(1)])
  have unlocked: "\<not> locked_at rec (clk 0)" using Cons.prems(5) by (simp add: locked_at_def)
  obtain st1 where step: "verifyCredentials P clk email password audience st = (st1, Inl ErrInvalidCredentials)"
    and c1: "counting P st1" and s1: "stored_account st1 (normalizeEmail P email) rec1"
    and same: "st_login_failure_window st1 = st_login_failure_window st"
      "st_login_failure_threshold st1 = st_login_failure_threshold st"
      "st_account_lock_duration st1 = st_account_lock_duration st"
    and gone: "locked_at rec1 (clk 1) \<Longrightarrow> \<not> has_session st1 (ur_id rec)"
    by (rule wrong_password_step [OF Cons.prems(1-3) unlocked wrong(2) rec1_def, where audience = audience]) blast
  show ?case
  proof (cases "as = []")
    case True
    with Cons.prems(6) rec1 have locked: "ur_locked_until rec1 = Some (clk 1 + st_account_lock_duration st)"
      by (simp add: Let_def)
    then have "locked_at rec1 (clk 1)" using Cons.prems(1) by (simp add: locked_at_def counting_def)
    with True step s1 c1 gone locked a show ?thesis by (auto simp: rec1_def)
  next
    case False
    then have "ur_failed_login_attempts rec + 1 < st_login_failure_threshold st"
      using Cons.prems(6) by (cases as) auto
    then have rec1': "rec1 = rec\<lparr>ur_failed_login_attempts := ur_failed_login_attempts rec + 1\<rparr>"
      using rec1 by (simp add: Let_def)
    have "\<exists>rec'. stored_account (attempts_run P email audience as st1) (normalizeEmail P email) rec'
        \<and> same_login rec1 rec' \<and> ur_locked_until rec' = Some (fst (List.last as) 1 + st_account_lock_duration st1)
        \<and> counting P (attempts_run P email audience as st1)
        \<and> \<not> has_session (attempts_run P email audience as st1) (ur_id rec1)"
      using Cons.prems(3-8) same False a by (intro Cons.IH [OF c1 s1]) (auto simp: rec1')
    with False step a same show ?thesis by (auto simp: rec1' same_login_def)
  qed
qed simp

lemma locked_refuses:
  assumes "counting P st" and "stored_account st (normalizeEmail P email) rec"
    and "ur_locked_until rec = Some until" "clk 0 < until" "clk 2 < until"
  shows "\<exists>err. verifyCredentials P clk email password audience st = (st, Inl err)"
  using assms by (auto simp: verifyCredentials_def Let_def counting_def memory_identity_ops_def UserByEmail_def
      stored_account_def locked_at_def)

text \<open>
  C14: lockout. As many wrong passwords in a row as the threshold, within one failure window of an
  active account with no failures counted, lock it until the last attempt plus the lock duration: all its
  sessions are gone, and until then every sign-in at the address fails at either boundary, with the
  right password too, and changes nothing.
\<close>

theorem repeated_failures_lock:
  assumes "counting P st" and "stored_account st (normalizeEmail P email) rec" and "ur_account_status rec = ''active''"
    and "ur_failed_login_window_started_at rec = None" "ur_locked_until rec = None"
    and "int (length as) = st_login_failure_threshold st" and "as = (clk1, password1) # rest"
    and "\<forall>(clk, password) \<in> set as. clk 1 - st_login_failure_window st < clk1 1
      \<and> \<not> p_bcrypt_matches P (ur_password_hash rec) (passwordMaterial P password)"
    and "st' = attempts_run P email audience as st"
    and "until = fst (List.last as) 1 + st_account_lock_duration st"
    and "clk 0 < until" "clk 2 < until"
  shows "\<not> has_session st' (ur_id rec)
    \<and> (\<exists>err. loginForAudience P rnd clk email password audience' st' = (st', Inl err))"
proof -
  define rec1 where "rec1 = failed_attempt (clk1 1) (st_login_failure_window st) (st_login_failure_threshold st)
      (st_account_lock_duration st) rec"
  have rec1: "rec1 = (let rec = rec\<lparr>ur_failed_login_attempts := 1, ur_failed_login_window_started_at := Some (clk1 1)\<rparr>
      in if 1 \<ge> st_login_failure_threshold st
         then rec\<lparr>ur_locked_until := Some (clk1 1 + st_account_lock_duration st)\<rparr> else rec)"
    unfolding rec1_def by (rule failed_attempt_starts [OF assms(4)])
  have wrong: "\<not> p_bcrypt_matches P (ur_password_hash rec) (passwordMaterial P password1)"
    using assms(7,8) by auto
  have unlocked: "\<not> locked_at rec (clk1 0)" using assms(5) by (simp add: locked_at_def)
  obtain st1 where step: "verifyCredentials P clk1 email password1 audience st = (st1, Inl ErrInvalidCredentials)"
    and c1: "counting P st1" and s1: "stored_account st1 (normalizeEmail P email) rec1"
    and same: "st_login_failure_window st1 = st_login_failure_window st"
      "st_login_failure_threshold st1 = st_login_failure_threshold st"
      "st_account_lock_duration st1 = st_account_lock_duration st"
    and gone: "locked_at rec1 (clk1 1) \<Longrightarrow> \<not> has_session st1 (ur_id rec)"
    by (rule wrong_password_step [OF assms(1-3) unlocked wrong rec1_def, where audience = audience]) blast
  have "\<exists>rec'. stored_account st' (normalizeEmail P email) rec' \<and> ur_locked_until rec' = Some until
      \<and> counting P st' \<and> \<not> has_session st' (ur_id rec)"
  proof (cases "rest = []")
    case True
    with assms(6,7,10) rec1 have locked: "ur_locked_until rec1 = Some until" by (simp add: Let_def)
    then have "locked_at rec1 (clk1 1)" using assms(1,7,10) True by (simp add: locked_at_def counting_def)
    with True step s1 c1 gone locked assms(7,9) show ?thesis by auto
  next
    case False
    then have "1 < st_login_failure_threshold st" using assms(6,7) by (cases rest) auto
    then have rec1': "rec1 = rec\<lparr>ur_failed_login_attempts := 1, ur_failed_login_window_started_at := Some (clk1 1)\<rparr>"
      using rec1 by (simp add: Let_def)
    from counted_run_locks [OF c1 s1, of "clk1 1" rest audience] False assms(3,5-8) same
    have "\<exists>rec'. stored_account (attempts_run P email audience rest st1) (normalizeEmail P email) rec'
        \<and> same_login rec1 rec' \<and> ur_locked_until rec' = Some (fst (List.last rest) 1 + st_account_lock_duration st1)
        \<and> counting P (attempts_run P email audience rest st1)
        \<and> \<not> has_session (attempts_run P email audience rest st1) (ur_id rec1)"
      by (auto simp: rec1')
    with False step assms(7,9,10) same show ?thesis by (auto simp: rec1')
  qed
  then obtain rec' where rec': "stored_account st' (normalizeEmail P email) rec'" "ur_locked_until rec' = Some until"
    "counting P st'" "\<not> has_session st' (ur_id rec)" by blast
  from locked_refuses [OF rec'(3,1,2) assms(11,12)] obtain err where
    "verifyCredentials P clk email password audience' st' = (st', Inl err)" by blast
  with rec'(4) show ?thesis by (simp add: loginForAudience_def)
qed

definition demo_account :: user_record where
  "demo_account = \<lparr>ur_user = \<lparr>u_id = ''usr_1'', u_name = ''Ada'', u_email = ''ada@x.org'', u_role = ''admin''\<rparr>,
     ur_password_hash = ''Abcdefghij1!'', ur_email_verified_at = Some 0, ur_verification_sent_at = None,
     ur_created_at = 0, ur_account_status = ''active'', ur_failed_login_attempts = 0,
     ur_failed_login_window_started_at = None, ur_locked_until = None\<rparr>"

definition demo_identity_repo :: memory_identity where
  "demo_identity_repo = NewMemoryIdentity\<lparr>mi_users := [(''ada@x.org'', demo_account)],
     mi_email_by_id := [(''usr_1'', ''ada@x.org'')]\<rparr>"

lemma demo_identity_store:
  obtains st where "st_ops st = memory_identity_ops demo_platform" "st_repo st = demo_identity_repo"
    "st_session_ttl st = hour" "st_require_privileged_mfa st"
    "st_mfa_encryption_key st = replicate 32 (CHR ''m'')" "st_login_failure_threshold st = 2"
    "st_login_failure_window st = hour" "st_account_lock_duration st = hour"
    "stored_account st ''ada@x.org'' demo_account"
proof (rule demo_auth_store)
  fix st :: "memory_identity store"
  assume "st_ops st = memory_identity_ops demo_platform" "st_session_ttl st = hour"
    "st_require_privileged_mfa st" "st_mfa_encryption_key st = replicate 32 (CHR ''m'')"
    "st_login_failure_threshold st = 2" "st_login_failure_window st = hour" "st_account_lock_duration st = hour"
  then show thesis
    by (intro that [of "st\<lparr>st_repo := demo_identity_repo\<rparr>"])
      (simp_all add: stored_account_def demo_identity_repo_def demo_account_def)
qed

theorem repeated_failures_lock_witness:
  "\<exists>st. \<not> has_session (attempts_run demo_platform ''ada@x.org'' ''user'' [(\<lambda>i. 0, ''guess1''), (\<lambda>i. 1, ''guess2'')] st) ''usr_1''
    \<and> (\<exists>err. loginForAudience demo_platform demo_draws (\<lambda>i. 2) ''ada@x.org'' ''Abcdefghij1!'' ''privileged''
         (attempts_run demo_platform ''ada@x.org'' ''user'' [(\<lambda>i. 0, ''guess1''), (\<lambda>i. 1, ''guess2'')] st)
       = (attempts_run demo_platform ''ada@x.org'' ''user'' [(\<lambda>i. 0, ''guess1''), (\<lambda>i. 1, ''guess2'')] st, Inl err))"
proof -
  obtain st where st: "st_ops st = memory_identity_ops demo_platform" "st_repo st = demo_identity_repo"
    "st_login_failure_threshold st = 2" "st_login_failure_window st = hour" "st_account_lock_duration st = hour"
    "stored_account st ''ada@x.org'' demo_account"
    by (rule demo_identity_store) blast
  then have count: "counting demo_platform st"
    by (simp add: counting_def demo_identity_repo_def NewMemoryIdentity_def)
  have acc: "stored_account st (normalizeEmail demo_platform ''ada@x.org'') demo_account"
    unfolding demo_email by (rule st(6))
  have wrong: "\<forall>(clk, password) \<in> set [(\<lambda>i::nat. 0 :: int, ''guess1''), (\<lambda>i. 1, ''guess2'')].
      clk 1 - st_login_failure_window st < (\<lambda>i::nat. 0 :: int) 1
      \<and> \<not> p_bcrypt_matches demo_platform (ur_password_hash demo_account) (passwordMaterial demo_platform password)"
    by (simp add: st(4) demo_account_def passwordMaterial_def demo_platform_def)
  show ?thesis
    using repeated_failures_lock [OF count acc _ _ _ _ refl wrong refl refl, where clk = "\<lambda>i. 2" and rnd = demo_draws
        and password = "''Abcdefghij1!''" and audience' = "''privileged''" and audience = "''user''"]
      st(3,5) by (intro exI [of _ st]) (simp add: demo_account_def)
qed

section \<open>What is used once\<close>

text \<open>
  The operations that change the repository, in any order and with any arguments, where no token,
  challenge or invitation is issued again under a digest of \<open>issued\<close>.
\<close>

inductive identity_op :: "platform \<Rightarrow> bytes set \<Rightarrow> memory_identity \<Rightarrow> memory_identity \<Rightarrow> bool" for P issued where
  "h \<notin> issued \<Longrightarrow> identity_op P issued r (fst (CreateUserWithVerification rec h x now r))"
| "h \<notin> issued \<Longrightarrow> identity_op P issued r (fst (ReplaceVerificationToken u h x now gap r))"
| "identity_op P issued r (fst (ConsumeVerificationToken h now r))"
| "identity_op P issued r (fst (CreateSession h s now r))"
| "identity_op P issued r (fst (SessionByHash h now r))"
| "identity_op P issued r (fst (DeleteSession h r))"
| "identity_op P issued r (fst (UpdateUserStatusAndDeleteSessions u status r))"
| "identity_op P issued r (fst (DeleteSessionsForUser u r))"
| "identity_op P issued r (fst (RecordAuthenticationFailure u now w t l r))"
| "identity_op P issued r (fst (ClearAuthenticationFailures u r))"
| "identity_op P issued r (fst (UpdateUserRole P email role r))"
| "h \<notin> issued \<Longrightarrow> identity_op P issued r (fst (CreateMFAChallenge h ch now r))"
| "identity_op P issued r (fst (ConsumeMFAChallenge h now r))"
| "identity_op P issued r (fst (ConfirmMFA u ct nonce counter hashes now r))"
| "identity_op P issued r (fst (AdvanceMFACounter u counter r))"
| "identity_op P issued r (fst (ConsumeMFARecoveryCode u h now r))"
| "identity_op P issued r (fst (memory_CreateStepUpProof h h' u x now r))"
| "h \<notin> issued \<Longrightarrow> identity_op P issued r (fst (CreatePrivilegedInvitation h invitation now r))"
| "identity_op P issued r (fst (AcceptPrivilegedInvitation h rec now r))"

abbreviation identity_ops_run :: "platform \<Rightarrow> bytes set \<Rightarrow> memory_identity \<Rightarrow> memory_identity \<Rightarrow> bool" where
  "identity_ops_run P issued \<equiv> (identity_op P issued)\<^sup>*\<^sup>*"

lemmas identity_op_defs = CreateUserWithVerification_def ReplaceVerificationToken_def ConsumeVerificationToken_def
  CreateSession_def SessionByHash_def DeleteSession_def UpdateUserStatusAndDeleteSessions_def
  DeleteSessionsForUser_def RecordAuthenticationFailure_def ClearAuthenticationFailures_def UpdateUserRole_def
  CreateMFAChallenge_def ConsumeMFAChallenge_def ConfirmMFA_def AdvanceMFACounter_def ConsumeMFARecoveryCode_def
  memory_CreateStepUpProof_def CreatePrivilegedInvitation_def AcceptPrivilegedInvitation_def

lemma map_of_mretain_kept: "map_of m k = Some v \<Longrightarrow> Q k v \<Longrightarrow> map_of (mretain Q m) k = Some v"
  by (induction m) (auto simp: mretain_def split: if_splits)

lemma config_op:
  assumes "identity_op P issued r r'" and "map_of (mi_mfa_configs r) u = Some c"
  shows "\<exists>c'. map_of (mi_mfa_configs r') u = Some c' \<and> mc_secret_ciphertext c' = mc_secret_ciphertext c
    \<and> mc_secret_nonce c' = mc_secret_nonce c \<and> mc_last_counter c \<le> mc_last_counter c'"
  using assms by cases (auto simp: identity_op_defs Let_def split: option.splits if_splits)

lemma config_run:
  assumes "identity_ops_run P issued r r'" and "map_of (mi_mfa_configs r) u = Some c"
  shows "\<exists>c'. map_of (mi_mfa_configs r') u = Some c' \<and> mc_secret_ciphertext c' = mc_secret_ciphertext c
    \<and> mc_secret_nonce c' = mc_secret_nonce c \<and> mc_last_counter c \<le> mc_last_counter c'"
  using assms
proof (induction rule: rtranclp_induct)
  case (step r1 r2)
  then obtain c1 where c1: "map_of (mi_mfa_configs r1) u = Some c1" "mc_secret_ciphertext c1 = mc_secret_ciphertext c"
    "mc_secret_nonce c1 = mc_secret_nonce c" "mc_last_counter c \<le> mc_last_counter c1" by blast
  from config_op [OF step.hyps(2) c1(1)] c1(2-4) show ?case by force
qed simp

lemma used_code_op:
  assumes "identity_op P issued r r'" and "map_of (mi_mfa_configs r) u \<noteq> None"
    and "map_of (mget [] (mi_recovery_codes r) u) h = Some (Some t)"
  shows "map_of (mget [] (mi_recovery_codes r') u) h = Some (Some t)"
  using assms by cases (auto simp: identity_op_defs Let_def mget_def split: option.splits if_splits)

lemma used_code_run:
  assumes "identity_ops_run P issued r r'" and "map_of (mi_mfa_configs r) u \<noteq> None"
    and "map_of (mget [] (mi_recovery_codes r) u) h = Some (Some t)"
  shows "map_of (mget [] (mi_recovery_codes r') u) h = Some (Some t)"
  using assms
proof (induction rule: rtranclp_induct)
  case (step r1 r2)
  moreover from step.hyps(1) step.prems(1) config_run have "map_of (mi_mfa_configs r1) u \<noteq> None" by fastforce
  ultimately show ?case using used_code_op by blast
qed simp

lemma spent_op:
  assumes "identity_op P issued r r'" and "h \<in> issued"
  shows "map_of (mi_verifications r) h = Some v \<Longrightarrow> vr_consumed_at v \<noteq> None \<Longrightarrow>
      \<exists>v'. map_of (mi_verifications r') h = Some v' \<and> vr_consumed_at v' \<noteq> None"
    and "map_of (mi_mfa_challenges r) h = None \<Longrightarrow> map_of (mi_mfa_challenges r') h = None"
    and "map_of (mi_invitations r) h = None \<Longrightarrow> map_of (mi_invitations r') h = None"
  using assms
  by (cases; auto simp: identity_op_defs Let_def map_of_mretain_kept split: option.splits if_splits)+

lemma spent_run:
  assumes "identity_ops_run P issued r r'" and "h \<in> issued"
  shows "map_of (mi_verifications r) h = Some v \<Longrightarrow> vr_consumed_at v \<noteq> None \<Longrightarrow>
      \<exists>v'. map_of (mi_verifications r') h = Some v' \<and> vr_consumed_at v' \<noteq> None"
    and "map_of (mi_mfa_challenges r) h = None \<Longrightarrow> map_of (mi_mfa_challenges r') h = None"
    and "map_of (mi_invitations r) h = None \<Longrightarrow> map_of (mi_invitations r') h = None"
  using assms(1)
  by (induction arbitrary: v rule: rtranclp_induct) (use spent_op [OF _ assms(2)] in \<open>blast+\<close>)

text \<open>
  C15: what is handed out once works once. After a verification token, an MFA challenge, an invitation
  or a recovery code has been consumed, it is refused for ever: whatever operations follow, as long as
  the random digest is not issued a second time.
\<close>

theorem secrets_work_once:
  assumes "h \<in> issued" and "identity_ops_run P issued r1 r2"
  shows "(ConsumeVerificationToken h now r = (r1, Inr ()) \<longrightarrow>
      ConsumeVerificationToken h now' r2 = (r2, Inl ErrVerificationToken))
    \<and> (ConsumeMFAChallenge h now r = (r1, Inr ch) \<longrightarrow> ConsumeMFAChallenge h now' r2 = (r2, Inl ErrMFAChallenge))
    \<and> (AcceptPrivilegedInvitation h rec now r = (r1, Inr u) \<longrightarrow>
      AcceptPrivilegedInvitation h rec' now' r2 = (r2, Inl ErrInvitationToken))
    \<and> (map_of (mi_mfa_configs r) i \<noteq> None \<and> ConsumeMFARecoveryCode i h now r = (r1, Inr True) \<longrightarrow>
      ConsumeMFARecoveryCode i h now' r2 = (r2, Inr False))"
proof (intro conjI impI)
  assume "ConsumeVerificationToken h now r = (r1, Inr ())"
  then obtain v where "map_of (mi_verifications r1) h = Some v" "vr_consumed_at v \<noteq> None"
    by (auto simp: ConsumeVerificationToken_def Let_def split: option.splits if_splits)
  from spent_run(1) [OF assms(2,1) this] show "ConsumeVerificationToken h now' r2 = (r2, Inl ErrVerificationToken)"
    by (auto simp: ConsumeVerificationToken_def)
next
  assume "ConsumeMFAChallenge h now r = (r1, Inr ch)"
  then have "map_of (mi_mfa_challenges r1) h = None"
    by (auto simp: ConsumeMFAChallenge_def split: option.splits if_splits)
  from spent_run(2) [OF assms(2,1) this] show "ConsumeMFAChallenge h now' r2 = (r2, Inl ErrMFAChallenge)"
    by (simp add: ConsumeMFAChallenge_def)
next
  assume "AcceptPrivilegedInvitation h rec now r = (r1, Inr u)"
  then have "map_of (mi_invitations r1) h = None"
    by (auto simp: AcceptPrivilegedInvitation_def Let_def split: option.splits if_splits)
  from spent_run(3) [OF assms(2,1) this] show "AcceptPrivilegedInvitation h rec' now' r2 = (r2, Inl ErrInvitationToken)"
    by (simp add: AcceptPrivilegedInvitation_def)
next
  assume "map_of (mi_mfa_configs r) i \<noteq> None \<and> ConsumeMFARecoveryCode i h now r = (r1, Inr True)"
  then have "map_of (mi_mfa_configs r1) i \<noteq> None" "map_of (mget [] (mi_recovery_codes r1) i) h = Some (Some now)"
    by (auto simp: ConsumeMFARecoveryCode_def Let_def mget_def split: option.splits)
  from used_code_run [OF assms(2) this] show "ConsumeMFARecoveryCode i h now' r2 = (r2, Inr False)"
    by (simp add: ConsumeMFARecoveryCode_def)
qed

definition demo_pending_repo :: memory_identity where
  "demo_pending_repo = demo_identity_repo\<lparr>mi_users := [(''ada@x.org'', demo_account\<lparr>ur_email_verified_at := None\<rparr>)],
     mi_verifications := [(''digest'', \<lparr>vr_user_id = ''usr_1'', vr_expires_at = 10, vr_consumed_at = None\<rparr>)]\<rparr>"

theorem secrets_work_once_witness:
  "snd (ConsumeVerificationToken ''digest'' 1 demo_pending_repo) = Inr ()
   \<and> snd (ConsumeVerificationToken ''digest'' 2
       (fst (ClearAuthenticationFailures ''usr_1'' (fst (ConsumeVerificationToken ''digest'' 1 demo_pending_repo)))))
     = Inl ErrVerificationToken"
proof -
  define r1 where "r1 = fst (ConsumeVerificationToken ''digest'' 1 demo_pending_repo)"
  have first: "ConsumeVerificationToken ''digest'' 1 demo_pending_repo = (r1, Inr ())"
    by (simp add: r1_def ConsumeVerificationToken_def demo_pending_repo_def demo_identity_repo_def mget_def Let_def)
  have "identity_ops_run demo_platform {''digest''} r1 (fst (ClearAuthenticationFailures ''usr_1'' r1))"
    by (intro r_into_rtranclp identity_op.intros)
  from secrets_work_once [OF _ this, of "''digest''" 1 demo_pending_repo 2] first
  have "snd (ConsumeVerificationToken ''digest'' 2 (fst (ClearAuthenticationFailures ''usr_1'' r1))) = Inl ErrVerificationToken"
    by simp
  then show ?thesis unfolding r1_def [symmetric] using first by simp
qed

lemma replayed_counter_refused:
  assumes "AdvanceMFACounter i counter r = (r1, Inr True)" and "identity_ops_run P issued r1 r2"
    and "counter' \<le> counter"
  shows "AdvanceMFACounter i counter' r2 = (r2, Inr False)"
proof -
  from assms(1) obtain c where "map_of (mi_mfa_configs r1) i = Some c" "mc_last_counter c = counter"
    by (auto simp: AdvanceMFACounter_def split: option.splits if_splits)
  from config_run [OF assms(2) this(1)] this(2) assms(3) show ?thesis
    by (auto simp: AdvanceMFACounter_def)
qed










end
