(* ===== verification/IngestRepo.thy ===== *)
theory IngestRepo
  imports AuditOutbox
begin

text \<open>
  The data of the upload manager (internal/ingest/manager.go) and its metadata repository: the interface
  and the in-memory implementation (internal/ingest/repository.go) with the reservation of storage
  capacity. Each method of the implementation holds the mutex for its whole body and is one definition.
\<close>

section \<open>Data\<close>

datatype ingest_error = ErrTooLarge | ErrQuotaExceeded | ErrCapacityExceeded | ErrInvalidFile | ErrInvalidKey
  | ErrInvalidQuery | ErrUploadNotFound | ErrScannerFailure | IngestError string

text \<open>\<open>Status\<close> is a string type; a row of the database may hold any other string.\<close>

datatype status = StatusQuarantined | StatusInspecting | StatusAccepted | StatusEncrypting | StatusStored
  | StatusRejected | StatusFailed | OtherStatus string

fun status_string :: "status \<Rightarrow> string" where
  "status_string StatusQuarantined = ''quarantined''"
| "status_string StatusInspecting = ''inspecting''"
| "status_string StatusAccepted = ''accepted''"
| "status_string StatusEncrypting = ''encrypting''"
| "status_string StatusStored = ''stored''"
| "status_string StatusRejected = ''rejected''"
| "status_string StatusFailed = ''failed''"
| "status_string (OtherStatus s) = s"

fun validStatus :: "status \<Rightarrow> bool" where
  "validStatus (OtherStatus s) = False"
| "validStatus _ = True"

definition countsTowardQuota :: "status \<Rightarrow> bool" where
  "countsTowardQuota s \<longleftrightarrow> s = StatusQuarantined \<or> s = StatusInspecting \<or> s = StatusAccepted
     \<or> s = StatusEncrypting \<or> s = StatusStored"

definition pending :: "status \<Rightarrow> bool" where
  "pending s \<longleftrightarrow> s = StatusQuarantined \<or> s = StatusInspecting \<or> s = StatusAccepted \<or> s = StatusEncrypting"

record upload =
  up_id :: string
  up_name :: string
  up_bytes :: int64
  up_declared :: string
  up_detected :: string
  up_status :: status
  up_progress :: int
  up_reason :: string
  up_correlation_id :: string
  up_created_at :: time

text \<open>
  \<open>persistedRecord\<close>. The manager's own \<open>record\<close> has one field more, the path of the quarantine object;
  both places that build one join it from the quarantine directory and the object's name, so the
  model keeps the name only and \<open>persisted()\<close> is the identity.
\<close>

record persisted_record =
  pr_upload :: upload
  pr_owner_id :: string
  pr_object :: string
  pr_digest :: string
  pr_idempotency_hash :: string

abbreviation record_id :: "persisted_record \<Rightarrow> string" where
  "record_id e \<equiv> up_id (pr_upload e)"

abbreviation record_status :: "persisted_record \<Rightarrow> status" where
  "record_status e \<equiv> up_status (pr_upload e)"

abbreviation record_bytes :: "persisted_record \<Rightarrow> int64" where
  "record_bytes e \<equiv> up_bytes (pr_upload e)"

record capacity_request =
  cr_upload_id :: string
  cr_owner_id :: string
  cr_bytes :: int64
  cr_owner_quota :: int64
  cr_storage_capacity :: int64
  cr_storage_reserve :: int64
  cr_now :: time
  cr_expires_at :: time

record reservation_summary =
  rs_active :: int
  rs_bytes :: int64

text \<open>A sum that a loop accumulates in an \<open>int64\<close>.\<close>

definition sum64 :: "int64 list \<Rightarrow> int64" where
  "sum64 xs = foldl add64 0 xs"

lemma sum64_wrap: "sum64 xs = wrap64 (sum_list xs)"
proof -
  have "foldl add64 a xs = (if xs = [] then a else wrap64 (a + sum_list xs))" for a
  proof (induction xs arbitrary: a)
    case (Cons x xs)
    show ?case by (subst foldl_Cons, subst Cons.IH) (auto simp: add64_def algebra_simps)
  qed simp
  moreover have "wrap64 0 = 0" by (simp add: wrap64_def)
  ultimately show ?thesis by (simp add: sum64_def)
qed

lemma sum64_exact:
  assumes "\<forall>x \<in> set xs. 0 \<le> x" "sum_list xs \<le> int64_max"
  shows "sum64 xs = sum_list xs"
  using assms sum_list_nonneg [of xs] unfolding sum64_wrap by (intro wrap64_id) (auto simp: int64_min_def)

section \<open>The repository interface\<close>

text \<open>The two audited extensions, which \<open>PostgresRepository\<close> has and \<open>MemoryRepository\<close> has not, are options.\<close>

record 'r audited_quota_ops =
  aq_set :: "string \<Rightarrow> int64 \<Rightarrow> intent \<Rightarrow> 'r \<Rightarrow> 'r \<times> (ingest_error + unit)"
  aq_delete :: "string \<Rightarrow> intent \<Rightarrow> 'r \<Rightarrow> 'r \<times> (ingest_error + unit)"

record 'r ingest_ops =
  ig_load_all :: "'r \<Rightarrow> ingest_error + persisted_record list"
  ig_create :: "persisted_record \<Rightarrow> 'r \<Rightarrow> 'r \<times> (ingest_error + persisted_record \<times> bool)"
  ig_update :: "persisted_record \<Rightarrow> 'r \<Rightarrow> 'r \<times> (ingest_error + unit)"
  ig_delete :: "string \<Rightarrow> 'r \<Rightarrow> 'r \<times> (ingest_error + unit)"
  ig_durable :: bool
  ig_load_quotas :: "'r \<Rightarrow> ingest_error + (string, int64) gomap"
  ig_set_quota :: "string \<Rightarrow> int64 \<Rightarrow> 'r \<Rightarrow> 'r \<times> (ingest_error + unit)"
  ig_delete_quota :: "string \<Rightarrow> 'r \<Rightarrow> 'r \<times> (ingest_error + unit)"
  ig_reserve :: "capacity_request \<Rightarrow> 'r \<Rightarrow> 'r \<times> (ingest_error + unit)"
  ig_release :: "string \<Rightarrow> 'r \<Rightarrow> 'r \<times> (ingest_error + unit)"
  ig_summary :: "time \<Rightarrow> 'r \<Rightarrow> 'r \<times> (ingest_error + reservation_summary)"
  ig_audited_quota :: "'r audited_quota_ops option"
  ig_audited_update :: "(persisted_record \<Rightarrow> intent \<Rightarrow> 'r \<Rightarrow> 'r \<times> (ingest_error + unit)) option"

section \<open>The memory repository\<close>

record memory_ingest =
  mr_records :: "(string, persisted_record) gomap"
  mr_by_idempotency :: "(string, string) gomap"
  mr_quotas :: "(string, int64) gomap"
  mr_reservations :: "(string, capacity_request) gomap"

definition NewMemoryIngest :: memory_ingest where
  "NewMemoryIngest = \<lparr>mr_records = [], mr_by_idempotency = [], mr_quotas = [], mr_reservations = []\<rparr>"

definition zero_upload :: upload where
  "zero_upload = \<lparr>up_id = [], up_name = [], up_bytes = 0, up_declared = [], up_detected = [], up_status = OtherStatus [],
     up_progress = 0, up_reason = [], up_correlation_id = [], up_created_at = zero_time\<rparr>"

definition zero_record :: persisted_record where
  "zero_record = \<lparr>pr_upload = zero_upload, pr_owner_id = [], pr_object = [], pr_digest = [], pr_idempotency_hash = []\<rparr>"

definition idempotency_index :: "string \<Rightarrow> string \<Rightarrow> string" where
  "idempotency_index ownerID hash = ownerID @ NUL @ hash"

definition ingest_LoadAll :: "memory_ingest \<Rightarrow> ingest_error + persisted_record list" where
  "ingest_LoadAll r = Inr (mvals (mr_records r))"

definition ingest_Create :: "persisted_record \<Rightarrow> memory_ingest \<Rightarrow> memory_ingest \<times> (ingest_error + persisted_record \<times> bool)" where
  "ingest_Create e r =
     (let index = idempotency_index (pr_owner_id e) (pr_idempotency_hash e) in
      case map_of (mr_by_idempotency r) index of
        Some existingID \<Rightarrow> (r, Inr (mget zero_record (mr_records r) existingID, True))
      | None \<Rightarrow> (r\<lparr>mr_records := mput (record_id e) e (mr_records r),
          mr_by_idempotency := mput index (record_id e) (mr_by_idempotency r)\<rparr>, Inr (e, False)))"

definition ingest_Update :: "persisted_record \<Rightarrow> memory_ingest \<Rightarrow> memory_ingest \<times> (ingest_error + unit)" where
  "ingest_Update e r =
     (if map_of (mr_records r) (record_id e) = None then (r, Inl ErrUploadNotFound)
      else (r\<lparr>mr_records := mput (record_id e) e (mr_records r)\<rparr>, Inr ()))"

definition ingest_Delete :: "string \<Rightarrow> memory_ingest \<Rightarrow> memory_ingest \<times> (ingest_error + unit)" where
  "ingest_Delete uploadID r =
     (case map_of (mr_records r) uploadID of None \<Rightarrow> (r, Inr ())
      | Some e \<Rightarrow> (r\<lparr>mr_by_idempotency := mdelete (idempotency_index (pr_owner_id e) (pr_idempotency_hash e)) (mr_by_idempotency r),
          mr_records := mdelete uploadID (mr_records r), mr_reservations := mdelete uploadID (mr_reservations r)\<rparr>, Inr ()))"

definition live_reservations :: "time \<Rightarrow> (string, capacity_request) gomap \<Rightarrow> (string, capacity_request) gomap" where
  "live_reservations now rs = mretain (\<lambda>k c. now < cr_expires_at c) rs"

text \<open>The bytes of the records that count and have no reservation, and the bytes reserved.\<close>

definition unreserved_usage :: "(persisted_record \<Rightarrow> bool) \<Rightarrow> memory_ingest \<Rightarrow> int64 list" where
  "unreserved_usage who r = map (record_bytes \<circ> snd)
     (filter (\<lambda>(k, e). countsTowardQuota (record_status e) \<and> map_of (mr_reservations r) k = None \<and> who e) (mr_records r))"

definition reserved_bytes :: "(capacity_request \<Rightarrow> bool) \<Rightarrow> memory_ingest \<Rightarrow> int64 list" where
  "reserved_bytes who r = map (cr_bytes \<circ> snd) (filter (\<lambda>(k, c). who c) (mr_reservations r))"

definition ingest_ReserveCapacity :: "capacity_request \<Rightarrow> memory_ingest \<Rightarrow> memory_ingest \<times> (ingest_error + unit)" where
  "ingest_ReserveCapacity q r =
     (if cr_bytes q \<le> 0 \<or> cr_owner_quota q \<le> 0 \<or> cr_storage_capacity q \<le> cr_storage_reserve q \<or> \<not> cr_now q < cr_expires_at q
      then (r, Inl ErrInvalidQuery)
      else
       (let r = r\<lparr>mr_reservations := live_reservations (cr_now q) (mr_reservations r)\<rparr> in
        case map_of (mr_reservations r) (cr_upload_id q) of
          Some existing \<Rightarrow> (r, if cr_owner_id existing = cr_owner_id q \<and> cr_bytes existing = cr_bytes q then Inr ()
             else Inl (IngestError ''capacity reservation conflict''))
        | None \<Rightarrow>
            (let ownerUsage = sum64 (unreserved_usage (\<lambda>e. pr_owner_id e = cr_owner_id q) r);
                 ownerReserved = sum64 (reserved_bytes (\<lambda>c. cr_owner_id c = cr_owner_id q) r);
                 globalUsage = sum64 (unreserved_usage (\<lambda>e. True) r);
                 globalReserved = sum64 (reserved_bytes (\<lambda>c. True) r)
             in if add64 (add64 ownerUsage ownerReserved) (cr_bytes q) > cr_owner_quota q then (r, Inl ErrQuotaExceeded)
                else if add64 (add64 globalUsage globalReserved) (cr_bytes q) > sub64 (cr_storage_capacity q) (cr_storage_reserve q)
                then (r, Inl ErrCapacityExceeded)
                else (r\<lparr>mr_reservations := mput (cr_upload_id q) q (mr_reservations r)\<rparr>, Inr ()))))"

definition ingest_ReleaseCapacity :: "string \<Rightarrow> memory_ingest \<Rightarrow> memory_ingest \<times> (ingest_error + unit)" where
  "ingest_ReleaseCapacity uploadID r = (r\<lparr>mr_reservations := mdelete uploadID (mr_reservations r)\<rparr>, Inr ())"

definition ingest_CapacityReservationSummary :: "time \<Rightarrow> memory_ingest \<Rightarrow> memory_ingest \<times> (ingest_error + reservation_summary)" where
  "ingest_CapacityReservationSummary now r =
     (let live = live_reservations now (mr_reservations r) in
      (r\<lparr>mr_reservations := live\<rparr>, Inr \<lparr>rs_active = int (length live), rs_bytes = sum64 (map (cr_bytes \<circ> snd) live)\<rparr>))"

definition ingest_LoadQuotas :: "memory_ingest \<Rightarrow> ingest_error + (string, int64) gomap" where
  "ingest_LoadQuotas r = Inr (mr_quotas r)"

definition ingest_SetQuota :: "string \<Rightarrow> int64 \<Rightarrow> memory_ingest \<Rightarrow> memory_ingest \<times> (ingest_error + unit)" where
  "ingest_SetQuota ownerID quotaBytes r = (r\<lparr>mr_quotas := mput ownerID quotaBytes (mr_quotas r)\<rparr>, Inr ())"

definition ingest_DeleteQuota :: "string \<Rightarrow> memory_ingest \<Rightarrow> memory_ingest \<times> (ingest_error + unit)" where
  "ingest_DeleteQuota ownerID r = (r\<lparr>mr_quotas := mdelete ownerID (mr_quotas r)\<rparr>, Inr ())"

definition memory_ingest_ops :: "memory_ingest ingest_ops" where
  "memory_ingest_ops = \<lparr>ig_load_all = ingest_LoadAll, ig_create = ingest_Create, ig_update = ingest_Update,
     ig_delete = ingest_Delete, ig_durable = False, ig_load_quotas = ingest_LoadQuotas, ig_set_quota = ingest_SetQuota,
     ig_delete_quota = ingest_DeleteQuota, ig_reserve = ingest_ReserveCapacity, ig_release = ingest_ReleaseCapacity,
     ig_summary = ingest_CapacityReservationSummary, ig_audited_quota = None, ig_audited_update = None\<rparr>"

lemma memory_ingest_ops_simps [simp]:
  "ig_load_all memory_ingest_ops = ingest_LoadAll" "ig_create memory_ingest_ops = ingest_Create"
  "ig_update memory_ingest_ops = ingest_Update" "ig_delete memory_ingest_ops = ingest_Delete"
  "ig_load_quotas memory_ingest_ops = ingest_LoadQuotas" "ig_set_quota memory_ingest_ops = ingest_SetQuota"
  "ig_delete_quota memory_ingest_ops = ingest_DeleteQuota" "ig_reserve memory_ingest_ops = ingest_ReserveCapacity"
  "ig_release memory_ingest_ops = ingest_ReleaseCapacity" "ig_summary memory_ingest_ops = ingest_CapacityReservationSummary"
  "ig_durable memory_ingest_ops = False" "ig_audited_quota memory_ingest_ops = None" "ig_audited_update memory_ingest_ops = None"
  by (simp_all add: memory_ingest_ops_def)

end
