(* ===== verification/ProtectedRepo.thy ===== *)
theory ProtectedRepo
  imports Prelude AuditOutbox
begin

text \<open>
  The catalogue of protected files of \<open>internal/protectedstore\<close>: its data (\<open>service.go\<close>,
  \<open>catalog.go\<close>, \<open>access.go\<close>, \<open>lifecycle.go\<close>, \<open>reconciliation.go\<close>, \<open>rewrap.go\<close>) and the
  operations of the in-memory repository (\<open>memory_repository.go\<close>). The mutex makes every operation
  one step. Where the code reads the clock or draws a random identifier, the reading and the bytes
  are arguments. \<open>sort.Slice\<close> is a sort by the key the code compares; elements with equal keys keep
  the order of the list here, in an unspecified order there.
\<close>

section \<open>Data\<close>

record metadata =
  md_upload_id :: string
  md_version_id :: string
  md_owner_id :: string
  md_blob_object :: string
  md_schema_version :: string
  md_algorithm :: string
  md_kek_id :: string
  md_kek_version :: string
  md_wrapping_kek_id :: string
  md_wrapping_kek_version :: string
  md_wrapped_dek :: bytes
  md_nonce :: bytes
  md_plaintext_size :: int64
  md_plaintext_digest :: string
  md_media_type :: string
  md_inspection_record_id :: string
  md_created_at :: time

record logical_file =
  lf_file_id :: string
  lf_owner_id :: string
  lf_name :: string
  lf_current_version_id :: string
  lf_created_at :: time
  lf_updated_at :: time

record file_version =
  fv_file_id :: string
  fv_version_id :: string
  fv_source_version_id :: string
  fv_operation_id :: string
  fv_number :: int64
  fv_plaintext_size :: int64
  fv_media_type :: string
  fv_reason :: string
  fv_current :: bool
  fv_created_at :: time

record file_details =
  fd_file :: logical_file
  fd_versions :: "file_version list"
  fd_access :: string

definition PermissionRead :: string where "PermissionRead = ''read''"
definition PermissionDownload :: string where "PermissionDownload = ''download''"

record recipient =
  rc_id :: string
  rc_name :: string
  rc_email :: string

record access_grant =
  gr_grant_id :: string
  gr_file_id :: string
  gr_owner_id :: string
  gr_recipient_id :: string
  gr_recipient_name :: string
  gr_recipient_email :: string
  gr_permission :: string
  gr_expires_at :: "time option"
  gr_created_at :: time
  gr_revoked_at :: "time option"

record shared_file =
  sf_file :: logical_file
  sf_owner_name :: string
  sf_owner_email :: string
  sf_permission :: string

record lifecycle_file =
  lc_file :: logical_file
  lc_deleted_at :: "time option"
  lc_purge_after :: "time option"
  lc_retention_until :: "time option"
  lc_legal_hold :: bool
  lc_legal_hold_reason :: string
  lc_purged_at :: "time option"

record purge_result =
  pu_file_id :: string
  pu_operation_id :: string
  pu_destroyed_keys :: int
  pu_completed_at :: time
  pu_blob_objects :: "string list"

record deletion_operation =
  do_operation_id :: string
  do_file_id :: string
  do_owner_id :: string
  do_status :: string
  do_destroyed_keys :: int
  do_attempts :: int
  do_reason_code :: string
  do_completed_at :: "time option"
  do_updated_at :: time

record recovery_drill =
  rd_drill_id :: string
  rd_file_id :: string
  rd_version_id :: string
  rd_requested_by :: string
  rd_outcome :: string
  rd_reason_code :: string
  rd_verified_at :: time

record lifecycle_alert =
  la_id :: string
  la_severity :: string
  la_title :: string
  la_detail :: string
  la_count :: int

record backup_posture =
  bp_connected :: bool
  bp_production_ready :: bool
  bp_adapter :: string
  bp_status :: string
  bp_detail :: string
  bp_last_successful_at :: "time option"

record lifecycle_summary =
  ls_active :: int
  ls_trashed :: int
  ls_retained :: int
  ls_held :: int
  ls_purged :: int
  ls_eligible :: int
  ls_files :: "lifecycle_file list"
  ls_deletions :: "deletion_operation list"
  ls_drills :: "recovery_drill list"
  ls_alerts :: "lifecycle_alert list"
  ls_backup :: backup_posture

definition ReconciliationAuthorized :: string where "ReconciliationAuthorized = ''authorized''"
definition ReconciliationCompleted :: string where "ReconciliationCompleted = ''completed''"
definition ReconciliationFailed :: string where "ReconciliationFailed = ''failed''"

record orphan_reconciliation =
  or_operation_id :: string
  or_token :: string
  or_zone :: string
  or_storage_object :: string
  or_size :: int64
  or_modified_at :: time
  or_actor_id :: string
  or_correlation_id :: string
  or_status :: string
  or_reason_code :: string
  or_authorized_at :: time
  or_completed_at :: "time option"

record key_rotation_posture =
  kp_current_kek_id :: string
  kp_current_kek_version :: string
  kp_protected_versions :: int
  kp_current_versions :: int
  kp_pending_versions :: int
  kp_completed_rewraps :: int
  kp_durable :: bool

text \<open>
  The errors of the package; \<open>StoreError\<close> carries the text of an error made with \<open>errors.New\<close> or
  passed up from a database, a file system or a random source, and \<open>StorePanic\<close> is the panic of a
  failed type assertion.
\<close>

datatype store_error = ErrStoreNotFound | ErrIntegrity | ErrInvalidEnvelope | ErrRetentionActive
  | ErrLegalHold | ErrNotInTrash | ErrPurgeTooEarly | StoreError string | StorePanic

text \<open>The zero values Go returns for keys that are not in a map.\<close>

definition zero_logical_file :: logical_file where
  "zero_logical_file = \<lparr>lf_file_id = [], lf_owner_id = [], lf_name = [], lf_current_version_id = [],
     lf_created_at = zero_time, lf_updated_at = zero_time\<rparr>"

definition zero_lifecycle :: lifecycle_file where
  "zero_lifecycle = \<lparr>lc_file = zero_logical_file, lc_deleted_at = None, lc_purge_after = None,
     lc_retention_until = None, lc_legal_hold = False, lc_legal_hold_reason = [], lc_purged_at = None\<rparr>"

definition zero_deletion :: deletion_operation where
  "zero_deletion = \<lparr>do_operation_id = [], do_file_id = [], do_owner_id = [], do_status = [],
     do_destroyed_keys = 0, do_attempts = 0, do_reason_code = [], do_completed_at = None, do_updated_at = zero_time\<rparr>"

section \<open>The repository in memory\<close>

record memory_protected =
  ps_entries :: "(string, metadata) gomap"
  ps_files :: "(string, logical_file) gomap"
  ps_versions :: "(string, file_version list) gomap"
  ps_grants :: "(string, access_grant) gomap"
  ps_lifecycle :: "(string, lifecycle_file) gomap"
  ps_purges :: "(string, purge_result) gomap"
  ps_deletions :: "(string, deletion_operation) gomap"
  ps_drills :: "recovery_drill list"
  ps_reconciliations :: "(string, orphan_reconciliation) gomap"

definition NewMemoryProtected :: memory_protected where
  "NewMemoryProtected = \<lparr>ps_entries = [], ps_files = [], ps_versions = [], ps_grants = [],
     ps_lifecycle = [], ps_purges = [], ps_deletions = [], ps_drills = [], ps_reconciliations = []\<rparr>"

abbreviation lifecycle_of :: "memory_protected \<Rightarrow> string \<Rightarrow> lifecycle_file" where
  "lifecycle_of r \<equiv> mget zero_lifecycle (ps_lifecycle r)"

abbreviation versions_of :: "memory_protected \<Rightarrow> string \<Rightarrow> file_version list" where
  "versions_of r \<equiv> mget [] (ps_versions r)"

text \<open>\<open>prefix + "_" + base64.RawURLEncoding\<close> of 12 drawn bytes, in \<open>ProtectedKeys\<close>; here the result is an argument.\<close>

type_synonym drawn_id = "store_error + string"

definition memory_Create :: "metadata \<Rightarrow> memory_protected \<Rightarrow> memory_protected \<times> (store_error + metadata \<times> bool)" where
  "memory_Create m r =
     (case map_of (ps_entries r) (md_upload_id m) of
        Some existing \<Rightarrow> (r, Inr (existing, True))
      | None \<Rightarrow> (r\<lparr>ps_entries := mput (md_upload_id m) m (ps_entries r)\<rparr>, Inr (m, False)))"

definition memory_FindByUpload :: "string \<Rightarrow> string \<Rightarrow> memory_protected \<Rightarrow> store_error + metadata" where
  "memory_FindByUpload ownerID uploadID r =
     (case map_of (ps_entries r) uploadID of
        None \<Rightarrow> Inl ErrStoreNotFound
      | Some m \<Rightarrow> if md_owner_id m \<noteq> ownerID then Inl ErrStoreNotFound else Inr m)"

definition memory_ProtectedBlobObjectExists :: "string \<Rightarrow> memory_protected \<Rightarrow> store_error + bool" where
  "memory_ProtectedBlobObjectExists obj r =
     Inr (list_ex (\<lambda>m. md_blob_object m = obj \<and> md_wrapped_dek m \<noteq> []) (mvals (ps_entries r)))"

definition memory_ProtectedBlobObjects :: "memory_protected \<Rightarrow> store_error + string list" where
  "memory_ProtectedBlobObjects r =
     Inr (sort (map md_blob_object (filter (\<lambda>m. md_wrapped_dek m \<noteq> []) (mvals (ps_entries r)))))"

subsection \<open>Key rotation\<close>

definition wrappingKeyIdentity :: "metadata \<Rightarrow> string \<times> string" where
  "wrappingKeyIdentity m =
     (if md_wrapping_kek_id m = [] \<or> md_wrapping_kek_version m = []
      then (md_kek_id m, md_kek_version m)
      else (md_wrapping_kek_id m, md_wrapping_kek_version m))"

definition memory_KeyRotationPosture ::
    "string \<Rightarrow> string \<Rightarrow> memory_protected \<Rightarrow> store_error + key_rotation_posture" where
  "memory_KeyRotationPosture currentID currentVersion r =
     (let ms = mvals (ps_entries r);
          current = filter (\<lambda>m. wrappingKeyIdentity m = (currentID, currentVersion)) ms;
          pending = filter (\<lambda>m. wrappingKeyIdentity m \<noteq> (currentID, currentVersion)) ms
      in Inr \<lparr>kp_current_kek_id = currentID, kp_current_kek_version = currentVersion,
           kp_protected_versions = int (length ms), kp_current_versions = int (length current),
           kp_pending_versions = int (length pending), kp_completed_rewraps = 0, kp_durable = False\<rparr>)"

text \<open>A limit below one never equals the length of the growing result, so it does not cut the list.\<close>

definition memory_ListDEKRewrapCandidates ::
    "string \<Rightarrow> string \<Rightarrow> int \<Rightarrow> memory_protected \<Rightarrow> store_error + metadata list" where
  "memory_ListDEKRewrapCandidates currentID currentVersion limit r =
     (let pending = filter (\<lambda>m. md_wrapped_dek m \<noteq> [] \<and> wrappingKeyIdentity m \<noteq> (currentID, currentVersion))
            (mvals (ps_entries r))
      in Inr (if limit < 1 then pending else take (nat limit) pending))"

definition memory_CommitDEKRewrap ::
    "metadata \<Rightarrow> bytes \<Rightarrow> string \<Rightarrow> string \<Rightarrow> memory_protected \<Rightarrow> memory_protected \<times> (store_error + bool)" where
  "memory_CommitDEKRewrap candidate replacement targetID targetVersion r =
     (case map_of (ps_entries r) (md_upload_id candidate) of
        None \<Rightarrow> (r, Inr False)
      | Some stored \<Rightarrow>
          if md_version_id stored \<noteq> md_version_id candidate \<or> md_wrapped_dek stored \<noteq> md_wrapped_dek candidate
          then (r, Inr False)
          else (r\<lparr>ps_entries := mput (md_upload_id candidate)
                    (stored\<lparr>md_wrapped_dek := replacement, md_wrapping_kek_id := targetID,
                       md_wrapping_kek_version := targetVersion\<rparr>) (ps_entries r)\<rparr>, Inr True))"

subsection \<open>The catalogue\<close>

definition memory_RegisterInitial ::
    "drawn_id \<Rightarrow> string \<Rightarrow> string \<Rightarrow> metadata \<Rightarrow> memory_protected
       \<Rightarrow> memory_protected \<times> (store_error + logical_file \<times> file_version)" where
  "memory_RegisterInitial drawn ownerID name m r =
     (case find (\<lambda>f. lf_owner_id f = ownerID \<and> lf_current_version_id f = md_version_id m) (mvals (ps_files r)) of
        Some f \<Rightarrow> (r, (case versions_of r (lf_file_id f) of [] \<Rightarrow> Inl StorePanic | v # _ \<Rightarrow> Inr (f, v)))
      | None \<Rightarrow>
     (case drawn of Inl e \<Rightarrow> (r, Inl e)
      | Inr fileID \<Rightarrow>
          (let f = \<lparr>lf_file_id = fileID, lf_owner_id = ownerID, lf_name = name,
                 lf_current_version_id = md_version_id m, lf_created_at = md_created_at m,
                 lf_updated_at = md_created_at m\<rparr>;
               v = \<lparr>fv_file_id = fileID, fv_version_id = md_version_id m, fv_source_version_id = [],
                 fv_operation_id = md_upload_id m, fv_number = 1, fv_plaintext_size = md_plaintext_size m,
                 fv_media_type = md_media_type m, fv_reason = ''initial_upload'', fv_current = True,
                 fv_created_at = md_created_at m\<rparr>
           in (r\<lparr>ps_files := mput fileID f (ps_files r), ps_versions := mput fileID [v] (ps_versions r),
                 ps_lifecycle := mput fileID (zero_lifecycle\<lparr>lc_file := f\<rparr>) (ps_lifecycle r)\<rparr>, Inr (f, v)))))"

definition visible :: "lifecycle_file \<Rightarrow> bool" where
  "visible c \<longleftrightarrow> lc_deleted_at c = None \<and> lc_purged_at c = None"

definition memory_ListFiles :: "string \<Rightarrow> memory_protected \<Rightarrow> store_error + logical_file list" where
  "memory_ListFiles ownerID r =
     Inr (sort_key (\<lambda>f. - lf_updated_at f)
       (filter (\<lambda>f. lf_owner_id f = ownerID \<and> visible (lifecycle_of r (lf_file_id f))) (mvals (ps_files r))))"

definition memory_Details :: "string \<Rightarrow> string \<Rightarrow> memory_protected \<Rightarrow> store_error + file_details" where
  "memory_Details ownerID fileID r =
     (case map_of (ps_files r) fileID of None \<Rightarrow> Inl ErrStoreNotFound
      | Some f \<Rightarrow>
          if lf_owner_id f \<noteq> ownerID \<or> \<not> visible (lifecycle_of r fileID) then Inl ErrStoreNotFound
          else Inr \<lparr>fd_file = f, fd_versions = versions_of r fileID, fd_access = ''owner''\<rparr>)"

text \<open>\<open>for _, metadata := range r.entries\<close>: the entry of a version.\<close>

definition entry_of_version :: "memory_protected \<Rightarrow> string \<Rightarrow> metadata option" where
  "entry_of_version r versionID = find (\<lambda>m. md_version_id m = versionID) (mvals (ps_entries r))"

definition memory_FindVersion :: "string \<Rightarrow> string \<Rightarrow> string \<Rightarrow> memory_protected \<Rightarrow> store_error + metadata" where
  "memory_FindVersion ownerID fileID versionID r =
     (case map_of (ps_files r) fileID of None \<Rightarrow> Inl ErrStoreNotFound
      | Some f \<Rightarrow>
          if lf_owner_id f \<noteq> ownerID \<or> \<not> visible (lifecycle_of r fileID) then Inl ErrStoreNotFound
          else if \<not> list_ex (\<lambda>v. fv_version_id v = versionID) (versions_of r fileID) then Inl ErrStoreNotFound
          else case entry_of_version r versionID of None \<Rightarrow> Inl ErrStoreNotFound | Some m \<Rightarrow> Inr m)"

definition memory_CommitRestore ::
    "string \<Rightarrow> string \<Rightarrow> string \<Rightarrow> metadata \<Rightarrow> memory_protected \<Rightarrow> memory_protected \<times> (store_error + file_version)" where
  "memory_CommitRestore ownerID fileID sourceVersionID m r =
     (case map_of (ps_files r) fileID of None \<Rightarrow> (r, Inl ErrStoreNotFound)
      | Some f \<Rightarrow>
     if lf_owner_id f \<noteq> ownerID then (r, Inl ErrStoreNotFound)
     else case find (\<lambda>v. fv_operation_id v = md_upload_id m) (versions_of r fileID) of
       Some existing \<Rightarrow>
         (r, if fv_source_version_id existing \<noteq> sourceVersionID
             then Inl (StoreError ''restore idempotency conflict'') else Inr existing)
     | None \<Rightarrow>
         if \<not> list_ex (\<lambda>v. fv_version_id v = sourceVersionID) (versions_of r fileID) then (r, Inl ErrStoreNotFound)
         else
           (let olds = map (fv_current_update (\<lambda>_. False)) (versions_of r fileID);
                v = \<lparr>fv_file_id = fileID, fv_version_id = md_version_id m, fv_source_version_id = sourceVersionID,
                  fv_operation_id = md_upload_id m, fv_number = int (length (versions_of r fileID) + 1),
                  fv_plaintext_size = md_plaintext_size m, fv_media_type = md_media_type m,
                  fv_reason = ''verified_restore'', fv_current = True, fv_created_at = md_created_at m\<rparr>
            in (r\<lparr>ps_versions := mput fileID (v # olds) (ps_versions r),
                  ps_files := mput fileID (f\<lparr>lf_current_version_id := md_version_id m,
                     lf_updated_at := md_created_at m\<rparr>) (ps_files r)\<rparr>, Inr v)))"

subsection \<open>Access grants\<close>

definition active_grant :: "time \<Rightarrow> access_grant \<Rightarrow> bool" where
  "active_grant now g \<longleftrightarrow>
     gr_revoked_at g = None \<and> (case gr_expires_at g of None \<Rightarrow> True | Some t \<Rightarrow> now < t)"

definition memory_CreateGrant ::
    "time \<Rightarrow> drawn_id \<Rightarrow> string \<Rightarrow> string \<Rightarrow> recipient \<Rightarrow> string \<Rightarrow> time option \<Rightarrow> memory_protected
       \<Rightarrow> memory_protected \<times> (store_error + access_grant)" where
  "memory_CreateGrant now drawn ownerID fileID rec permission expiresAt r =
     (case map_of (ps_files r) fileID of None \<Rightarrow> (r, Inl ErrStoreNotFound)
      | Some f \<Rightarrow>
     if lf_owner_id f \<noteq> ownerID \<or> rc_id rec = ownerID then (r, Inl ErrStoreNotFound)
     else case find (\<lambda>(i, g). gr_file_id g = fileID \<and> gr_recipient_id g = rc_id rec \<and> gr_revoked_at g = None) (ps_grants r) of
       Some (i, g) \<Rightarrow>
         (let g' = g\<lparr>gr_permission := permission, gr_expires_at := expiresAt, gr_created_at := now\<rparr>
          in (r\<lparr>ps_grants := mput i g' (ps_grants r)\<rparr>, Inr g'))
     | None \<Rightarrow>
         (case drawn of Inl e \<Rightarrow> (r, Inl e)
          | Inr i \<Rightarrow>
              (let g = \<lparr>gr_grant_id = i, gr_file_id = fileID, gr_owner_id = ownerID, gr_recipient_id = rc_id rec,
                    gr_recipient_name = rc_name rec, gr_recipient_email = rc_email rec, gr_permission = permission,
                    gr_expires_at = expiresAt, gr_created_at = now, gr_revoked_at = None\<rparr>
               in (r\<lparr>ps_grants := mput i g (ps_grants r)\<rparr>, Inr g))))"

definition memory_ListGrants :: "time \<Rightarrow> string \<Rightarrow> string \<Rightarrow> memory_protected \<Rightarrow> store_error + access_grant list" where
  "memory_ListGrants now ownerID fileID r =
     (case map_of (ps_files r) fileID of None \<Rightarrow> Inl ErrStoreNotFound
      | Some f \<Rightarrow>
          if lf_owner_id f \<noteq> ownerID then Inl ErrStoreNotFound
          else Inr (sort_key (\<lambda>g. - gr_created_at g)
            (filter (\<lambda>g. gr_file_id g = fileID \<and> gr_owner_id g = ownerID \<and> active_grant now g) (mvals (ps_grants r)))))"

definition memory_RevokeGrant ::
    "time \<Rightarrow> string \<Rightarrow> string \<Rightarrow> string \<Rightarrow> memory_protected \<Rightarrow> memory_protected \<times> (store_error + unit)" where
  "memory_RevokeGrant now ownerID fileID grantID r =
     (case map_of (ps_grants r) grantID of None \<Rightarrow> (r, Inl ErrStoreNotFound)
      | Some g \<Rightarrow>
          if gr_owner_id g \<noteq> ownerID \<or> gr_file_id g \<noteq> fileID \<or> gr_revoked_at g \<noteq> None then (r, Inl ErrStoreNotFound)
          else (r\<lparr>ps_grants := mput grantID (g\<lparr>gr_revoked_at := Some now\<rparr>) (ps_grants r)\<rparr>, Inr ()))"

definition memory_authorized ::
    "time \<Rightarrow> string \<Rightarrow> string \<Rightarrow> string \<Rightarrow> memory_protected \<Rightarrow> (logical_file \<times> string) option" where
  "memory_authorized now requesterID fileID capability r =
     (case map_of (ps_files r) fileID of None \<Rightarrow> None
      | Some f \<Rightarrow>
          if \<not> visible (lifecycle_of r fileID) then None
          else if lf_owner_id f = requesterID then Some (f, ''owner'')
          else map_option (\<lambda>g. (f, gr_permission g))
            (find (\<lambda>g. gr_file_id g = fileID \<and> gr_recipient_id g = requesterID \<and> active_grant now g
                \<and> (capability = PermissionRead \<or> gr_permission g = PermissionDownload)) (mvals (ps_grants r))))"

definition memory_AuthorizedDetails ::
    "time \<Rightarrow> string \<Rightarrow> string \<Rightarrow> string \<Rightarrow> memory_protected \<Rightarrow> store_error + file_details" where
  "memory_AuthorizedDetails now requesterID fileID capability r =
     (case memory_authorized now requesterID fileID capability r of None \<Rightarrow> Inl ErrStoreNotFound
      | Some (f, access) \<Rightarrow> Inr \<lparr>fd_file = f, fd_versions = versions_of r fileID, fd_access = access\<rparr>)"

definition memory_AuthorizedCurrentMetadata ::
    "time \<Rightarrow> string \<Rightarrow> string \<Rightarrow> string \<Rightarrow> memory_protected \<Rightarrow> store_error + metadata" where
  "memory_AuthorizedCurrentMetadata now requesterID fileID capability r =
     (case memory_authorized now requesterID fileID capability r of None \<Rightarrow> Inl ErrStoreNotFound
      | Some (f, _) \<Rightarrow> (case entry_of_version r (lf_current_version_id f) of None \<Rightarrow> Inl ErrStoreNotFound | Some m \<Rightarrow> Inr m))"

definition memory_ListSharedFiles :: "time \<Rightarrow> string \<Rightarrow> memory_protected \<Rightarrow> store_error + shared_file list" where
  "memory_ListSharedFiles now recipientID r =
     Inr (sort_key (\<lambda>s. - lf_updated_at (sf_file s))
       (concat (map (\<lambda>g. case map_of (ps_files r) (gr_file_id g) of None \<Rightarrow> []
          | Some f \<Rightarrow> [\<lparr>sf_file = f, sf_owner_name = ''File owner'', sf_owner_email = [], sf_permission = gr_permission g\<rparr>])
         (filter (\<lambda>g. visible (lifecycle_of r (gr_file_id g)) \<and> gr_recipient_id g = recipientID \<and> active_grant now g)
            (mvals (ps_grants r))))))"

subsection \<open>Trash, retention and deletion\<close>

definition revoke_file_grants :: "string \<Rightarrow> time \<Rightarrow> (string, access_grant) gomap \<Rightarrow> (string, access_grant) gomap" where
  "revoke_file_grants fileID now =
     mapply (\<lambda>i g. if gr_file_id g = fileID \<and> gr_revoked_at g = None then g\<lparr>gr_revoked_at := Some now\<rparr> else g)"

definition retained :: "time \<Rightarrow> lifecycle_file \<Rightarrow> bool" where
  "retained now c \<longleftrightarrow> (case lc_retention_until c of None \<Rightarrow> False | Some t \<Rightarrow> now < t)"

definition touched :: "time \<Rightarrow> lifecycle_file \<Rightarrow> lifecycle_file" where
  "touched now c = c\<lparr>lc_file := (lc_file c)\<lparr>lf_updated_at := now\<rparr>\<rparr>"

definition memory_ListTrash :: "string \<Rightarrow> memory_protected \<Rightarrow> store_error + lifecycle_file list" where
  "memory_ListTrash ownerID r =
     Inr (sort_key (\<lambda>c. case lc_deleted_at c of None \<Rightarrow> 0 | Some t \<Rightarrow> - t)
       (filter (\<lambda>c. lf_owner_id (lc_file c) = ownerID \<and> lc_deleted_at c \<noteq> None \<and> lc_purged_at c = None)
         (mvals (ps_lifecycle r))))"

definition memory_MoveToTrash ::
    "string \<Rightarrow> string \<Rightarrow> time \<Rightarrow> time \<Rightarrow> memory_protected \<Rightarrow> memory_protected \<times> (store_error + lifecycle_file)" where
  "memory_MoveToTrash ownerID fileID now purgeAfter r =
     (case map_of (ps_lifecycle r) fileID of None \<Rightarrow> (r, Inl ErrStoreNotFound)
      | Some c \<Rightarrow>
          if lf_owner_id (lc_file c) \<noteq> ownerID \<or> lc_purged_at c \<noteq> None then (r, Inl ErrStoreNotFound)
          else if lc_legal_hold c then (r, Inl ErrLegalHold)
          else if retained now c then (r, Inl ErrRetentionActive)
          else if lc_deleted_at c \<noteq> None then (r, Inr c)
          else
            (let c' = touched now (c\<lparr>lc_deleted_at := Some now, lc_purge_after := Some purgeAfter\<rparr>)
             in (r\<lparr>ps_lifecycle := mput fileID c' (ps_lifecycle r), ps_files := mput fileID (lc_file c') (ps_files r),
                   ps_grants := revoke_file_grants fileID now (ps_grants r)\<rparr>, Inr c')))"

definition memory_RestoreFromTrash ::
    "string \<Rightarrow> string \<Rightarrow> time \<Rightarrow> memory_protected \<Rightarrow> memory_protected \<times> (store_error + lifecycle_file)" where
  "memory_RestoreFromTrash ownerID fileID now r =
     (case map_of (ps_lifecycle r) fileID of None \<Rightarrow> (r, Inl ErrNotInTrash)
      | Some c \<Rightarrow>
          if lf_owner_id (lc_file c) \<noteq> ownerID \<or> lc_deleted_at c = None \<or> lc_purged_at c \<noteq> None
          then (r, Inl ErrNotInTrash)
          else
            (let c' = touched now (c\<lparr>lc_deleted_at := None, lc_purge_after := None\<rparr>)
             in (r\<lparr>ps_lifecycle := mput fileID c' (ps_lifecycle r), ps_files := mput fileID (lc_file c') (ps_files r)\<rparr>,
                 Inr c')))"

text \<open>
  The nested loop of \<open>Purge\<close> meets every entry once and clears its wrapped key at the first version
  that matches, so an entry counts once: \<open>destroyed_by\<close> says which entries these are.
\<close>

definition destroyed_by :: "file_version list \<Rightarrow> metadata \<Rightarrow> bool" where
  "destroyed_by vs m \<longleftrightarrow> list_ex (\<lambda>v. md_version_id m = fv_version_id v) vs \<and> md_wrapped_dek m \<noteq> []"

definition memory_Purge ::
    "string \<Rightarrow> string \<Rightarrow> string \<Rightarrow> time \<Rightarrow> memory_protected \<Rightarrow> memory_protected \<times> (store_error + purge_result)" where
  "memory_Purge ownerID fileID operationID now r =
     (case map_of (ps_purges r) operationID of
        Some existing \<Rightarrow>
          (r, if pu_file_id existing \<noteq> fileID then Inl (StoreError ''purge idempotency conflict'') else Inr existing)
      | None \<Rightarrow>
     (case map_of (ps_lifecycle r) fileID of None \<Rightarrow> (r, Inl ErrNotInTrash)
      | Some c \<Rightarrow>
          if lf_owner_id (lc_file c) \<noteq> ownerID \<or> lc_deleted_at c = None \<or> lc_purged_at c \<noteq> None
          then (r, Inl ErrNotInTrash)
          else if lc_legal_hold c then (r, Inl ErrLegalHold)
          else if retained now c then (r, Inl ErrRetentionActive)
          else if (case lc_purge_after c of None \<Rightarrow> True | Some t \<Rightarrow> now < t) then (r, Inl ErrPurgeTooEarly)
          else
            (let vs = versions_of r fileID;
                 doomed = filter (destroyed_by vs) (mvals (ps_entries r));
                 destroyed = int (length doomed);
                 c' = touched now (c\<lparr>lc_purged_at := Some now\<rparr>);
                 result = \<lparr>pu_file_id = fileID, pu_operation_id = operationID, pu_destroyed_keys = destroyed,
                   pu_completed_at = now, pu_blob_objects = map md_blob_object doomed\<rparr>
             in (r\<lparr>ps_entries := mapply (\<lambda>i m. if destroyed_by vs m then m\<lparr>md_wrapped_dek := []\<rparr> else m) (ps_entries r),
                   ps_lifecycle := mput fileID c' (ps_lifecycle r), ps_files := mput fileID (lc_file c') (ps_files r),
                   ps_grants := revoke_file_grants fileID now (ps_grants r),
                   ps_purges := mput operationID result (ps_purges r),
                   ps_deletions := mput operationID \<lparr>do_operation_id = operationID, do_file_id = fileID,
                     do_owner_id = ownerID, do_status = ''completed'', do_destroyed_keys = destroyed, do_attempts = 1,
                     do_reason_code = [], do_completed_at = Some now, do_updated_at = now\<rparr> (ps_deletions r)\<rparr>,
                 Inr result))))"

definition memory_SetRetention ::
    "string \<Rightarrow> time option \<Rightarrow> memory_protected \<Rightarrow> memory_protected \<times> (store_error + lifecycle_file)" where
  "memory_SetRetention fileID until r =
     (case map_of (ps_lifecycle r) fileID of None \<Rightarrow> (r, Inl ErrStoreNotFound)
      | Some c \<Rightarrow>
          if lc_purged_at c \<noteq> None then (r, Inl ErrStoreNotFound)
          else if (case lc_retention_until c of None \<Rightarrow> False
                   | Some old \<Rightarrow> (case until of None \<Rightarrow> True | Some t \<Rightarrow> t < old)) then (r, Inl ErrRetentionActive)
          else (let c' = c\<lparr>lc_retention_until := until\<rparr> in (r\<lparr>ps_lifecycle := mput fileID c' (ps_lifecycle r)\<rparr>, Inr c')))"

definition memory_SetLegalHold ::
    "string \<Rightarrow> bool \<Rightarrow> string \<Rightarrow> memory_protected \<Rightarrow> memory_protected \<times> (store_error + lifecycle_file)" where
  "memory_SetLegalHold fileID enabled reason r =
     (case map_of (ps_lifecycle r) fileID of None \<Rightarrow> (r, Inl ErrStoreNotFound)
      | Some c \<Rightarrow>
          if lc_purged_at c \<noteq> None then (r, Inl ErrStoreNotFound)
          else (let c' = c\<lparr>lc_legal_hold := enabled, lc_legal_hold_reason := if enabled then reason else []\<rparr>
                in (r\<lparr>ps_lifecycle := mput fileID c' (ps_lifecycle r)\<rparr>, Inr c')))"

definition purge_eligible :: "time \<Rightarrow> lifecycle_file \<Rightarrow> bool" where
  "purge_eligible now c \<longleftrightarrow>
     lc_purged_at c = None \<and> lc_deleted_at c \<noteq> None
     \<and> (case lc_purge_after c of None \<Rightarrow> False | Some t \<Rightarrow> \<not> now < t) \<and> \<not> lc_legal_hold c \<and> \<not> retained now c"

definition limited :: "int \<Rightarrow> 'a list \<Rightarrow> 'a list" where
  "limited limit xs = (if limit > 0 \<and> int (length xs) > limit then take (nat limit) xs else xs)"

definition memory_EligibleForPurge :: "time \<Rightarrow> int \<Rightarrow> memory_protected \<Rightarrow> store_error + lifecycle_file list" where
  "memory_EligibleForPurge now limit r =
     Inr (limited limit (sort_key (\<lambda>c. case lc_purge_after c of None \<Rightarrow> 0 | Some t \<Rightarrow> t)
       (filter (purge_eligible now) (mvals (ps_lifecycle r)))))"

definition count_of :: "('a \<Rightarrow> bool) \<Rightarrow> 'a list \<Rightarrow> int" where
  "count_of p xs = int (length (filter p xs))"

definition memory_LifecycleSummary :: "time \<Rightarrow> int \<Rightarrow> memory_protected \<Rightarrow> store_error + lifecycle_summary" where
  "memory_LifecycleSummary now limit r =
     (let cs = mvals (ps_lifecycle r) in
      Inr \<lparr>ls_active = count_of visible cs,
        ls_trashed = count_of (\<lambda>c. lc_purged_at c = None \<and> lc_deleted_at c \<noteq> None) cs,
        ls_retained = count_of (\<lambda>c. lc_purged_at c = None \<and> retained now c) cs,
        ls_held = count_of (\<lambda>c. lc_purged_at c = None \<and> lc_legal_hold c) cs,
        ls_purged = count_of (\<lambda>c. lc_purged_at c \<noteq> None) cs,
        ls_eligible = count_of (purge_eligible now) cs,
        ls_files = limited limit (sort_key (\<lambda>c. - lf_updated_at (lc_file c)) cs),
        ls_deletions = sort_key (\<lambda>d. - do_updated_at d) (mvals (ps_deletions r)),
        ls_drills = ps_drills r, ls_alerts = [],
        ls_backup = \<lparr>bp_connected = False, bp_production_ready = False, bp_adapter = [], bp_status = [],
          bp_detail = [], bp_last_successful_at = None\<rparr>\<rparr>)"

definition memory_RecordDeletionFailure ::
    "string \<Rightarrow> string \<Rightarrow> string \<Rightarrow> string \<Rightarrow> time \<Rightarrow> memory_protected \<Rightarrow> memory_protected \<times> (store_error + unit)" where
  "memory_RecordDeletionFailure ownerID fileID operationID reason now r =
     (let d = mget zero_deletion (ps_deletions r) operationID;
          d' = d\<lparr>do_operation_id := operationID, do_file_id := fileID, do_owner_id := ownerID, do_status := ''failed'',
                 do_reason_code := reason, do_updated_at := now, do_attempts := do_attempts d + 1\<rparr>
      in (r\<lparr>ps_deletions := mput operationID d' (ps_deletions r)\<rparr>, Inr ()))"

definition memory_CurrentMetadataForDrill :: "string \<Rightarrow> memory_protected \<Rightarrow> store_error + metadata" where
  "memory_CurrentMetadataForDrill fileID r =
     (case map_of (ps_files r) fileID of None \<Rightarrow> Inl ErrStoreNotFound
      | Some f \<Rightarrow>
          if lc_purged_at (lifecycle_of r fileID) \<noteq> None then Inl ErrStoreNotFound
          else case find (\<lambda>m. md_version_id m = lf_current_version_id f \<and> md_wrapped_dek m \<noteq> []) (mvals (ps_entries r)) of
            None \<Rightarrow> Inl ErrStoreNotFound | Some m \<Rightarrow> Inr m)"

definition memory_RecordRecoveryDrill ::
    "recovery_drill \<Rightarrow> memory_protected \<Rightarrow> memory_protected \<times> (store_error + unit)" where
  "memory_RecordRecoveryDrill d r = (r\<lparr>ps_drills := d # ps_drills r\<rparr>, Inr ())"

subsection \<open>Orphan reconciliation\<close>

definition memory_AuthorizeOrphanReconciliation ::
    "orphan_reconciliation \<Rightarrow> memory_protected \<Rightarrow> memory_protected \<times> (store_error + orphan_reconciliation \<times> bool)" where
  "memory_AuthorizeOrphanReconciliation op r =
     (case find (\<lambda>e. or_token e = or_token op) (mvals (ps_reconciliations r)) of
        Some existing \<Rightarrow> (r, Inr (existing, False))
      | None \<Rightarrow> (r\<lparr>ps_reconciliations := mput (or_operation_id op) op (ps_reconciliations r)\<rparr>, Inr (op, True)))"

definition memory_CompleteOrphanReconciliation ::
    "string \<Rightarrow> string \<Rightarrow> string \<Rightarrow> time \<Rightarrow> memory_protected \<Rightarrow> memory_protected \<times> (store_error + bool)" where
  "memory_CompleteOrphanReconciliation operationID status reasonCode completedAt r =
     (case map_of (ps_reconciliations r) operationID of None \<Rightarrow> (r, Inr False)
      | Some op \<Rightarrow>
          if or_status op \<noteq> ReconciliationAuthorized then (r, Inr False)
          else (r\<lparr>ps_reconciliations := mput operationID
                   (op\<lparr>or_status := status, or_reason_code := reasonCode, or_completed_at := Some completedAt\<rparr>)
                   (ps_reconciliations r)\<rparr>, Inr True))"

definition memory_PendingOrphanReconciliations ::
    "int \<Rightarrow> memory_protected \<Rightarrow> store_error + orphan_reconciliation list" where
  "memory_PendingOrphanReconciliations limit r =
     Inr (take (nat limit) (sort_key (\<lambda>op. (or_authorized_at op, or_operation_id op))
       (filter (\<lambda>op. or_status op = ReconciliationAuthorized) (mvals (ps_reconciliations r)))))"

section \<open>The interfaces of the service\<close>

text \<open>
  \<open>Repository\<close> and the further interfaces the service finds by type assertion: an interface the
  repository does not implement is \<open>None\<close>. A \<open>time\<close> argument that the Go method does not have is the
  clock reading, a \<open>drawn_id\<close> the random identifier the method makes for itself.
\<close>

record 'r catalog_ops =
  co_register :: "drawn_id \<Rightarrow> string \<Rightarrow> string \<Rightarrow> metadata \<Rightarrow> 'r \<Rightarrow> 'r \<times> (store_error + logical_file \<times> file_version)"
  co_list_files :: "string \<Rightarrow> 'r \<Rightarrow> store_error + logical_file list"
  co_details :: "string \<Rightarrow> string \<Rightarrow> 'r \<Rightarrow> store_error + file_details"
  co_commit_restore :: "string \<Rightarrow> string \<Rightarrow> string \<Rightarrow> metadata \<Rightarrow> 'r \<Rightarrow> 'r \<times> (store_error + file_version)"
  co_find_version :: "string \<Rightarrow> string \<Rightarrow> string \<Rightarrow> 'r \<Rightarrow> store_error + metadata"

record 'r audited_catalog_ops =
  ac_commit_restore :: "string \<Rightarrow> string \<Rightarrow> string \<Rightarrow> metadata \<Rightarrow> intent \<Rightarrow> 'r \<Rightarrow> 'r \<times> (store_error + file_version)"

record 'r access_ops =
  xo_create_grant :: "time \<Rightarrow> drawn_id \<Rightarrow> string \<Rightarrow> string \<Rightarrow> recipient \<Rightarrow> string \<Rightarrow> time option \<Rightarrow> 'r \<Rightarrow> 'r \<times> (store_error + access_grant)"
  xo_list_grants :: "time \<Rightarrow> string \<Rightarrow> string \<Rightarrow> 'r \<Rightarrow> store_error + access_grant list"
  xo_revoke_grant :: "time \<Rightarrow> string \<Rightarrow> string \<Rightarrow> string \<Rightarrow> 'r \<Rightarrow> 'r \<times> (store_error + unit)"
  xo_details :: "time \<Rightarrow> string \<Rightarrow> string \<Rightarrow> string \<Rightarrow> 'r \<Rightarrow> store_error + file_details"
  xo_current_metadata :: "time \<Rightarrow> string \<Rightarrow> string \<Rightarrow> string \<Rightarrow> 'r \<Rightarrow> store_error + metadata"
  xo_list_shared :: "time \<Rightarrow> string \<Rightarrow> 'r \<Rightarrow> store_error + shared_file list"

record 'r audited_access_ops =
  ax_create_grant :: "time \<Rightarrow> drawn_id \<Rightarrow> string \<Rightarrow> string \<Rightarrow> recipient \<Rightarrow> string \<Rightarrow> time option \<Rightarrow> intent \<Rightarrow> 'r
     \<Rightarrow> 'r \<times> (store_error + access_grant)"
  ax_revoke_grant :: "time \<Rightarrow> string \<Rightarrow> string \<Rightarrow> string \<Rightarrow> intent \<Rightarrow> 'r \<Rightarrow> 'r \<times> (store_error + unit)"

record 'r lifecycle_ops =
  lo_list_trash :: "string \<Rightarrow> 'r \<Rightarrow> store_error + lifecycle_file list"
  lo_move_to_trash :: "string \<Rightarrow> string \<Rightarrow> time \<Rightarrow> time \<Rightarrow> 'r \<Rightarrow> 'r \<times> (store_error + lifecycle_file)"
  lo_restore_from_trash :: "string \<Rightarrow> string \<Rightarrow> time \<Rightarrow> 'r \<Rightarrow> 'r \<times> (store_error + lifecycle_file)"
  lo_purge :: "string \<Rightarrow> string \<Rightarrow> string \<Rightarrow> time \<Rightarrow> 'r \<Rightarrow> 'r \<times> (store_error + purge_result)"
  lo_set_retention :: "string \<Rightarrow> time option \<Rightarrow> 'r \<Rightarrow> 'r \<times> (store_error + lifecycle_file)"
  lo_set_legal_hold :: "string \<Rightarrow> bool \<Rightarrow> string \<Rightarrow> 'r \<Rightarrow> 'r \<times> (store_error + lifecycle_file)"
  lo_summary :: "time \<Rightarrow> int \<Rightarrow> 'r \<Rightarrow> store_error + lifecycle_summary"
  lo_eligible :: "time \<Rightarrow> int \<Rightarrow> 'r \<Rightarrow> store_error + lifecycle_file list"
  lo_record_failure :: "string \<Rightarrow> string \<Rightarrow> string \<Rightarrow> string \<Rightarrow> time \<Rightarrow> 'r \<Rightarrow> 'r \<times> (store_error + unit)"
  lo_current_metadata :: "string \<Rightarrow> 'r \<Rightarrow> store_error + metadata"
  lo_record_drill :: "recovery_drill \<Rightarrow> 'r \<Rightarrow> 'r \<times> (store_error + unit)"

record 'r audited_lifecycle_ops =
  al_move_to_trash :: "string \<Rightarrow> string \<Rightarrow> time \<Rightarrow> time \<Rightarrow> intent \<Rightarrow> 'r \<Rightarrow> 'r \<times> (store_error + lifecycle_file)"
  al_restore_from_trash :: "string \<Rightarrow> string \<Rightarrow> time \<Rightarrow> intent \<Rightarrow> 'r \<Rightarrow> 'r \<times> (store_error + lifecycle_file)"
  al_purge :: "string \<Rightarrow> string \<Rightarrow> string \<Rightarrow> time \<Rightarrow> intent \<Rightarrow> 'r \<Rightarrow> 'r \<times> (store_error + purge_result)"
  al_set_retention :: "string \<Rightarrow> time option \<Rightarrow> intent \<Rightarrow> 'r \<Rightarrow> 'r \<times> (store_error + lifecycle_file)"
  al_set_legal_hold :: "string \<Rightarrow> bool \<Rightarrow> string \<Rightarrow> intent \<Rightarrow> 'r \<Rightarrow> 'r \<times> (store_error + lifecycle_file)"
  al_record_failure :: "string \<Rightarrow> string \<Rightarrow> string \<Rightarrow> string \<Rightarrow> time \<Rightarrow> intent \<Rightarrow> 'r \<Rightarrow> 'r \<times> (store_error + unit)"
  al_record_drill :: "recovery_drill \<Rightarrow> intent \<Rightarrow> 'r \<Rightarrow> 'r \<times> (store_error + unit)"

record 'r rewrap_ops =
  ro_posture :: "string \<Rightarrow> string \<Rightarrow> 'r \<Rightarrow> store_error + key_rotation_posture"
  ro_candidates :: "string \<Rightarrow> string \<Rightarrow> int \<Rightarrow> 'r \<Rightarrow> store_error + metadata list"
  ro_commit :: "metadata \<Rightarrow> bytes \<Rightarrow> string \<Rightarrow> string \<Rightarrow> string \<Rightarrow> time \<Rightarrow> intent \<Rightarrow> 'r \<Rightarrow> 'r \<times> (store_error + bool)"

record 'r reconciliation_ops =
  no_authorize :: "orphan_reconciliation \<Rightarrow> intent \<Rightarrow> 'r \<Rightarrow> 'r \<times> (store_error + orphan_reconciliation \<times> bool)"
  no_complete :: "string \<Rightarrow> string \<Rightarrow> string \<Rightarrow> time \<Rightarrow> intent \<Rightarrow> 'r \<Rightarrow> 'r \<times> (store_error + bool)"
  no_pending :: "int \<Rightarrow> 'r \<Rightarrow> store_error + orphan_reconciliation list"

record 'r protected_ops =
  po_create :: "metadata \<Rightarrow> 'r \<Rightarrow> 'r \<times> (store_error + metadata \<times> bool)"
  po_find_by_upload :: "string \<Rightarrow> string \<Rightarrow> 'r \<Rightarrow> store_error + metadata"
  po_durable :: bool
  po_catalog :: "'r catalog_ops option"
  po_audited_catalog :: "'r audited_catalog_ops option"
  po_access :: "'r access_ops option"
  po_audited_access :: "'r audited_access_ops option"
  po_lifecycle :: "'r lifecycle_ops option"
  po_audited_lifecycle :: "'r audited_lifecycle_ops option"
  po_rewrap :: "'r rewrap_ops option"
  po_blob_objects :: "('r \<Rightarrow> store_error + string list) option"
  po_blob_exists :: "(string \<Rightarrow> 'r \<Rightarrow> store_error + bool) option"
  po_reconciliation :: "'r reconciliation_ops option"

definition memory_catalog_ops :: "memory_protected catalog_ops" where
  "memory_catalog_ops = \<lparr>co_register = memory_RegisterInitial, co_list_files = memory_ListFiles,
     co_details = memory_Details, co_commit_restore = memory_CommitRestore, co_find_version = memory_FindVersion\<rparr>"

definition memory_access_ops :: "memory_protected access_ops" where
  "memory_access_ops = \<lparr>xo_create_grant = memory_CreateGrant, xo_list_grants = memory_ListGrants,
     xo_revoke_grant = memory_RevokeGrant, xo_details = memory_AuthorizedDetails,
     xo_current_metadata = memory_AuthorizedCurrentMetadata, xo_list_shared = memory_ListSharedFiles\<rparr>"

definition memory_lifecycle_ops :: "memory_protected lifecycle_ops" where
  "memory_lifecycle_ops = \<lparr>lo_list_trash = memory_ListTrash, lo_move_to_trash = memory_MoveToTrash,
     lo_restore_from_trash = memory_RestoreFromTrash, lo_purge = memory_Purge, lo_set_retention = memory_SetRetention,
     lo_set_legal_hold = memory_SetLegalHold, lo_summary = memory_LifecycleSummary, lo_eligible = memory_EligibleForPurge,
     lo_record_failure = memory_RecordDeletionFailure, lo_current_metadata = memory_CurrentMetadataForDrill,
     lo_record_drill = memory_RecordRecoveryDrill\<rparr>"

definition memory_rewrap_ops :: "memory_protected rewrap_ops" where
  "memory_rewrap_ops = \<lparr>ro_posture = memory_KeyRotationPosture, ro_candidates = memory_ListDEKRewrapCandidates,
     ro_commit = (\<lambda>candidate replacement targetID targetVersion operationID at i.
        memory_CommitDEKRewrap candidate replacement targetID targetVersion)\<rparr>"

definition memory_reconciliation_ops :: "memory_protected reconciliation_ops" where
  "memory_reconciliation_ops = \<lparr>no_authorize = (\<lambda>op i. memory_AuthorizeOrphanReconciliation op),
     no_complete = (\<lambda>operationID status reason at i. memory_CompleteOrphanReconciliation operationID status reason at),
     no_pending = memory_PendingOrphanReconciliations\<rparr>"

text \<open>The in-memory repository has none of the operations with transactional evidence.\<close>

definition memory_protected_ops :: "memory_protected protected_ops" where
  "memory_protected_ops = \<lparr>po_create = memory_Create, po_find_by_upload = memory_FindByUpload, po_durable = False,
     po_catalog = Some memory_catalog_ops, po_audited_catalog = None, po_access = Some memory_access_ops,
     po_audited_access = None, po_lifecycle = Some memory_lifecycle_ops, po_audited_lifecycle = None,
     po_rewrap = Some memory_rewrap_ops, po_blob_objects = Some memory_ProtectedBlobObjects,
     po_blob_exists = Some memory_ProtectedBlobObjectExists, po_reconciliation = Some memory_reconciliation_ops\<rparr>"

lemmas memory_protected_defs = memory_protected_ops_def memory_catalog_ops_def memory_access_ops_def
  memory_lifecycle_ops_def memory_rewrap_ops_def memory_reconciliation_ops_def

end
