(* ===== verification/ProtectedKeys.thy ===== *)
theory ProtectedKeys
  imports ProtectedRepo Base64
begin

text \<open>
  Custody of the key-encryption keys (\<open>KeyProvider\<close> of \<open>service.go\<close>, \<open>local_key.go\<close>): the
  interface as a record of operations, the development provider with its keyring, the contract of a
  provider as a locale, and the proof that the keyring provider keeps it.
\<close>

section \<open>The interface\<close>

record key_posture =
  ky_connected :: bool
  ky_production_ready :: bool
  ky_hardware_backed :: bool
  ky_adapter :: string
  ky_provider :: string
  ky_key_id :: string
  ky_key_version :: string
  ky_checked_at :: "time option"
  ky_detail :: string

text \<open>\<open>kv_wrap\<close> takes the random bytes it draws for a nonce; \<open>kv_posture\<close> is the optional reporter.\<close>

record key_provider =
  kv_id :: string
  kv_version :: string
  kv_wrap :: "string + bytes \<Rightarrow> bytes \<Rightarrow> store_error + bytes"
  kv_unwrap :: "bytes \<Rightarrow> string \<Rightarrow> string \<Rightarrow> store_error + bytes"
  kv_posture :: "(time \<Rightarrow> key_posture) option"

definition store_opaqueID :: "string \<Rightarrow> string + bytes \<Rightarrow> drawn_id" where
  "store_opaqueID label draw =
     (case draw of Inl m \<Rightarrow> Inl (StoreError m) | Inr raw \<Rightarrow> Inr (label @ ''_'' @ b64_encode raw))"

section \<open>The keyring on file\<close>

record local_keyring =
  lk_keys :: "(string, bytes) gomap"
  lk_id :: string
  lk_version :: string

definition NewLocalKeyringProvider :: "(string, bytes) gomap \<Rightarrow> string \<Rightarrow> string \<Rightarrow> store_error + local_keyring" where
  "NewLocalKeyringProvider keys i currentVersion =
     (if i = [] \<or> currentVersion = [] \<or> length (mget [] keys currentVersion) \<noteq> 32
      then Inl (StoreError ''local KEK keyring requires a 32-byte current key and ID/version'')
      else if list_ex (\<lambda>(v, key). v = [] \<or> length key \<noteq> 32) keys
      then Inl (StoreError ''every local KEK version must contain exactly 32 bytes'')
      else Inr \<lparr>lk_keys = keys, lk_id = i, lk_version = currentVersion\<rparr>)"

definition NewLocalKeyProvider :: "bytes \<Rightarrow> string \<Rightarrow> string \<Rightarrow> store_error + local_keyring" where
  "NewLocalKeyProvider key i version =
     (if length key \<noteq> 32 \<or> i = [] \<or> version = []
      then Inl (StoreError ''local KEK must contain exactly 32 bytes and have an ID/version'')
      else NewLocalKeyringProvider [(version, key)] i version)"

text \<open>\<open>localAEAD\<close> with the size of its nonces.\<close>

definition aead_nonce_size :: nat where "aead_nonce_size = 12"

definition localAEAD :: "platform \<Rightarrow> bytes
    \<Rightarrow> store_error + (bytes \<Rightarrow> bytes \<Rightarrow> bytes \<Rightarrow> bytes) \<times> (bytes \<Rightarrow> bytes \<Rightarrow> bytes \<Rightarrow> bytes option)" where
  "localAEAD P key =
     (if valid_aes_key key then Inr (p_gcm_seal P key, p_gcm_open P key)
      else Inl (StoreError ''crypto/aes: invalid key size''))"

definition local_Wrap :: "platform \<Rightarrow> local_keyring \<Rightarrow> string + bytes \<Rightarrow> bytes \<Rightarrow> store_error + bytes" where
  "local_Wrap P k draw dek =
     (case localAEAD P (mget [] (lk_keys k) (lk_version k)) of Inl e \<Rightarrow> Inl e
      | Inr (seal, _) \<Rightarrow>
          (case draw of Inl m \<Rightarrow> Inl (StoreError m)
           | Inr nonce \<Rightarrow> Inr (nonce @ seal nonce dek (lk_id k @ NUL @ lk_version k))))"

definition local_Unwrap :: "platform \<Rightarrow> local_keyring \<Rightarrow> bytes \<Rightarrow> string \<Rightarrow> string \<Rightarrow> store_error + bytes" where
  "local_Unwrap P k wrapped i version =
     (if i \<noteq> lk_id k then Inl ErrIntegrity
      else case map_of (lk_keys k) version of None \<Rightarrow> Inl ErrIntegrity
      | Some key \<Rightarrow>
          (case localAEAD P key of Inl _ \<Rightarrow> Inl ErrIntegrity
           | Inr (_, open') \<Rightarrow>
               if length wrapped \<le> aead_nonce_size then Inl ErrIntegrity
               else case open' (take aead_nonce_size wrapped) (drop aead_nonce_size wrapped) (i @ NUL @ version) of
                 None \<Rightarrow> Inl ErrIntegrity
               | Some dek \<Rightarrow> if length dek \<noteq> 32 then Inl ErrIntegrity else Inr dek))"

definition local_Posture :: "local_keyring \<Rightarrow> time \<Rightarrow> key_posture" where
  "local_Posture k now =
     \<lparr>ky_connected = True, ky_production_ready = False, ky_hardware_backed = False,
      ky_adapter = ''local-file-keyring'', ky_provider = ''local-development'', ky_key_id = lk_id k,
      ky_key_version = lk_version k, ky_checked_at = Some now,
      ky_detail = ''Development file-backed KEK custody is active; production requires a mutually authenticated hardware-backed key service.''\<rparr>"

definition local_keys :: "platform \<Rightarrow> local_keyring \<Rightarrow> key_provider" where
  "local_keys P k = \<lparr>kv_id = lk_id k, kv_version = lk_version k, kv_wrap = local_Wrap P k,
     kv_unwrap = local_Unwrap P k, kv_posture = Some (local_Posture k)\<rparr>"

section \<open>The contract of a provider\<close>

text \<open>
  What the envelope code relies on: a wrapped key unwraps under the identity it was wrapped with, what
  unwraps is a 32-byte key, and a later keyring still unwraps what an earlier one did.
\<close>

locale key_custody =
  fixes provider :: "'k \<Rightarrow> key_provider" and usable :: "'k \<Rightarrow> bool"
  assumes wrap_unwrap: "usable k \<Longrightarrow> length nonce = 12 \<Longrightarrow> length dek = 32 \<Longrightarrow>
      \<exists>w. kv_wrap (provider k) (Inr nonce) dek = Inr w \<and> w \<noteq> []
        \<and> kv_unwrap (provider k) w (kv_id (provider k)) (kv_version (provider k)) = Inr dek"
    and wrap_draws: "kv_wrap (provider k) (Inl m) dek \<noteq> Inr w"
    and unwrapped_key: "kv_unwrap (provider k) w i v = Inr dek \<Longrightarrow> length dek = 32"
    and identified: "usable k \<Longrightarrow> kv_id (provider k) \<noteq> [] \<and> kv_version (provider k) \<noteq> []"

locale rotating_custody = key_custody +
  fixes rotates_to :: "'k \<Rightarrow> 'k \<Rightarrow> bool"
  assumes old_keys_unwrap: "rotates_to k k' \<Longrightarrow> kv_unwrap (provider k) w i v = Inr dek
      \<Longrightarrow> kv_unwrap (provider k') w i v = Inr dek"

text \<open>A keyring as the constructors make it, on a platform whose authenticated encryption is correct.\<close>

definition local_usable :: "platform \<Rightarrow> local_keyring \<Rightarrow> bool" where
  "local_usable P k \<longleftrightarrow> gcm_correct P \<and> gcm_grows P \<and> lk_id k \<noteq> [] \<and> lk_version k \<noteq> [] \<and> length (mget [] (lk_keys k) (lk_version k)) = 32"

definition local_rotates_to :: "local_keyring \<Rightarrow> local_keyring \<Rightarrow> bool" where
  "local_rotates_to k k' \<longleftrightarrow> lk_id k' = lk_id k \<and> map_of (lk_keys k) \<subseteq>\<^sub>m map_of (lk_keys k')"

lemma local_unwrap_wrap:
  assumes "local_usable P k" "length nonce = 12" "length dek = 32"
  shows "\<exists>w. local_Wrap P k (Inr nonce) dek = Inr w \<and> w \<noteq> [] \<and> local_Unwrap P k w (lk_id k) (lk_version k) = Inr dek"
proof -
  from assms(1) obtain key where key: "map_of (lk_keys k) (lk_version k) = Some key" "length key = 32"
    by (auto simp: local_usable_def mget_def split: option.splits)
  with assms have "length dek \<le> length (p_gcm_seal P key nonce dek (lk_id k @ NUL @ lk_version k))"
    unfolding local_usable_def gcm_grows_def by metis
  then have "p_gcm_seal P key nonce dek (lk_id k @ NUL @ lk_version k) \<noteq> []"
    using assms(3) by auto
  moreover have "p_gcm_open P key nonce (p_gcm_seal P key nonce dek a) a = Some dek" for a
    using assms(1) by (simp add: local_usable_def gcm_correct_def)
  ultimately show ?thesis
    using key assms(2,3)
    by (simp add: local_Wrap_def local_Unwrap_def mget_def localAEAD_def valid_aes_key_def aead_nonce_size_def)
qed

interpretation lk: rotating_custody "local_keys P" "local_usable P" local_rotates_to for P
proof
  show "\<exists>w. kv_wrap (local_keys P k) (Inr nonce) dek = Inr w \<and> w \<noteq> []
      \<and> kv_unwrap (local_keys P k) w (kv_id (local_keys P k)) (kv_version (local_keys P k)) = Inr dek"
    if "local_usable P k" "length nonce = 12" "length dek = 32" for k nonce dek
    using local_unwrap_wrap [OF that] by (simp add: local_keys_def)
  show "kv_wrap (local_keys P k) (Inl m) dek \<noteq> Inr w" for k m dek w
    by (simp add: local_keys_def local_Wrap_def split: sum.split)
  show "length dek = 32" if "kv_unwrap (local_keys P k) w i v = Inr dek" for k w i v dek
    using that by (auto simp: local_keys_def local_Unwrap_def split: if_splits option.splits sum.splits)
  show "kv_id (local_keys P k) \<noteq> [] \<and> kv_version (local_keys P k) \<noteq> []" if "local_usable P k" for k
    using that by (simp add: local_usable_def local_keys_def)
  show "kv_unwrap (local_keys P k') w i v = Inr dek"
    if "local_rotates_to k k'" "kv_unwrap (local_keys P k) w i v = Inr dek" for k k' w i v dek
  proof -
    from that have "i = lk_id k" "lk_id k' = lk_id k"
      by (auto simp: local_keys_def local_Unwrap_def local_rotates_to_def split: if_splits)
    moreover from that obtain key where "map_of (lk_keys k) v = Some key"
      by (auto simp: local_keys_def local_Unwrap_def split: if_splits option.splits)
    moreover from this that(1) have "map_of (lk_keys k') v = Some key"
      by (auto simp: local_rotates_to_def map_le_def dom_def)
    ultimately show ?thesis using that(2) by (simp add: local_keys_def local_Unwrap_def)
  qed
qed

end
