(* ===== verification/OrphanObjects.thy ===== *)
theory OrphanObjects
  imports Prelude Base64
begin

text \<open>
  Reconciliation of stored objects nobody tracks (\<open>internal/orphan/objects.go\<close>) over a model of a
  storage directory: a Go map from object names to what \<open>os.Lstat\<close> reports and \<open>os.ReadFile\<close> reads.
  A failing system call is a fault, an argument that names the step and carries the error's text.
\<close>

section \<open>A storage directory\<close>

datatype object_kind = RegularFile | Directory | OtherObject

record stored_object =
  so_kind :: object_kind
  so_bytes :: bytes
  so_modified :: time

type_synonym directory = "(string, stored_object) gomap"

definition object_size :: "stored_object \<Rightarrow> int64" where
  "object_size ob = int (length (so_bytes ob))"

datatype disk_step = ReadDirectory | EntryInfo string | LstatObject | ReadObject | RemoveObject string
  | CreateTemporary | ChmodTemporary | WriteTemporary | SyncTemporary | CloseTemporary | RenameObject
  | RemoveTemporary | RequestContext

type_synonym faults = "disk_step \<Rightarrow> string option"

section \<open>Candidates\<close>

datatype orphan_error = ErrOrphanNotFound | ErrTooYoung | OrphanIO string

record candidate =
  cd_token :: string
  cd_zone :: string
  cd_size :: int64
  cd_modified_at :: time
  cd_eligible :: bool
  cd_reason :: string
  cd_storage_object :: string

record resume_outcome =
  ro_status :: string
  ro_reason_code :: string

definition orphan_token :: "platform \<Rightarrow> string \<Rightarrow> string \<Rightarrow> int64 \<Rightarrow> time \<Rightarrow> string" where
  "orphan_token P zone name bytecount modified =
     ''orp_'' @ b64_encode (p_sha256 P (zone @ NUL @ name @ be64 bytecount @ be64 modified))"

definition candidate_of :: "platform \<Rightarrow> string \<Rightarrow> duration \<Rightarrow> time \<Rightarrow> string \<Rightarrow> stored_object \<Rightarrow> candidate" where
  "candidate_of P zone minimumAge now name ob =
     (let modified = truncate_us (so_modified ob);
          eligible = (\<not> now - minimumAge < modified)
      in \<lparr>cd_token = orphan_token P zone name (object_size ob) modified, cd_zone = zone, cd_size = object_size ob,
          cd_modified_at = modified, cd_eligible = eligible,
          cd_reason = if eligible then ''untracked_object'' else ''safety_window_active'', cd_storage_object = name\<rparr>)"

text \<open>The loop over the entries: \<open>entry.Info\<close> may fail, which ends the listing.\<close>

fun scan_orphans ::
    "platform \<Rightarrow> faults \<Rightarrow> string \<Rightarrow> string list \<Rightarrow> duration \<Rightarrow> time \<Rightarrow> directory \<Rightarrow> orphan_error + candidate list" where
  "scan_orphans P io zone tracked minimumAge now [] = Inr []"
| "scan_orphans P io zone tracked minimumAge now ((name, ob) # rest) =
     (if so_kind ob = Directory \<or> name \<in> set tracked then scan_orphans P io zone tracked minimumAge now rest
      else case io (EntryInfo name) of Some m \<Rightarrow> Inl (OrphanIO m)
      | None \<Rightarrow>
          (if so_kind ob \<noteq> RegularFile then scan_orphans P io zone tracked minimumAge now rest
           else case scan_orphans P io zone tracked minimumAge now rest of Inl e \<Rightarrow> Inl e
             | Inr cs \<Rightarrow> Inr (candidate_of P zone minimumAge now name ob # cs)))"

definition orphan_List ::
    "platform \<Rightarrow> faults \<Rightarrow> directory \<Rightarrow> string \<Rightarrow> string list \<Rightarrow> duration \<Rightarrow> time \<Rightarrow> orphan_error + candidate list" where
  "orphan_List P io root zone tracked minimumAge now =
     (case io ReadDirectory of Some m \<Rightarrow> Inl (OrphanIO m)
      | None \<Rightarrow>
          (case scan_orphans P io zone tracked minimumAge now root of Inl e \<Rightarrow> Inl e
           | Inr cs \<Rightarrow> Inr (sort_key (\<lambda>c. (cd_modified_at c, cd_token c)) cs)))"

text \<open>
  \<open>os.Lstat(filepath.Join(root, name))\<close>: the name \<open>/\<close>, the only one with a separator that
  \<open>filepath.Base\<close> leaves alone, is the directory itself.
\<close>

definition lstat :: "directory \<Rightarrow> string \<Rightarrow> stored_object option" where
  "lstat root name =
     (if name = ''/'' then Some \<lparr>so_kind = Directory, so_bytes = [], so_modified = 0\<rparr> else map_of root name)"

text \<open>\<open>os.Lstat\<close> and the comparison of what it reports with a size and a time.\<close>

definition unchanged :: "directory \<Rightarrow> string \<Rightarrow> int64 \<Rightarrow> time \<Rightarrow> bool" where
  "unchanged root name bytecount modified \<longleftrightarrow>
     (case lstat root name of None \<Rightarrow> False
      | Some ob \<Rightarrow> so_kind ob = RegularFile \<and> object_size ob = bytecount \<and> truncate_us (so_modified ob) = modified)"

definition orphan_Delete ::
    "platform \<Rightarrow> faults \<Rightarrow> directory \<Rightarrow> string \<Rightarrow> string list \<Rightarrow> string \<Rightarrow> duration \<Rightarrow> time
       \<Rightarrow> (string \<Rightarrow> 'e + bool) option \<Rightarrow> directory \<times> (('e + orphan_error) + candidate)" where
  "orphan_Delete P io root zone tracked requestedToken minimumAge now isNowTracked =
     (case orphan_List P io root zone tracked minimumAge now of Inl e \<Rightarrow> (root, Inl (Inr e))
      | Inr candidates \<Rightarrow>
     (case find (\<lambda>c. cd_token c = requestedToken) candidates of None \<Rightarrow> (root, Inl (Inr ErrOrphanNotFound))
      | Some c \<Rightarrow>
          if \<not> cd_eligible c then (root, Inl (Inr ErrTooYoung))
          else case (case isNowTracked of None \<Rightarrow> Inr False | Some query \<Rightarrow> query (cd_storage_object c)) of
            Inl e \<Rightarrow> (root, Inl (Inl e))
          | Inr True \<Rightarrow> (root, Inl (Inr ErrOrphanNotFound))
          | Inr False \<Rightarrow>
              if io LstatObject \<noteq> None \<or> \<not> unchanged root (cd_storage_object c) (cd_size c) (cd_modified_at c)
              then (root, Inl (Inr ErrOrphanNotFound))
              else case io (RemoveObject (cd_storage_object c)) of Some m \<Rightarrow> (root, Inl (Inr (OrphanIO m)))
              | None \<Rightarrow> (mdelete (cd_storage_object c) root, Inr (c\<lparr>cd_storage_object := []\<rparr>))))"

text \<open>\<open>filepath.Base(name) = name\<close> for a name that is not empty, \<open>.\<close> or \<open>..\<close>: it has no separator, or is one.\<close>

definition base_name :: "string \<Rightarrow> bool" where
  "base_name name \<longleftrightarrow> CHR ''/'' \<notin> set name \<or> name = ''/''"

definition orphan_Resume ::
    "faults \<Rightarrow> directory \<Rightarrow> string \<Rightarrow> int64 \<Rightarrow> time \<Rightarrow> (string \<Rightarrow> 'e + bool) option
       \<Rightarrow> directory \<times> (('e + orphan_error) + resume_outcome)" where
  "orphan_Resume io root storageObject bytecount modifiedAt isNowTracked =
     (if storageObject = [] \<or> storageObject = ''.'' \<or> storageObject = ''..'' \<or> \<not> base_name storageObject
      then (root, Inr \<lparr>ro_status = ''failed'', ro_reason_code = ''invalid_storage_identity''\<rparr>)
      else case (case isNowTracked of None \<Rightarrow> Inr False | Some query \<Rightarrow> query storageObject) of
        Inl e \<Rightarrow> (root, Inl (Inl e))
      | Inr True \<Rightarrow> (root, Inr \<lparr>ro_status = ''failed'', ro_reason_code = ''metadata_attached''\<rparr>)
      | Inr False \<Rightarrow>
          if lstat root storageObject = None
          then (root, Inr \<lparr>ro_status = ''completed'', ro_reason_code = ''object_absent_after_authorization''\<rparr>)
          else case io LstatObject of Some m \<Rightarrow> (root, Inl (Inr (OrphanIO m)))
          | None \<Rightarrow>
              if \<not> unchanged root storageObject bytecount (truncate_us modifiedAt)
              then (root, Inr \<lparr>ro_status = ''failed'', ro_reason_code = ''revalidation_failed''\<rparr>)
              else case io (RemoveObject storageObject) of Some m \<Rightarrow> (root, Inl (Inr (OrphanIO m)))
              | None \<Rightarrow> (mdelete storageObject root,
                  Inr \<lparr>ro_status = ''completed'', ro_reason_code = ''untracked_object_removed''\<rparr>))"

end
