(* ===== verification/ProtectedService.thy ===== *)
theory ProtectedService
  imports ProtectedKeys OrphanObjects
begin

text \<open>
  The envelope service (\<open>service.go\<close>) and the catalogue operations above it (\<open>catalog.go\<close>): what
  \<open>Protect\<close> writes, what \<open>Open\<close> authenticates before it returns a byte, and restoring an old version
  as a new one. The storage directory is the map of \<open>OrphanObjects\<close>; of the staging directory only the
  names of temporaries that could not be removed are kept.
\<close>

section \<open>State\<close>

definition schemaVersion :: string where "schemaVersion = ''securestore-envelope-v1''"
definition envelope_algorithm :: string where "envelope_algorithm = ''AES-256-GCM''"

record protect_request =
  rq_upload_id :: string
  rq_owner_id :: string
  rq_plaintext_digest :: string
  rq_media_type :: string
  rq_inspection_record_id :: string
  rq_plaintext_size :: int64

record protected_file =
  pf_metadata :: metadata
  pf_bytes :: bytes

text \<open>An \<open>io.Reader\<close>: the bytes it delivers and the error that ends it, when it is not the end of the data.\<close>

record reader =
  rr_bytes :: bytes
  rr_error :: "string option"

definition read_limited :: "int64 \<Rightarrow> reader \<Rightarrow> string + bytes" where
  "read_limited limit source =
     (if limit \<le> int (length (rr_bytes source)) then Inr (take (nat limit) (rr_bytes source))
      else case rr_error source of Some m \<Rightarrow> Inl m | None \<Rightarrow> Inr (rr_bytes source))"

record 'r protected_service =
  sv_ops :: "'r protected_ops"
  sv_repo :: 'r
  sv_keys :: key_provider
  sv_root_dir :: string
  sv_staging_dir :: string
  sv_root :: directory
  sv_staging :: "string list"
  sv_max_plaintext :: int64
  sv_backup :: backup_posture

text \<open>What a call takes from its surroundings: faults, random draws, clock readings, a temporary's name.\<close>

record surroundings =
  su_faults :: faults
  su_draws :: "nat \<Rightarrow> string + bytes"
  su_clock :: "nat \<Rightarrow> time"
  su_temporary :: string
  su_modified :: time

record 'r protected_config =
  pc_root_dir :: string
  pc_staging_dir :: string
  pc_max_plaintext :: int64
  pc_repository :: "('r protected_ops \<times> 'r) option"
  pc_keys :: "key_provider option"
  pc_backup :: "backup_posture option"

definition unconfigured_backup :: backup_posture where
  "unconfigured_backup = \<lparr>bp_connected = False, bp_production_ready = False, bp_adapter = ''not_configured'',
     bp_status = ''unavailable'',
     bp_detail = ''No backup provider is configured. Deployment must connect provider evidence before backup health can be asserted.'',
     bp_last_successful_at = None\<rparr>"

text \<open>\<open>mkdir\<close> is \<open>os.MkdirAll\<close> of the two directories; \<open>root\<close> is what the storage directory holds already.\<close>

definition NewProtectedService ::
    "(string \<Rightarrow> string option) \<Rightarrow> directory \<Rightarrow> 'r protected_config \<Rightarrow> store_error + 'r protected_service" where
  "NewProtectedService mkdir root c =
     (case (pc_repository c, pc_keys c) of
        (Some (ops, repo), Some keys) \<Rightarrow>
          if pc_root_dir c = [] \<or> pc_max_plaintext c \<le> 0
          then Inl (StoreError ''invalid protected-storage configuration'')
          else
            (let staging = (if pc_staging_dir c = [] then pc_root_dir c @ ''/.staging'' else pc_staging_dir c) in
             case (mkdir (pc_root_dir c), mkdir staging) of
               (Some m, _) \<Rightarrow> Inl (StoreError m)
             | (None, Some m) \<Rightarrow> Inl (StoreError m)
             | (None, None) \<Rightarrow> Inr \<lparr>sv_ops = ops, sv_repo = repo, sv_keys = keys, sv_root_dir = pc_root_dir c,
                 sv_staging_dir = staging, sv_root = root, sv_staging = [], sv_max_plaintext = pc_max_plaintext c,
                 sv_backup = (case pc_backup c of None \<Rightarrow> unconfigured_backup | Some b \<Rightarrow> b)\<rparr>)
      | _ \<Rightarrow> Inl (StoreError ''invalid protected-storage configuration''))"

definition KeyPosture :: "time \<Rightarrow> 'r protected_service \<Rightarrow> key_posture" where
  "KeyPosture now st =
     (case kv_posture (sv_keys st) of Some posture \<Rightarrow> posture now
      | None \<Rightarrow> \<lparr>ky_connected = True, ky_production_ready = False, ky_hardware_backed = False,
          ky_adapter = ''configured-key-provider'', ky_provider = [], ky_key_id = kv_id (sv_keys st),
          ky_key_version = kv_version (sv_keys st), ky_checked_at = None,
          ky_detail = ''Key-provider health and custody evidence are unavailable.''\<rparr>)"

section \<open>The envelope\<close>

definition canonicalAAD :: "platform \<Rightarrow> metadata \<Rightarrow> bytes" where
  "canonicalAAD P m =
     concat (map length_field [md_schema_version m, md_algorithm m, md_upload_id m, md_version_id m, md_owner_id m,
       md_plaintext_digest m, md_media_type m, md_inspection_record_id m, md_kek_id m, md_kek_version m,
       p_rfc3339 P (md_created_at m)]) @ be64 (md_plaintext_size m)"

definition validateMetadata :: "metadata \<Rightarrow> int64 \<Rightarrow> store_error + unit" where
  "validateMetadata m maxBytes =
     (if md_upload_id m = [] \<or> md_version_id m = [] \<or> md_owner_id m = []
        \<or> md_blob_object m \<noteq> md_version_id m @ ''.ciphertext'' \<or> md_schema_version m \<noteq> schemaVersion
        \<or> md_algorithm m \<noteq> envelope_algorithm \<or> md_plaintext_size m \<le> 0 \<or> md_plaintext_size m > maxBytes
        \<or> length (md_plaintext_digest m) \<noteq> 64 \<or> length (md_nonce m) \<noteq> 12 \<or> md_wrapped_dek m = []
      then Inl ErrInvalidEnvelope else Inr ())"

text \<open>
  The steps that put the ciphertext in place: a temporary in the staging directory, renamed into the
  storage directory. A temporary that a failing step leaves is removed, if that succeeds.
\<close>

fun first_fault :: "faults \<Rightarrow> disk_step list \<Rightarrow> string option" where
  "first_fault io [] = None"
| "first_fault io (s # ss) = (case io s of Some m \<Rightarrow> Some m | None \<Rightarrow> first_fault io ss)"

definition discard_temporary :: "surroundings \<Rightarrow> 'r protected_service \<Rightarrow> 'r protected_service" where
  "discard_temporary su st =
     (if su_faults su RemoveTemporary = None then st else st\<lparr>sv_staging := su_temporary su # sv_staging st\<rparr>)"

definition write_object ::
    "surroundings \<Rightarrow> string \<Rightarrow> bytes \<Rightarrow> 'r protected_service \<Rightarrow> 'r protected_service \<times> (store_error + unit)" where
  "write_object su name ciphertext st =
     (case su_faults su CreateTemporary of Some m \<Rightarrow> (st, Inl (StoreError m))
      | None \<Rightarrow>
     (case first_fault (su_faults su) [ChmodTemporary, WriteTemporary, SyncTemporary, CloseTemporary, RenameObject] of
        Some m \<Rightarrow> (discard_temporary su st, Inl (StoreError m))
      | None \<Rightarrow> (st\<lparr>sv_root := mput name \<lparr>so_kind = RegularFile, so_bytes = ciphertext, so_modified = su_modified su\<rparr>
                   (sv_root st)\<rparr>, Inr ())))"

definition remove_object :: "surroundings \<Rightarrow> string \<Rightarrow> 'r protected_service \<Rightarrow> 'r protected_service" where
  "remove_object su name st =
     (if su_faults su (RemoveObject name) = None then st\<lparr>sv_root := mdelete name (sv_root st)\<rparr> else st)"

text \<open>The metadata of a new version, before a key is wrapped for it.\<close>

definition new_metadata :: "string \<Rightarrow> time \<Rightarrow> platform \<Rightarrow> protect_request \<Rightarrow> key_provider \<Rightarrow> metadata" where
  "new_metadata versionID now P rq keys =
     \<lparr>md_upload_id = rq_upload_id rq, md_version_id = versionID, md_owner_id = rq_owner_id rq,
      md_blob_object = versionID @ ''.ciphertext'', md_schema_version = schemaVersion, md_algorithm = envelope_algorithm,
      md_kek_id = kv_id keys, md_kek_version = kv_version keys,
      md_wrapping_kek_id = kv_id keys, md_wrapping_kek_version = kv_version keys,
      md_wrapped_dek = [], md_nonce = [], md_plaintext_size = rq_plaintext_size rq,
      md_plaintext_digest = to_lower P (rq_plaintext_digest rq), md_media_type = rq_media_type rq,
      md_inspection_record_id = rq_inspection_record_id rq, md_created_at = truncate_us now\<rparr>"

text \<open>From the encrypted object to the stored row; a lost race for the upload removes the object again.\<close>

definition commit_envelope ::
    "platform \<Rightarrow> surroundings \<Rightarrow> metadata \<Rightarrow> bytes \<Rightarrow> 'r protected_service \<Rightarrow> 'r protected_service \<times> (store_error + metadata)" where
  "commit_envelope P su m ciphertext st =
     (case su_faults su RequestContext of Some e \<Rightarrow> (st, Inl (StoreError e))
      | None \<Rightarrow>
     (case write_object su (md_blob_object m) ciphertext st of
        (st1, Inl e) \<Rightarrow> (st1, Inl e)
      | (st1, Inr _) \<Rightarrow>
     (case po_create (sv_ops st) m (sv_repo st1) of
        (r', Inl e) \<Rightarrow> (remove_object su (md_blob_object m) (st1\<lparr>sv_repo := r'\<rparr>), Inl e)
      | (r', Inr (stored, reused)) \<Rightarrow>
          if reused then (remove_object su (md_blob_object m) (st1\<lparr>sv_repo := r'\<rparr>), Inr stored)
          else (st1\<lparr>sv_repo := r'\<rparr>, Inr m))))"

text \<open>The draws are, in this order, the version identifier, the key, the nonce and what \<open>Wrap\<close> draws.\<close>

definition seal_and_commit ::
    "platform \<Rightarrow> surroundings \<Rightarrow> protect_request \<Rightarrow> bytes \<Rightarrow> 'r protected_service \<Rightarrow> 'r protected_service \<times> (store_error + metadata)" where
  "seal_and_commit P su rq plaintext st =
     (case store_opaqueID ''ver'' (su_draws su 0) of Inl e \<Rightarrow> (st, Inl e)
      | Inr versionID \<Rightarrow>
     (case su_draws su 1 of Inl m \<Rightarrow> (st, Inl (StoreError m))
      | Inr dek \<Rightarrow>
     if \<not> valid_aes_key dek then (st, Inl (StoreError ''crypto/aes: invalid key size''))
     else case su_draws su 2 of Inl m \<Rightarrow> (st, Inl (StoreError m))
      | Inr nonce \<Rightarrow>
     (case kv_wrap (sv_keys st) (su_draws su 3) dek of Inl e \<Rightarrow> (st, Inl e)
      | Inr wrapped \<Rightarrow>
          (let m = (new_metadata versionID (su_clock su 0) P rq (sv_keys st))\<lparr>md_nonce := nonce, md_wrapped_dek := wrapped\<rparr>
           in commit_envelope P su m (p_gcm_seal P dek nonce plaintext (canonicalAAD P m)) st))))"

definition Protect ::
    "platform \<Rightarrow> surroundings \<Rightarrow> protect_request \<Rightarrow> reader option \<Rightarrow> 'r protected_service
       \<Rightarrow> 'r protected_service \<times> (store_error + metadata)" where
  "Protect P su rq source st =
     (case po_find_by_upload (sv_ops st) (rq_owner_id rq) (rq_upload_id rq) (sv_repo st) of
        Inr existing \<Rightarrow> (st, Inr existing)
      | Inl e \<Rightarrow>
     if e \<noteq> ErrStoreNotFound then (st, Inl e)
     else if rq_upload_id rq = [] \<or> rq_owner_id rq = [] \<or> rq_plaintext_size rq \<le> 0
        \<or> rq_plaintext_size rq > sv_max_plaintext st \<or> length (rq_plaintext_digest rq) \<noteq> 64
     then (st, Inl ErrInvalidEnvelope)
     else case source of None \<Rightarrow> (st, Inl ErrInvalidEnvelope)
      | Some rd \<Rightarrow>
     (case read_limited (add64 (sv_max_plaintext st) 1) rd of Inl _ \<Rightarrow> (st, Inl ErrIntegrity)
      | Inr plaintext \<Rightarrow>
          if int (length plaintext) \<noteq> rq_plaintext_size rq \<or> int (length plaintext) > sv_max_plaintext st
          then (st, Inl ErrIntegrity)
          else if \<not> equal_fold P (hex_encode (p_sha256 P plaintext)) (rq_plaintext_digest rq) then (st, Inl ErrIntegrity)
          else seal_and_commit P su rq plaintext st))"

definition openMetadata ::
    "platform \<Rightarrow> faults \<Rightarrow> metadata \<Rightarrow> 'r protected_service \<Rightarrow> store_error + protected_file" where
  "openMetadata P io m st =
     (case validateMetadata m (sv_max_plaintext st) of Inl e \<Rightarrow> Inl e
      | Inr _ \<Rightarrow>
     (case (io ReadObject, map_of (sv_root st) (md_blob_object m)) of
        (None, Some ob) \<Rightarrow>
          if so_kind ob = Directory then Inl ErrIntegrity
          else (case wrappingKeyIdentity m of (wrappingID, wrappingVersion) \<Rightarrow>
            (case kv_unwrap (sv_keys st) (md_wrapped_dek m) wrappingID wrappingVersion of Inl _ \<Rightarrow> Inl ErrIntegrity
             | Inr dek \<Rightarrow>
                 if \<not> valid_aes_key dek then Inl ErrIntegrity
                 else case p_gcm_open P dek (md_nonce m) (so_bytes ob) (canonicalAAD P m) of None \<Rightarrow> Inl ErrIntegrity
                 | Some plaintext \<Rightarrow>
                     if int (length plaintext) \<noteq> md_plaintext_size m then Inl ErrIntegrity
                     else if \<not> equal_fold P (hex_encode (p_sha256 P plaintext)) (md_plaintext_digest m) then Inl ErrIntegrity
                     else Inr \<lparr>pf_metadata = m, pf_bytes = plaintext\<rparr>))
      | _ \<Rightarrow> Inl ErrIntegrity))"

definition Open :: "platform \<Rightarrow> faults \<Rightarrow> string \<Rightarrow> string \<Rightarrow> 'r protected_service \<Rightarrow> store_error + protected_file" where
  "Open P io ownerID uploadID st =
     (case po_find_by_upload (sv_ops st) ownerID uploadID (sv_repo st) of Inl e \<Rightarrow> Inl e
      | Inr m \<Rightarrow> openMetadata P io m st)"

section \<open>The catalogue\<close>

definition catalog_unavailable :: store_error where
  "catalog_unavailable = StoreError ''protected catalog is unavailable''"

definition RegisterInitial ::
    "string + bytes \<Rightarrow> string \<Rightarrow> string \<Rightarrow> metadata \<Rightarrow> 'r protected_service
       \<Rightarrow> 'r protected_service \<times> (store_error + logical_file \<times> file_version)" where
  "RegisterInitial draw ownerID name m st =
     (case po_catalog (sv_ops st) of None \<Rightarrow> (st, Inl catalog_unavailable)
      | Some co \<Rightarrow> (case co_register co (store_opaqueID ''file'' draw) ownerID name m (sv_repo st) of
          (r', res) \<Rightarrow> (st\<lparr>sv_repo := r'\<rparr>, res)))"

definition ListFiles :: "string \<Rightarrow> 'r protected_service \<Rightarrow> store_error + logical_file list" where
  "ListFiles ownerID st =
     (case po_catalog (sv_ops st) of None \<Rightarrow> Inl catalog_unavailable
      | Some co \<Rightarrow> co_list_files co ownerID (sv_repo st))"

definition Details :: "string \<Rightarrow> string \<Rightarrow> 'r protected_service \<Rightarrow> store_error + file_details" where
  "Details ownerID fileID st =
     (case po_catalog (sv_ops st) of None \<Rightarrow> Inl catalog_unavailable
      | Some co \<Rightarrow> co_details co ownerID fileID (sv_repo st))"

definition OpenCurrent ::
    "platform \<Rightarrow> faults \<Rightarrow> string \<Rightarrow> string \<Rightarrow> 'r protected_service \<Rightarrow> store_error + protected_file" where
  "OpenCurrent P io ownerID fileID st =
     (case Details ownerID fileID st of Inl e \<Rightarrow> Inl e
      | Inr d \<Rightarrow>
     (case po_catalog (sv_ops st) of None \<Rightarrow> Inl StorePanic
      | Some co \<Rightarrow>
     (case co_find_version co ownerID fileID (lf_current_version_id (fd_file d)) (sv_repo st) of Inl e \<Rightarrow> Inl e
      | Inr m \<Rightarrow> openMetadata P io m st)))"

definition restore_operation :: "platform \<Rightarrow> string \<Rightarrow> string \<Rightarrow> string \<Rightarrow> string \<Rightarrow> string" where
  "restore_operation P ownerID fileID sourceVersionID key =
     ''restore_'' @ hex_encode (p_sha256 P (ownerID @ NUL @ fileID @ NUL @ sourceVersionID @ NUL @ key))"

definition RestoreAudited ::
    "platform \<Rightarrow> surroundings \<Rightarrow> string \<Rightarrow> string \<Rightarrow> string \<Rightarrow> string \<Rightarrow> intent \<Rightarrow> 'r protected_service
       \<Rightarrow> 'r protected_service \<times> bool \<times> (store_error + file_version)" where
  "RestoreAudited P su ownerID fileID sourceVersionID idempotencyKey i st =
     (case po_catalog (sv_ops st) of None \<Rightarrow> (st, False, Inl catalog_unavailable)
      | Some co \<Rightarrow>
     (case co_find_version co ownerID fileID sourceVersionID (sv_repo st) of Inl e \<Rightarrow> (st, False, Inl e)
      | Inr sourceMetadata \<Rightarrow>
     (case openMetadata P (su_faults su) sourceMetadata st of Inl e \<Rightarrow> (st, False, Inl e)
      | Inr source \<Rightarrow>
          (let key = trim_space idempotencyKey in
           if length key < 8 \<or> length key > 128 then (st, False, Inl (StoreError ''invalid restore idempotency key''))
           else case Protect P su
                  \<lparr>rq_upload_id = restore_operation P ownerID fileID sourceVersionID key, rq_owner_id = ownerID,
                   rq_plaintext_digest = md_plaintext_digest sourceMetadata, rq_media_type = md_media_type sourceMetadata,
                   rq_inspection_record_id = md_inspection_record_id sourceMetadata,
                   rq_plaintext_size = md_plaintext_size sourceMetadata\<rparr>
                  (Some \<lparr>rr_bytes = pf_bytes source, rr_error = None\<rparr>) st of
             (st1, Inl e) \<Rightarrow> (st1, False, Inl e)
           | (st1, Inr m) \<Rightarrow>
               (case (po_audited_catalog (sv_ops st), in_event_id i \<noteq> []) of
                  (Some ac, True) \<Rightarrow>
                    (case ac_commit_restore ac ownerID fileID sourceVersionID m i (sv_repo st1) of
                       (r', res) \<Rightarrow> (st1\<lparr>sv_repo := r'\<rparr>, True, res))
                | _ \<Rightarrow>
                    (case co_commit_restore co ownerID fileID sourceVersionID m (sv_repo st1) of
                       (r', res) \<Rightarrow> (st1\<lparr>sv_repo := r'\<rparr>, False, res)))))))"

definition Restore ::
    "platform \<Rightarrow> surroundings \<Rightarrow> string \<Rightarrow> string \<Rightarrow> string \<Rightarrow> string \<Rightarrow> 'r protected_service
       \<Rightarrow> 'r protected_service \<times> (store_error + file_version)" where
  "Restore P su ownerID fileID sourceVersionID idempotencyKey st =
     (case RestoreAudited P su ownerID fileID sourceVersionID idempotencyKey no_intent st of (st', _, res) \<Rightarrow> (st', res))"

end
