(* ===== verification/IngestManager.thy ===== *)
theory IngestManager
  imports IngestRepo ProtectedService
begin

text \<open>
  The upload manager (internal/ingest/manager.go): its state, and receiving an upload into quarantine. The
  methods release the mutex between their critical sections; each section, each write to the quarantine
  directory and each repository call is a definition here, so that \<open>IngestMachine\<close> can interleave them, and
  \<open>create\<close> composes them in the order of the code.
\<close>

section \<open>State\<close>

record lifecycle_event =
  le_owner_id :: string
  le_upload_id :: string
  le_action :: string
  le_outcome :: string
  le_reason :: string
  le_correlation_id :: string
  le_from :: status
  le_to :: status

record evidence =
  ev_name :: string
  ev_digest :: string
  ev_detected :: string
  ev_object :: string

record scan_result =
  sc_accepted :: bool
  sc_reason :: string
  sc_tool :: string
  sc_policy :: string

text \<open>
  \<open>Manager\<close>. The quarantine directory is the map of \<open>OrphanObjects\<close>; \<open>mg_delivered\<close> records the calls of
  \<open>deliverLifecycleAudit\<close>. The scanner is an argument of the steps that consult it, and
  \<open>transitionDelay\<close>, which only sleeps, is left out.
\<close>

record ('r, 'p) manager =
  mg_uploads :: "(string, persisted_record) gomap"
  mg_idempotency :: "(string, string) gomap"
  mg_quarantine :: directory
  mg_max_upload :: int64
  mg_inspection_ttl :: duration
  mg_ops :: "'r ingest_ops"
  mg_repo :: 'r
  mg_default_quota :: int64
  mg_capacity :: int64
  mg_reserve :: int64
  mg_reservation_ttl :: duration
  mg_owner_reservations :: "(string, int64) gomap"
  mg_owner_quotas :: "(string, int64) gomap"
  mg_store :: "'p protected_service option"
  mg_delivered :: "(intent \<times> bool) list"

datatype quarantine_step = MakeQuarantine | StatQuarantine string | OpenQuarantine | WriteQuarantine int64 | SyncQuarantine
  | CloseQuarantine | RemoveQuarantine | OpenPlaintext | ClosePlaintext

text \<open>
  What a step takes from outside: faults of system calls, the clock, random draws, the two audit callbacks
  (absent when not configured), \<open>http.DetectContentType\<close> of the standard library, whose table of
  signatures is not modelled, the verdict of the scanner, and the surroundings of \<open>Protect\<close>.
\<close>

record ingest_env =
  ie_faults :: "quarantine_step \<Rightarrow> string option"
  ie_now :: time
  ie_draws :: "nat \<Rightarrow> string + bytes"
  ie_prepare :: "(lifecycle_event \<Rightarrow> string + intent) option"
  ie_deliver :: bool
  ie_sniff :: "bytes \<Rightarrow> string"
  ie_scan :: "evidence \<Rightarrow> ingest_error + scan_result"
  ie_surroundings :: surroundings
  ie_file_draw :: "string + bytes"

section \<open>Small operations\<close>

definition randomID :: "string \<Rightarrow> string + bytes \<Rightarrow> ingest_error + string" where
  "randomID prefix' draw = (case draw of Inl m \<Rightarrow> Inl (IngestError m) | Inr b \<Rightarrow> Inr (prefix' @ ''_'' @ b64_encode b))"

text \<open>\<open>filepath.Base\<close> on a system whose separator is the slash.\<close>

definition base_path :: "string \<Rightarrow> string" where
  "base_path s =
     (if s = [] then ''.''
      else let trimmed = rev (dropWhile (\<lambda>c. c = CHR ''/'') (rev s));
               element = rev (takeWhile (\<lambda>c. c \<noteq> CHR ''/'') (rev trimmed))
           in if element = [] then ''/'' else element)"

definition backslash :: char where "backslash = char_of (92 :: nat)"

definition safeDisplayName :: "string \<Rightarrow> string" where
  "safeDisplayName s =
     (let v = trim_space (base_path (map (\<lambda>c. if c = backslash then CHR ''/'' else c) s))
      in if v = ''.'' \<or> v = [] \<or> length v > 255 \<or> contains_any v CRLFNUL then [] else v)"

definition recordFromPersisted :: "persisted_record \<Rightarrow> ingest_error + persisted_record" where
  "recordFromPersisted e =
     (if record_id e = [] \<or> pr_owner_id e = [] \<or> pr_object e \<noteq> record_id e @ ''.upload''
        \<or> length (pr_idempotency_hash e) \<noteq> 64 \<or> \<not> validStatus (record_status e)
      then Inl (IngestError ''invalid persisted upload metadata'') else Inr e)"

definition ownerQuotaUsageLocked :: "string \<Rightarrow> ('r, 'p) manager \<Rightarrow> int64" where
  "ownerQuotaUsageLocked ownerID m =
     sum64 (map record_bytes (filter (\<lambda>e. pr_owner_id e = ownerID \<and> countsTowardQuota (record_status e)) (mvals (mg_uploads m))))"

definition ownerQuotaLocked :: "string \<Rightarrow> ('r, 'p) manager \<Rightarrow> int64" where
  "ownerQuotaLocked ownerID m = mget (mg_default_quota m) (mg_owner_quotas m) ownerID"

definition on_repo :: "('r \<Rightarrow> 'r \<times> (ingest_error + 'a)) \<Rightarrow> ('r, 'p) manager \<Rightarrow> ('r, 'p) manager \<times> (ingest_error + 'a)" where
  "on_repo f m = (case f (mg_repo m) of (r', res) \<Rightarrow> (m\<lparr>mg_repo := r'\<rparr>, res))"

text \<open>\<open>_ = os.Remove(path)\<close> and \<open>_ = repository.ReleaseCapacity(uploadID)\<close>.\<close>

definition remove_quarantined :: "ingest_env \<Rightarrow> string \<Rightarrow> ('r, 'p) manager \<Rightarrow> ('r, 'p) manager" where
  "remove_quarantined env name m =
     (if ie_faults env RemoveQuarantine = None then m\<lparr>mg_quarantine := mdelete name (mg_quarantine m)\<rparr> else m)"

definition release_capacity :: "string \<Rightarrow> ('r, 'p) manager \<Rightarrow> ('r, 'p) manager" where
  "release_capacity uploadID m = fst (on_repo (ig_release (mg_ops m) uploadID) m)"

definition persistLifecycle ::
    "ingest_env \<Rightarrow> persisted_record \<Rightarrow> lifecycle_event \<Rightarrow> ('r, 'p) manager \<Rightarrow> ('r, 'p) manager \<times> (ingest_error + unit)" where
  "persistLifecycle env e event m =
     (case ie_prepare env of None \<Rightarrow> on_repo (ig_update (mg_ops m) e) m
      | Some prepare \<Rightarrow>
     (case prepare event of Inl msg \<Rightarrow> (m, Inl (IngestError msg))
      | Inr i \<Rightarrow>
          (let durable = (ig_audited_update (mg_ops m) \<noteq> None);
               update = (case ig_audited_update (mg_ops m) of Some audited \<Rightarrow> audited e i | None \<Rightarrow> ig_update (mg_ops m) e)
           in case on_repo update m of
                (m1, Inl err) \<Rightarrow> (m1, Inl err)
              | (m1, Inr _) \<Rightarrow> (if ie_deliver env then m1\<lparr>mg_delivered := mg_delivered m1 @ [(i, durable)]\<rparr> else m1, Inr ()))))"

text \<open>\<open>m.ownerReservations[ownerID] -= n\<close>, and the key deleted when nothing is left.\<close>

definition unreserve :: "string \<Rightarrow> int64 \<Rightarrow> (string, int64) gomap \<Rightarrow> (string, int64) gomap" where
  "unreserve ownerID n rs =
     (let left = sub64 (mget 0 rs ownerID) n in if left \<le> 0 then mdelete ownerID rs else mput ownerID left rs)"

section \<open>Receiving an upload\<close>

text \<open>
  The local variables of \<open>create\<close> after the admission: \<open>tk_remaining\<close> is the limit left in the
  \<open>LimitedReader\<close>, \<open>tk_content\<close> what the hash has been given, \<open>tk_entry\<close> the record its pointer leads to.
\<close>

record upload_task =
  tk_entry :: persisted_record
  tk_index :: string
  tk_expected :: int64
  tk_remaining :: int64
  tk_reserved :: int64
  tk_received :: int64
  tk_header :: bytes
  tk_content :: bytes

datatype admission = Refused ingest_error | Existing upload | Admitted upload_task

definition new_entry :: "string \<Rightarrow> string \<Rightarrow> string \<Rightarrow> string \<Rightarrow> string \<Rightarrow> string \<Rightarrow> time \<Rightarrow> persisted_record" where
  "new_entry uploadID correlationID ownerID hash name declared now =
     \<lparr>pr_upload = \<lparr>up_id = uploadID, up_name = name, up_bytes = 0, up_declared = declared,
        up_detected = ''application/octet-stream'', up_status = StatusQuarantined, up_progress = 5, up_reason = [],
        up_correlation_id = correlationID, up_created_at = now\<rparr>,
      pr_owner_id = ownerID, pr_object = uploadID @ ''.upload'', pr_digest = [], pr_idempotency_hash = hash\<rparr>"

definition reservation_for :: "ingest_env \<Rightarrow> persisted_record \<Rightarrow> int64 \<Rightarrow> ('r, 'p) manager \<Rightarrow> capacity_request" where
  "reservation_for env e expectedSize m =
     (let now = truncate_us (ie_now env) in
      \<lparr>cr_upload_id = record_id e, cr_owner_id = pr_owner_id e, cr_bytes = expectedSize,
       cr_owner_quota = ownerQuotaLocked (pr_owner_id e) m, cr_storage_capacity = mg_capacity m,
       cr_storage_reserve = mg_reserve m, cr_now = now, cr_expires_at = now + mg_reservation_ttl m\<rparr>)"

text \<open>The reservation for a declared size; the row is deleted again when it is refused.\<close>

definition admit_reserve ::
    "ingest_env \<Rightarrow> persisted_record \<Rightarrow> string \<Rightarrow> int64 \<Rightarrow> ('r, 'p) manager \<Rightarrow> ('r, 'p) manager \<times> admission" where
  "admit_reserve env entry index expectedSize m =
     (let uploadID = record_id entry in
      case (if expectedSize > 0 then on_repo (ig_reserve (mg_ops m) (reservation_for env entry expectedSize m)) m else (m, Inr ())) of
        (m1, Inl e) \<Rightarrow> (fst (on_repo (ig_delete (mg_ops m1) uploadID) m1), Refused e)
      | (m1, Inr _) \<Rightarrow>
          (m1\<lparr>mg_uploads := mput uploadID entry (mg_uploads m1), mg_idempotency := mput index uploadID (mg_idempotency m1)\<rparr>,
           Admitted \<lparr>tk_entry = entry, tk_index = index, tk_expected = expectedSize,
             tk_remaining = add64 (mg_max_upload m) 1, tk_reserved = 0, tk_received = 0, tk_header = [], tk_content = []\<rparr>))"

text \<open>The first critical section: a known idempotency key answers with its upload; a new one gets a row and, when the size was declared, a reservation.\<close>

definition admit_locked ::
    "ingest_env \<Rightarrow> string \<Rightarrow> string \<Rightarrow> string \<Rightarrow> string \<Rightarrow> int64 \<Rightarrow> ('r, 'p) manager \<Rightarrow> ('r, 'p) manager \<times> admission" where
  "admit_locked env ownerID hash name declared expectedSize m =
     (let index = idempotency_index ownerID hash in
      case map_of (mg_idempotency m) index of
        Some existingID \<Rightarrow> (m, Existing (pr_upload (mget zero_record (mg_uploads m) existingID)))
      | None \<Rightarrow>
     (case randomID ''upl'' (ie_draws env 0) of Inl e \<Rightarrow> (m, Refused e)
      | Inr uploadID \<Rightarrow>
     (case randomID ''corr'' (ie_draws env 1) of Inl e \<Rightarrow> (m, Refused e)
      | Inr correlationID \<Rightarrow>
          (let entry = new_entry uploadID correlationID ownerID hash name declared (ie_now env) in
           case on_repo (ig_create (mg_ops m) entry) m of
             (m1, Inl e) \<Rightarrow> (m1, Refused e)
           | (m1, Inr (stored, True)) \<Rightarrow>
               (case recordFromPersisted stored of Inl e \<Rightarrow> (m1, Refused e)
                | Inr existing \<Rightarrow> (m1\<lparr>mg_uploads := mput (record_id existing) existing (mg_uploads m1),
                    mg_idempotency := mput index (record_id existing) (mg_idempotency m1)\<rparr>, Existing (pr_upload existing)))
           | (m1, Inr (stored, False)) \<Rightarrow>
               admit_reserve env entry index expectedSize m1))))"

definition create_admit ::
    "platform \<Rightarrow> ingest_env \<Rightarrow> string \<Rightarrow> string \<Rightarrow> string \<Rightarrow> string \<Rightarrow> bool \<Rightarrow> int64 \<Rightarrow> ('r, 'p) manager
       \<Rightarrow> ('r, 'p) manager \<times> admission" where
  "create_admit P env ownerID idempotencyKey originalName declaredMediaType hasSource expectedSize m =
     (if length idempotencyKey < 8 \<or> length idempotencyKey > 128 \<or> contains_any idempotencyKey CRLFNUL
      then (m, Refused ErrInvalidKey)
      else let name = safeDisplayName originalName;
               declared = (if declaredMediaType = [] then ''application/octet-stream'' else declaredMediaType)
           in if name = [] \<or> \<not> hasSource then (m, Refused ErrInvalidFile)
              else if length declared > 255 \<or> contains_any declared CRLFNUL then (m, Refused ErrInvalidFile)
              else admit_locked env ownerID (hex_encode (p_sha256 P idempotencyKey)) name declared expectedSize m)"

definition cleanup :: "ingest_env \<Rightarrow> upload_task \<Rightarrow> ('r, 'p) manager \<Rightarrow> ('r, 'p) manager" where
  "cleanup env tk m =
     (let uploadID = record_id (tk_entry tk); ownerID = pr_owner_id (tk_entry tk);
          m1 = release_capacity uploadID (remove_quarantined env (pr_object (tk_entry tk)) m);
          m2 = fst (on_repo (ig_delete (mg_ops m1) uploadID) m1)
      in m2\<lparr>mg_owner_reservations := (if tk_reserved tk > 0 then unreserve ownerID (tk_reserved tk) (mg_owner_reservations m2)
              else mg_owner_reservations m2),
            mg_uploads := mdelete uploadID (mg_uploads m2), mg_idempotency := mdelete (tk_index tk) (mg_idempotency m2)\<rparr>)"

text \<open>\<open>O_CREATE|O_EXCL\<close>: the object must not exist yet.\<close>

definition create_open :: "ingest_env \<Rightarrow> upload_task \<Rightarrow> ('r, 'p) manager \<Rightarrow> ('r, 'p) manager \<times> ingest_error option" where
  "create_open env tk m =
     (case ie_faults env OpenQuarantine of Some msg \<Rightarrow> (m, Some (IngestError msg))
      | None \<Rightarrow> if map_of (mg_quarantine m) (pr_object (tk_entry tk)) \<noteq> None then (m, Some (IngestError ''file exists''))
          else (m\<lparr>mg_quarantine := mput (pr_object (tk_entry tk)) \<lparr>so_kind = RegularFile, so_bytes = [], so_modified = ie_now env\<rparr>
                  (mg_quarantine m)\<rparr>, None))"

text \<open>Without a declared size every block is counted against the owner's quota before it is written.\<close>

definition reserve_block :: "upload_task \<Rightarrow> int64 \<Rightarrow> ('r, 'p) manager \<Rightarrow> ('r, 'p) manager \<times> upload_task \<times> ingest_error option" where
  "reserve_block tk n m =
     (let ownerID = pr_owner_id (tk_entry tk) in
      if tk_expected tk > 0
      then (m, tk, if add64 (tk_received tk) n > tk_expected tk then Some ErrInvalidFile else None)
      else if add64 (add64 (ownerQuotaUsageLocked ownerID m) (mget 0 (mg_owner_reservations m) ownerID)) n > ownerQuotaLocked ownerID m
      then (m, tk, Some ErrQuotaExceeded)
      else (m\<lparr>mg_owner_reservations := mput ownerID (add64 (mget 0 (mg_owner_reservations m) ownerID) n) (mg_owner_reservations m)\<rparr>,
            tk\<lparr>tk_reserved := add64 (tk_reserved tk) n\<rparr>, None))"

text \<open>One block of \<open>n > 0\<close> bytes: the reservation, the limit, the first 512 bytes, the file, the hash.\<close>

definition receive_block ::
    "ingest_env \<Rightarrow> bytes \<Rightarrow> upload_task \<Rightarrow> ('r, 'p) manager \<Rightarrow> ('r, 'p) manager \<times> upload_task \<times> ingest_error option" where
  "receive_block env block tk m =
     (let n = int (length block); name = pr_object (tk_entry tk) in
      if n = 0 then (m, tk, None)
      else case reserve_block tk n m of
        (m1, tk1, Some e) \<Rightarrow> (m1, tk1, Some e)
      | (m1, tk1, None) \<Rightarrow>
          (let tk2 = tk1\<lparr>tk_received := add64 (tk_received tk1) n, tk_remaining := tk_remaining tk1 - n\<rparr> in
           if tk_received tk2 > mg_max_upload m then (m1, tk2, Some ErrTooLarge)
           else let tk3 = (if length (tk_header tk2) < 512
                    then tk2\<lparr>tk_header := tk_header tk2 @ take (512 - length (tk_header tk2)) block\<rparr> else tk2)
                in case ie_faults env (WriteQuarantine (tk_received tk1)) of Some msg \<Rightarrow> (m1, tk3, Some (IngestError msg))
                 | None \<Rightarrow> (m1\<lparr>mg_quarantine := mput name \<lparr>so_kind = RegularFile, so_bytes = tk_content tk3 @ block, so_modified = ie_now env\<rparr>
                       (mg_quarantine m1)\<rparr>, tk3\<lparr>tk_content := tk_content tk3 @ block\<rparr>, None)))"

text \<open>What one \<open>Read\<close> of the source brings, and whether the request was cancelled before it. The list ends with the end of the data.\<close>

record arrival =
  ar_cancelled :: "string option"
  ar_block :: bytes
  ar_error :: "string option"

fun receive ::
    "ingest_env \<Rightarrow> arrival list \<Rightarrow> upload_task \<Rightarrow> ('r, 'p) manager \<Rightarrow> ('r, 'p) manager \<times> upload_task \<times> ingest_error option" where
  "receive env [] tk m = (m, tk, None)"
| "receive env (a # as) tk m =
     (case ar_cancelled a of Some msg \<Rightarrow> (m, tk, Some (IngestError msg))
      | None \<Rightarrow>
     if tk_remaining tk \<le> 0 then (m, tk, None)
     else case receive_block env (take (nat (tk_remaining tk)) (ar_block a)) tk m of
        (m1, tk1, Some e) \<Rightarrow> (m1, tk1, Some e)
      | (m1, tk1, None) \<Rightarrow> (case ar_error a of Some msg \<Rightarrow> (m1, tk1, Some (IngestError msg)) | None \<Rightarrow> receive env as tk1 m1))"

text \<open>The checks on the end of the data.\<close>

definition create_check :: "ingest_env \<Rightarrow> upload_task \<Rightarrow> ingest_error option" where
  "create_check env tk =
     (if tk_received tk = 0 \<or> tk_expected tk > 0 \<and> tk_received tk \<noteq> tk_expected tk then Some ErrInvalidFile
      else case ie_faults env SyncQuarantine of Some msg \<Rightarrow> Some (IngestError msg)
      | None \<Rightarrow> map_option IngestError (ie_faults env CloseQuarantine))"

text \<open>The second critical section: the size takes the place of the reservation.\<close>

definition create_publish :: "platform \<Rightarrow> ingest_env \<Rightarrow> upload_task \<Rightarrow> ('r, 'p) manager \<Rightarrow> ('r, 'p) manager \<times> upload_task" where
  "create_publish P env tk m =
     (let uploadID = record_id (tk_entry tk); ownerID = pr_owner_id (tk_entry tk);
          e = (tk_entry tk)\<lparr>pr_upload := (pr_upload (tk_entry tk))\<lparr>up_bytes := tk_received tk,
                up_detected := ie_sniff env (tk_header tk), up_progress := 25\<rparr>,
              pr_digest := hex_encode (p_sha256 P (tk_content tk))\<rparr>
      in (m\<lparr>mg_uploads := (if map_of (mg_uploads m) uploadID = None then mg_uploads m else mput uploadID e (mg_uploads m)),
            mg_owner_reservations := unreserve ownerID (tk_reserved tk) (mg_owner_reservations m)\<rparr>,
          tk\<lparr>tk_entry := e, tk_reserved := 0\<rparr>))"

definition event_of :: "persisted_record \<Rightarrow> string \<Rightarrow> string \<Rightarrow> string \<Rightarrow> status \<Rightarrow> status \<Rightarrow> lifecycle_event" where
  "event_of e action outcome reason from' to' =
     \<lparr>le_owner_id = pr_owner_id e, le_upload_id = record_id e, le_action = action, le_outcome = outcome, le_reason = reason,
      le_correlation_id = up_correlation_id (pr_upload e), le_from = from', le_to = to'\<rparr>"

definition create_commit :: "ingest_env \<Rightarrow> upload_task \<Rightarrow> ('r, 'p) manager \<Rightarrow> ('r, 'p) manager \<times> (ingest_error + unit)" where
  "create_commit env tk m =
     persistLifecycle env (tk_entry tk)
       (event_of (tk_entry tk) ''UPLOAD_QUARANTINED'' ''success'' ''quarantine_created'' (OtherStatus []) StatusQuarantined) m"

definition create_store ::
    "platform \<Rightarrow> ingest_env \<Rightarrow> arrival list \<Rightarrow> upload_task \<Rightarrow> ('r, 'p) manager \<Rightarrow> ('r, 'p) manager \<times> (ingest_error + upload)" where
  "create_store P env source tk m =
     (case create_open env tk m of
        (m1, Some e) \<Rightarrow> (cleanup env tk m1, Inl e)
      | (m1, None) \<Rightarrow>
     (case receive env source tk m1 of
        (m2, tk2, Some e) \<Rightarrow> (cleanup env tk2 m2, Inl e)
      | (m2, tk2, None) \<Rightarrow>
     (case create_check env tk2 of Some e \<Rightarrow> (cleanup env tk2 m2, Inl e)
      | None \<Rightarrow>
     (case create_publish P env tk2 m2 of
        (m3, tk3) \<Rightarrow>
          (case create_commit env tk3 m3 of
             (m4, Inl e) \<Rightarrow> (cleanup env tk3 m4, Inl e)
           | (m4, Inr _) \<Rightarrow> (m4, Inr (pr_upload (tk_entry tk3))))))))"

text \<open>A result \<open>Inr (u, False)\<close> goes with a goroutine that inspects the upload: \<open>inspect\<close> of \<open>IngestInspection\<close>.\<close>

definition create ::
    "platform \<Rightarrow> ingest_env \<Rightarrow> string \<Rightarrow> string \<Rightarrow> string \<Rightarrow> string \<Rightarrow> arrival list option \<Rightarrow> int64 \<Rightarrow> ('r, 'p) manager
       \<Rightarrow> ('r, 'p) manager \<times> (ingest_error + upload \<times> bool)" where
  "create P env ownerID idempotencyKey originalName declaredMediaType source expectedSize m =
     (case create_admit P env ownerID idempotencyKey originalName declaredMediaType (source \<noteq> None) expectedSize m of
        (m1, Refused e) \<Rightarrow> (m1, Inl e)
      | (m1, Existing u) \<Rightarrow> (m1, Inr (u, True))
      | (m1, Admitted tk) \<Rightarrow>
          (case create_store P env (case source of None \<Rightarrow> [] | Some as \<Rightarrow> as) tk m1 of
             (m2, Inl e) \<Rightarrow> (m2, Inl e)
           | (m2, Inr u) \<Rightarrow> (m2, Inr (u, False))))"

definition Create where
  "Create P env ownerID idempotencyKey originalName declaredMediaType source m =
     create P env ownerID idempotencyKey originalName declaredMediaType source 0 m"

definition CreateSized where
  "CreateSized P env ownerID idempotencyKey originalName declaredMediaType source expectedSize m =
     (if expectedSize > mg_max_upload m then (m, Inl ErrTooLarge)
      else if expectedSize \<le> 0 then (m, Inl ErrInvalidFile)
      else create P env ownerID idempotencyKey originalName declaredMediaType source expectedSize m)"

end
