(* ===== verification/IngestInspection.thy ===== *)
theory IngestInspection
  imports IngestManager
begin

text \<open>
  What happens to an upload after its reception (\<open>inspect\<close>, \<open>protect\<close>, \<open>failProtection\<close> and
  \<open>failPersistence\<close> of manager.go): the scanner's verdict, encryption into the protected store, and the
  removal of the plaintext. A goroutine is a \<open>job\<close>, the point it has reached with the local variables
  it still needs; \<open>job_step\<close> runs it to the next point where another goroutine can come in between.
\<close>

datatype job =
    InspectBegin string
  | InspectStarted persisted_record
  | Scanning string evidence
  | Deciding string "ingest_error + scan_result"
  | InspectCompleted persisted_record
  | Publishing persisted_record
  | Settling persisted_record
  | ProtectBegin string
  | ProtectStarted persisted_record
  | Protecting persisted_record
  | ProtectFinish string
  | ProtectCompleted persisted_record
  | Discarding persisted_record
  | FailPersistence string
  | PersistenceFailed persisted_record
  | FailProtection string string
  | ProtectionFailed persisted_record
  | Finished

section \<open>Inspection\<close>

definition set_progress :: "status \<Rightarrow> int \<Rightarrow> persisted_record \<Rightarrow> persisted_record" where
  "set_progress s p e = e\<lparr>pr_upload := (pr_upload e)\<lparr>up_status := s, up_progress := p\<rparr>\<rparr>"

definition set_outcome :: "status \<Rightarrow> int \<Rightarrow> string \<Rightarrow> persisted_record \<Rightarrow> persisted_record" where
  "set_outcome s p reason e = e\<lparr>pr_upload := (pr_upload e)\<lparr>up_status := s, up_progress := p, up_reason := reason\<rparr>\<rparr>"

text \<open>A change of a tracked entry under the mutex; nothing happens when the upload is gone.\<close>

definition track :: "string \<Rightarrow> (persisted_record \<Rightarrow> persisted_record) \<Rightarrow> (persisted_record \<Rightarrow> job) \<Rightarrow> ('r, 'p) manager \<Rightarrow> ('r, 'p) manager \<times> job" where
  "track uploadID change next' m =
     (case map_of (mg_uploads m) uploadID of None \<Rightarrow> (m, Finished)
      | Some e \<Rightarrow> (m\<lparr>mg_uploads := mput uploadID (change e) (mg_uploads m)\<rparr>, next' (change e)))"

definition inspect_begin :: "string \<Rightarrow> ('r, 'p) manager \<Rightarrow> ('r, 'p) manager \<times> job" where
  "inspect_begin uploadID = track uploadID (set_progress StatusInspecting 60) InspectStarted"

definition evidence_of :: "persisted_record \<Rightarrow> evidence" where
  "evidence_of e = \<lparr>ev_name = up_name (pr_upload e), ev_digest = pr_digest e, ev_detected = up_detected (pr_upload e), ev_object = pr_object e\<rparr>"

definition persist_or_fail ::
    "ingest_env \<Rightarrow> persisted_record \<Rightarrow> lifecycle_event \<Rightarrow> job \<Rightarrow> ('r, 'p) manager \<Rightarrow> ('r, 'p) manager \<times> job" where
  "persist_or_fail env e event next' m =
     (case persistLifecycle env e event m of (m1, Inl _) \<Rightarrow> (m1, FailPersistence (record_id e)) | (m1, Inr _) \<Rightarrow> (m1, next'))"

definition inspect_started :: "ingest_env \<Rightarrow> persisted_record \<Rightarrow> ('r, 'p) manager \<Rightarrow> ('r, 'p) manager \<times> job" where
  "inspect_started env e = persist_or_fail env e
     (event_of e ''FILE_INSPECTION_STARTED'' ''success'' ''content_policy_evaluation'' StatusQuarantined StatusInspecting)
     (Scanning (record_id e) (evidence_of e))"

text \<open>The terminal state is computed but not yet published to readers.\<close>

definition verdict :: "bool \<Rightarrow> ingest_error + scan_result \<Rightarrow> persisted_record \<Rightarrow> persisted_record" where
  "verdict connected result e =
     (case result of Inl _ \<Rightarrow> set_outcome StatusFailed 100 ''inspection_unavailable'' e
      | Inr r \<Rightarrow> if \<not> sc_accepted r then set_outcome StatusRejected 100 (sc_reason r) e
          else set_outcome StatusAccepted (if connected then 75 else 100) ''policy_accepted'' e)"

definition inspect_decide :: "string \<Rightarrow> ingest_error + scan_result \<Rightarrow> ('r, 'p) manager \<Rightarrow> ('r, 'p) manager \<times> job" where
  "inspect_decide uploadID result m =
     (case map_of (mg_uploads m) uploadID of None \<Rightarrow> (m, Finished)
      | Some e \<Rightarrow> (m, InspectCompleted (verdict (mg_store m \<noteq> None) result e)))"

definition inspection_outcome :: "status \<Rightarrow> string" where
  "inspection_outcome s = (if s = StatusFailed then ''failed'' else if s = StatusRejected then ''denied'' else ''success'')"

definition inspect_completed :: "ingest_env \<Rightarrow> persisted_record \<Rightarrow> ('r, 'p) manager \<Rightarrow> ('r, 'p) manager \<times> job" where
  "inspect_completed env e = persist_or_fail env e
     (event_of e ''FILE_INSPECTION_COMPLETED'' (inspection_outcome (record_status e)) (up_reason (pr_upload e)) StatusInspecting (record_status e))
     (Publishing e)"

definition inspect_publish :: "persisted_record \<Rightarrow> ('r, 'p) manager \<Rightarrow> ('r, 'p) manager \<times> job" where
  "inspect_publish terminal = track (record_id terminal) (\<lambda>e. e\<lparr>pr_upload := pr_upload terminal\<rparr>) (\<lambda>e. Settling terminal)"

text \<open>The plaintext is removed and its reservation released.\<close>

definition discard :: "ingest_env \<Rightarrow> persisted_record \<Rightarrow> ('r, 'p) manager \<Rightarrow> ('r, 'p) manager \<times> job" where
  "discard env e m = (release_capacity (record_id e) (remove_quarantined env (pr_object e) m), Finished)"

definition inspect_settle :: "ingest_env \<Rightarrow> persisted_record \<Rightarrow> ('r, 'p) manager \<Rightarrow> ('r, 'p) manager \<times> job" where
  "inspect_settle env terminal m =
     (let s = record_status terminal in
      if s = StatusRejected \<or> s = StatusFailed then discard env terminal m
      else if s = StatusAccepted \<and> mg_store m \<noteq> None then (m, ProtectBegin (record_id terminal))
      else if s = StatusAccepted then (release_capacity (record_id terminal) m, Finished)
      else (m, Finished))"

section \<open>Protection\<close>

definition protect_begin :: "string \<Rightarrow> ('r, 'p) manager \<Rightarrow> ('r, 'p) manager \<times> job" where
  "protect_begin uploadID m =
     (case map_of (mg_uploads m) uploadID of None \<Rightarrow> (m, Finished)
      | Some e \<Rightarrow>
          if record_status e \<noteq> StatusAccepted \<and> record_status e \<noteq> StatusEncrypting then (m, Finished)
          else track uploadID (set_outcome StatusEncrypting 85 ''protection_in_progress'') ProtectStarted m)"

definition protect_started :: "ingest_env \<Rightarrow> persisted_record \<Rightarrow> ('r, 'p) manager \<Rightarrow> ('r, 'p) manager \<times> job" where
  "protect_started env e = persist_or_fail env e
     (event_of e ''FILE_PROTECTION_STARTED'' ''success'' ''policy_accepted'' StatusAccepted StatusEncrypting) (Protecting e)"

definition request_of :: "persisted_record \<Rightarrow> protect_request" where
  "request_of e = \<lparr>rq_upload_id = record_id e, rq_owner_id = pr_owner_id e, rq_plaintext_digest = pr_digest e,
     rq_media_type = up_detected (pr_upload e), rq_inspection_record_id = record_id e, rq_plaintext_size = record_bytes e\<rparr>"

text \<open>\<open>os.Open\<close> succeeds on a directory too; reading it then fails. A nil protected store would panic; \<open>protect\<close> is only started with one.\<close>

definition quarantine_reader :: "stored_object \<Rightarrow> reader" where
  "quarantine_reader ob = (if so_kind ob = Directory then \<lparr>rr_bytes = [], rr_error = Some ''is a directory''\<rparr>
     else \<lparr>rr_bytes = so_bytes ob, rr_error = None\<rparr>)"

definition protect_write :: "platform \<Rightarrow> ingest_env \<Rightarrow> persisted_record \<Rightarrow> ('r, 'p) manager \<Rightarrow> ('r, 'p) manager \<times> job" where
  "protect_write P env e m =
     (let uploadID = record_id e in
      case (ie_faults env OpenPlaintext, map_of (mg_quarantine m) (pr_object e), mg_store m) of
        (None, Some ob, Some st) \<Rightarrow>
          (case Protect P (ie_surroundings env) (request_of e) (Some (quarantine_reader ob)) st of
             (st1, Inl _) \<Rightarrow> (m\<lparr>mg_store := Some st1\<rparr>, FailProtection uploadID ''protection_unavailable'')
           | (st1, Inr md) \<Rightarrow>
               if ie_faults env ClosePlaintext \<noteq> None
               then (m\<lparr>mg_store := Some st1\<rparr>, FailProtection uploadID ''protection_unavailable'')
               else (case RegisterInitial (ie_file_draw env) (pr_owner_id e) (up_name (pr_upload e)) md st1 of
                   (st2, Inl _) \<Rightarrow> (m\<lparr>mg_store := Some st2\<rparr>, FailProtection uploadID ''version_catalog_unavailable'')
                 | (st2, Inr _) \<Rightarrow> (m\<lparr>mg_store := Some st2\<rparr>, ProtectFinish uploadID)))
      | _ \<Rightarrow> (m, FailProtection uploadID ''quarantine_object_missing''))"

definition protect_finish :: "string \<Rightarrow> ('r, 'p) manager \<Rightarrow> ('r, 'p) manager \<times> job" where
  "protect_finish uploadID = track uploadID (set_outcome StatusStored 100 ''protected_storage_committed'') ProtectCompleted"

definition protect_completed :: "ingest_env \<Rightarrow> persisted_record \<Rightarrow> ('r, 'p) manager \<Rightarrow> ('r, 'p) manager \<times> job" where
  "protect_completed env e = persist_or_fail env e
     (event_of e ''FILE_PROTECTED'' ''success'' ''protected_storage_committed'' StatusEncrypting StatusStored) (Discarding e)"

section \<open>Failures\<close>

definition fail_protection :: "string \<Rightarrow> string \<Rightarrow> ('r, 'p) manager \<Rightarrow> ('r, 'p) manager \<times> job" where
  "fail_protection uploadID reason = track uploadID (set_outcome StatusFailed 100 reason) ProtectionFailed"

definition protection_failed :: "ingest_env \<Rightarrow> persisted_record \<Rightarrow> ('r, 'p) manager \<Rightarrow> ('r, 'p) manager \<times> job" where
  "protection_failed env e m =
     (fst (persistLifecycle env e
         (event_of e ''FILE_PROTECTION_FAILED'' ''failed'' (up_reason (pr_upload e)) StatusEncrypting StatusFailed) m), Discarding e)"

definition fail_persistence :: "string \<Rightarrow> ('r, 'p) manager \<Rightarrow> ('r, 'p) manager \<times> job" where
  "fail_persistence uploadID = track uploadID (set_outcome StatusFailed 100 ''metadata_persistence_unavailable'') PersistenceFailed"

definition persistence_failed :: "persisted_record \<Rightarrow> ('r, 'p) manager \<Rightarrow> ('r, 'p) manager \<times> job" where
  "persistence_failed e m = (fst (on_repo (ig_update (mg_ops m) e) m), Discarding e)"

section \<open>Running a job\<close>

fun job_step :: "platform \<Rightarrow> ingest_env \<Rightarrow> job \<Rightarrow> ('r, 'p) manager \<Rightarrow> ('r, 'p) manager \<times> job" where
  "job_step P env (InspectBegin uploadID) m = inspect_begin uploadID m"
| "job_step P env (InspectStarted e) m = inspect_started env e m"
| "job_step P env (Scanning uploadID evidence) m = (m, Deciding uploadID (ie_scan env evidence))"
| "job_step P env (Deciding uploadID result) m = inspect_decide uploadID result m"
| "job_step P env (InspectCompleted e) m = inspect_completed env e m"
| "job_step P env (Publishing e) m = inspect_publish e m"
| "job_step P env (Settling e) m = inspect_settle env e m"
| "job_step P env (Discarding e) m = discard env e m"
| "job_step P env (ProtectBegin uploadID) m = protect_begin uploadID m"
| "job_step P env (ProtectStarted e) m = protect_started env e m"
| "job_step P env (Protecting e) m = protect_write P env e m"
| "job_step P env (ProtectFinish uploadID) m = protect_finish uploadID m"
| "job_step P env (ProtectCompleted e) m = protect_completed env e m"
| "job_step P env (FailProtection uploadID reason) m = fail_protection uploadID reason m"
| "job_step P env (ProtectionFailed e) m = protection_failed env e m"
| "job_step P env (FailPersistence uploadID) m = fail_persistence uploadID m"
| "job_step P env (PersistenceFailed e) m = persistence_failed e m"
| "job_step P env Finished m = (m, Finished)"

text \<open>How far a job still has to go.\<close>

fun job_rank :: "job \<Rightarrow> nat" where
  "job_rank (InspectBegin _) = 16"
| "job_rank (InspectStarted _) = 15"
| "job_rank (Scanning _ _) = 14"
| "job_rank (Deciding _ _) = 13"
| "job_rank (InspectCompleted _) = 12"
| "job_rank (Publishing _) = 11"
| "job_rank (Settling _) = 10"
| "job_rank (ProtectBegin _) = 9"
| "job_rank (ProtectStarted _) = 8"
| "job_rank (Protecting _) = 7"
| "job_rank (ProtectFinish _) = 6"
| "job_rank (ProtectCompleted _) = 5"
| "job_rank (FailProtection _ _) = 3"
| "job_rank (ProtectionFailed _) = 2"
| "job_rank (FailPersistence _) = 3"
| "job_rank (PersistenceFailed _) = 2"
| "job_rank (Discarding _) = 1"
| "job_rank Finished = 0"

lemma job_rank_0 [simp]: "job_rank j = 0 \<longleftrightarrow> j = Finished"
  by (cases j) auto

lemmas job_step_defs = inspect_begin_def inspect_started_def inspect_decide_def inspect_completed_def inspect_publish_def inspect_settle_def discard_def
  protect_begin_def protect_started_def protect_write_def protect_finish_def protect_completed_def fail_protection_def
  protection_failed_def fail_persistence_def persistence_failed_def persist_or_fail_def track_def

lemma job_step_rank: "j \<noteq> Finished \<Longrightarrow> job_rank (snd (job_step P env j m)) < job_rank j"
  by (cases j) (auto simp: job_step_defs Let_def split: option.split sum.split prod.split)

text \<open>A whole goroutine, undisturbed: \<open>inspect\<close> and \<open>protect\<close>.\<close>

function run_job :: "platform \<Rightarrow> ingest_env \<Rightarrow> job \<Rightarrow> ('r, 'p) manager \<Rightarrow> ('r, 'p) manager" where
  "run_job P env j m = (if j = Finished then m else let (m', j') = job_step P env j m in run_job P env j' m')"
  by pat_completeness auto
termination
  by (relation "measure (\<lambda>(P, env, j, m). job_rank j)") (simp_all, metis job_step_rank snd_conv)

declare run_job.simps [simp del]

definition inspect :: "platform \<Rightarrow> ingest_env \<Rightarrow> string \<Rightarrow> ('r, 'p) manager \<Rightarrow> ('r, 'p) manager" where
  "inspect P env uploadID = run_job P env (InspectBegin uploadID)"

definition protect :: "platform \<Rightarrow> ingest_env \<Rightarrow> string \<Rightarrow> ('r, 'p) manager \<Rightarrow> ('r, 'p) manager" where
  "protect P env uploadID = run_job P env (ProtectBegin uploadID)"

definition failProtection :: "platform \<Rightarrow> ingest_env \<Rightarrow> string \<Rightarrow> string \<Rightarrow> ('r, 'p) manager \<Rightarrow> ('r, 'p) manager" where
  "failProtection P env uploadID reason = run_job P env (FailProtection uploadID reason)"

definition failPersistence :: "platform \<Rightarrow> ingest_env \<Rightarrow> string \<Rightarrow> ('r, 'p) manager \<Rightarrow> ('r, 'p) manager" where
  "failPersistence P env uploadID = run_job P env (FailPersistence uploadID)"

section \<open>The development scanner\<close>

text \<open>\<open>DeterministicScanner.Inspect\<close>: \<open>interrupted\<close> says that the context ended during the delay.\<close>

definition deterministic_Inspect :: "platform \<Rightarrow> duration \<Rightarrow> bool \<Rightarrow> evidence \<Rightarrow> ingest_error + scan_result" where
  "deterministic_Inspect P delay interrupted ev =
     (if delay > 0 \<and> interrupted then Inl ErrScannerFailure
      else let name = to_lower P (ev_name ev) in
        if contains_str name ''timeout'' \<or> contains_str name ''scanner-error'' then Inl ErrScannerFailure
        else if contains_str name ''blocked'' \<or> contains_str name ''rejected'' \<or> suffix ''.exe'' name
        then Inr \<lparr>sc_accepted = False, sc_reason = ''disallowed_content'', sc_tool = ''deterministic-test-scanner'', sc_policy = ''v1.4-demo''\<rparr>
        else Inr \<lparr>sc_accepted = True, sc_reason = ''policy_accepted'', sc_tool = ''deterministic-test-scanner'', sc_policy = ''v1.4-demo''\<rparr>)"

end
