(* ===== verification/IngestAdmin.thy ===== *)
theory IngestAdmin
  imports IngestInspection
begin

text \<open>
  The rest of the upload manager: start-up over persisted records, quotas, what owners and operators read,
  and the reconciliation of quarantine objects nobody tracks (manager.go).
\<close>

section \<open>Start-up\<close>

record ('r, 'p) ingest_config =
  ic_quarantine_dir :: string
  ic_max_upload :: int64
  ic_inspection_ttl :: duration
  ic_has_scanner :: bool
  ic_repository :: "'r ingest_ops \<times> 'r"
  ic_default_quota :: int64
  ic_capacity :: int64
  ic_reserve :: int64
  ic_reservation_ttl :: duration
  ic_store :: "'p protected_service option"

text \<open>The defaults, and the checks; \<open>StorageCapacityBytes / 10\<close> is of a positive number.\<close>

definition checked_config :: "('r, 'p) ingest_config \<Rightarrow> ingest_error + ('r, 'p) ingest_config" where
  "checked_config c =
     (if ic_quarantine_dir c = [] \<or> ic_max_upload c \<le> 0 \<or> \<not> ic_has_scanner c
      then Inl (IngestError ''invalid ingest configuration'')
      else
        (let c = c\<lparr>ic_inspection_ttl := (if ic_inspection_ttl c \<le> 0 then 5 * second else ic_inspection_ttl c),
               ic_default_quota := (if ic_default_quota c \<le> 0 then 1024 * 1024 * 1024 else ic_default_quota c),
               ic_capacity := (if ic_capacity c \<le> 0 then 50 * 1024 * 1024 * 1024 else ic_capacity c)\<rparr>
         in if ic_reserve c < 0 \<or> ic_reserve c \<ge> ic_capacity c then Inl (IngestError ''invalid storage capacity reserve'')
            else Inr (c\<lparr>ic_reserve := (if ic_reserve c = 0 then ic_capacity c div 10 else ic_reserve c),
                ic_reservation_ttl := (if ic_reservation_ttl c \<le> 0 then hour else ic_reservation_ttl c)\<rparr>)))"

definition fresh_manager :: "directory \<Rightarrow> (string, int64) gomap \<Rightarrow> ('r, 'p) ingest_config \<Rightarrow> ('r, 'p) manager" where
  "fresh_manager quarantine quotas c =
     \<lparr>mg_uploads = [], mg_idempotency = [], mg_quarantine = quarantine, mg_max_upload = ic_max_upload c,
      mg_inspection_ttl = ic_inspection_ttl c, mg_ops = fst (ic_repository c), mg_repo = snd (ic_repository c),
      mg_default_quota = ic_default_quota c, mg_capacity = ic_capacity c, mg_reserve = ic_reserve c,
      mg_reservation_ttl = ic_reservation_ttl c, mg_owner_reservations = [], mg_owner_quotas = quotas,
      mg_store = ic_store c, mg_delivered = []\<rparr>"

definition recovery_failed :: "persisted_record \<Rightarrow> string \<Rightarrow> persisted_record \<times> lifecycle_event" where
  "recovery_failed e reason =
     (let failed = set_outcome StatusFailed 100 reason e
      in (failed, event_of failed ''UPLOAD_RECOVERY_FAILED'' ''failed'' reason (record_status e) StatusFailed))"

definition resumable :: "bool \<Rightarrow> status \<Rightarrow> bool" where
  "resumable connected s \<longleftrightarrow> s = StatusQuarantined \<or> s = StatusInspecting
     \<or> (s = StatusAccepted \<or> s = StatusEncrypting) \<and> connected"

text \<open>One persisted record: tracked as it is, failed when its reception was cut off or its object is gone, or resumed.\<close>

definition recover_one ::
    "ingest_env \<Rightarrow> persisted_record \<Rightarrow> ('r, 'p) manager \<Rightarrow> ('r, 'p) manager \<times> (ingest_error + string list)" where
  "recover_one env stored m =
     (case recordFromPersisted stored of Inl err \<Rightarrow> (m, Inl err)
      | Inr e \<Rightarrow>
          (let uploadID = record_id e; s = record_status e;
               m1 = m\<lparr>mg_uploads := mput uploadID e (mg_uploads m),
                    mg_idempotency := mput (idempotency_index (pr_owner_id e) (pr_idempotency_hash e)) uploadID (mg_idempotency m)\<rparr>;
               failed = (\<lambda>reason. case recovery_failed e reason of (e', event) \<Rightarrow>
                 (case persistLifecycle env e' event m1 of
                    (m2, Inl err) \<Rightarrow> (m2, Inl err)
                  | (m2, Inr _) \<Rightarrow> (m2\<lparr>mg_uploads := mput uploadID e' (mg_uploads m2)\<rparr>, Inr [])))
           in if s = StatusQuarantined \<and> record_bytes e = 0
              then (case failed ''upload_reception_incomplete'' of
                      (m2, Inl err) \<Rightarrow> (m2, Inl err)
                    | (m2, Inr ids) \<Rightarrow> (release_capacity uploadID (remove_quarantined env (pr_object e) m2), Inr ids))
              else if pending s
              then (case ie_faults env (StatQuarantine (pr_object e)) of Some msg \<Rightarrow> (m1, Inl (IngestError msg))
                    | None \<Rightarrow>
                        if map_of (mg_quarantine m1) (pr_object e) = None then failed ''quarantine_object_missing''
                        else (m1, Inr (if resumable (mg_store m1 \<noteq> None) s then [uploadID] else [])))
              else (m1, Inr [])))"

fun recover_all ::
    "ingest_env \<Rightarrow> persisted_record list \<Rightarrow> ('r, 'p) manager \<Rightarrow> ('r, 'p) manager \<times> (ingest_error + string list)" where
  "recover_all env [] m = (m, Inr [])"
| "recover_all env (e # es) m =
     (case recover_one env e m of
        (m1, Inl err) \<Rightarrow> (m1, Inl err)
      | (m1, Inr ids) \<Rightarrow> (case recover_all env es m1 of (m2, Inl err) \<Rightarrow> (m2, Inl err) | (m2, Inr ids') \<Rightarrow> (m2, Inr (ids @ ids'))))"

definition resumed_job :: "('r, 'p) manager \<Rightarrow> string \<Rightarrow> job" where
  "resumed_job m uploadID =
     (let s = record_status (mget zero_record (mg_uploads m) uploadID)
      in if s = StatusQuarantined \<or> s = StatusInspecting then InspectBegin uploadID else ProtectBegin uploadID)"

text \<open>
  The manager and the goroutines it starts. After an error the manager is dropped; what was already written
  to the repository and the directory stays, so the state is part of both results.
\<close>

definition NewManager ::
    "ingest_env \<Rightarrow> directory \<Rightarrow> ('r, 'p) ingest_config \<Rightarrow> ('r, 'p) manager option \<times> (ingest_error + job list)" where
  "NewManager env quarantine config =
     (case checked_config config of Inl e \<Rightarrow> (None, Inl e)
      | Inr c \<Rightarrow>
     (case ie_faults env MakeQuarantine of Some msg \<Rightarrow> (None, Inl (IngestError msg))
      | None \<Rightarrow>
     (case ic_repository c of (ops, repo) \<Rightarrow>
     (case (ig_load_all ops repo, ig_load_quotas ops repo) of
        (Inl e, _) \<Rightarrow> (None, Inl e)
      | (_, Inl e) \<Rightarrow> (None, Inl e)
      | (Inr persisted, Inr quotas) \<Rightarrow>
          (case recover_all env persisted (fresh_manager quarantine quotas c) of
             (m, Inl e) \<Rightarrow> (Some m, Inl e)
           | (m, Inr ids) \<Rightarrow> (Some m, Inr (map (resumed_job m) ids)))))))"

section \<open>Quotas\<close>

definition SetOwnerQuotaAudited ::
    "string \<Rightarrow> int64 \<Rightarrow> intent \<Rightarrow> ('r, 'p) manager \<Rightarrow> ('r, 'p) manager \<times> (ingest_error + bool)" where
  "SetOwnerQuotaAudited rawOwnerID quotaBytes i m =
     (let ownerID = trim_space rawOwnerID in
      if ownerID = [] \<or> quotaBytes < 1024 * 1024 \<or> quotaBytes > 10 * 1024 * 1024 * 1024 * 1024 then (m, Inl ErrInvalidQuery)
      else let (durable, update) = (case ig_audited_quota (mg_ops m) of
               Some audited \<Rightarrow> if in_event_id i \<noteq> [] then (True, aq_set audited ownerID quotaBytes i)
                 else (False, ig_set_quota (mg_ops m) ownerID quotaBytes)
             | None \<Rightarrow> (False, ig_set_quota (mg_ops m) ownerID quotaBytes))
           in case on_repo update m of
                (m1, Inl e) \<Rightarrow> (m1, Inl e)
              | (m1, Inr _) \<Rightarrow> (m1\<lparr>mg_owner_quotas := mput ownerID quotaBytes (mg_owner_quotas m1)\<rparr>, Inr durable))"

definition SetOwnerQuota :: "string \<Rightarrow> int64 \<Rightarrow> ('r, 'p) manager \<Rightarrow> ('r, 'p) manager \<times> (ingest_error + unit)" where
  "SetOwnerQuota ownerID quotaBytes m =
     (case SetOwnerQuotaAudited ownerID quotaBytes no_intent m of (m1, Inl e) \<Rightarrow> (m1, Inl e) | (m1, Inr _) \<Rightarrow> (m1, Inr ()))"

definition ResetOwnerQuotaAudited :: "string \<Rightarrow> intent \<Rightarrow> ('r, 'p) manager \<Rightarrow> ('r, 'p) manager \<times> (ingest_error + bool)" where
  "ResetOwnerQuotaAudited rawOwnerID i m =
     (let ownerID = trim_space rawOwnerID in
      if ownerID = [] then (m, Inl ErrInvalidQuery)
      else let (durable, update) = (case ig_audited_quota (mg_ops m) of
               Some audited \<Rightarrow> if in_event_id i \<noteq> [] then (True, aq_delete audited ownerID i)
                 else (False, ig_delete_quota (mg_ops m) ownerID)
             | None \<Rightarrow> (False, ig_delete_quota (mg_ops m) ownerID))
           in case on_repo update m of
                (m1, Inl e) \<Rightarrow> (m1, Inl e)
              | (m1, Inr _) \<Rightarrow> (m1\<lparr>mg_owner_quotas := mdelete ownerID (mg_owner_quotas m1)\<rparr>, Inr durable))"

section \<open>Reading\<close>

definition Get :: "string \<Rightarrow> string \<Rightarrow> ('r, 'p) manager \<Rightarrow> ingest_error + upload" where
  "Get ownerID uploadID m =
     (case map_of (mg_uploads m) uploadID of None \<Rightarrow> Inl ErrUploadNotFound
      | Some e \<Rightarrow> if pr_owner_id e \<noteq> ownerID then Inl ErrUploadNotFound else Inr (pr_upload e))"

text \<open>Newest first, by identifier where the times are equal.\<close>

definition ListOwnerUploads :: "string \<Rightarrow> ('r, 'p) manager \<Rightarrow> upload list" where
  "ListOwnerUploads ownerID m =
     sort_key (\<lambda>u. (- up_created_at u, up_id u)) (map pr_upload (filter (\<lambda>e. pr_owner_id e = ownerID) (mvals (mg_uploads m))))"

record owner_usage =
  ou_owner_id :: string
  ou_uploads :: int
  ou_bytes :: int64
  ou_quota :: int64

text \<open>\<open>AdminResource\<close> is the upload with its owner and without the progress; no locator, digest or key.\<close>

record admin_resource =
  ar_upload :: upload
  ar_owner_id :: string

text \<open>\<open>ProtectedCapacity\<close>, which the API fills in from the protected store, is left out.\<close>

record admin_summary =
  as_tracked_uploads :: int
  as_tracked_bytes :: int64
  as_quarantine_bytes :: int64
  as_orphaned_objects :: int
  as_orphaned_bytes :: int64
  as_pending :: int
  as_bytes_day :: int64
  as_bytes_week :: int64
  as_owner_usage :: "owner_usage list"
  as_default_quota :: int64
  as_quota_alerts :: int
  as_quota_overrides :: "(string \<times> int64) list"
  as_status_counts :: "(status, int) gomap"
  as_durable :: bool
  as_connected :: bool
  as_capacity :: int64
  as_reserve :: int64
  as_reserved :: int64
  as_reservations :: int

record admin_page =
  ap_resources :: "admin_resource list"
  ap_summary :: admin_summary
  ap_total :: int
  ap_limit :: int
  ap_offset :: int

definition usage_of :: "('r, 'p) manager \<Rightarrow> owner_usage list" where
  "usage_of m =
     (let counted = filter (\<lambda>e. countsTowardQuota (record_status e)) (mvals (mg_uploads m))
      in map (\<lambda>owner. let es = filter (\<lambda>e. pr_owner_id e = owner) counted
            in \<lparr>ou_owner_id = owner, ou_uploads = int (length es), ou_bytes = sum64 (map record_bytes es),
                ou_quota = ownerQuotaLocked owner m\<rparr>) (remdups (map pr_owner_id counted)))"

text \<open>Division of Go's integers truncates.\<close>

definition quo :: "int \<Rightarrow> int \<Rightarrow> int" where
  "quo a b = (if a < 0 then - ((- a) div b) else a div b)"

definition quota_alert :: "owner_usage \<Rightarrow> bool" where
  "quota_alert u \<longleftrightarrow> ou_bytes u \<ge> sub64 (ou_quota u) (quo (ou_quota u) 5)"

definition uploaded_within :: "time \<Rightarrow> duration \<Rightarrow> persisted_record list \<Rightarrow> int64" where
  "uploaded_within now period es =
     sum64 (map record_bytes (filter (\<lambda>e. let age = time_sub now (up_created_at (pr_upload e)) in 0 \<le> age \<and> age \<le> period) es))"

definition status_counts :: "persisted_record list \<Rightarrow> (status, int) gomap" where
  "status_counts es = map (\<lambda>s. (s, int (length (filter (\<lambda>e. record_status e = s) es)))) (remdups (map record_status es))"

definition matches_search :: "platform \<Rightarrow> string \<Rightarrow> persisted_record \<Rightarrow> bool" where
  "matches_search P search e \<longleftrightarrow> search = [] \<or> contains_str (to_lower P (up_name (pr_upload e))) search
     \<or> contains_str (to_lower P (pr_owner_id e)) search \<or> contains_str (to_lower P (status_string (record_status e))) search"

definition runtime_summary :: "time \<Rightarrow> ('r, 'p) manager \<Rightarrow> admin_summary" where
  "runtime_summary now m =
     (let es = mvals (mg_uploads m); usage = usage_of m in
      \<lparr>as_tracked_uploads = int (length es), as_tracked_bytes = sum64 (map record_bytes es), as_quarantine_bytes = 0,
       as_orphaned_objects = 0, as_orphaned_bytes = 0, as_pending = int (length (filter (\<lambda>e. pending (record_status e)) es)),
       as_bytes_day = uploaded_within now (24 * hour) es, as_bytes_week = uploaded_within now (7 * 24 * hour) es,
       as_owner_usage = take 10 (sort_key (\<lambda>u. (- ou_bytes u, ou_owner_id u)) usage),
       as_default_quota = mg_default_quota m, as_quota_alerts = int (length (filter quota_alert usage)),
       as_quota_overrides = sort_key fst (mg_owner_quotas m), as_status_counts = status_counts es,
       as_durable = ig_durable (mg_ops m), as_connected = (mg_store m \<noteq> None), as_capacity = mg_capacity m,
       as_reserve = mg_reserve m, as_reserved = 0, as_reservations = 0\<rparr>)"

text \<open>What the directory holds: the faults are those of \<open>os.ReadDir\<close> and \<open>entry.Info\<close>.\<close>

definition measure_quarantine :: "faults \<Rightarrow> ('r, 'p) manager \<Rightarrow> admin_summary \<Rightarrow> ingest_error + admin_summary" where
  "measure_quarantine io m s =
     (case io ReadDirectory of Some msg \<Rightarrow> Inl (IngestError msg)
      | None \<Rightarrow>
          (let present = filter (\<lambda>(name, ob). so_kind ob \<noteq> Directory) (mg_quarantine m);
               orphans = filter (\<lambda>(name, ob). name \<notin> pr_object ` set (mvals (mg_uploads m))) present;
               bytes = (\<lambda>obs. sum64 (map (object_size \<circ> snd) obs))
           in case find (\<lambda>(name, ob). io (EntryInfo name) \<noteq> None) present of
                Some (name, _) \<Rightarrow> Inl (IngestError (case io (EntryInfo name) of None \<Rightarrow> [] | Some msg \<Rightarrow> msg))
              | None \<Rightarrow> Inr (s\<lparr>as_quarantine_bytes := bytes present, as_orphaned_objects := int (length orphans),
                  as_orphaned_bytes := bytes orphans\<rparr>)))"

definition ListAdminResources ::
    "platform \<Rightarrow> faults \<Rightarrow> time \<Rightarrow> string \<Rightarrow> int \<Rightarrow> int \<Rightarrow> ('r, 'p) manager \<Rightarrow> ('r, 'p) manager \<times> (ingest_error + admin_page)" where
  "ListAdminResources P io now search0 limit0 offset0 m =
     (let search = to_lower P (trim_space search0) in
      if length search > 120 then (m, Inl ErrInvalidQuery)
      else let limit = (if limit0 < 1 \<or> limit0 > 100 then 50 else limit0);
               offset = (if offset0 < 0 then 0 else offset0);
               resources = map (\<lambda>e. \<lparr>ar_upload = pr_upload e, ar_owner_id = pr_owner_id e\<rparr>) (filter (matches_search P search) (mvals (mg_uploads m)))
           in case on_repo (ig_summary (mg_ops m) now) m of
                (m1, Inl e) \<Rightarrow> (m1, Inl e)
              | (m1, Inr rs) \<Rightarrow>
                  (case measure_quarantine io m ((runtime_summary now m)\<lparr>as_reservations := rs_active rs, as_reserved := rs_bytes rs\<rparr>) of
                     Inl e \<Rightarrow> (m1, Inl e)
                   | Inr summary \<Rightarrow>
                       (m1, Inr \<lparr>ap_resources = page_of offset limit
                               (sort_key (\<lambda>r. (- up_created_at (ar_upload r), up_id (ar_upload r))) resources),
                            ap_summary = summary, ap_total = int (length resources), ap_limit = limit, ap_offset = offset\<rparr>)))"

record lifecycle_posture =
  lp_summary :: admin_summary
  lp_stuck :: int
  lp_oldest_pending :: "time option"
  lp_recent :: "admin_resource list"

definition LifecyclePosture ::
    "platform \<Rightarrow> faults \<Rightarrow> time \<Rightarrow> ('r, 'p) manager \<Rightarrow> ('r, 'p) manager \<times> (ingest_error + lifecycle_posture)" where
  "LifecyclePosture P io now m =
     (case ListAdminResources P io now [] 8 0 m of
        (m1, Inl e) \<Rightarrow> (m1, Inl e)
      | (m1, Inr page) \<Rightarrow>
          (let created = map (up_created_at \<circ> pr_upload) (filter (\<lambda>e. pending (record_status e)) (mvals (mg_uploads m1)));
               cutoff = now - 2 * mg_inspection_ttl m
           in (m1, Inr \<lparr>lp_summary = ap_summary page, lp_stuck = int (length (filter (\<lambda>t. t < cutoff) created)),
                lp_oldest_pending = (case created of [] \<Rightarrow> None | t # ts \<Rightarrow> Some (foldl min t ts)),
                lp_recent = ap_resources page\<rparr>)))"

section \<open>Untracked quarantine objects\<close>

definition tracked_objects :: "('r, 'p) manager \<Rightarrow> string list" where
  "tracked_objects m = map pr_object (mvals (mg_uploads m))"

definition quarantine_OrphanCandidates ::
    "platform \<Rightarrow> faults \<Rightarrow> duration \<Rightarrow> time \<Rightarrow> ('r, 'p) manager \<Rightarrow> orphan_error + candidate list" where
  "quarantine_OrphanCandidates P io minimumAge now m =
     orphan_List P io (mg_quarantine m) ''quarantine'' (tracked_objects m) minimumAge now"

definition quarantine_DeleteOrphan ::
    "platform \<Rightarrow> faults \<Rightarrow> string \<Rightarrow> duration \<Rightarrow> time \<Rightarrow> ('r, 'p) manager
       \<Rightarrow> ('r, 'p) manager \<times> ((ingest_error + orphan_error) + candidate)" where
  "quarantine_DeleteOrphan P io token minimumAge now m =
     (case orphan_Delete P io (mg_quarantine m) ''quarantine'' (tracked_objects m) token minimumAge now None of
        (root, res) \<Rightarrow> (m\<lparr>mg_quarantine := root\<rparr>, res))"

definition ResumeOrphanReconciliation ::
    "faults \<Rightarrow> orphan_reconciliation \<Rightarrow> ('r, 'p) manager \<Rightarrow> ('r, 'p) manager \<times> ((ingest_error + orphan_error) + resume_outcome)" where
  "ResumeOrphanReconciliation io operation m =
     (if or_zone operation \<noteq> ''quarantine'' then (m, Inl (Inl ErrUploadNotFound))
      else case orphan_Resume io (mg_quarantine m) (or_storage_object operation) (or_size operation) (or_modified_at operation)
          (Some (\<lambda>object. Inr (object \<in> set (tracked_objects m)))) of
        (root, res) \<Rightarrow> (m\<lparr>mg_quarantine := root\<rparr>, res))"

end
