(* ===== verification/IngestReception.thy ===== *)
theory IngestReception
  imports IngestAdmin
begin

text \<open>
  The reception of an upload, on the memory repository: what \<open>create\<close> leaves behind when it succeeds and
  when it fails.
\<close>

section \<open>The invariant\<close>

definition entry_index :: "persisted_record \<Rightarrow> string" where
  "entry_index e = idempotency_index (pr_owner_id e) (pr_idempotency_hash e)"

definition catalogued :: "(string, persisted_record) gomap \<Rightarrow> (string, string) gomap \<Rightarrow> bool" where
  "catalogued es ix \<longleftrightarrow> wf_map es \<and> wf_map ix
     \<and> (\<forall>i e. map_of es i = Some e \<longrightarrow> record_id e = i \<and> pr_object e = i @ ''.upload'' \<and> map_of ix (entry_index e) = Some i)
     \<and> (\<forall>x i. map_of ix x = Some i \<longrightarrow> (\<exists>e. map_of es i = Some e \<and> entry_index e = x))"

text \<open>The manager's maps agree with the repository's; reservations belong to records, and the owners' running reservations are positive.\<close>

definition ingest_invar :: "(memory_ingest, 'p) manager \<Rightarrow> bool" where
  "ingest_invar m \<longleftrightarrow> mg_ops m = memory_ingest_ops
     \<and> catalogued (mg_uploads m) (mg_idempotency m) \<and> catalogued (mr_records (mg_repo m)) (mr_by_idempotency (mg_repo m))
     \<and> map_of (mg_idempotency m) = map_of (mr_by_idempotency (mg_repo m))
     \<and> wf_map (mr_reservations (mg_repo m))
     \<and> (\<forall>i c. map_of (mr_reservations (mg_repo m)) i = Some c \<longrightarrow> map_of (mr_records (mg_repo m)) i \<noteq> None)
     \<and> (\<forall>o' n. map_of (mg_owner_reservations m) o' = Some n \<longrightarrow> 0 < n \<and> n \<le> int64_max)"

lemma ingest_invarD:
  assumes "ingest_invar m"
  shows "mg_ops m = memory_ingest_ops" "catalogued (mg_uploads m) (mg_idempotency m)"
    "catalogued (mr_records (mg_repo m)) (mr_by_idempotency (mg_repo m))"
    "map_of (mg_idempotency m) = map_of (mr_by_idempotency (mg_repo m))" "wf_map (mr_reservations (mg_repo m))"
    "\<And>i c. map_of (mr_reservations (mg_repo m)) i = Some c \<Longrightarrow> map_of (mr_records (mg_repo m)) i \<noteq> None"
    "\<And>o' n. map_of (mg_owner_reservations m) o' = Some n \<Longrightarrow> 0 < n \<and> n \<le> int64_max"
  using assms by (auto simp: ingest_invar_def)

lemma cataloguedD:
  assumes "catalogued es ix" "map_of es i = Some e"
  shows "record_id e = i" "pr_object e = i @ ''.upload''" "map_of ix (entry_index e) = Some i"
  using assms by (auto simp: catalogued_def)

lemma cataloguedI:
  assumes "wf_map es" "wf_map ix"
    and "\<And>i e. map_of es i = Some e \<Longrightarrow> record_id e = i \<and> pr_object e = i @ ''.upload'' \<and> map_of ix (entry_index e) = Some i"
    and "\<And>x i. map_of ix x = Some i \<Longrightarrow> \<exists>e. map_of es i = Some e \<and> entry_index e = x"
  shows "catalogued es ix"
  using assms unfolding catalogued_def by blast

lemma catalogued_back: "catalogued es ix \<Longrightarrow> map_of ix x = Some i \<Longrightarrow> \<exists>e. map_of es i = Some e \<and> entry_index e = x"
  by (auto simp: catalogued_def)

lemma catalogued_wf: "catalogued es ix \<Longrightarrow> wf_map es \<and> wf_map ix"
  by (simp add: catalogued_def)

lemma catalogued_unique:
  "catalogued es ix \<Longrightarrow> map_of es i = Some e \<Longrightarrow> map_of es j = Some e' \<Longrightarrow> entry_index e = entry_index e' \<Longrightarrow> i = j"
  using cataloguedD(3) [of es ix i e] cataloguedD(3) [of es ix j e'] by simp

lemma catalogued_add [inv_intros]:
  assumes "catalogued es ix" "map_of es i = None" "map_of ix x = None" "record_id e = i" "pr_object e = i @ ''.upload''" "entry_index e = x"
  shows "catalogued (mput i e es) (mput x i ix)"
proof (rule cataloguedI)
  fix j e' assume j: "map_of (mput i e es) j = Some e'"
  show "record_id e' = j \<and> pr_object e' = j @ ''.upload'' \<and> map_of (mput x i ix) (entry_index e') = Some j"
  proof (cases "j = i")
    case False
    with j have e': "map_of es j = Some e'" by simp
    note D = cataloguedD [OF assms(1) e']
    from D(3) assms(3) have "entry_index e' \<noteq> x" by auto
    with D show ?thesis by simp
  qed (use j assms in auto)
next
  fix y j assume y: "map_of (mput x i ix) y = Some j"
  show "\<exists>e'. map_of (mput i e es) j = Some e' \<and> entry_index e' = y"
  proof (cases "y = x")
    case False
    with y catalogued_back [OF assms(1), of y j] assms(2) show ?thesis by force
  qed (use y assms in auto)
qed (use catalogued_wf [OF assms(1)] in simp_all)

lemma catalogued_replace [inv_intros]:
  assumes "catalogued es ix" "map_of es i = Some e0" "record_id e = i" "pr_object e = pr_object e0" "entry_index e = entry_index e0"
  shows "catalogued (mput i e es) ix"
proof (rule cataloguedI)
  fix j e' assume "map_of (mput i e es) j = Some e'"
  then show "record_id e' = j \<and> pr_object e' = j @ ''.upload'' \<and> map_of ix (entry_index e') = Some j"
    using assms cataloguedD [OF assms(1)] by (cases "j = i") auto
next
  fix y j assume y: "map_of ix y = Some j"
  from catalogued_back [OF assms(1) y] assms show "\<exists>e'. map_of (mput i e es) j = Some e' \<and> entry_index e' = y" by auto
qed (use catalogued_wf [OF assms(1)] in simp_all)

lemma catalogued_remove [inv_intros]:
  assumes "catalogued es ix" "map_of es i = Some e" "entry_index e = x"
  shows "catalogued (mdelete i es) (mdelete x ix)"
proof (rule cataloguedI)
  fix j e' assume "map_of (mdelete i es) j = Some e'"
  then have j: "j \<noteq> i" "map_of es j = Some e'" by (auto split: if_splits)
  with catalogued_unique [OF assms(1) j(2) assms(2)] assms(3) have "entry_index e' \<noteq> x" by auto
  with cataloguedD [OF assms(1) j(2)]
  show "record_id e' = j \<and> pr_object e' = j @ ''.upload'' \<and> map_of (mdelete x ix) (entry_index e') = Some j" by simp
next
  fix y j assume "map_of (mdelete x ix) y = Some j"
  then have y: "y \<noteq> x" "map_of ix y = Some j" by (auto split: if_splits)
  from catalogued_back [OF assms(1) y(2)] y(1) assms(2,3) show "\<exists>e'. map_of (mdelete i es) j = Some e' \<and> entry_index e' = y"
    by auto
qed (use catalogued_wf [OF assms(1)] in simp_all)

section \<open>One block, and the loop\<close>

text \<open>What the loop may change: the object under reception, the owner's running reservation and the task.\<close>

definition same_source :: "upload_task \<Rightarrow> upload_task \<Rightarrow> bool" where
  "same_source tk tk' \<longleftrightarrow> tk_entry tk' = tk_entry tk \<and> tk_index tk' = tk_index tk \<and> tk_expected tk' = tk_expected tk"

definition reception_rest :: "('r, 'p) manager \<Rightarrow> ('r, 'p) manager" where
  "reception_rest m = m\<lparr>mg_quarantine := [], mg_owner_reservations := []\<rparr>"

definition reception_frame :: "upload_task \<Rightarrow> ('r, 'p) manager \<Rightarrow> upload_task \<Rightarrow> ('r, 'p) manager \<Rightarrow> bool" where
  "reception_frame tk m tk' m' \<longleftrightarrow> same_source tk tk' \<and> reception_rest m' = reception_rest m
     \<and> (\<forall>n. n \<noteq> pr_object (tk_entry tk) \<longrightarrow> map_of (mg_quarantine m') n = map_of (mg_quarantine m) n)
     \<and> (\<forall>o'. o' \<noteq> pr_owner_id (tk_entry tk) \<longrightarrow> map_of (mg_owner_reservations m') o' = map_of (mg_owner_reservations m) o')
     \<and> (tk_expected tk > 0 \<longrightarrow> tk_reserved tk' = tk_reserved tk \<and> mg_owner_reservations m' = mg_owner_reservations m)"

lemma reception_rest_sel [simp]:
  "mg_uploads (reception_rest m) = mg_uploads m" "mg_idempotency (reception_rest m) = mg_idempotency m" "mg_max_upload (reception_rest m) = mg_max_upload m"
  "mg_inspection_ttl (reception_rest m) = mg_inspection_ttl m" "mg_ops (reception_rest m) = mg_ops m" "mg_repo (reception_rest m) = mg_repo m"
  "mg_default_quota (reception_rest m) = mg_default_quota m" "mg_capacity (reception_rest m) = mg_capacity m" "mg_reserve (reception_rest m) = mg_reserve m"
  "mg_reservation_ttl (reception_rest m) = mg_reservation_ttl m" "mg_owner_quotas (reception_rest m) = mg_owner_quotas m" "mg_store (reception_rest m) = mg_store m"
  "mg_delivered (reception_rest m) = mg_delivered m"
  by (simp_all add: reception_rest_def)

lemma reception_rest_fields:
  assumes "reception_rest m' = reception_rest m"
  shows "mg_uploads m' = mg_uploads m" "mg_idempotency m' = mg_idempotency m" "mg_max_upload m' = mg_max_upload m"
    "mg_inspection_ttl m' = mg_inspection_ttl m" "mg_ops m' = mg_ops m" "mg_repo m' = mg_repo m"
    "mg_default_quota m' = mg_default_quota m" "mg_capacity m' = mg_capacity m" "mg_reserve m' = mg_reserve m"
    "mg_reservation_ttl m' = mg_reservation_ttl m" "mg_owner_quotas m' = mg_owner_quotas m" "mg_store m' = mg_store m"
    "mg_delivered m' = mg_delivered m"
  using arg_cong [OF assms, of mg_uploads] arg_cong [OF assms, of mg_idempotency] arg_cong [OF assms, of mg_max_upload] arg_cong [OF assms, of mg_inspection_ttl]
    arg_cong [OF assms, of mg_ops] arg_cong [OF assms, of mg_repo] arg_cong [OF assms, of mg_default_quota] arg_cong [OF assms, of mg_capacity]
    arg_cong [OF assms, of mg_reserve] arg_cong [OF assms, of mg_reservation_ttl] arg_cong [OF assms, of mg_owner_quotas] arg_cong [OF assms, of mg_store]
    arg_cong [OF assms, of mg_delivered]
  by simp_all

lemma reception_frame_refl: "reception_frame tk m tk m"
  by (simp add: reception_frame_def same_source_def)

lemma reception_frame_trans:
  "reception_frame tk m tk1 m1 \<Longrightarrow> reception_frame tk1 m1 tk2 m2 \<Longrightarrow> reception_frame tk m tk2 m2"
  by (simp add: reception_frame_def same_source_def)

text \<open>A running reservation: the bytes of the task are part of its owner's.\<close>

definition reserved_by :: "upload_task \<Rightarrow> int \<Rightarrow> ('r, 'p) manager \<Rightarrow> bool" where
  "reserved_by tk base m \<longleftrightarrow> 0 \<le> tk_reserved tk
     \<and> mget 0 (mg_owner_reservations m) (pr_owner_id (tk_entry tk)) = base + tk_reserved tk"

lemma reserve_block_frame:
  assumes "reserve_block tk n m = (m', tk', err)"
  shows "reception_frame tk m tk' m'" "tk_received tk' = tk_received tk" "tk_remaining tk' = tk_remaining tk"
    "tk_header tk' = tk_header tk" "tk_content tk' = tk_content tk" "mg_quarantine m' = mg_quarantine m"
proof -
  from assms show "reception_frame tk m tk' m'"
    by (auto simp: reserve_block_def Let_def reception_frame_def same_source_def reception_rest_def split: if_splits)
qed (use assms in \<open>auto simp: reserve_block_def Let_def split: if_splits\<close>)

lemma receive_block_frame:
  assumes "receive_block env block tk m = (m', tk', err)"
  shows "reception_frame tk m tk' m'"
proof -
  obtain m1 tk1 e1 where r: "reserve_block tk (int (length block)) m = (m1, tk1, e1)" by (metis prod_cases3)
  note R = reserve_block_frame [OF r]
  from R(1) have e: "tk_entry tk1 = tk_entry tk" by (simp add: reception_frame_def same_source_def)
  have "reception_frame tk1 m1 tk' m' \<or> (m' = m \<and> tk' = tk)"
    using assms r e by (auto simp: receive_block_def Let_def reception_frame_def same_source_def reception_rest_def
        split: if_splits option.splits)
  with R(1) reception_frame_trans [OF R(1)] reception_frame_refl [of tk m] show ?thesis by auto
qed

lemma receive_frame: "receive env as tk m = (m', tk', err) \<Longrightarrow> reception_frame tk m tk' m'"
proof (induction as arbitrary: tk m)
  case (Cons a as)
  obtain m1 tk1 e1 where b: "receive_block env (take (nat (tk_remaining tk)) (ar_block a)) tk m = (m1, tk1, e1)" by (metis prod_cases3)
  note F = receive_block_frame [OF b]
  from Cons.prems b have "(m' = m \<and> tk' = tk) \<or> (m' = m1 \<and> tk' = tk1) \<or> receive env as tk1 m1 = (m', tk', err)"
    by (auto split: option.splits if_splits)
  then show ?case using F Cons.IH [of tk1 m1] reception_frame_trans [OF F] reception_frame_refl [of tk m] by blast
qed (simp add: reception_frame_refl)

section \<open>What has been received\<close>

definition holding :: "upload_task \<Rightarrow> ('r, 'p) manager \<Rightarrow> bool" where
  "holding tk m \<longleftrightarrow> tk_received tk = int (length (tk_content tk)) \<and> tk_header tk = take 512 (tk_content tk)
     \<and> tk_received tk + tk_remaining tk = mg_max_upload m + 1 \<and> tk_received tk \<le> mg_max_upload m \<and> mg_max_upload m < int64_max
     \<and> (\<exists>ob. map_of (mg_quarantine m) (pr_object (tk_entry tk)) = Some ob \<and> so_kind ob = RegularFile \<and> so_bytes ob = tk_content tk)"

lemma header_extend:
  "h = take 512 c \<Longrightarrow> (if length h < 512 then h @ take (512 - length h) block else h) = take 512 (c @ block)"
  by (auto simp: min_def not_less split: if_splits)

lemma receive_block_holding:
  assumes "receive_block env block tk m = (m', tk', None)" "holding tk m" "int (length block) \<le> tk_remaining tk"
  shows "holding tk' m' \<and> tk_content tk' = tk_content tk @ block \<and> (block \<noteq> [] \<longrightarrow> int (length block) < tk_remaining tk)"
proof (cases "block = []")
  case True
  with assms show ?thesis by (simp add: receive_block_def Let_def)
next
  case False
  obtain m1 tk1 e1 where r: "reserve_block tk (int (length block)) m = (m1, tk1, e1)" by (metis prod_cases3)
  note R = reserve_block_frame [OF r]
  from R(1) have e: "tk_entry tk1 = tk_entry tk" "mg_max_upload m1 = mg_max_upload m"
    using reception_rest_fields [of m1 m] by (auto simp: reception_frame_def same_source_def)
  have exact: "add64 (tk_received tk) (int (length block)) = tk_received tk + int (length block)"
    unfolding add64_def using assms(2,3) by (intro wrap64_id) (auto simp: holding_def int64_min_def)
  have c: "tk_content tk' = tk_content tk @ block" "tk_received tk' = tk_received tk + int (length block)"
    "tk_remaining tk' = tk_remaining tk - int (length block)" "tk_entry tk' = tk_entry tk" "tk_received tk' \<le> mg_max_upload m"
    "tk_header tk' = (if length (tk_header tk) < 512 then tk_header tk @ take (512 - length (tk_header tk)) block else tk_header tk)"
    "mg_max_upload m' = mg_max_upload m"
    "map_of (mg_quarantine m') (pr_object (tk_entry tk)) = Some \<lparr>so_kind = RegularFile, so_bytes = tk_content tk @ block, so_modified = ie_now env\<rparr>"
    using assms(1) r False e R(2-6) exact
    by (auto simp: receive_block_def Let_def split: option.splits if_splits)
  with assms(2) have "tk_header tk' = take 512 (tk_content tk @ block)"
    using header_extend [of "tk_header tk" "tk_content tk" block] by (simp add: holding_def)
  with c assms(2) show ?thesis by (auto simp: holding_def)
qed

lemma receive_holding:
  "receive env as tk m = (m', tk', None) \<Longrightarrow> holding tk m \<Longrightarrow> holding tk' m' \<and> tk_content tk' = tk_content tk @ concat (map ar_block as)"
proof (induction as arbitrary: tk m)
  case (Cons a as)
  from Cons.prems(2) have left: "tk_remaining tk > 0" by (simp add: holding_def)
  define block where "block = take (nat (tk_remaining tk)) (ar_block a)"
  from Cons.prems(1) left obtain m1 tk1 where b: "receive_block env block tk m = (m1, tk1, None)"
    and rest: "receive env as tk1 m1 = (m', tk', None)"
    by (auto simp: block_def split: option.splits prod.splits)
  have "int (length block) \<le> tk_remaining tk" using left by (auto simp: block_def)
  from receive_block_holding [OF b Cons.prems(2) this] have h: "holding tk1 m1" "tk_content tk1 = tk_content tk @ block"
    and "block \<noteq> [] \<longrightarrow> int (length block) < tk_remaining tk" by auto
  then have "block = ar_block a" using left by (cases "ar_block a") (auto simp: block_def min_def split: if_splits)
  with Cons.IH [OF rest h(1)] h(2) show ?case by simp
qed simp

text \<open>The owner's running reservation is what it was, with the bytes of the task on top.\<close>

definition reserving :: "int \<Rightarrow> (string, int64) gomap \<Rightarrow> upload_task \<Rightarrow> ('r, 'p) manager \<Rightarrow> bool" where
  "reserving base rs0 tk m \<longleftrightarrow> 0 \<le> tk_reserved tk \<and> tk_reserved tk + max 0 (tk_remaining tk) \<le> int64_max
     \<and> mget 0 (mg_owner_reservations m) (pr_owner_id (tk_entry tk)) = wrap64 (base + tk_reserved tk)
     \<and> (tk_reserved tk = 0 \<longrightarrow> mg_owner_reservations m = rs0)"

lemma receive_block_reserving:
  assumes "receive_block env block tk m = (m', tk', err)" "reserving base rs0 tk m" "int (length block) \<le> tk_remaining tk"
  shows "reserving base rs0 tk' m'"
proof (cases "block = []")
  case True
  with assms show ?thesis by (simp add: receive_block_def Let_def)
next
  case False
  define n where "n = int (length block)"
  have n: "0 < n" "n \<le> tk_remaining tk" using False assms(3) by (simp_all add: n_def)
  obtain m1 tk1 e1 where r: "reserve_block tk n m = (m1, tk1, e1)" by (metis prod_cases3)
  note R = reserve_block_frame [OF r]
  from R(1) have e: "tk_entry tk1 = tk_entry tk" by (simp add: reception_frame_def same_source_def)
  have exact: "add64 (tk_reserved tk) n = tk_reserved tk + n"
    unfolding add64_def using assms(2) n by (intro wrap64_id) (auto simp: reserving_def int64_min_def)
  have one: "(tk_reserved tk1 = tk_reserved tk \<and> mg_owner_reservations m1 = mg_owner_reservations m)
      \<or> (tk_reserved tk1 = tk_reserved tk + n
         \<and> mget 0 (mg_owner_reservations m1) (pr_owner_id (tk_entry tk)) = wrap64 (base + (tk_reserved tk + n)))"
    using r assms(2) exact
    by (auto simp: reserve_block_def Let_def reserving_def mget_def add64_def algebra_simps split: if_splits option.splits)
  have "tk_reserved tk' = tk_reserved tk1" "mg_owner_reservations m' = mg_owner_reservations m1" "tk_entry tk' = tk_entry tk"
    "tk_remaining tk' = tk_remaining tk \<and> e1 \<noteq> None \<or> tk_remaining tk' = tk_remaining tk - n"
    "e1 \<noteq> None \<longrightarrow> tk_reserved tk1 = tk_reserved tk"
    using assms(1) r False e R(2,3)
    by (auto simp: receive_block_def reserve_block_def Let_def n_def split: option.splits if_splits)
  with one assms(2) n e show ?thesis unfolding reserving_def by auto
qed

lemma receive_reserving:
  "receive env as tk m = (m', tk', err) \<Longrightarrow> reserving base rs0 tk m \<Longrightarrow> reserving base rs0 tk' m'"
proof (induction as arbitrary: tk m)
  case (Cons a as)
  define block where "block = take (nat (tk_remaining tk)) (ar_block a)"
  obtain m1 tk1 e1 where b: "receive_block env block tk m = (m1, tk1, e1)" by (metis prod_cases3)
  show ?case
  proof (cases "tk_remaining tk \<le> 0")
    case False
    then have "int (length block) \<le> tk_remaining tk" by (auto simp: block_def)
    note S = receive_block_reserving [OF b Cons.prems(2) this]
    from Cons.prems(1) b False have "(m' = m \<and> tk' = tk) \<or> (m' = m1 \<and> tk' = tk1) \<or> receive env as tk1 m1 = (m', tk', err)"
      by (auto simp: block_def split: option.splits)
    with S Cons show ?thesis by blast
  qed (use Cons.prems in \<open>auto split: option.splits\<close>)
qed simp

section \<open>Admission\<close>

definition fresh_upload :: "string \<Rightarrow> (memory_ingest, 'p) manager \<Rightarrow> bool" where
  "fresh_upload i m \<longleftrightarrow> map_of (mg_uploads m) i = None \<and> map_of (mr_records (mg_repo m)) i = None
     \<and> map_of (mg_quarantine m) (i @ ''.upload'') = None"

text \<open>The repository after an admission: one record and, for a declared size, one reservation more; expired ones are gone.\<close>

definition admitted_repo :: "persisted_record \<Rightarrow> capacity_request option \<Rightarrow> memory_ingest \<Rightarrow> memory_ingest" where
  "admitted_repo e q r = r\<lparr>mr_records := mput (record_id e) e (mr_records r),
     mr_by_idempotency := mput (entry_index e) (record_id e) (mr_by_idempotency r),
     mr_reservations := (case q of None \<Rightarrow> mr_reservations r
       | Some c \<Rightarrow> mput (record_id e) c (live_reservations (cr_now c) (mr_reservations r)))\<rparr>"

definition expired_dropped :: "time \<Rightarrow> memory_ingest \<Rightarrow> memory_ingest \<Rightarrow> bool" where
  "expired_dropped now r r' \<longleftrightarrow> r' = r \<or> r' = r\<lparr>mr_reservations := live_reservations now (mr_reservations r)\<rparr>"

lemma reserve_memory_cases:
  assumes "ingest_ReserveCapacity q r = (r', res)" "map_of (mr_reservations r) (cr_upload_id q) = None" "wf_map (mr_reservations r)"
  shows "(\<exists>e. res = Inl e) \<and> (r' = r \<or> r' = r\<lparr>mr_reservations := live_reservations (cr_now q) (mr_reservations r)\<rparr>)
    \<or> res = Inr () \<and> r' = r\<lparr>mr_reservations := mput (cr_upload_id q) q (live_reservations (cr_now q) (mr_reservations r))\<rparr>"
proof -
  have "map_of (live_reservations (cr_now q) (mr_reservations r)) (cr_upload_id q) = None"
    using assms(2,3) by (simp add: live_reservations_def map_of_mretain)
  with assms(1) show ?thesis by (auto simp: ingest_ReserveCapacity_def Let_def split: if_splits)
qed

lemma live_absent: "wf_map rs \<Longrightarrow> map_of rs i = None \<Longrightarrow> map_of (live_reservations now rs) i = None"
  by (simp add: live_reservations_def map_of_mretain)

lemma admit_locked_cases:
  assumes "admit_locked env ownerID hash name declared expectedSize m = (m1, res)" "ingest_invar m"
    and "\<And>i. randomID ''upl'' (ie_draws env 0) = Inr i \<Longrightarrow> fresh_upload i m"
  obtains (existing) i e where "res = Existing (pr_upload e)" "m1 = m" "map_of (mg_idempotency m) (idempotency_index ownerID hash) = Some i"
      "map_of (mg_uploads m) i = Some e"
  | (refused) err where "res = Refused err" "\<exists>r'. m1 = m\<lparr>mg_repo := r'\<rparr> \<and> expired_dropped (truncate_us (ie_now env)) (mg_repo m) r'"
  | (admitted) i corr e q where "randomID ''upl'' (ie_draws env 0) = Inr i" "fresh_upload i m"
      "e = new_entry i corr ownerID hash name declared (ie_now env)"
      "q = (if expectedSize > 0 then Some (reservation_for env e expectedSize m) else None)"
      "map_of (mg_idempotency m) (entry_index e) = None"
      "m1 = m\<lparr>mg_repo := admitted_repo e q (mg_repo m), mg_uploads := mput i e (mg_uploads m),
         mg_idempotency := mput (entry_index e) i (mg_idempotency m)\<rparr>"
      "res = Admitted \<lparr>tk_entry = e, tk_index = entry_index e, tk_expected = expectedSize,
         tk_remaining = add64 (mg_max_upload m) 1, tk_reserved = 0, tk_received = 0, tk_header = [], tk_content = []\<rparr>"
proof -
  note I = ingest_invarD [OF assms(2)]
  define ix where "ix = idempotency_index ownerID hash"
  have same: "\<exists>r'. m = m\<lparr>mg_repo := r'\<rparr> \<and> expired_dropped (truncate_us (ie_now env)) (mg_repo m) r'"
    by (intro exI [of _ "mg_repo m"]) (simp add: expired_dropped_def)
  show ?thesis
  proof (cases "map_of (mg_idempotency m) ix")
    case (Some i)
    with catalogued_back [OF I(2)] obtain e where "map_of (mg_uploads m) i = Some e" by blast
    with Some assms(1) existing show ?thesis by (auto simp: admit_locked_def Let_def ix_def mget_def)
  next
    case None
    show ?thesis
    proof (cases "randomID ''upl'' (ie_draws env 0)")
      case (Inl err)
      with None assms(1) have "m1 = m" "res = Refused err" by (auto simp: admit_locked_def Let_def ix_def)
      with same refused show ?thesis by blast
    next
      case (Inr i)
      note fresh = assms(3) [OF Inr]
      show ?thesis
      proof (cases "randomID ''corr'' (ie_draws env 1)")
        case (Inl err)
        with None Inr assms(1) have "m1 = m" "res = Refused err"
          using \<open>randomID ''upl'' _ = Inr i\<close> by (auto simp: admit_locked_def Let_def ix_def)
        with same refused show ?thesis by blast
      next
        case (Inr corr)
        define e where "e = new_entry i corr ownerID hash name declared (ie_now env)"
        have e: "record_id e = i" "entry_index e = ix" "pr_owner_id e = ownerID"
          "idempotency_index (pr_owner_id e) (pr_idempotency_hash e) = ix"
          by (simp_all add: e_def new_entry_def entry_index_def ix_def)
        define r1 where "r1 = admitted_repo e None (mg_repo m)"
        have nix: "map_of (mr_by_idempotency (mg_repo m)) ix = None" using None I(4) by simp
        have nrs: "map_of (mr_reservations (mg_repo m)) i = None"
          using I(6) [of i] fresh by (cases "map_of (mr_reservations (mg_repo m)) i") (auto simp: fresh_upload_def)
        have cr: "on_repo (ig_create (mg_ops m) e) m = (m\<lparr>mg_repo := r1\<rparr>, Inr (e, False))"
          using nix e by (simp add: on_repo_def I(1) ingest_Create_def Let_def r1_def admitted_repo_def)
        have res: "admit_reserve env e ix expectedSize (m\<lparr>mg_repo := r1\<rparr>) = (m1, res)"
          using assms(1) None \<open>randomID ''upl'' _ = Inr i\<close> Inr cr
          by (simp add: admit_locked_def Let_def ix_def [symmetric] e_def [symmetric])
        define q where "q = reservation_for env e expectedSize m"
        have q: "reservation_for env e expectedSize (m\<lparr>mg_repo := r1\<rparr>) = q" "cr_upload_id q = i" "cr_now q = truncate_us (ie_now env)"
          by (simp_all add: q_def reservation_for_def ownerQuotaLocked_def Let_def e)
        have undo: "fst (ingest_Delete i (r1\<lparr>mr_reservations := rs\<rparr>)) = (mg_repo m)\<lparr>mr_reservations := rs\<rparr>"
          if "map_of rs i = None" for rs
          using that fresh nix e
          by (simp add: ingest_Delete_def r1_def admitted_repo_def fresh_upload_def mdelete_mput_fresh mdelete_absent)
        show ?thesis
        proof (cases "expectedSize > 0")
          case False
          show ?thesis
            by (rule admitted [where i = i and corr = corr and e = e and q = None])
              (use False res fresh None e \<open>randomID ''upl'' _ = Inr i\<close> in \<open>simp_all add: e_def [symmetric] r1_def admit_reserve_def Let_def\<close>)
        next
          case True
          obtain r2 out where rc: "ingest_ReserveCapacity q r1 = (r2, out)" by fastforce
          have r1: "mr_reservations r1 = mr_reservations (mg_repo m)" by (simp add: r1_def admitted_repo_def)
          from reserve_memory_cases [OF rc] nrs I(5) q r1
          consider err where "out = Inl err" "r2 = r1 \<or> r2 = r1\<lparr>mr_reservations := live_reservations (cr_now q) (mr_reservations (mg_repo m))\<rparr>"
            | "out = Inr ()" "r2 = r1\<lparr>mr_reservations := mput i q (live_reservations (cr_now q) (mr_reservations (mg_repo m)))\<rparr>"
            by auto
          then show ?thesis
          proof cases
            case 1
            with res True q rc have m1: "m1 = m\<lparr>mg_repo := fst (ingest_Delete i r2)\<rparr>" "res = Refused err"
              by (auto simp: admit_reserve_def Let_def on_repo_def I(1) e split: prod.splits)
            have "r1 = r1\<lparr>mr_reservations := mr_reservations (mg_repo m)\<rparr>" by (simp add: r1 [symmetric])
            with 1(2) have "expired_dropped (truncate_us (ie_now env)) (mg_repo m) (fst (ingest_Delete i r2))"
              using undo [OF nrs] undo [OF live_absent [OF I(5) nrs, of "cr_now q"]] q(3) by (auto simp: expired_dropped_def)
            with m1 show ?thesis by (intro refused [of err]) auto
          next
            case 2
            with res True q rc have "m1 = m\<lparr>mg_repo := r2, mg_uploads := mput i e (mg_uploads m), mg_idempotency := mput ix i (mg_idempotency m)\<rparr>"
              "res = Admitted \<lparr>tk_entry = e, tk_index = ix, tk_expected = expectedSize,
               tk_remaining = add64 (mg_max_upload m) 1, tk_reserved = 0, tk_received = 0, tk_header = [], tk_content = []\<rparr>"
              by (auto simp: admit_reserve_def Let_def on_repo_def I(1) e)
            moreover have "r2 = admitted_repo e (Some q) (mg_repo m)" using 2 q e by (simp add: r1_def admitted_repo_def)
            ultimately show ?thesis
              by (intro admitted [where i = i and corr = corr and e = e and q = "Some q"])
                (use True fresh None e \<open>randomID ''upl'' _ = Inr i\<close> in \<open>simp_all add: e_def [symmetric] q_def\<close>)
          qed
        qed
      qed
    qed
  qed
qed

section \<open>Undoing\<close>

lemma reception_rest_eq:
  "reception_rest m' = reception_rest m \<Longrightarrow> m' = m\<lparr>mg_quarantine := mg_quarantine m', mg_owner_reservations := mg_owner_reservations m'\<rparr>"
  by (cases m; cases m') (simp add: reception_rest_def)

lemma unreserve_restores:
  assumes "mget 0 rs owner = wrap64 (mget 0 rs0 owner + n)" "\<forall>o' v. map_of rs0 o' = Some v \<longrightarrow> 0 < v \<and> v \<le> int64_max"
    and "\<forall>o'. o' \<noteq> owner \<longrightarrow> map_of rs o' = map_of rs0 o'"
  shows "map_of (unreserve owner n rs) = map_of rs0"
proof -
  have "0 \<le> mget 0 rs0 owner \<and> mget 0 rs0 owner \<le> int64_max"
    using assms(2) by (auto simp: mget_def int64_max_def less_imp_le split: option.split)
  then have base: "wrap64 (mget 0 rs0 owner) = mget 0 rs0 owner" by (intro wrap64_id) (auto simp: int64_min_def)
  have "sub64 (mget 0 rs owner) n = wrap64 (wrap64 (mget 0 rs0 owner + n) + - n)" by (simp add: sub64_def assms(1))
  also have "\<dots> = mget 0 rs0 owner" unfolding wrap64_wrap64_add by (simp add: base)
  finally have left: "sub64 (mget 0 rs owner) n = mget 0 rs0 owner" .
  have "map_of (unreserve owner n rs) o' = map_of rs0 o'" for o'
  proof (cases "map_of rs0 owner")
    case None
    with left assms(3) show ?thesis by (auto simp: unreserve_def mget_def)
  next
    case (Some v)
    with assms(2) have "0 < v" by blast
    then have "unreserve owner n rs = mput owner v rs" unfolding unreserve_def left using Some by (simp add: mget_def)
    with Some assms(3) show ?thesis by (cases "o' = owner") simp_all
  qed
  then show ?thesis by blast
qed

text \<open>
  Nothing is left of a failed call: the tables are as they were, but for reservations that had expired, and
  the directory too but for the names \<open>ns\<close>.
\<close>

definition left_as_was :: "string set \<Rightarrow> time \<Rightarrow> (memory_ingest, 'p) manager \<Rightarrow> (memory_ingest, 'p) manager \<Rightarrow> bool" where
  "left_as_was ns now m m' \<longleftrightarrow> (\<exists>r' rs q. m' = m\<lparr>mg_repo := r', mg_owner_reservations := rs, mg_quarantine := q\<rparr>
     \<and> map_of rs = map_of (mg_owner_reservations m) \<and> (\<forall>n. n \<notin> ns \<longrightarrow> map_of q n = map_of (mg_quarantine m) n)
     \<and> expired_dropped now (mg_repo m) r')"

text \<open>The object of a failed reception stays behind when it cannot be removed.\<close>

definition left_over :: "ingest_env \<Rightarrow> string \<Rightarrow> string set" where
  "left_over env name = (if ie_faults env RemoveQuarantine = None then {} else {name})"

lemma left_as_was_repo: "m' = m\<lparr>mg_repo := r'\<rparr> \<Longrightarrow> expired_dropped now (mg_repo m) r' \<Longrightarrow> left_as_was ns now m m'"
  unfolding left_as_was_def
  by (intro exI [of _ r'] exI [of _ "mg_owner_reservations m"] exI [of _ "mg_quarantine m"]) simp

lemma left_as_was_refl: "left_as_was ns now m m"
  by (rule left_as_was_repo [where r' = "mg_repo m"]) (simp_all add: expired_dropped_def)

text \<open>The state while an admitted upload is received: \<open>e0\<close> is the row of the repository, \<open>e\<close> the tracked entry.\<close>

definition receiving ::
    "persisted_record \<Rightarrow> capacity_request option \<Rightarrow> persisted_record \<Rightarrow> (memory_ingest, 'p) manager \<Rightarrow> (memory_ingest, 'p) manager \<Rightarrow> bool" where
  "receiving e0 q e m m' \<longleftrightarrow> (\<exists>qu rs. m' = m\<lparr>mg_repo := admitted_repo e0 q (mg_repo m), mg_uploads := mput (record_id e0) e (mg_uploads m),
       mg_idempotency := mput (entry_index e0) (record_id e0) (mg_idempotency m), mg_quarantine := qu, mg_owner_reservations := rs\<rparr>
     \<and> (\<forall>n. n \<noteq> pr_object e0 \<longrightarrow> map_of qu n = map_of (mg_quarantine m) n))"

lemma fst_on_repo [simp]: "fst (on_repo f m) = m\<lparr>mg_repo := fst (f (mg_repo m))\<rparr>"
  by (simp add: on_repo_def case_prod_beta)

lemma cleanup_memory:
  assumes "mg_ops m = memory_ingest_ops"
  shows "cleanup env tk m = m\<lparr>mg_quarantine := (if ie_faults env RemoveQuarantine = None
       then mdelete (pr_object (tk_entry tk)) (mg_quarantine m) else mg_quarantine m),
    mg_repo := fst (ingest_Delete (record_id (tk_entry tk)) (fst (ingest_ReleaseCapacity (record_id (tk_entry tk)) (mg_repo m)))),
    mg_owner_reservations := (if tk_reserved tk > 0 then unreserve (pr_owner_id (tk_entry tk)) (tk_reserved tk) (mg_owner_reservations m)
       else mg_owner_reservations m),
    mg_uploads := mdelete (record_id (tk_entry tk)) (mg_uploads m), mg_idempotency := mdelete (tk_index tk) (mg_idempotency m)\<rparr>"
  using assms by (simp add: cleanup_def Let_def remove_quarantined_def release_capacity_def)

lemma admitted_repo_undone:
  assumes "map_of (mr_records r) (record_id e) = None" "map_of (mr_by_idempotency r) (entry_index e) = None"
    and "map_of (mr_reservations r) (record_id e) = None" "wf_map (mr_reservations r)" "\<forall>c. q = Some c \<longrightarrow> cr_now c = now"
  shows "expired_dropped now r (fst (ingest_Delete (record_id e) (fst (ingest_ReleaseCapacity (record_id e) (admitted_repo e q r)))))"
proof (cases q)
  case None
  with assms show ?thesis
    by (simp add: expired_dropped_def ingest_ReleaseCapacity_def ingest_Delete_def admitted_repo_def mdelete_mput_fresh mdelete_absent
        entry_index_def [symmetric])
next
  case (Some c)
  with assms live_absent [OF assms(4,3), of now] show ?thesis
    by (simp add: expired_dropped_def ingest_ReleaseCapacity_def ingest_Delete_def admitted_repo_def mdelete_mput_fresh mdelete_absent
        entry_index_def [symmetric])
qed

lemma cleanup_undoes:
  assumes r: "receiving e0 q e m m'" and inv: "ingest_invar m" and fresh: "fresh_upload (record_id e0) m"
    and new: "map_of (mg_idempotency m) (entry_index e0) = None"
    and obj: "pr_object e0 = record_id e0 @ ''.upload''"
    and tk: "tk_index tk = entry_index e0" "record_id (tk_entry tk) = record_id e0" "pr_object (tk_entry tk) = pr_object e0"
      "pr_owner_id (tk_entry tk) = pr_owner_id e0"
    and rs: "map_of (if tk_reserved tk > 0 then unreserve (pr_owner_id e0) (tk_reserved tk) (mg_owner_reservations m')
         else mg_owner_reservations m') = map_of (mg_owner_reservations m)"
    and now: "\<forall>c. q = Some c \<longrightarrow> cr_now c = now"
  shows "left_as_was (left_over env (pr_object e0)) now m (cleanup env tk m')"
proof -
  note I = ingest_invarD [OF inv]
  obtain qu RS where m': "m' = m\<lparr>mg_repo := admitted_repo e0 q (mg_repo m), mg_uploads := mput (record_id e0) e (mg_uploads m),
       mg_idempotency := mput (entry_index e0) (record_id e0) (mg_idempotency m), mg_quarantine := qu, mg_owner_reservations := RS\<rparr>"
    and qu: "\<forall>n. n \<noteq> pr_object e0 \<longrightarrow> map_of qu n = map_of (mg_quarantine m) n"
    using r by (auto simp: receiving_def)
  have absent: "map_of (mg_uploads m) (record_id e0) = None" "map_of (mr_records (mg_repo m)) (record_id e0) = None"
    "map_of (mg_quarantine m) (pr_object e0) = None" "map_of (mr_by_idempotency (mg_repo m)) (entry_index e0) = None"
    using fresh new I(4) obj by (simp_all add: fresh_upload_def)
  have nrs: "map_of (mr_reservations (mg_repo m)) (record_id e0) = None"
    using I(6) [of "record_id e0"] absent(2) by (cases "map_of (mr_reservations (mg_repo m)) (record_id e0)") auto
  define r' where "r' = fst (ingest_Delete (record_id e0) (fst (ingest_ReleaseCapacity (record_id e0) (admitted_repo e0 q (mg_repo m)))))"
  define RS' where "RS' = (if tk_reserved tk > 0 then unreserve (pr_owner_id e0) (tk_reserved tk) RS else RS)"
  define qu' where "qu' = (if ie_faults env RemoveQuarantine = None then mdelete (pr_object e0) qu else qu)"
  have "cleanup env tk m' = m\<lparr>mg_repo := r', mg_owner_reservations := RS', mg_quarantine := qu'\<rparr>"
    using absent new cleanup_memory [of m' env tk]
    by (simp add: m' tk I(1) r'_def RS'_def qu'_def mdelete_mput_fresh)
  moreover have "\<forall>n. n \<notin> left_over env (pr_object e0) \<longrightarrow> map_of qu' n = map_of (mg_quarantine m) n"
    using qu absent(3) by (auto simp: qu'_def left_over_def)
  moreover have "expired_dropped now (mg_repo m) r'"
    unfolding r'_def by (rule admitted_repo_undone) (use absent nrs I(5) now in auto)
  moreover have "map_of RS' = map_of (mg_owner_reservations m)" using rs unfolding m' RS'_def by (cases "0 < tk_reserved tk") simp_all
  ultimately show ?thesis unfolding left_as_was_def by blast
qed

lemma persist_memory:
  assumes "persistLifecycle env e ev m = (m', res)" "mg_ops m = memory_ingest_ops"
  shows "(\<exists>err. res = Inl err) \<and> m' = m \<or> res = Inr () \<and> map_of (mr_records (mg_repo m)) (record_id e) \<noteq> None
    \<and> (\<exists>dl. m' = m\<lparr>mg_repo := (mg_repo m)\<lparr>mr_records := mput (record_id e) e (mr_records (mg_repo m))\<rparr>, mg_delivered := dl\<rparr>)"
proof (cases "map_of (mr_records (mg_repo m)) (record_id e)")
  case None
  with assms show ?thesis
    by (auto simp: persistLifecycle_def on_repo_def ingest_Update_def Let_def split: option.splits sum.splits)
next
  case (Some e0)
  with assms have "((\<exists>err. res = Inl err) \<and> m' = m) \<or> (res = Inr () \<and>
     (m' = m\<lparr>mg_repo := (mg_repo m)\<lparr>mr_records := mput (record_id e) e (mr_records (mg_repo m))\<rparr>, mg_delivered := mg_delivered m\<rparr>
      \<or> (\<exists>i. m' = m\<lparr>mg_repo := (mg_repo m)\<lparr>mr_records := mput (record_id e) e (mr_records (mg_repo m))\<rparr>, mg_delivered := mg_delivered m @ [(i, False)]\<rparr>)))"
    by (auto simp: persistLifecycle_def on_repo_def ingest_Update_def Let_def split: option.splits sum.splits if_splits)
  with Some show ?thesis by blast
qed

section \<open>The whole call\<close>

text \<open>The three ways through \<open>create\<close>.\<close>

lemma create_admit_cases:
  assumes "create_admit P env ownerID key name media hasSource expectedSize m = (m1, res)"
  obtains (refused) err where "res = Refused err" "m1 = m"
  | (locked) n d where "8 \<le> length key" "length key \<le> 128" "\<not> contains_any key CRLFNUL" "safeDisplayName name \<noteq> []" "hasSource"
      "n = safeDisplayName name" "length d \<le> 255" "\<not> contains_any d CRLFNUL" "d = (if media = [] then ''application/octet-stream'' else media)"
      "admit_locked env ownerID (hex_encode (p_sha256 P key)) n d expectedSize m = (m1, res)"
  using assms unfolding create_admit_def Let_def by (auto split: if_splits)

lemma create_store_memory:
  assumes run: "create_store P env as tk m1 = (m', res)" and inv: "ingest_invar m" and fresh: "fresh_upload i m"
    and e: "e = new_entry i corr ownerID hash name declared (ie_now env)" and new: "map_of (mg_idempotency m) (entry_index e) = None"
    and m1: "m1 = m\<lparr>mg_repo := admitted_repo e q (mg_repo m), mg_uploads := mput i e (mg_uploads m),
         mg_idempotency := mput (entry_index e) i (mg_idempotency m)\<rparr>"
    and tk: "tk = \<lparr>tk_entry = e, tk_index = entry_index e, tk_expected = expectedSize,
         tk_remaining = add64 (mg_max_upload m) 1, tk_reserved = 0, tk_received = 0, tk_header = [], tk_content = []\<rparr>"
    and now: "\<forall>c. q = Some c \<longrightarrow> cr_now c = now" and max': "0 \<le> mg_max_upload m" "mg_max_upload m < int64_max"
  shows "(\<exists>err. res = Inl err) \<and> left_as_was (left_over env (pr_object e)) now m m'
    \<or> (\<exists>e' qu rs dl b. res = Inr (pr_upload e') \<and> b = concat (map ar_block as) \<and> b \<noteq> [] \<and> int (length b) \<le> mg_max_upload m
        \<and> (expectedSize > 0 \<longrightarrow> int (length b) = expectedSize)
        \<and> e' = e\<lparr>pr_upload := (pr_upload e)\<lparr>up_bytes := int (length b), up_detected := ie_sniff env (take 512 b), up_progress := 25\<rparr>,
             pr_digest := hex_encode (p_sha256 P b)\<rparr>
        \<and> m' = m\<lparr>mg_repo := (admitted_repo e q (mg_repo m))\<lparr>mr_records := mput i e' (mr_records (mg_repo m))\<rparr>,
             mg_uploads := mput i e' (mg_uploads m), mg_idempotency := mput (entry_index e) i (mg_idempotency m),
             mg_quarantine := qu, mg_owner_reservations := rs, mg_delivered := dl\<rparr>
        \<and> map_of rs = map_of (mg_owner_reservations m) \<and> (\<forall>n. n \<noteq> pr_object e \<longrightarrow> map_of qu n = map_of (mg_quarantine m) n)
        \<and> (\<exists>ob. map_of qu (pr_object e) = Some ob \<and> so_kind ob = RegularFile \<and> so_bytes ob = b))"
proof -
  note I = ingest_invarD [OF inv]
  have ids: "record_id e = i" "pr_object e = i @ ''.upload''" "pr_owner_id e = ownerID" by (simp_all add: e new_entry_def)
  have absent: "map_of (mg_uploads m) i = None" "map_of (mr_records (mg_repo m)) i = None" "map_of (mg_quarantine m) (pr_object e) = None"
    using fresh ids by (simp_all add: fresh_upload_def)
  have undo: "left_as_was (left_over env (pr_object e)) now m (cleanup env tk' m2)"
    if "receiving e q e2 m m2" "tk_index tk' = entry_index e" "record_id (tk_entry tk') = i" "pr_object (tk_entry tk') = pr_object e"
      "pr_owner_id (tk_entry tk') = pr_owner_id e"
      "map_of (if tk_reserved tk' > 0 then unreserve (pr_owner_id e) (tk_reserved tk') (mg_owner_reservations m2)
         else mg_owner_reservations m2) = map_of (mg_owner_reservations m)" for tk' m2 e2
    by (rule cleanup_undoes [OF that(1) inv]) (use that fresh new ids now in simp_all)
  have start: "receiving e q e m m1" unfolding receiving_def ids
    by (intro exI [of _ "mg_quarantine m"] exI [of _ "mg_owner_reservations m"]) (simp add: m1)
  obtain m2 err2 where open': "create_open env tk m1 = (m2, err2)" by fastforce
  show ?thesis
  proof (cases err2)
    case (Some err)
    with open' have "m2 = m1" by (auto simp: create_open_def split: option.splits if_splits)
    with Some open' run have "m' = cleanup env tk m1" "res = Inl err" by (auto simp: create_store_def)
    moreover have "left_as_was (left_over env (pr_object e)) now m (cleanup env tk m1)"
      by (rule undo [OF start]) (simp_all add: tk ids m1)
    ultimately show ?thesis by blast
  next
    case None
    define ob0 where "ob0 = \<lparr>so_kind = RegularFile, so_bytes = [], so_modified = ie_now env\<rparr>"
    from None open' have m2: "m2 = m1\<lparr>mg_quarantine := mput (pr_object e) ob0 (mg_quarantine m)\<rparr>"
      by (auto simp: create_open_def tk m1 ob0_def split: option.splits if_splits)
    have rest2: "reception_rest m2 = reception_rest m1" by (simp add: reception_rest_def m2)
    obtain m3 tk3 err3 where rec: "receive env as tk m2 = (m3, tk3, err3)" by (metis prod_cases3)
    note F = receive_frame [OF rec]
    from F have tk3: "tk_entry tk3 = e" "tk_index tk3 = entry_index e" "tk_expected tk3 = expectedSize"
      by (auto simp: reception_frame_def same_source_def tk)
    have "reception_rest m3 = reception_rest m1" using F rest2 by (simp add: reception_frame_def)
    note m3 = reception_rest_eq [OF this]
    have qu3: "\<forall>n. n \<noteq> pr_object e \<longrightarrow> map_of (mg_quarantine m3) n = map_of (mg_quarantine m) n"
      using F by (simp add: reception_frame_def tk m2)
    have rcv3: "receiving e q e m m3" unfolding receiving_def ids
      by (intro exI [of _ "mg_quarantine m3"] exI [of _ "mg_owner_reservations m3"] conjI)
        (subst m3, simp add: m1, use qu3 in \<open>simp add: ids\<close>)
    have "reserving (mget 0 (mg_owner_reservations m) (pr_owner_id e)) (mg_owner_reservations m) tk m2"
    proof -
      have "0 \<le> mget 0 (mg_owner_reservations m) ownerID \<and> mget 0 (mg_owner_reservations m) ownerID \<le> int64_max"
        using I(7) by (auto simp: mget_def int64_max_def less_imp_le split: option.split)
      moreover have "add64 (mg_max_upload m) 1 = mg_max_upload m + 1"
        unfolding add64_def using max' by (intro wrap64_id) (auto simp: int64_min_def)
      ultimately show ?thesis using max' by (simp add: reserving_def tk m2 m1 ids wrap64_id int64_min_def)
    qed
    from receive_reserving [OF rec this]
    have res3: "mget 0 (mg_owner_reservations m3) (pr_owner_id e) = wrap64 (mget 0 (mg_owner_reservations m) (pr_owner_id e) + tk_reserved tk3)"
      "tk_reserved tk3 = 0 \<longrightarrow> mg_owner_reservations m3 = mg_owner_reservations m" "0 \<le> tk_reserved tk3"
      by (simp_all add: reserving_def tk3)
    have restored: "map_of (unreserve (pr_owner_id e) (tk_reserved tk3) (mg_owner_reservations m3)) = map_of (mg_owner_reservations m)"
      by (rule unreserve_restores) (use res3 I(7) F in \<open>auto simp: reception_frame_def tk m2 m1\<close>)
    then have rs3: "map_of (if tk_reserved tk3 > 0 then unreserve (pr_owner_id e) (tk_reserved tk3) (mg_owner_reservations m3)
         else mg_owner_reservations m3) = map_of (mg_owner_reservations m)" using res3 by auto
    have undo3: "left_as_was (left_over env (pr_object e)) now m (cleanup env tk3 m3)"
      using undo [OF rcv3, of tk3] tk3 rs3 ids by simp
    show ?thesis
    proof (cases "err3 = None \<and> create_check env tk3 = None")
      case False
      with run open' None rec undo3 show ?thesis by (intro disjI1) (auto simp: create_store_def split: option.splits)
    next
      case True
      have "holding tk m2" using max' by (simp add: holding_def tk m2 m1 ob0_def add64_def wrap64_id int64_min_def)
      from receive_holding [OF _ this] rec True have h: "holding tk3 m3" and c: "tk_content tk3 = concat (map ar_block as)"
        by (auto simp: tk)
      define b where "b = concat (map ar_block as)"
      have mx: "mg_max_upload m3 = mg_max_upload m" by (subst m3) (simp add: m1)
      from h True have b: "b \<noteq> []" "int (length b) \<le> mg_max_upload m" "expectedSize > 0 \<longrightarrow> int (length b) = expectedSize"
        "tk_received tk3 = int (length b)" "tk_header tk3 = take 512 b"
        by (auto simp: holding_def create_check_def c b_def [symmetric] tk3 mx split: if_splits)
      obtain m4 tk4 where pub: "create_publish P env tk3 m3 = (m4, tk4)" by fastforce
      define e' where "e' = e\<lparr>pr_upload := (pr_upload e)\<lparr>up_bytes := int (length b), up_detected := ie_sniff env (take 512 b), up_progress := 25\<rparr>,
             pr_digest := hex_encode (p_sha256 P b)\<rparr>"
      have e': "record_id e' = i" "pr_object e' = pr_object e" "pr_owner_id e' = pr_owner_id e" by (simp_all add: e'_def ids)
      have up3: "mg_uploads m3 = mput i e (mg_uploads m)" by (subst m3) (simp add: m1)
      from pub have tk4: "tk_entry tk4 = e'" "tk_index tk4 = entry_index e" "tk_reserved tk4 = 0"
        and m4: "m4 = m3\<lparr>mg_uploads := mput i e' (mg_uploads m3),
            mg_owner_reservations := unreserve (pr_owner_id e) (tk_reserved tk3) (mg_owner_reservations m3)\<rparr>"
        by (auto simp: create_publish_def Let_def tk3 b c b_def [symmetric] e'_def ids up3)
      have m4': "m4 = m\<lparr>mg_repo := admitted_repo e q (mg_repo m), mg_uploads := mput i e' (mg_uploads m),
         mg_idempotency := mput (entry_index e) i (mg_idempotency m), mg_quarantine := mg_quarantine m3,
         mg_owner_reservations := unreserve (pr_owner_id e) (tk_reserved tk3) (mg_owner_reservations m3)\<rparr>"
        unfolding m4 by (subst (1 2) m3) (simp add: m1)
      have rcv4: "receiving e q e' m m4" unfolding receiving_def ids m4' using qu3 ids by (intro exI conjI) auto
      obtain m5 out where commit: "create_commit env tk4 m4 = (m5, out)" by fastforce
      have ops4: "mg_ops m4 = memory_ingest_ops" by (simp add: m4' I(1))
      from persist_memory [OF commit [unfolded create_commit_def] ops4]
      consider err where "out = Inl err" "m5 = m4"
        | dl where "out = Inr ()" "m5 = m4\<lparr>mg_repo := (mg_repo m4)\<lparr>mr_records := mput i e' (mr_records (mg_repo m4))\<rparr>, mg_delivered := dl\<rparr>"
        by (auto simp: tk4 e')
      then show ?thesis
      proof cases
        case 1
        have "left_as_was (left_over env (pr_object e)) now m (cleanup env tk4 m4)"
          using undo [OF rcv4, of tk4] tk4 e' restored by (simp add: m4')
        with 1 run open' None rec True pub commit show ?thesis by (intro disjI1) (auto simp: create_store_def)
      next
        case 2
        have rec2: "mput i e' (mr_records (mg_repo m4)) = mput i e' (mr_records (mg_repo m))" by (simp add: m4' admitted_repo_def ids)
        have "m' = m\<lparr>mg_repo := (admitted_repo e q (mg_repo m))\<lparr>mr_records := mput i e' (mr_records (mg_repo m))\<rparr>,
             mg_uploads := mput i e' (mg_uploads m), mg_idempotency := mput (entry_index e) i (mg_idempotency m),
             mg_quarantine := mg_quarantine m3,
             mg_owner_reservations := unreserve (pr_owner_id e) (tk_reserved tk3) (mg_owner_reservations m3), mg_delivered := dl\<rparr>"
          "res = Inr (pr_upload e')"
          using 2 run open' None rec True pub commit tk4 unfolding rec2 by (auto simp: create_store_def m4')
        moreover have "\<exists>ob. map_of (mg_quarantine m3) (pr_object e) = Some ob \<and> so_kind ob = RegularFile \<and> so_bytes ob = b"
          using h by (simp add: holding_def tk3 c b_def)
        moreover note b restored qu3 b_def e'_def
        ultimately show ?thesis
          by (intro disjI2 exI [of _ e'] exI [of _ "mg_quarantine m3"] exI [of _ dl] exI [of _ b]
              exI [of _ "unreserve (pr_owner_id e) (tk_reserved tk3) (mg_owner_reservations m3)"]) blast
      qed
    qed
  qed
qed

section \<open>The call as a whole\<close>

lemma live_reservations_Some:
  "wf_map rs \<Longrightarrow> map_of (live_reservations now rs) i = Some c \<Longrightarrow> map_of rs i = Some c"
  by (simp add: live_reservations_def map_of_mretain split: option.splits if_splits)

lemma received_invar:
  assumes inv: "ingest_invar m" and fresh: "fresh_upload i m" and new: "map_of (mg_idempotency m) (entry_index e) = None"
    and ids: "record_id e = i" "record_id e' = i" "pr_object e' = i @ ''.upload''" "entry_index e' = entry_index e"
    and rs: "map_of rs = map_of (mg_owner_reservations m)"
  shows "ingest_invar (m\<lparr>mg_repo := (admitted_repo e q (mg_repo m))\<lparr>mr_records := mput i e' (mr_records (mg_repo m))\<rparr>,
             mg_uploads := mput i e' (mg_uploads m), mg_idempotency := mput (entry_index e) i (mg_idempotency m),
             mg_quarantine := qu, mg_owner_reservations := rs, mg_delivered := dl\<rparr>)" (is "ingest_invar ?m")
proof -
  note I = ingest_invarD [OF inv]
  have absent: "map_of (mg_uploads m) i = None" "map_of (mr_records (mg_repo m)) i = None"
    "map_of (mr_by_idempotency (mg_repo m)) (entry_index e) = None"
    using fresh new I(4) by (simp_all add: fresh_upload_def)
  have "catalogued (mg_uploads ?m) (mg_idempotency ?m)"
    using catalogued_add [OF I(2) absent(1) new ids(2,3,4)] by simp
  moreover have "catalogued (mr_records (mg_repo ?m)) (mr_by_idempotency (mg_repo ?m))"
    using catalogued_add [OF I(3) absent(2,3) ids(2,3,4)] by (simp add: admitted_repo_def ids(1))
  moreover have "wf_map (mr_reservations (mg_repo ?m))"
    using I(5) by (simp add: admitted_repo_def live_reservations_def split: option.split)
  moreover have "map_of (mr_reservations (mg_repo ?m)) j = Some c \<Longrightarrow> map_of (mr_records (mg_repo ?m)) j \<noteq> None" for j c
    using I(6) [of j] live_reservations_Some [OF I(5)]
    by (auto simp: admitted_repo_def ids(1) split: option.splits if_splits)
  ultimately show ?thesis
    using I(1,4,7) by (simp add: ingest_invar_def admitted_repo_def ids(1) rs)
qed

text \<open>A new upload was accepted: what it is, and what has changed.\<close>

lemma create_new:
  assumes "create P env owner key name media source expected m = (m', Inr (u, False))" "ingest_invar m"
    and "\<forall>i. randomID ''upl'' (ie_draws env 0) = Inr i \<longrightarrow> fresh_upload i m"
    and "0 \<le> mg_max_upload m" "mg_max_upload m < int64_max"
  obtains i corr d e q e' qu rs dl as b where "source = Some as" "b = concat (map ar_block as)" "b \<noteq> []" "int (length b) \<le> mg_max_upload m"
    "expected > 0 \<longrightarrow> int (length b) = expected" "u = pr_upload e'"
    "8 \<le> length key" "length key \<le> 128" "\<not> contains_any key CRLFNUL" "safeDisplayName name \<noteq> []" "length d \<le> 255" "\<not> contains_any d CRLFNUL"
    "d = (if media = [] then ''application/octet-stream'' else media)" "fresh_upload i m" "map_of (mg_idempotency m) (entry_index e) = None"
    "e = new_entry i corr owner (hex_encode (p_sha256 P key)) (safeDisplayName name) d (ie_now env)"
    "e' = e\<lparr>pr_upload := (pr_upload e)\<lparr>up_bytes := int (length b), up_detected := ie_sniff env (take 512 b), up_progress := 25\<rparr>,
             pr_digest := hex_encode (p_sha256 P b)\<rparr>"
    "m' = m\<lparr>mg_repo := (admitted_repo e q (mg_repo m))\<lparr>mr_records := mput i e' (mr_records (mg_repo m))\<rparr>,
             mg_uploads := mput i e' (mg_uploads m), mg_idempotency := mput (entry_index e) i (mg_idempotency m),
             mg_quarantine := qu, mg_owner_reservations := rs, mg_delivered := dl\<rparr>"
    "map_of rs = map_of (mg_owner_reservations m)" "\<forall>n. n \<noteq> pr_object e \<longrightarrow> map_of qu n = map_of (mg_quarantine m) n"
    "\<exists>ob. map_of qu (pr_object e) = Some ob \<and> so_kind ob = RegularFile \<and> so_bytes ob = b"
    "record_id e = i" "record_id e' = i" "pr_object e = i @ ''.upload''" "pr_object e' = i @ ''.upload''" "entry_index e' = entry_index e"
    "pr_owner_id e' = owner" "entry_index e = idempotency_index owner (hex_encode (p_sha256 P key))" "ingest_invar m'"
    "randomID ''upl'' (ie_draws env 0) = Inr i"
proof -
  obtain m1 res where admit: "create_admit P env owner key name media (source \<noteq> None) expected m = (m1, res)" by fastforce
  with assms(1) obtain tk where tk: "res = Admitted tk"
    by (cases res) (auto simp: create_def split: prod.splits sum.splits)
  from admit tk obtain d where ok: "8 \<le> length key" "length key \<le> 128" "\<not> contains_any key CRLFNUL" "safeDisplayName name \<noteq> []"
    "source \<noteq> None" "length d \<le> 255" "\<not> contains_any d CRLFNUL" "d = (if media = [] then ''application/octet-stream'' else media)"
    and locked: "admit_locked env owner (hex_encode (p_sha256 P key)) (safeDisplayName name) d expected m = (m1, Admitted tk)"
    by (elim create_admit_cases) auto
  from ok(5) obtain as where as: "source = Some as" by blast
  have fr: "fresh_upload i m" if "randomID ''upl'' (ie_draws env 0) = Inr i" for i using assms(3) that by blast
  obtain i corr e q where draw: "randomID ''upl'' (ie_draws env 0) = Inr i" and i: "fresh_upload i m"
    and e: "e = new_entry i corr owner (hex_encode (p_sha256 P key)) (safeDisplayName name) d (ie_now env)"
    and q: "q = (if expected > 0 then Some (reservation_for env e expected m) else None)"
    and new: "map_of (mg_idempotency m) (entry_index e) = None"
    and m1: "m1 = m\<lparr>mg_repo := admitted_repo e q (mg_repo m), mg_uploads := mput i e (mg_uploads m),
         mg_idempotency := mput (entry_index e) i (mg_idempotency m)\<rparr>"
    and tk': "tk = \<lparr>tk_entry = e, tk_index = entry_index e, tk_expected = expected,
         tk_remaining = add64 (mg_max_upload m) 1, tk_reserved = 0, tk_received = 0, tk_header = [], tk_content = []\<rparr>"
    by (rule admit_locked_cases [OF locked assms(2) fr], assumption) (simp, simp, rule that, assumption+, simp)
  have store: "create_store P env as tk m1 = (m', Inr u)"
    using assms(1) admit tk as by (auto simp: create_def split: prod.splits sum.splits)
  have now: "\<forall>c. q = Some c \<longrightarrow> cr_now c = truncate_us (ie_now env)" by (simp add: q reservation_for_def Let_def)
  from create_store_memory [OF store assms(2) i e new m1 tk' now assms(4,5)]
  obtain e' qu rs dl b where R: "u = pr_upload e'" "b = concat (map ar_block as)" "b \<noteq> []" "int (length b) \<le> mg_max_upload m"
      "expected > 0 \<longrightarrow> int (length b) = expected"
    and e': "e' = e\<lparr>pr_upload := (pr_upload e)\<lparr>up_bytes := int (length b), up_detected := ie_sniff env (take 512 b), up_progress := 25\<rparr>,
             pr_digest := hex_encode (p_sha256 P b)\<rparr>"
    and m': "m' = m\<lparr>mg_repo := (admitted_repo e q (mg_repo m))\<lparr>mr_records := mput i e' (mr_records (mg_repo m))\<rparr>,
             mg_uploads := mput i e' (mg_uploads m), mg_idempotency := mput (entry_index e) i (mg_idempotency m),
             mg_quarantine := qu, mg_owner_reservations := rs, mg_delivered := dl\<rparr>"
    and rs: "map_of rs = map_of (mg_owner_reservations m)"
    and qu: "\<forall>n. n \<noteq> pr_object e \<longrightarrow> map_of qu n = map_of (mg_quarantine m) n"
      "\<exists>ob. map_of qu (pr_object e) = Some ob \<and> so_kind ob = RegularFile \<and> so_bytes ob = b"
    by auto
  have ids: "record_id e = i" "record_id e' = i" "pr_object e = i @ ''.upload''" "pr_object e' = i @ ''.upload''" "entry_index e' = entry_index e"
    "pr_owner_id e' = owner" "entry_index e = idempotency_index owner (hex_encode (p_sha256 P key))"
    by (simp_all add: e' e new_entry_def entry_index_def)
  have inv: "ingest_invar m'" unfolding m' by (rule received_invar) (use assms(2) i new ids rs in simp_all)
  show ?thesis by (rule that [OF as R(2-5,1) ok(1-4,6-8) i new e e' m' rs qu ids inv draw])
qed

text \<open>A failed call is undone, but for its own object when that cannot be removed.\<close>

definition undone :: "ingest_env \<Rightarrow> (memory_ingest, 'p) manager \<Rightarrow> (memory_ingest, 'p) manager \<Rightarrow> bool" where
  "undone env m m' \<longleftrightarrow> (\<exists>ns. left_as_was ns (truncate_us (ie_now env)) m m' \<and> (\<forall>n \<in> ns. map_of (mg_quarantine m) n = None)
     \<and> (ie_faults env RemoveQuarantine = None \<longrightarrow> ns = {}))"

lemma undone_repo: "m' = m\<lparr>mg_repo := r'\<rparr> \<Longrightarrow> expired_dropped (truncate_us (ie_now env)) (mg_repo m) r' \<Longrightarrow> undone env m m'"
  unfolding undone_def by (intro exI [of _ "{}"]) (simp add: left_as_was_repo)

lemma undone_refl: "undone env m m"
  unfolding undone_def by (intro exI [of _ "{}"]) (simp add: left_as_was_refl)

lemma undone_left_over: "left_as_was (left_over env n) (truncate_us (ie_now env)) m m' \<Longrightarrow> map_of (mg_quarantine m) n = None \<Longrightarrow> undone env m m'"
  unfolding undone_def by (intro exI [of _ "left_over env n"]) (auto simp: left_over_def)

text \<open>No new upload: an earlier one answers, or the call failed and has cleaned up.\<close>

lemma create_not_new:
  assumes "create P env owner key name media source expected m = (m', res)" "ingest_invar m"
    and "\<forall>i. randomID ''upl'' (ie_draws env 0) = Inr i \<longrightarrow> fresh_upload i m"
    and "0 \<le> mg_max_upload m" "mg_max_upload m < int64_max"
  shows "(case res of Inl _ \<Rightarrow> undone env m m'
    | Inr (u, reused) \<Rightarrow> reused \<longrightarrow> m' = m)"
proof -
  obtain m1 out where admit: "create_admit P env owner key name media (source \<noteq> None) expected m = (m1, out)" by fastforce
  have fr: "fresh_upload i m" if "randomID ''upl'' (ie_draws env 0) = Inr i" for i using assms(3) that by blast
  from admit show ?thesis
  proof (cases rule: create_admit_cases)
    case (refused err)
    with assms(1) admit show ?thesis by (auto simp: create_def undone_refl)
  next
    case (locked n d)
    show ?thesis
    proof (rule admit_locked_cases [OF locked(10) assms(2) fr])
      fix e assume "out = Existing (pr_upload e)" "m1 = m"
      with assms(1) admit show ?thesis by (auto simp: create_def)
    next
      fix err assume "out = Refused err" "\<exists>r'. m1 = m\<lparr>mg_repo := r'\<rparr> \<and> expired_dropped (truncate_us (ie_now env)) (mg_repo m) r'"
      with assms(1) admit show ?thesis by (auto simp: create_def intro: undone_repo)
    next
      fix i corr e q
      assume i: "fresh_upload i m" and e: "e = new_entry i corr owner (hex_encode (p_sha256 P key)) n d (ie_now env)"
        and q: "q = (if expected > 0 then Some (reservation_for env e expected m) else None)"
        and new: "map_of (mg_idempotency m) (entry_index e) = None"
        and m1: "m1 = m\<lparr>mg_repo := admitted_repo e q (mg_repo m), mg_uploads := mput i e (mg_uploads m),
           mg_idempotency := mput (entry_index e) i (mg_idempotency m)\<rparr>"
        and out: "out = Admitted \<lparr>tk_entry = e, tk_index = entry_index e, tk_expected = expected,
           tk_remaining = add64 (mg_max_upload m) 1, tk_reserved = 0, tk_received = 0, tk_header = [], tk_content = []\<rparr>"
      obtain as where as: "source = Some as" using locked(5) by blast
      obtain out' where store: "create_store P env as \<lparr>tk_entry = e, tk_index = entry_index e, tk_expected = expected,
         tk_remaining = add64 (mg_max_upload m) 1, tk_reserved = 0, tk_received = 0, tk_header = [], tk_content = []\<rparr> m1 = (m', out')"
        and res: "res = (case out' of Inl err \<Rightarrow> Inl err | Inr u \<Rightarrow> Inr (u, False))"
        using assms(1) admit out as by (auto simp: create_def split: prod.splits sum.splits)
      have now: "\<forall>c. q = Some c \<longrightarrow> cr_now c = truncate_us (ie_now env)" by (simp add: q reservation_for_def Let_def)
      have "map_of (mg_quarantine m) (pr_object e) = None" using i by (simp add: fresh_upload_def e new_entry_def)
      with create_store_memory [OF store assms(2) i e new m1 refl now assms(4,5)] res show ?thesis
        by (auto intro: undone_left_over)
    qed
  qed
qed


end
