(* ===== verification/OrphanProofs.thy ===== *)
theory OrphanProofs
  imports OrphanObjects
begin

text \<open>
  What the deletion of an untracked object and its resumption may do to a storage directory. Both the
  quarantine directory of the upload manager and the protected store rely on it.
\<close>

definition untracked_in :: "platform \<Rightarrow> string \<Rightarrow> string list \<Rightarrow> duration \<Rightarrow> time \<Rightarrow> candidate \<Rightarrow> bool" where
  "untracked_in P zone tracked minimumAge now c \<longleftrightarrow>
     (\<exists>name ob. name \<notin> set tracked \<and> so_kind ob = RegularFile \<and> c = candidate_of P zone minimumAge now name ob)"

lemma scan_orphans_sound:
  "scan_orphans P io zone tracked minimumAge now root = Inr cs \<Longrightarrow> list_all (untracked_in P zone tracked minimumAge now) cs"
proof (induction root arbitrary: cs)
  case (Cons entry root)
  obtain name ob where e: "entry = (name, ob)" by fastforce
  have "untracked_in P zone tracked minimumAge now (candidate_of P zone minimumAge now name ob)"
    if "name \<notin> set tracked" "so_kind ob = RegularFile"
    using that unfolding untracked_in_def by blast
  with Cons show ?case by (auto simp: e split: if_splits option.splits sum.splits)
qed simp

lemma orphan_List_sound:
  assumes "orphan_List P io root zone tracked minimumAge now = Inr cs" "c \<in> set cs"
  shows "untracked_in P zone tracked minimumAge now c"
proof -
  from assms(1) obtain cs' where "scan_orphans P io zone tracked minimumAge now root = Inr cs'" "set cs = set cs'"
    by (auto simp: orphan_List_def split: option.splits sum.splits)
  with assms(2) scan_orphans_sound [of P io zone tracked minimumAge now root cs'] show ?thesis by (auto simp: list_all_iff)
qed

lemma candidate_of_simps [simp]:
  "cd_storage_object (candidate_of P zone minimumAge now name ob) = name"
  "cd_size (candidate_of P zone minimumAge now name ob) = object_size ob"
  "cd_modified_at (candidate_of P zone minimumAge now name ob) = truncate_us (so_modified ob)"
  "cd_eligible (candidate_of P zone minimumAge now name ob) \<longleftrightarrow> truncate_us (so_modified ob) \<le> now - minimumAge"
  "cd_token (candidate_of P zone minimumAge now name ob) = orphan_token P zone name (object_size ob) (truncate_us (so_modified ob))"
  by (simp_all add: candidate_of_def Let_def not_less)

lemma unchanged_present:
  "unchanged root name n t \<Longrightarrow> \<exists>ob. map_of root name = Some ob \<and> so_kind ob = RegularFile \<and> object_size ob = n \<and> truncate_us (so_modified ob) = t"
  by (auto simp: unchanged_def lstat_def split: option.splits if_splits)

text \<open>What was deleted: one regular object, untracked in both views, old enough, and named by the token.\<close>

definition removable ::
    "platform \<Rightarrow> directory \<Rightarrow> string \<Rightarrow> string list \<Rightarrow> string \<Rightarrow> duration \<Rightarrow> time \<Rightarrow> (string \<Rightarrow> 'e + bool) option \<Rightarrow> string \<Rightarrow> bool" where
  "removable P root zone tracked token minimumAge now query name \<longleftrightarrow> name \<notin> set tracked
     \<and> (case query of None \<Rightarrow> True | Some q \<Rightarrow> q name = Inr False)
     \<and> (case map_of root name of None \<Rightarrow> False
        | Some ob \<Rightarrow> so_kind ob = RegularFile \<and> truncate_us (so_modified ob) \<le> now - minimumAge
            \<and> token = orphan_token P zone name (object_size ob) (truncate_us (so_modified ob)))"

lemma orphan_Delete_cases:
  assumes "orphan_Delete P io root zone tracked token minimumAge now query = (root', res)"
  obtains (kept) e where "root' = root" "res = Inl e"
  | (removed) name c where "root' = mdelete name root" "res = Inr c" "cd_token c = token"
      "removable P root zone tracked token minimumAge now query name"
proof (cases "orphan_List P io root zone tracked minimumAge now")
  case (Inl e)
  with assms show ?thesis by (intro kept) (auto simp: orphan_Delete_def)
next
  case (Inr cs)
  show ?thesis
  proof (cases "find (\<lambda>c. cd_token c = token) cs")
    case None
    with Inr assms show ?thesis by (intro kept) (auto simp: orphan_Delete_def)
  next
    case (Some c)
    then have tok: "cd_token c = token" and "c \<in> set cs" by (auto simp: find_Some_iff)
    from orphan_List_sound [OF Inr \<open>c \<in> set cs\<close>] obtain name ob where c: "name \<notin> set tracked" "so_kind ob = RegularFile"
      "c = candidate_of P zone minimumAge now name ob" by (auto simp: untracked_in_def)
    define q where "q = (case query of None \<Rightarrow> Inr False | Some f \<Rightarrow> f name)"
    have name: "cd_storage_object c = name" by (simp add: c(3))
    have D: "orphan_Delete P io root zone tracked token minimumAge now query =
        (if \<not> cd_eligible c then (root, Inl (Inr ErrTooYoung))
         else case q of Inl e \<Rightarrow> (root, Inl (Inl e)) | Inr True \<Rightarrow> (root, Inl (Inr ErrOrphanNotFound))
         | Inr False \<Rightarrow> if io LstatObject \<noteq> None \<or> \<not> unchanged root name (cd_size c) (cd_modified_at c) then (root, Inl (Inr ErrOrphanNotFound))
            else case io (RemoveObject name) of Some m \<Rightarrow> (root, Inl (Inr (OrphanIO m)))
            | None \<Rightarrow> (mdelete name root, Inr (c\<lparr>cd_storage_object := []\<rparr>)))"
      unfolding orphan_Delete_def Inr q_def name [symmetric] by (simp add: Some)
    show ?thesis
    proof (cases "cd_eligible c \<and> q = Inr False \<and> io LstatObject = None
        \<and> unchanged root name (cd_size c) (cd_modified_at c) \<and> io (RemoveObject name) = None")
      case True
      then have "root' = mdelete name root" "res = Inr (c\<lparr>cd_storage_object := []\<rparr>)" using assms unfolding D by auto
      moreover from True unchanged_present [of root name "cd_size c" "cd_modified_at c"]
      have "removable P root zone tracked token minimumAge now query name"
        using c tok by (auto simp: removable_def q_def split: option.splits)
      ultimately show ?thesis using tok by (intro removed [of name "c\<lparr>cd_storage_object := []\<rparr>"]) simp_all
    next
      case False
      then have "root' = root \<and> (\<exists>e. res = Inl e)"
        using assms unfolding D by (auto split: sum.splits bool.splits option.splits if_splits)
      then show ?thesis using kept by blast
    qed
  qed
qed

lemma orphan_Resume_cases:
  assumes "orphan_Resume io root name n t query = (root', res)"
  obtains (kept) "root' = root"
  | (removed) "root' = mdelete name root" "res = Inr \<lparr>ro_status = ''completed'', ro_reason_code = ''untracked_object_removed''\<rparr>"
      "case query of None \<Rightarrow> True | Some q \<Rightarrow> q name = Inr False" "unchanged root name n (truncate_us t)"
proof -
  define q where "q = (case query of None \<Rightarrow> Inr False | Some f \<Rightarrow> f name)"
  have "root' = root \<or> root' = mdelete name root \<and> res = Inr \<lparr>ro_status = ''completed'', ro_reason_code = ''untracked_object_removed''\<rparr>
      \<and> q = Inr False \<and> unchanged root name n (truncate_us t)"
    using assms unfolding orphan_Resume_def q_def [symmetric]
    by (auto split: if_splits sum.splits bool.splits option.splits)
  then show ?thesis using kept removed by (auto simp: q_def split: option.splits)
qed

end
