(* ===== verification/IngestMachine.thy ===== *)
theory IngestMachine
  imports IngestReception OrphanProofs
begin

text \<open>
  The manager with its goroutines: a pool of jobs any of which may take its next step, while uploads are
  received, quotas change and orphans are removed. The invariant of the pool relates, for every upload,
  how far its job has got, what readers see, what the repository holds and whether the plaintext is there.
\<close>

section \<open>The pool\<close>

fun job_upload :: "job \<Rightarrow> string" where
  "job_upload (InspectBegin i) = i"
| "job_upload (InspectStarted e) = record_id e"
| "job_upload (Scanning i _) = i"
| "job_upload (Deciding i _) = i"
| "job_upload (InspectCompleted e) = record_id e"
| "job_upload (Publishing e) = record_id e"
| "job_upload (Settling e) = record_id e"
| "job_upload (ProtectBegin i) = i"
| "job_upload (ProtectStarted e) = record_id e"
| "job_upload (Protecting e) = record_id e"
| "job_upload (ProtectFinish i) = i"
| "job_upload (ProtectCompleted e) = record_id e"
| "job_upload (Discarding e) = record_id e"
| "job_upload (FailPersistence i) = i"
| "job_upload (PersistenceFailed e) = record_id e"
| "job_upload (FailProtection i _) = i"
| "job_upload (ProtectionFailed e) = record_id e"
| "job_upload Finished = []"

definition running :: "job \<Rightarrow> job list" where
  "running j = (if j = Finished then [] else [j])"

text \<open>
  One step of the pool: a job goes on, with whatever its surroundings do to it; an upload is received, or its
  reception fails; an orphan is deleted; a quota changes; an operator lists the resources. A reception is
  one step here: until it succeeds its upload has no job, and after a failure nothing of it is left but,
  when it cannot be removed, an object nobody tracks. The identifiers drawn are fresh.
\<close>

type_synonym 'p pool = "job list \<times> (memory_ingest, 'p) manager"

inductive go_step :: "platform \<Rightarrow> 'p pool \<Rightarrow> 'p pool \<Rightarrow> bool" for P where
  Go: "job_step P env j m = (m', j') \<Longrightarrow> go_step P (xs @ j # ys, m) (xs @ running j' @ ys, m')"

inductive pool_step :: "platform \<Rightarrow> 'p pool \<Rightarrow> 'p pool \<Rightarrow> bool" for P where
  Job: "go_step P s s' \<Longrightarrow> pool_step P s s'"
| Received: "create P env owner key name media source expected m = (m', Inr (u, False)) \<Longrightarrow>
    (\<forall>i. randomID ''upl'' (ie_draws env 0) = Inr i \<longrightarrow> fresh_upload i m) \<Longrightarrow> pool_step P (js, m) (InspectBegin (up_id u) # js, m')"
| NotReceived: "create P env owner key name media source expected m = (m', res) \<Longrightarrow> (\<forall>u. res \<noteq> Inr (u, False)) \<Longrightarrow>
    (\<forall>i. randomID ''upl'' (ie_draws env 0) = Inr i \<longrightarrow> fresh_upload i m) \<Longrightarrow> pool_step P (js, m) (js, m')"
| Orphan: "quarantine_DeleteOrphan P io token minimumAge now m = (m', res) \<Longrightarrow> pool_step P (js, m) (js, m')"
| Resume: "ResumeOrphanReconciliation io operation m = (m', res) \<Longrightarrow> pool_step P (js, m) (js, m')"
| SetQuota: "SetOwnerQuotaAudited owner quota i m = (m', res) \<Longrightarrow> pool_step P (js, m) (js, m')"
| ResetQuota: "ResetOwnerQuotaAudited owner i m = (m', res) \<Longrightarrow> pool_step P (js, m) (js, m')"
| Listing: "ListAdminResources P io now search limit offset m = (m', res) \<Longrightarrow> pool_step P (js, m) (js, m')"

inductive_cases go_stepE: "go_step P s s'"

section \<open>Phases\<close>

definition same_entry :: "persisted_record \<Rightarrow> persisted_record \<Rightarrow> bool" where
  "same_entry a b \<longleftrightarrow> record_id a = record_id b \<and> pr_object a = pr_object b \<and> pr_owner_id a = pr_owner_id b
     \<and> pr_idempotency_hash a = pr_idempotency_hash b"

text \<open>\<open>conn\<close>: there is a protected store; \<open>e\<close>: the tracked entry; \<open>r\<close>: the repository's row.\<close>

fun phase_ok :: "bool \<Rightarrow> job \<Rightarrow> persisted_record \<Rightarrow> persisted_record \<Rightarrow> bool" where
  "phase_ok conn (InspectBegin i) e r \<longleftrightarrow> record_status e \<in> {StatusQuarantined, StatusInspecting} \<and> r = e"
| "phase_ok conn (InspectStarted t) e r \<longleftrightarrow> record_status e = StatusInspecting \<and> t = e"
| "phase_ok conn (Scanning i _) e r \<longleftrightarrow> record_status e = StatusInspecting \<and> r = e"
| "phase_ok conn (Deciding i _) e r \<longleftrightarrow> record_status e = StatusInspecting \<and> r = e"
| "phase_ok conn (InspectCompleted t) e r \<longleftrightarrow> record_status e = StatusInspecting \<and> r = e \<and> t = e\<lparr>pr_upload := pr_upload t\<rparr>
     \<and> record_status t \<in> {StatusFailed, StatusRejected, StatusAccepted}"
| "phase_ok conn (Publishing t) e r \<longleftrightarrow> record_status e = StatusInspecting \<and> r = t \<and> t = e\<lparr>pr_upload := pr_upload t\<rparr>
     \<and> record_status t \<in> {StatusFailed, StatusRejected, StatusAccepted}"
| "phase_ok conn (Settling t) e r \<longleftrightarrow> r = e \<and> t = e \<and> record_status t \<in> {StatusFailed, StatusRejected, StatusAccepted}"
| "phase_ok conn (ProtectBegin i) e r \<longleftrightarrow> record_status e \<in> {StatusAccepted, StatusEncrypting} \<and> r = e \<and> conn"
| "phase_ok conn (ProtectStarted t) e r \<longleftrightarrow> record_status e = StatusEncrypting \<and> t = e \<and> conn"
| "phase_ok conn (Protecting t) e r \<longleftrightarrow> record_status e = StatusEncrypting \<and> t = e \<and> r = e \<and> conn"
| "phase_ok conn (ProtectFinish i) e r \<longleftrightarrow> record_status e = StatusEncrypting \<and> r = e \<and> conn"
| "phase_ok conn (ProtectCompleted t) e r \<longleftrightarrow> record_status e = StatusStored \<and> t = e \<and> conn"
| "phase_ok conn (Discarding t) e r \<longleftrightarrow> t = e \<and> record_status e \<in> {StatusFailed, StatusRejected, StatusStored}
     \<and> (record_status e \<noteq> StatusFailed \<longrightarrow> r = e)"
| "phase_ok conn (FailPersistence i) e r \<longleftrightarrow> record_status e \<in> {StatusInspecting, StatusEncrypting, StatusStored}"
| "phase_ok conn (PersistenceFailed t) e r \<longleftrightarrow> record_status e = StatusFailed \<and> t = e"
| "phase_ok conn (FailProtection i _) e r \<longleftrightarrow> record_status e = StatusEncrypting"
| "phase_ok conn (ProtectionFailed t) e r \<longleftrightarrow> record_status e = StatusFailed \<and> t = e"
| "phase_ok conn Finished e r \<longleftrightarrow> (record_status e \<in> {StatusFailed, StatusRejected, StatusStored}
     \<or> record_status e \<in> {StatusAccepted, StatusEncrypting} \<and> \<not> conn) \<and> (record_status e \<noteq> StatusFailed \<longrightarrow> r = e)"

text \<open>What a step of a job may do: the entry and the row of its own upload, its object, its reservation, the store.\<close>

definition upload_object :: "string \<Rightarrow> string" where
  "upload_object i = i @ ''.upload''"

definition own_effect ::
    "string \<Rightarrow> persisted_record \<Rightarrow> persisted_record \<Rightarrow> (memory_ingest, 'p) manager \<Rightarrow> (memory_ingest, 'p) manager \<Rightarrow> bool" where
  "own_effect i e r m m' \<longleftrightarrow> (\<exists>rs qu st dl. m' = m\<lparr>mg_uploads := mput i e (mg_uploads m),
       mg_repo := (mg_repo m)\<lparr>mr_records := mput i r (mr_records (mg_repo m)), mr_reservations := rs\<rparr>,
       mg_quarantine := qu, mg_store := st, mg_delivered := dl\<rparr>
     \<and> (rs = mr_reservations (mg_repo m) \<or> rs = mdelete i (mr_reservations (mg_repo m)))
     \<and> (qu = mg_quarantine m \<or> qu = mdelete (upload_object i) (mg_quarantine m) \<and> \<not> pending (record_status e))
     \<and> (st = None) = (mg_store m = None))"

lemma own_effectI:
  assumes "m' = m\<lparr>mg_uploads := mput i e (mg_uploads m),
       mg_repo := (mg_repo m)\<lparr>mr_records := mput i r (mr_records (mg_repo m)), mr_reservations := rs\<rparr>,
       mg_quarantine := qu, mg_store := st, mg_delivered := dl\<rparr>"
    and "rs = mr_reservations (mg_repo m) \<or> rs = mdelete i (mr_reservations (mg_repo m))"
    and "qu = mg_quarantine m \<or> qu = mdelete (upload_object i) (mg_quarantine m) \<and> \<not> pending (record_status e)"
    and "(st = None) = (mg_store m = None)"
  shows "own_effect i e r m m'"
  unfolding own_effect_def by (intro exI [of _ rs] exI [of _ qu] exI [of _ st] exI [of _ dl] conjI assms)

text \<open>The hypotheses of the step lemmas: the job's upload is tracked and has its row.\<close>

definition tracked :: "string \<Rightarrow> persisted_record \<Rightarrow> persisted_record \<Rightarrow> (memory_ingest, 'p) manager \<Rightarrow> bool" where
  "tracked i e r m \<longleftrightarrow> mg_ops m = memory_ingest_ops \<and> wf_map (mg_uploads m) \<and> wf_map (mr_records (mg_repo m))
     \<and> map_of (mg_uploads m) i = Some e \<and> map_of (mr_records (mg_repo m)) i = Some r
     \<and> record_id e = i \<and> pr_object e = upload_object i \<and> same_entry e r"

lemma pending_simps [simp]:
  "pending StatusQuarantined" "pending StatusInspecting" "pending StatusAccepted" "pending StatusEncrypting"
  "\<not> pending StatusStored" "\<not> pending StatusRejected" "\<not> pending StatusFailed"
  by (simp_all add: pending_def)

lemma same_entry_refl [simp]: "same_entry e e"
  by (simp add: same_entry_def)

lemma same_entry_upload [simp]: "up_id u = record_id e \<Longrightarrow> same_entry e (e\<lparr>pr_upload := u\<rparr>)"
  by (simp add: same_entry_def)

lemma set_outcome_same [simp]:
  "record_id (set_outcome s p reason e) = record_id e" "pr_object (set_outcome s p reason e) = pr_object e"
  "record_status (set_outcome s p reason e) = s" "same_entry e (set_outcome s p reason e)"
  "record_id (set_progress s p e) = record_id e" "pr_object (set_progress s p e) = pr_object e"
  "record_status (set_progress s p e) = s" "same_entry e (set_progress s p e)"
  by (simp_all add: set_outcome_def set_progress_def same_entry_def)

lemma unchanged_effect: "tracked i e r m \<Longrightarrow> own_effect i e r m m"
  by (rule own_effectI [where rs = "mr_reservations (mg_repo m)" and qu = "mg_quarantine m" and st = "mg_store m" and dl = "mg_delivered m"])
    (simp_all add: tracked_def mput_same)

lemma entry_effect: "tracked i e r m \<Longrightarrow> own_effect i e' r m (m\<lparr>mg_uploads := mput i e' (mg_uploads m)\<rparr>)"
  by (rule own_effectI [where rs = "mr_reservations (mg_repo m)" and qu = "mg_quarantine m" and st = "mg_store m" and dl = "mg_delivered m"])
    (simp_all add: tracked_def mput_same)

lemma persist_effect:
  assumes "tracked i e r m" "persistLifecycle env t ev m = (m', res)" "record_id t = i"
  shows "(\<exists>err. res = Inl err) \<and> m' = m \<or> res = Inr () \<and> own_effect i e t m m'"
proof -
  have ops: "mg_ops m = memory_ingest_ops" using assms(1) by (simp add: tracked_def)
  have "own_effect i e t m (m\<lparr>mg_repo := (mg_repo m)\<lparr>mr_records := mput i t (mr_records (mg_repo m))\<rparr>, mg_delivered := dl\<rparr>)" for dl
    by (rule own_effectI [where rs = "mr_reservations (mg_repo m)" and qu = "mg_quarantine m" and st = "mg_store m" and dl = dl])
      (use assms(1) in \<open>simp_all add: tracked_def mput_same\<close>)
  with persist_memory [OF assms(2) ops] assms(3) show ?thesis by auto
qed

lemma release_effect:
  assumes "tracked i e r m"
  shows "own_effect i e r m (release_capacity i m)"
  by (rule own_effectI [where rs = "mdelete i (mr_reservations (mg_repo m))" and qu = "mg_quarantine m" and st = "mg_store m" and dl = "mg_delivered m"])
    (use assms in \<open>simp_all add: tracked_def mput_same release_capacity_def ingest_ReleaseCapacity_def\<close>)

lemma discard_effect:
  assumes "tracked i e r m" "discard env e m = (m', j')" "\<not> pending (record_status e)"
  shows "own_effect i e r m m'" "j' = Finished"
proof -
  define qu where "qu = (if ie_faults env RemoveQuarantine = None then mdelete (upload_object i) (mg_quarantine m) else mg_quarantine m)"
  show "own_effect i e r m m'"
    by (rule own_effectI [where rs = "mdelete i (mr_reservations (mg_repo m))" and qu = qu and st = "mg_store m" and dl = "mg_delivered m"])
      (use assms in \<open>auto simp: tracked_def mput_same discard_def release_capacity_def remove_quarantined_def ingest_ReleaseCapacity_def qu_def\<close>)
  show "j' = Finished" using assms(2) by (simp add: discard_def)
qed

lemma store_effect:
  assumes "tracked i e r m" "st = None \<longleftrightarrow> mg_store m = None"
  shows "own_effect i e r m (m\<lparr>mg_store := st\<rparr>)"
  by (rule own_effectI [where rs = "mr_reservations (mg_repo m)" and qu = "mg_quarantine m" and st = st and dl = "mg_delivered m"])
    (use assms in \<open>simp_all add: tracked_def mput_same\<close>)

lemma protect_write_cases:
  assumes "protect_write P env e m = (m', j')"
  obtains (kept) reason where "m' = m" "j' = FailProtection (record_id e) reason"
  | (wrote) st st' where "mg_store m = Some st" "m' = m\<lparr>mg_store := Some st'\<rparr>"
      "j' = ProtectFinish (record_id e) \<or> (\<exists>reason. j' = FailProtection (record_id e) reason)"
proof (cases "ie_faults env OpenPlaintext = None \<and> map_of (mg_quarantine m) (pr_object e) \<noteq> None \<and> mg_store m \<noteq> None")
  case False
  then have "protect_write P env e m = (m, FailProtection (record_id e) ''quarantine_object_missing'')"
    by (cases "ie_faults env OpenPlaintext"; cases "map_of (mg_quarantine m) (pr_object e)"; cases "mg_store m")
      (simp_all add: protect_write_def)
  with assms have "m' = m" "j' = FailProtection (record_id e) ''quarantine_object_missing''" by auto
  then show ?thesis by (rule kept)
next
  case True
  then obtain ob st where ob: "ie_faults env OpenPlaintext = None" "map_of (mg_quarantine m) (pr_object e) = Some ob" "mg_store m = Some st"
    by auto
  obtain st1 res where p: "Protect P (ie_surroundings env) (request_of e) (Some (quarantine_reader ob)) st = (st1, res)" by fastforce
  show ?thesis
  proof (cases "\<exists>md. res = Inr md \<and> ie_faults env ClosePlaintext = None")
    case False
    with ob p have "protect_write P env e m = (m\<lparr>mg_store := Some st1\<rparr>, FailProtection (record_id e) ''protection_unavailable'')"
      by (cases res) (simp_all add: protect_write_def Let_def)
    with assms have "m' = m\<lparr>mg_store := Some st1\<rparr>" "j' = FailProtection (record_id e) ''protection_unavailable''" by auto
    then show ?thesis by (intro wrote [OF ob(3)]) auto
  next
    case True
    then obtain md where md: "res = Inr md" "ie_faults env ClosePlaintext = None" by blast
    obtain st2 res2 where r: "RegisterInitial (ie_file_draw env) (pr_owner_id e) (up_name (pr_upload e)) md st1 = (st2, res2)" by fastforce
    have "protect_write P env e m = (m\<lparr>mg_store := Some st2\<rparr>, (case res2 of Inl _ \<Rightarrow> FailProtection (record_id e) ''version_catalog_unavailable''
        | Inr _ \<Rightarrow> ProtectFinish (record_id e)))"
      using ob p md r by (simp add: protect_write_def Let_def split: sum.split)
    with assms have "m' = m\<lparr>mg_store := Some st2\<rparr>" "j' = (case res2 of Inl _ \<Rightarrow> FailProtection (record_id e) ''version_catalog_unavailable''
        | Inr _ \<Rightarrow> ProtectFinish (record_id e))" by auto
    then show ?thesis by (intro wrote [OF ob(3)]) (auto split: sum.splits)
  qed
qed

lemma protect_write_effect:
  assumes "tracked i e r m" "protect_write P env e m = (m', j')"
  shows "own_effect i e r m m' \<and> (j' = ProtectFinish i \<or> (\<exists>reason. j' = FailProtection i reason))"
  using assms(2)
proof (cases rule: protect_write_cases)
  case (kept reason)
  with assms(1) unchanged_effect [OF assms(1)] show ?thesis by (simp add: tracked_def)
next
  case (wrote st st')
  with assms(1) store_effect [OF assms(1), of "Some st'"] show ?thesis by (simp add: tracked_def)
qed

text \<open>One step of a job keeps it in phase with its upload.\<close>

definition in_step :: "bool \<Rightarrow> string \<Rightarrow> persisted_record \<Rightarrow> (memory_ingest, 'p) manager \<Rightarrow> (memory_ingest, 'p) manager \<times> job \<Rightarrow> bool" where
  "in_step conn i e m out \<longleftrightarrow> (case out of (m', j') \<Rightarrow> \<exists>e' r'. own_effect i e' r' m m' \<and> phase_ok conn j' e' r'
     \<and> same_entry e e' \<and> same_entry e r' \<and> (pending (record_status e') \<longrightarrow> pending (record_status e))
     \<and> (j' \<noteq> Finished \<longrightarrow> job_upload j' = i))"

lemma in_stepI:
  "own_effect i e' r' m m' \<Longrightarrow> phase_ok conn j' e' r' \<Longrightarrow> same_entry e e' \<Longrightarrow> same_entry e r' \<Longrightarrow> (j' \<noteq> Finished \<Longrightarrow> job_upload j' = i) \<Longrightarrow>
     (pending (record_status e') \<Longrightarrow> pending (record_status e)) \<Longrightarrow> in_step conn i e m (m', j')"
  unfolding in_step_def by blast

lemma track_in_step:
  assumes "tracked i e r m" "phase_ok conn (next' (change e)) (change e) r" "same_entry e (change e)"
    and "next' (change e) \<noteq> Finished \<Longrightarrow> job_upload (next' (change e)) = i"
    and "pending (record_status (change e)) \<Longrightarrow> pending (record_status e)"
  shows "in_step conn i e m (track i change next' m)"
proof -
  have "track i change next' m = (m\<lparr>mg_uploads := mput i (change e) (mg_uploads m)\<rparr>, next' (change e))"
    using assms(1) by (simp add: track_def tracked_def)
  moreover have "same_entry e r" using assms(1) by (simp add: tracked_def)
  ultimately show ?thesis using assms entry_effect [OF assms(1)] by (auto intro: in_stepI)
qed

lemma persist_in_step:
  assumes "tracked i e r m" "same_entry e t" "phase_ok conn next' e t" "phase_ok conn (FailPersistence i) e r"
    and "next' \<noteq> Finished \<Longrightarrow> job_upload next' = i"
  shows "in_step conn i e m (persist_or_fail env t ev next' m)"
proof -
  obtain m1 res where p: "persistLifecycle env t ev m = (m1, res)" by fastforce
  have er: "same_entry e r" using assms(1) by (simp add: tracked_def)
  have t: "record_id t = i" using assms(1,2) by (simp add: tracked_def same_entry_def)
  from persist_effect [OF assms(1) p t] show ?thesis
  proof
    assume "(\<exists>err. res = Inl err) \<and> m1 = m"
    then have "persist_or_fail env t ev next' m = (m, FailPersistence i)" using p t by (auto simp: persist_or_fail_def)
    with unchanged_effect [OF assms(1)] assms(4) er show ?thesis by (auto intro: in_stepI)
  next
    assume "res = Inr () \<and> own_effect i e t m m1"
    moreover from this have "persist_or_fail env t ev next' m = (m1, next')" using p by (simp add: persist_or_fail_def)
    ultimately show ?thesis using assms(2,3,5) by (auto intro: in_stepI)
  qed
qed

lemma stay_in_step:
  assumes "tracked i e r m" "phase_ok conn j' e r" "j' \<noteq> Finished \<Longrightarrow> job_upload j' = i"
  shows "in_step conn i e m (m, j')"
  by (rule in_stepI [OF unchanged_effect [OF assms(1)] assms(2)]) (use assms in \<open>simp_all add: tracked_def\<close>)

lemma verdict_simps: "verdict conn res e = e\<lparr>pr_upload := pr_upload (verdict conn res e)\<rparr>" "record_id (verdict conn res e) = record_id e"
  "record_status (verdict conn res e) \<in> {StatusFailed, StatusRejected, StatusAccepted}"
  by (auto simp: verdict_def set_outcome_def split: sum.split)

lemma discard_in_step:
  assumes "tracked i e r m" "phase_ok conn (Discarding e) e r"
  shows "in_step conn i e m (discard env e m)"
proof -
  obtain m' j' where d: "discard env e m = (m', j')" by fastforce
  have "\<not> pending (record_status e)" using assms(2) by (auto simp: pending_def)
  note discard_effect [OF assms(1) d this]
  with assms d show ?thesis by (auto simp: tracked_def intro: in_stepI)
qed

lemma job_in_step:
  assumes t: "tracked (record_id e) e r m" and ph: "phase_ok conn j e r" and j: "j \<noteq> Finished" "job_upload j = record_id e" and conn: "conn = (mg_store m \<noteq> None)"
  shows "in_step conn (record_id e) e m (job_step P env j m)"
proof -
  have T: "record_id e = record_id e" "pr_object e = upload_object (record_id e)" "same_entry e r" "map_of (mg_uploads m) (record_id e) = Some e" "mg_ops m = memory_ingest_ops"
    using t by (simp_all add: tracked_def)
  show ?thesis
  proof (cases j)
    case (InspectBegin k)
    with ph j T show ?thesis by (auto simp: inspect_begin_def intro!: track_in_step [OF t])
  next
    case (InspectStarted x)
    with ph j T show ?thesis by (auto simp: inspect_started_def intro!: persist_in_step [OF t])
  next
    case (Scanning k ev)
    with ph j T show ?thesis by (auto intro!: stay_in_step [OF t])
  next
    case (Deciding k res)
    then have k: "k = record_id e" "record_status e = StatusInspecting" "r = e" using ph j by auto
    have "job_step P env j m = (m, InspectCompleted (verdict conn res e))"
      using Deciding k T(4) by (simp add: inspect_decide_def conn)
    moreover have "phase_ok conn (InspectCompleted (verdict conn res e)) e r"
      using k verdict_simps [of conn res e] by simp
    ultimately show ?thesis using stay_in_step [OF t, of conn "InspectCompleted (verdict conn res e)"] verdict_simps(2) [of conn res e] by simp
  next
    case (InspectCompleted x)
    with ph j T have "same_entry e x" by (metis job_upload.simps(5) phase_ok.simps(5) same_entry_upload)
    with InspectCompleted ph j T show ?thesis by (auto simp: inspect_completed_def intro!: persist_in_step [OF t])
  next
    case (Publishing x)
    then have x: "x = e\<lparr>pr_upload := pr_upload x\<rparr>" "r = x" "record_id x = record_id e" using ph j by auto
    then have "e\<lparr>pr_upload := pr_upload x\<rparr> = x" "same_entry e x" using T(3) by auto
    with Publishing ph j T x show ?thesis by (auto simp: inspect_publish_def intro!: track_in_step [OF t])
  next
    case (Settling x)
    then have x: "x = e" "r = e" using ph by auto
    consider "record_status e = StatusFailed \<or> record_status e = StatusRejected" | "record_status e = StatusAccepted" "conn"
      | "record_status e = StatusAccepted" "\<not> conn" using ph Settling by auto
    then show ?thesis
    proof cases
      case 1
      with Settling x have "job_step P env j m = discard env e m" by (auto simp: inspect_settle_def Let_def)
      with discard_in_step [OF t, of conn env] 1 x show ?thesis by auto
    next
      case 2
      with Settling x T conn show ?thesis by (auto simp: inspect_settle_def Let_def intro!: stay_in_step [OF t])
    next
      case 3
      with Settling x T conn have "job_step P env j m = (release_capacity (record_id e) m, Finished)" by (auto simp: inspect_settle_def Let_def)
      with release_effect [OF t] 3 x T show ?thesis by (auto intro!: in_stepI)
    qed
  next
    case (ProtectBegin k)
    with ph j T show ?thesis by (auto simp: protect_begin_def intro!: track_in_step [OF t])
  next
    case (ProtectStarted x)
    with ph j T show ?thesis by (auto simp: protect_started_def intro!: persist_in_step [OF t])
  next
    case (Protecting x)
    obtain m' j' where w: "protect_write P env e m = (m', j')" by fastforce
    from protect_write_effect [OF t w] Protecting ph j T w show ?thesis by (auto intro!: in_stepI)
  next
    case (ProtectFinish k)
    with ph j T show ?thesis by (auto simp: protect_finish_def intro!: track_in_step [OF t])
  next
    case (ProtectCompleted x)
    with ph j T show ?thesis by (auto simp: protect_completed_def intro!: persist_in_step [OF t])
  next
    case (Discarding x)
    then have "x = e" using ph by auto
    with Discarding ph discard_in_step [OF t] show ?thesis by auto
  next
    case (FailPersistence k)
    with ph j T show ?thesis by (auto simp: fail_persistence_def intro!: track_in_step [OF t])
  next
    case (PersistenceFailed x)
    then have x: "x = e" "record_status e = StatusFailed" using ph by auto
    have "own_effect (record_id e) e e m (m\<lparr>mg_repo := fst (ingest_Update e (mg_repo m))\<rparr>)"
      by (rule own_effectI [where rs = "mr_reservations (mg_repo m)" and qu = "mg_quarantine m" and st = "mg_store m" and dl = "mg_delivered m"])
        (use t in \<open>simp_all add: tracked_def mput_same ingest_Update_def\<close>)
    with PersistenceFailed x T show ?thesis by (auto simp: persistence_failed_def intro!: in_stepI)
  next
    case (FailProtection k reason)
    with ph j T show ?thesis by (auto simp: fail_protection_def intro!: track_in_step [OF t])
  next
    case (ProtectionFailed x)
    then have x: "x = e" "record_status e = StatusFailed" using ph by auto
    obtain m1 res where p: "persistLifecycle env e (event_of e ''FILE_PROTECTION_FAILED'' ''failed'' (up_reason (pr_upload e)) StatusEncrypting StatusFailed) m
        = (m1, res)" by fastforce
    from persist_effect [OF t p T(1)] unchanged_effect [OF t] have "own_effect (record_id e) e r m m1 \<or> own_effect (record_id e) e e m m1" by auto
    with ProtectionFailed x T p show ?thesis by (auto simp: protection_failed_def intro!: in_stepI)
  qed (use j in simp)
qed


section \<open>The invariant of the pool\<close>

definition job_of :: "job list \<Rightarrow> string \<Rightarrow> job" where
  "job_of js i = mget Finished (map (\<lambda>j. (job_upload j, j)) js) i"

definition upload_ok :: "bool \<Rightarrow> job \<Rightarrow> string \<Rightarrow> persisted_record \<Rightarrow> (memory_ingest, 'p) manager \<Rightarrow> bool" where
  "upload_ok conn j i e m \<longleftrightarrow> (\<exists>r. map_of (mr_records (mg_repo m)) i = Some r \<and> same_entry e r \<and> phase_ok conn j e r)
     \<and> (pending (record_status e) \<longrightarrow> map_of (mg_quarantine m) (upload_object i) \<noteq> None)"

definition pool_ok :: "bool \<Rightarrow> 'p pool \<Rightarrow> bool" where
  "pool_ok conn s \<longleftrightarrow> (case s of (js, m) \<Rightarrow>
     ingest_invar m \<and> conn = (mg_store m \<noteq> None) \<and> 0 \<le> mg_max_upload m \<and> mg_max_upload m < int64_max
     \<and> distinct (map job_upload js) \<and> Finished \<notin> set js
     \<and> (\<forall>j \<in> set js. map_of (mg_uploads m) (job_upload j) \<noteq> None)
     \<and> (\<forall>i e. map_of (mg_uploads m) i = Some e \<longrightarrow> upload_ok conn (job_of js i) i e m))"

lemma map_job_keys: "fst ` set (map (\<lambda>j. (job_upload j, j)) js) = job_upload ` set js"
  by (auto simp: image_image)

lemma job_of_None: "i \<notin> job_upload ` set js \<Longrightarrow> job_of js i = Finished"
proof -
  assume "i \<notin> job_upload ` set js"
  then have "map_of (map (\<lambda>j. (job_upload j, j)) js) i = None" unfolding map_of_eq_None_iff map_job_keys .
  then show ?thesis by (simp add: job_of_def mget_def)
qed

lemma job_of_Cons: "job_of (j # js) i = (if job_upload j = i then j else job_of js i)"
  by (simp add: job_of_def mget_def)

lemma job_of_other: "job_upload j \<noteq> i \<Longrightarrow> job_of (xs @ j # ys) i = job_of (xs @ ys) i"
  by (induction xs) (simp_all add: job_of_Cons)

lemma job_of_at: "job_upload j \<notin> job_upload ` set xs \<Longrightarrow> job_of (xs @ j # ys) (job_upload j) = j"
  by (induction xs) (auto simp: job_of_Cons)

lemma job_of_running:
  assumes "distinct (map job_upload (xs @ j # ys))" "j' \<noteq> Finished \<Longrightarrow> job_upload j' = job_upload j"
  shows "job_of (xs @ running j' @ ys) i = (if i = job_upload j then j' else job_of (xs @ j # ys) i)"
proof (cases "j' = Finished")
  case True
  with assms(1) job_of_None [of "job_upload j" "xs @ ys"] show ?thesis by (auto simp: running_def job_of_other)
next
  case False
  with assms job_of_at [of j' xs ys] show ?thesis by (auto simp: running_def job_of_other)
qed

lemma job_of_upload: "job_of js i \<noteq> Finished \<Longrightarrow> job_of js i \<in> set js \<and> job_upload (job_of js i) = i"
  by (induction js) (auto simp: job_of_Cons job_of_def mget_def split: if_splits)

lemma pool_okD:
  assumes "pool_ok conn (js, m)"
  shows "ingest_invar m" "conn = (mg_store m \<noteq> None)" "0 \<le> mg_max_upload m" "mg_max_upload m < int64_max"
    "distinct (map job_upload js)" "Finished \<notin> set js"
    "\<And>j. j \<in> set js \<Longrightarrow> \<exists>e. map_of (mg_uploads m) (job_upload j) = Some e"
    "\<And>i e. map_of (mg_uploads m) i = Some e \<Longrightarrow> upload_ok conn (job_of js i) i e m"
  using assms by (auto simp: pool_ok_def)

lemma pool_okI:
  assumes "ingest_invar m" "conn = (mg_store m \<noteq> None)" "0 \<le> mg_max_upload m" "mg_max_upload m < int64_max"
    "distinct (map job_upload js)" "Finished \<notin> set js"
    "\<And>j. j \<in> set js \<Longrightarrow> map_of (mg_uploads m) (job_upload j) \<noteq> None"
    "\<And>i e. map_of (mg_uploads m) i = Some e \<Longrightarrow> upload_ok conn (job_of js i) i e m"
  shows "pool_ok conn (js, m)"
  using assms by (auto simp: pool_ok_def)

lemma tracked_at:
  assumes "pool_ok conn (js, m)" "map_of (mg_uploads m) i = Some e"
  obtains r where "tracked i e r m" "phase_ok conn (job_of js i) e r" "record_id e = i"
proof -
  note D = pool_okD [OF assms(1)] and I = ingest_invarD [OF pool_okD(1) [OF assms(1)]]
  from D(8) [OF assms(2)] obtain r where r: "map_of (mr_records (mg_repo m)) i = Some r" "same_entry e r" "phase_ok conn (job_of js i) e r"
    by (auto simp: upload_ok_def)
  have "tracked i e r m"
    using assms(2) r I cataloguedD [OF I(2) assms(2)] catalogued_wf [OF I(2)] catalogued_wf [OF I(3)]
    by (simp add: tracked_def upload_object_def)
  then show ?thesis by (rule that) (rule r(3), rule cataloguedD(1) [OF I(2) assms(2)])
qed

lemma upload_object_eq [simp]: "upload_object i = upload_object j \<longleftrightarrow> i = j"
  by (simp add: upload_object_def)

lemma own_effect_invar:
  assumes "ingest_invar m" "tracked i e r m" "own_effect i e' r' m m'" "same_entry e e'" "same_entry e r'"
  shows "ingest_invar m'"
proof -
  note I = ingest_invarD [OF assms(1)]
  from assms(3) obtain rs qu st dl where m': "m' = m\<lparr>mg_uploads := mput i e' (mg_uploads m),
       mg_repo := (mg_repo m)\<lparr>mr_records := mput i r' (mr_records (mg_repo m)), mr_reservations := rs\<rparr>,
       mg_quarantine := qu, mg_store := st, mg_delivered := dl\<rparr>"
    and rs: "rs = mr_reservations (mg_repo m) \<or> rs = mdelete i (mr_reservations (mg_repo m))"
    by (auto simp: own_effect_def)
  note T = assms(2) [unfolded tracked_def]
  have ix: "entry_index e' = entry_index e" "entry_index r' = entry_index r"
    using assms(4,5) T by (simp_all add: same_entry_def entry_index_def)
  have "catalogued (mput i e' (mg_uploads m)) (mg_idempotency m)"
    by (rule catalogued_replace [OF I(2)]) (use T assms(4) ix in \<open>auto simp: same_entry_def\<close>)
  moreover have "catalogued (mput i r' (mr_records (mg_repo m))) (mr_by_idempotency (mg_repo m))"
    by (rule catalogued_replace [OF I(3)]) (use T assms(5) ix in \<open>auto simp: same_entry_def\<close>)
  moreover have "wf_map rs" using rs I(5) by auto
  moreover have "map_of rs j = Some c \<Longrightarrow> map_of (mput i r' (mr_records (mg_repo m))) j \<noteq> None" for j c
    using rs I(6) [of j c] by (auto split: if_splits)
  ultimately show ?thesis using I(1,4,7) by (simp add: ingest_invar_def m')
qed

lemma own_effect_frame:
  assumes "own_effect i e' r' m m'"
  shows "map_of (mg_uploads m') k = (if k = i then Some e' else map_of (mg_uploads m) k)"
    "map_of (mr_records (mg_repo m')) k = (if k = i then Some r' else map_of (mr_records (mg_repo m)) k)"
    "k \<noteq> i \<or> pending (record_status e') \<Longrightarrow> map_of (mg_quarantine m') (upload_object k) = map_of (mg_quarantine m) (upload_object k)"
    "(mg_store m' = None) = (mg_store m = None)" "mg_max_upload m' = mg_max_upload m"
  using assms by (auto simp: own_effect_def)

lemma upload_ok_cong:
  "map_of (mr_records (mg_repo m')) i = map_of (mr_records (mg_repo m)) i \<Longrightarrow>
   map_of (mg_quarantine m') (upload_object i) = map_of (mg_quarantine m) (upload_object i) \<Longrightarrow> upload_ok conn j i e m \<Longrightarrow> upload_ok conn j i e m'"
  by (simp add: upload_ok_def)

text \<open>A step of a job, seen from the pool.\<close>

lemma go_effect:
  assumes "pool_ok conn (xs @ j # ys, m)" "job_step P env j m = (m', j')"
  obtains e r e' r' where "tracked (job_upload j) e r m" "phase_ok conn j e r" "own_effect (job_upload j) e' r' m m'" "phase_ok conn j' e' r'"
    "same_entry e e'" "same_entry e r'" "pending (record_status e') \<longrightarrow> pending (record_status e)" "j' \<noteq> Finished \<longrightarrow> job_upload j' = job_upload j"
proof -
  note D = pool_okD [OF assms(1)]
  obtain e where e: "map_of (mg_uploads m) (job_upload j) = Some e" using D(7) [of j] by auto
  obtain r where r: "tracked (job_upload j) e r m" "phase_ok conn j e r" "record_id e = job_upload j"
    by (rule tracked_at [OF assms(1) e]) (use D(5) in \<open>auto simp: job_of_at\<close>)
  have "j \<noteq> Finished" using D(6) by auto
  then have "in_step conn (job_upload j) e m (m', j')"
    using job_in_step [of e r m conn j P env, unfolded r(3) assms(2), OF r(1,2) _ refl D(2)] by blast
  then obtain e' r' where "own_effect (job_upload j) e' r' m m'" "phase_ok conn j' e' r'" "same_entry e e'" "same_entry e r'"
    "pending (record_status e') \<longrightarrow> pending (record_status e)" "j' \<noteq> Finished \<longrightarrow> job_upload j' = job_upload j"
    unfolding in_step_def by blast
  then show ?thesis by (rule that [OF r(1,2)])
qed

lemma go_step_ok:
  assumes "pool_ok conn s" "go_step P s s'"
  shows "pool_ok conn s'"
  using assms(2,1)
proof (cases rule: go_step.cases)
  case (Go env j m m' j' xs ys)
  have ok: "pool_ok conn (xs @ j # ys, m)" using assms(1) Go by simp
  note D = pool_okD [OF ok]
  obtain e r e' r' where T: "tracked (job_upload j) e r m" "phase_ok conn j e r" and E: "own_effect (job_upload j) e' r' m m'" and ph: "phase_ok conn j' e' r'"
    and same: "same_entry e e'" "same_entry e r'" and p: "pending (record_status e') \<longrightarrow> pending (record_status e)"
    and j': "j' \<noteq> Finished \<longrightarrow> job_upload j' = job_upload j"
    by (rule go_effect [OF ok Go(3)])
  note F = own_effect_frame [OF E]
  show ?thesis unfolding Go(2)
  proof (rule pool_okI)
    show "ingest_invar m'" by (rule own_effect_invar [OF D(1) T(1) E same])
    show "conn = (mg_store m' \<noteq> None)" "0 \<le> mg_max_upload m'" "mg_max_upload m' < int64_max" using D(2-4) F(4,5) by auto
    show "distinct (map job_upload (xs @ running j' @ ys))" "Finished \<notin> set (xs @ running j' @ ys)"
      using D(5,6) j' by (auto simp: running_def)
    fix k assume "k \<in> set (xs @ running j' @ ys)"
    then show "map_of (mg_uploads m') (job_upload k) \<noteq> None" using D(7) [of k] j' F(1) by (auto simp: running_def split: if_splits)
  next
    fix i f assume i: "map_of (mg_uploads m') i = Some f"
    have jr: "job_of (xs @ running j' @ ys) i = (if i = job_upload j then j' else job_of (xs @ j # ys) i)"
      by (rule job_of_running [OF D(5)]) (use j' in blast)
    show "upload_ok conn (job_of (xs @ running j' @ ys) i) i f m'"
    proof (cases "i = job_upload j")
      case True
      have old: "map_of (mg_uploads m) i = Some e" using T(1) True by (simp add: tracked_def)
      have er: "same_entry e' r'" using same by (simp add: same_entry_def)
      have "f = e'" using i F(1) True by simp
      with True ph er F(2) [of i] F(3) [of i] D(8) [OF old] p show ?thesis
        unfolding jr by (simp add: upload_ok_def)
    next
      case False
      then have "map_of (mg_uploads m) i = Some f" using i F(1) by simp
      from upload_ok_cong [OF _ _ D(8) [OF this], of m'] False F(2,3) [of i] show ?thesis unfolding jr by simp
    qed
  qed
qed


section \<open>The other steps\<close>

lemma pool_ok_frame:
  assumes "pool_ok conn (js, m)" "ingest_invar m'" "mg_uploads m' = mg_uploads m" "mr_records (mg_repo m') = mr_records (mg_repo m)"
    and "mg_store m' = mg_store m" "mg_max_upload m' = mg_max_upload m"
    and "\<And>i e. map_of (mg_uploads m) i = Some e \<Longrightarrow> pending (record_status e) \<Longrightarrow>
      map_of (mg_quarantine m') (upload_object i) = map_of (mg_quarantine m) (upload_object i)"
  shows "pool_ok conn (js, m')"
proof (rule pool_okI)
  note D = pool_okD [OF assms(1)]
  show "ingest_invar m'" by fact
  show "conn = (mg_store m' \<noteq> None)" "0 \<le> mg_max_upload m'" "mg_max_upload m' < int64_max" using D(2-4) assms(5,6) by simp_all
  show "distinct (map job_upload js)" "Finished \<notin> set js" using D(5,6) by auto
  show "map_of (mg_uploads m') (job_upload j) \<noteq> None" if "j \<in> set js" for j using D(7) [OF that] assms(3) by auto
  fix i e assume "map_of (mg_uploads m') i = Some e"
  then have e: "map_of (mg_uploads m) i = Some e" using assms(3) by simp
  from D(8) [OF e] assms(7) [OF e] assms(4) show "upload_ok conn (job_of js i) i e m'"
    by (auto simp: upload_ok_def)
qed

text \<open>Steps that may touch the directory, the quotas and the reservations only.\<close>

definition outside :: "(memory_ingest, 'p) manager \<Rightarrow> (memory_ingest, 'p) manager \<Rightarrow> bool" where
  "outside m m' \<longleftrightarrow> (\<exists>qu quotas stored rs ors. m' = m\<lparr>mg_quarantine := qu, mg_owner_quotas := quotas,
       mg_repo := (mg_repo m)\<lparr>mr_quotas := stored, mr_reservations := rs\<rparr>, mg_owner_reservations := ors\<rparr>
     \<and> wf_map rs \<and> (\<forall>i c. map_of rs i = Some c \<longrightarrow> map_of (mr_reservations (mg_repo m)) i = Some c)
     \<and> map_of ors = map_of (mg_owner_reservations m)
     \<and> (\<forall>i e. map_of (mg_uploads m) i = Some e \<longrightarrow> pending (record_status e) \<longrightarrow> map_of qu (upload_object i) = map_of (mg_quarantine m) (upload_object i)))"

lemma outside_invar:
  assumes "ingest_invar m" "outside m m'"
  shows "ingest_invar m'"
proof -
  note I = ingest_invarD [OF assms(1)]
  from assms(2) obtain qu quotas stored rs ors where m': "m' = m\<lparr>mg_quarantine := qu, mg_owner_quotas := quotas,
       mg_repo := (mg_repo m)\<lparr>mr_quotas := stored, mr_reservations := rs\<rparr>, mg_owner_reservations := ors\<rparr>"
    and rs: "wf_map rs" "\<forall>i c. map_of rs i = Some c \<longrightarrow> map_of (mr_reservations (mg_repo m)) i = Some c"
    and ors: "map_of ors = map_of (mg_owner_reservations m)"
    unfolding outside_def by auto
  have "map_of rs i = Some c \<Longrightarrow> map_of (mr_records (mg_repo m)) i \<noteq> None" for i c using rs(2) I(6) by blast
  with I(1-4,7) rs(1) show ?thesis by (simp add: ingest_invar_def m' ors)
qed

lemma outside_ok: "pool_ok conn (js, m) \<Longrightarrow> outside m m' \<Longrightarrow> pool_ok conn (js, m')"
  by (rule pool_ok_frame, assumption, erule (1) outside_invar [OF pool_okD(1)]) (auto simp: outside_def)

lemma outsideI:
  assumes "m' = m\<lparr>mg_quarantine := qu, mg_owner_quotas := quotas,
       mg_repo := (mg_repo m)\<lparr>mr_quotas := stored, mr_reservations := rs\<rparr>, mg_owner_reservations := ors\<rparr>"
    and "wf_map rs" "\<And>i c. map_of rs i = Some c \<Longrightarrow> map_of (mr_reservations (mg_repo m)) i = Some c"
    and "map_of ors = map_of (mg_owner_reservations m)"
    and "\<And>i e. map_of (mg_uploads m) i = Some e \<Longrightarrow> pending (record_status e) \<Longrightarrow> map_of qu (upload_object i) = map_of (mg_quarantine m) (upload_object i)"
  shows "outside m m'"
  unfolding outside_def using assms by blast

lemma directory_outside:
  assumes "wf_map (mr_reservations (mg_repo m))"
    and "\<And>i e. map_of (mg_uploads m) i = Some e \<Longrightarrow> map_of qu (upload_object i) = map_of (mg_quarantine m) (upload_object i)"
  shows "outside m (m\<lparr>mg_quarantine := qu\<rparr>)"
  by (rule outsideI [where qu = qu and quotas = "mg_owner_quotas m" and stored = "mr_quotas (mg_repo m)" and rs = "mr_reservations (mg_repo m)"
        and ors = "mg_owner_reservations m"]) (use assms in simp_all)

lemma undone_outside:
  assumes "undone env m m'" "ingest_invar m"
    and "\<And>i e. map_of (mg_uploads m) i = Some e \<Longrightarrow> pending (record_status e) \<Longrightarrow> map_of (mg_quarantine m) (upload_object i) \<noteq> None"
  shows "outside m m'"
proof -
  note I = ingest_invarD [OF assms(2)]
  from assms(1) obtain ns r' rs q where m': "m' = m\<lparr>mg_repo := r', mg_owner_reservations := rs, mg_quarantine := q\<rparr>"
    and rs: "map_of rs = map_of (mg_owner_reservations m)" and q: "\<forall>n. n \<notin> ns \<longrightarrow> map_of q n = map_of (mg_quarantine m) n"
    and r': "expired_dropped (truncate_us (ie_now env)) (mg_repo m) r'" and ns: "\<forall>n \<in> ns. map_of (mg_quarantine m) n = None"
    by (auto simp: undone_def left_as_was_def)
  have qu: "map_of q (upload_object i) = map_of (mg_quarantine m) (upload_object i)"
    if "map_of (mg_uploads m) i = Some e" "pending (record_status e)" for i e
    using assms(3) [OF that] q ns by (cases "upload_object i \<in> ns") auto
  obtain rv where rv: "r' = (mg_repo m)\<lparr>mr_quotas := mr_quotas (mg_repo m), mr_reservations := rv\<rparr>"
      "rv = mr_reservations (mg_repo m) \<or> rv = live_reservations (truncate_us (ie_now env)) (mr_reservations (mg_repo m))"
    using r' unfolding expired_dropped_def by (metis (no_types, lifting) memory_ingest.surjective memory_ingest.update_convs(3,4))
  show ?thesis
  proof (rule outsideI [where qu = q and quotas = "mg_owner_quotas m" and stored = "mr_quotas (mg_repo m)" and rs = rv and ors = rs])
    show "wf_map rv" using rv(2) I(5) by (auto simp: live_reservations_def)
    show "map_of rv i = Some c \<Longrightarrow> map_of (mr_reservations (mg_repo m)) i = Some c" for i c
      using rv(2) live_reservations_Some [OF I(5)] by auto
  qed (use rs qu m' rv in simp_all)
qed


lemma tracked_objects_in:
  assumes "ingest_invar m" "map_of (mg_uploads m) i = Some e"
  shows "upload_object i \<in> set (tracked_objects m)"
proof -
  have "e \<in> set (mvals (mg_uploads m))" 
    using assms(2) mvals_in_set catalogued_wf [OF ingest_invarD(2) [OF assms(1)]] by metis
  moreover have "pr_object e = upload_object i" using cataloguedD(2) [OF ingest_invarD(2) [OF assms(1)] assms(2)] by (simp add: upload_object_def)
  ultimately show ?thesis by (force simp: tracked_objects_def)
qed

lemma DeleteOrphan_outside:
  assumes "quarantine_DeleteOrphan P io token minimumAge now m = (m', res)" "ingest_invar m"
  shows "outside m m'"
proof -
  obtain root and out :: "(ingest_error + orphan_error) + candidate" where d: "orphan_Delete P io (mg_quarantine m) ''quarantine'' (tracked_objects m) token minimumAge now None = (root, out)" by fastforce
  with assms(1) have m': "m' = m\<lparr>mg_quarantine := root\<rparr>" by (simp add: quarantine_DeleteOrphan_def)
  from d have "map_of root (upload_object i) = map_of (mg_quarantine m) (upload_object i)" if "map_of (mg_uploads m) i = Some e" for i e
    using tracked_objects_in [OF assms(2) that] by (cases rule: orphan_Delete_cases) (auto simp: removable_def)
  then show ?thesis unfolding m' by (intro directory_outside ingest_invarD(5) [OF assms(2)]) blast
qed

lemma Resume_outside:
  assumes "ResumeOrphanReconciliation io operation m = (m', res)" "ingest_invar m"
  shows "outside m m'"
proof -
  obtain root out where d: "orphan_Resume io (mg_quarantine m) (or_storage_object operation) (or_size operation) (or_modified_at operation)
          (Some (\<lambda>object. Inr (object \<in> set (tracked_objects m)) :: ingest_error + bool)) = (root, out)" by fastforce
  with assms(1) have "m' = m\<lparr>mg_quarantine := mg_quarantine m\<rparr> \<or> m' = m\<lparr>mg_quarantine := root\<rparr>"
    by (auto simp: ResumeOrphanReconciliation_def split: if_splits)
  moreover from d have "map_of root (upload_object i) = map_of (mg_quarantine m) (upload_object i)" if "map_of (mg_uploads m) i = Some e" for i e
    using tracked_objects_in [OF assms(2) that] by (cases rule: orphan_Resume_cases) auto
  ultimately show ?thesis using directory_outside [OF ingest_invarD(5) [OF assms(2)]] by metis
qed

lemma quota_outside:
  assumes "ingest_invar m"
  shows "outside m (m\<lparr>mg_repo := (mg_repo m)\<lparr>mr_quotas := stored\<rparr>, mg_owner_quotas := qs\<rparr>)"
  by (rule outsideI [where qu = "mg_quarantine m" and quotas = qs and stored = stored and rs = "mr_reservations (mg_repo m)"
        and ors = "mg_owner_reservations m"]) (use ingest_invarD(5) [OF assms] in simp_all)

lemma outside_refl: "ingest_invar m \<Longrightarrow> outside m m"
  using directory_outside [OF ingest_invarD(5), of m "mg_quarantine m"] by simp

lemma SetQuota_outside:
  assumes "SetOwnerQuotaAudited owner quota i m = (m', res)" "ingest_invar m"
  shows "outside m m'"
  using assms quota_outside [OF assms(2), of "mput (trim_space owner) quota (mg_owner_quotas m)" "mput (trim_space owner) quota (mr_quotas (mg_repo m))"]
    outside_refl [OF assms(2)] ingest_invarD(1) [OF assms(2)]
  by (auto simp: SetOwnerQuotaAudited_def Let_def on_repo_def ingest_SetQuota_def split: if_splits)

lemma ResetQuota_outside:
  assumes "ResetOwnerQuotaAudited owner i m = (m', res)" "ingest_invar m"
  shows "outside m m'"
  using assms quota_outside [OF assms(2), of "mdelete (trim_space owner) (mg_owner_quotas m)" "mdelete (trim_space owner) (mr_quotas (mg_repo m))"]
    outside_refl [OF assms(2)] ingest_invarD(1) [OF assms(2)]
  by (auto simp: ResetOwnerQuotaAudited_def Let_def on_repo_def ingest_DeleteQuota_def split: if_splits)

lemma Listing_outside:
  assumes "ListAdminResources P io now search limit offset m = (m', res)" "ingest_invar m"
  shows "outside m m'"
proof -
  note I = ingest_invarD [OF assms(2)]
  have "outside m (m\<lparr>mg_repo := (mg_repo m)\<lparr>mr_reservations := live_reservations now (mr_reservations (mg_repo m))\<rparr>\<rparr>)"
    by (rule outsideI [where qu = "mg_quarantine m" and quotas = "mg_owner_quotas m" and stored = "mr_quotas (mg_repo m)"
          and rs = "live_reservations now (mr_reservations (mg_repo m))" and ors = "mg_owner_reservations m"])
      (use I(5) live_reservations_Some [OF I(5)] in \<open>simp_all add: live_reservations_def\<close>)
  with outside_refl [OF assms(2)] assms(1) show ?thesis
    by (auto simp: ListAdminResources_def Let_def on_repo_def I(1) ingest_CapacityReservationSummary_def split: if_splits sum.splits)
qed


section \<open>Runs\<close>

text \<open>What every step does to an upload that is tracked already.\<close>

definition carried :: "string \<Rightarrow> persisted_record \<Rightarrow> (memory_ingest, 'p) manager \<Rightarrow> (memory_ingest, 'p) manager \<Rightarrow> bool" where
  "carried i e m m' \<longleftrightarrow> (\<exists>e'. map_of (mg_uploads m') i = Some e' \<and> same_entry e e'
     \<and> (pending (record_status e') \<longrightarrow> pending (record_status e)
          \<and> map_of (mg_quarantine m') (upload_object i) = map_of (mg_quarantine m) (upload_object i)))"

lemma carriedI:
  "map_of (mg_uploads m') i = Some e' \<Longrightarrow> same_entry e e' \<Longrightarrow> (pending (record_status e') \<Longrightarrow> pending (record_status e)) \<Longrightarrow>
   (pending (record_status e') \<Longrightarrow> map_of (mg_quarantine m') (upload_object i) = map_of (mg_quarantine m) (upload_object i)) \<Longrightarrow> carried i e m m'"
  unfolding carried_def by blast

lemma go_carried:
  assumes "pool_ok conn s" "go_step P s s'" "map_of (mg_uploads (snd s)) i = Some e"
  shows "carried i e (snd s) (snd s')"
  using assms(2,1,3)
proof (cases rule: go_step.cases)
  case (Go env j m m' j' xs ys)
  have ok: "pool_ok conn (xs @ j # ys, m)" using assms(1) Go by simp
  obtain f r e' r' where T: "tracked (job_upload j) f r m" and E: "own_effect (job_upload j) e' r' m m'"
    and same: "same_entry f e'" and p: "pending (record_status e') \<longrightarrow> pending (record_status f)"
    by (rule go_effect [OF ok Go(3)])
  note F = own_effect_frame [OF E]
  have e: "map_of (mg_uploads m) i = Some e" using assms(3) Go(1) by simp
  show ?thesis
  proof (cases "i = job_upload j")
    case True
    with T e have "f = e" by (simp add: tracked_def)
    with True Go(1,2) F(1) [of i] F(3) [of i] same p show ?thesis by (intro carriedI [of _ _ e']) simp_all
  next
    case False
    with Go(1,2) F(1) [of i] F(3) [of i] e show ?thesis by (intro carriedI [of _ _ e]) simp_all
  qed
qed

lemma outside_carried: "outside m m' \<Longrightarrow> map_of (mg_uploads m) i = Some e \<Longrightarrow> carried i e m m'"
  by (rule carriedI [of _ _ e]) (auto simp: outside_def)

lemma NotReceived_outside:
  assumes "pool_ok conn (js, m)" "create P env owner key name media source expected m = (m', res)" "\<forall>u. res \<noteq> Inr (u, False)"
    and "\<forall>i. randomID ''upl'' (ie_draws env 0) = Inr i \<longrightarrow> fresh_upload i m"
  shows "outside m m'"
proof -
  note D = pool_okD [OF assms(1)]
  from create_not_new [OF assms(2) D(1) assms(4) D(3,4)] assms(3) have "m' = m \<or> undone env m m'" by (auto split: sum.splits)
  moreover have "outside m m'" if "undone env m m'"
    by (rule undone_outside [OF that D(1)]) (use D(8) in \<open>auto simp: upload_ok_def\<close>)
  ultimately show ?thesis using outside_refl [OF D(1)] by blast
qed

text \<open>A step outside the jobs: either it only touches what \<open>outside\<close> allows, or it receives an upload.\<close>

lemma received_ok:
  assumes ok: "pool_ok conn (js, m)" and c: "create P env owner key name media source expected m = (m', Inr (u, False))"
    and fresh: "\<forall>i. randomID ''upl'' (ie_draws env 0) = Inr i \<longrightarrow> fresh_upload i m"
  shows "pool_ok conn (InspectBegin (up_id u) # js, m') \<and> (map_of (mg_uploads m) k = Some e \<longrightarrow> carried k e m m')"
proof -
  note D = pool_okD [OF ok]
  obtain i e0 q e' qu rs dl where u: "u = pr_upload e'" and i: "fresh_upload i m"
    and st: "record_status e' = StatusQuarantined"
    and m': "m' = m\<lparr>mg_repo := (admitted_repo e0 q (mg_repo m))\<lparr>mr_records := mput i e' (mr_records (mg_repo m))\<rparr>,
             mg_uploads := mput i e' (mg_uploads m), mg_idempotency := mput (entry_index e0) i (mg_idempotency m),
             mg_quarantine := qu, mg_owner_reservations := rs, mg_delivered := dl\<rparr>"
    and qu: "\<forall>n. n \<noteq> upload_object i \<longrightarrow> map_of qu n = map_of (mg_quarantine m) n" "map_of qu (upload_object i) \<noteq> None"
    and ids: "record_id e' = i" and inv: "ingest_invar m'"
    by (rule create_new [OF c D(1) fresh D(3,4)]) (rule that, assumption, assumption, simp add: new_entry_def, assumption, auto simp: upload_object_def)
  have absent: "map_of (mg_uploads m) i = None" using i by (simp add: fresh_upload_def)
  have id: "up_id u = i" using u ids by simp
  have "carried k e m m'" if "map_of (mg_uploads m) k = Some e"
    by (rule carriedI [of _ _ e]) (use that absent qu in \<open>cases "k = i"; simp add: m'\<close>)+
  moreover have "pool_ok conn (InspectBegin i # js, m')"
  proof (rule pool_okI)
    show "ingest_invar m'" by fact
    show "conn = (mg_store m' \<noteq> None)" "0 \<le> mg_max_upload m'" "mg_max_upload m' < int64_max" using D(2-4) by (simp_all add: m')
    have "i \<notin> job_upload ` set js" using D(7) absent by fastforce
    then show "distinct (map job_upload (InspectBegin i # js))" using D(5) by simp
    show "Finished \<notin> set (InspectBegin i # js)" using D(6) by simp
    show "map_of (mg_uploads m') (job_upload j) \<noteq> None" if "j \<in> set (InspectBegin i # js)" for j
      using that D(7) by (auto simp: m')
    fix l f assume l: "map_of (mg_uploads m') l = Some f"
    show "upload_ok conn (job_of (InspectBegin i # js) l) l f m'"
    proof (cases "l = i")
      case True
      with l st qu(2) show ?thesis by (simp add: upload_ok_def job_of_Cons m')
    next
      case False
      then have "map_of (mg_uploads m) l = Some f" using l by (simp add: m')
      from upload_ok_cong [OF _ _ D(8) [OF this], of m'] False qu(1) show ?thesis by (simp add: job_of_Cons m')
    qed
  qed
  ultimately show ?thesis unfolding id by blast
qed

lemma pool_step_cases:
  assumes "pool_step P (js, m) (js', m')" "pool_ok conn (js, m)"
  obtains (go) "go_step P (js, m) (js', m')"
  | (received) env owner key name media source expected u where "create P env owner key name media source expected m = (m', Inr (u, False))"
      "\<forall>i. randomID ''upl'' (ie_draws env 0) = Inr i \<longrightarrow> fresh_upload i m" "js' = InspectBegin (up_id u) # js"
  | (other) "outside m m'" "js' = js"
  using assms(1)
proof (cases rule: pool_step.cases)
  case Job then show ?thesis by (rule go)
next
  case Received then show ?thesis using received by blast
next
  case NotReceived then show ?thesis using other NotReceived_outside [OF assms(2)] by blast
next
  case Orphan then show ?thesis using other DeleteOrphan_outside pool_okD(1) [OF assms(2)] by blast
next
  case Resume then show ?thesis using other Resume_outside pool_okD(1) [OF assms(2)] by blast
next
  case SetQuota then show ?thesis using other SetQuota_outside pool_okD(1) [OF assms(2)] by blast
next
  case ResetQuota then show ?thesis using other ResetQuota_outside pool_okD(1) [OF assms(2)] by blast
next
  case Listing then show ?thesis using other Listing_outside pool_okD(1) [OF assms(2)] by blast
qed

lemma pool_step_ok:
  assumes "pool_ok conn s" "pool_step P s s'"
  shows "pool_ok conn s'"
proof -
  obtain js m js' m' where s: "s = (js, m)" "s' = (js', m')" by fastforce
  from assms(2) [unfolded s] assms(1) [unfolded s(1)] show ?thesis
  proof (cases rule: pool_step_cases)
    case go then show ?thesis using go_step_ok [OF assms(1) [unfolded s(1)]] s by simp
  next
    case received then show ?thesis using received_ok [OF assms(1) [unfolded s(1)] received(1,2)] s by simp
  next
    case other then show ?thesis using outside_ok assms(1) s by simp
  qed
qed

lemma pool_step_carried:
  assumes "pool_ok conn s" "pool_step P s s'" "map_of (mg_uploads (snd s)) i = Some e"
  shows "carried i e (snd s) (snd s')"
proof -
  obtain js m js' m' where s: "s = (js, m)" "s' = (js', m')" by fastforce
  have e: "map_of (mg_uploads m) i = Some e" using assms(3) s by simp
  from assms(2) [unfolded s] assms(1) [unfolded s(1)] show ?thesis
  proof (cases rule: pool_step_cases)
    case go then show ?thesis using go_carried [OF assms(1) _ assms(3), of P "(js', m')"] s by simp
  next
    case received then show ?thesis using received_ok [OF assms(1) [unfolded s(1)] received(1,2), of i e] e s by simp
  next
    case other then show ?thesis using outside_carried e s by simp
  qed
qed

lemma pool_run_ok: "(pool_step P)\<^sup>*\<^sup>* s s' \<Longrightarrow> pool_ok conn s \<Longrightarrow> pool_ok conn s'"
  by (induction rule: rtranclp_induct) (auto intro: pool_step_ok)

lemma carried_trans:
  assumes "carried i e m m1" "\<And>e1. map_of (mg_uploads m1) i = Some e1 \<Longrightarrow> carried i e1 m1 m2"
  shows "carried i e m m2"
proof -
  from assms(1) obtain e1 where e1: "map_of (mg_uploads m1) i = Some e1" "same_entry e e1"
    "pending (record_status e1) \<longrightarrow> pending (record_status e) \<and> map_of (mg_quarantine m1) (upload_object i) = map_of (mg_quarantine m) (upload_object i)"
    unfolding carried_def by blast
  from assms(2) [OF e1(1)] obtain e2 where e2: "map_of (mg_uploads m2) i = Some e2" "same_entry e1 e2"
    "pending (record_status e2) \<longrightarrow> pending (record_status e1) \<and> map_of (mg_quarantine m2) (upload_object i) = map_of (mg_quarantine m1) (upload_object i)"
    unfolding carried_def by blast
  show ?thesis by (rule carriedI [OF e2(1)]) (use e1 e2 in \<open>auto simp: same_entry_def\<close>)
qed

lemma pool_run_carried:
  assumes "(pool_step P)\<^sup>*\<^sup>* s s'" "pool_ok conn s" "map_of (mg_uploads (snd s)) i = Some e"
  shows "carried i e (snd s) (snd s')"
  using assms(1)
proof (induction rule: rtranclp_induct)
  case base
  show ?case by (rule carriedI [OF assms(3)]) simp_all
next
  case (step s1 s2)
  note ok = pool_run_ok [OF step(1) assms(2)]
  show ?case by (rule carried_trans [OF step(3)]) (rule pool_step_carried [OF ok step(2)])
qed

end
