(* ===== verification/IngestRecovery.thy ===== *)
theory IngestRecovery
  imports IngestMachine
begin

text \<open>
  Start-up of the upload manager over the rows of its repository: \<open>NewManager\<close> tracks every row, fails the
  uploads whose reception was cut off or whose plaintext is gone, and starts a pool that satisfies the
  invariant of \<open>IngestMachine\<close>.
\<close>

definition settled :: "bool \<Rightarrow> string list \<Rightarrow> string \<Rightarrow> persisted_record \<Rightarrow> (memory_ingest, 'p) manager \<Rightarrow> bool" where
  "settled conn ids i e m \<longleftrightarrow> (if i \<in> set ids
     then map_of (mr_records (mg_repo m)) i = Some e \<and> resumable conn (record_status e) \<and> map_of (mg_quarantine m) (upload_object i) \<noteq> None
     else upload_ok conn Finished i e m)"

text \<open>Half way: \<open>es\<close> are the rows still to come, \<open>ids\<close> the uploads to resume.\<close>

definition recovering :: "bool \<Rightarrow> persisted_record list \<Rightarrow> string list \<Rightarrow> (memory_ingest, 'p) manager \<Rightarrow> bool" where
  "recovering conn es ids m \<longleftrightarrow> mg_ops m = memory_ingest_ops \<and> conn = (mg_store m \<noteq> None) \<and> mg_owner_reservations m = []
     \<and> catalogued (mg_uploads m) (mg_idempotency m) \<and> catalogued (mr_records (mg_repo m)) (mr_by_idempotency (mg_repo m))
     \<and> wf_map (mr_reservations (mg_repo m)) \<and> (\<forall>i c. map_of (mr_reservations (mg_repo m)) i = Some c \<longrightarrow> map_of (mr_records (mg_repo m)) i \<noteq> None)
     \<and> distinct (map record_id es)
     \<and> (\<forall>e \<in> set es. map_of (mr_records (mg_repo m)) (record_id e) = Some e \<and> map_of (mg_uploads m) (record_id e) = None)
     \<and> (\<forall>i r. map_of (mr_records (mg_repo m)) i = Some r \<longrightarrow> i \<in> record_id ` set es \<or> (\<exists>e. map_of (mg_uploads m) i = Some e \<and> same_entry e r))
     \<and> distinct ids \<and> (\<forall>i \<in> set ids. map_of (mg_uploads m) i \<noteq> None)
     \<and> (\<forall>i e. map_of (mg_uploads m) i = Some e \<longrightarrow> settled conn ids i e m)"

lemma recoveringD:
  assumes "recovering conn es ids m"
  shows "mg_ops m = memory_ingest_ops" "conn = (mg_store m \<noteq> None)" "mg_owner_reservations m = []"
    "catalogued (mg_uploads m) (mg_idempotency m)" "catalogued (mr_records (mg_repo m)) (mr_by_idempotency (mg_repo m))"
    "wf_map (mr_reservations (mg_repo m))" "\<And>i c. map_of (mr_reservations (mg_repo m)) i = Some c \<Longrightarrow> map_of (mr_records (mg_repo m)) i \<noteq> None"
    "distinct (map record_id es)"
    "\<And>e. e \<in> set es \<Longrightarrow> map_of (mr_records (mg_repo m)) (record_id e) = Some e"
    "\<And>e. e \<in> set es \<Longrightarrow> map_of (mg_uploads m) (record_id e) = None"
    "\<And>i r. map_of (mr_records (mg_repo m)) i = Some r \<Longrightarrow> i \<in> record_id ` set es \<or> (\<exists>e. map_of (mg_uploads m) i = Some e \<and> same_entry e r)"
    "distinct ids" "\<And>i. i \<in> set ids \<Longrightarrow> map_of (mg_uploads m) i \<noteq> None"
    "\<And>i e. map_of (mg_uploads m) i = Some e \<Longrightarrow> settled conn ids i e m"
  using assms unfolding recovering_def by blast+

lemma recoveringI:
  assumes "mg_ops m = memory_ingest_ops" "conn = (mg_store m \<noteq> None)" "mg_owner_reservations m = []"
    "catalogued (mg_uploads m) (mg_idempotency m)" "catalogued (mr_records (mg_repo m)) (mr_by_idempotency (mg_repo m))"
    "wf_map (mr_reservations (mg_repo m))" "\<And>i c. map_of (mr_reservations (mg_repo m)) i = Some c \<Longrightarrow> map_of (mr_records (mg_repo m)) i \<noteq> None"
    "distinct (map record_id es)"
    "\<And>e. e \<in> set es \<Longrightarrow> map_of (mr_records (mg_repo m)) (record_id e) = Some e"
    "\<And>e. e \<in> set es \<Longrightarrow> map_of (mg_uploads m) (record_id e) = None"
    "\<And>i r. map_of (mr_records (mg_repo m)) i = Some r \<Longrightarrow> i \<in> record_id ` set es \<or> (\<exists>e. map_of (mg_uploads m) i = Some e \<and> same_entry e r)"
    "distinct ids" "\<And>i. i \<in> set ids \<Longrightarrow> map_of (mg_uploads m) i \<noteq> None"
    "\<And>i e. map_of (mg_uploads m) i = Some e \<Longrightarrow> settled conn ids i e m"
  shows "recovering conn es ids m"
  using assms unfolding recovering_def by blast

lemma recovering_new_index:
  assumes "recovering conn (e # es) ids m"
  shows "map_of (mg_idempotency m) (entry_index e) = None"
proof (rule ccontr)
  note D = recoveringD [OF assms]
  assume "map_of (mg_idempotency m) (entry_index e) \<noteq> None"
  then obtain k where k: "map_of (mg_idempotency m) (entry_index e) = Some k" by blast
  from catalogued_back [OF D(4) k] obtain f where f: "map_of (mg_uploads m) k = Some f" "entry_index f = entry_index e" by blast
  have "\<exists>r. map_of (mr_records (mg_repo m)) k = Some r \<and> same_entry f r"
    using D(14) [OF f(1)] by (auto simp: settled_def upload_ok_def split: if_splits)
  then obtain r where r: "map_of (mr_records (mg_repo m)) k = Some r" "same_entry f r" by blast
  have "entry_index r = entry_index e" using r(2) f(2) by (simp add: same_entry_def entry_index_def)
  from catalogued_unique [OF D(5) r(1) D(9) this] f(1) D(10) [of e] show False by auto
qed

text \<open>How one row is recovered: a step that changes its own entries only.\<close>

definition recovered_as ::
    "persisted_record \<Rightarrow> persisted_record \<Rightarrow> (memory_ingest, 'p) manager \<Rightarrow> (memory_ingest, 'p) manager \<Rightarrow> bool" where
  "recovered_as e e' m m' \<longleftrightarrow> (\<exists>rs qu dl. m' = m\<lparr>mg_uploads := mput (record_id e) e' (mg_uploads m),
       mg_idempotency := mput (entry_index e) (record_id e) (mg_idempotency m),
       mg_repo := (mg_repo m)\<lparr>mr_records := mput (record_id e) e' (mr_records (mg_repo m)), mr_reservations := rs\<rparr>,
       mg_quarantine := qu, mg_delivered := dl\<rparr>
     \<and> (rs = mr_reservations (mg_repo m) \<or> rs = mdelete (record_id e) (mr_reservations (mg_repo m)))
     \<and> (\<forall>n. n \<noteq> pr_object e \<or> pending (record_status e') \<longrightarrow> map_of qu n = map_of (mg_quarantine m) n))"

lemma recovered_asI:
  assumes "m' = m\<lparr>mg_uploads := mput (record_id e) e' (mg_uploads m),
       mg_idempotency := mput (entry_index e) (record_id e) (mg_idempotency m),
       mg_repo := (mg_repo m)\<lparr>mr_records := mput (record_id e) e' (mr_records (mg_repo m)), mr_reservations := rs\<rparr>,
       mg_quarantine := qu, mg_delivered := dl\<rparr>"
    and "rs = mr_reservations (mg_repo m) \<or> rs = mdelete (record_id e) (mr_reservations (mg_repo m))"
    and "\<And>n. n \<noteq> pr_object e \<or> pending (record_status e') \<Longrightarrow> map_of qu n = map_of (mg_quarantine m) n"
  shows "recovered_as e e' m m'"
  unfolding recovered_as_def using assms by blast

lemma recovered_as_ok:
  assumes rec: "recovering conn (e # es) ids m" and as: "recovered_as e e' m m'" and same: "same_entry e e'"
    and new: "ids' = (if resume then [record_id e] else [])" "settled conn ids' (record_id e) e' m'"
  shows "recovering conn es (ids @ ids') m'"
proof -
  note D = recoveringD [OF rec]
  define i where "i = record_id e"
  obtain rs qu dl where m': "m' = m\<lparr>mg_uploads := mput i e' (mg_uploads m), mg_idempotency := mput (entry_index e) i (mg_idempotency m),
       mg_repo := (mg_repo m)\<lparr>mr_records := mput i e' (mr_records (mg_repo m)), mr_reservations := rs\<rparr>,
       mg_quarantine := qu, mg_delivered := dl\<rparr>"
    and rs: "rs = mr_reservations (mg_repo m) \<or> rs = mdelete i (mr_reservations (mg_repo m))"
    and qu: "\<forall>n. n \<noteq> pr_object e \<or> pending (record_status e') \<longrightarrow> map_of qu n = map_of (mg_quarantine m) n"
    using as unfolding recovered_as_def i_def [symmetric] by auto
  have row: "map_of (mr_records (mg_repo m)) i = Some e" "map_of (mg_uploads m) i = None" using D(9,10) [of e] by (simp_all add: i_def)
  note C = cataloguedD [OF D(5) row(1)]
  have e': "record_id e' = i" "pr_object e' = i @ ''.upload''" "entry_index e' = entry_index e"
    using same C by (auto simp: same_entry_def entry_index_def)
  have fresh: "i \<notin> set ids" using D(13) [of i] row(2) by auto
  show ?thesis
  proof (rule recoveringI)
    show "mg_ops m' = memory_ingest_ops" "conn = (mg_store m' \<noteq> None)" "mg_owner_reservations m' = []" using D(1-3) by (simp_all add: m')
    show "catalogued (mg_uploads m') (mg_idempotency m')"
      using catalogued_add [OF D(4) row(2) recovering_new_index [OF rec] e'] by (simp add: m')
    show "catalogued (mr_records (mg_repo m')) (mr_by_idempotency (mg_repo m'))"
      using catalogued_replace [OF D(5) row(1) e'(1) _ e'(3)] e'(2) C(2) by (simp add: m')
    show "wf_map (mr_reservations (mg_repo m'))" using rs D(6) by (auto simp: m')
    show "map_of (mr_reservations (mg_repo m')) k = Some c \<Longrightarrow> map_of (mr_records (mg_repo m')) k \<noteq> None" for k c
      using rs D(7) [of k c] by (auto simp: m' split: if_splits)
    show "distinct (map record_id es)" using D(8) by simp
    have "record_id f \<noteq> i" if "f \<in> set es" for f
    proof -
      have "record_id f \<in> set (map record_id es)" using that by simp
      moreover have "i \<notin> set (map record_id es)" using D(8) by (simp add: i_def)
      ultimately show ?thesis by metis
    qed
    then show "map_of (mr_records (mg_repo m')) (record_id f) = Some f" "map_of (mg_uploads m') (record_id f) = None" if "f \<in> set es" for f
      using that D(9,10) [of f] by (simp_all add: m')
    show "k \<in> record_id ` set es \<or> (\<exists>f. map_of (mg_uploads m') k = Some f \<and> same_entry f r)" if "map_of (mr_records (mg_repo m')) k = Some r" for k r
      using that D(11) [of k r] row(2) by (cases "k = i") (auto simp: m' i_def)
    show "distinct (ids @ ids')" using D(12) fresh new(1) by (simp add: i_def)
    show "map_of (mg_uploads m') k \<noteq> None" if "k \<in> set (ids @ ids')" for k
      using that D(13) [of k] new(1) by (auto simp: m' i_def split: if_splits)
    fix k f assume k: "map_of (mg_uploads m') k = Some f"
    show "settled conn (ids @ ids') k f m'"
    proof (cases "k = i")
      case True
      with k new(2) fresh show ?thesis by (auto simp: m' i_def settled_def)
    next
      case False
      have "k \<in> set (ids @ ids') \<longleftrightarrow> k \<in> set ids" using False new(1) by (simp add: i_def)
      moreover have "settled conn ids k f m" using k False D(14) by (simp add: m')
      moreover have "map_of qu (upload_object k) = map_of (mg_quarantine m) (upload_object k)"
        using qu False C(2) by (simp add: upload_object_def)
      ultimately show ?thesis using False by (cases "k \<in> set ids") (simp_all add: settled_def upload_ok_def m')
    qed
  qed
qed

text \<open>What start-up makes of a row.\<close>

definition recovered_entry :: "directory \<Rightarrow> persisted_record \<Rightarrow> persisted_record" where
  "recovered_entry quarantine e =
     (if record_status e = StatusQuarantined \<and> record_bytes e = 0 then set_outcome StatusFailed 100 ''upload_reception_incomplete'' e
      else if pending (record_status e) \<and> map_of quarantine (pr_object e) = None then set_outcome StatusFailed 100 ''quarantine_object_missing'' e
      else e)"

lemma recover_one_memory:
  assumes run: "recover_one env e m = (m', Inr ids')" and ops: "mg_ops m = memory_ingest_ops"
    and row: "map_of (mr_records (mg_repo m)) (record_id e) = Some e" "wf_map (mr_records (mg_repo m))"
    and e': "e' = recovered_entry (mg_quarantine m) e"
  shows "recovered_as e e' m m' \<and> ids' = (if resumable (mg_store m \<noteq> None) (record_status e') then [record_id e] else []) \<and> validStatus (record_status e)"
proof -
  define i where "i = record_id e"
  have valid: "validStatus (record_status e)" and from_row: "recordFromPersisted e = Inr e"
    using run by (auto simp: recover_one_def recordFromPersisted_def split: if_splits)
  define m1 where "m1 = m\<lparr>mg_uploads := mput i e (mg_uploads m), mg_idempotency := mput (entry_index e) i (mg_idempotency m)\<rparr>"
  define failed where "failed = (\<lambda>reason. case recovery_failed e reason of (e', event) \<Rightarrow>
     (case persistLifecycle env e' event m1 of (m2, Inl err) \<Rightarrow> (m2, Inl err)
      | (m2, Inr _) \<Rightarrow> (m2\<lparr>mg_uploads := mput i e' (mg_uploads m2)\<rparr>, Inr [] :: ingest_error + string list)))"
  have run': "(if record_status e = StatusQuarantined \<and> record_bytes e = 0
        then (case failed ''upload_reception_incomplete'' of (m2, Inl err) \<Rightarrow> (m2, Inl err)
              | (m2, Inr ids) \<Rightarrow> (release_capacity i (remove_quarantined env (pr_object e) m2), Inr ids))
        else if pending (record_status e)
        then (case ie_faults env (StatQuarantine (pr_object e)) of Some msg \<Rightarrow> (m1, Inl (IngestError msg))
              | None \<Rightarrow> if map_of (mg_quarantine m1) (pr_object e) = None then failed ''quarantine_object_missing''
                  else (m1, Inr (if resumable (mg_store m1 \<noteq> None) (record_status e) then [i] else [])))
        else (m1, Inr [])) = (m', Inr ids')"
    using run unfolding recover_one_def from_row i_def m1_def failed_def entry_index_def Let_def sum.case .
  have fail_case: "\<exists>dl. ids'' = [] \<and> m2 = m1\<lparr>mg_repo := (mg_repo m1)\<lparr>mr_records := mput i (set_outcome StatusFailed 100 reason e) (mr_records (mg_repo m1))\<rparr>,
        mg_delivered := dl, mg_uploads := mput i (set_outcome StatusFailed 100 reason e) (mg_uploads m)\<rparr>"
    if "failed reason = (m2, Inr ids'')" for reason m2 ids''
  proof -
    obtain ev where ev: "recovery_failed e reason = (set_outcome StatusFailed 100 reason e, ev)" by (simp add: recovery_failed_def Let_def)
    obtain m3 res where p: "persistLifecycle env (set_outcome StatusFailed 100 reason e) ev m1 = (m3, res)" by fastforce
    have "mg_ops m1 = memory_ingest_ops" by (simp add: m1_def ops)
    from persist_memory [OF p this] that ev p show ?thesis by (auto simp: failed_def m1_def i_def)
  qed
  consider (incomplete) "record_status e = StatusQuarantined \<and> record_bytes e = 0"
    | (missing) "\<not> (record_status e = StatusQuarantined \<and> record_bytes e = 0)" "pending (record_status e)" "map_of (mg_quarantine m) (pr_object e) = None"
    | (kept) "\<not> (record_status e = StatusQuarantined \<and> record_bytes e = 0)" "pending (record_status e) \<longrightarrow> map_of (mg_quarantine m) (pr_object e) \<noteq> None"
    by blast
  then have "recovered_as e e' m m' \<and> ids' = (if resumable (mg_store m \<noteq> None) (record_status e') then [record_id e] else [])"
  proof cases
    case incomplete
    then obtain m2 where m2: "failed ''upload_reception_incomplete'' = (m2, Inr ids')" "m' = release_capacity i (remove_quarantined env (pr_object e) m2)"
      using run' by (auto split: prod.splits sum.splits)
    define qu where "qu = (if ie_faults env RemoveQuarantine = None then mdelete (pr_object e) (mg_quarantine m) else mg_quarantine m)"
    have e'': "e' = set_outcome StatusFailed 100 ''upload_reception_incomplete'' e" using incomplete by (simp add: e' recovered_entry_def)
    from fail_case [OF m2(1)] obtain dl where ids: "ids' = []" and m2': "m2 = m1\<lparr>mg_repo := (mg_repo m1)\<lparr>mr_records := mput i e' (mr_records (mg_repo m1))\<rparr>,
        mg_delivered := dl, mg_uploads := mput i e' (mg_uploads m)\<rparr>" unfolding e'' by blast
    have "recovered_as e e' m m'"
      by (rule recovered_asI [where rs = "mdelete i (mr_reservations (mg_repo m))" and qu = qu and dl = dl])
        (auto simp: m2(2) m2' m1_def i_def qu_def release_capacity_def remove_quarantined_def ops ingest_ReleaseCapacity_def e'')
    with ids e'' show ?thesis by (simp add: resumable_def)
  next
    case missing
    then have m2: "failed ''quarantine_object_missing'' = (m', Inr ids')" using run' by (auto simp: m1_def split: option.splits)
    have e'': "e' = set_outcome StatusFailed 100 ''quarantine_object_missing'' e" using missing by (auto simp: e' recovered_entry_def)
    from fail_case [OF m2] obtain dl where ids: "ids' = []" and m2': "m' = m1\<lparr>mg_repo := (mg_repo m1)\<lparr>mr_records := mput i e' (mr_records (mg_repo m1))\<rparr>,
        mg_delivered := dl, mg_uploads := mput i e' (mg_uploads m)\<rparr>" unfolding e'' by blast
    have "recovered_as e e' m m'"
      by (rule recovered_asI [where rs = "mr_reservations (mg_repo m)" and qu = "mg_quarantine m" and dl = dl]) (simp_all add: m2' m1_def i_def)
    with ids e'' show ?thesis by (simp add: resumable_def)
  next
    case kept
    then have e'': "e' = e" by (auto simp: e' recovered_entry_def)
    have "m' = m1 \<and> ids' = (if resumable (mg_store m \<noteq> None) (record_status e) then [i] else [])"
      using run' kept by (auto simp: m1_def resumable_def pending_def split: option.splits if_splits)
    moreover have "recovered_as e e m m1"
      by (rule recovered_asI [where rs = "mr_reservations (mg_repo m)" and qu = "mg_quarantine m" and dl = "mg_delivered m"])
        (use row in \<open>simp_all add: m1_def i_def mput_same\<close>)
    ultimately show ?thesis using e'' by (simp add: i_def)
  qed
  with valid show ?thesis by blast
qed

lemma recovered_entry_same [simp]: "same_entry e (recovered_entry q e)" "record_id (recovered_entry q e) = record_id e"
  by (simp_all add: recovered_entry_def)

lemma recovered_entry_pending: "pending (record_status (recovered_entry q e)) \<Longrightarrow> map_of q (pr_object e) \<noteq> None"
  by (auto simp: recovered_entry_def split: if_splits)

lemma recovered_entry_valid: "validStatus (record_status e) \<Longrightarrow> validStatus (record_status (recovered_entry q e))"
  by (simp add: recovered_entry_def)

lemma recover_one_ok:
  assumes rec: "recovering conn (e # es) ids m" and run: "recover_one env e m = (m', Inr ids')"
  shows "recovering conn es (ids @ ids') m'"
proof -
  note D = recoveringD [OF rec]
  define e' where "e' = recovered_entry (mg_quarantine m) e"
  have row: "map_of (mr_records (mg_repo m)) (record_id e) = Some e" using D(9) [of e] by simp
  from recover_one_memory [OF run D(1) row _ e'_def] catalogued_wf [OF D(5)] D(2)
  have as: "recovered_as e e' m m'" and ids: "ids' = (if resumable conn (record_status e') then [record_id e] else [])"
    and valid: "validStatus (record_status e')" by (auto simp: e'_def recovered_entry_valid)
  have obj: "pr_object e = upload_object (record_id e)" using cataloguedD(2) [OF D(5) row] by (simp add: upload_object_def)
  have there: "map_of (mr_records (mg_repo m')) (record_id e) = Some e'"
    "pending (record_status e') \<longrightarrow> map_of (mg_quarantine m') (upload_object (record_id e)) \<noteq> None"
    using as recovered_entry_pending [of "mg_quarantine m" e] obj by (auto simp: recovered_as_def e'_def)
  have "settled conn ids' (record_id e) e' m'"
    using ids there valid by (cases "record_status e'") (auto simp: settled_def upload_ok_def resumable_def)
  from recovered_as_ok [OF rec as _ ids this] show ?thesis by (simp add: e'_def)
qed

section \<open>The whole start\<close>

lemma recover_all_ok:
  "recover_all env es m = (m', Inr ids') \<Longrightarrow> recovering conn es ids m \<Longrightarrow> recovering conn [] (ids @ ids') m'"
proof (induction es arbitrary: m ids ids')
  case (Cons e es)
  from Cons.prems(1) obtain m1 ids1 ids2 where one: "recover_one env e m = (m1, Inr ids1)" and rest: "recover_all env es m1 = (m', Inr ids2)"
    and ids: "ids' = ids1 @ ids2"
    by (auto split: prod.splits sum.splits)
  from Cons.IH [OF rest recover_one_ok [OF Cons.prems(2) one]] ids show ?case by simp
qed simp

lemma persistLifecycle_keeps [simp]:
  "mg_ops (fst (persistLifecycle env e ev m)) = mg_ops m" "mg_max_upload (fst (persistLifecycle env e ev m)) = mg_max_upload m"
  by (auto simp: persistLifecycle_def on_repo_def Let_def split: option.splits sum.splits prod.splits)

lemma recover_one_keeps:
  "mg_ops (fst (recover_one env e m)) = mg_ops m \<and> mg_max_upload (fst (recover_one env e m)) = mg_max_upload m"
proof (cases "recordFromPersisted e")
  case (Inr f)
  have "mg_ops m2 = mg_ops m1 \<and> mg_max_upload m2 = mg_max_upload m1" if "persistLifecycle env g ev m1 = (m2, res)"
    for g ev res and m1 m2 :: "('a, 'b) manager"
    using persistLifecycle_keeps [of env g ev m1] that by simp
  note P = this
  show ?thesis
    by (simp add: recover_one_def Inr Let_def recovery_failed_def release_capacity_def remove_quarantined_def split: sum.split prod.split option.split)
      (auto dest!: P)
qed (simp add: recover_one_def)

text \<open>The rows after recovery: each is what \<open>recovered_entry\<close> makes of it, whatever happens to the others' objects.\<close>

lemma recover_all_rows:
  assumes "recover_all env es m = (m', Inr ids)" "recovering conn es prior m"
    and "\<forall>e \<in> set es. map_of (mg_quarantine m) (pr_object e) = map_of q (pr_object e)"
  shows "(\<forall>e \<in> set es. map_of (mg_uploads m') (record_id e) = Some (recovered_entry q e)
      \<and> map_of (mr_records (mg_repo m')) (record_id e) = Some (recovered_entry q e)
      \<and> (record_id e \<in> set ids \<longleftrightarrow> resumable conn (record_status (recovered_entry q e))))
    \<and> (\<forall>i. i \<notin> record_id ` set es \<longrightarrow> map_of (mg_uploads m') i = map_of (mg_uploads m) i
      \<and> map_of (mr_records (mg_repo m')) i = map_of (mr_records (mg_repo m)) i \<and> i \<notin> set ids)"
  using assms
proof (induction es arbitrary: m ids prior)
  case (Cons e es)
  from Cons.prems(1) obtain m1 ids1 ids2 where one: "recover_one env e m = (m1, Inr ids1)" and rest: "recover_all env es m1 = (m', Inr ids2)"
    and ids: "ids = ids1 @ ids2"
    by (auto split: prod.splits sum.splits)
  note D = recoveringD [OF Cons.prems(2)]
  note ok = recover_one_ok [OF Cons.prems(2) one]
  define e' where "e' = recovered_entry (mg_quarantine m) e"
  have e': "e' = recovered_entry q e" using Cons.prems(3) by (simp add: e'_def recovered_entry_def)
  have row: "map_of (mr_records (mg_repo m)) (record_id e) = Some e" using D(9) [of e] by simp
  from recover_one_memory [OF one D(1) row _ e'_def] catalogued_wf [OF D(5)] D(2)
  have as: "recovered_as e e' m m1" and ids1: "ids1 = (if resumable conn (record_status e') then [record_id e] else [])" by auto
  have new: "record_id e \<notin> record_id ` set es" using D(8) by simp
  have obj: "pr_object f \<noteq> pr_object e" if "f \<in> set es" for f
  proof -
    have "record_id f \<noteq> record_id e" using new that by (metis image_eqI)
    moreover have "pr_object f = record_id f @ ''.upload''" "pr_object e = record_id e @ ''.upload''"
      using cataloguedD(2) [OF D(5) row] cataloguedD(2) [OF D(5) D(9), of f] that by simp_all
    ultimately show ?thesis by simp
  qed
  have "\<forall>f \<in> set es. map_of (mg_quarantine m1) (pr_object f) = map_of q (pr_object f)"
    using as obj Cons.prems(3) by (auto simp: recovered_as_def)
  note IH = Cons.IH [OF rest ok this]
  have here: "map_of (mg_uploads m1) (record_id e) = Some e'" "map_of (mr_records (mg_repo m1)) (record_id e) = Some e'"
    "\<And>i. i \<noteq> record_id e \<Longrightarrow> map_of (mg_uploads m1) i = map_of (mg_uploads m) i \<and> map_of (mr_records (mg_repo m1)) i = map_of (mr_records (mg_repo m)) i"
    using as by (auto simp: recovered_as_def)
  have at: "map_of (mg_uploads m') (record_id e) = Some e'" "map_of (mr_records (mg_repo m')) (record_id e) = Some e'" "record_id e \<notin> set ids2"
    using IH new here(1,2) by simp_all
  show ?case
  proof (intro conjI ballI allI impI)
    fix f assume f: "f \<in> set (e # es)"
    show "map_of (mg_uploads m') (record_id f) = Some (recovered_entry q f)"
      "map_of (mr_records (mg_repo m')) (record_id f) = Some (recovered_entry q f)"
      using f at IH e' by auto
    show "record_id f \<in> set ids \<longleftrightarrow> resumable conn (record_status (recovered_entry q f))"
    proof (cases "f = e")
      case False
      with f have "f \<in> set es" by simp
      moreover from this new have "record_id f \<noteq> record_id e" by (metis image_eqI)
      ultimately show ?thesis using IH ids ids1 by simp
    qed (use at(3) ids ids1 e' in simp)
  next
    fix i assume "i \<notin> record_id ` set (e # es)"
    then have i: "i \<noteq> record_id e" "i \<notin> record_id ` set es" by auto
    show "map_of (mg_uploads m') i = map_of (mg_uploads m) i" "map_of (mr_records (mg_repo m')) i = map_of (mr_records (mg_repo m)) i" "i \<notin> set ids"
      using i IH here(3) [OF i(1)] ids ids1 by simp_all
  qed
qed simp

lemma resumed_jobs: "map job_upload (map (resumed_job m) ids) = ids" "Finished \<notin> set (map (resumed_job m) ids)"
proof -
  have "job_upload (resumed_job m i) = i" "resumed_job m i \<noteq> Finished" for i
    by (auto simp: resumed_job_def Let_def)
  then show "map job_upload (map (resumed_job m) ids) = ids" "Finished \<notin> set (map (resumed_job m) ids)"
    by (induction ids) (auto, metis)
qed

lemma job_of_resumed: "job_of (map (resumed_job m) ids) i = (if i \<in> set ids then resumed_job m i else Finished)"
  by (induction ids) (auto simp: job_of_Cons job_of_def mget_def resumed_job_def Let_def)

lemma recovered_pool:
  assumes rec: "recovering conn [] ids m" and max': "0 \<le> mg_max_upload m" "mg_max_upload m < int64_max"
  shows "pool_ok conn (map (resumed_job m) ids, m)"
proof (rule pool_okI)
  note D = recoveringD [OF rec]
  have ix: "map_of (mg_idempotency m) x = map_of (mr_by_idempotency (mg_repo m)) x" for x
  proof (cases "map_of (mr_by_idempotency (mg_repo m)) x")
    case None
    show ?thesis
    proof (cases "map_of (mg_idempotency m) x")
      case (Some i)
      from catalogued_back [OF D(4) Some] obtain e where e: "map_of (mg_uploads m) i = Some e" "entry_index e = x" by blast
      obtain r where r: "map_of (mr_records (mg_repo m)) i = Some r" "same_entry e r"
        using D(14) [OF e(1)] by (auto simp: settled_def upload_ok_def split: if_splits)
      have "entry_index r = x" using r(2) e(2) by (simp add: same_entry_def entry_index_def)
      with cataloguedD(3) [OF D(5) r(1)] None show ?thesis by simp
    qed (simp add: None)
  next
    case (Some i)
    from catalogued_back [OF D(5) Some] obtain r where r: "map_of (mr_records (mg_repo m)) i = Some r" "entry_index r = x" by blast
    from D(11) [OF r(1)] obtain e where e: "map_of (mg_uploads m) i = Some e" "same_entry e r" by auto
    have "entry_index e = x" using r(2) e(2) by (simp add: same_entry_def entry_index_def)
    with cataloguedD(3) [OF D(4) e(1)] Some show ?thesis by simp
  qed
  show "ingest_invar m" using D(1,3-7) ix by (simp add: ingest_invar_def fun_eq_iff)
  show "conn = (mg_store m \<noteq> None)" by (rule D(2))
  show "0 \<le> mg_max_upload m" "mg_max_upload m < int64_max" by fact+
  show "distinct (map job_upload (map (resumed_job m) ids))" "Finished \<notin> set (map (resumed_job m) ids)" by (simp_all only: resumed_jobs D(12) simp_thms)
  show "map_of (mg_uploads m) (job_upload j) \<noteq> None" if "j \<in> set (map (resumed_job m) ids)" for j
  proof -
    from that have "job_upload j \<in> set (map job_upload (map (resumed_job m) ids))" by (simp only: set_map image_eqI)
    then show ?thesis unfolding resumed_jobs using D(13) by blast
  qed
  fix i e assume e: "map_of (mg_uploads m) i = Some e"
  show "upload_ok conn (job_of (map (resumed_job m) ids) i) i e m"
    using D(14) [OF e] e
    by (cases "i \<in> set ids") (auto simp: settled_def upload_ok_def job_of_resumed resumed_job_def Let_def mget_def resumable_def)
qed

text \<open>What the repository must satisfy: its rows are indexed by their identifiers and keys, and reservations belong to rows.\<close>

definition repository_ok :: "memory_ingest \<Rightarrow> bool" where
  "repository_ok r \<longleftrightarrow> catalogued (mr_records r) (mr_by_idempotency r) \<and> wf_map (mr_reservations r)
     \<and> (\<forall>i c. map_of (mr_reservations r) i = Some c \<longrightarrow> map_of (mr_records r) i \<noteq> None)"

lemma NewMemoryIngest_ok: "repository_ok NewMemoryIngest"
  by (simp add: repository_ok_def NewMemoryIngest_def catalogued_def)

lemma start_recovering:
  assumes "repository_ok r" "ic_repository c = (memory_ingest_ops, r)"
  shows "recovering (ic_store c \<noteq> None) (mvals (mr_records r)) [] (fresh_manager quarantine quotas c)"
proof -
  have cat: "catalogued (mr_records r) (mr_by_idempotency r)" using assms(1) by (simp add: repository_ok_def)
  note wf = catalogued_wf [OF cat]
  have row: "map_of (mr_records r) (record_id e) = Some e" if "e \<in> set (mvals (mr_records r))" for e
    using that wf cataloguedD(1) [OF cat] by (auto simp: mvals_in_set)
  have ids: "record_id e = k" if "(k, e) \<in> set (mr_records r)" for k e
    using that wf cataloguedD(1) [OF cat, of k e] by (simp add: in_set_wf_map)
  have "map record_id (mvals (mr_records r)) = map fst (mr_records r)"
    unfolding mvals_def by (auto intro!: ids)
  with wf have "distinct (map record_id (mvals (mr_records r)))" by (simp add: wf_map_def)
  note distinct = this
  have all: "i \<in> record_id ` set (mvals (mr_records r))" if "map_of (mr_records r) i = Some e" for i e
  proof (rule image_eqI)
    show "i = record_id e" using cataloguedD(1) [OF cat that] by simp
    show "e \<in> set (mvals (mr_records r))" using that wf by (auto simp: mvals_in_set)
  qed
  have empty: "catalogued [] []" by (simp add: catalogued_def)
  have fields: "mg_ops (fresh_manager quarantine quotas c) = memory_ingest_ops" "mg_repo (fresh_manager quarantine quotas c) = r"
    "mg_uploads (fresh_manager quarantine quotas c) = []" "mg_idempotency (fresh_manager quarantine quotas c) = []"
    "mg_owner_reservations (fresh_manager quarantine quotas c) = []" "mg_store (fresh_manager quarantine quotas c) = ic_store c"
    using assms(2) by (simp_all add: fresh_manager_def)
  show ?thesis
  proof (rule recoveringI, unfold fields)
    show "catalogued (mr_records r) (mr_by_idempotency r)" by (rule cat)
    show "wf_map (mr_reservations r)" "map_of (mr_reservations r) i = Some q \<Longrightarrow> map_of (mr_records r) i \<noteq> None" for i q
      using assms(1) unfolding repository_ok_def by blast+
    show "distinct (map record_id (mvals (mr_records r)))" by (rule distinct)
    show "map_of (mr_records r) (record_id e) = Some e" if "e \<in> set (mvals (mr_records r))" for e by (rule row [OF that])
    show "i \<in> record_id ` set (mvals (mr_records r)) \<or> (\<exists>e. map_of [] i = Some e \<and> same_entry e f)" if "map_of (mr_records r) i = Some f" for i f
      using all [OF that] by blast
  qed (simp_all add: empty)
qed

lemma checked_config_keeps:
  "checked_config c = Inr c' \<Longrightarrow> ic_max_upload c' = ic_max_upload c \<and> 0 < ic_max_upload c' \<and> ic_repository c' = ic_repository c \<and> ic_store c' = ic_store c"
  by (auto simp: checked_config_def Let_def split: if_splits)

lemma recover_all_keeps:
  "recover_all env es m = (m', Inr ids) \<Longrightarrow> mg_max_upload m' = mg_max_upload m"
proof (induction es arbitrary: m ids)
  case (Cons e es)
  from Cons.prems(1) obtain m1 ids1 ids2 where one: "recover_one env e m = (m1, Inr ids1)" and rest: "recover_all env es m1 = (m', Inr ids2)"
    by (auto split: prod.splits sum.splits)
  from Cons.IH [OF rest] recover_one_keeps [of env e m] one show ?case by simp
qed simp

lemma NewManager_ok:
  assumes "NewManager env quarantine config = (Some m, Inr js)" "ic_repository config = (memory_ingest_ops, r)" "repository_ok r"
    and "ic_max_upload config < int64_max"
  shows "pool_ok (ic_store config \<noteq> None) (js, m)"
proof -
  from assms(1,2) obtain c ids quotas where c: "checked_config config = Inr c" and
    run: "recover_all env (mvals (mr_records r)) (fresh_manager quarantine quotas c) = (m, Inr ids)" and js: "js = map (resumed_job m) ids"
    using checked_config_keeps [of config]
    by (auto simp: NewManager_def ingest_LoadAll_def ingest_LoadQuotas_def split: sum.splits option.splits prod.splits)
  note K = checked_config_keeps [OF c]
  have "recovering (ic_store c \<noteq> None) [] ([] @ ids) m"
    by (rule recover_all_ok [OF run start_recovering [OF assms(3)]]) (use K assms(2) in simp)
  moreover have "mg_max_upload m = ic_max_upload c" using recover_all_keeps [OF run] K assms(2) by (simp add: fresh_manager_def)
  ultimately show ?thesis using recovered_pool [of "ic_store c \<noteq> None" ids m] K assms(4) js by simp
qed

text \<open>The pools a process can get into: it starts over the rows of its repository and runs.\<close>

definition reachable_pool :: "platform \<Rightarrow> bool \<Rightarrow> 'p pool \<Rightarrow> bool" where
  "reachable_pool P conn s \<longleftrightarrow> (\<exists>env quarantine config r m js. NewManager env quarantine config = (Some m, Inr js)
     \<and> ic_repository config = (memory_ingest_ops, r) \<and> repository_ok r \<and> ic_max_upload config < int64_max
     \<and> conn = (ic_store config \<noteq> None) \<and> (pool_step P)\<^sup>*\<^sup>* (js, m) s)"

lemma reachable_ok: "reachable_pool P conn s \<Longrightarrow> pool_ok conn s"
  unfolding reachable_pool_def by (elim exE conjE, rule pool_run_ok, assumption, simp only:, rule NewManager_ok)

text \<open>The ranks of the jobs bound the steps they have left.\<close>

lemma go_step_rank: "go_step P s s' \<Longrightarrow> Finished \<notin> set (fst s) \<Longrightarrow> sum_list (map job_rank (fst s')) < sum_list (map job_rank (fst s))"
proof (elim go_stepE, goal_cases)
  case (1 env j m m' j' xs ys)
  then have "j \<noteq> Finished" by auto
  from job_step_rank [OF this, of P env m] 1 show ?case by (auto simp: running_def)
qed

lemma go_run_ok: "(go_step P ^^ n) s s' \<Longrightarrow> pool_ok conn s \<Longrightarrow> pool_ok conn s' \<and> n + sum_list (map job_rank (fst s')) \<le> sum_list (map job_rank (fst s))"
proof (induction n arbitrary: s')
  case (Suc n)
  from Suc.prems(1) obtain s1 where s1: "(go_step P ^^ n) s s1" "go_step P s1 s'" by auto
  from Suc.IH [OF s1(1) Suc.prems(2)] have ih: "pool_ok conn s1" "n + sum_list (map job_rank (fst s1)) \<le> sum_list (map job_rank (fst s))" by auto
  have "Finished \<notin> set (fst s1)" using ih(1) by (auto simp: pool_ok_def split: prod.splits)
  from go_step_rank [OF s1(2) this] ih go_step_ok [OF ih(1) s1(2)] show ?case by simp
qed simp

lemma job_ranks_bound: "sum_list (map job_rank js) \<le> 16 * length js"
proof (induction js)
  case (Cons j js)
  have "job_rank j \<le> 16" by (cases j) simp_all
  with Cons show ?case by simp
qed simp

lemma go_progress: "js \<noteq> [] \<Longrightarrow> \<exists>s'. go_step P (js, m) s'"
proof (cases js)
  case (Cons j ys)
  obtain m' j' where "job_step P undefined j m = (m', j')" by fastforce
  from go_step.Go [OF this, of "[]" ys] Cons show ?thesis by auto
qed simp

text \<open>What a reader sees of an upload, with its row.\<close>

lemma reachable_row:
  assumes "reachable_pool P conn (js, m)" "Get owner i m = Inr u"
  obtains e r where "map_of (mg_uploads m) i = Some e" "pr_upload e = u" "pr_owner_id e = owner"
    "map_of (mr_records (mg_repo m)) i = Some r" "same_entry e r" "phase_ok conn (job_of js i) e r"
    "pending (up_status u) \<longrightarrow> map_of (mg_quarantine m) (upload_object i) \<noteq> None" "up_id u = i"
proof -
  note ok = reachable_ok [OF assms(1)]
  from assms(2) obtain e where e: "map_of (mg_uploads m) i = Some e" "pr_upload e = u" "pr_owner_id e = owner"
    by (auto simp: Get_def split: option.splits if_splits)
  from pool_okD(8) [OF ok e(1)] obtain r where r: "map_of (mr_records (mg_repo m)) i = Some r" "same_entry e r" "phase_ok conn (job_of js i) e r"
    "pending (up_status u) \<longrightarrow> map_of (mg_quarantine m) (upload_object i) \<noteq> None" using e(2) by (auto simp: upload_ok_def)
  have "up_id u = i" using cataloguedD(1) [OF ingest_invarD(2) [OF pool_okD(1) [OF ok]] e(1)] e(2) by simp
  with e r show ?thesis by (intro that)
qed

end
