(* ===== verification/IngestProperties.thy ===== *)
theory IngestProperties
  imports IngestRecovery
begin

text \<open>
  The properties of the reception of uploads and their witnesses: what a successful call stores, and that
  a failed one leaves nothing behind.
\<close>

section \<open>Reception\<close>


text \<open>
  C31: a failed upload leaves nothing behind. Whatever step of \<open>create\<close> fails, the manager's tables, the
  repository, the owner's running reservation and the quarantine directory are what they were before the
  call, but for reservations that had expired and, when it cannot be removed, the object the call itself
  had made; and the answer for a known key changes nothing at all.
\<close>

theorem upload_fails_clean:
  assumes "create P env owner key name media source expected m = (m', res)" "ingest_invar m"
    and "\<forall>i. randomID ''upl'' (ie_draws env 0) = Inr i \<longrightarrow> fresh_upload i m"
    and "0 \<le> mg_max_upload m" "mg_max_upload m < int64_max"
  shows "(case res of Inl _ \<Rightarrow> undone env m m' | Inr (u, reused) \<Rightarrow> reused \<longrightarrow> m' = m)"
  by (rule create_not_new [OF assms])


section \<open>Inspection and protection\<close>

text \<open>
  C32: no verdict is shown before it is stored. In every reachable state of the manager and its goroutines,
  an upload that \<open>Get\<close> shows as accepted or rejected has that very record in the repository.
\<close>

theorem verdicts_match_repository:
  assumes "reachable_pool P conn (js, m)" "Get owner i m = Inr u" "up_status u = StatusAccepted \<or> up_status u = StatusRejected"
  shows "\<exists>r. map_of (mr_records (mg_repo m)) i = Some r \<and> pr_upload r = u \<and> pr_owner_id r = owner"
proof -
  obtain e r where e: "pr_upload e = u" "pr_owner_id e = owner" and r: "map_of (mr_records (mg_repo m)) i = Some r"
    and ph: "phase_ok conn (job_of js i) e r"
    by (rule reachable_row [OF assms(1,2)])
  have "r = e" using ph assms(3) e(1) by (cases "job_of js i") auto
  with e r show ?thesis by blast
qed



text \<open>
  C35: an upload is shown as stored before that is stored. When the protected copy has been registered, the
  next step makes readers see \<open>stored\<close> while the repository still says \<open>encrypting\<close>; if the audit event
  cannot be prepared then, the upload ends as failed and its plaintext object is removed, although the
  protected copy stays.
\<close>

theorem stored_before_commit:
  assumes "reachable_pool P conn (js, m)" "ProtectFinish i \<in> set js" "job_step P env (ProtectFinish i) m = (m', j)"
    and "ie_prepare env' = Some (\<lambda>_. Inl msg)" "ie_faults env' RemoveQuarantine = None"
  shows "\<exists>e r. map_of (mg_uploads m') i = Some e \<and> Get (pr_owner_id e) i m' = Inr (pr_upload e) \<and> record_status e = StatusStored
    \<and> map_of (mr_records (mg_repo m')) i = Some r \<and> record_status r = StatusEncrypting
    \<and> (\<exists>f. map_of (mg_uploads (run_job P env' j m')) i = Some f \<and> record_status f = StatusFailed
         \<and> up_reason (pr_upload f) = ''metadata_persistence_unavailable''
         \<and> map_of (mg_quarantine (run_job P env' j m')) (i @ ''.upload'') = None \<and> mg_store (run_job P env' j m') = mg_store m)"
proof -
  note ok = reachable_ok [OF assms(1)]
  note D = pool_okD [OF ok]
  obtain xs ys where js: "js = xs @ ProtectFinish i # ys" using assms(2) by (meson split_list)
  obtain e where e: "map_of (mg_uploads m) i = Some e" using D(7) [OF assms(2)] by auto
  obtain r where t: "tracked i e r m" and ph: "phase_ok conn (job_of js i) e r" and id: "record_id e = i" by (rule tracked_at [OF ok e])
  have "job_of js i = ProtectFinish i" using job_of_at [of "ProtectFinish i" xs ys] D(5) js by auto
  with ph have enc: "record_status e = StatusEncrypting" "r = e" by auto
  define e' where "e' = set_outcome StatusStored 100 ''protected_storage_committed'' e"
  define f where "f = set_outcome StatusFailed 100 ''metadata_persistence_unavailable'' e'"
  have m': "m' = m\<lparr>mg_uploads := mput i e' (mg_uploads m)\<rparr>" "j = ProtectCompleted e'"
    using assms(3) e by (auto simp: protect_finish_def track_def e'_def)
  note T = t [unfolded tracked_def]
  have ids: "record_id e' = i" "record_id f = i" "pr_object f = upload_object i" "pr_owner_id e' = pr_owner_id e"
    using T by (simp_all add: e'_def f_def set_outcome_def)
  have run: "run_job P env' j m' = fst (discard env' f (fst (persistence_failed f (m'\<lparr>mg_uploads := mput i f (mg_uploads m')\<rparr>))))"
    unfolding m'(2)
    by (simp add: run_job.simps protect_completed_def persist_or_fail_def persistLifecycle_def assms(4) ids fail_persistence_def track_def m'(1)
        f_def [symmetric] persistence_failed_def discard_def)
  have "map_of (mg_uploads (run_job P env' j m')) i = Some f" "map_of (mg_quarantine (run_job P env' j m')) (upload_object i) = None"
    "mg_store (run_job P env' j m') = mg_store m"
    unfolding run using T assms(5) ids
    by (simp_all add: discard_def persistence_failed_def release_capacity_def remove_quarantined_def m'(1))
  moreover have "record_status f = StatusFailed" "up_reason (pr_upload f) = ''metadata_persistence_unavailable''" "record_status e' = StatusStored"
    by (simp_all add: f_def e'_def set_outcome_def)
  moreover have "map_of (mr_records (mg_repo m')) i = Some e" using T enc by (simp add: m'(1))
  ultimately show ?thesis using enc
    by (intro exI [of _ e'] exI [of _ e]) (auto simp: m'(1) Get_def upload_object_def)
qed


section \<open>Start-up\<close>

text \<open>
  C37: a restart classifies every upload. After a start over the rows of the repository, a row whose
  reception never finished and a pending row whose plaintext is gone have failed, in the manager and in the
  repository; every other row is tracked as it is; nothing else is tracked; and exactly the uploads that are
  quarantined or in inspection, or accepted or encrypting when there is a protected store, have a goroutine.
\<close>

theorem restart_classifies:
  assumes "NewManager env quarantine config = (Some m, Inr js)" "ic_repository config = (memory_ingest_ops, r)" "repository_ok r"
  shows "map_of (mg_uploads m) i = map_option (recovered_entry quarantine) (map_of (mr_records r) i)
    \<and> map_of (mr_records (mg_repo m)) i = map_option (recovered_entry quarantine) (map_of (mr_records r) i)
    \<and> (i \<in> set (map job_upload js) \<longleftrightarrow>
        (\<exists>e. map_of (mr_records r) i = Some e \<and> resumable (ic_store config \<noteq> None) (record_status (recovered_entry quarantine e))))"
proof -
  from assms(1,2) obtain c ids quotas where c: "checked_config config = Inr c" and
    run: "recover_all env (mvals (mr_records r)) (fresh_manager quarantine quotas c) = (m, Inr ids)" and js: "js = map (resumed_job m) ids"
    using checked_config_keeps [of config]
    by (auto simp: NewManager_def ingest_LoadAll_def ingest_LoadQuotas_def split: sum.splits option.splits prod.splits)
  note K = checked_config_keeps [OF c]
  have start: "recovering (ic_store c \<noteq> None) (mvals (mr_records r)) [] (fresh_manager quarantine quotas c)"
    by (rule start_recovering [OF assms(3)]) (use K assms(2) in simp)
  have fields: "mg_quarantine (fresh_manager quarantine quotas c) = quarantine" "mg_uploads (fresh_manager quarantine quotas c) = []"
    "mg_repo (fresh_manager quarantine quotas c) = r" using K assms(2) by (simp_all add: fresh_manager_def)
  have cat: "catalogued (mr_records r) (mr_by_idempotency r)" using assms(3) by (simp add: repository_ok_def)
  have rows: "map_of (mr_records r) i = Some e \<longleftrightarrow> e \<in> set (mvals (mr_records r)) \<and> record_id e = i" for e
    using mvals_in_set catalogued_wf [OF cat] cataloguedD(1) [OF cat] by metis
  from recover_all_rows [OF run start, of quarantine] fields
  have R: "\<forall>e \<in> set (mvals (mr_records r)). map_of (mg_uploads m) (record_id e) = Some (recovered_entry quarantine e)
      \<and> map_of (mr_records (mg_repo m)) (record_id e) = Some (recovered_entry quarantine e)
      \<and> (record_id e \<in> set ids \<longleftrightarrow> resumable (ic_store config \<noteq> None) (record_status (recovered_entry quarantine e)))"
    and others: "i \<notin> record_id ` set (mvals (mr_records r)) \<Longrightarrow> map_of (mg_uploads m) i = None
      \<and> map_of (mr_records (mg_repo m)) i = map_of (mr_records r) i \<and> i \<notin> set ids" using K by auto
  show ?thesis unfolding js resumed_jobs
  proof (cases "map_of (mr_records r) i")
    case (Some e)
    then have in_rows: "e \<in> set (mvals (mr_records r))" "record_id e = i" using rows [of e] by simp_all
    from bspec [OF R in_rows(1)] in_rows(2) have "map_of (mg_uploads m) i = Some (recovered_entry quarantine e)" "map_of (mr_records (mg_repo m)) i = Some (recovered_entry quarantine e)"
      "i \<in> set ids \<longleftrightarrow> resumable (ic_store config \<noteq> None) (record_status (recovered_entry quarantine e))" by auto
    with Some show "map_of (mg_uploads m) i = map_option (recovered_entry quarantine) (map_of (mr_records r) i)
      \<and> map_of (mr_records (mg_repo m)) i = map_option (recovered_entry quarantine) (map_of (mr_records r) i)
      \<and> (i \<in> set ids \<longleftrightarrow> (\<exists>e. map_of (mr_records r) i = Some e \<and> resumable (ic_store config \<noteq> None) (record_status (recovered_entry quarantine e))))" by simp
  next
    case None
    then have "i \<notin> record_id ` set (mvals (mr_records r))" using rows by auto
    from others [OF this] None show "map_of (mg_uploads m) i = map_option (recovered_entry quarantine) (map_of (mr_records r) i)
      \<and> map_of (mr_records (mg_repo m)) i = map_option (recovered_entry quarantine) (map_of (mr_records r) i)
      \<and> (i \<in> set ids \<longleftrightarrow> (\<exists>e. map_of (mr_records r) i = Some e \<and> resumable (ic_store config \<noteq> None) (record_status (recovered_entry quarantine e))))" by simp
  qed
qed


section \<open>Capacity\<close>

text \<open>The bytes committed to some uploads: those of records without a reservation, and those reserved.\<close>

definition committed :: "(string \<Rightarrow> bool) \<Rightarrow> memory_ingest \<Rightarrow> int" where
  "committed owners r = sum_list (unreserved_usage (\<lambda>e. owners (pr_owner_id e)) r) + sum_list (reserved_bytes (\<lambda>c. owners (cr_owner_id c)) r)"

definition plausible :: "memory_ingest \<Rightarrow> int64 \<Rightarrow> bool" where
  "plausible r n \<longleftrightarrow> (\<forall>e \<in> set (mvals (mr_records r)). 0 \<le> record_bytes e) \<and> (\<forall>c \<in> set (mvals (mr_reservations r)). 0 \<le> cr_bytes c)
     \<and> committed (\<lambda>_. True) r + n \<le> int64_max"

lemma sum_list_filter_mono: "\<forall>x \<in> set xs. 0 \<le> (f x :: int) \<Longrightarrow> (\<And>x. P x \<Longrightarrow> Q x) \<Longrightarrow> sum_list (map f (filter P xs)) \<le> sum_list (map f (filter Q xs))"
  by (induction xs) auto

lemma usage_nonneg:
  assumes "plausible r n"
  shows "0 \<le> sum_list (unreserved_usage who r)" "0 \<le> sum_list (reserved_bytes whoc r)"
    "\<forall>x \<in> set (unreserved_usage who r). 0 \<le> x" "\<forall>x \<in> set (reserved_bytes whoc r). 0 \<le> x"
proof -
  show A: "\<forall>x \<in> set (unreserved_usage who r). 0 \<le> x" "\<forall>x \<in> set (reserved_bytes whoc r). 0 \<le> x"
    using assms by (auto simp: plausible_def unreserved_usage_def reserved_bytes_def mvals_def)
  show "0 \<le> sum_list (unreserved_usage who r)" "0 \<le> sum_list (reserved_bytes whoc r)"
    using A by (auto intro: sum_list_nonneg)
qed

lemma usage_mono:
  assumes "plausible r n"
  shows "sum_list (unreserved_usage who r) \<le> sum_list (unreserved_usage (\<lambda>_. True) r)"
    "sum_list (reserved_bytes whoc r) \<le> sum_list (reserved_bytes (\<lambda>_. True) r)"
  unfolding unreserved_usage_def reserved_bytes_def
  by (rule sum_list_filter_mono; use assms in \<open>auto simp: plausible_def mvals_def\<close>)+

lemma checked_sum:
  assumes "plausible r n" "0 \<le> n"
  shows "add64 (add64 (sum64 (unreserved_usage who r)) (sum64 (reserved_bytes whoc r))) n
    = sum_list (unreserved_usage who r) + sum_list (reserved_bytes whoc r) + n"
proof -
  have total: "sum_list (unreserved_usage (\<lambda>_. True) r) + sum_list (reserved_bytes (\<lambda>_. True) r) + n \<le> int64_max"
    using assms(1) by (simp add: plausible_def committed_def)
  note N = usage_nonneg [OF assms(1)] and M = usage_mono [OF assms(1)]
  have "sum_list (unreserved_usage who r) \<le> int64_max" "sum_list (reserved_bytes whoc r) \<le> int64_max"
    using M(1) [of who] M(2) [of whoc] N(1) [of "\<lambda>_. True"] N(2) [of "\<lambda>_. True"] total assms(2) by linarith+
  then have "sum64 (unreserved_usage who r) = sum_list (unreserved_usage who r)" "sum64 (reserved_bytes whoc r) = sum_list (reserved_bytes whoc r)"
    using N(3) [of who] N(4) [of whoc] by (simp_all add: sum64_exact)
  then show ?thesis
    using N(1) [of who] N(2) [of whoc] M(1) [of who] M(2) [of whoc] total assms(2)
    by (simp add: add64_def wrap64_id int64_min_def)
qed

lemma reserved_more:
  assumes "map_of rs i = None"
  shows "sum_list (reserved_bytes who (r\<lparr>mr_reservations := mput i q rs\<rparr>))
    = sum_list (reserved_bytes who (r\<lparr>mr_reservations := rs\<rparr>)) + (if who q then cr_bytes q else 0)"
  by (simp add: reserved_bytes_def mput_fresh [OF assms])

lemma usage_less:
  assumes "\<forall>e \<in> set (mvals (mr_records r)). 0 \<le> record_bytes e"
  shows "sum_list (unreserved_usage who (r\<lparr>mr_reservations := mput i q rs\<rparr>)) \<le> sum_list (unreserved_usage who (r\<lparr>mr_reservations := rs\<rparr>))"
proof -
  have "sum_list (map (record_bytes \<circ> snd) (filter (\<lambda>(k, e). countsTowardQuota (record_status e) \<and> map_of (mput i q rs) k = None \<and> who e) (mr_records r)))
      \<le> sum_list (map (record_bytes \<circ> snd) (filter (\<lambda>(k, e). countsTowardQuota (record_status e) \<and> map_of rs k = None \<and> who e) (mr_records r)))"
    by (rule sum_list_filter_mono) (use assms in \<open>auto simp: mvals_def split: if_splits\<close>)
  then show ?thesis by (simp add: unreserved_usage_def)
qed

text \<open>
  C39: reservations keep to the limits. While no sum leaves the 64-bit range, a reservation for a new upload
  is granted exactly when the owner's committed bytes with it stay within the owner's quota and everybody's
  within the capacity less the reserve, expired reservations not counting; the books balance afterwards, and
  a refusal changes nothing but the expired ones.
\<close>

theorem reservations_within_limits:
  assumes "ingest_ReserveCapacity q r = (r', res)" "live = r\<lparr>mr_reservations := live_reservations (cr_now q) (mr_reservations r)\<rparr>"
    and "0 < cr_bytes q" "0 < cr_owner_quota q" "0 \<le> cr_storage_reserve q" "cr_storage_reserve q < cr_storage_capacity q"
    and "cr_storage_capacity q \<le> int64_max" "cr_now q < cr_expires_at q" "plausible live (cr_bytes q)"
    and "map_of (mr_reservations live) (cr_upload_id q) = None"
  shows "(res = Inr () \<longleftrightarrow> committed (\<lambda>o'. o' = cr_owner_id q) live + cr_bytes q \<le> cr_owner_quota q
      \<and> committed (\<lambda>_. True) live + cr_bytes q \<le> cr_storage_capacity q - cr_storage_reserve q)
    \<and> (res = Inr () \<longrightarrow> map_of (mr_reservations r') (cr_upload_id q) = Some q
      \<and> committed (\<lambda>o'. o' = cr_owner_id q) r' \<le> cr_owner_quota q \<and> committed (\<lambda>_. True) r' \<le> cr_storage_capacity q - cr_storage_reserve q)
    \<and> (res \<noteq> Inr () \<longrightarrow> r' = live \<and> res \<in> {Inl ErrQuotaExceeded, Inl ErrCapacityExceeded})"
proof -
  have room: "sub64 (cr_storage_capacity q) (cr_storage_reserve q) = cr_storage_capacity q - cr_storage_reserve q"
    unfolding sub64_def using assms(5-7) by (intro wrap64_id) (auto simp: int64_min_def)
  define own where "own = committed (\<lambda>o'. o' = cr_owner_id q) live + cr_bytes q"
  define tot where "tot = committed (\<lambda>_. True) live + cr_bytes q"
  note S = checked_sum [OF assms(9) less_imp_le [OF assms(3)]]
  have run: "(r', res) = (if own > cr_owner_quota q then (live, Inl ErrQuotaExceeded)
      else if tot > cr_storage_capacity q - cr_storage_reserve q then (live, Inl ErrCapacityExceeded)
      else (live\<lparr>mr_reservations := mput (cr_upload_id q) q (mr_reservations live)\<rparr>, Inr ()))"
  proof -
    have valid: "(cr_bytes q \<le> 0 \<or> cr_owner_quota q \<le> 0 \<or> cr_storage_capacity q \<le> cr_storage_reserve q \<or> \<not> cr_now q < cr_expires_at q) = False"
      using assms(3-8) by simp
    show ?thesis
      using assms(1) unfolding ingest_ReserveCapacity_def Let_def assms(2) [symmetric] room valid if_False assms(10) option.case own_def tot_def
        committed_def S [symmetric] by (rule sym)
  qed
  have grown: "committed owners (live\<lparr>mr_reservations := mput (cr_upload_id q) q (mr_reservations live)\<rparr>)
      \<le> committed owners live + (if owners (cr_owner_id q) then cr_bytes q else 0)" for owners
    using reserved_more [OF assms(10), where who = "\<lambda>c. owners (cr_owner_id c)" and r = live and q = q]
      usage_less [of live "\<lambda>e. owners (pr_owner_id e)" "cr_upload_id q" q "mr_reservations live"] assms(9)
    by (simp add: committed_def plausible_def)
  define r2 where "r2 = live\<lparr>mr_reservations := mput (cr_upload_id q) q (mr_reservations live)\<rparr>"
  have books: "committed (\<lambda>o'. o' = cr_owner_id q) r2 \<le> own" "committed (\<lambda>_. True) r2 \<le> tot" "map_of (mr_reservations r2) (cr_upload_id q) = Some q"
    using grown [of "\<lambda>o'. o' = cr_owner_id q"] grown [of "\<lambda>_. True"] by (simp_all add: r2_def own_def tot_def)
  note run' = run [folded r2_def]
  consider "own > cr_owner_quota q" | "own \<le> cr_owner_quota q" "tot > cr_storage_capacity q - cr_storage_reserve q"
    | "own \<le> cr_owner_quota q" "tot \<le> cr_storage_capacity q - cr_storage_reserve q" by linarith
  then show ?thesis unfolding own_def [symmetric] tot_def [symmetric]
    by cases (use run' books in simp_all)
qed


section \<open>Untracked objects\<close>

text \<open>
  C40: reconciliation removes only what is nobody's. Deleting an orphan from quarantine changes nothing, or
  removes exactly one regular file: one that no upload tracks, that is at least as old as the safety window
  asks, and whose name, size and time of change are those the token was issued for.
\<close>

theorem orphan_deletion_is_exact:
  assumes "quarantine_DeleteOrphan P io token minimumAge now m = (m', res)"
  shows "(\<exists>e. res = Inl e) \<and> m' = m
    \<or> (\<exists>name ob. m' = m\<lparr>mg_quarantine := mdelete name (mg_quarantine m)\<rparr> \<and> map_of (mg_quarantine m) name = Some ob
        \<and> so_kind ob = RegularFile \<and> (\<forall>e \<in> set (mvals (mg_uploads m)). pr_object e \<noteq> name)
        \<and> truncate_us (so_modified ob) \<le> now - minimumAge
        \<and> token = orphan_token P ''quarantine'' name (object_size ob) (truncate_us (so_modified ob)))"
proof -
  obtain root and out :: "(ingest_error + orphan_error) + candidate" where
    d: "orphan_Delete P io (mg_quarantine m) ''quarantine'' (tracked_objects m) token minimumAge now None = (root, out)" by fastforce
  with assms have m': "m' = m\<lparr>mg_quarantine := root\<rparr>" "res = out" by (simp_all add: quarantine_DeleteOrphan_def)
  from d show ?thesis
  proof (cases rule: orphan_Delete_cases)
    case (kept e)
    with m' show ?thesis by simp
  next
    case (removed name c)
    then have r: "name \<notin> set (tracked_objects m)" and "\<exists>ob. map_of (mg_quarantine m) name = Some ob \<and> so_kind ob = RegularFile
        \<and> truncate_us (so_modified ob) \<le> now - minimumAge \<and> token = orphan_token P ''quarantine'' name (object_size ob) (truncate_us (so_modified ob))"
      by (auto simp: removable_def split: option.splits)
    moreover have "\<forall>e \<in> set (mvals (mg_uploads m)). pr_object e \<noteq> name" using r by (auto simp: tracked_objects_def)
    ultimately show ?thesis using m' removed(1) by blast
  qed
qed

end
