(* ===== verification/ProtectedLifecycle.thy ===== *)
theory ProtectedLifecycle
  imports ProtectedService
begin

text \<open>
  Access and lifecycle operations of the protected-file service (\<open>access.go\<close>, \<open>lifecycle.go\<close>): grants,
  trash, retention and legal hold, purging with its idempotency keys, the worker that purges what is due,
  and recovery drills. The Boolean beside a result says whether the evidence was committed with the change.
\<close>

section \<open>Access\<close>

definition access_unavailable :: store_error where
  "access_unavailable = StoreError ''protected access grants are unavailable''"

definition validPermission :: "string \<Rightarrow> bool" where
  "validPermission v \<longleftrightarrow> v = PermissionRead \<or> v = PermissionDownload"

definition svc_ListSharedFiles :: "time \<Rightarrow> string \<Rightarrow> 'r protected_service \<Rightarrow> store_error + shared_file list" where
  "svc_ListSharedFiles now recipientID st =
     (case po_access (sv_ops st) of None \<Rightarrow> Inl access_unavailable
      | Some xo \<Rightarrow> xo_list_shared xo now recipientID (sv_repo st))"

text \<open>The clock is read twice: for the expiry check, and inside the repository.\<close>

definition CreateGrantAudited ::
    "platform \<Rightarrow> surroundings \<Rightarrow> string \<Rightarrow> string \<Rightarrow> recipient \<Rightarrow> string \<Rightarrow> time option \<Rightarrow> intent \<Rightarrow> 'r protected_service
       \<Rightarrow> 'r protected_service \<times> bool \<times> (store_error + access_grant)" where
  "CreateGrantAudited P su ownerID fileID rec permission expiresAt i st =
     (case po_access (sv_ops st) of None \<Rightarrow> (st, False, Inl access_unavailable)
      | Some xo \<Rightarrow>
          (let permission = to_lower P (trim_space permission) in
           if \<not> validPermission permission \<or> rc_id rec = [] \<or> rc_id rec = ownerID
           then (st, False, Inl (StoreError ''invalid access grant''))
           else if (case expiresAt of None \<Rightarrow> False | Some t \<Rightarrow> \<not> su_clock su 0 < t)
           then (st, False, Inl (StoreError ''grant expiry must be in the future''))
           else
             (let drawn = store_opaqueID ''grant'' (su_draws su 0) in
              case (po_audited_access (sv_ops st), in_event_id i \<noteq> []) of
                (Some ax, True) \<Rightarrow>
                  (case ax_create_grant ax (su_clock su 1) drawn ownerID fileID rec permission expiresAt i (sv_repo st) of
                     (r', res) \<Rightarrow> (st\<lparr>sv_repo := r'\<rparr>, True, res))
              | _ \<Rightarrow>
                  (case xo_create_grant xo (su_clock su 1) drawn ownerID fileID rec permission expiresAt (sv_repo st) of
                     (r', res) \<Rightarrow> (st\<lparr>sv_repo := r'\<rparr>, False, res)))))"

definition svc_ListGrants :: "time \<Rightarrow> string \<Rightarrow> string \<Rightarrow> 'r protected_service \<Rightarrow> store_error + access_grant list" where
  "svc_ListGrants now ownerID fileID st =
     (case po_access (sv_ops st) of None \<Rightarrow> Inl access_unavailable
      | Some xo \<Rightarrow> xo_list_grants xo now ownerID fileID (sv_repo st))"

definition RevokeGrantAudited ::
    "time \<Rightarrow> string \<Rightarrow> string \<Rightarrow> string \<Rightarrow> intent \<Rightarrow> 'r protected_service
       \<Rightarrow> 'r protected_service \<times> bool \<times> (store_error + unit)" where
  "RevokeGrantAudited now ownerID fileID grantID i st =
     (case po_access (sv_ops st) of None \<Rightarrow> (st, False, Inl access_unavailable)
      | Some xo \<Rightarrow>
          (case (po_audited_access (sv_ops st), in_event_id i \<noteq> []) of
             (Some ax, True) \<Rightarrow>
               (case ax_revoke_grant ax now ownerID fileID grantID i (sv_repo st) of
                  (r', res) \<Rightarrow> (st\<lparr>sv_repo := r'\<rparr>, True, res))
           | _ \<Rightarrow>
               (case xo_revoke_grant xo now ownerID fileID grantID (sv_repo st) of
                  (r', res) \<Rightarrow> (st\<lparr>sv_repo := r'\<rparr>, False, res))))"

definition AuthorizedDetails :: "time \<Rightarrow> string \<Rightarrow> string \<Rightarrow> 'r protected_service \<Rightarrow> store_error + file_details" where
  "AuthorizedDetails now requesterID fileID st =
     (case po_access (sv_ops st) of None \<Rightarrow> Inl access_unavailable
      | Some xo \<Rightarrow> xo_details xo now requesterID fileID PermissionRead (sv_repo st))"

definition OpenCurrentAuthorized ::
    "platform \<Rightarrow> faults \<Rightarrow> time \<Rightarrow> string \<Rightarrow> string \<Rightarrow> 'r protected_service \<Rightarrow> store_error + protected_file" where
  "OpenCurrentAuthorized P io now requesterID fileID st =
     (case po_access (sv_ops st) of None \<Rightarrow> Inl access_unavailable
      | Some xo \<Rightarrow>
          (case xo_current_metadata xo now requesterID fileID PermissionDownload (sv_repo st) of Inl e \<Rightarrow> Inl e
           | Inr m \<Rightarrow> openMetadata P io m st))"

section \<open>Lifecycle\<close>

definition DefaultDeletionGracePeriod :: duration where "DefaultDeletionGracePeriod = 30 * 24 * hour"

text \<open>
  \<open>audited_or\<close>: the operation with evidence when the repository has it and the intent is not empty, else
  the plain one; \<open>lifecycle()\<close> panics when the repository does not implement the interface.
\<close>

definition audited_or ::
    "intent \<Rightarrow> ('r audited_lifecycle_ops \<Rightarrow> 'r \<Rightarrow> 'r \<times> (store_error + 'a)) \<Rightarrow> ('r lifecycle_ops \<Rightarrow> 'r \<Rightarrow> 'r \<times> (store_error + 'a))
       \<Rightarrow> 'r protected_service \<Rightarrow> 'r protected_service \<times> bool \<times> (store_error + 'a)" where
  "audited_or i f g st =
     (case (po_audited_lifecycle (sv_ops st), in_event_id i \<noteq> []) of
        (Some al, True) \<Rightarrow> (case f al (sv_repo st) of (r', res) \<Rightarrow> (st\<lparr>sv_repo := r'\<rparr>, True, res))
      | _ \<Rightarrow>
          (case po_lifecycle (sv_ops st) of None \<Rightarrow> (st, False, Inl StorePanic)
           | Some lo \<Rightarrow> (case g lo (sv_repo st) of (r', res) \<Rightarrow> (st\<lparr>sv_repo := r'\<rparr>, False, res))))"

definition svc_ListTrash :: "string \<Rightarrow> 'r protected_service \<Rightarrow> store_error + lifecycle_file list" where
  "svc_ListTrash ownerID st =
     (case po_lifecycle (sv_ops st) of None \<Rightarrow> Inl StorePanic | Some lo \<Rightarrow> lo_list_trash lo ownerID (sv_repo st))"

definition MoveToTrashAudited ::
    "time \<Rightarrow> string \<Rightarrow> string \<Rightarrow> intent \<Rightarrow> 'r protected_service \<Rightarrow> 'r protected_service \<times> bool \<times> (store_error + lifecycle_file)" where
  "MoveToTrashAudited clock ownerID fileID i st =
     (let now = truncate_us clock; due = now + DefaultDeletionGracePeriod
      in audited_or i (\<lambda>al. al_move_to_trash al ownerID fileID now due i) (\<lambda>lo. lo_move_to_trash lo ownerID fileID now due) st)"

definition RestoreFromTrashAudited ::
    "time \<Rightarrow> string \<Rightarrow> string \<Rightarrow> intent \<Rightarrow> 'r protected_service \<Rightarrow> 'r protected_service \<times> bool \<times> (store_error + lifecycle_file)" where
  "RestoreFromTrashAudited clock ownerID fileID i st =
     (let now = truncate_us clock
      in audited_or i (\<lambda>al. al_restore_from_trash al ownerID fileID now i) (\<lambda>lo. lo_restore_from_trash lo ownerID fileID now) st)"

definition PurgeOperationIDs :: "platform \<Rightarrow> string \<Rightarrow> string \<Rightarrow> string \<Rightarrow> store_error + (string \<times> string)" where
  "PurgeOperationIDs P ownerID fileID idempotencyKey =
     (let key = trim_space idempotencyKey in
      if length key < 8 \<or> length key > 128 then Inl (StoreError ''invalid purge idempotency key'')
      else let encoded = hex_encode (p_sha256 P (ownerID @ NUL @ fileID @ NUL @ key))
           in Inr (''purge_'' @ encoded, ''aud_purge_'' @ encoded))"

definition PurgeAudited ::
    "platform \<Rightarrow> faults \<Rightarrow> time \<Rightarrow> string \<Rightarrow> string \<Rightarrow> string \<Rightarrow> intent \<Rightarrow> 'r protected_service
       \<Rightarrow> 'r protected_service \<times> bool \<times> (store_error + purge_result)" where
  "PurgeAudited P io clock ownerID fileID idempotencyKey i st =
     (case PurgeOperationIDs P ownerID fileID idempotencyKey of Inl e \<Rightarrow> (st, False, Inl e)
      | Inr (operationID, auditEventID) \<Rightarrow>
          (let i = (if in_event_id i \<noteq> [] then i\<lparr>in_event_id := auditEventID\<rparr> else i); now = truncate_us clock in
           case audited_or i (\<lambda>al. al_purge al ownerID fileID operationID now i) (\<lambda>lo. lo_purge lo ownerID fileID operationID now) st of
             (st1, durable, Inl e) \<Rightarrow> (st1, False, Inl e)
           | (st1, durable, Inr result) \<Rightarrow>
               (st1\<lparr>sv_root := fold (\<lambda>name root. if io (RemoveObject name) = None then mdelete name root else root)
                   (pu_blob_objects result) (sv_root st1)\<rparr>, durable, Inr result)))"

definition SetRetentionAudited ::
    "string \<Rightarrow> time option \<Rightarrow> intent \<Rightarrow> 'r protected_service \<Rightarrow> 'r protected_service \<times> bool \<times> (store_error + lifecycle_file)" where
  "SetRetentionAudited fileID until i =
     audited_or i (\<lambda>al. al_set_retention al fileID until i) (\<lambda>lo. lo_set_retention lo fileID until)"

definition SetLegalHoldAudited ::
    "string \<Rightarrow> bool \<Rightarrow> string \<Rightarrow> intent \<Rightarrow> 'r protected_service \<Rightarrow> 'r protected_service \<times> bool \<times> (store_error + lifecycle_file)" where
  "SetLegalHoldAudited fileID enabled reason i st =
     (let reason = trim_space reason in
      if enabled \<and> (length reason < 4 \<or> length reason > 160)
      then (st, False, Inl (StoreError ''legal hold reason is required''))
      else audited_or i (\<lambda>al. al_set_legal_hold al fileID enabled reason i) (\<lambda>lo. lo_set_legal_hold lo fileID enabled reason) st)"

definition svc_LifecycleSummary :: "time \<Rightarrow> int \<Rightarrow> 'r protected_service \<Rightarrow> store_error + lifecycle_summary" where
  "svc_LifecycleSummary now limit st =
     (case po_lifecycle (sv_ops st) of None \<Rightarrow> Inl StorePanic
      | Some lo \<Rightarrow>
     (case lo_summary lo now limit (sv_repo st) of Inl e \<Rightarrow> Inl e
      | Inr s \<Rightarrow>
          (let failed = count_of (\<lambda>d. do_status d = ''failed'') (ls_deletions s);
               due = (if ls_eligible s > 0 then [\<lparr>la_id = ''purge-eligible'', la_severity = ''medium'',
                   la_title = ''Files awaiting permanent deletion'',
                   la_detail = ''Recovery periods have expired and policy gates permit deletion.'', la_count = ls_eligible s\<rparr>] else []);
               failures = (if failed > 0 then [\<lparr>la_id = ''deletion-failures'', la_severity = ''high'',
                   la_title = ''Deletion operations require attention'',
                   la_detail = ''One or more cryptographic deletion attempts failed closed and will be retried.'', la_count = failed\<rparr>] else [])
           in Inr (s\<lparr>ls_backup := sv_backup st, ls_alerts := ls_alerts s @ due @ failures\<rparr>))))"

section \<open>The purge worker\<close>

record worker_result =
  wr_examined :: int
  wr_completed :: int
  wr_failed :: int

definition lifecycleReason :: "store_error \<Rightarrow> string" where
  "lifecycleReason e =
     (case e of ErrLegalHold \<Rightarrow> ''legal_hold_active''
      | ErrRetentionActive \<Rightarrow> ''retention_active''
      | ErrPurgeTooEarly \<Rightarrow> ''grace_period_active''
      | _ \<Rightarrow> ''deletion_failed_closed'')"

definition scheduled_key :: "platform \<Rightarrow> string \<Rightarrow> time \<Rightarrow> string" where
  "scheduled_key P fileID purgeAfter = ''scheduled-'' @ fileID @ ''-'' @ p_rfc3339 P purgeAfter"

definition scheduled_intent :: "string \<Rightarrow> time \<Rightarrow> string \<Rightarrow> string \<Rightarrow> string \<Rightarrow> string \<Rightarrow> intent" where
  "scheduled_intent eventID now actorType actorID correlationID fileID =
     no_intent\<lparr>in_event_id := eventID, in_occurred_at := now, in_actor_type := actorType, in_actor_id := actorID,
       in_action := ''FILE_CRYPTOGRAPHICALLY_DELETED'', in_resource_type := ''file'', in_resource_id := fileID,
       in_outcome := ''success'', in_reason_code := ''scheduled_policy_deletion'',
       in_correlation_id := correlationID, in_to_state := ''purged''\<rparr>"

text \<open>
  One iteration: the draw of the event identifier, the purge with its own clock reading, and the record of
  a failure, whose own error is ignored. A panic ends the worker; a file without a purge time is one.
\<close>

definition purge_one ::
    "platform \<Rightarrow> faults \<Rightarrow> time \<Rightarrow> string \<Rightarrow> string \<Rightarrow> string \<Rightarrow> string + bytes \<Rightarrow> time \<Rightarrow> lifecycle_file
       \<Rightarrow> 'r protected_service \<times> worker_result \<Rightarrow> 'r protected_service \<times> (store_error + worker_result)" where
  "purge_one P io now actorType actorID correlationID draw clock c sr =
     (case sr of (st, w) \<Rightarrow>
     (case lc_purge_after c of None \<Rightarrow> (st, Inl StorePanic)
      | Some purgeAfter \<Rightarrow>
          (let fileID = lf_file_id (lc_file c); ownerID = lf_owner_id (lc_file c); key = scheduled_key P fileID purgeAfter in
           case store_opaqueID ''evt'' draw of Inl _ \<Rightarrow> (st, Inr (w\<lparr>wr_failed := wr_failed w + 1\<rparr>))
           | Inr eventID \<Rightarrow>
               (let i = scheduled_intent eventID now actorType actorID correlationID fileID in
                case PurgeAudited P io clock ownerID fileID key i st of
                  (st1, _, Inr _) \<Rightarrow> (st1, Inr (w\<lparr>wr_completed := wr_completed w + 1\<rparr>))
                | (st1, _, Inl e) \<Rightarrow>
                    if e = StorePanic then (st1, Inl StorePanic)
                    else
                      (let op = ''purge_'' @ hex_encode (p_sha256 P (ownerID @ NUL @ fileID @ NUL @ key));
                           reason = lifecycleReason e;
                           i = i\<lparr>in_outcome := ''failed'', in_reason_code := reason, in_to_state := ''deletion_failed''\<rparr> in
                       case po_audited_lifecycle (sv_ops st1) of
                         Some al \<Rightarrow> (st1\<lparr>sv_repo := fst (al_record_failure al ownerID fileID op reason now i (sv_repo st1))\<rparr>,
                                      Inr (w\<lparr>wr_failed := wr_failed w + 1\<rparr>))
                       | None \<Rightarrow>
                           (case po_lifecycle (sv_ops st1) of None \<Rightarrow> (st1, Inl StorePanic)
                            | Some lo \<Rightarrow> (st1\<lparr>sv_repo := fst (lo_record_failure lo ownerID fileID op reason now (sv_repo st1))\<rparr>,
                                          Inr (w\<lparr>wr_failed := wr_failed w + 1\<rparr>))))))))"

text \<open>The loop; the draws and clock readings are taken from the heads of their lists' functions.\<close>

fun purge_all ::
    "platform \<Rightarrow> faults \<Rightarrow> time \<Rightarrow> string \<Rightarrow> string \<Rightarrow> string \<Rightarrow> nat \<Rightarrow> (nat \<Rightarrow> string + bytes) \<Rightarrow> (nat \<Rightarrow> time)
       \<Rightarrow> lifecycle_file list \<Rightarrow> 'r protected_service \<times> worker_result \<Rightarrow> 'r protected_service \<times> (store_error + worker_result)" where
  "purge_all P io now actorType actorID correlationID n rnd clk [] sr = (fst sr, Inr (snd sr))"
| "purge_all P io now actorType actorID correlationID n rnd clk (c # cs) sr =
     (case purge_one P io now actorType actorID correlationID (rnd n) (clk (Suc n)) c sr of
        (st, Inl e) \<Rightarrow> (st, Inl e)
      | (st, Inr w) \<Rightarrow> purge_all P io now actorType actorID correlationID (Suc n) rnd clk cs (st, w))"

definition ProcessDuePurgesAudited ::
    "platform \<Rightarrow> surroundings \<Rightarrow> int \<Rightarrow> string \<Rightarrow> string \<Rightarrow> string \<Rightarrow> 'r protected_service
       \<Rightarrow> 'r protected_service \<times> (store_error + worker_result)" where
  "ProcessDuePurgesAudited P su limit actorType actorID correlationID st =
     (case po_lifecycle (sv_ops st) of None \<Rightarrow> (st, Inl StorePanic)
      | Some lo \<Rightarrow>
          (let now = truncate_us (su_clock su 0) in
           case lo_eligible lo now limit (sv_repo st) of
             Inl _ \<Rightarrow> (st, Inr \<lparr>wr_examined = 0, wr_completed = 0, wr_failed = 1\<rparr>)
           | Inr files \<Rightarrow> purge_all P (su_faults su) now actorType actorID correlationID 0 (su_draws su) (su_clock su) files
               (st, \<lparr>wr_examined = int (length files), wr_completed = 0, wr_failed = 0\<rparr>)))"

definition ProcessDuePurges ::
    "platform \<Rightarrow> surroundings \<Rightarrow> int \<Rightarrow> 'r protected_service \<Rightarrow> 'r protected_service \<times> (store_error + worker_result)" where
  "ProcessDuePurges P su limit = ProcessDuePurgesAudited P su limit ''system'' ''lifecycle-worker'' []"

section \<open>Recovery drills\<close>

definition RunRecoveryDrillAudited ::
    "platform \<Rightarrow> surroundings \<Rightarrow> string \<Rightarrow> string \<Rightarrow> intent \<Rightarrow> 'r protected_service
       \<Rightarrow> 'r protected_service \<times> (recovery_drill option \<times> bool \<times> store_error option)" where
  "RunRecoveryDrillAudited P su fileID requestedBy i st =
     (case po_lifecycle (sv_ops st) of None \<Rightarrow> (st, None, False, Some StorePanic)
      | Some lo \<Rightarrow>
     (case lo_current_metadata lo fileID (sv_repo st) of Inl e \<Rightarrow> (st, None, False, Some e)
      | Inr m \<Rightarrow>
          (let opened = openMetadata P (su_faults su) m st;
               outcome = (case opened of Inl _ \<Rightarrow> ''failed'' | Inr _ \<Rightarrow> ''verified'');
               reason = (case opened of Inl _ \<Rightarrow> ''integrity_verification_failed''
                         | Inr _ \<Rightarrow> ''envelope_ciphertext_and_digest_verified'') in
           case store_opaqueID ''drill'' (su_draws su 0) of Inl e \<Rightarrow> (st, None, False, Some e)
           | Inr drillID \<Rightarrow>
               (let drill = \<lparr>rd_drill_id = drillID, rd_file_id = fileID, rd_version_id = md_version_id m,
                      rd_requested_by = requestedBy, rd_outcome = outcome, rd_reason_code = reason,
                      rd_verified_at = truncate_us (su_clock su 0)\<rparr>;
                    i = i\<lparr>in_actor_id := requestedBy, in_resource_id := fileID, in_outcome := outcome,
                          in_reason_code := reason, in_to_state := outcome\<rparr>
                in case audited_or i (\<lambda>al. al_record_drill al drill i) (\<lambda>lo. lo_record_drill lo drill) st of
                     (st1, durable, Inl e) \<Rightarrow> (st1, None, False, Some e)
                   | (st1, durable, Inr _) \<Rightarrow>
                       (st1, Some drill, durable, (case opened of Inl _ \<Rightarrow> Some ErrIntegrity | Inr _ \<Rightarrow> None))))))"

section \<open>The operations without evidence\<close>

text \<open>Each calls the audited operation with an empty intent and drops the evidence flag.\<close>

abbreviation without_evidence :: "'s \<times> bool \<times> 'a \<Rightarrow> 's \<times> 'a" where
  "without_evidence r \<equiv> (case r of (st, _, res) \<Rightarrow> (st, res))"

definition CreateGrant where
  "CreateGrant P su ownerID fileID rec permission expiresAt st =
     without_evidence (CreateGrantAudited P su ownerID fileID rec permission expiresAt no_intent st)"

definition RevokeGrant where
  "RevokeGrant now ownerID fileID grantID st = without_evidence (RevokeGrantAudited now ownerID fileID grantID no_intent st)"

definition MoveToTrash where
  "MoveToTrash clock ownerID fileID st = without_evidence (MoveToTrashAudited clock ownerID fileID no_intent st)"

definition RestoreFromTrash where
  "RestoreFromTrash clock ownerID fileID st = without_evidence (RestoreFromTrashAudited clock ownerID fileID no_intent st)"

definition Purge where
  "Purge P io clock ownerID fileID key st = without_evidence (PurgeAudited P io clock ownerID fileID key no_intent st)"

definition SetRetention where
  "SetRetention fileID until st = without_evidence (SetRetentionAudited fileID until no_intent st)"

definition SetLegalHold where
  "SetLegalHold fileID enabled reason st = without_evidence (SetLegalHoldAudited fileID enabled reason no_intent st)"

definition RunRecoveryDrill where
  "RunRecoveryDrill P su fileID requestedBy st =
     (case RunRecoveryDrillAudited P su fileID requestedBy no_intent st of (st', drill, _, err) \<Rightarrow> (st', drill, err))"

end
