(* ===== verification/ProtectedMaintenance.thy ===== *)
theory ProtectedMaintenance
  imports ProtectedService
begin

text \<open>
  Maintenance of the protected store: rewrapping data keys under a new key-encryption key
  (\<open>rewrap.go\<close>), the capacity report (\<open>capacity.go\<close>), and reconciliation of orphaned objects through
  the durable journal (\<open>capacity.go\<close>, \<open>reconciliation.go\<close>).
\<close>

section \<open>Rewrapping\<close>

definition maxDEKRewrapBatch :: int where "maxDEKRewrapBatch = 100"

record rewrap_result =
  rw_requested :: int
  rw_completed :: int
  rw_skipped :: int
  rw_failed :: int
  rw_remaining :: int
  rw_intents :: "intent list"
  rw_durable :: bool

type_synonym intent_factory = "metadata \<Rightarrow> string \<Rightarrow> string \<Rightarrow> string \<Rightarrow> string \<Rightarrow> string + intent"

definition svc_KeyRotationPosture :: "'r protected_service \<Rightarrow> store_error + key_rotation_posture" where
  "svc_KeyRotationPosture st =
     (case po_rewrap (sv_ops st) of
        None \<Rightarrow> Inr \<lparr>kp_current_kek_id = kv_id (sv_keys st), kp_current_kek_version = kv_version (sv_keys st),
          kp_protected_versions = 0, kp_current_versions = 0, kp_pending_versions = 0, kp_completed_rewraps = 0, kp_durable = False\<rparr>
      | Some ro \<Rightarrow> ro_posture ro (kv_id (sv_keys st)) (kv_version (sv_keys st)) (sv_repo st))"

text \<open>
  One candidate. \<open>Inl\<close> is the early return of the method, with the result as it is so far; the draws are
  the nonce of \<open>Wrap\<close> and the identifier of the operation.
\<close>

definition rewrap_one ::
    "'r rewrap_ops \<Rightarrow> intent_factory \<Rightarrow> string + bytes \<Rightarrow> string + bytes \<Rightarrow> time \<Rightarrow> metadata
       \<Rightarrow> 'r protected_service \<Rightarrow> rewrap_result \<Rightarrow> 'r protected_service \<times> (rewrap_result \<times> store_error + rewrap_result)" where
  "rewrap_one ro factory draw1 draw2 now candidate st w =
     (case wrappingKeyIdentity candidate of (fromID, fromVersion) \<Rightarrow>
     (case kv_unwrap (sv_keys st) (md_wrapped_dek candidate) fromID fromVersion of
        Inl _ \<Rightarrow> (st, Inr (w\<lparr>rw_failed := rw_failed w + 1\<rparr>))
      | Inr dek \<Rightarrow>
     (case kv_wrap (sv_keys st) draw1 dek of Inl _ \<Rightarrow> (st, Inr (w\<lparr>rw_failed := rw_failed w + 1\<rparr>))
      | Inr replacement \<Rightarrow>
     (case factory candidate fromID fromVersion (kv_id (sv_keys st)) (kv_version (sv_keys st)) of
        Inl m \<Rightarrow> (st, Inl (w, StoreError m))
      | Inr i \<Rightarrow>
     (case store_opaqueID ''rewrap'' draw2 of Inl e \<Rightarrow> (st, Inl (w, e))
      | Inr operationID \<Rightarrow>
     (case ro_commit ro candidate replacement (kv_id (sv_keys st)) (kv_version (sv_keys st)) operationID now i (sv_repo st) of
        (r', Inl e) \<Rightarrow> (st\<lparr>sv_repo := r'\<rparr>, Inl (w, e))
      | (r', Inr committed) \<Rightarrow>
          (st\<lparr>sv_repo := r'\<rparr>,
           Inr (if committed then w\<lparr>rw_completed := rw_completed w + 1, rw_intents := rw_intents w @ [i]\<rparr>
                else w\<lparr>rw_skipped := rw_skipped w + 1\<rparr>))))))))"

fun rewrap_each ::
    "'r rewrap_ops \<Rightarrow> intent_factory \<Rightarrow> (nat \<Rightarrow> string + bytes) \<Rightarrow> (nat \<Rightarrow> time) \<Rightarrow> nat \<Rightarrow> metadata list
       \<Rightarrow> 'r protected_service \<Rightarrow> rewrap_result \<Rightarrow> 'r protected_service \<times> (rewrap_result \<times> store_error + rewrap_result)" where
  "rewrap_each ro factory rnd clk n [] st w = (st, Inr w)"
| "rewrap_each ro factory rnd clk n (c # cs) st w =
     (case rewrap_one ro factory (rnd (2 * n)) (rnd (2 * n + 1)) (clk n) c st w of
        (st1, Inl early) \<Rightarrow> (st1, Inl early)
      | (st1, Inr w1) \<Rightarrow> rewrap_each ro factory rnd clk (Suc n) cs st1 w1)"

definition zero_rewrap :: rewrap_result where
  "zero_rewrap = \<lparr>rw_requested = 0, rw_completed = 0, rw_skipped = 0, rw_failed = 0, rw_remaining = 0,
     rw_intents = [], rw_durable = False\<rparr>"

definition RewrapDEKs ::
    "surroundings \<Rightarrow> int \<Rightarrow> intent_factory option \<Rightarrow> 'r protected_service
       \<Rightarrow> 'r protected_service \<times> rewrap_result \<times> store_error option" where
  "RewrapDEKs su limit factory st =
     (case (limit \<le> 0 \<or> limit > maxDEKRewrapBatch, factory) of
        (False, Some mk) \<Rightarrow>
          (case po_rewrap (sv_ops st) of
             None \<Rightarrow> (st, zero_rewrap, Some (StoreError ''DEK rewrap repository is unavailable''))
           | Some ro \<Rightarrow>
               (let keyID = kv_id (sv_keys st); keyVersion = kv_version (sv_keys st) in
                case ro_candidates ro keyID keyVersion limit (sv_repo st) of
                  Inl e \<Rightarrow> (st, zero_rewrap, Some e)
                | Inr candidates \<Rightarrow>
                    (case rewrap_each ro mk (su_draws su) (su_clock su) 0 candidates st
                        (zero_rewrap\<lparr>rw_requested := int (length candidates), rw_durable := po_durable (sv_ops st)\<rparr>) of
                       (st1, Inl (w, e)) \<Rightarrow> (st1, w, Some e)
                     | (st1, Inr w) \<Rightarrow>
                         (case ro_posture ro keyID keyVersion (sv_repo st1) of
                            Inl e \<Rightarrow> (st1, w, Some e)
                          | Inr p \<Rightarrow> (st1, w\<lparr>rw_remaining := kp_pending_versions p\<rparr>, None)))))
      | _ \<Rightarrow> (st, zero_rewrap, Some (StoreError ''invalid DEK rewrap request'')))"

section \<open>Capacity\<close>

record capacity_alert =
  ca_id :: string
  ca_severity :: string
  ca_title :: string
  ca_detail :: string
  ca_count :: int

text \<open>\<open>VolumeUsedPercent\<close>, a floating-point quotient of the two volume figures, is left out.\<close>

record capacity_summary =
  cs_tracked_objects :: int
  cs_tracked_bytes :: int64
  cs_orphaned_objects :: int
  cs_orphaned_bytes :: int64
  cs_missing_objects :: int
  cs_volume_total :: int
  cs_volume_available :: int
  cs_alerts :: "capacity_alert list"

definition objects_of :: "'r protected_service \<Rightarrow> store_error + string list" where
  "objects_of st =
     (case po_blob_objects (sv_ops st) of None \<Rightarrow> Inl ErrStoreNotFound | Some objects \<Rightarrow> objects (sv_repo st))"

definition capacity_alerts :: "int \<Rightarrow> int \<Rightarrow> int \<Rightarrow> int \<Rightarrow> capacity_alert list" where
  "capacity_alerts missing orphaned total' available =
     (if missing > 0 then [\<lparr>ca_id = ''protected-objects-missing'', ca_severity = ''high'',
        ca_title = ''Protected objects missing'',
        ca_detail = ''Database metadata refers to ciphertext that is absent from protected storage.'', ca_count = missing\<rparr>] else [])
   @ (if orphaned > 0 then [\<lparr>ca_id = ''protected-objects-orphaned'', ca_severity = ''medium'',
        ca_title = ''Unmatched protected objects'',
        ca_detail = ''Ciphertext exists without active protected-version metadata; no automatic deletion was attempted.'', ca_count = orphaned\<rparr>] else [])
   @ (if total' > 0 \<and> available < total' div 10 then [\<lparr>ca_id = ''protected-volume-low'', ca_severity = ''high'',
        ca_title = ''Protected-storage volume is nearly full'',
        ca_detail = ''Less than ten percent of the hosting volume is available.'', ca_count = 1\<rparr>] else [])"

text \<open>\<open>volume\<close> is \<open>filesystemCapacity\<close>; byte sums wrap like Go's 64-bit integers.\<close>

definition CapacitySummary ::
    "faults \<Rightarrow> string + int \<times> int \<Rightarrow> 'r protected_service \<Rightarrow> store_error + capacity_summary" where
  "CapacitySummary io volume st =
     (case objects_of st of Inl e \<Rightarrow> Inl e
      | Inr objects \<Rightarrow>
     (case io ReadDirectory of Some m \<Rightarrow> Inl (StoreError m)
      | None \<Rightarrow>
          (let present = filter (\<lambda>(name, ob). so_kind ob \<noteq> Directory) (sv_root st) in
           case find (\<lambda>(name, ob). io (EntryInfo name) \<noteq> None) present of
             Some (name, _) \<Rightarrow> Inl (StoreError (case io (EntryInfo name) of None \<Rightarrow> [] | Some m \<Rightarrow> m))
           | None \<Rightarrow>
          (case volume of Inl m \<Rightarrow> Inl (StoreError m)
           | Inr (total', available) \<Rightarrow>
               (let tracked = filter (\<lambda>(name, ob). name \<in> set objects) present;
                    orphaned = filter (\<lambda>(name, ob). name \<notin> set objects) present;
                    missing = int (length (filter (\<lambda>name. name \<notin> set (map fst present)) (remdups objects)));
                    bytes = (\<lambda>obs. foldl (\<lambda>n (name, ob). add64 n (object_size ob)) 0 obs)
                in Inr \<lparr>cs_tracked_objects = int (length tracked), cs_tracked_bytes = bytes tracked,
                     cs_orphaned_objects = int (length orphaned), cs_orphaned_bytes = bytes orphaned,
                     cs_missing_objects = missing, cs_volume_total = total', cs_volume_available = available,
                     cs_alerts = sort_key ca_id (capacity_alerts missing (int (length orphaned)) total' available)\<rparr>)))))"

section \<open>Reconciliation\<close>

definition OrphanCandidates ::
    "platform \<Rightarrow> faults \<Rightarrow> duration \<Rightarrow> time \<Rightarrow> 'r protected_service \<Rightarrow> (store_error + orphan_error) + candidate list" where
  "OrphanCandidates P io minimumAge now st =
     (case objects_of st of Inl e \<Rightarrow> Inl (Inl e)
      | Inr objects \<Rightarrow>
          (case orphan_List P io (sv_root st) ''protected'' objects minimumAge now of
             Inl e \<Rightarrow> Inl (Inr e) | Inr cs \<Rightarrow> Inr cs))"

text \<open>The directory scan sees the objects tracked when it starts, the last check those tracked at the end (\<open>later\<close>).\<close>

definition DeleteOrphan ::
    "platform \<Rightarrow> faults \<Rightarrow> string \<Rightarrow> duration \<Rightarrow> time \<Rightarrow> 'r \<Rightarrow> 'r protected_service
       \<Rightarrow> 'r protected_service \<times> ((store_error + orphan_error) + candidate)" where
  "DeleteOrphan P io token minimumAge now later st =
     (case (po_blob_objects (sv_ops st), po_blob_exists (sv_ops st)) of
        (Some objects, Some exists) \<Rightarrow>
          (case objects (sv_repo st) of Inl e \<Rightarrow> (st, Inl (Inl e))
           | Inr tracked \<Rightarrow>
               (case orphan_Delete P io (sv_root st) ''protected'' tracked token minimumAge now
                   (Some (\<lambda>name. exists name later)) of
                  (root', Inl (Inr ErrOrphanNotFound)) \<Rightarrow> (st\<lparr>sv_root := root'\<rparr>, Inl (Inl ErrStoreNotFound))
                | (root', res) \<Rightarrow> (st\<lparr>sv_root := root'\<rparr>, res)))
      | _ \<Rightarrow> (st, Inl (Inl ErrStoreNotFound)))"

definition AuthorizeOrphanReconciliation ::
    "surroundings \<Rightarrow> candidate \<Rightarrow> string \<Rightarrow> string \<Rightarrow> intent \<Rightarrow> 'r protected_service
       \<Rightarrow> 'r protected_service \<times> (store_error + orphan_reconciliation \<times> bool)" where
  "AuthorizeOrphanReconciliation su c actorID correlationID i st =
     (case po_reconciliation (sv_ops st) of None \<Rightarrow> (st, Inl ErrStoreNotFound)
      | Some no \<Rightarrow>
     if cd_storage_object c = [] \<or> (cd_zone c \<noteq> ''quarantine'' \<and> cd_zone c \<noteq> ''protected'') then (st, Inl ErrStoreNotFound)
     else case store_opaqueID ''reconcile'' (su_draws su 0) of Inl e \<Rightarrow> (st, Inl e)
      | Inr operationID \<Rightarrow>
          (case no_authorize no \<lparr>or_operation_id = operationID, or_token = cd_token c, or_zone = cd_zone c,
               or_storage_object = cd_storage_object c, or_size = cd_size c, or_modified_at = truncate_us (cd_modified_at c),
               or_actor_id = actorID, or_correlation_id = correlationID, or_status = ReconciliationAuthorized,
               or_reason_code = ''administrator_reconciliation'', or_authorized_at = truncate_us (su_clock su 0),
               or_completed_at = None\<rparr> i (sv_repo st) of
             (r', res) \<Rightarrow> (st\<lparr>sv_repo := r'\<rparr>, res)))"

definition CompleteOrphanReconciliation ::
    "time \<Rightarrow> string \<Rightarrow> string \<Rightarrow> string \<Rightarrow> intent \<Rightarrow> 'r protected_service \<Rightarrow> 'r protected_service \<times> (store_error + bool)" where
  "CompleteOrphanReconciliation clock operationID status reasonCode i st =
     (if status \<noteq> ReconciliationCompleted \<and> status \<noteq> ReconciliationFailed
      then (st, Inl (StoreError ''invalid reconciliation completion status''))
      else case po_reconciliation (sv_ops st) of None \<Rightarrow> (st, Inl ErrStoreNotFound)
      | Some no \<Rightarrow> (case no_complete no operationID status reasonCode (truncate_us clock) i (sv_repo st) of
          (r', res) \<Rightarrow> (st\<lparr>sv_repo := r'\<rparr>, res)))"

definition PendingOrphanReconciliations ::
    "int \<Rightarrow> 'r protected_service \<Rightarrow> store_error + orphan_reconciliation list" where
  "PendingOrphanReconciliations limit st =
     (if limit < 1 \<or> limit > 100 then Inl (StoreError ''reconciliation limit must be between 1 and 100'')
      else case po_reconciliation (sv_ops st) of None \<Rightarrow> Inl ErrStoreNotFound
      | Some no \<Rightarrow> no_pending no limit (sv_repo st))"

definition ResumeProtectedOrphan ::
    "faults \<Rightarrow> orphan_reconciliation \<Rightarrow> 'r protected_service \<Rightarrow> 'r protected_service \<times> ((store_error + orphan_error) + resume_outcome)" where
  "ResumeProtectedOrphan io op st =
     (case (po_blob_objects (sv_ops st), po_blob_exists (sv_ops st)) of
        (Some _, Some exists) \<Rightarrow>
          if or_zone op \<noteq> ''protected'' then (st, Inl (Inl ErrStoreNotFound))
          else (case orphan_Resume io (sv_root st) (or_storage_object op) (or_size op) (or_modified_at op)
                    (Some (\<lambda>name. exists name (sv_repo st))) of
                  (root', res) \<Rightarrow> (st\<lparr>sv_root := root'\<rparr>, res))
      | _ \<Rightarrow> (st, Inl (Inl ErrStoreNotFound)))"

end
