(* ===== verification/ProtectedEnvelope.thy ===== *)
theory ProtectedEnvelope
  imports ProtectedLifecycle ProtectedMaintenance
begin

text \<open>
  Lemmas about the envelope service. The clients of a repository and a key provider are proved inside
  locales over what they rely on, and interpreted on the in-memory repository and the local keyring.
\<close>

section \<open>Reading and comparing\<close>

lemma read_limited_all:
  assumes "read_limited (add64 limit 1) rd = Inr b" "int (length b) \<le> limit" "0 < int (length b)" "limit \<le> int64_max"
  shows "b = rr_bytes rd"
proof (cases "limit = int64_max")
  case True
  then have "add64 limit 1 = int64_min" by (simp add: add64_def wrap64_def int64_max_def int64_min_def)
  with assms(1,3) show ?thesis by (simp add: read_limited_def int64_min_def)
next
  case False
  with assms have "add64 limit 1 = limit + 1"
    unfolding add64_def by (intro wrap64_id) (auto simp: int64_max_def int64_min_def)
  with assms(1,2) show ?thesis by (auto simp: read_limited_def split: if_splits option.splits)
qed

lemma ascii_lower_ascii: "(of_char (ascii_lower c) :: nat) < 128 \<longleftrightarrow> (of_char c :: nat) < 128"
  by (auto simp: ascii_lower_def Let_def)

lemma is_ascii_map_lower: "is_ascii (map ascii_lower s) = is_ascii s"
  by (auto simp: is_ascii_def list_all_iff ascii_lower_ascii)

lemma ascii_lower_idem: "ascii_lower (ascii_lower c) = ascii_lower c"
  by (auto simp: ascii_lower_def Let_def)

lemma is_ascii_hex: "is_ascii (hex_encode b)"
proof -
  have "\<forall>c \<in> set ''0123456789abcdef''. (of_char c :: nat) < 128" by simp
  then have "(of_char (hex_digit n) :: nat) < 128" if "n < 16" for n
  proof -
    have "hex_digit n \<in> set ''0123456789abcdef''"
      unfolding hex_digit_def using that by (intro nth_mem) simp
    with \<open>\<forall>c \<in> set ''0123456789abcdef''. (of_char c :: nat) < 128\<close> show ?thesis by blast
  qed
  moreover have "(of_char c :: nat) div 16 < 16" for c :: char
    using nat_of_char_less_256 [of c] by (simp add: less_mult_imp_div_less)
  ultimately show ?thesis
    by (induction b) (simp_all add: is_ascii_def hex_encode_def Let_def)
qed

lemma equal_fold_lower:
  assumes "is_ascii s" "is_ascii t" "equal_fold P s t"
  shows "equal_fold P s (to_lower P t)"
  using assms by (simp add: equal_fold_def to_lower_def is_ascii_map_lower ascii_lower_idem)

section \<open>Protect, step by step\<close>

lemma openMetadata_repo [simp]: "openMetadata P io m (st\<lparr>sv_repo := r\<rparr>) = openMetadata P io m st"
  by (simp add: openMetadata_def cong: option.case_cong sum.case_cong prod.case_cong if_cong)

text \<open>A successful \<open>Protect\<close> either finds the upload already stored, or goes through \<open>seal_and_commit\<close>.\<close>

lemma Protect_cases:
  assumes "Protect P su rq source st = (st', Inr m)" "sv_max_plaintext st \<le> int64_max"
  obtains "po_find_by_upload (sv_ops st) (rq_owner_id rq) (rq_upload_id rq) (sv_repo st) = Inr m" "st' = st"
  | rd where "source = Some rd" "rq_upload_id rq \<noteq> []" "rq_owner_id rq \<noteq> []"
      "int (length (rr_bytes rd)) = rq_plaintext_size rq" "0 < rq_plaintext_size rq"
      "rq_plaintext_size rq \<le> sv_max_plaintext st" "length (rq_plaintext_digest rq) = 64"
      "equal_fold P (hex_encode (p_sha256 P (rr_bytes rd))) (rq_plaintext_digest rq)"
      "seal_and_commit P su rq (rr_bytes rd) st = (st', Inr m)"
proof (cases "po_find_by_upload (sv_ops st) (rq_owner_id rq) (rq_upload_id rq) (sv_repo st)")
  case (Inr m')
  with assms(1) have "st' = st" "m' = m" by (simp_all add: Protect_def)
  with Inr that(1) show ?thesis by simp
next
  case (Inl e)
  define bad where "bad \<longleftrightarrow> rq_upload_id rq = [] \<or> rq_owner_id rq = [] \<or> rq_plaintext_size rq \<le> 0
        \<or> rq_plaintext_size rq > sv_max_plaintext st \<or> length (rq_plaintext_digest rq) \<noteq> 64"
  from assms(1) Inl have nb: "\<not> bad" by (auto simp: Protect_def bad_def split: if_splits)
  from assms(1) Inl nb obtain rd where rd1: "source = Some rd"
    by (cases source) (simp_all add: Protect_def bad_def [symmetric] split: if_splits)
  from assms(1) Inl nb rd1 obtain b where rd2: "read_limited (add64 (sv_max_plaintext st) 1) rd = Inr b"
    by (cases "read_limited (add64 (sv_max_plaintext st) 1) rd") (simp_all add: Protect_def bad_def [symmetric] split: if_splits)
  from assms(1) Inl nb rd1 rd2 have b: "int (length b) = rq_plaintext_size rq"
      "equal_fold P (hex_encode (p_sha256 P b)) (rq_plaintext_digest rq)" "seal_and_commit P su rq b st = (st', Inr m)"
    by (simp_all add: Protect_def bad_def [symmetric] split: if_splits)
  note rd = rd1 rd2
  from nb have ok: "rq_upload_id rq \<noteq> []" "rq_owner_id rq \<noteq> []" "0 < rq_plaintext_size rq"
    "rq_plaintext_size rq \<le> sv_max_plaintext st" "length (rq_plaintext_digest rq) = 64"
    by (auto simp: bad_def)
  have "b = rr_bytes rd"
    by (rule read_limited_all [OF rd(2)]) (use b(1) ok assms(2) in auto)
  with that(2) rd(1) ok b show ?thesis by simp
qed

lemma write_object_ok:
  "write_object su name c st = (st1, Inr u) \<Longrightarrow>
     st1 = st\<lparr>sv_root := mput name \<lparr>so_kind = RegularFile, so_bytes = c, so_modified = su_modified su\<rparr> (sv_root st)\<rparr>"
  by (auto simp: write_object_def split: option.splits)

lemma write_object_failed:
  "write_object su name c st = (st1, Inl e) \<Longrightarrow> su_faults su RemoveTemporary = None \<Longrightarrow> st1 = st"
  by (auto simp: write_object_def discard_temporary_def split: option.splits if_splits)

lemma seal_and_commit_ok:
  assumes "seal_and_commit P su rq b st = (st', Inr m)"
  obtains versionID dek nonce wrapped m0 where
    "store_opaqueID ''ver'' (su_draws su 0) = Inr versionID" "su_draws su 1 = Inr dek" "su_draws su 2 = Inr nonce"
    "kv_wrap (sv_keys st) (su_draws su 3) dek = Inr wrapped" "valid_aes_key dek"
    "m0 = (new_metadata versionID (su_clock su 0) P rq (sv_keys st))\<lparr>md_nonce := nonce, md_wrapped_dek := wrapped\<rparr>"
    "commit_envelope P su m0 (p_gcm_seal P dek nonce b (canonicalAAD P m0)) st = (st', Inr m)"
  using assms by (auto simp: seal_and_commit_def Let_def split: sum.splits if_splits)

lemma commit_envelope_ok:
  assumes "commit_envelope P su m0 c st = (st', Inr m)"
  obtains r' reused stored where "po_create (sv_ops st) m0 (sv_repo st) = (r', Inr (stored, reused))"
    "\<not> reused \<longrightarrow> m = m0 \<and> st' = st\<lparr>sv_repo := r', sv_root := mput (md_blob_object m0)
       \<lparr>so_kind = RegularFile, so_bytes = c, so_modified = su_modified su\<rparr> (sv_root st)\<rparr>"
proof -
  from assms obtain st1 where w: "write_object su (md_blob_object m0) c st = (st1, Inr ())"
    by (auto simp: commit_envelope_def split: option.splits prod.splits sum.splits)
  from write_object_ok [OF w] assms w that show ?thesis
    by (auto simp: commit_envelope_def split: option.splits prod.splits sum.splits if_splits)
qed

section \<open>What the service needs of the repository\<close>

locale envelope_repository =
  fixes ops :: "'r protected_ops" and entry :: "'r \<Rightarrow> string \<Rightarrow> metadata option"
  assumes find_hit: "entry r upload = Some m \<Longrightarrow> md_owner_id m = owner \<Longrightarrow> po_find_by_upload ops owner upload r = Inr m"
    and find_sound: "po_find_by_upload ops owner upload r = Inr m \<Longrightarrow> entry r upload = Some m \<and> md_owner_id m = owner"
    and create_new: "po_create ops m r = (r', Inr (stored, False)) \<Longrightarrow>
        entry r (md_upload_id m) = None \<and> entry r' = (entry r)(md_upload_id m \<mapsto> m)"
    and create_reused: "po_create ops m r = (r', Inr (stored, True)) \<Longrightarrow> r' = r \<and> entry r (md_upload_id m) = Some stored"
    and create_failed: "po_create ops m r = (r', Inl e) \<Longrightarrow> r' = r"

interpretation mem: envelope_repository memory_protected_ops "\<lambda>r. map_of (ps_entries r)"
  by unfold_locales
    (auto simp: memory_protected_ops_def memory_FindByUpload_def memory_Create_def split: option.splits if_splits)

locale envelope_store = key_custody provider usable + envelope_repository ops entry
  for provider :: "'k \<Rightarrow> key_provider" and usable :: "'k \<Rightarrow> bool"
    and ops :: "'r protected_ops" and entry :: "'r \<Rightarrow> string \<Rightarrow> metadata option"
begin

lemma sealed_opens:
  assumes "usable k" "gcm_correct P"
    and "int (length b) = md_plaintext_size m" "equal_fold P (hex_encode (p_sha256 P b)) (md_plaintext_digest m)"
    and "validateMetadata m maxBytes = Inr ()" "sv_max_plaintext st = maxBytes" "sv_keys st = provider k"
    and "wrappingKeyIdentity m = (kv_id (provider k), kv_version (provider k))"
    and "kv_unwrap (provider k) (md_wrapped_dek m) (kv_id (provider k)) (kv_version (provider k)) = Inr dek"
    and "map_of (sv_root st) (md_blob_object m) = Some ob" "so_kind ob = RegularFile"
    and "so_bytes ob = p_gcm_seal P dek (md_nonce m) b (canonicalAAD P m)" "io ReadObject = None"
  shows "openMetadata P io m st = Inr \<lparr>pf_metadata = m, pf_bytes = b\<rparr>"
proof -
  have "valid_aes_key dek" using unwrapped_key [OF assms(9)] by (simp add: valid_aes_key_def)
  moreover have "p_gcm_open P dek (md_nonce m) (so_bytes ob) (canonicalAAD P m) = Some b"
    using assms(2,12) by (simp add: gcm_correct_def)
  ultimately show ?thesis using assms by (simp add: openMetadata_def)
qed

lemma protected_opens:
  assumes "sv_ops st = ops" "sv_keys st = provider k" "usable k" "gcm_correct P" "sv_max_plaintext st \<le> int64_max"
    and "entry (sv_repo st) (rq_upload_id rq) = None" "is_ascii (rq_plaintext_digest rq)"
    and draws: "su_draws su 1 = Inr dek" "length dek = 32" "su_draws su 2 = Inr nonce" "length nonce = 12"
      "su_draws su 3 = Inr nonce'" "length nonce' = 12"
    and "Protect P su rq (Some rd) st = (st', Inr m)" "io ReadObject = None"
  shows "openMetadata P io m st' = Inr \<lparr>pf_metadata = m, pf_bytes = rr_bytes rd\<rparr>
    \<and> Open P io (rq_owner_id rq) (rq_upload_id rq) st' = Inr \<lparr>pf_metadata = m, pf_bytes = rr_bytes rd\<rparr>
    \<and> entry (sv_repo st') = (entry (sv_repo st))(rq_upload_id rq \<mapsto> m)"
proof (rule Protect_cases [OF assms(14,5)])
  assume "po_find_by_upload (sv_ops st) (rq_owner_id rq) (rq_upload_id rq) (sv_repo st) = Inr m"
  with find_sound assms(1,6) show ?thesis by fastforce
next
  fix rd'
  assume rd: "Some rd = Some rd'" and ids: "rq_upload_id rq \<noteq> []" "rq_owner_id rq \<noteq> []"
    and len: "int (length (rr_bytes rd')) = rq_plaintext_size rq" "0 < rq_plaintext_size rq"
      "rq_plaintext_size rq \<le> sv_max_plaintext st" "length (rq_plaintext_digest rq) = 64"
    and dig: "equal_fold P (hex_encode (p_sha256 P (rr_bytes rd'))) (rq_plaintext_digest rq)"
    and seal: "seal_and_commit P su rq (rr_bytes rd') st = (st', Inr m)"
  have rd: "rd' = rd" using rd by simp
  from seal_and_commit_ok [OF seal] obtain versionID dek' nonce2 wrapped m0 where
    v: "store_opaqueID ''ver'' (su_draws su 0) = Inr versionID" "su_draws su 1 = Inr dek'" "su_draws su 2 = Inr nonce2"
    and w: "kv_wrap (sv_keys st) (su_draws su 3) dek' = Inr wrapped"
    and m0: "m0 = (new_metadata versionID (su_clock su 0) P rq (sv_keys st))\<lparr>md_nonce := nonce2, md_wrapped_dek := wrapped\<rparr>"
    and c: "commit_envelope P su m0 (p_gcm_seal P dek' nonce2 (rr_bytes rd') (canonicalAAD P m0)) st = (st', Inr m)" .
  from v draws have same: "dek' = dek" "nonce2 = nonce" by simp_all
  from commit_envelope_ok [OF c] obtain r' reused stored where
    cr: "po_create (sv_ops st) m0 (sv_repo st) = (r', Inr (stored, reused))"
    and new: "\<not> reused \<longrightarrow> m = m0 \<and> st' = st\<lparr>sv_repo := r', sv_root := mput (md_blob_object m0)
       \<lparr>so_kind = RegularFile, so_bytes = p_gcm_seal P dek' nonce2 (rr_bytes rd') (canonicalAAD P m0),
        so_modified = su_modified su\<rparr> (sv_root st)\<rparr>" .
  have up: "md_upload_id m0 = rq_upload_id rq" "md_owner_id m0 = rq_owner_id rq" by (simp_all add: m0 new_metadata_def)
  have fresh: "\<not> reused" using create_reused cr assms(1,6) up by fastforce
  with new have m: "m = m0" and st': "st' = st\<lparr>sv_repo := r', sv_root := mput (md_blob_object m0)
       \<lparr>so_kind = RegularFile, so_bytes = p_gcm_seal P dek' nonce2 (rr_bytes rd') (canonicalAAD P m0),
        so_modified = su_modified su\<rparr> (sv_root st)\<rparr>" by auto
  have cn: "entry r' = (entry (sv_repo st))(rq_upload_id rq \<mapsto> m)"
    using create_new cr fresh assms(1) up m by auto
  obtain w' where w': "kv_wrap (provider k) (Inr nonce') dek = Inr w'" "w' \<noteq> []"
    "kv_unwrap (provider k) w' (kv_id (provider k)) (kv_version (provider k)) = Inr dek"
    using wrap_unwrap [OF assms(3) draws(6,2)] by blast
  with w same draws(5) assms(2) have wr: "wrapped = w'" by simp
  have vid: "versionID \<noteq> []" using v(1) by (auto simp: store_opaqueID_def split: sum.splits)
  have low: "length (to_lower P (rq_plaintext_digest rq)) = 64"
    "equal_fold P (hex_encode (p_sha256 P (rr_bytes rd'))) (to_lower P (rq_plaintext_digest rq))"
    using len(4) assms(7) equal_fold_lower [OF is_ascii_hex assms(7) dig] by (simp_all add: to_lower_def)
  have op: "openMetadata P io m st' = Inr \<lparr>pf_metadata = m, pf_bytes = rr_bytes rd'\<rparr>"
    by (rule sealed_opens [OF assms(3,4), where dek = dek and maxBytes = "sv_max_plaintext st" and ob = "\<lparr>so_kind = RegularFile,
          so_bytes = p_gcm_seal P dek' nonce2 (rr_bytes rd') (canonicalAAD P m0), so_modified = su_modified su\<rparr>"])
      (use len low ids vid w' wr draws same assms(2,15) identified [OF assms(3)] in
        \<open>simp_all add: m m0 st' new_metadata_def validateMetadata_def wrappingKeyIdentity_def\<close>)
  moreover have "po_find_by_upload ops (rq_owner_id rq) (rq_upload_id rq) r' = Inr m"
    by (rule find_hit) (simp_all add: cn up m)
  ultimately show ?thesis using cn rd assms(1) by (simp add: Open_def st')
qed


text \<open>A call changes nothing, or adds exactly one entry and its object.\<close>

definition stored_exactly :: "surroundings \<Rightarrow> protect_request \<Rightarrow> metadata \<Rightarrow> 'r protected_service \<Rightarrow> 'r protected_service \<Rightarrow> bool" where
  "stored_exactly su rq m st st' \<longleftrightarrow>
     entry (sv_repo st) (rq_upload_id rq) = None
     \<and> entry (sv_repo st') = (entry (sv_repo st))(rq_upload_id rq \<mapsto> m) \<and> md_owner_id m = rq_owner_id rq
     \<and> (\<exists>ob. so_kind ob = RegularFile \<and> sv_root st' = mput (md_blob_object m) ob (sv_root st))
     \<and> sv_staging st' = sv_staging st \<and> sv_ops st' = sv_ops st"

lemma commit_all_or_nothing:
  assumes "commit_envelope P su m c st = (st', res)" "sv_ops st = ops"
    and "su_faults su RemoveTemporary = None" "\<forall>name. su_faults su (RemoveObject name) = None"
    and "map_of (sv_root st) (md_blob_object m) = None" "md_upload_id m = rq_upload_id rq" "md_owner_id m = rq_owner_id rq"
  shows "st' = st \<or> (res = Inr m \<and> stored_exactly su rq m st st')"
proof (cases "su_faults su RequestContext")
  case (Some e)
  with assms(1) show ?thesis by (simp add: commit_envelope_def)
next
  case None
  obtain st1 wr where w: "write_object su (md_blob_object m) c st = (st1, wr)" by fastforce
  show ?thesis
  proof (cases wr)
    case (Inl e)
    with write_object_failed [of su _ c st st1 e] w assms(1,3) None show ?thesis by (simp add: commit_envelope_def)
  next
    case (Inr u)
    define ob where "ob = \<lparr>so_kind = RegularFile, so_bytes = c, so_modified = su_modified su\<rparr>"
    from Inr w have st1: "st1 = st\<lparr>sv_root := mput (md_blob_object m) ob (sv_root st)\<rparr>"
      by (simp add: write_object_ok ob_def)
    have undo: "st1\<lparr>sv_repo := sv_repo st, sv_root := mdelete (md_blob_object m) (sv_root st1)\<rparr> = st"
      using mdelete_mput_fresh [OF assms(5)] by (simp add: st1)
    obtain r' cres where cr: "po_create ops m (sv_repo st) = (r', cres)" by fastforce
    show ?thesis
    proof (cases cres)
      case (Inl e)
      with create_failed cr have "r' = sv_repo st" by blast
      with assms(1,2,4) None w Inr Inl cr undo st1 show ?thesis
        by (simp add: commit_envelope_def remove_object_def)
    next
      case (Inr sr)
      obtain stored reused where sr: "sr = (stored, reused)" by fastforce
      show ?thesis
      proof (cases reused)
        case True
        with cr Inr sr have "po_create ops m (sv_repo st) = (r', Inr (stored, True))" by simp
        from create_reused [OF this] have "r' = sv_repo st" by blast
        with assms(1,2,4) None w \<open>wr = Inr u\<close> Inr sr True cr undo st1 show ?thesis
          by (simp add: commit_envelope_def remove_object_def)
      next
        case False
        with cr Inr sr have "po_create ops m (sv_repo st) = (r', Inr (stored, False))" by simp
        from create_new [OF this] have "entry (sv_repo st) (md_upload_id m) = None"
          "entry r' = (entry (sv_repo st))(md_upload_id m \<mapsto> m)" by blast+
        moreover from assms(1,2) None w \<open>wr = Inr u\<close> Inr sr False cr st1
        have res: "st' = st1\<lparr>sv_repo := r'\<rparr>" "res = Inr m" by (simp_all add: commit_envelope_def)
        moreover have "\<exists>ob. so_kind ob = RegularFile \<and> sv_root st' = mput (md_blob_object m) ob (sv_root st)"
          by (rule exI [of _ ob]) (simp add: ob_def st1 res)
        ultimately show ?thesis using assms(6,7) st1 by (simp add: stored_exactly_def)
      qed
    qed
  qed
qed

lemma protect_all_or_nothing:
  assumes "Protect P su rq source st = (st', res)" "sv_ops st = ops"
    and "su_faults su RemoveTemporary = None" "\<forall>name. su_faults su (RemoveObject name) = None"
    and "\<forall>versionID. store_opaqueID ''ver'' (su_draws su 0) = Inr versionID \<longrightarrow> map_of (sv_root st) (versionID @ ''.ciphertext'') = None"
  shows "st' = st \<or> (\<exists>m. res = Inr m \<and> stored_exactly su rq m st st')"
proof -
  have seal: "st' = st \<or> (\<exists>m. res = Inr m \<and> stored_exactly su rq m st st')"
    if "seal_and_commit P su rq b st = (st', res)" for b
  proof (cases "st' = st")
    case False
    with that obtain versionID dek nonce wrapped m0 where v: "store_opaqueID ''ver'' (su_draws su 0) = Inr versionID"
      and m0: "m0 = (new_metadata versionID (su_clock su 0) P rq (sv_keys st))\<lparr>md_nonce := nonce, md_wrapped_dek := wrapped\<rparr>"
      and c: "commit_envelope P su m0 (p_gcm_seal P dek nonce b (canonicalAAD P m0)) st = (st', res)"
      by (auto simp: seal_and_commit_def Let_def split: sum.splits if_splits)
    have "map_of (sv_root st) (md_blob_object m0) = None" "md_upload_id m0 = rq_upload_id rq" "md_owner_id m0 = rq_owner_id rq"
      using assms(5) v by (simp_all add: m0 new_metadata_def)
    from commit_all_or_nothing [OF c assms(2-4) this] False show ?thesis by blast
  qed simp
  show ?thesis
  proof (cases "st' = st")
    case False
    with assms(1) obtain b where "seal_and_commit P su rq b st = (st', res)"
      by (auto simp: Protect_def split: sum.splits option.splits if_splits)
    then show ?thesis by (rule seal)
  qed simp
qed

lemma protect_again:
  assumes "sv_ops st = ops" "entry (sv_repo st) (rq_upload_id rq) = Some m" "md_owner_id m = rq_owner_id rq"
  shows "Protect P su rq source st = (st, Inr m)"
  using find_hit [OF assms(2,3)] assms(1) by (simp add: Protect_def)

end

interpretation local_store: envelope_store "local_keys P" "local_usable P" memory_protected_ops "\<lambda>r. map_of (ps_entries r)" for P
  by unfold_locales

end
