(* ===== verification/RewrapProofs.thy ===== *)
theory RewrapProofs
  imports ProtectedEnvelope
begin

text \<open>
  Rewrapping data keys does not change what any file reads as: the contract of a repository that offers
  rewrapping, the loop of \<open>RewrapDEKs\<close> over it, and the in-memory repository as an instance.
\<close>

definition rewrapped :: "bytes \<Rightarrow> string \<Rightarrow> string \<Rightarrow> metadata \<Rightarrow> metadata" where
  "rewrapped w i v m = m\<lparr>md_wrapped_dek := w, md_wrapping_kek_id := i, md_wrapping_kek_version := v\<rparr>"

lemma canonicalAAD_rewrapped: "canonicalAAD P (rewrapped w i v m) = canonicalAAD P m"
  by (simp add: canonicalAAD_def rewrapped_def)

lemma rewrapped_opens:
  assumes "openMetadata P io m st = Inr f" and "kv_unwrap (sv_keys st) (md_wrapped_dek m) i0 v0 = Inr dek"
    and "wrappingKeyIdentity m = (i0, v0)" and "kv_unwrap (sv_keys st) w i v = Inr dek"
    and "w \<noteq> []" "i \<noteq> []" "v \<noteq> []" and "sv_root st' = sv_root st" "sv_keys st' = sv_keys st" "sv_max_plaintext st' = sv_max_plaintext st"
  shows "openMetadata P io (rewrapped w i v m) st' = Inr (f\<lparr>pf_metadata := rewrapped w i v m\<rparr>)"
proof -
  have ok: "validateMetadata m (sv_max_plaintext st) = Inr ()"
    using assms(1) by (auto simp: openMetadata_def split: sum.splits)
  then have "validateMetadata (rewrapped w i v m) (sv_max_plaintext st) = Inr ()"
    using assms(5) by (simp add: validateMetadata_def rewrapped_def split: if_splits)
  moreover have "wrappingKeyIdentity (rewrapped w i v m) = (i, v)"
    using assms(6,7) by (simp add: wrappingKeyIdentity_def rewrapped_def)
  moreover have "md_blob_object (rewrapped w i v m) = md_blob_object m" "md_nonce (rewrapped w i v m) = md_nonce m"
    "md_wrapped_dek (rewrapped w i v m) = w" "md_plaintext_size (rewrapped w i v m) = md_plaintext_size m"
    "md_plaintext_digest (rewrapped w i v m) = md_plaintext_digest m"
    by (simp_all add: rewrapped_def)
  ultimately show ?thesis
    using assms(1-4,8-10) ok
    by (auto simp: openMetadata_def canonicalAAD_rewrapped split: option.splits if_splits)
qed

locale rewrap_store = envelope_store provider usable ops entry
  for provider :: "'k \<Rightarrow> key_provider" and usable :: "'k \<Rightarrow> bool"
    and ops :: "'r protected_ops" and entry :: "'r \<Rightarrow> string \<Rightarrow> metadata option" +
  fixes rw :: "'r rewrap_ops" and invar :: "'r \<Rightarrow> bool"
  assumes offered: "po_rewrap ops = Some rw"
    and candidates: "invar r \<Longrightarrow> ro_candidates rw i v n r = Inr cs \<Longrightarrow>
        distinct (map md_upload_id cs) \<and> (\<forall>c \<in> set cs. entry r (md_upload_id c) = Some c)"
    and committed: "invar r \<Longrightarrow> ro_commit rw c w i v op t it r = (r', Inr True) \<Longrightarrow> entry r (md_upload_id c) = Some c \<Longrightarrow>
        invar r' \<and> entry r' = (entry r)(md_upload_id c \<mapsto> rewrapped w i v c)"
    and not_committed: "ro_commit rw c w i v op t it r = (r', res) \<Longrightarrow> res \<noteq> Inr True \<Longrightarrow> r' = r"
begin

definition reads_as :: "platform \<Rightarrow> faults \<Rightarrow> 'r protected_service \<Rightarrow> string \<Rightarrow> string \<Rightarrow> bytes \<Rightarrow> bool" where
  "reads_as P io st owner u b \<longleftrightarrow>
     (\<exists>m. entry (sv_repo st) u = Some m \<and> md_owner_id m = owner \<and> openMetadata P io m st = Inr \<lparr>pf_metadata = m, pf_bytes = b\<rparr>)"

text \<open>What a step of the loop keeps: everything but the repository, and every reading.\<close>

definition keeps_readings :: "platform \<Rightarrow> 'r protected_service \<Rightarrow> 'r protected_service \<Rightarrow> bool" where
  "keeps_readings P st st' \<longleftrightarrow> (\<exists>r'. st' = st\<lparr>sv_repo := r'\<rparr>) \<and> (\<forall>io owner u b. reads_as P io st owner u b \<longrightarrow> reads_as P io st' owner u b)"

lemma keeps_readings_refl: "keeps_readings P st st"
  unfolding keeps_readings_def by (auto intro: exI [of _ "sv_repo st"])

lemma keeps_readings_trans: "keeps_readings P st st1 \<Longrightarrow> keeps_readings P st1 st2 \<Longrightarrow> keeps_readings P st st2"
  unfolding keeps_readings_def by auto

definition accounted :: "rewrap_result \<Rightarrow> int" where
  "accounted w = rw_completed w + rw_skipped w + rw_failed w"

definition current_entry :: "'r protected_service \<Rightarrow> string \<Rightarrow> bool" where
  "current_entry st u \<longleftrightarrow>
     (\<exists>m. entry (sv_repo st) u = Some m \<and> wrappingKeyIdentity m = (kv_id (sv_keys st), kv_version (sv_keys st)))"

lemma rewrap_one_keeps:
  assumes "rewrap_one rw factory d1 d2 now c st w = (st', res)" and "entry (sv_repo st) (md_upload_id c) = Some c"
    and "invar (sv_repo st)" "sv_keys st = provider k" "usable k" "\<forall>nonce. d1 = Inr nonce \<longrightarrow> length nonce = 12"
  shows "keeps_readings P st st' \<and> invar (sv_repo st')
    \<and> (\<forall>u. u \<noteq> md_upload_id c \<longrightarrow> entry (sv_repo st') u = entry (sv_repo st) u)
    \<and> (\<forall>w'. res = Inr w' \<longrightarrow> accounted w' = accounted w + 1 \<and> rw_requested w' = rw_requested w
         \<and> rw_failed w \<le> rw_failed w' \<and> rw_skipped w \<le> rw_skipped w'
         \<and> (rw_failed w' = rw_failed w \<and> rw_skipped w' = rw_skipped w \<longrightarrow> current_entry st' (md_upload_id c)))"
proof -
  obtain i0 v0 where ident: "wrappingKeyIdentity c = (i0, v0)" by fastforce
  show ?thesis
  proof (cases "st' = st \<and> (res = Inr (w\<lparr>rw_failed := rw_failed w + 1\<rparr>) \<or> (\<exists>e. res = Inl e))")
    case True
    then show ?thesis using assms(3) by (elim conjE disjE exE) (simp_all add: keeps_readings_refl accounted_def)
  next
    case False
    obtain dek where dek: "kv_unwrap (sv_keys st) (md_wrapped_dek c) i0 v0 = Inr dek"
      using assms(1) False ident by (cases "kv_unwrap (sv_keys st) (md_wrapped_dek c) i0 v0") (auto simp: rewrap_one_def)
    obtain replacement where wrap: "kv_wrap (sv_keys st) d1 dek = Inr replacement"
      using assms(1) False ident dek by (cases "kv_wrap (sv_keys st) d1 dek") (auto simp: rewrap_one_def)
    obtain it where it: "factory c i0 v0 (kv_id (sv_keys st)) (kv_version (sv_keys st)) = Inr it"
      using assms(1) False ident dek wrap
      by (cases "factory c i0 v0 (kv_id (sv_keys st)) (kv_version (sv_keys st))") (auto simp: rewrap_one_def)
    obtain op where op: "store_opaqueID ''rewrap'' d2 = Inr op"
      using assms(1) False ident dek wrap it by (cases "store_opaqueID ''rewrap'' d2") (auto simp: rewrap_one_def)
    obtain r' cres where cr: "ro_commit rw c replacement (kv_id (sv_keys st)) (kv_version (sv_keys st)) op now it (sv_repo st) = (r', cres)"
      by fastforce
    have step: "rewrap_one rw factory d1 d2 now c st w = (st\<lparr>sv_repo := r'\<rparr>, case cres of Inl e \<Rightarrow> Inl (w, e)
        | Inr done \<Rightarrow> Inr (if done then w\<lparr>rw_completed := rw_completed w + 1, rw_intents := rw_intents w @ [it]\<rparr>
            else w\<lparr>rw_skipped := rw_skipped w + 1\<rparr>))"
      unfolding rewrap_one_def ident dek wrap it op cr prod.case sum.case by (cases cres) simp_all
    show ?thesis
    proof (cases "cres = Inr True")
      case False
      with not_committed [OF cr] have "r' = sv_repo st" by blast
      then have "st' = st" using step assms(1) by simp
      moreover have "res = Inr (w\<lparr>rw_skipped := rw_skipped w + 1\<rparr>) \<or> (\<exists>e. res = Inl e)"
        using step assms(1) False by (cases cres) auto
      ultimately show ?thesis using assms(3)
        by (elim disjE exE) (simp_all add: keeps_readings_refl accounted_def)
    next
      case True
      let ?i = "kv_id (sv_keys st)" and ?v = "kv_version (sv_keys st)"
      let ?c' = "rewrapped replacement ?i ?v c"
      have rec: "invar r'" "entry r' = (entry (sv_repo st))(md_upload_id c \<mapsto> ?c')"
        using committed [OF assms(3) _ assms(2)] cr True by blast+
      have st': "st' = st\<lparr>sv_repo := r'\<rparr>"
        "res = Inr (w\<lparr>rw_completed := rw_completed w + 1, rw_intents := rw_intents w @ [it]\<rparr>)"
        using step assms(1) True by auto
      have idents: "?i \<noteq> []" "?v \<noteq> []" using identified [OF assms(5)] assms(4) by simp_all
      have new: "replacement \<noteq> [] \<and> kv_unwrap (sv_keys st) replacement ?i ?v = Inr dek"
      proof (cases d1)
        case (Inl a)
        with wrap wrap_draws [of k a dek] assms(4) show ?thesis by simp
      next
        case (Inr nonce)
        with wrap_unwrap [OF assms(5), of nonce dek] assms(4,6) wrap unwrapped_key [of k _ i0 v0 dek] dek
        show ?thesis by auto
      qed
      have reads: "reads_as P io st' owner u b" if "reads_as P io st owner u b" for io owner u b
      proof (cases "u = md_upload_id c")
        case other: False
        with that show ?thesis by (auto simp: reads_as_def rec st')
      next
        case same: True
        with that assms(2) have "openMetadata P io c st = Inr \<lparr>pf_metadata = c, pf_bytes = b\<rparr>" and own: "md_owner_id c = owner"
          by (auto simp: reads_as_def)
        note this(1)
        from rewrapped_opens [OF this dek ident conjunct2 [OF new] conjunct1 [OF new] idents, of st]
        have "openMetadata P io ?c' st' = Inr \<lparr>pf_metadata = ?c', pf_bytes = b\<rparr>" by (simp add: st')
        moreover have "md_owner_id ?c' = owner" by (simp add: rewrapped_def own)
        ultimately show ?thesis using same by (simp add: reads_as_def rec st')
      qed
      have "keeps_readings P st st'" unfolding keeps_readings_def using reads st'(1) by blast
      moreover have "current_entry st' (md_upload_id c)"
        using idents by (simp add: current_entry_def st' rec wrappingKeyIdentity_def rewrapped_def)
      ultimately show ?thesis using rec by (simp add: st' accounted_def)
    qed
  qed
qed

lemma rewrap_each_keeps:
  assumes "rewrap_each rw factory rnd clk n cs st w = (st', res)" and "distinct (map md_upload_id cs)"
    and "\<forall>c \<in> set cs. entry (sv_repo st) (md_upload_id c) = Some c" and "invar (sv_repo st)"
    and "sv_keys st = provider k" "usable k" "\<forall>i nonce. rnd i = Inr nonce \<longrightarrow> length nonce = 12"
  shows "keeps_readings P st st' \<and> invar (sv_repo st')
    \<and> (\<forall>u. u \<notin> md_upload_id ` set cs \<longrightarrow> entry (sv_repo st') u = entry (sv_repo st) u)
    \<and> (\<forall>w'. res = Inr w' \<longrightarrow> accounted w' = accounted w + int (length cs) \<and> rw_requested w' = rw_requested w
         \<and> rw_failed w \<le> rw_failed w' \<and> rw_skipped w \<le> rw_skipped w'
         \<and> (rw_failed w' = rw_failed w \<and> rw_skipped w' = rw_skipped w \<longrightarrow> (\<forall>c \<in> set cs. current_entry st' (md_upload_id c))))"
  using assms
proof (induction cs arbitrary: n st w)
  case Nil
  then have "st' = st" "res = Inr w" by auto
  with Nil.prems(4) show ?case by (simp add: keeps_readings_refl)
next
  case (Cons c cs)
  obtain st1 res1 where one: "rewrap_one rw factory (rnd (2 * n)) (rnd (2 * n + 1)) (clk n) c st w = (st1, res1)"
    by fastforce
  have draw: "\<forall>nonce. rnd (2 * n) = Inr nonce \<longrightarrow> length nonce = 12" using Cons.prems(7) by blast
  have mine: "entry (sv_repo st) (md_upload_id c) = Some c" using Cons.prems(3) by simp
  note step = rewrap_one_keeps [where P = P, OF one mine Cons.prems(4-6) draw]
  from step have st1: "sv_keys st1 = provider k" using Cons.prems(5) by (auto simp: keeps_readings_def)
  have others: "\<forall>c' \<in> set cs. entry (sv_repo st1) (md_upload_id c') = Some c'"
    using step Cons.prems(2,3) by (auto simp: image_iff)
  show ?case
  proof (cases res1)
    case (Inl e)
    with one Cons.prems(1) have "st' = st1" "res = Inl e" by simp_all
    with step show ?thesis by auto
  next
    case (Inr w1)
    with one Cons.prems(1) have rest: "rewrap_each rw factory rnd clk (Suc n) cs st1 w1 = (st', res)" by simp
    have dc: "distinct (map md_upload_id cs)" using Cons.prems(2) by simp
    have iv: "invar (sv_repo st1)" using step by blast
    note IH = Cons.IH [OF rest dc others iv st1 Cons.prems(6,7)]
    have kept: "current_entry st' (md_upload_id c)" if "current_entry st1 (md_upload_id c)"
    proof -
      from IH Cons.prems(2) have "entry (sv_repo st') (md_upload_id c) = entry (sv_repo st1) (md_upload_id c)"
        by auto
      moreover from IH have "sv_keys st' = sv_keys st1" by (auto simp: keeps_readings_def)
      ultimately show ?thesis using that by (simp add: current_entry_def)
    qed
    from step IH have "keeps_readings P st st'" using keeps_readings_trans by blast
    moreover have "accounted w' = accounted w + int (length (c # cs)) \<and> rw_requested w' = rw_requested w
         \<and> rw_failed w \<le> rw_failed w' \<and> rw_skipped w \<le> rw_skipped w'
         \<and> (rw_failed w' = rw_failed w \<and> rw_skipped w' = rw_skipped w \<longrightarrow> (\<forall>c' \<in> set (c # cs). current_entry st' (md_upload_id c')))"
      if r: "res = Inr w'" for w'
    proof -
      from step Inr have a: "accounted w1 = accounted w + 1" "rw_requested w1 = rw_requested w"
        "rw_failed w \<le> rw_failed w1" "rw_skipped w \<le> rw_skipped w1"
        "rw_failed w1 = rw_failed w \<and> rw_skipped w1 = rw_skipped w \<longrightarrow> current_entry st1 (md_upload_id c)" by blast+
      from IH r have b: "accounted w' = accounted w1 + int (length cs)" "rw_requested w' = rw_requested w1"
        "rw_failed w1 \<le> rw_failed w'" "rw_skipped w1 \<le> rw_skipped w'"
        "rw_failed w' = rw_failed w1 \<and> rw_skipped w' = rw_skipped w1 \<longrightarrow> (\<forall>c \<in> set cs. current_entry st' (md_upload_id c))" by blast+
      from a b kept show ?thesis by auto
    qed
    moreover have "invar (sv_repo st')" using IH by blast
    moreover have "\<forall>u. u \<notin> md_upload_id ` set (c # cs) \<longrightarrow> entry (sv_repo st') u = entry (sv_repo st) u"
    proof (intro allI impI)
      fix u assume "u \<notin> md_upload_id ` set (c # cs)"
      then have "u \<noteq> md_upload_id c" "u \<notin> md_upload_id ` set cs" by simp_all
      with step IH show "entry (sv_repo st') u = entry (sv_repo st) u" by metis
    qed
    ultimately show ?thesis by blast
  qed
qed

text \<open>The whole method: readings, the account of the candidates, and where they end up.\<close>

lemma RewrapDEKs_keeps:
  assumes "RewrapDEKs su limit factory st = (st', w, err)" and "sv_ops st = ops" "invar (sv_repo st)"
    and "sv_keys st = provider k" "usable k" "\<forall>i nonce. su_draws su i = Inr nonce \<longrightarrow> length nonce = 12"
    and "ro_candidates rw (kv_id (sv_keys st)) (kv_version (sv_keys st)) limit (sv_repo st) = Inr cs"
  shows "keeps_readings P st st'
    \<and> (err = None \<longrightarrow> rw_requested w = int (length cs) \<and> accounted w = rw_requested w
        \<and> (rw_completed w = rw_requested w \<longrightarrow> (\<forall>c \<in> set cs. current_entry st' (md_upload_id c))))"
proof (cases "(limit \<le> 0 \<or> limit > maxDEKRewrapBatch) \<or> factory = None")
  case True
  then have "RewrapDEKs su limit factory st = (st, zero_rewrap, Some (StoreError ''invalid DEK rewrap request''))"
    by (cases factory; cases "limit \<le> 0 \<or> limit > maxDEKRewrapBatch") (auto simp: RewrapDEKs_def)
  with assms(1) have "st' = st" "err \<noteq> None" by auto
  then show ?thesis using keeps_readings_refl by blast
next
  case False
  then obtain mk where mk: "factory = Some mk" "\<not> (limit \<le> 0 \<or> limit > maxDEKRewrapBatch)" by auto
  define w0 where "w0 = zero_rewrap\<lparr>rw_requested := int (length cs), rw_durable := po_durable (sv_ops st)\<rparr>"
  obtain st1 res where each: "rewrap_each rw mk (su_draws su) (su_clock su) 0 cs st w0 = (st1, res)" by fastforce
  from assms(2,3,7) candidates have cs: "distinct (map md_upload_id cs)" "\<forall>c \<in> set cs. entry (sv_repo st) (md_upload_id c) = Some c"
    by blast+
  note keeps = rewrap_each_keeps [where P = P, OF each cs assms(3-6)]
  have cases: "RewrapDEKs su limit factory st = (case res of Inl (w, e) \<Rightarrow> (st1, w, Some e)
      | Inr w \<Rightarrow> (case ro_posture rw (kv_id (sv_keys st)) (kv_version (sv_keys st)) (sv_repo st1) of
          Inl e \<Rightarrow> (st1, w, Some e) | Inr p \<Rightarrow> (st1, w\<lparr>rw_remaining := kp_pending_versions p\<rparr>, None)))"
    using mk assms(2,7) offered each by (simp add: RewrapDEKs_def Let_def w0_def)
  from keeps have reads: "keeps_readings P st st1" by blast
  have st1: "st' = st1" using cases assms(1) by (auto split: sum.splits prod.splits)
  have "rw_requested w = int (length cs) \<and> accounted w = rw_requested w
        \<and> (rw_completed w = rw_requested w \<longrightarrow> (\<forall>c \<in> set cs. current_entry st' (md_upload_id c)))" if "err = None"
  proof -
    from that cases assms(1) obtain w1 where res: "res = Inr w1" by (cases res) (auto split: prod.splits)
    with that cases assms(1) have "\<exists>n. w = w1\<lparr>rw_remaining := n\<rparr>"
      by (cases "ro_posture rw (kv_id (sv_keys st)) (kv_version (sv_keys st)) (sv_repo st1)") auto
    then obtain n where w1: "w = w1\<lparr>rw_remaining := n\<rparr>" by blast
    note w1 = res w1
    from keeps w1(1) have k: "accounted w1 = accounted w0 + int (length cs)" "rw_requested w1 = rw_requested w0"
      "rw_failed w0 \<le> rw_failed w1" "rw_skipped w0 \<le> rw_skipped w1"
      "rw_failed w1 = rw_failed w0 \<and> rw_skipped w1 = rw_skipped w0 \<longrightarrow> (\<forall>c \<in> set cs. current_entry st1 (md_upload_id c))" by blast+
    moreover have "accounted w0 = 0" "rw_requested w0 = int (length cs)" "rw_failed w0 = 0" "rw_skipped w0 = 0"
      by (simp_all add: w0_def zero_rewrap_def accounted_def)
    ultimately show ?thesis by (auto simp: w1(2) st1 accounted_def)
  qed
  with reads st1 show ?thesis by simp
qed

end

section \<open>The in-memory repository\<close>

definition entries_keyed :: "memory_protected \<Rightarrow> bool" where
  "entries_keyed r \<longleftrightarrow> wf_map (ps_entries r) \<and> (\<forall>u m. map_of (ps_entries r) u = Some m \<longrightarrow> md_upload_id m = u)"

lemma entries_keyed_mput:
  assumes "entries_keyed r" "md_upload_id m = u"
  shows "entries_keyed (r\<lparr>ps_entries := mput u m (ps_entries r)\<rparr>)"
  unfolding entries_keyed_def
proof (intro conjI allI impI)
  show "wf_map (ps_entries (r\<lparr>ps_entries := mput u m (ps_entries r)\<rparr>))"
    using assms(1) by (simp add: entries_keyed_def)
  fix u' m' assume "map_of (ps_entries (r\<lparr>ps_entries := mput u m (ps_entries r)\<rparr>)) u' = Some m'"
  then have "(u' = u \<and> m' = m) \<or> map_of (ps_entries r) u' = Some m'" by (cases "u' = u") auto
  with assms show "md_upload_id m' = u'" unfolding entries_keyed_def by blast
qed

lemma entries_keyed_mvals:
  assumes "entries_keyed r"
  shows "map md_upload_id (mvals (ps_entries r)) = map fst (ps_entries r)"
    and "c \<in> set (mvals (ps_entries r)) \<longleftrightarrow> map_of (ps_entries r) (md_upload_id c) = Some c"
proof -
  show "map md_upload_id (mvals (ps_entries r)) = map fst (ps_entries r)"
    using assms by (auto simp: mvals_def entries_keyed_def in_set_wf_map [symmetric])
  show "c \<in> set (mvals (ps_entries r)) \<longleftrightarrow> map_of (ps_entries r) (md_upload_id c) = Some c"
    using assms by (auto simp: entries_keyed_def mvals_in_set)
qed

lemma memory_candidates:
  assumes "entries_keyed r" "memory_ListDEKRewrapCandidates i v n r = Inr cs"
  shows "distinct (map md_upload_id cs) \<and> (\<forall>c \<in> set cs. map_of (ps_entries r) (md_upload_id c) = Some c)"
proof -
  define pending where "pending = filter (\<lambda>m. md_wrapped_dek m \<noteq> [] \<and> wrappingKeyIdentity m \<noteq> (i, v)) (mvals (ps_entries r))"
  from assms(2) have cs: "cs = (if n < 1 then pending else take (nat n) pending)"
    by (auto simp: memory_ListDEKRewrapCandidates_def pending_def Let_def)
  have "distinct (map md_upload_id (mvals (ps_entries r)))"
    using assms(1) by (simp add: entries_keyed_mvals(1)) (simp add: entries_keyed_def wf_map_def)
  then have "distinct (map md_upload_id pending)" by (simp add: pending_def distinct_map_filter)
  moreover have "\<forall>c \<in> set pending. map_of (ps_entries r) (md_upload_id c) = Some c"
    using entries_keyed_mvals(2) [OF assms(1)] by (auto simp: pending_def)
  ultimately show ?thesis
    by (auto simp: cs take_map [symmetric] dest: in_set_takeD)
qed

interpretation local_rewrap: rewrap_store "local_keys P" "local_usable P" memory_protected_ops "\<lambda>r. map_of (ps_entries r)"
    memory_rewrap_ops entries_keyed for P
proof
  show "po_rewrap memory_protected_ops = Some memory_rewrap_ops" by (simp add: memory_protected_ops_def)
  show "distinct (map md_upload_id cs) \<and> (\<forall>c \<in> set cs. map_of (ps_entries r) (md_upload_id c) = Some c)"
    if "entries_keyed r" "ro_candidates memory_rewrap_ops i v n r = Inr cs" for r i v n cs
    using memory_candidates [OF that(1)] that(2) by (simp add: memory_rewrap_ops_def)
  show "entries_keyed r' \<and> map_of (ps_entries r') = (map_of (ps_entries r))(md_upload_id c \<mapsto> rewrapped w i v c)"
    if "entries_keyed r" "ro_commit memory_rewrap_ops c w i v op t it r = (r', Inr True)"
      "map_of (ps_entries r) (md_upload_id c) = Some c" for r c w i v op t it r'
  proof -
    from that(2,3) have r': "r' = r\<lparr>ps_entries := mput (md_upload_id c) (rewrapped w i v c) (ps_entries r)\<rparr>"
      by (simp add: memory_rewrap_ops_def memory_CommitDEKRewrap_def rewrapped_def split: if_splits)
    show ?thesis using entries_keyed_mput [OF that(1), of "rewrapped w i v c"] by (simp add: r' rewrapped_def)
  qed
  show "r' = r" if "ro_commit memory_rewrap_ops c w i v op t it r = (r', res)" "res \<noteq> Inr True" for r c w i v op t it r' res
    using that by (auto simp: memory_rewrap_ops_def memory_CommitDEKRewrap_def split: option.splits if_splits)
qed

end
