(* ===== verification/ProtectedMachine.thy ===== *)
theory ProtectedMachine
  imports ProtectedRepo
begin

text \<open>
  The operations of the in-memory repository as one step relation, an abstract state machine for the
  lifecycle of a single file, and the invariants of the catalogue: what every operation does to a
  lifecycle is a step of the machine, a purged file's keys stay destroyed, revoked grants stay revoked,
  and version histories are well numbered.
\<close>

section \<open>Operations as steps\<close>

text \<open>
  Identifiers the code draws are new; a restore is committed for a file \<open>FindVersion\<close> has just found, with
  a version \<open>Protect\<close> has just made; the candidates of a rewrap carry a wrapped key.
\<close>

inductive protected_op :: "time \<Rightarrow> memory_protected \<Rightarrow> memory_protected \<Rightarrow> bool" for now where
  Create: "\<forall>f. \<forall>v \<in> set (versions_of r f). fv_version_id v \<noteq> md_version_id m \<Longrightarrow>
    protected_op now r (fst (memory_Create m r))"
| Rewrap: "md_wrapped_dek c \<noteq> [] \<Longrightarrow> protected_op now r (fst (memory_CommitDEKRewrap c w i v r))"
| Register: "\<forall>fid. drawn = Inr fid \<longrightarrow> map_of (ps_lifecycle r) fid = None \<and> map_of (ps_files r) fid = None \<Longrightarrow>
    protected_op now r (fst (memory_RegisterInitial drawn owner name m r))"
| CommitRestore: "visible (lifecycle_of r fid) \<Longrightarrow>
    \<forall>v \<in> set (versions_of r fid). fv_operation_id v \<noteq> md_upload_id m \<longrightarrow> fv_version_id v \<noteq> md_version_id m \<Longrightarrow>
    protected_op now r (fst (memory_CommitRestore owner fid src m r))"
| Grant: "\<forall>i. drawn = Inr i \<longrightarrow> map_of (ps_grants r) i = None \<Longrightarrow>
    protected_op now r (fst (memory_CreateGrant now drawn owner fid rec permission expires r))"
| Revoke: "protected_op now r (fst (memory_RevokeGrant now owner fid gid r))"
| Trash: "protected_op now r (fst (memory_MoveToTrash owner fid now purgeAfter r))"
| Untrash: "protected_op now r (fst (memory_RestoreFromTrash owner fid now r))"
| Purge: "protected_op now r (fst (memory_Purge owner fid op now r))"
| Retain: "protected_op now r (fst (memory_SetRetention fid until r))"
| Hold: "protected_op now r (fst (memory_SetLegalHold fid enabled reason r))"
| Failure: "protected_op now r (fst (memory_RecordDeletionFailure owner fid op reason now r))"
| Drill: "protected_op now r (fst (memory_RecordRecoveryDrill d r))"
| Authorize: "protected_op now r (fst (memory_AuthorizeOrphanReconciliation orec r))"
| Complete: "protected_op now r (fst (memory_CompleteOrphanReconciliation oid status reason at r))"

text \<open>Runs whose operations all happen at times of a set.\<close>

definition protected_run :: "time set \<Rightarrow> memory_protected \<Rightarrow> memory_protected \<Rightarrow> bool" where
  "protected_run T = (\<lambda>r r'. \<exists>now \<in> T. protected_op now r r')\<^sup>*\<^sup>*"

lemma protected_run_induct [consumes 1, case_names refl step]:
  assumes "protected_run T r r'" "Q r"
    and "\<And>r1 r2 now. protected_run T r r1 \<Longrightarrow> now \<in> T \<Longrightarrow> protected_op now r1 r2 \<Longrightarrow> Q r1 \<Longrightarrow> Q r2"
  shows "Q r'"
  using assms(1) unfolding protected_run_def
  by (induction rule: rtranclp_induct) (use assms(2,3) in \<open>auto simp: protected_run_def\<close>)

lemma protected_run_step: "now \<in> T \<Longrightarrow> protected_op now r r' \<Longrightarrow> protected_run T r r'"
  unfolding protected_run_def by (rule r_into_rtranclp) blast

section \<open>The lifecycle of one file\<close>

inductive lifecycle_step :: "time \<Rightarrow> lifecycle_file \<Rightarrow> lifecycle_file \<Rightarrow> bool" for now where
  unchanged: "lifecycle_step now c c"
| trashed: "visible c \<Longrightarrow> \<not> lc_legal_hold c \<Longrightarrow> \<not> retained now c \<Longrightarrow>
    lifecycle_step now c (touched now (c\<lparr>lc_deleted_at := Some now, lc_purge_after := Some p\<rparr>))"
| untrashed: "lc_deleted_at c \<noteq> None \<Longrightarrow> lc_purged_at c = None \<Longrightarrow>
    lifecycle_step now c (touched now (c\<lparr>lc_deleted_at := None, lc_purge_after := None\<rparr>))"
| purged: "lc_deleted_at c \<noteq> None \<Longrightarrow> lc_purged_at c = None \<Longrightarrow> \<not> lc_legal_hold c \<Longrightarrow> \<not> retained now c \<Longrightarrow>
    lc_purge_after c = Some t \<Longrightarrow> t \<le> now \<Longrightarrow> lifecycle_step now c (touched now (c\<lparr>lc_purged_at := Some now\<rparr>))"
| retention_set: "lc_purged_at c = None \<Longrightarrow> \<forall>old. lc_retention_until c = Some old \<longrightarrow> (\<exists>t. until = Some t \<and> old \<le> t) \<Longrightarrow>
    lifecycle_step now c (c\<lparr>lc_retention_until := until\<rparr>)"
| hold_set: "lc_purged_at c = None \<Longrightarrow>
    lifecycle_step now c (c\<lparr>lc_legal_hold := b, lc_legal_hold_reason := s\<rparr>)"

inductive_cases lifecycle_stepE: "lifecycle_step now c c'"

lemma touched_simps [simp]:
  "lc_deleted_at (touched now c) = lc_deleted_at c" "lc_purged_at (touched now c) = lc_purged_at c"
  "lc_purge_after (touched now c) = lc_purge_after c" "lc_retention_until (touched now c) = lc_retention_until c"
  "lc_legal_hold (touched now c) = lc_legal_hold c" "lf_owner_id (lc_file (touched now c)) = lf_owner_id (lc_file c)"
  "lf_current_version_id (lc_file (touched now c)) = lf_current_version_id (lc_file c)"
  "lf_file_id (lc_file (touched now c)) = lf_file_id (lc_file c)"
  by (simp_all add: touched_def)

lemma lifecycle_step_purged: "lifecycle_step now c c' \<Longrightarrow> lc_purged_at c = Some t \<Longrightarrow> c' = c"
  by (auto elim!: lifecycle_stepE simp: visible_def)

lemma lifecycle_step_retention:
  "lifecycle_step now c c' \<Longrightarrow> lc_retention_until c = Some old \<Longrightarrow> \<exists>t. lc_retention_until c' = Some t \<and> old \<le> t"
  by (auto elim!: lifecycle_stepE)

lemma lifecycle_step_retained:
  "lifecycle_step now c c' \<Longrightarrow> lc_retention_until c = Some t \<Longrightarrow> now < t \<Longrightarrow> visible c \<Longrightarrow> visible c'"
  by (auto elim!: lifecycle_stepE simp: visible_def retained_def)

lemma lifecycle_step_owner: "lifecycle_step now c c' \<Longrightarrow> lf_owner_id (lc_file c') = lf_owner_id (lc_file c)"
  by (auto elim!: lifecycle_stepE)

text \<open>Every operation acts on the lifecycle of every file as a step of the machine.\<close>

lemmas lifecycle_op_defs = memory_Create_def memory_CommitDEKRewrap_def memory_RegisterInitial_def
  memory_CommitRestore_def memory_CreateGrant_def memory_RevokeGrant_def memory_RecordDeletionFailure_def
  memory_RecordRecoveryDrill_def memory_AuthorizeOrphanReconciliation_def memory_CompleteOrphanReconciliation_def

lemma Register_lifecycle:
  "map_of (ps_lifecycle (fst (memory_RegisterInitial drawn owner name m r))) f =
     (case drawn of Inr fid \<Rightarrow> if f = fid \<and> fst (memory_RegisterInitial drawn owner name m r) \<noteq> r
        then Some (zero_lifecycle\<lparr>lc_file := \<lparr>lf_file_id = fid, lf_owner_id = owner, lf_name = name,
          lf_current_version_id = md_version_id m, lf_created_at = md_created_at m, lf_updated_at = md_created_at m\<rparr>\<rparr>)
        else map_of (ps_lifecycle r) f | Inl _ \<Rightarrow> map_of (ps_lifecycle r) f)"
  if "\<forall>fid. drawn = Inr fid \<longrightarrow> map_of (ps_lifecycle r) fid = None"
proof -
  have "fst (memory_RegisterInitial drawn owner name m r) \<noteq> r" if "drawn = Inr fid" "map_of (ps_lifecycle r) fid = None"
    "find (\<lambda>f. lf_owner_id f = owner \<and> lf_current_version_id f = md_version_id m) (mvals (ps_files r)) = None" for fid
  proof
    assume "fst (memory_RegisterInitial drawn owner name m r) = r"
    then have "map_of (ps_lifecycle (fst (memory_RegisterInitial drawn owner name m r))) fid = None" using that by simp
    with that show False by (simp add: memory_RegisterInitial_def Let_def)
  qed
  with that show ?thesis
    by (auto simp: memory_RegisterInitial_def Let_def split: option.splits sum.splits)
qed

text \<open>A purge that changes something has passed every gate.\<close>

definition purge_gates :: "time \<Rightarrow> lifecycle_file \<Rightarrow> bool" where
  "purge_gates now c \<longleftrightarrow> lc_deleted_at c \<noteq> None \<and> lc_purged_at c = None \<and> \<not> lc_legal_hold c \<and> \<not> retained now c
     \<and> (\<exists>t. lc_purge_after c = Some t \<and> t \<le> now)"

lemma memory_Purge_cases:
  obtains (same) "fst (memory_Purge owner fid op now r) = r"
    "\<forall>result. snd (memory_Purge owner fid op now r) = Inr result \<longrightarrow> map_of (ps_purges r) op = Some result \<and> pu_file_id result = fid"
  | (effect) c r' where "map_of (ps_lifecycle r) fid = Some c" "lf_owner_id (lc_file c) = owner" "purge_gates now c"
      "map_of (ps_purges r) op = None" "fst (memory_Purge owner fid op now r) = r'"
      "ps_lifecycle r' = mput fid (touched now (c\<lparr>lc_purged_at := Some now\<rparr>)) (ps_lifecycle r)"
      "ps_entries r' = mapply (\<lambda>i m. if destroyed_by (versions_of r fid) m then m\<lparr>md_wrapped_dek := []\<rparr> else m) (ps_entries r)"
      "ps_files r' = mput fid (lc_file (touched now (c\<lparr>lc_purged_at := Some now\<rparr>))) (ps_files r)"
      "ps_versions r' = ps_versions r" "ps_grants r' = revoke_file_grants fid now (ps_grants r)"
      "\<exists>result. snd (memory_Purge owner fid op now r) = Inr result \<and> ps_purges r' = mput op result (ps_purges r)
         \<and> pu_file_id result = fid \<and> pu_destroyed_keys result = int (length (filter (destroyed_by (versions_of r fid)) (mvals (ps_entries r))))
         \<and> pu_blob_objects result = map md_blob_object (filter (destroyed_by (versions_of r fid)) (mvals (ps_entries r)))"
proof (cases "map_of (ps_purges r) op")
  case (Some e)
  then show ?thesis by (intro same) (auto simp: memory_Purge_def split: if_splits)
next
  case None
  show ?thesis
  proof (cases "\<exists>c. map_of (ps_lifecycle r) fid = Some c \<and> lf_owner_id (lc_file c) = owner \<and> purge_gates now c")
    case False
    with None have "fst (memory_Purge owner fid op now r) = r \<and> (\<forall>result. snd (memory_Purge owner fid op now r) \<noteq> Inr result)"
      by (auto simp: memory_Purge_def purge_gates_def Let_def split: option.splits)
    then show ?thesis by (intro same) auto
  next
    case True
    then obtain c t d where c: "map_of (ps_lifecycle r) fid = Some c" "lf_owner_id (lc_file c) = owner" "purge_gates now c"
      "lc_purge_after c = Some t" "t \<le> now" "lc_deleted_at c = Some d" by (auto simp: purge_gates_def)
    then show ?thesis using None
      by (intro effect [OF c(1-3) None refl]) (simp_all add: memory_Purge_def purge_gates_def Let_def)
  qed
qed

lemma protected_op_lifecycle:
  assumes "protected_op now r r'" "map_of (ps_lifecycle r) f = Some c"
  shows "\<exists>c'. map_of (ps_lifecycle r') f = Some c' \<and> lifecycle_step now c c'"
  using assms
proof (cases rule: protected_op.cases)
  case (Register drawn owner name m)
  then show ?thesis using assms(2)
    by (subst Register(1), subst Register_lifecycle) (auto split: sum.splits intro: lifecycle_step.unchanged)
next
  case (Trash owner fid purgeAfter)
  then show ?thesis using assms(2)
    by (cases "f = fid")
      (auto simp: memory_MoveToTrash_def Let_def visible_def split: option.splits
        intro: lifecycle_step.unchanged intro!: lifecycle_step.trashed [unfolded visible_def])
next
  case (Untrash owner fid)
  then show ?thesis using assms(2)
    by (cases "f = fid")
      (auto simp: memory_RestoreFromTrash_def Let_def split: option.splits
        intro: lifecycle_step.unchanged intro!: lifecycle_step.untrashed)
next
  case (Purge owner fid op)
  show ?thesis
  proof (cases rule: memory_Purge_cases [of owner fid op now r])
    case same
    with Purge assms(2) show ?thesis by (auto intro: lifecycle_step.unchanged)
  next
    case (effect c0 r0)
    with Purge have r': "r' = r0" by simp
    show ?thesis
    proof (cases "f = fid")
      case True
      with effect(1) assms(2) have "c0 = c" by simp
      with effect(3) obtain t where "lifecycle_step now c (touched now (c\<lparr>lc_purged_at := Some now\<rparr>))"
        by (auto simp: purge_gates_def intro: lifecycle_step.purged)
      with True effect(6) \<open>c0 = c\<close> show ?thesis by (simp add: r')
    next
      case False
      with assms(2) effect(6) show ?thesis by (auto simp: r' intro: lifecycle_step.unchanged)
    qed
  qed
next
  case (Retain fid until)
  then show ?thesis using assms(2)
    by (cases "f = fid")
      (auto simp: memory_SetRetention_def Let_def split: option.splits
        intro: lifecycle_step.unchanged intro!: lifecycle_step.retention_set)
next
  case (Hold fid enabled reason)
  then show ?thesis using assms(2)
    by (cases "f = fid")
      (auto simp: memory_SetLegalHold_def Let_def split: option.splits
        intro: lifecycle_step.unchanged intro!: lifecycle_step.hold_set)
qed (auto simp: lifecycle_op_defs Let_def split: option.splits sum.splits prod.splits intro: lifecycle_step.unchanged)

end
