(* ===== verification/ProtectedInvariant.thy ===== *)
theory ProtectedInvariant
  imports ProtectedMachine
begin

text \<open>
  The catalogue invariant of the in-memory repository and its preservation by every operation: file,
  lifecycle and version history agree, histories are numbered from one with the newest current, and
  the keys of a purged file's versions are gone.
\<close>

definition well_numbered :: "string \<Rightarrow> file_version list \<Rightarrow> bool" where
  "well_numbered f vs \<longleftrightarrow> vs \<noteq> [] \<and> fv_current (hd vs) \<and> (\<forall>v \<in> set (tl vs). \<not> fv_current v)
     \<and> map fv_number vs = rev (map int [1..<length vs + 1]) \<and> distinct (map fv_version_id vs)
     \<and> (\<forall>v \<in> set vs. fv_file_id v = f)"

definition version_ids :: "memory_protected \<Rightarrow> string \<Rightarrow> string set" where
  "version_ids r f = fv_version_id ` set (versions_of r f)"

definition keys_destroyed :: "memory_protected \<Rightarrow> string \<Rightarrow> bool" where
  "keys_destroyed r f \<longleftrightarrow>
     (\<forall>u m. map_of (ps_entries r) u = Some m \<longrightarrow> md_version_id m \<in> version_ids r f \<longrightarrow> md_wrapped_dek m = [])"

definition file_agrees :: "memory_protected \<Rightarrow> string \<Rightarrow> logical_file \<Rightarrow> string \<Rightarrow> bool" where
  "file_agrees r f file owner \<longleftrightarrow> lf_file_id file = f \<and> lf_owner_id file = owner \<and> lf_current_version_id file \<in> version_ids r f"

definition good_file :: "memory_protected \<Rightarrow> string \<Rightarrow> lifecycle_file \<Rightarrow> bool" where
  "good_file r f c \<longleftrightarrow> file_agrees r f (lc_file c) (lf_owner_id (lc_file c))
     \<and> (\<exists>file. map_of (ps_files r) f = Some file \<and> file_agrees r f file (lf_owner_id (lc_file c)))
     \<and> well_numbered f (versions_of r f) \<and> (lc_purged_at c \<noteq> None \<longrightarrow> keys_destroyed r f)"

definition catalog_invar :: "memory_protected \<Rightarrow> bool" where
  "catalog_invar r \<longleftrightarrow> wf_map (ps_entries r)
     \<and> (\<forall>f c. map_of (ps_lifecycle r) f = Some c \<longrightarrow> good_file r f c)
     \<and> (\<forall>f file. map_of (ps_files r) f = Some file \<longrightarrow> map_of (ps_lifecycle r) f \<noteq> None)"

lemma catalog_invar_new [inv_intros]: "catalog_invar NewMemoryProtected"
  by (simp add: catalog_invar_def NewMemoryProtected_def)

lemma catalog_invarD:
  "catalog_invar r \<Longrightarrow> map_of (ps_lifecycle r) f = Some c \<Longrightarrow> good_file r f c"
  by (simp add: catalog_invar_def)

lemma catalog_invar_same:
  assumes "catalog_invar r" "ps_entries r' = ps_entries r" "ps_files r' = ps_files r"
    "ps_versions r' = ps_versions r" "ps_lifecycle r' = ps_lifecycle r"
  shows "catalog_invar r'"
  using assms by (simp add: catalog_invar_def good_file_def file_agrees_def keys_destroyed_def version_ids_def)

lemma good_file_cong:
  assumes "versions_of r' f = versions_of r f" "map_of (ps_files r') f = map_of (ps_files r) f" "ps_entries r' = ps_entries r"
  shows "good_file r' f c = good_file r f c"
  by (simp only: good_file_def file_agrees_def keys_destroyed_def version_ids_def assms)

text \<open>Operations on one lifecycle, with the stored file written back or not, and entries that lose their keys.\<close>

lemma catalog_invar_update:
  assumes inv: "catalog_invar r" and c: "map_of (ps_lifecycle r) f = Some c"
    and same: "lf_file_id (lc_file c') = lf_file_id (lc_file c)" "lf_owner_id (lc_file c') = lf_owner_id (lc_file c)"
      "lf_current_version_id (lc_file c') = lf_current_version_id (lc_file c)"
    and lc: "ps_lifecycle r' = mput f c' (ps_lifecycle r)" and vs: "ps_versions r' = ps_versions r"
    and files: "ps_files r' = ps_files r \<or> ps_files r' = mput f (lc_file c') (ps_files r)"
    and entries: "ps_entries r' = mapply (\<lambda>u m. if p m then m\<lparr>md_wrapped_dek := []\<rparr> else m) (ps_entries r)"
    and purged: "lc_purged_at c' \<noteq> None \<Longrightarrow> lc_purged_at c \<noteq> None \<or> keys_destroyed r' f"
  shows "catalog_invar r'"
proof -
  have ids: "version_ids r' g = version_ids r g" "versions_of r' g = versions_of r g" for g by (simp_all add: version_ids_def vs)
  have agrees: "file_agrees r' g x owner = file_agrees r g x owner" for g x owner by (simp add: file_agrees_def ids)
  have destroyed: "keys_destroyed r' g" if "keys_destroyed r g" for g
    using that by (auto simp: keys_destroyed_def ids entries)
  have good: "good_file r f c" by (rule catalog_invarD [OF inv c])
  have "good_file r' g d" if "map_of (ps_lifecycle r') g = Some d" for g d
  proof (cases "g = f")
    case True
    with that lc have d: "d = c'" by simp
    have "file_agrees r f (lc_file c') (lf_owner_id (lc_file c))" using good same by (simp add: good_file_def file_agrees_def)
    moreover from good files this obtain fl where "map_of (ps_files r') f = Some fl" "file_agrees r f fl (lf_owner_id (lc_file c))"
      by (auto simp: good_file_def)
    moreover have "lc_purged_at c' \<noteq> None \<Longrightarrow> keys_destroyed r' f"
      using purged good destroyed by (auto simp: good_file_def)
    ultimately show ?thesis using good by (auto simp: good_file_def d True agrees ids same)
  next
    case False
    with that lc have "map_of (ps_lifecycle r) g = Some d" by simp
    from catalog_invarD [OF inv this] False files destroyed show ?thesis by (auto simp: good_file_def agrees ids)
  qed
  moreover have "wf_map (ps_entries r')" using inv by (simp add: entries catalog_invar_def)
  moreover have "map_of (ps_lifecycle r') g \<noteq> None" if "map_of (ps_files r') g = Some fl" for g fl
    using that files inv lc by (cases "g = f") (auto simp: catalog_invar_def)
  ultimately show ?thesis unfolding catalog_invar_def by blast
qed

lemma mapply_id [simp]: "mapply (\<lambda>u m. m) ms = ms"
  by (simp add: mapply_def case_prod_unfold)

lemma catalog_invar_lifecycle:
  assumes "catalog_invar r" "map_of (ps_lifecycle r) f = Some c" "lf_file_id (lc_file c') = lf_file_id (lc_file c)"
    "lf_owner_id (lc_file c') = lf_owner_id (lc_file c)" "lf_current_version_id (lc_file c') = lf_current_version_id (lc_file c)"
    "lc_purged_at c' = lc_purged_at c"
  shows "catalog_invar (r\<lparr>ps_lifecycle := mput f c' (ps_lifecycle r)\<rparr>)"
    and "catalog_invar (r\<lparr>ps_lifecycle := mput f c' (ps_lifecycle r), ps_files := mput f (lc_file c') (ps_files r)\<rparr>)"
    and "catalog_invar (r\<lparr>ps_lifecycle := mput f c' (ps_lifecycle r), ps_files := mput f (lc_file c') (ps_files r), ps_grants := g\<rparr>)"
  by (rule catalog_invar_update [where p = "\<lambda>_. False", OF assms(1-5)]; simp add: mapply_id assms(6))+

lemma Trash_invar [inv_intros]: "catalog_invar r \<Longrightarrow> catalog_invar (fst (memory_MoveToTrash owner fid now p r))"
  by (simp add: memory_MoveToTrash_def Let_def catalog_invar_lifecycle split: option.split)

lemma Untrash_invar [inv_intros]: "catalog_invar r \<Longrightarrow> catalog_invar (fst (memory_RestoreFromTrash owner fid now r))"
  by (simp add: memory_RestoreFromTrash_def Let_def catalog_invar_lifecycle split: option.split)

lemma Retain_invar [inv_intros]: "catalog_invar r \<Longrightarrow> catalog_invar (fst (memory_SetRetention fid until r))"
  by (simp add: memory_SetRetention_def Let_def catalog_invar_lifecycle split: option.split)

lemma Hold_invar [inv_intros]: "catalog_invar r \<Longrightarrow> catalog_invar (fst (memory_SetLegalHold fid b s r))"
  by (simp add: memory_SetLegalHold_def Let_def catalog_invar_lifecycle split: option.split)

lemma Purge_destroys:
  assumes "ps_entries r' = mapply (\<lambda>i m. if destroyed_by (versions_of r fid) m then m\<lparr>md_wrapped_dek := []\<rparr> else m) (ps_entries r)"
    "ps_versions r' = ps_versions r"
  shows "keys_destroyed r' fid"
  unfolding keys_destroyed_def
proof (intro allI impI)
  fix u m' assume m': "map_of (ps_entries r') u = Some m'" "md_version_id m' \<in> version_ids r' fid"
  from m'(1) obtain m where m: "m' = (if destroyed_by (versions_of r fid) m then m\<lparr>md_wrapped_dek := []\<rparr> else m)"
    unfolding assms(1) by auto
  then have "md_version_id m \<in> fv_version_id ` set (versions_of r fid)"
    using m'(2) assms(2) by (simp add: version_ids_def split: if_splits)
  then have "list_ex (\<lambda>v. md_version_id m = fv_version_id v) (versions_of r fid)" by (auto simp: list_ex_iff)
  then show "md_wrapped_dek m' = []" by (simp add: m destroyed_by_def)
qed

lemma Purge_invar [inv_intros]: "catalog_invar r \<Longrightarrow> catalog_invar (fst (memory_Purge owner fid op now r))"
proof (cases rule: memory_Purge_cases [of owner fid op now r])
  case (effect c r')
  assume "catalog_invar r"
  then have "catalog_invar r'"
    by (rule catalog_invar_update [OF _ effect(1) _ _ _ effect(6,9) disjI2 [OF effect(8)] effect(7)])
      (simp_all add: Purge_destroys [OF effect(7,9)])
  with effect(5) show ?thesis by simp
qed simp

lemma Create_invar [inv_intros]:
  assumes "catalog_invar r" "\<forall>f. \<forall>v \<in> set (versions_of r f). fv_version_id v \<noteq> md_version_id m"
  shows "catalog_invar (fst (memory_Create m r))"
proof -
  have fresh: "md_version_id m \<notin> version_ids r f" for f using assms(2) by (force simp: version_ids_def)
  have "keys_destroyed (r\<lparr>ps_entries := mput u m (ps_entries r)\<rparr>) f" if "keys_destroyed r f" for u f
    using that fresh [of f] by (auto simp: keys_destroyed_def version_ids_def split: if_splits)
  then show ?thesis using assms(1)
    by (auto simp: memory_Create_def catalog_invar_def good_file_def file_agrees_def version_ids_def split: option.split)
qed

lemma Rewrap_invar [inv_intros]:
  assumes "catalog_invar r" "md_wrapped_dek c \<noteq> []"
  shows "catalog_invar (fst (memory_CommitDEKRewrap c w i v r))"
proof -
  have "keys_destroyed (r\<lparr>ps_entries := mput u (m\<lparr>md_wrapped_dek := w, md_wrapping_kek_id := i, md_wrapping_kek_version := v\<rparr>) (ps_entries r)\<rparr>) f"
    if "keys_destroyed r f" "map_of (ps_entries r) u = Some m" "md_wrapped_dek m \<noteq> []" for u m f
    using that by (auto simp: keys_destroyed_def version_ids_def split: if_splits)
  then show ?thesis using assms
    by (auto simp: memory_CommitDEKRewrap_def catalog_invar_def good_file_def file_agrees_def version_ids_def split: option.split)
qed

lemma Register_invar [inv_intros]:
  assumes inv: "catalog_invar r"
    and fresh: "\<forall>fid. drawn = Inr fid \<longrightarrow> map_of (ps_lifecycle r) fid = None \<and> map_of (ps_files r) fid = None"
  shows "catalog_invar (fst (memory_RegisterInitial drawn owner name m r))"
proof (cases "fst (memory_RegisterInitial drawn owner name m r) = r")
  case True
  with inv show ?thesis by simp
next
  case False
  then obtain fid where fid: "drawn = Inr fid" "find (\<lambda>f. lf_owner_id f = owner \<and> lf_current_version_id f = md_version_id m) (mvals (ps_files r)) = None"
    by (auto simp: memory_RegisterInitial_def split: option.splits sum.splits)
  define r' where "r' = fst (memory_RegisterInitial drawn owner name m r)"
  define fl where "fl = \<lparr>lf_file_id = fid, lf_owner_id = owner, lf_name = name,
    lf_current_version_id = md_version_id m, lf_created_at = md_created_at m, lf_updated_at = md_created_at m\<rparr>"
  define v where "v = \<lparr>fv_file_id = fid, fv_version_id = md_version_id m, fv_source_version_id = [],
    fv_operation_id = md_upload_id m, fv_number = 1, fv_plaintext_size = md_plaintext_size m,
    fv_media_type = md_media_type m, fv_reason = ''initial_upload'', fv_current = True, fv_created_at = md_created_at m\<rparr>"
  have r': "ps_files r' = mput fid fl (ps_files r)" "ps_versions r' = mput fid [v] (ps_versions r)"
    "ps_lifecycle r' = mput fid (zero_lifecycle\<lparr>lc_file := fl\<rparr>) (ps_lifecycle r)" "ps_entries r' = ps_entries r"
    by (simp_all add: r'_def memory_RegisterInitial_def fid Let_def fl_def v_def)
  have vs: "versions_of r' fid = [v]" "f \<noteq> fid \<Longrightarrow> versions_of r' f = versions_of r f" for f
    by (simp_all add: mget_def r')
  have others: "good_file r' f c" if "f \<noteq> fid" "good_file r f c" for f c
    using good_file_cong [OF vs(2) [OF that(1)] _ r'(4), of c] that by (simp add: r'(1))
  have mine: "good_file r' fid (zero_lifecycle\<lparr>lc_file := fl\<rparr>)"
    unfolding good_file_def file_agrees_def version_ids_def well_numbered_def vs(1) r'(1)
    by (simp add: fl_def v_def zero_lifecycle_def)
  have "good_file r' f c" if "map_of (ps_lifecycle r') f = Some c" for f c
    using that others [of f c] mine catalog_invarD [OF inv, of f c] by (cases "f = fid") (simp_all add: r')
  moreover have "map_of (ps_lifecycle r') f \<noteq> None" if "map_of (ps_files r') f = Some x" for f x
    using that inv by (cases "f = fid") (auto simp: r' catalog_invar_def)
  ultimately have "catalog_invar r'" using inv unfolding catalog_invar_def r'(4) by blast
  then show ?thesis by (simp add: r'_def)
qed

lemma well_numbered_Cons:
  assumes "well_numbered f vs" "fv_current v" "fv_number v = int (length vs + 1)" "fv_file_id v = f"
    "fv_version_id v \<notin> fv_version_id ` set vs"
  shows "well_numbered f (v # map (fv_current_update (\<lambda>_. False)) vs)"
proof -
  let ?olds = "map (fv_current_update (\<lambda>_. False)) vs"
  have comp: "fv_version_id \<circ> fv_current_update (\<lambda>_. False) = fv_version_id"
    "fv_number \<circ> fv_current_update (\<lambda>_. False) = fv_number" by (simp_all add: fun_eq_iff)
  have "map fv_number (v # ?olds) = int (length vs + 1) # rev (map int [1..<length vs + 1])"
    using assms(1,3) by (simp add: well_numbered_def comp)
  also have "\<dots> = rev (map int ([1..<length vs + 1] @ [length vs + 1]))" by simp
  also have "\<dots> = rev (map int [1..<length (v # ?olds) + 1])" by simp
  finally have numbers: "map fv_number (v # ?olds) = rev (map int [1..<length (v # ?olds) + 1])" .
  moreover have "distinct (map fv_version_id (v # ?olds))"
    using assms(1,5) by (simp add: well_numbered_def comp image_image)
  moreover have "\<forall>w \<in> set ?olds. \<not> fv_current w \<and> fv_file_id w = f"
    using assms(1) by (simp add: well_numbered_def)
  ultimately show ?thesis using assms(2,4) by (simp only: well_numbered_def list.sel list.simps) simp
qed

lemma CommitRestore_invar [inv_intros]:
  assumes inv: "catalog_invar r" and vis: "visible (lifecycle_of r fid)"
    and fresh: "\<forall>v \<in> set (versions_of r fid). fv_operation_id v \<noteq> md_upload_id m \<longrightarrow> fv_version_id v \<noteq> md_version_id m"
  shows "catalog_invar (fst (memory_CommitRestore owner fid src m r))"
proof (cases "fst (memory_CommitRestore owner fid src m r) = r")
  case True
  with inv show ?thesis by simp
next
  case False
  then obtain fl where fl: "map_of (ps_files r) fid = Some fl" "lf_owner_id fl = owner"
      "find (\<lambda>v. fv_operation_id v = md_upload_id m) (versions_of r fid) = None"
      "list_ex (\<lambda>v. fv_version_id v = src) (versions_of r fid)"
    by (auto simp: memory_CommitRestore_def Let_def split: option.splits if_splits)
  define r' where "r' = fst (memory_CommitRestore owner fid src m r)"
  define v where "v = \<lparr>fv_file_id = fid, fv_version_id = md_version_id m, fv_source_version_id = src,
    fv_operation_id = md_upload_id m, fv_number = int (length (versions_of r fid) + 1),
    fv_plaintext_size = md_plaintext_size m, fv_media_type = md_media_type m,
    fv_reason = ''verified_restore'', fv_current = True, fv_created_at = md_created_at m\<rparr>"
  define fl' where "fl' = fl\<lparr>lf_current_version_id := md_version_id m, lf_updated_at := md_created_at m\<rparr>"
  have r': "ps_files r' = mput fid fl' (ps_files r)"
    "ps_versions r' = mput fid (v # map (fv_current_update (\<lambda>_. False)) (versions_of r fid)) (ps_versions r)"
    "ps_lifecycle r' = ps_lifecycle r" "ps_entries r' = ps_entries r"
    by (simp_all add: r'_def memory_CommitRestore_def fl Let_def fl'_def v_def)
  have vs: "versions_of r' fid = v # map (fv_current_update (\<lambda>_. False)) (versions_of r fid)"
    "f \<noteq> fid \<Longrightarrow> versions_of r' f = versions_of r f" for f by (simp_all add: mget_def r')
  have ids: "version_ids r' fid = insert (md_version_id m) (version_ids r fid)"
    by (simp add: version_ids_def vs image_image v_def)
  obtain c where c: "map_of (ps_lifecycle r) fid = Some c" "visible c"
    using inv fl(1) vis by (auto simp: catalog_invar_def mget_def)
  have good: "good_file r fid c" by (rule catalog_invarD [OF inv c(1)])
  have "fv_version_id v \<notin> fv_version_id ` set (versions_of r fid)"
    using fresh fl(3) by (auto simp: v_def find_None_iff)
  then have numbered: "well_numbered fid (versions_of r' fid)"
    using good unfolding vs by (intro well_numbered_Cons) (auto simp: good_file_def v_def)
  have mine: "good_file r' fid c"
    using good c numbered fl(1) by (auto simp: good_file_def file_agrees_def ids r' fl'_def visible_def)
  have others: "good_file r' f d" if "f \<noteq> fid" "good_file r f d" for f d
    using good_file_cong [OF vs(2) [OF that(1)] _ r'(4), of d] that by (simp add: r'(1))
  have "good_file r' f d" if "map_of (ps_lifecycle r') f = Some d" for f d
    using that mine c(1) catalog_invarD [OF inv, of f d] others [of f d] by (cases "f = fid") (simp_all add: r'(3))
  moreover have "map_of (ps_lifecycle r') f \<noteq> None" if "map_of (ps_files r') f = Some x" for f x
    using that inv c(1) by (cases "f = fid") (auto simp: r' catalog_invar_def)
  ultimately have "catalog_invar r'" using inv unfolding catalog_invar_def r'(4) by blast
  then show ?thesis by (simp add: r'_def)
qed

lemma other_ops_invar [inv_intros]:
  assumes "catalog_invar r"
  shows "catalog_invar (fst (memory_CreateGrant now drawn owner fid rec permission expires r))"
    and "catalog_invar (fst (memory_RevokeGrant now owner fid gid r))"
    and "catalog_invar (fst (memory_RecordDeletionFailure owner fid op reason now r))"
    and "catalog_invar (fst (memory_RecordRecoveryDrill d r))"
    and "catalog_invar (fst (memory_AuthorizeOrphanReconciliation orec r))"
    and "catalog_invar (fst (memory_CompleteOrphanReconciliation oid status reason at r))"
  by (rule catalog_invar_same [OF assms]; simp add: memory_CreateGrant_def memory_RevokeGrant_def
      memory_RecordDeletionFailure_def memory_RecordRecoveryDrill_def memory_AuthorizeOrphanReconciliation_def
      memory_CompleteOrphanReconciliation_def Let_def split: option.split sum.split prod.split)+

lemma protected_op_invar: "protected_op now r r' \<Longrightarrow> catalog_invar r \<Longrightarrow> catalog_invar r'"
  by (induction rule: protected_op.induct) (auto intro: inv_intros)

lemma protected_run_invar: "protected_run T r r' \<Longrightarrow> catalog_invar r \<Longrightarrow> catalog_invar r'"
  by (induction rule: protected_run_induct) (auto intro: protected_op_invar)

section \<open>Grants\<close>

text \<open>Grants are never removed or revived, and a new one gets a new identifier.\<close>

definition grants_follow :: "memory_protected \<Rightarrow> memory_protected \<Rightarrow> bool" where
  "grants_follow r r' \<longleftrightarrow> (\<forall>i g. map_of (ps_grants r) i = Some g \<longrightarrow>
     (\<exists>g'. map_of (ps_grants r') i = Some g' \<and> gr_file_id g' = gr_file_id g \<and> gr_recipient_id g' = gr_recipient_id g
        \<and> (gr_revoked_at g \<noteq> None \<longrightarrow> gr_revoked_at g' \<noteq> None)))"

lemma grants_follow_refl: "ps_grants r' = ps_grants r \<Longrightarrow> grants_follow r r'"
  by (simp add: grants_follow_def)

lemma grants_follow_trans: "grants_follow r r1 \<Longrightarrow> grants_follow r1 r2 \<Longrightarrow> grants_follow r r2"
  unfolding grants_follow_def by metis

lemma grants_follow_file: "ps_grants r' = revoke_file_grants f now (ps_grants r) \<Longrightarrow> grants_follow r r'"
  by (auto simp: grants_follow_def revoke_file_grants_def)

lemma grants_follow_put:
  assumes "ps_grants r' = mput i g' (ps_grants r)"
    and "map_of (ps_grants r) i = None \<or> (\<exists>g. map_of (ps_grants r) i = Some g \<and> gr_revoked_at g = None
      \<and> gr_file_id g' = gr_file_id g \<and> gr_recipient_id g' = gr_recipient_id g)"
  shows "grants_follow r r'"
  using assms by (auto simp: grants_follow_def)

lemma CreateGrant_follows:
  assumes "\<forall>i. drawn = Inr i \<longrightarrow> map_of (ps_grants r) i = None" "wf_map (ps_grants r)"
  shows "grants_follow r (fst (memory_CreateGrant now drawn owner fid rec permission expires r))"
proof (cases "fst (memory_CreateGrant now drawn owner fid rec permission expires r) = r")
  case True
  then show ?thesis by (simp add: grants_follow_refl)
next
  case False
  define p where "p = (\<lambda>(i :: string, g :: access_grant). gr_file_id g = fid \<and> gr_recipient_id g = rc_id rec \<and> gr_revoked_at g = None)"
  show ?thesis
  proof (cases "find p (ps_grants r)")
    case (Some ig)
    obtain i g where ig: "ig = (i, g)" by fastforce
    from find_SomeD [OF Some] ig assms(2) have "map_of (ps_grants r) i = Some g" "gr_revoked_at g = None"
      by (auto simp: p_def in_set_wf_map)
    with False Some ig show ?thesis
      by (intro grants_follow_put [where i = i and g' = "g\<lparr>gr_permission := permission, gr_expires_at := expires, gr_created_at := now\<rparr>"])
        (auto simp: memory_CreateGrant_def p_def [symmetric] Let_def split: option.splits if_splits)
  next
    case None
    with False obtain i where i: "drawn = Inr i"
      by (auto simp: memory_CreateGrant_def p_def [symmetric] split: option.splits if_splits sum.splits)
    with False None assms(1) show ?thesis
      by (intro grants_follow_put [where i = i and g' = "\<lparr>gr_grant_id = i, gr_file_id = fid, gr_owner_id = owner,
          gr_recipient_id = rc_id rec, gr_recipient_name = rc_name rec, gr_recipient_email = rc_email rec,
          gr_permission = permission, gr_expires_at = expires, gr_created_at = now, gr_revoked_at = None\<rparr>"])
        (auto simp: memory_CreateGrant_def p_def [symmetric] Let_def split: option.splits if_splits)
  qed
qed

lemma RevokeGrant_follows: "grants_follow r (fst (memory_RevokeGrant now owner fid gid r))"
proof (cases "fst (memory_RevokeGrant now owner fid gid r) = r")
  case False
  then obtain g where "map_of (ps_grants r) gid = Some g" "gr_revoked_at g = None"
    by (auto simp: memory_RevokeGrant_def split: option.splits if_splits)
  with False show ?thesis
    by (intro grants_follow_put [where i = gid and g' = "g\<lparr>gr_revoked_at := Some now\<rparr>"])
      (auto simp: memory_RevokeGrant_def split: if_splits)
qed (simp add: grants_follow_refl)

lemma Trash_follows: "grants_follow r (fst (memory_MoveToTrash owner fid now p r))"
  by (auto simp: memory_MoveToTrash_def Let_def split: option.split intro: grants_follow_refl grants_follow_file)

lemma Purge_follows: "grants_follow r (fst (memory_Purge owner fid op now r))"
  by (rule memory_Purge_cases [of owner fid op now r]) (auto intro: grants_follow_refl grants_follow_file)

lemma protected_op_grants:
  assumes "protected_op now r r'" "wf_map (ps_grants r)"
  shows "grants_follow r r' \<and> wf_map (ps_grants r')"
proof
  show "grants_follow r r'"
    using assms
    by (cases rule: protected_op.cases)
      (simp_all add: CreateGrant_follows RevokeGrant_follows Trash_follows Purge_follows,
       (rule grants_follow_refl, simp add: lifecycle_op_defs memory_RestoreFromTrash_def memory_SetRetention_def
          memory_SetLegalHold_def Let_def split: option.split sum.split prod.split)+)
  show "wf_map (ps_grants r')"
    using assms
    by (cases rule: protected_op.cases)
      (auto simp: lifecycle_op_defs memory_MoveToTrash_def memory_RestoreFromTrash_def memory_Purge_def memory_SetRetention_def
          memory_SetLegalHold_def revoke_file_grants_def Let_def split: option.split sum.split prod.split)
qed

lemma protected_run_grants:
  "protected_run T r r' \<Longrightarrow> wf_map (ps_grants r) \<Longrightarrow> grants_follow r r' \<and> wf_map (ps_grants r')"
proof (induction rule: protected_run_induct)
  case (step r1 r2 now)
  with protected_op_grants [of now r1 r2] show ?case using grants_follow_trans by blast
qed (simp add: grants_follow_refl)

end
