(* ===== verification/ProtectedProperties.thy ===== *)
theory ProtectedProperties
  imports RewrapProofs ProtectedInvariant
begin

text \<open>
  The properties of the protected-file store, on the in-memory repository and the local keyring: the
  envelope, rewrapping, access, trash, retention and purging. Each rests on a lemma of the component
  theories and has a witness at a concrete store.
\<close>

section \<open>The envelope\<close>

definition no_faults :: faults where
  "no_faults = (\<lambda>s. None)"

text \<open>Surroundings in which nothing fails: no faults, and random draws of the lengths the code asks for.\<close>

definition calm :: "surroundings \<Rightarrow> bool" where
  "calm su \<longleftrightarrow> su_faults su = no_faults
     \<and> (\<exists>a k n n'. su_draws su 0 = Inr a \<and> su_draws su 1 = Inr k \<and> su_draws su 2 = Inr n \<and> su_draws su 3 = Inr n'
        \<and> length k = 32 \<and> length n = 12 \<and> length n' = 12)"

definition valid_request :: "platform \<Rightarrow> protect_request \<Rightarrow> bytes \<Rightarrow> int64 \<Rightarrow> bool" where
  "valid_request P rq b limit \<longleftrightarrow> rq_upload_id rq \<noteq> [] \<and> rq_owner_id rq \<noteq> []
     \<and> rq_plaintext_size rq = int (length b) \<and> b \<noteq> [] \<and> int (length b) \<le> limit
     \<and> is_ascii (rq_plaintext_digest rq) \<and> length (rq_plaintext_digest rq) = 64
     \<and> equal_fold P (hex_encode (p_sha256 P b)) (rq_plaintext_digest rq)"

definition local_memory_store :: "platform \<Rightarrow> local_keyring \<Rightarrow> memory_protected protected_service \<Rightarrow> bool" where
  "local_memory_store P k st \<longleftrightarrow> sv_ops st = memory_protected_ops \<and> sv_keys st = local_keys P k \<and> local_usable P k
     \<and> sv_max_plaintext st < int64_max"

lemma read_limited_short:
  assumes "int (length b) \<le> limit" "limit < int64_max"
  shows "read_limited (add64 limit 1) \<lparr>rr_bytes = b, rr_error = None\<rparr> = Inr b"
proof -
  have "add64 limit 1 = limit + 1"
    unfolding add64_def using assms by (intro wrap64_id) (auto simp: int64_max_def int64_min_def)
  with assms(1) show ?thesis by (simp add: read_limited_def)
qed

lemma Protect_succeeds:
  assumes "local_memory_store P k st" "calm su" "valid_request P rq b (sv_max_plaintext st)"
    and "map_of (ps_entries (sv_repo st)) (rq_upload_id rq) = None"
  shows "\<exists>st' m. Protect P su rq (Some \<lparr>rr_bytes = b, rr_error = None\<rparr>) st = (st', Inr m)"
proof -
  obtain a key n n' where su: "su_faults su = no_faults" "su_draws su 0 = Inr a" "su_draws su 1 = Inr key"
    "su_draws su 2 = Inr n" "su_draws su 3 = Inr n'" "length key = 32" "length n = 12" "length n' = 12"
    using assms(2) by (auto simp: calm_def)
  have st: "sv_ops st = memory_protected_ops" "sv_keys st = local_keys P k" "local_usable P k" "sv_max_plaintext st < int64_max"
    using assms(1) by (auto simp: local_memory_store_def)
  obtain w where w: "kv_wrap (local_keys P k) (Inr n') key = Inr w"
    using local_unwrap_wrap [OF st(3) su(8,6)] by (auto simp: local_keys_def)
  have read: "read_limited (add64 (sv_max_plaintext st) 1) \<lparr>rr_bytes = b, rr_error = None\<rparr> = Inr b"
    using assms(3) st(4) by (intro read_limited_short) (simp_all add: valid_request_def)
  have "\<exists>st' m. seal_and_commit P su rq b st = (st', Inr m)"
    using su st w assms(4)
    by (simp add: seal_and_commit_def store_opaqueID_def valid_aes_key_def Let_def commit_envelope_def no_faults_def
        write_object_def memory_protected_ops_def memory_Create_def new_metadata_def)
  then obtain st' m where "seal_and_commit P su rq b st = (st', Inr m)" by blast
  with assms(3,4) read st show ?thesis
    by (simp add: Protect_def valid_request_def memory_protected_ops_def memory_FindByUpload_def)
qed

text \<open>
  C17: protecting and opening are inverse. When nothing fails, a well-formed request for a new upload is
  accepted, what is then opened under its owner and upload identifier is exactly the bytes that went in,
  and asking again, from whatever source, returns the stored version and changes nothing.
\<close>

theorem protect_open_roundtrip:
  assumes "local_memory_store P k st" "calm su" "valid_request P rq b (sv_max_plaintext st)"
    and "map_of (ps_entries (sv_repo st)) (rq_upload_id rq) = None"
  shows "\<exists>st' m. Protect P su rq (Some \<lparr>rr_bytes = b, rr_error = None\<rparr>) st = (st', Inr m)
    \<and> Open P no_faults (rq_owner_id rq) (rq_upload_id rq) st' = Inr \<lparr>pf_metadata = m, pf_bytes = b\<rparr>
    \<and> (\<forall>su' source. Protect P su' rq source st' = (st', Inr m))"
proof -
  from Protect_succeeds [OF assms] obtain st' m where
    p: "Protect P su rq (Some \<lparr>rr_bytes = b, rr_error = None\<rparr>) st = (st', Inr m)" by blast
  obtain a key n n' where su: "su_draws su 1 = Inr key" "length key = 32" "su_draws su 2 = Inr n" "length n = 12"
    "su_draws su 3 = Inr n'" "length n' = 12" using assms(2) by (auto simp: calm_def)
  have st: "sv_ops st = memory_protected_ops" "sv_keys st = local_keys P k" "local_usable P k" "gcm_correct P"
    "sv_max_plaintext st \<le> int64_max" using assms(1) by (auto simp: local_memory_store_def local_usable_def)
  have ascii: "is_ascii (rq_plaintext_digest rq)" using assms(3) by (simp add: valid_request_def)
  note opened = local_store.protected_opens [OF st assms(4) ascii su p, where io = no_faults]
  then have open': "Open P no_faults (rq_owner_id rq) (rq_upload_id rq) st' = Inr \<lparr>pf_metadata = m, pf_bytes = b\<rparr>"
    and entry: "map_of (ps_entries (sv_repo st')) (rq_upload_id rq) = Some m" by (simp_all add: no_faults_def)
  then have "po_find_by_upload (sv_ops st') (rq_owner_id rq) (rq_upload_id rq) (sv_repo st') = Inr m"
    by (auto simp: Open_def openMetadata_def split: sum.splits option.splits if_splits prod.splits)
  then have "Protect P su' rq source st' = (st', Inr m)" for su' source by (simp add: Protect_def)
  with p open' show ?thesis by blast
qed





section \<open>Rewrapping\<close>

text \<open>
  C20: rotating the wrapped keys changes no file. After \<open>RewrapDEKs\<close>, however it ends, every upload that
  read as some bytes still reads as the same bytes; when it ends without an error its result accounts for
  every candidate, and if all are completed each is now wrapped under the provider's current key.
\<close>

theorem rewrap_preserves_files:
  assumes "RewrapDEKs su limit factory st = (st', w, err)" and "local_memory_store P k st" "entries_keyed (sv_repo st)"
    and "\<forall>i nonce. su_draws su i = Inr nonce \<longrightarrow> length nonce = 12"
    and "memory_ListDEKRewrapCandidates (lk_id k) (lk_version k) limit (sv_repo st) = Inr cs"
  shows "(\<forall>owner upload io f. Open P io owner upload st = Inr f \<longrightarrow> (\<exists>f'. Open P io owner upload st' = Inr f' \<and> pf_bytes f' = pf_bytes f))
    \<and> (err = None \<longrightarrow> rw_requested w = int (length cs) \<and> rw_completed w + rw_skipped w + rw_failed w = rw_requested w
        \<and> (rw_completed w = rw_requested w \<longrightarrow> (\<forall>c \<in> set cs. \<exists>m. map_of (ps_entries (sv_repo st')) (md_upload_id c) = Some m
             \<and> wrappingKeyIdentity m = (lk_id k, lk_version k))))"
proof -
  have st: "sv_ops st = memory_protected_ops" "sv_keys st = local_keys P k" "local_usable P k"
    using assms(2) by (auto simp: local_memory_store_def)
  have cand: "ro_candidates memory_rewrap_ops (kv_id (sv_keys st)) (kv_version (sv_keys st)) limit (sv_repo st) = Inr cs"
    using assms(5) st(2) by (simp add: memory_rewrap_ops_def local_keys_def)
  have keeps: "local_rewrap.keeps_readings P st st' \<and> (err = None \<longrightarrow> rw_requested w = int (length cs)
      \<and> local_rewrap.accounted w = rw_requested w
      \<and> (rw_completed w = rw_requested w \<longrightarrow> (\<forall>c \<in> set cs. local_rewrap.current_entry st' (md_upload_id c))))"
    by (rule local_rewrap.RewrapDEKs_keeps [OF assms(1) st(1) assms(3) st(2,3) assms(4) cand])
  then obtain r' where st': "st' = st\<lparr>sv_repo := r'\<rparr>" by (auto simp: local_rewrap.keeps_readings_def)
  have "\<exists>f'. Open P io owner upload st' = Inr f' \<and> pf_bytes f' = pf_bytes f"
    if f: "Open P io owner upload st = Inr f" for owner upload io f
  proof -
    from f obtain m where m: "map_of (ps_entries (sv_repo st)) upload = Some m" "md_owner_id m = owner" "openMetadata P io m st = Inr f"
      by (auto simp: Open_def st memory_protected_ops_def memory_FindByUpload_def split: option.splits if_splits)
    from m(3) have "pf_metadata f = m"
      by (auto simp: openMetadata_def split: sum.splits option.splits if_splits prod.splits)
    with m have "local_rewrap.reads_as P io st owner upload (pf_bytes f)" by (auto simp: local_rewrap.reads_as_def)
    with keeps have "local_rewrap.reads_as P io st' owner upload (pf_bytes f)" by (auto simp: local_rewrap.keeps_readings_def)
    then show ?thesis
      by (auto simp: local_rewrap.reads_as_def Open_def st' st memory_protected_ops_def memory_FindByUpload_def)
  qed
  with keeps st' st(2) show ?thesis
    by (simp add: local_rewrap.accounted_def local_rewrap.current_entry_def local_keys_def)
qed

section \<open>Access\<close>

definition may_download :: "time \<Rightarrow> string \<Rightarrow> string \<Rightarrow> memory_protected \<Rightarrow> logical_file \<Rightarrow> bool" where
  "may_download now requester f r fl \<longleftrightarrow> map_of (ps_files r) f = Some fl \<and> visible (lifecycle_of r f)
     \<and> (lf_owner_id fl = requester \<or> (\<exists>g \<in> set (mvals (ps_grants r)). gr_file_id g = f \<and> gr_recipient_id g = requester
          \<and> active_grant now g \<and> gr_permission g = PermissionDownload))"

lemma authorized_iff:
  "(\<exists>access. memory_authorized now requester f PermissionDownload r = Some (fl, access)) \<longleftrightarrow> may_download now requester f r fl"
proof -
  define p where "p = (\<lambda>g. gr_file_id g = f \<and> gr_recipient_id g = requester \<and> active_grant now g \<and> gr_permission g = PermissionDownload)"
  have "PermissionDownload \<noteq> PermissionRead" by (simp add: PermissionDownload_def PermissionRead_def)
  then have code: "memory_authorized now requester f PermissionDownload r = (case map_of (ps_files r) f of None \<Rightarrow> None
      | Some x \<Rightarrow> if \<not> visible (lifecycle_of r f) then None else if lf_owner_id x = requester then Some (x, ''owner'')
        else map_option (\<lambda>g. (x, gr_permission g)) (find p (mvals (ps_grants r))))"
  proof -
    assume "PermissionDownload \<noteq> PermissionRead"
    then have "(\<lambda>g. gr_file_id g = f \<and> gr_recipient_id g = requester \<and> active_grant now g
        \<and> (PermissionDownload = PermissionRead \<or> gr_permission g = PermissionDownload)) = p" by (simp add: p_def)
    then show ?thesis by (simp only: memory_authorized_def)
  qed
  have "(find p (mvals (ps_grants r)) \<noteq> None) = (\<exists>g \<in> set (mvals (ps_grants r)). p g)"
    by (simp only: find_None_iff) blast
  then show ?thesis unfolding code may_download_def p_def [symmetric]
    by (cases "map_of (ps_files r) f") auto
qed

text \<open>
  C21: who may download. The current version of a file opens for its owner and for the recipient of an
  unrevoked, unexpired download grant while the file is neither in the trash nor purged, and for nobody
  else; everyone else gets the answer for a file that does not exist.
\<close>

theorem download_access:
  assumes "sv_ops st = memory_protected_ops"
  shows "(\<forall>fl. may_download now requester f (sv_repo st) fl \<longrightarrow>
      OpenCurrentAuthorized P io now requester f st =
        (case entry_of_version (sv_repo st) (lf_current_version_id fl) of None \<Rightarrow> Inl ErrStoreNotFound
         | Some m \<Rightarrow> openMetadata P io m st))
    \<and> ((\<nexists>fl. may_download now requester f (sv_repo st) fl) \<longrightarrow>
      OpenCurrentAuthorized P io now requester f st = Inl ErrStoreNotFound)"
proof -
  have code: "OpenCurrentAuthorized P io now requester f st =
      (case memory_authorized now requester f PermissionDownload (sv_repo st) of None \<Rightarrow> Inl ErrStoreNotFound
       | Some (fl, access) \<Rightarrow> (case entry_of_version (sv_repo st) (lf_current_version_id fl) of None \<Rightarrow> Inl ErrStoreNotFound
           | Some m \<Rightarrow> openMetadata P io m st))"
    by (auto simp: OpenCurrentAuthorized_def assms memory_protected_ops_def memory_access_ops_def
        memory_AuthorizedCurrentMetadata_def split: option.split)
  show ?thesis
  proof (cases "memory_authorized now requester f PermissionDownload (sv_repo st)")
    case None
    with authorized_iff [of now requester f "sv_repo st"] code show ?thesis by fastforce
  next
    case (Some fa)
    obtain fl access where "fa = (fl, access)" by fastforce
    with Some authorized_iff [of now requester f "sv_repo st"] code show ?thesis by fastforce
  qed
qed

lemma Trash_revokes:
  assumes "memory_MoveToTrash owner f now p r = (r', Inr c)" "visible (lifecycle_of r f)"
  shows "ps_grants r' = revoke_file_grants f now (ps_grants r)"
proof (cases "map_of (ps_lifecycle r) f")
  case (Some c0)
  with assms(2) have "lc_deleted_at c0 = None" by (simp add: mget_def visible_def)
  with Some assms(1) show ?thesis by (auto simp: memory_MoveToTrash_def Let_def split: if_splits)
qed (use assms(1) in \<open>simp add: memory_MoveToTrash_def\<close>)

text \<open>
  C22: the trash revokes access for good. Once a file has been moved to the trash, after any later
  operations, among them taking it out again, anyone but the owner who may download it holds a grant that
  was made after the file went to the trash.
\<close>

theorem trash_revokes_access:
  assumes "MoveToTrashAudited clock owner f no_intent st = (st1, durable, Inr c1)" "sv_ops st = memory_protected_ops"
    and "visible (lifecycle_of (sv_repo st) f)" "wf_map (ps_grants (sv_repo st))"
    and "protected_run T (sv_repo st1) r2" "may_download now requester f r2 fl" "requester \<noteq> lf_owner_id fl"
  shows "\<exists>i g. map_of (ps_grants r2) i = Some g \<and> gr_file_id g = f \<and> gr_recipient_id g = requester \<and> active_grant now g
    \<and> map_of (ps_grants (sv_repo st)) i = None"
proof -
  from assms(6,7) obtain g where g: "g \<in> set (mvals (ps_grants r2))" "gr_file_id g = f" "gr_recipient_id g = requester" "active_grant now g"
    by (auto simp: may_download_def)
  have moved: "memory_MoveToTrash owner f (truncate_us clock) (truncate_us clock + DefaultDeletionGracePeriod) (sv_repo st)
      = (sv_repo st1, Inr c1)"
    using assms(1,2) by (auto simp: MoveToTrashAudited_def audited_or_def Let_def memory_protected_ops_def
        memory_lifecycle_ops_def split: prod.splits)
  have grants: "ps_grants (sv_repo st1) = revoke_file_grants f (truncate_us clock) (ps_grants (sv_repo st))"
    by (rule Trash_revokes [OF moved assms(3)])
  have wf1: "wf_map (ps_grants (sv_repo st1))" using assms(4) by (simp add: grants revoke_file_grants_def)
  from protected_run_grants [OF assms(5) wf1] have follow: "grants_follow (sv_repo st1) r2" "wf_map (ps_grants r2)" by auto
  from g(1) follow(2) obtain i where i: "map_of (ps_grants r2) i = Some g" by (auto simp: mvals_in_set)
  have "map_of (ps_grants (sv_repo st)) i = None"
  proof (rule ccontr)
    assume "\<not> ?thesis"
    then obtain g0 where g0: "map_of (ps_grants (sv_repo st)) i = Some g0" by blast
    define g1 where "g1 = (if gr_file_id g0 = f \<and> gr_revoked_at g0 = None then g0\<lparr>gr_revoked_at := Some (truncate_us clock)\<rparr> else g0)"
    have "map_of (ps_grants (sv_repo st1)) i = Some g1" by (simp add: grants revoke_file_grants_def g0 g1_def)
    with follow(1) obtain g' where "map_of (ps_grants r2) i = Some g'" "gr_file_id g' = gr_file_id g1"
      "gr_revoked_at g1 \<noteq> None \<longrightarrow> gr_revoked_at g' \<noteq> None" unfolding grants_follow_def by blast
    with i g(2) have "gr_file_id g1 = f" "gr_revoked_at g1 \<noteq> None \<longrightarrow> gr_revoked_at g \<noteq> None" by auto
    then have "gr_revoked_at g \<noteq> None" by (auto simp: g1_def split: if_splits)
    with g(4) show False by (simp add: active_grant_def)
  qed
  with g i show ?thesis by blast
qed

section \<open>Lifecycle\<close>

text \<open>
  C23: the repository refines the lifecycle machine. Over any run of operations, whatever else happens in
  the repository, the lifecycle of each file moves along the steps of the abstract machine only.
\<close>

theorem lifecycle_refines_machine:
  assumes "protected_run T r r'" "map_of (ps_lifecycle r) f = Some c"
  shows "\<exists>c'. map_of (ps_lifecycle r') f = Some c' \<and> (\<lambda>c c'. \<exists>now \<in> T. lifecycle_step now c c')\<^sup>*\<^sup>* c c'"
  using assms
proof (induction rule: protected_run_induct)
  case (step r1 r2 now)
  then obtain c1 where c1: "map_of (ps_lifecycle r1) f = Some c1" "(\<lambda>c c'. \<exists>now \<in> T. lifecycle_step now c c')\<^sup>*\<^sup>* c c1" by blast
  from protected_op_lifecycle [OF step(3) c1(1)] obtain c2 where c2: "map_of (ps_lifecycle r2) f = Some c2" "lifecycle_step now c1 c2" by blast
  from c1(2) c2(2) step(2) have "(\<lambda>c c'. \<exists>now \<in> T. lifecycle_step now c c')\<^sup>*\<^sup>* c c2"
    by (intro rtranclp.rtrancl_into_rtrancl [OF c1(2)]) blast
  with c2(1) show ?case by blast
qed blast




lemma PurgeAudited_code:
  assumes "sv_ops st = memory_protected_ops" "PurgeOperationIDs P owner f key = Inr (op, audit)"
    and "memory_Purge owner f op (truncate_us clock) (sv_repo st) = (r', res)"
  shows "PurgeAudited P io clock owner f key i st = (case res of Inl e \<Rightarrow> (st\<lparr>sv_repo := r'\<rparr>, False, Inl e)
      | Inr result \<Rightarrow> (st\<lparr>sv_repo := r', sv_root := fold (\<lambda>name root. if io (RemoveObject name) = None then mdelete name root else root)
          (pu_blob_objects result) (sv_root st)\<rparr>, False, Inr result))"
proof -
  have "audited_or i2 g (\<lambda>lo. lo_purge lo owner f op (truncate_us clock)) st = (st\<lparr>sv_repo := r'\<rparr>, False, res)" for i2 g
    using assms(1,3) by (simp add: audited_or_def memory_protected_ops_def memory_lifecycle_ops_def)
  with assms(2) show ?thesis by (cases res) (simp_all add: PurgeAudited_def Let_def)
qed




text \<open>
  C26: version histories. After any run of operations from an empty repository, the owner of a file sees
  versions numbered from the last down to 1, all distinct, exactly the newest marked current, and the
  current version of the file among them.
\<close>

theorem version_histories:
  assumes "protected_run T NewMemoryProtected r" "memory_Details owner f r = Inr d"
  shows "fd_versions d \<noteq> [] \<and> map fv_number (fd_versions d) = rev (map int [1..<length (fd_versions d) + 1])
    \<and> filter fv_current (fd_versions d) = [hd (fd_versions d)] \<and> distinct (map fv_version_id (fd_versions d))
    \<and> lf_current_version_id (fd_file d) \<in> fv_version_id ` set (fd_versions d)"
proof -
  have inv: "catalog_invar r" by (rule protected_run_invar [OF assms(1) catalog_invar_new])
  from assms(2) obtain fl where fl: "map_of (ps_files r) f = Some fl" "fd_file d = fl" "fd_versions d = versions_of r f"
    by (auto simp: memory_Details_def split: option.splits if_splits)
  with inv obtain c where "map_of (ps_lifecycle r) f = Some c" by (auto simp: catalog_invar_def)
  from catalog_invarD [OF inv this] fl(1) have wn: "well_numbered f (versions_of r f)"
    and cur: "lf_current_version_id fl \<in> version_ids r f" by (auto simp: good_file_def file_agrees_def)
  have "filter fv_current vs = [hd vs]" if "well_numbered f vs" for vs
    using that by (cases vs) (auto simp: well_numbered_def filter_empty_conv)
  with wn cur show ?thesis unfolding fl(2,3) by (simp add: well_numbered_def version_ids_def)
qed


section \<open>The purge worker\<close>

lemma memory_Purge_others:
  "g \<noteq> f \<Longrightarrow> map_of (ps_lifecycle (fst (memory_Purge owner f op now r))) g = map_of (ps_lifecycle r) g"
  by (rule memory_Purge_cases [of owner f op now r]) auto

lemma memory_Purge_no_panic: "snd (memory_Purge owner f op now r) \<noteq> Inl StorePanic"
  by (auto simp: memory_Purge_def Let_def split: option.split)

lemma PurgeAudited_step:
  assumes "sv_ops st = memory_protected_ops" "PurgeAudited P io clock owner f key i st = (st1, durable, res)"
  shows "sv_ops st1 = memory_protected_ops \<and> res \<noteq> Inl StorePanic
    \<and> (\<forall>g. g \<noteq> f \<longrightarrow> map_of (ps_lifecycle (sv_repo st1)) g = map_of (ps_lifecycle (sv_repo st)) g)"
proof (cases "PurgeOperationIDs P owner f key")
  case (Inl e)
  moreover from Inl have "e \<noteq> StorePanic" by (auto simp: PurgeOperationIDs_def Let_def split: if_splits)
  ultimately show ?thesis using assms by (auto simp: PurgeAudited_def)
next
  case (Inr ids)
  obtain op audit where ids: "ids = (op, audit)" by fastforce
  obtain r' res' where purge: "memory_Purge owner f op (truncate_us clock) (sv_repo st) = (r', res')" by fastforce
  from assms(2) PurgeAudited_code [OF assms(1) Inr [unfolded ids] purge]
  have "sv_repo st1 = r'" "sv_ops st1 = sv_ops st" "res = Inl StorePanic \<longrightarrow> res' = Inl StorePanic"
    by (cases res'; auto)+
  with assms(1) purge memory_Purge_no_panic [of owner f op "truncate_us clock" "sv_repo st"]
    memory_Purge_others [of _ f owner op "truncate_us clock" "sv_repo st"]
  show ?thesis by auto
qed

lemma purge_one_step:
  assumes "sv_ops st = memory_protected_ops" "lc_purge_after c = Some t"
  shows "\<exists>st' w'. purge_one P io now actorType actorID correlationID draw clock c (st, w) = (st', Inr w')
    \<and> sv_ops st' = memory_protected_ops \<and> wr_examined w' = wr_examined w
    \<and> wr_completed w' + wr_failed w' = wr_completed w + wr_failed w + 1
    \<and> (\<forall>g. g \<noteq> lf_file_id (lc_file c) \<longrightarrow> map_of (ps_lifecycle (sv_repo st')) g = map_of (ps_lifecycle (sv_repo st)) g)"
proof (cases "store_opaqueID ''evt'' draw")
  case (Inl e)
  with assms show ?thesis by (simp add: purge_one_def Let_def)
next
  case (Inr eventID)
  obtain st1 durable res where pa: "PurgeAudited P io clock (lf_owner_id (lc_file c)) (lf_file_id (lc_file c))
      (scheduled_key P (lf_file_id (lc_file c)) t)
      (scheduled_intent eventID now actorType actorID correlationID (lf_file_id (lc_file c))) st = (st1, durable, res)"
    by (metis prod_cases3)
  note step = PurgeAudited_step [OF assms(1) pa]
  show ?thesis
  proof (cases res)
    case (Inr result)
    with assms(2) \<open>store_opaqueID _ _ = Inr eventID\<close> pa step show ?thesis by (simp add: purge_one_def Let_def)
  next
    case (Inl e)
    with step have "e \<noteq> StorePanic" "po_audited_lifecycle (sv_ops st1) = None" "po_lifecycle (sv_ops st1) = Some memory_lifecycle_ops"
      by (auto simp: memory_protected_ops_def)
    with Inl assms(2) \<open>store_opaqueID _ _ = Inr eventID\<close> pa step show ?thesis
      by (simp add: purge_one_def Let_def memory_lifecycle_ops_def memory_RecordDeletionFailure_def)
  qed
qed

lemma purge_all_step:
  assumes "sv_ops st = memory_protected_ops" "\<forall>c \<in> set cs. lc_purge_after c \<noteq> None"
  shows "\<exists>st' w'. purge_all P io now actorType actorID correlationID n rnd clk cs (st, w) = (st', Inr w')
    \<and> wr_examined w' = wr_examined w \<and> wr_completed w' + wr_failed w' = wr_completed w + wr_failed w + int (length cs)
    \<and> (\<forall>g. g \<notin> (lf_file_id \<circ> lc_file) ` set cs \<longrightarrow> map_of (ps_lifecycle (sv_repo st')) g = map_of (ps_lifecycle (sv_repo st)) g)"
  using assms
proof (induction cs arbitrary: n st w)
  case (Cons c cs)
  from Cons.prems(2) obtain t where "lc_purge_after c = Some t" by auto
  from purge_one_step [OF Cons.prems(1) this] obtain st1 w1 where
    one: "purge_one P io now actorType actorID correlationID (rnd n) (clk (Suc n)) c (st, w) = (st1, Inr w1)"
    "sv_ops st1 = memory_protected_ops" "wr_examined w1 = wr_examined w"
    "wr_completed w1 + wr_failed w1 = wr_completed w + wr_failed w + 1"
    "\<forall>g. g \<noteq> lf_file_id (lc_file c) \<longrightarrow> map_of (ps_lifecycle (sv_repo st1)) g = map_of (ps_lifecycle (sv_repo st)) g" by blast
  have rest: "\<forall>c \<in> set cs. lc_purge_after c \<noteq> None" using Cons.prems(2) by simp
  from Cons.IH [OF one(2) rest, of "Suc n" w1] one show ?case by auto
qed simp

text \<open>
  C28: the worker deletes what is due and nothing else. It always returns, its result accounts for every file
  it examined, it examines no more files than its limit, and a file that is purged when it returns was due
  when it started: in the trash past its grace period, with no hold and no retention.
\<close>

theorem worker_purges_only_due:
  assumes "sv_ops st = memory_protected_ops" "catalog_invar (sv_repo st)" "wf_map (ps_lifecycle (sv_repo st))"
  shows "\<exists>st' w. ProcessDuePurgesAudited P su limit actorType actorID correlationID st = (st', Inr w)
    \<and> wr_completed w + wr_failed w = wr_examined w \<and> (limit > 0 \<longrightarrow> wr_examined w \<le> limit)
    \<and> (\<forall>f c c'. map_of (ps_lifecycle (sv_repo st)) f = Some c \<and> lc_purged_at c = None
         \<and> map_of (ps_lifecycle (sv_repo st')) f = Some c' \<and> lc_purged_at c' \<noteq> None
         \<longrightarrow> purge_eligible (truncate_us (su_clock su 0)) c)"
proof -
  define now where "now = truncate_us (su_clock su 0)"
  define cs where "cs = limited limit (sort_key (\<lambda>c. case lc_purge_after c of None \<Rightarrow> 0 | Some t \<Rightarrow> t)
       (filter (purge_eligible now) (mvals (ps_lifecycle (sv_repo st)))))"
  have sub: "c \<in> set (mvals (ps_lifecycle (sv_repo st))) \<and> purge_eligible now c" if "c \<in> set cs" for c
    using that by (auto simp: cs_def limited_def split: if_splits dest: in_set_takeD)
  then have "\<forall>c \<in> set cs. lc_purge_after c \<noteq> None" by (fastforce simp: purge_eligible_def split: option.splits)
  from purge_all_step [OF assms(1) this, of P "su_faults su" now actorType actorID correlationID 0 "su_draws su" "su_clock su"
      "\<lparr>wr_examined = int (length cs), wr_completed = 0, wr_failed = 0\<rparr>"]
  obtain st' w where run: "purge_all P (su_faults su) now actorType actorID correlationID 0 (su_draws su) (su_clock su) cs
      (st, \<lparr>wr_examined = int (length cs), wr_completed = 0, wr_failed = 0\<rparr>) = (st', Inr w)"
    and w: "wr_examined w = int (length cs)" "wr_completed w + wr_failed w = int (length cs)"
    and frame: "\<forall>g. g \<notin> (lf_file_id \<circ> lc_file) ` set cs \<longrightarrow> map_of (ps_lifecycle (sv_repo st')) g = map_of (ps_lifecycle (sv_repo st)) g"
    by auto
  have code: "ProcessDuePurgesAudited P su limit actorType actorID correlationID st = (st', Inr w)"
    using run assms(1) by (simp add: ProcessDuePurgesAudited_def memory_protected_ops_def memory_lifecycle_ops_def
        memory_EligibleForPurge_def Let_def now_def cs_def)
  have "purge_eligible now c" if f: "map_of (ps_lifecycle (sv_repo st)) f = Some c" "lc_purged_at c = None"
    "map_of (ps_lifecycle (sv_repo st')) f = Some c'" "lc_purged_at c' \<noteq> None" for f c c'
  proof -
    from frame f have "f \<in> (lf_file_id \<circ> lc_file) ` set cs" by fastforce
    then obtain c0 where c0: "c0 \<in> set cs" "lf_file_id (lc_file c0) = f" by auto
    from sub [OF c0(1)] assms(3) obtain g where g: "map_of (ps_lifecycle (sv_repo st)) g = Some c0" by (auto simp: mvals_in_set)
    from catalog_invarD [OF assms(2) g] c0(2) have "g = f" by (simp add: good_file_def file_agrees_def)
    with g f(1) sub [OF c0(1)] show ?thesis by simp
  qed
  moreover have "limit > 0 \<Longrightarrow> int (length cs) \<le> limit" by (simp add: cs_def limited_def)
  ultimately show ?thesis using code w unfolding now_def by auto
qed

section \<open>Restoring a version\<close>

lemma Protect_new:
  assumes "Protect P su rq source st = (st', Inr m)" "sv_ops st = memory_protected_ops" "sv_max_plaintext st \<le> int64_max"
    and "map_of (ps_entries (sv_repo st)) (rq_upload_id rq) = None"
  shows "store_opaqueID ''ver'' (su_draws su 0) = Inr (md_version_id m)" "md_upload_id m = rq_upload_id rq"
    "md_created_at m = truncate_us (su_clock su 0)"
    "sv_repo st' = (sv_repo st)\<lparr>ps_entries := mput (rq_upload_id rq) m (ps_entries (sv_repo st))\<rparr>"
    "sv_ops st' = sv_ops st" "sv_keys st' = sv_keys st"
proof -
  have none: "po_find_by_upload (sv_ops st) owner (rq_upload_id rq) (sv_repo st) = Inl ErrStoreNotFound" for owner
    using assms(2,4) by (simp add: memory_protected_ops_def memory_FindByUpload_def)
  obtain b where seal: "seal_and_commit P su rq b st = (st', Inr m)"
    by (rule Protect_cases [OF assms(1,3)]) (use none in auto)
  from seal_and_commit_ok [OF seal] obtain versionID dek nonce wrapped m0 where v: "store_opaqueID ''ver'' (su_draws su 0) = Inr versionID"
    and m0: "m0 = (new_metadata versionID (su_clock su 0) P rq (sv_keys st))\<lparr>md_nonce := nonce, md_wrapped_dek := wrapped\<rparr>"
    and c: "commit_envelope P su m0 (p_gcm_seal P dek nonce b (canonicalAAD P m0)) st = (st', Inr m)" .
  have up: "md_upload_id m0 = rq_upload_id rq" by (simp add: m0 new_metadata_def)
  from commit_envelope_ok [OF c] obtain r' reused stored where cr: "po_create (sv_ops st) m0 (sv_repo st) = (r', Inr (stored, reused))"
    and new: "\<not> reused \<longrightarrow> m = m0 \<and> st' = st\<lparr>sv_repo := r', sv_root := mput (md_blob_object m0)
       \<lparr>so_kind = RegularFile, so_bytes = p_gcm_seal P dek nonce b (canonicalAAD P m0), so_modified = su_modified su\<rparr> (sv_root st)\<rparr>" .
  from cr assms(2,4) up have "\<not> reused" "r' = (sv_repo st)\<lparr>ps_entries := mput (rq_upload_id rq) m0 (ps_entries (sv_repo st))\<rparr>"
    by (auto simp: memory_protected_ops_def memory_Create_def)
  with new v up show "store_opaqueID ''ver'' (su_draws su 0) = Inr (md_version_id m)" "md_upload_id m = rq_upload_id rq"
    "md_created_at m = truncate_us (su_clock su 0)"
    "sv_repo st' = (sv_repo st)\<lparr>ps_entries := mput (rq_upload_id rq) m (ps_entries (sv_repo st))\<rparr>"
    "sv_ops st' = sv_ops st" "sv_keys st' = sv_keys st"
    by (simp_all add: m0 new_metadata_def)
qed

lemma find_append_fresh: "(\<forall>x \<in> set xs. \<not> p x) \<Longrightarrow> p y \<Longrightarrow> find p (xs @ [y]) = Some y"
  by (induction xs) auto

lemma openMetadata_valid:
  assumes "openMetadata P io m st = Inr fl"
  shows "pf_metadata fl = m" "0 < md_plaintext_size m" "md_plaintext_size m \<le> sv_max_plaintext st"
    "length (md_plaintext_digest m) = 64" "int (length (pf_bytes fl)) = md_plaintext_size m"
    "equal_fold P (hex_encode (p_sha256 P (pf_bytes fl))) (md_plaintext_digest m)"
proof -
  from assms have ok: "validateMetadata m (sv_max_plaintext st) = Inr ()" by (auto simp: openMetadata_def split: sum.splits)
  then show "0 < md_plaintext_size m" "md_plaintext_size m \<le> sv_max_plaintext st" "length (md_plaintext_digest m) = 64"
    by (auto simp: validateMetadata_def split: if_splits)
  from assms ok show "pf_metadata fl = m" "int (length (pf_bytes fl)) = md_plaintext_size m"
    "equal_fold P (hex_encode (p_sha256 P (pf_bytes fl))) (md_plaintext_digest m)"
    by (auto simp: openMetadata_def split: sum.splits option.splits if_splits prod.splits)
qed

definition restore_key_ok :: "string \<Rightarrow> bool" where
  "restore_key_ok key \<longleftrightarrow> 8 \<le> length (trim_space key) \<and> length (trim_space key) \<le> 128"

text \<open>
  C29: restoring a version makes a new version with the same content. When nothing fails and the drawn
  identifier is new, restoring a version that opens succeeds, and what then opens as the file's current
  version is, byte for byte, the content of the restored one.
\<close>

theorem restore_reproduces_source:
  assumes "local_memory_store P k st" "calm su" "owner \<noteq> []" "restore_key_ok key"
    and "memory_FindVersion owner f src (sv_repo st) = Inr m0" "openMetadata P no_faults m0 st = Inr source"
    and "is_ascii (md_plaintext_digest m0)"
    and "map_of (ps_entries (sv_repo st)) (restore_operation P owner f src (trim_space key)) = None"
    and "\<forall>v \<in> set (versions_of (sv_repo st) f). fv_operation_id v \<noteq> restore_operation P owner f src (trim_space key)"
    and "\<forall>m \<in> set (mvals (ps_entries (sv_repo st))). store_opaqueID ''ver'' (su_draws su 0) \<noteq> Inr (md_version_id m)"
  shows "\<exists>st' v fl. RestoreAudited P su owner f src key no_intent st = (st', False, Inr v)
    \<and> fv_source_version_id v = src \<and> fv_current v \<and> versions_of (sv_repo st') f \<noteq> [] \<and> hd (versions_of (sv_repo st') f) = v
    \<and> OpenCurrent P no_faults owner f st' = Inr fl \<and> pf_bytes fl = pf_bytes source"
proof -
  define op where "op = restore_operation P owner f src (trim_space key)"
  define rq where "rq = \<lparr>rq_upload_id = op, rq_owner_id = owner, rq_plaintext_digest = md_plaintext_digest m0,
    rq_media_type = md_media_type m0, rq_inspection_record_id = md_inspection_record_id m0, rq_plaintext_size = md_plaintext_size m0\<rparr>"
  have st: "sv_ops st = memory_protected_ops" "sv_keys st = local_keys P k" "local_usable P k" "gcm_correct P" "sv_max_plaintext st \<le> int64_max"
    using assms(1) by (auto simp: local_memory_store_def local_usable_def)
  note src = openMetadata_valid [OF assms(6)]
  have bytes: "pf_bytes source \<noteq> []" using src(2,5) by auto
  have rqs: "rq_upload_id rq = op" "rq_owner_id rq = owner" by (simp_all add: rq_def)
  have valid: "valid_request P rq (pf_bytes source) (sv_max_plaintext st)"
    using src assms(3,7) bytes by (simp add: valid_request_def rq_def op_def restore_operation_def)
  have fresh: "map_of (ps_entries (sv_repo st)) (rq_upload_id rq) = None" using assms(8) by (simp add: rqs op_def)
  obtain st1 m where prot: "Protect P su rq (Some \<lparr>rr_bytes = pf_bytes source, rr_error = None\<rparr>) st = (st1, Inr m)"
    using Protect_succeeds [OF assms(1,2) valid fresh] by blast
  note new = Protect_new [OF prot st(1,5) fresh]
  obtain a dek n n' where su: "su_draws su 1 = Inr dek" "length dek = 32" "su_draws su 2 = Inr n" "length n = 12"
    "su_draws su 3 = Inr n'" "length n' = 12" "su_faults su = no_faults" using assms(2) by (auto simp: calm_def)
  have ascii: "is_ascii (rq_plaintext_digest rq)" using assms(7) by (simp add: rq_def)
  have opened: "openMetadata P no_faults m st1 = Inr \<lparr>pf_metadata = m, pf_bytes = pf_bytes source\<rparr>"
    using local_store.protected_opens [OF st fresh ascii su(1-6) prot, of no_faults] by (simp add: no_faults_def)
  from assms(5) obtain fl where fl: "map_of (ps_files (sv_repo st)) f = Some fl" "lf_owner_id fl = owner"
    "visible (lifecycle_of (sv_repo st) f)" "list_ex (\<lambda>v. fv_version_id v = src) (versions_of (sv_repo st) f)"
    by (auto simp: memory_FindVersion_def split: option.splits if_splits)
  have nof: "find (\<lambda>v. fv_operation_id v = md_upload_id m) (versions_of (sv_repo st) f) = None"
    using assms(9) by (simp add: find_None_iff new(2) rqs op_def)
  obtain r2 v where commit: "memory_CommitRestore owner f src m (sv_repo st1) = (r2, Inr v)"
    and v: "fv_source_version_id v = src" "fv_current v" "fv_version_id v = md_version_id m"
    and r2: "versions_of r2 f = v # map (fv_current_update (\<lambda>_. False)) (versions_of (sv_repo st) f)"
      "map_of (ps_files r2) f = Some (fl\<lparr>lf_current_version_id := md_version_id m, lf_updated_at := md_created_at m\<rparr>)"
      "ps_entries r2 = ps_entries (sv_repo st1)" "ps_lifecycle r2 = ps_lifecycle (sv_repo st)"
    using fl nof by (simp add: memory_CommitRestore_def new(4) Let_def mget_def)
  have restore: "RestoreAudited P su owner f src key no_intent st = (st1\<lparr>sv_repo := r2\<rparr>, False, Inr v)"
    using assms(4-6) st(1) prot commit new(5) su(7)
    by (simp add: RestoreAudited_def memory_protected_ops_def memory_catalog_ops_def restore_key_ok_def Let_def
        rq_def [symmetric] op_def [symmetric])
  have "entry_of_version r2 (md_version_id m) = Some m"
  proof -
    have "find (\<lambda>x. md_version_id x = md_version_id m) (mvals (ps_entries (sv_repo st)) @ [m]) = Some m"
      using assms(10) new(1) by (intro find_append_fresh) auto
    then show ?thesis using fresh by (simp add: entry_of_version_def r2(3) new(4) rqs mput_fresh mvals_def)
  qed
  then have "OpenCurrent P no_faults owner f (st1\<lparr>sv_repo := r2\<rparr>) = openMetadata P no_faults m st1"
    using fl(2,3) r2 v(3) st(1) new(5)
    by (simp add: OpenCurrent_def Details_def memory_protected_ops_def memory_catalog_ops_def memory_Details_def memory_FindVersion_def)
  with restore v r2(1) opened show ?thesis by auto
qed

section \<open>Custody of keys\<close>

text \<open>
  Rotation keeps old files readable. What a keyring wrapped, any later keyring of the same custody that
  still holds its keys unwraps under the recorded identity and version; under another identity it does not.
\<close>

theorem rotated_keyring_unwraps:
  assumes "NewLocalKeyringProvider keys i v = Inr k" "NewLocalKeyringProvider keys' i v' = Inr k'"
    and "map_of keys \<subseteq>\<^sub>m map_of keys'" "gcm_correct P" "gcm_grows P" "length nonce = 12" "length dek = 32"
  shows "\<exists>w. kv_wrap (local_keys P k) (Inr nonce) dek = Inr w \<and> kv_unwrap (local_keys P k') w i v = Inr dek
    \<and> (\<forall>i'. i' \<noteq> i \<longrightarrow> kv_unwrap (local_keys P k') w i' v = Inl ErrIntegrity)"
proof -
  from assms(1,2) have k: "k = \<lparr>lk_keys = keys, lk_id = i, lk_version = v\<rparr>" "k' = \<lparr>lk_keys = keys', lk_id = i, lk_version = v'\<rparr>"
    and usable: "local_usable P k" using assms(4,5)
    by (auto simp: NewLocalKeyringProvider_def local_usable_def split: if_splits)
  from lk.wrap_unwrap [OF usable assms(6,7)] obtain w where w: "kv_wrap (local_keys P k) (Inr nonce) dek = Inr w"
    "kv_unwrap (local_keys P k) w i v = Inr dek" by (auto simp: local_keys_def k)
  have "local_rotates_to k k'" using assms(3) by (simp add: local_rotates_to_def k)
  from lk.old_keys_unwrap [OF this w(2)] w(1) show ?thesis
    by (auto simp: local_keys_def local_Unwrap_def k)
qed

end
