(* ===== verification/IngestDelivery.thy ===== *)
theory IngestDelivery
  imports IngestReception ProtectedProperties
begin

text \<open>
  From the network to the protected store: what the manager received is what the store gives back. The
  upload manager runs here on the protected store with the local keyring and the memory repository, in
  surroundings where nothing fails.
\<close>

section \<open>Nothing fails\<close>

definition calm_ingest :: "ingest_env \<Rightarrow> bool" where
  "calm_ingest env \<longleftrightarrow> ie_faults env = (\<lambda>_. None) \<and> calm (ie_surroundings env)
     \<and> (\<forall>prepare event. ie_prepare env = Some prepare \<longrightarrow> (\<exists>i. prepare event = Inr i))
     \<and> (\<exists>d. ie_file_draw env = Inr d)"

lemma persist_calm:
  assumes "calm_ingest env" "mg_ops m = memory_ingest_ops" "map_of (mr_records (mg_repo m)) (record_id e) \<noteq> None"
  shows "\<exists>dl. persistLifecycle env e event m
    = (m\<lparr>mg_repo := (mg_repo m)\<lparr>mr_records := mput (record_id e) e (mr_records (mg_repo m))\<rparr>, mg_delivered := dl\<rparr>, Inr ())"
proof -
  obtain m' res where p: "persistLifecycle env e event m = (m', res)" by fastforce
  have "\<nexists>err. res = Inl err"
  proof (cases "ie_prepare env")
    case (Some prepare)
    moreover obtain i where "prepare event = Inr i" using assms(1) Some by (auto simp: calm_ingest_def)
    ultimately show ?thesis using p assms by (auto simp: persistLifecycle_def on_repo_def ingest_Update_def Let_def split: if_splits)
  qed (use p assms in \<open>auto simp: persistLifecycle_def on_repo_def ingest_Update_def split: if_splits\<close>)
  with persist_memory [OF p assms(2)] p show ?thesis by auto
qed

text \<open>A manager in the middle of an inspection: its entry and row, its object, its protected store.\<close>

definition under_inspection ::
    "string \<Rightarrow> persisted_record \<Rightarrow> bytes \<Rightarrow> memory_protected protected_service \<Rightarrow> (memory_ingest, memory_protected) manager \<Rightarrow> bool" where
  "under_inspection i e b st m \<longleftrightarrow> mg_ops m = memory_ingest_ops \<and> map_of (mg_uploads m) i = Some e
     \<and> map_of (mr_records (mg_repo m)) i \<noteq> None \<and> record_id e = i \<and> pr_object e = i @ ''.upload''
     \<and> (\<exists>ob. map_of (mg_quarantine m) (i @ ''.upload'') = Some ob \<and> so_kind ob = RegularFile \<and> so_bytes ob = b) \<and> mg_store m = Some st"

lemma under_track:
  assumes "under_inspection i e b st m" "record_id (change e) = i" "pr_object (change e) = i @ ''.upload''"
  shows "\<exists>m'. track i change next' m = (m', next' (change e)) \<and> under_inspection i (change e) b st m'"
  using assms by (auto simp: under_inspection_def track_def)

lemma under_persist:
  assumes "under_inspection i e b st m" "calm_ingest env" "record_id t = i"
  shows "\<exists>m'. persist_or_fail env t event next' m = (m', next') \<and> under_inspection i e b st m'"
proof -
  have "mg_ops m = memory_ingest_ops" "map_of (mr_records (mg_repo m)) (record_id t) \<noteq> None"
    using assms(1,3) by (simp_all add: under_inspection_def)
  from persist_calm [OF assms(2) this, of event] obtain dl where
    "persistLifecycle env t event m = (m\<lparr>mg_repo := (mg_repo m)\<lparr>mr_records := mput (record_id t) t (mr_records (mg_repo m))\<rparr>, mg_delivered := dl\<rparr>, Inr ())"
    by blast
  with assms(1,3) show ?thesis by (auto simp: persist_or_fail_def under_inspection_def)
qed

text \<open>The steps up to encryption.\<close>

lemma run_step: "job_step P env j m = (m', j') \<Longrightarrow> j \<noteq> Finished \<Longrightarrow> run_job P env j m = run_job P env j' m'"
  by (subst run_job.simps) simp

definition content_same :: "persisted_record \<Rightarrow> persisted_record \<Rightarrow> bool" where
  "content_same e f \<longleftrightarrow> record_id f = record_id e \<and> pr_object f = pr_object e \<and> pr_owner_id f = pr_owner_id e \<and> pr_digest f = pr_digest e
     \<and> record_bytes f = record_bytes e \<and> up_name (pr_upload f) = up_name (pr_upload e) \<and> up_detected (pr_upload f) = up_detected (pr_upload e)"

lemma content_same_simps [simp]: "content_same e e" "content_same e (set_progress s p f) = content_same e f"
  "content_same e (set_outcome s p reason f) = content_same e f"
  by (simp_all add: content_same_def set_progress_def set_outcome_def)

lemma inspection_accepts:
  assumes u: "under_inspection i e b st m" and calm: "calm_ingest env" and scan: "\<And>ev. \<exists>r. ie_scan env ev = Inr r \<and> sc_accepted r"
  shows "\<exists>m' f. run_job P env (InspectBegin i) m = run_job P env (Protecting f) m' \<and> under_inspection i f b st m' \<and> content_same e f"
proof -
  define e1 where "e1 = set_progress StatusInspecting 60 e"
  define e2 where "e2 = set_outcome StatusAccepted 75 ''policy_accepted'' e1"
  define e3 where "e3 = set_outcome StatusEncrypting 85 ''protection_in_progress'' e2"
  have ids: "record_id e1 = i" "record_id e2 = i" "record_id e3 = i" "pr_object e1 = i @ ''.upload''" "pr_object e2 = i @ ''.upload''" "pr_object e3 = i @ ''.upload''"
    using u by (simp_all add: e1_def e2_def e3_def set_progress_def set_outcome_def under_inspection_def)
  have st2: "record_status e2 = StatusAccepted" "e1\<lparr>pr_upload := pr_upload e2\<rparr> = e2" by (simp_all add: e2_def set_outcome_def)
  obtain m1 where m1: "job_step P env (InspectBegin i) m = (m1, InspectStarted e1)" "under_inspection i e1 b st m1"
    using under_track [OF u, of "set_progress StatusInspecting 60" InspectStarted] ids by (auto simp: inspect_begin_def e1_def)
  obtain m2 where m2: "job_step P env (InspectStarted e1) m1 = (m2, Scanning i (evidence_of e1))" "under_inspection i e1 b st m2"
    using under_persist [OF m1(2) calm ids(1)] ids by (auto simp: inspect_started_def)
  obtain r where r: "ie_scan env (evidence_of e1) = Inr r" "sc_accepted r" using scan by blast
  have m3: "job_step P env (Scanning i (evidence_of e1)) m2 = (m2, Deciding i (Inr r))" using r by simp
  have m4: "job_step P env (Deciding i (Inr r)) m2 = (m2, InspectCompleted e2)"
    using m2(2) r(2) by (auto simp: inspect_decide_def under_inspection_def verdict_def e2_def)
  obtain m5 where m5: "job_step P env (InspectCompleted e2) m2 = (m5, Publishing e2)" "under_inspection i e1 b st m5"
    using under_persist [OF m2(2) calm ids(2)] by (auto simp: inspect_completed_def)
  obtain m6 where m6: "job_step P env (Publishing e2) m5 = (m6, Settling e2)" "under_inspection i e2 b st m6"
    using under_track [OF m5(2), of "\<lambda>e. e\<lparr>pr_upload := pr_upload e2\<rparr>" "\<lambda>e. Settling e2"] ids st2 by (auto simp: inspect_publish_def)
  have m7: "job_step P env (Settling e2) m6 = (m6, ProtectBegin i)"
    using m6(2) ids st2 by (simp add: inspect_settle_def Let_def under_inspection_def)
  obtain m8 where m8: "job_step P env (ProtectBegin i) m6 = (m8, ProtectStarted e3)" "under_inspection i e3 b st m8"
    using under_track [OF m6(2), of "set_outcome StatusEncrypting 85 ''protection_in_progress''" ProtectStarted] ids st2 m6(2)
    by (auto simp: protect_begin_def e3_def under_inspection_def)
  obtain m9 where m9: "job_step P env (ProtectStarted e3) m8 = (m9, Protecting e3)" "under_inspection i e3 b st m9"
    using under_persist [OF m8(2) calm ids(3)] by (auto simp: protect_started_def)
  have "run_job P env (InspectBegin i) m = run_job P env (Protecting e3) m9"
    by (simp add: run_step [OF m1(1)] run_step [OF m2(1)] run_step [OF m3] run_step [OF m4] run_step [OF m5(1)] run_step [OF m6(1)] run_step [OF m7]
        run_step [OF m8(1)] run_step [OF m9(1)] del: job_step.simps)
  moreover have "content_same e e3" by (simp add: e1_def e2_def e3_def)
  ultimately show ?thesis using m9(2) by blast
qed


section \<open>Encryption and the end\<close>

lemma registered:
  assumes "sv_ops st = memory_protected_ops" "\<forall>f \<in> set (mvals (ps_files (sv_repo st))). lf_current_version_id f \<noteq> md_version_id md" "draw = Inr d"
  shows "\<exists>r x. RegisterInitial draw owner name md st = (st\<lparr>sv_repo := r\<rparr>, Inr x)
    \<and> ps_entries r = ps_entries (sv_repo st)
    \<and> (\<exists>f \<in> set (mvals (ps_files r)). lf_owner_id f = owner \<and> lf_name f = name \<and> lf_current_version_id f = md_version_id md)"
proof -
  have none: "find (\<lambda>f. lf_owner_id f = owner \<and> lf_current_version_id f = md_version_id md) (mvals (ps_files (sv_repo st))) = None"
    using assms(2) by (auto simp: find_None_iff)
  have "(k, v) \<in> set (mput k v xs)" for k :: string and v :: logical_file and xs by (induction xs) auto
  then have "v \<in> set (mvals (mput k v xs))" for k :: string and v :: logical_file and xs by (force simp: mvals_def)
  note added = this
  obtain r x where r: "memory_RegisterInitial (store_opaqueID ''file'' draw) owner name md (sv_repo st) = (r, Inr x)" by
    (simp add: memory_RegisterInitial_def none Let_def assms(3) store_opaqueID_def)
  then have "ps_entries r = ps_entries (sv_repo st)"
    "\<exists>f \<in> set (mvals (ps_files r)). lf_owner_id f = owner \<and> lf_name f = name \<and> lf_current_version_id f = md_version_id md"
    by (auto simp: memory_RegisterInitial_def none Let_def assms(3) store_opaqueID_def intro!: bexI [OF _ added])
  moreover have "RegisterInitial draw owner name md st = (st\<lparr>sv_repo := r\<rparr>, Inr x)"
    using r assms(1) by (simp add: RegisterInitial_def memory_protected_ops_def memory_catalog_ops_def)
  ultimately show ?thesis by blast
qed

lemma Open_after_register:
  assumes "ps_entries r = ps_entries (sv_repo st)" "sv_ops st = memory_protected_ops"
  shows "Open P io owner upload (st\<lparr>sv_repo := r\<rparr>) = Open P io owner upload st"
  by (auto simp: Open_def assms memory_protected_ops_def memory_FindByUpload_def split: sum.split option.split)

lemma run_discard: "run_job P env (Discarding g) m = fst (discard env g m)"
  by (simp add: run_job.simps discard_def)

lemma protect_step:
  assumes u: "under_inspection i f b st m" and calm: "calm_ingest env" and local: "local_memory_store P k st"
    and valid: "valid_request P (request_of f) b (sv_max_plaintext st)" and new: "map_of (ps_entries (sv_repo st)) i = None"
    and version: "\<And>v. store_opaqueID ''ver'' (su_draws (ie_surroundings env) 0) = Inr v \<Longrightarrow> \<forall>g \<in> set (mvals (ps_files (sv_repo st))). lf_current_version_id g \<noteq> v"
  shows "\<exists>st' md. job_step P env (Protecting f) m = (m\<lparr>mg_store := Some st'\<rparr>, ProtectFinish i)
    \<and> Open P no_faults (pr_owner_id f) i st' = Inr \<lparr>pf_metadata = md, pf_bytes = b\<rparr>
    \<and> (\<exists>l \<in> set (mvals (ps_files (sv_repo st'))). lf_owner_id l = pr_owner_id f \<and> lf_name l = up_name (pr_upload f)
         \<and> lf_current_version_id l = md_version_id md)"
proof -
  define su where "su = ie_surroundings env"
  have rq: "rq_upload_id (request_of f) = i" "rq_owner_id (request_of f) = pr_owner_id f"
    using u by (simp_all add: request_of_def under_inspection_def)
  have c: "calm su" "ie_faults env = (\<lambda>_. None)" using calm by (simp_all add: calm_ingest_def su_def)
  obtain d where d: "ie_file_draw env = Inr d" using calm by (auto simp: calm_ingest_def)
  have new': "map_of (ps_entries (sv_repo st)) (rq_upload_id (request_of f)) = None" using new rq by simp
  from Protect_succeeds [OF local c(1) valid new'] obtain st1 md where
    p: "Protect P su (request_of f) (Some \<lparr>rr_bytes = b, rr_error = None\<rparr>) st = (st1, Inr md)" by blast
  obtain a key n n' where draws: "su_draws su 1 = Inr key" "length key = 32" "su_draws su 2 = Inr n" "length n = 12"
    "su_draws su 3 = Inr n'" "length n' = 12" using c(1) by (auto simp: calm_def)
  have st: "sv_ops st = memory_protected_ops" "sv_keys st = local_keys P k" "local_usable P k" "gcm_correct P"
    "sv_max_plaintext st \<le> int64_max" using local by (auto simp: local_memory_store_def local_usable_def)
  have ascii: "is_ascii (rq_plaintext_digest (request_of f))" using valid by (simp add: valid_request_def)
  note opened = local_store.protected_opens [OF st new' ascii draws p, where io = no_faults]
  then have open1: "Open P no_faults (pr_owner_id f) i st1 = Inr \<lparr>pf_metadata = md, pf_bytes = b\<rparr>" using rq by (simp add: no_faults_def)
  have "sv_ops st1 = memory_protected_ops \<and> ps_files (sv_repo st1) = ps_files (sv_repo st)
      \<and> store_opaqueID ''ver'' (su_draws su 0) = Inr (md_version_id md)"
  proof (rule Protect_cases [OF p st(5)])
    assume "po_find_by_upload (sv_ops st) (rq_owner_id (request_of f)) (rq_upload_id (request_of f)) (sv_repo st) = Inr md"
    with new' show ?thesis by (simp add: st(1) memory_protected_ops_def memory_FindByUpload_def)
  next
    fix rd assume "seal_and_commit P su (request_of f) (rr_bytes rd) st = (st1, Inr md)"
    then obtain v dek nonce w m0 where v: "store_opaqueID ''ver'' (su_draws su 0) = Inr v"
      and m0: "m0 = (new_metadata v (su_clock su 0) P (request_of f) (sv_keys st))\<lparr>md_nonce := nonce, md_wrapped_dek := w\<rparr>"
      and ce: "commit_envelope P su m0 (p_gcm_seal P dek nonce (rr_bytes rd) (canonicalAAD P m0)) st = (st1, Inr md)"
      by (rule seal_and_commit_ok)
    from ce obtain r' reused stored where cr: "po_create (sv_ops st) m0 (sv_repo st) = (r', Inr (stored, reused))"
      and res: "\<not> reused \<longrightarrow> md = m0 \<and> st1 = st\<lparr>sv_repo := r', sv_root := mput (md_blob_object m0)
         \<lparr>so_kind = RegularFile, so_bytes = p_gcm_seal P dek nonce (rr_bytes rd) (canonicalAAD P m0), so_modified = su_modified su\<rparr> (sv_root st)\<rparr>"
      by (rule commit_envelope_ok)
    have "md_upload_id m0 = i" "md_version_id m0 = v" using rq by (simp_all add: m0 new_metadata_def)
    with cr new st(1) v res show ?thesis by (auto simp: memory_protected_ops_def memory_Create_def split: if_splits)
  qed
  then have st1: "sv_ops st1 = memory_protected_ops" "ps_files (sv_repo st1) = ps_files (sv_repo st)"
    "store_opaqueID ''ver'' (su_draws su 0) = Inr (md_version_id md)" by auto
  from version st1(3) have fresh: "\<forall>g \<in> set (mvals (ps_files (sv_repo st1))). lf_current_version_id g \<noteq> md_version_id md"
    unfolding st1(2) su_def by blast
  obtain r2 x where r: "RegisterInitial (ie_file_draw env) (pr_owner_id f) (up_name (pr_upload f)) md st1 = (st1\<lparr>sv_repo := r2\<rparr>, Inr x)"
    and r2: "ps_entries r2 = ps_entries (sv_repo st1)"
    and file': "\<exists>l \<in> set (mvals (ps_files r2)). lf_owner_id l = pr_owner_id f \<and> lf_name l = up_name (pr_upload f)
         \<and> lf_current_version_id l = md_version_id md"
    using registered [OF st1(1) fresh d] by blast
  define st2 where "st2 = st1\<lparr>sv_repo := r2\<rparr>"
  have repo2: "sv_repo st2 = r2" by (simp add: st2_def)
  have open2: "Open P no_faults (pr_owner_id f) i st2 = Inr \<lparr>pf_metadata = md, pf_bytes = b\<rparr>"
    using Open_after_register [OF r2 st1(1)] open1 by (simp add: st2_def)
  have step1: "job_step P env (Protecting f) m = (m\<lparr>mg_store := Some st2\<rparr>, ProtectFinish i)"
    using u p r c(2) by (auto simp: protect_write_def under_inspection_def quarantine_reader_def su_def Let_def st2_def)
  with open2 file' [folded repo2] show ?thesis by blast
qed

lemma protection_stores:
  assumes u: "under_inspection i f b st m" and calm: "calm_ingest env" and local: "local_memory_store P k st"
    and valid: "valid_request P (request_of f) b (sv_max_plaintext st)" and new: "map_of (ps_entries (sv_repo st)) i = None"
    and version: "\<And>v. store_opaqueID ''ver'' (su_draws (ie_surroundings env) 0) = Inr v \<Longrightarrow> \<forall>g \<in> set (mvals (ps_files (sv_repo st))). lf_current_version_id g \<noteq> v"
  shows "\<exists>m' g st'. run_job P env (Protecting f) m = m' \<and> map_of (mg_uploads m') i = Some g \<and> content_same f g \<and> record_status g = StatusStored
    \<and> map_of (mr_records (mg_repo m')) i = Some g \<and> map_of (mg_quarantine m') (i @ ''.upload'') = None \<and> mg_store m' = Some st'
    \<and> (\<exists>md. Open P no_faults (pr_owner_id f) i st' = Inr \<lparr>pf_metadata = md, pf_bytes = b\<rparr>
         \<and> (\<exists>l \<in> set (mvals (ps_files (sv_repo st'))). lf_owner_id l = pr_owner_id f \<and> lf_name l = up_name (pr_upload f)
              \<and> lf_current_version_id l = md_version_id md))"
proof -
  have c: "ie_faults env = (\<lambda>_. None)" using calm by (simp add: calm_ingest_def)
  from protect_step [OF assms] obtain st2 md where step1: "job_step P env (Protecting f) m = (m\<lparr>mg_store := Some st2\<rparr>, ProtectFinish i)"
    and open2: "Open P no_faults (pr_owner_id f) i st2 = Inr \<lparr>pf_metadata = md, pf_bytes = b\<rparr>"
    and file': "\<exists>l \<in> set (mvals (ps_files (sv_repo st2))). lf_owner_id l = pr_owner_id f \<and> lf_name l = up_name (pr_upload f)
         \<and> lf_current_version_id l = md_version_id md" by blast
  define g where "g = set_outcome StatusStored 100 ''protected_storage_committed'' f"
  have u1: "under_inspection i f b st2 (m\<lparr>mg_store := Some st2\<rparr>)" using u by (auto simp: under_inspection_def)
  have ids: "record_id g = i" "pr_object g = i @ ''.upload''" using u by (simp_all add: g_def set_outcome_def under_inspection_def)
  obtain m2 where m2: "job_step P env (ProtectFinish i) (m\<lparr>mg_store := Some st2\<rparr>) = (m2, ProtectCompleted g)" "under_inspection i g b st2 m2"
    using under_track [OF u1, of "set_outcome StatusStored 100 ''protected_storage_committed''" ProtectCompleted] ids
    by (auto simp: protect_finish_def g_def)
  have "mg_ops m2 = memory_ingest_ops" "map_of (mr_records (mg_repo m2)) (record_id g) \<noteq> None" using m2(2) ids by (simp_all add: under_inspection_def)
  from persist_calm [OF calm this, of "event_of g ''FILE_PROTECTED'' ''success'' ''protected_storage_committed'' StatusEncrypting StatusStored"]
  obtain dl where
    "job_step P env (ProtectCompleted g) m2 = (m2\<lparr>mg_repo := (mg_repo m2)\<lparr>mr_records := mput i g (mr_records (mg_repo m2))\<rparr>, mg_delivered := dl\<rparr>, Discarding g)"
    by (auto simp: protect_completed_def persist_or_fail_def ids)
  note m3 = this
  have "run_job P env (Protecting f) m = fst (discard env g (m2\<lparr>mg_repo := (mg_repo m2)\<lparr>mr_records := mput i g (mr_records (mg_repo m2))\<rparr>, mg_delivered := dl\<rparr>))"
    by (simp add: run_step [OF step1] run_step [OF m2(1)] run_step [OF m3] run_discard del: job_step.simps)
  moreover have "content_same f g" "record_status g = StatusStored" by (simp_all add: g_def) (simp add: set_outcome_def)
  ultimately show ?thesis using m2(2) ids open2 file' c
    by (intro exI [of _ "run_job P env (Protecting f) m"] exI [of _ g] exI [of _ st2])
      (auto simp: discard_def release_capacity_def remove_quarantined_def under_inspection_def ingest_ReleaseCapacity_def)
qed


text \<open>
  C36: what goes in comes out. An upload that was received, that the scanner accepts and whose way into the
  protected store meets no fault ends as stored, in the manager and in the repository; its plaintext is gone
  from quarantine; its owner finds it under its name, and opening it returns exactly the bytes the network
  delivered.
\<close>

theorem upload_to_download:
  assumes "create P env owner key name media source expected m = (m1, Inr (u, False))" "ingest_invar m"
    and "\<forall>i. randomID ''upl'' (ie_draws env 0) = Inr i \<longrightarrow> fresh_upload i m" "0 \<le> mg_max_upload m" "mg_max_upload m < int64_max"
    and "mg_store m = Some st" "local_memory_store P k st" "mg_max_upload m \<le> sv_max_plaintext st" "owner \<noteq> []" "length (p_sha256 P (concat (map ar_block (case source of None \<Rightarrow> [] | Some as \<Rightarrow> as)))) = 32"
    and "map_of (ps_entries (sv_repo st)) (up_id u) = None"
    and "\<forall>v. store_opaqueID ''ver'' (su_draws (ie_surroundings env') 0) = Inr v \<longrightarrow> v \<notin> lf_current_version_id ` set (mvals (ps_files (sv_repo st)))"
    and "calm_ingest env'" "\<forall>ev. \<exists>r. ie_scan env' ev = Inr r \<and> sc_accepted r"
  shows "\<exists>m2 v st' md. inspect P env' (up_id u) m1 = m2 \<and> Get owner (up_id u) m2 = Inr v \<and> up_status v = StatusStored \<and> up_bytes v = up_bytes u
    \<and> (\<exists>r. map_of (mr_records (mg_repo m2)) (up_id u) = Some r \<and> pr_upload r = v) \<and> map_of (mg_quarantine m2) (up_id u @ ''.upload'') = None
    \<and> mg_store m2 = Some st'
    \<and> Open P no_faults owner (up_id u) st' = Inr \<lparr>pf_metadata = md, pf_bytes = concat (map ar_block (case source of None \<Rightarrow> [] | Some as \<Rightarrow> as))\<rparr>
    \<and> (\<exists>l \<in> set (mvals (ps_files (sv_repo st'))). lf_owner_id l = owner \<and> lf_name l = safeDisplayName name \<and> lf_current_version_id l = md_version_id md)"
proof -
  note I = ingest_invarD [OF assms(2)]
  show ?thesis
  proof (rule create_new [OF assms(1-5)])
    fix i corr d e q e' qu rs dl as b
    assume src: "source = Some as" "b = concat (map ar_block as)" "b \<noteq> []" "int (length b) \<le> mg_max_upload m" and u: "u = pr_upload e'"
      and e: "e = new_entry i corr owner (hex_encode (p_sha256 P key)) (safeDisplayName name) d (ie_now env)"
      and e': "e' = e\<lparr>pr_upload := (pr_upload e)\<lparr>up_bytes := int (length b), up_detected := ie_sniff env (take 512 b), up_progress := 25\<rparr>,
             pr_digest := hex_encode (p_sha256 P b)\<rparr>"
      and m1: "m1 = m\<lparr>mg_repo := (admitted_repo e q (mg_repo m))\<lparr>mr_records := mput i e' (mr_records (mg_repo m))\<rparr>,
             mg_uploads := mput i e' (mg_uploads m), mg_idempotency := mput (entry_index e) i (mg_idempotency m),
             mg_quarantine := qu, mg_owner_reservations := rs, mg_delivered := dl\<rparr>"
      and qu: "\<exists>ob. map_of qu (pr_object e) = Some ob \<and> so_kind ob = RegularFile \<and> so_bytes ob = b"
      and ids: "record_id e' = i" "pr_object e = i @ ''.upload''" "pr_object e' = i @ ''.upload''" "pr_owner_id e' = owner"
      and draw: "randomID ''upl'' (ie_draws env 0) = Inr i"
    have id: "up_id u = i" "i \<noteq> []" using u ids draw by (auto simp: randomID_def split: sum.splits)
    have nm: "up_name (pr_upload e') = safeDisplayName name" "record_bytes e' = int (length b)" "pr_digest e' = hex_encode (p_sha256 P b)"
      by (simp_all add: e' e new_entry_def)
    have "under_inspection i e' b st m1" using ids qu assms(6) I(1) by (simp add: under_inspection_def m1)
    from inspection_accepts [OF this assms(13)] assms(14) obtain m2 f where
      run: "run_job P env' (InspectBegin i) m1 = run_job P env' (Protecting f) m2" and f: "under_inspection i f b st m2" "content_same e' f" by blast
    note F = f(2) [unfolded content_same_def]
    have valid: "valid_request P (request_of f) b (sv_max_plaintext st)"
      using F ids nm src assms(8,9,10) id(2) by (simp add: valid_request_def request_of_def is_ascii_hex equal_fold_def)
    have new: "map_of (ps_entries (sv_repo st)) i = None" using assms(11) id by simp
    have version: "\<forall>g \<in> set (mvals (ps_files (sv_repo st))). lf_current_version_id g \<noteq> v"
      if "store_opaqueID ''ver'' (su_draws (ie_surroundings env') 0) = Inr v" for v using assms(12) that by blast
    from protection_stores [OF f(1) assms(13,7) valid new version] obtain m3 g st' md where
      m3: "run_job P env' (Protecting f) m2 = m3" "map_of (mg_uploads m3) i = Some g" "content_same f g" "record_status g = StatusStored"
      "map_of (mr_records (mg_repo m3)) i = Some g" "map_of (mg_quarantine m3) (i @ ''.upload'') = None" "mg_store m3 = Some st'"
      "Open P no_faults (pr_owner_id f) i st' = Inr \<lparr>pf_metadata = md, pf_bytes = b\<rparr>"
      "\<exists>l \<in> set (mvals (ps_files (sv_repo st'))). lf_owner_id l = pr_owner_id f \<and> lf_name l = up_name (pr_upload f) \<and> lf_current_version_id l = md_version_id md"
      by blast
    note G = m3(3) [unfolded content_same_def]
    have "inspect P env' (up_id u) m1 = m3" by (simp add: inspect_def id run m3(1))
    moreover have "Get owner i m3 = Inr (pr_upload g)" using m3(2) F G ids by (simp add: Get_def)
    moreover have "up_bytes (pr_upload g) = up_bytes u" using F G u by simp
    moreover have "pr_owner_id f = owner" "up_name (pr_upload f) = safeDisplayName name" using F ids nm by simp_all
    ultimately show ?thesis using m3 id(1) src(1,2)
      by (intro exI [of _ m3] exI [of _ "pr_upload g"] exI [of _ st'] exI [of _ md]) simp
  qed
qed

end
