(* ===== verification/IngestScanner.thy ===== *)
theory IngestScanner
  imports IngestInspection
begin

text \<open>
  The ClamAV client (internal/ingest/clamd_scanner.go) and what the manager reports about its scanner. A
  connection is what the daemon's side does: how many bytes each write accepts, and the bytes it sends
  before it closes. \<open>time.ParseInLocation\<close> and the daemon are arguments.
\<close>

section \<open>The wire\<close>

definition clamdChunkBytes :: nat where "clamdChunkBytes = 64 * 1024"
definition clamdMaxReplySize :: nat where "clamdMaxReplySize = 8 * 1024"

text \<open>Each write accepts a number of bytes or fails; after the list ends everything is accepted. A reply of None is a failed read.\<close>

record connection =
  cn_accepts :: "nat option list"
  cn_reply :: "bytes option"
  cn_received :: bytes

function writeAll :: "bytes \<Rightarrow> connection \<Rightarrow> connection \<times> bool" where
  "writeAll value c =
     (if value = [] then (c, True)
      else case cn_accepts c of
        [] \<Rightarrow> (c\<lparr>cn_received := cn_received c @ value\<rparr>, True)
      | None # rest \<Rightarrow> (c\<lparr>cn_accepts := rest\<rparr>, False)
      | Some written # rest \<Rightarrow>
          if written = 0 then (c\<lparr>cn_accepts := rest\<rparr>, False)
          else writeAll (drop written value) (c\<lparr>cn_accepts := rest, cn_received := cn_received c @ take written value\<rparr>))"
  by pat_completeness auto
termination
  by (relation "measure (\<lambda>(value, c). length value)") auto

declare writeAll.simps [simp del]

definition writeChunk :: "bytes \<Rightarrow> connection \<Rightarrow> connection \<times> bool" where
  "writeChunk chunk c =
     (case writeAll (be32 (int (length chunk))) c of
        (c1, False) \<Rightarrow> (c1, False)
      | (c1, True) \<Rightarrow> if chunk \<noteq> [] then writeAll chunk c1 else (c1, True))"

text \<open>The first record of the reply, up to its NUL, of at most \<open>clamdMaxReplySize\<close> bytes with the NUL.\<close>

definition readClamdRecord :: "connection \<Rightarrow> string option" where
  "readClamdRecord c =
     (case cn_reply c of None \<Rightarrow> None
      | Some reply \<Rightarrow>
          (let available = take (clamdMaxReplySize + 1) reply;
               text' = takeWhile (\<lambda>b. b \<noteq> char_of (0 :: nat)) available
           in if length text' = length available \<or> length text' + 1 > clamdMaxReplySize then None else Some text'))"

definition command :: "string \<Rightarrow> connection option \<Rightarrow> string option" where
  "command name dialled =
     (case dialled of None \<Rightarrow> None
      | Some c \<Rightarrow> (case writeAll (''z'' @ name @ NUL) c of (c1, False) \<Rightarrow> None | (c1, True) \<Rightarrow> readClamdRecord c1))"

section \<open>Signature evidence\<close>

record clamd_scanner =
  cl_network :: string
  cl_address :: string
  cl_max_stream :: int64
  cl_dial_timeout :: duration
  cl_io_timeout :: duration
  cl_max_age :: duration

definition NewClamdScanner ::
    "string \<Rightarrow> string \<Rightarrow> int64 \<Rightarrow> duration \<Rightarrow> duration \<Rightarrow> duration \<Rightarrow> ingest_error + clamd_scanner" where
  "NewClamdScanner network address maxStreamBytes dialTimeout ioTimeout maxSignatureAge =
     (if network \<noteq> ''tcp'' \<and> network \<noteq> ''unix'' then Inl (IngestError ''clamd network must be tcp or unix'')
      else if trim_space address = [] \<or> maxStreamBytes \<le> 0 \<or> dialTimeout \<le> 0 \<or> ioTimeout \<le> 0 \<or> maxSignatureAge \<le> 0
      then Inl (IngestError ''invalid clamd configuration'')
      else Inr \<lparr>cl_network = network, cl_address = address, cl_max_stream = maxStreamBytes, cl_dial_timeout = dialTimeout,
        cl_io_timeout = ioTimeout, cl_max_age = maxSignatureAge\<rparr>)"

text \<open>\<open>strings.Split\<close> at a separator of one byte.\<close>

fun split_at :: "char \<Rightarrow> string \<Rightarrow> string list" where
  "split_at sep [] = [[]]"
| "split_at sep (c # s) = (if c = sep then [] # split_at sep s else (case split_at sep s of [] \<Rightarrow> [[c]] | p # ps \<Rightarrow> (c # p) # ps))"

text \<open>A byte from 128 up belongs to a rune that is in none of the ranges.\<close>

definition version_char :: "char \<Rightarrow> bool" where
  "version_char c \<longleftrightarrow> ascii_class c \<noteq> OtherRune \<or> c \<in> set ''._+-''"

definition safeVersionToken :: "string \<Rightarrow> bool" where
  "safeVersionToken v \<longleftrightarrow> v \<noteq> [] \<and> length v \<le> 40 \<and> list_all version_char v"

type_synonym time_parser = "string \<Rightarrow> string \<Rightarrow> time option"

definition clamd_prefix :: string where "clamd_prefix = ''ClamAV ''"

definition parseClamdVersion :: "time_parser \<Rightarrow> string \<Rightarrow> (string \<times> string \<times> time) option" where
  "parseClamdVersion parse reply =
     (if \<not> prefix clamd_prefix reply then None
      else case split_at (CHR ''/'') (drop (length clamd_prefix) reply) of
        [engine, signatures, stamp] \<Rightarrow>
          if \<not> safeVersionToken engine \<or> \<not> safeVersionToken signatures \<or> length stamp > 64 then None
          else (case parse ''Mon Jan _2 15:04:05 2006'' (trim_space stamp) of Some t \<Rightarrow> Some (engine, signatures, t)
                | None \<Rightarrow> map_option (\<lambda>t. (engine, signatures, t)) (parse ''Mon Jan _2 2006'' (trim_space stamp)))
      | _ \<Rightarrow> None)"

definition signatureStatus ::
    "time_parser \<Rightarrow> connection option \<Rightarrow> time \<Rightarrow> clamd_scanner \<Rightarrow> string \<times> string \<times> time option \<times> bool" where
  "signatureStatus parse dialled now s =
     (case command ''VERSION'' dialled of None \<Rightarrow> ([], [], None, False)
      | Some reply \<Rightarrow>
     (case parseClamdVersion parse reply of None \<Rightarrow> ([], [], None, False)
      | Some (engine, signatures, updatedAt) \<Rightarrow>
          (let age = time_sub now updatedAt
           in (engine, signatures, Some updatedAt, - 5 * minute \<le> age \<and> age \<le> cl_max_age s))))"

section \<open>Inspection\<close>

text \<open>What reading the file brings, block by block: at most \<open>clamdChunkBytes\<close> at a time, then the end or an error.\<close>

fun stream_file :: "int64 \<Rightarrow> (bytes \<times> bool) list \<Rightarrow> int64 \<Rightarrow> connection \<Rightarrow> connection \<times> bool" where
  "stream_file limit [] streamed c = (c, True)"
| "stream_file limit ((block, failed) # rest) streamed c =
     (let streamed' = add64 streamed (int (length block));
          (c1, ok) = (if block = [] then (c, True) else if streamed' > limit then (c, False) else writeChunk block c)
      in if \<not> ok \<or> failed then (c1, False) else stream_file limit rest (if block = [] then streamed else streamed') c1)"

definition clamd_verdict :: "string \<Rightarrow> string \<Rightarrow> ingest_error + scan_result" where
  "clamd_verdict signatures reply =
     (if suffix '': OK'' reply
      then Inr \<lparr>sc_accepted = True, sc_reason = ''policy_accepted'', sc_tool = ''clamd-instream'', sc_policy = ''clamav-db-'' @ signatures\<rparr>
      else if suffix '' FOUND'' reply
      then Inr \<lparr>sc_accepted = False, sc_reason = ''malware_detected'', sc_tool = ''clamd-instream'', sc_policy = ''clamav-db-'' @ signatures\<rparr>
      else Inl ErrScannerFailure)"

text \<open>
  \<open>version\<close> and \<open>dialled\<close> are the two connections, None when dialling failed; \<open>opened\<close> is the file under the
  path of the evidence, None when it cannot be opened. The result carries what the daemon has received.
\<close>

definition clamd_Inspect ::
    "time_parser \<Rightarrow> connection option \<Rightarrow> connection option \<Rightarrow> (bytes \<times> bool) list option \<Rightarrow> time \<Rightarrow> evidence \<Rightarrow> clamd_scanner
       \<Rightarrow> bytes \<times> (ingest_error + scan_result)" where
  "clamd_Inspect parse version dialled opened now ev s =
     (case signatureStatus parse version now s of (_, signatures, _, fresh) \<Rightarrow>
      if \<not> fresh \<or> ev_object ev = [] then ([], Inl ErrScannerFailure)
      else case (opened, dialled) of
        (Some blocks, Some c) \<Rightarrow>
          (case writeAll (''zINSTREAM'' @ NUL) c of
             (c1, False) \<Rightarrow> (cn_received c1, Inl ErrScannerFailure)
           | (c1, True) \<Rightarrow>
          (case stream_file (cl_max_stream s) blocks 0 c1 of
             (c2, False) \<Rightarrow> (cn_received c2, Inl ErrScannerFailure)
           | (c2, True) \<Rightarrow>
          (case writeChunk [] c2 of
             (c3, False) \<Rightarrow> (cn_received c3, Inl ErrScannerFailure)
           | (c3, True) \<Rightarrow> (cn_received c3, (case readClamdRecord c3 of None \<Rightarrow> Inl ErrScannerFailure | Some reply \<Rightarrow> clamd_verdict signatures reply)))))
      | _ \<Rightarrow> ([], Inl ErrScannerFailure))"

section \<open>Posture\<close>

record scanner_posture =
  sp_connected :: bool
  sp_production_ready :: bool
  sp_fail_closed :: bool
  sp_fresh :: bool
  sp_adapter :: string
  sp_policy :: string
  sp_engine :: string
  sp_signatures :: string
  sp_updated_at :: "time option"
  sp_age_seconds :: int64
  sp_checked_at :: "time option"
  sp_detail :: string

definition zero_posture :: scanner_posture where
  "zero_posture = \<lparr>sp_connected = False, sp_production_ready = False, sp_fail_closed = False, sp_fresh = False, sp_adapter = [],
     sp_policy = [], sp_engine = [], sp_signatures = [], sp_updated_at = None, sp_age_seconds = 0, sp_checked_at = None, sp_detail = []\<rparr>"

definition deterministic_Posture :: scanner_posture where
  "deterministic_Posture = zero_posture\<lparr>sp_connected := True, sp_fail_closed := True, sp_adapter := ''deterministic-test-scanner'',
     sp_policy := ''v1.4-demo'', sp_detail := ''Development policy adapter; no malware signature engine is connected.''\<rparr>"

definition ScannerPosture :: "(time \<Rightarrow> scanner_posture) option \<Rightarrow> bool \<Rightarrow> time \<Rightarrow> scanner_posture" where
  "ScannerPosture reporter connected now =
     (case reporter of Some posture \<Rightarrow> posture now
      | None \<Rightarrow> zero_posture\<lparr>sp_connected := connected, sp_adapter := ''configured-adapter'',
          sp_detail := ''Scanner health reporting is not available.''\<rparr>)"

text \<open>Whole seconds of a duration; the float in between is exact for the durations a clock can give here.\<close>

definition clamd_Posture :: "time_parser \<Rightarrow> connection option \<Rightarrow> connection option \<Rightarrow> time \<Rightarrow> clamd_scanner \<Rightarrow> scanner_posture" where
  "clamd_Posture parse ping version checkedAt s =
     (let connected = (command ''PING'' ping = Some ''PONG'');
          posture = zero_posture\<lparr>sp_connected := connected, sp_fail_closed := True, sp_adapter := ''clamd-instream'',
            sp_policy := ''clamav-signatures'', sp_checked_at := Some checkedAt,
            sp_detail := ''ClamAV daemon is unavailable; uploads fail closed before protected storage.''\<rparr>
      in if \<not> connected then posture
         else case signatureStatus parse version checkedAt s of
           (_, _, None, _) \<Rightarrow> posture\<lparr>sp_detail :=
             ''ClamAV responds to health checks, but signed database timestamp evidence is unavailable; uploads fail closed.''\<rparr>
         | (engine, signatures, Some updatedAt, fresh) \<Rightarrow>
             posture\<lparr>sp_updated_at := Some updatedAt, sp_age_seconds := max 0 (time_sub checkedAt updatedAt div second),
               sp_fresh := fresh, sp_production_ready := fresh, sp_engine := engine, sp_signatures := signatures,
               sp_policy := ''clamav-db-'' @ signatures,
               sp_detail := (if fresh
                 then ''ClamAV health and fresh signature timestamp evidence are available; quarantined bytes use bounded INSTREAM scanning.''
                 else ''ClamAV is reachable, but signature timestamp evidence is stale or invalid; uploads fail closed.'')\<rparr>)"

end
