(* ===== verification/ScannerProperties.thy ===== *)
theory ScannerProperties
  imports IngestScanner
begin

text \<open>
  What an acceptance by the ClamAV client vouches for: fresh signatures, and the whole file on the daemon's
  side of the connection in frames a reader of the INSTREAM protocol puts together again.
\<close>

section \<open>Frames\<close>

text \<open>The daemon's side: length-prefixed chunks until one of length zero, and nothing after it.\<close>

definition be_value :: "bytes \<Rightarrow> nat" where
  "be_value b = foldl (\<lambda>n c. 256 * n + of_char c) 0 b"

fun instream_parse :: "nat \<Rightarrow> bytes \<Rightarrow> bytes option" where
  "instream_parse 0 s = None"
| "instream_parse (Suc fuel) s =
     (if length s < 4 then None
      else let n = be_value (take 4 s); rest = drop 4 s in
        if n = 0 then (if rest = [] then Some [] else None)
        else if length rest < n then None
        else map_option (\<lambda>content. take n rest @ content) (instream_parse fuel (drop n rest)))"

lemma be_value_be_bytes: "n < 256 ^ k \<Longrightarrow> be_value (be_bytes k n) = n"
proof (induction k arbitrary: n)
  case (Suc k)
  then have "be_value (be_bytes k (n div 256)) = n div 256" by (auto simp: less_mult_imp_div_less)
  moreover have "of_char (char_of (n mod 256) :: char) = n mod 256" by simp
  ultimately show ?case by (simp add: be_value_def)
qed (simp add: be_value_def)

lemma be_value_be32: "n < 2 ^ 32 \<Longrightarrow> be_value (be32 (int n)) = n"
  unfolding be32_def by (subst be_value_be_bytes) simp_all

lemma instream_roundtrip:
  assumes "\<forall>b \<in> set bs. b \<noteq> [] \<and> length b < 2 ^ 32" "length bs < fuel"
  shows "instream_parse fuel (concat (map length_field bs) @ length_field []) = Some (concat bs)"
  using assms
proof (induction bs arbitrary: fuel)
  case Nil
  then obtain g where "fuel = Suc g" by (cases fuel) auto
  then show ?case using be_value_be32 [of 0] by (simp add: length_field_def)
next
  case (Cons b bs)
  then obtain g where g: "fuel = Suc g" "length bs < g" by (cases fuel) auto
  have "be_value (be32 (int (length b))) = length b" using Cons.prems by (intro be_value_be32) simp
  with Cons g show ?case by (simp add: length_field_def Let_def)
qed

section \<open>Writing\<close>

lemma writeAll_ok: "writeAll value c = (c', True) \<Longrightarrow> cn_received c' = cn_received c @ value \<and> cn_reply c' = cn_reply c"
proof (induction "value" c rule: writeAll.induct)
  case (1 "value" c)
  show ?case
  proof (cases "value = []")
    case True
    with 1(2) show ?thesis by (simp add: writeAll.simps)
  next
    case False
    show ?thesis
    proof (cases "cn_accepts c")
      case Nil
      with 1(2) False show ?thesis by (auto simp: writeAll.simps [of "value" c])
    next
      case (Cons a rest)
      with 1(2) False obtain w where w: "a = Some w" "w \<noteq> 0"
        "writeAll (drop w value) (c\<lparr>cn_accepts := rest, cn_received := cn_received c @ take w value\<rparr>) = (c', True)"
        by (auto simp: writeAll.simps [of "value" c] split: option.splits if_splits)
      from 1(1) [OF False _ w(1,2) w(3)] Cons show ?thesis by simp
    qed
  qed
qed

lemma writeChunk_ok:
  assumes "writeChunk chunk c = (c', True)"
  shows "cn_received c' = cn_received c @ length_field chunk \<and> cn_reply c' = cn_reply c"
proof -
  obtain c1 ok where w: "writeAll (be32 (int (length chunk))) c = (c1, ok)" by fastforce
  with assms have "ok" by (auto simp: writeChunk_def split: bool.splits)
  with w have w: "writeAll (be32 (int (length chunk))) c = (c1, True)" by simp
  show ?thesis
  proof (cases "chunk = []")
    case True
    with assms w writeAll_ok [OF w] show ?thesis by (simp add: writeChunk_def length_field_def)
  next
    case False
    with assms w have "writeAll chunk c1 = (c', True)" by (simp add: writeChunk_def)
    from writeAll_ok [OF w] writeAll_ok [OF this] show ?thesis by (simp add: length_field_def)
  qed
qed

lemma stream_file_ok:
  assumes "stream_file limit blocks streamed c = (c', True)" "0 \<le> streamed" "streamed \<le> limit" "limit \<le> int64_max - int clamdChunkBytes"
    and "\<forall>(b, failed) \<in> set blocks. length b \<le> clamdChunkBytes"
  shows "cn_received c' = cn_received c @ concat (map length_field (filter (\<lambda>b. b \<noteq> []) (map fst blocks))) \<and> cn_reply c' = cn_reply c
    \<and> streamed + int (length (concat (map fst blocks))) \<le> limit \<and> (\<forall>(b, failed) \<in> set blocks. \<not> failed)"
  using assms
proof (induction blocks arbitrary: streamed c)
  case (Cons bf rest)
  obtain b failed where bf: "bf = (b, failed)" by fastforce
  have len: "length b \<le> clamdChunkBytes" using Cons.prems(5) bf by simp
  have exact: "add64 streamed (int (length b)) = streamed + int (length b)"
    unfolding add64_def using Cons.prems(2-4) len by (intro wrap64_id) (auto simp: int64_min_def)
  show ?case
  proof (cases "b = []")
    case True
    with Cons.prems(1) bf have "\<not> failed" "stream_file limit rest streamed c = (c', True)" by (auto split: if_splits)
    with Cons.IH [of streamed c] Cons.prems True bf show ?thesis by simp
  next
    case False
    obtain c1 ok where w: "(if streamed + int (length b) > limit then (c, False) else writeChunk b c) = (c1, ok)" by fastforce
    with Cons.prems(1) False bf exact have ok: "ok" "\<not> failed" "stream_file limit rest (streamed + int (length b)) c1 = (c', True)"
      by (auto simp: Let_def split: if_splits)
    with w have "streamed + int (length b) \<le> limit" "writeChunk b c = (c1, True)" by (auto split: if_splits)
    with writeChunk_ok [of b c c1] Cons.IH [OF ok(3)] Cons.prems False bf ok(2) show ?thesis by simp
  qed
qed simp


section \<open>Acceptance\<close>

text \<open>
  C38: a file is accepted only when it was scanned whole under fresh signatures. If the ClamAV client accepts,
  the daemon had named signatures that were not older than the limit nor more than five minutes ahead, the
  file was read without an error and is not longer than the limit, the daemon received the INSTREAM command
  with frames it puts together to exactly the content of the file, and its answer ends in \<open>: OK\<close>; the
  policy recorded names the signatures.
\<close>

theorem accepted_means_scanned:
  assumes "clamd_Inspect parse version (Some c) (Some blocks) now ev s = (received, Inr r)" "sc_accepted r" "cn_received c = []"
    and "0 \<le> cl_max_stream s" "cl_max_stream s \<le> int64_max - int clamdChunkBytes" "\<forall>(b, failed) \<in> set blocks. length b \<le> clamdChunkBytes"
  shows "\<exists>engine signatures t reply frames content. signatureStatus parse version now s = (engine, signatures, Some t, True)
    \<and> - 5 * minute \<le> time_sub now t \<and> time_sub now t \<le> cl_max_age s \<and> sc_policy r = ''clamav-db-'' @ signatures
    \<and> content = concat (map fst blocks) \<and> int (length content) \<le> cl_max_stream s \<and> (\<forall>(b, failed) \<in> set blocks. \<not> failed)
    \<and> received = ''zINSTREAM'' @ NUL @ frames \<and> instream_parse (length blocks + 1) frames = Some content
    \<and> readClamdRecord c = Some reply \<and> suffix '': OK'' reply"
proof -
  obtain engine signatures t' fresh where sig: "signatureStatus parse version now s = (engine, signatures, t', fresh)" by (metis prod_cases4)
  from assms(1) sig have fresh: "fresh" "ev_object ev \<noteq> []" by (auto simp: clamd_Inspect_def split: if_splits)
  then obtain t where t: "t' = Some t" "- 5 * minute \<le> time_sub now t" "time_sub now t \<le> cl_max_age s"
    using sig by (auto simp: signatureStatus_def Let_def split: option.splits prod.splits)
  obtain c1 ok1 where w1: "writeAll (''zINSTREAM'' @ NUL) c = (c1, ok1)" by fastforce
  obtain c2 ok2 where w2: "stream_file (cl_max_stream s) blocks 0 c1 = (c2, ok2)" by fastforce
  obtain c3 ok3 where w3: "writeChunk [] c2 = (c3, ok3)" by fastforce
  from assms(1) sig fresh w1 w2 w3 have ok: "ok1" "ok2" "ok3" "received = cn_received c3"
    "(case readClamdRecord c3 of None \<Rightarrow> Inl ErrScannerFailure | Some reply \<Rightarrow> clamd_verdict signatures reply) = Inr r"
    by (auto simp: clamd_Inspect_def split: bool.splits)
  note W1 = writeAll_ok [of "''zINSTREAM'' @ NUL" c c1] and W3 = writeChunk_ok [of "[]" c2 c3]
  from stream_file_ok [of "cl_max_stream s" blocks 0 c1 c2] w2 ok(2) assms(4-6)
  have W2: "cn_received c2 = cn_received c1 @ concat (map length_field (filter (\<lambda>b. b \<noteq> []) (map fst blocks)))" "cn_reply c2 = cn_reply c1"
    "int (length (concat (map fst blocks))) \<le> cl_max_stream s" "\<forall>(b, failed) \<in> set blocks. \<not> failed" by auto
  define bs where "bs = filter (\<lambda>b. b \<noteq> []) (map fst blocks)"
  have "readClamdRecord c3 = readClamdRecord c" using W1 W2(2) W3 w1 w3 ok by (simp add: readClamdRecord_def)
  with ok(5) assms(2) obtain reply where reply: "readClamdRecord c = Some reply" "suffix '': OK'' reply" "sc_policy r = ''clamav-db-'' @ signatures"
    by (auto simp: clamd_verdict_def split: option.splits if_splits)
  have "length b < 2 ^ 32" if "b \<in> set bs" for b
  proof -
    from that assms(6) have "length b \<le> clamdChunkBytes" by (auto simp: bs_def)
    then show ?thesis by (simp add: clamdChunkBytes_def)
  qed
  then have "instream_parse (length blocks + 1) (concat (map length_field bs) @ length_field []) = Some (concat bs)"
    by (intro instream_roundtrip) (auto simp: bs_def less_Suc_eq_le intro: order.trans [OF length_filter_le])
  moreover have "concat bs = concat (map fst blocks)"
    unfolding bs_def by (induction blocks) auto
  moreover have "received = ''zINSTREAM'' @ NUL @ concat (map length_field bs) @ length_field []"
    using W1 W2(1) W3 w1 w3 ok assms(3) by (simp add: bs_def)
  ultimately show ?thesis using sig t fresh reply W2(3,4) by auto
qed

end
