(* ===== verification/ProtectedWitnesses.thy ===== *)
theory ProtectedWitnesses
  imports ProtectedProperties
begin

text \<open>
  A small concrete store, and for each property of \<open>ProtectedProperties\<close> that has hypotheses its
  application to that store: one file of one version, owned by one user and shared with another, on the
  stand-in platform of the prelude.
\<close>

section \<open>The store\<close>

definition demo_keyring :: local_keyring where
  "demo_keyring = \<lparr>lk_keys = [(''v1'', replicate 32 (CHR ''k''))], lk_id = ''kek'', lk_version = ''v1''\<rparr>"

definition demo_content :: bytes where "demo_content = replicate 32 (CHR ''x'')"
definition demo_dek :: bytes where "demo_dek = replicate 32 (CHR ''d'')"

definition demo_bare :: metadata where
  "demo_bare = \<lparr>md_upload_id = ''up_1'', md_version_id = ''ver_1'', md_owner_id = ''usr_1'', md_blob_object = ''ver_1.ciphertext'',
     md_schema_version = schemaVersion, md_algorithm = envelope_algorithm, md_kek_id = ''kek'', md_kek_version = ''v1'',
     md_wrapping_kek_id = ''kek'', md_wrapping_kek_version = ''v1'',
     md_wrapped_dek = [], md_nonce = replicate 12 (CHR ''n''), md_plaintext_size = 32,
     md_plaintext_digest = hex_encode demo_content, md_media_type = ''text/plain'', md_inspection_record_id = ''ins_1'', md_created_at = 0\<rparr>"

definition demo_wrapped :: bytes where
  "demo_wrapped = replicate 12 (CHR ''w'') @ p_gcm_seal demo_platform (replicate 32 (CHR ''k'')) (replicate 12 (CHR ''w'')) demo_dek (''kek'' @ NUL @ ''v1'')"

definition demo_metadata :: metadata where
  "demo_metadata = demo_bare\<lparr>md_wrapped_dek := demo_wrapped\<rparr>"

definition demo_object :: stored_object where
  "demo_object = \<lparr>so_kind = RegularFile, so_bytes = p_gcm_seal demo_platform demo_dek (replicate 12 (CHR ''n'')) demo_content
     (canonicalAAD demo_platform demo_metadata), so_modified = 0\<rparr>"

definition demo_file :: logical_file where
  "demo_file = \<lparr>lf_file_id = ''file_1'', lf_owner_id = ''usr_1'', lf_name = ''notes.txt'', lf_current_version_id = ''ver_1'',
     lf_created_at = 0, lf_updated_at = 0\<rparr>"

definition demo_version :: file_version where
  "demo_version = \<lparr>fv_file_id = ''file_1'', fv_version_id = ''ver_1'', fv_source_version_id = [], fv_operation_id = ''up_1'',
     fv_number = 1, fv_plaintext_size = 32, fv_media_type = ''text/plain'', fv_reason = ''initial_upload'', fv_current = True, fv_created_at = 0\<rparr>"

definition demo_grant :: access_grant where
  "demo_grant = \<lparr>gr_grant_id = ''grant_1'', gr_file_id = ''file_1'', gr_owner_id = ''usr_1'', gr_recipient_id = ''usr_2'',
     gr_recipient_name = ''Bob'', gr_recipient_email = ''bob@x.org'', gr_permission = PermissionDownload, gr_expires_at = None,
     gr_created_at = 0, gr_revoked_at = None\<rparr>"

definition demo_lifecycle :: lifecycle_file where
  "demo_lifecycle = zero_lifecycle\<lparr>lc_file := demo_file\<rparr>"

definition demo_vault :: "lifecycle_file \<Rightarrow> memory_protected" where
  "demo_vault c = NewMemoryProtected\<lparr>ps_entries := [(''up_1'', demo_metadata)], ps_files := [(''file_1'', demo_file)],
     ps_versions := [(''file_1'', [demo_version])], ps_grants := [(''grant_1'', demo_grant)], ps_lifecycle := [(''file_1'', c)]\<rparr>"

definition demo_store :: "memory_protected \<Rightarrow> directory \<Rightarrow> memory_protected protected_service" where
  "demo_store r root = \<lparr>sv_ops = memory_protected_ops, sv_repo = r, sv_keys = local_keys demo_platform demo_keyring,
     sv_root_dir = ''/store'', sv_staging_dir = ''/store/.staging'', sv_root = root, sv_staging = [], sv_max_plaintext = 1000,
     sv_backup = unconfigured_backup\<rparr>"

definition demo_root :: directory where "demo_root = [(''ver_1.ciphertext'', demo_object)]"

definition demo_surroundings :: surroundings where
  "demo_surroundings = \<lparr>su_faults = no_faults, su_draws = (\<lambda>i. Inr (if i = 0 then ''fresh'' else if i = 1 then demo_dek
     else replicate 12 (CHR ''r''))), su_clock = (\<lambda>i. 0), su_temporary = ''protect-1.tmp'', su_modified = 0\<rparr>"

lemma demo_store_simps [simp]:
  "sv_ops (demo_store r root) = memory_protected_ops" "sv_repo (demo_store r root) = r"
  "sv_keys (demo_store r root) = local_keys demo_platform demo_keyring" "sv_root (demo_store r root) = root"
  "sv_max_plaintext (demo_store r root) = 1000"
  by (simp_all add: demo_store_def)

lemma demo_usable: "local_usable demo_platform demo_keyring"
  by (simp add: local_usable_def demo_gcm_correct demo_gcm_grows demo_keyring_def mget_def)

lemma demo_local_store: "local_memory_store demo_platform demo_keyring (demo_store r root)"
  by (simp add: local_memory_store_def demo_usable int64_max_def)

lemma demo_calm: "calm demo_surroundings"
  by (simp add: calm_def demo_surroundings_def demo_dek_def)

lemma demo_digest: "p_sha256 demo_platform demo_content = demo_content" "length (hex_encode demo_content) = 64"
  "is_ascii (hex_encode demo_content)"
  by (simp_all add: demo_platform_def demo_content_def is_ascii_hex)

lemma equal_fold_refl: "is_ascii s \<Longrightarrow> equal_fold P s s"
  by (simp add: equal_fold_def)

lemma demo_unwrap: "kv_unwrap (local_keys demo_platform demo_keyring) demo_wrapped ''kek'' ''v1'' = Inr demo_dek"
proof -
  have "p_gcm_open demo_platform k n (p_gcm_seal demo_platform k n p a) a = Some p" for k n p a
    using demo_gcm_correct by (simp add: gcm_correct_def)
  moreover have "p_gcm_seal demo_platform k n demo_dek a \<noteq> []" for k n a
    using demo_gcm_grows unfolding gcm_grows_def by (metis demo_dek_def le_zero_eq length_replicate list.size(3) zero_neq_numeral)
  ultimately show ?thesis
    by (simp add: local_keys_def local_Unwrap_def demo_keyring_def demo_wrapped_def localAEAD_def valid_aes_key_def
        aead_nonce_size_def demo_dek_def)
qed

lemma demo_opens: "openMetadata demo_platform no_faults demo_metadata (demo_store r demo_root)
    = Inr \<lparr>pf_metadata = demo_metadata, pf_bytes = demo_content\<rparr>"
proof (rule local_store.sealed_opens [OF demo_usable demo_gcm_correct, where dek = demo_dek and maxBytes = 1000 and ob = demo_object])
  show "validateMetadata demo_metadata 1000 = Inr ()"
    using demo_digest(2) by (simp add: validateMetadata_def demo_metadata_def demo_bare_def demo_wrapped_def)
  show "equal_fold demo_platform (hex_encode (p_sha256 demo_platform demo_content)) (md_plaintext_digest demo_metadata)"
    by (simp add: demo_digest demo_metadata_def demo_bare_def equal_fold_refl)
  show "kv_unwrap (local_keys demo_platform demo_keyring) (md_wrapped_dek demo_metadata)
      (kv_id (local_keys demo_platform demo_keyring)) (kv_version (local_keys demo_platform demo_keyring)) = Inr demo_dek"
    using demo_unwrap by (simp add: demo_metadata_def local_keys_def demo_keyring_def)
qed (simp_all add: demo_metadata_def demo_bare_def demo_object_def demo_root_def demo_content_def no_faults_def
    wrappingKeyIdentity_def local_keys_def demo_keyring_def)

lemma demo_vault_invar:
  assumes "lc_file c = demo_file" "lc_purged_at c = None"
  shows "catalog_invar (demo_vault c)"
proof -
  have "well_numbered ''file_1'' [demo_version]" by (simp add: well_numbered_def demo_version_def)
  then show ?thesis using assms
    by (simp add: catalog_invar_def demo_vault_def NewMemoryProtected_def good_file_def file_agrees_def version_ids_def
        mget_def demo_file_def demo_version_def)
qed

lemma demo_vault_simps [simp]:
  "ps_entries (demo_vault c) = [(''up_1'', demo_metadata)]" "ps_files (demo_vault c) = [(''file_1'', demo_file)]"
  "ps_versions (demo_vault c) = [(''file_1'', [demo_version])]" "ps_grants (demo_vault c) = [(''grant_1'', demo_grant)]"
  "ps_lifecycle (demo_vault c) = [(''file_1'', c)]" "ps_purges (demo_vault c) = []"
  by (simp_all add: demo_vault_def NewMemoryProtected_def)

section \<open>Witnesses\<close>

definition demo_request :: protect_request where
  "demo_request = \<lparr>rq_upload_id = ''up_1'', rq_owner_id = ''usr_1'', rq_plaintext_digest = hex_encode demo_content,
     rq_media_type = ''text/plain'', rq_inspection_record_id = ''ins_1'', rq_plaintext_size = 32\<rparr>"

theorem protect_open_roundtrip_witness:
  "\<exists>st' m. Protect demo_platform demo_surroundings demo_request (Some \<lparr>rr_bytes = demo_content, rr_error = None\<rparr>)
      (demo_store NewMemoryProtected []) = (st', Inr m)
    \<and> Open demo_platform no_faults ''usr_1'' ''up_1'' st' = Inr \<lparr>pf_metadata = m, pf_bytes = demo_content\<rparr>"
proof -
  have "valid_request demo_platform demo_request demo_content (sv_max_plaintext (demo_store NewMemoryProtected []))"
    using demo_digest by (simp add: valid_request_def demo_request_def equal_fold_refl demo_content_def)
  moreover have "map_of (ps_entries (sv_repo (demo_store NewMemoryProtected []))) (rq_upload_id demo_request) = None"
    by (simp add: NewMemoryProtected_def)
  ultimately show ?thesis
    using protect_open_roundtrip [OF demo_local_store demo_calm, of demo_request demo_content NewMemoryProtected "[]"]
    by (auto simp: demo_request_def)
qed





lemma demo_keyed: "entries_keyed (demo_vault c)"
  by (simp add: entries_keyed_def demo_metadata_def demo_bare_def)

text \<open>The keyring after a rotation, and the store with it: the file is still wrapped under the old version.\<close>

definition demo_rotated :: local_keyring where
  "demo_rotated = \<lparr>lk_keys = [(''v1'', replicate 32 (CHR ''k'')), (''v2'', replicate 32 (CHR ''l''))], lk_id = ''kek'', lk_version = ''v2''\<rparr>"

definition demo_rotated_store :: "memory_protected protected_service" where
  "demo_rotated_store = (demo_store (demo_vault demo_lifecycle) demo_root)\<lparr>sv_keys := local_keys demo_platform demo_rotated\<rparr>"

lemma demo_rotated_opens: "openMetadata demo_platform no_faults demo_metadata demo_rotated_store
    = Inr \<lparr>pf_metadata = demo_metadata, pf_bytes = demo_content\<rparr>"
proof -
  have "local_rotates_to demo_keyring demo_rotated"
    by (auto simp: local_rotates_to_def demo_keyring_def demo_rotated_def map_le_def)
  from lk.old_keys_unwrap [OF this demo_unwrap]
  have unwrap: "kv_unwrap (local_keys demo_platform demo_rotated) (md_wrapped_dek demo_metadata) ''kek'' ''v1'' = Inr demo_dek"
    "kv_unwrap (local_keys demo_platform demo_keyring) (md_wrapped_dek demo_metadata) ''kek'' ''v1'' = Inr demo_dek"
    using demo_unwrap by (simp_all add: demo_metadata_def)
  have "wrappingKeyIdentity demo_metadata = (''kek'', ''v1'')"
    by (simp add: wrappingKeyIdentity_def demo_metadata_def demo_bare_def)
  with unwrap have "openMetadata demo_platform no_faults demo_metadata demo_rotated_store
      = openMetadata demo_platform no_faults demo_metadata (demo_store (demo_vault demo_lifecycle) demo_root)"
    by (simp add: openMetadata_def demo_rotated_store_def cong: sum.case_cong option.case_cong prod.case_cong if_cong)
  then show ?thesis by (simp only: demo_opens)
qed

theorem rewrap_preserves_files_witness:
  "case RewrapDEKs (demo_surroundings\<lparr>su_draws := \<lambda>i. Inr (replicate 12 (CHR ''r''))\<rparr>) 10 (Some (\<lambda>m a b c d. Inr no_intent)) demo_rotated_store of
    (st', w, err) \<Rightarrow> \<exists>f'. Open demo_platform no_faults ''usr_1'' ''up_1'' st' = Inr f' \<and> pf_bytes f' = demo_content"
proof -
  obtain st' w err where run: "RewrapDEKs (demo_surroundings\<lparr>su_draws := \<lambda>i. Inr (replicate 12 (CHR ''r''))\<rparr>) 10
      (Some (\<lambda>m a b c d. Inr no_intent)) demo_rotated_store = (st', w, err)"
    by (metis prod_cases3)
  have keyed: "entries_keyed (sv_repo demo_rotated_store)" by (simp add: demo_rotated_store_def demo_keyed)
  have store: "local_memory_store demo_platform demo_rotated demo_rotated_store"
    by (simp add: local_memory_store_def demo_rotated_store_def int64_max_def local_usable_def demo_gcm_correct demo_gcm_grows
        demo_rotated_def mget_def)
  obtain cs where cs: "memory_ListDEKRewrapCandidates (lk_id demo_rotated) (lk_version demo_rotated) 10 (sv_repo demo_rotated_store) = Inr cs"
    by (auto simp: memory_ListDEKRewrapCandidates_def)
  have opens: "Open demo_platform no_faults ''usr_1'' ''up_1'' demo_rotated_store = Inr \<lparr>pf_metadata = demo_metadata, pf_bytes = demo_content\<rparr>"
    using demo_rotated_opens
    by (simp add: Open_def demo_rotated_store_def memory_protected_ops_def memory_FindByUpload_def) (simp add: demo_metadata_def demo_bare_def)
  from rewrap_preserves_files [OF run store keyed _ cs] opens run show ?thesis by fastforce
qed

theorem download_access_witness:
  "OpenCurrentAuthorized demo_platform no_faults 5 ''usr_2'' ''file_1'' (demo_store (demo_vault demo_lifecycle) demo_root)
     = Inr \<lparr>pf_metadata = demo_metadata, pf_bytes = demo_content\<rparr>
   \<and> OpenCurrentAuthorized demo_platform no_faults 5 ''usr_3'' ''file_1'' (demo_store (demo_vault demo_lifecycle) demo_root)
     = Inl ErrStoreNotFound"
proof -
  let ?st = "demo_store (demo_vault demo_lifecycle) demo_root"
  have ops: "sv_ops ?st = memory_protected_ops" by simp
  have yes: "may_download 5 ''usr_2'' ''file_1'' (sv_repo ?st) demo_file"
    by (simp add: may_download_def mget_def visible_def demo_lifecycle_def zero_lifecycle_def mvals_def demo_grant_def active_grant_def)
  have no: "\<nexists>fl. may_download 5 ''usr_3'' ''file_1'' (sv_repo ?st) fl"
    by (simp add: may_download_def demo_file_def mvals_def demo_grant_def)
  have entry: "entry_of_version (sv_repo ?st) (lf_current_version_id demo_file) = Some demo_metadata"
    by (simp add: entry_of_version_def mvals_def demo_metadata_def demo_bare_def demo_file_def)
  from download_access [OF ops, of 5 "''usr_2''" "''file_1''" demo_platform no_faults]
    download_access [OF ops, of 5 "''usr_3''" "''file_1''" demo_platform no_faults] yes no entry demo_opens
  show ?thesis by (simp del: demo_store_simps(2))
qed

text \<open>To the trash at 5, back at 6, and shared again at 7.\<close>

theorem trash_revokes_access_witness:
  "case MoveToTrashAudited (5 * second) ''usr_1'' ''file_1'' no_intent (demo_store (demo_vault demo_lifecycle) demo_root) of
     (st1, _, Inl _) \<Rightarrow> False
   | (st1, _, Inr c1) \<Rightarrow>
       (case memory_CreateGrant (7 * second) (Inr ''grant_2'') ''usr_1'' ''file_1'' \<lparr>rc_id = ''usr_2'', rc_name = [], rc_email = []\<rparr>
           PermissionDownload None (fst (memory_RestoreFromTrash ''usr_1'' ''file_1'' (6 * second) (sv_repo st1))) of
          (r2, _) \<Rightarrow> \<exists>i g. map_of (ps_grants r2) i = Some g \<and> active_grant (8 * second) g \<and> i \<noteq> ''grant_1'')"
proof -
  let ?st = "demo_store (demo_vault demo_lifecycle) demo_root"
  define c1 where "c1 = touched (5 * second) (demo_lifecycle\<lparr>lc_deleted_at := Some (5 * second), lc_purge_after := Some (5 * second + DefaultDeletionGracePeriod)\<rparr>)"
  define r1 where "r1 = (demo_vault demo_lifecycle)\<lparr>ps_lifecycle := [(''file_1'', c1)], ps_files := [(''file_1'', lc_file c1)],
    ps_grants := revoke_file_grants ''file_1'' (5 * second) [(''grant_1'', demo_grant)]\<rparr>"
  have now: "truncate_us (5 * second) = 5 * second" by (simp add: truncate_us_def)
  have moved: "MoveToTrashAudited (5 * second) ''usr_1'' ''file_1'' no_intent ?st = (?st\<lparr>sv_repo := r1\<rparr>, False, Inr c1)"
    unfolding MoveToTrashAudited_def Let_def now
    by (simp add: audited_or_def memory_protected_ops_def memory_lifecycle_ops_def memory_MoveToTrash_def Let_def
        demo_lifecycle_def zero_lifecycle_def demo_file_def retained_def r1_def c1_def)
  define r2 where "r2 = fst (memory_RestoreFromTrash ''usr_1'' ''file_1'' (6 * second) r1)"
  define rec where "rec = \<lparr>rc_id = ''usr_2'', rc_name = [], rc_email = []\<rparr>"
  define r3 where "r3 = fst (memory_CreateGrant (7 * second) (Inr ''grant_2'') ''usr_1'' ''file_1'' rec PermissionDownload None r2)"
  have r2: "ps_grants r2 = [(''grant_1'', demo_grant\<lparr>gr_revoked_at := Some (5 * second)\<rparr>)]"
    "ps_files r2 = [(''file_1'', lc_file c1\<lparr>lf_updated_at := 6 * second\<rparr>)]"
    "ps_lifecycle r2 = [(''file_1'', touched (6 * second) (c1\<lparr>lc_deleted_at := None, lc_purge_after := None\<rparr>))]"
    by (simp_all add: r2_def r1_def memory_RestoreFromTrash_def c1_def demo_lifecycle_def zero_lifecycle_def demo_file_def
        touched_def Let_def revoke_file_grants_def mapply_def demo_grant_def)
  define g2 where "g2 = \<lparr>gr_grant_id = ''grant_2'', gr_file_id = ''file_1'', gr_owner_id = ''usr_1'', gr_recipient_id = ''usr_2'',
    gr_recipient_name = [], gr_recipient_email = [], gr_permission = PermissionDownload, gr_expires_at = None, gr_created_at = 7 * second,
    gr_revoked_at = None\<rparr>"
  have r3: "ps_grants r3 = [(''grant_1'', demo_grant\<lparr>gr_revoked_at := Some (5 * second)\<rparr>), (''grant_2'', g2)]"
    "ps_files r3 = ps_files r2" "ps_lifecycle r3 = ps_lifecycle r2"
    by (simp_all add: r3_def memory_CreateGrant_def r2 rec_def g2_def Let_def c1_def touched_def demo_lifecycle_def zero_lifecycle_def demo_file_def)
  have run: "protected_run UNIV (sv_repo (?st\<lparr>sv_repo := r1\<rparr>)) r3"
  proof -
    have "protected_op (6 * second) r1 r2" unfolding r2_def by (rule protected_op.Untrash)
    moreover have "protected_op (7 * second) r2 r3" unfolding r3_def by (rule protected_op.Grant) (simp add: r2)
    ultimately show ?thesis unfolding protected_run_def
      by (intro rtranclp_trans [OF r_into_rtranclp r_into_rtranclp]) (auto simp: demo_store_def)
  qed
  have may: "may_download (8 * second) ''usr_2'' ''file_1'' r3 (lc_file c1\<lparr>lf_updated_at := 6 * second\<rparr>)"
    by (simp add: may_download_def r3 r2 mvals_def active_grant_def g2_def mget_def visible_def c1_def demo_lifecycle_def zero_lifecycle_def)
  have vis: "visible (lifecycle_of (sv_repo ?st) ''file_1'')" "wf_map (ps_grants (sv_repo ?st))"
    by (simp_all add: mget_def visible_def demo_lifecycle_def zero_lifecycle_def)
  have other: "''usr_2'' \<noteq> lf_owner_id (lc_file c1\<lparr>lf_updated_at := 6 * second\<rparr>)"
    by (simp add: c1_def touched_def demo_lifecycle_def demo_file_def)
  have ops: "sv_ops ?st = memory_protected_ops" by simp
  from trash_revokes_access [OF moved ops vis run may other] obtain i g where g: "map_of (ps_grants r3) i = Some g"
    "active_grant (8 * second) g" "map_of (ps_grants (sv_repo ?st)) i = None" by blast
  then have "i \<noteq> ''grant_1''" by auto
  with g have "\<exists>i g. map_of (ps_grants r3) i = Some g \<and> active_grant (8 * second) g \<and> i \<noteq> ''grant_1''" by blast
  moreover obtain res where "memory_CreateGrant (7 * second) (Inr ''grant_2'') ''usr_1'' ''file_1'' rec PermissionDownload None r2 = (r3, res)"
    unfolding r3_def by (metis prod.collapse)
  ultimately show ?thesis unfolding moved by (simp add: demo_store_def rec_def r2_def)
qed

theorem lifecycle_refines_machine_witness:
  "\<exists>c'. map_of (ps_lifecycle (fst (memory_SetLegalHold ''file_1'' True ''litigation'' (demo_vault demo_lifecycle)))) ''file_1'' = Some c'
    \<and> (\<lambda>c c'. \<exists>now \<in> {3}. lifecycle_step now c c')\<^sup>*\<^sup>* demo_lifecycle c'"
proof -
  have "protected_run {3} (demo_vault demo_lifecycle) (fst (memory_SetLegalHold ''file_1'' True ''litigation'' (demo_vault demo_lifecycle)))"
    by (rule protected_run_step [OF _ protected_op.Hold]) simp
  from lifecycle_refines_machine [OF this, of "''file_1''" demo_lifecycle] show ?thesis by simp
qed


text \<open>A file in the trash whose grace period is over.\<close>

definition demo_trashed :: lifecycle_file where
  "demo_trashed = demo_lifecycle\<lparr>lc_deleted_at := Some 0, lc_purge_after := Some second\<rparr>"

lemma demo_trashed_invar: "catalog_invar (demo_vault demo_trashed)"
  by (rule demo_vault_invar) (simp_all add: demo_trashed_def demo_lifecycle_def zero_lifecycle_def)


text \<open>A repository into which one file has been registered.\<close>

definition demo_registered :: memory_protected where
  "demo_registered = fst (memory_RegisterInitial (Inr ''file_1'') ''usr_1'' ''notes.txt'' demo_metadata NewMemoryProtected)"

lemma demo_register:
  "ps_versions demo_registered = [(''file_1'', [demo_version\<lparr>fv_operation_id := ''up_1''\<rparr>])]"
  "ps_files demo_registered = [(''file_1'', demo_file)]" "ps_lifecycle demo_registered = [(''file_1'', demo_lifecycle)]"
  by (simp_all add: demo_registered_def memory_RegisterInitial_def NewMemoryProtected_def mvals_def Let_def demo_metadata_def demo_bare_def
      demo_file_def demo_version_def demo_lifecycle_def zero_lifecycle_def)

theorem version_histories_witness:
  "case memory_Details ''usr_1'' ''file_1'' demo_registered of Inl _ \<Rightarrow> False
   | Inr d \<Rightarrow> filter fv_current (fd_versions d) = [hd (fd_versions d)] \<and> lf_current_version_id (fd_file d) = ''ver_1''"
proof -
  have run: "protected_run {0} NewMemoryProtected demo_registered" unfolding demo_registered_def
    by (rule protected_run_step [OF _ protected_op.Register]) (simp_all add: NewMemoryProtected_def)
  obtain d where d: "memory_Details ''usr_1'' ''file_1'' demo_registered = Inr d" "fd_file d = demo_file"
    by (simp add: memory_Details_def demo_register mget_def visible_def demo_lifecycle_def zero_lifecycle_def demo_file_def)
  from version_histories [OF run d(1)] d show ?thesis by (simp add: demo_file_def)
qed



theorem worker_purges_only_due_witness:
  "case ProcessDuePurgesAudited demo_platform demo_surroundings 10 ''system'' ''worker'' ''corr_1''
      (demo_store (demo_vault demo_trashed) demo_root) of
     (_, Inl _) \<Rightarrow> False
   | (st', Inr w) \<Rightarrow> wr_completed w + wr_failed w = wr_examined w \<and> wr_examined w \<le> 10"
proof -
  let ?st = "demo_store (demo_vault demo_trashed) demo_root"
  have "sv_ops ?st = memory_protected_ops" "catalog_invar (sv_repo ?st)" "wf_map (ps_lifecycle (sv_repo ?st))"
    by (simp_all add: demo_trashed_invar)
  from worker_purges_only_due [OF this, of demo_platform demo_surroundings 10 "''system''" "''worker''" "''corr_1''"]
  show ?thesis by auto
qed

theorem restore_reproduces_source_witness:
  "case RestoreAudited demo_platform demo_surroundings ''usr_1'' ''file_1'' ''ver_1'' ''restore-key'' no_intent
      (demo_store (demo_vault demo_lifecycle) demo_root) of
     (_, _, Inl _) \<Rightarrow> False
   | (st', _, Inr v) \<Rightarrow> fv_source_version_id v = ''ver_1'' \<and>
       (case OpenCurrent demo_platform no_faults ''usr_1'' ''file_1'' st' of Inl _ \<Rightarrow> False | Inr fl \<Rightarrow> pf_bytes fl = demo_content)"
proof -
  let ?st = "demo_store (demo_vault demo_lifecycle) demo_root"
  have trim: "trim_space ''restore-key'' = ''restore-key''" by (rule trim_space_plain) (simp add: plain_char_def)
  then have key: "restore_key_ok ''restore-key''" by (simp add: restore_key_ok_def)
  have found: "memory_FindVersion ''usr_1'' ''file_1'' ''ver_1'' (sv_repo ?st) = Inr demo_metadata"
    by (simp add: memory_FindVersion_def mget_def visible_def demo_lifecycle_def zero_lifecycle_def demo_file_def demo_version_def
        entry_of_version_def mvals_def) (simp add: demo_metadata_def demo_bare_def)
  have digest: "is_ascii (md_plaintext_digest demo_metadata)" using demo_digest(3) by (simp add: demo_metadata_def demo_bare_def)
  have long: "restore_operation demo_platform ''usr_1'' ''file_1'' ''ver_1'' k \<noteq> ''up_1''" for k
    by (simp add: restore_operation_def)
  have new: "map_of (ps_entries (sv_repo ?st)) (restore_operation demo_platform ''usr_1'' ''file_1'' ''ver_1'' (trim_space ''restore-key'')) = None"
    "\<forall>v \<in> set (versions_of (sv_repo ?st) ''file_1''). fv_operation_id v
       \<noteq> restore_operation demo_platform ''usr_1'' ''file_1'' ''ver_1'' (trim_space ''restore-key'')"
    using long by (simp_all add: mget_def demo_version_def not_sym)
  have "store_opaqueID ''ver'' (su_draws demo_surroundings 0) \<noteq> Inr ''ver_1''"
    by (simp add: store_opaqueID_def demo_surroundings_def b64_encode_def)
  then have fresh: "\<forall>m \<in> set (mvals (ps_entries (sv_repo ?st))). store_opaqueID ''ver'' (su_draws demo_surroundings 0) \<noteq> Inr (md_version_id m)"
    by (simp add: mvals_def demo_metadata_def demo_bare_def)
  have owner: "''usr_1'' \<noteq> []" by simp
  from restore_reproduces_source [OF demo_local_store demo_calm owner key found demo_opens digest new fresh]
  show ?thesis by fastforce
qed

theorem rotated_keyring_unwraps_witness:
  "case kv_wrap (local_keys demo_platform demo_keyring) (Inr (replicate 12 (CHR ''w''))) demo_dek of Inl _ \<Rightarrow> False
   | Inr w \<Rightarrow> kv_unwrap (local_keys demo_platform demo_rotated) w ''kek'' ''v1'' = Inr demo_dek"
proof -
  have k: "NewLocalKeyringProvider (lk_keys demo_keyring) ''kek'' ''v1'' = Inr demo_keyring"
    "NewLocalKeyringProvider (lk_keys demo_rotated) ''kek'' ''v2'' = Inr demo_rotated"
    "map_of (lk_keys demo_keyring) \<subseteq>\<^sub>m map_of (lk_keys demo_rotated)"
    by (auto simp: NewLocalKeyringProvider_def demo_keyring_def demo_rotated_def mget_def map_le_def)
  have lengths: "length (replicate 12 (CHR ''w'')) = 12" "length demo_dek = 32" by (simp_all add: demo_dek_def)
  from rotated_keyring_unwraps [OF k demo_gcm_correct demo_gcm_grows lengths] show ?thesis by force
qed

end
