(* ===== verification/IngestWitnesses.thy ===== *)
theory IngestWitnesses
  imports IngestProperties IngestDelivery ScannerProperties ProtectedWitnesses
begin

text \<open>
  A small upload manager on the stand-in platform, over the store of \<open>ProtectedWitnesses\<close>, and for each
  property of the ingest theories its application to it: one user uploads one file of 32 bytes.
\<close>

definition demo_env :: ingest_env where
  "demo_env = \<lparr>ie_faults = (\<lambda>_. None), ie_now = 0, ie_draws = (\<lambda>n. Inr (if n = 0 then ''aa'' else ''bb'')), ie_prepare = None, ie_deliver = False,
     ie_sniff = (\<lambda>_. ''text/plain''), ie_scan = (\<lambda>_. Inr \<lparr>sc_accepted = True, sc_reason = ''policy_accepted'', sc_tool = ''t'', sc_policy = ''p''\<rparr>),
     ie_surroundings = demo_surroundings, ie_file_draw = Inr ''ff''\<rparr>"

definition demo_config :: "memory_ingest \<Rightarrow> (memory_ingest, memory_protected) ingest_config" where
  "demo_config r = \<lparr>ic_quarantine_dir = ''/q'', ic_max_upload = 100, ic_inspection_ttl = 0, ic_has_scanner = True,
     ic_repository = (memory_ingest_ops, r), ic_default_quota = 0, ic_capacity = 0, ic_reserve = 0, ic_reservation_ttl = 0,
     ic_store = Some (demo_store NewMemoryProtected [])\<rparr>"

definition demo_manager :: "(memory_ingest, memory_protected) manager" where
  "demo_manager = \<lparr>mg_uploads = [], mg_idempotency = [], mg_quarantine = [], mg_max_upload = 100, mg_inspection_ttl = 5 * second,
     mg_ops = memory_ingest_ops, mg_repo = NewMemoryIngest, mg_default_quota = 1024 * 1024 * 1024, mg_capacity = 50 * 1024 * 1024 * 1024,
     mg_reserve = 5 * 1024 * 1024 * 1024, mg_reservation_ttl = hour, mg_owner_reservations = [], mg_owner_quotas = [],
     mg_store = Some (demo_store NewMemoryProtected []), mg_delivered = []\<rparr>"

lemma demo_start: "NewManager demo_env [] (demo_config NewMemoryIngest) = (Some demo_manager, Inr [])"
  by (simp add: NewManager_def demo_config_def checked_config_def demo_env_def ingest_LoadAll_def ingest_LoadQuotas_def NewMemoryIngest_def mvals_def
      fresh_manager_def demo_manager_def)

definition demo_source :: "arrival list" where
  "demo_source = [\<lparr>ar_cancelled = None, ar_block = demo_content, ar_error = None\<rparr>]"

definition demo_receive :: "(memory_ingest, memory_protected) manager \<times> (ingest_error + upload \<times> bool)" where
  "demo_receive = create demo_platform demo_env ''usr_1'' ''key-0001'' ''notes.txt'' ''text/plain'' (Some demo_source) 0 demo_manager"

definition demo_id :: string where "demo_id = ''upl'' @ ''_'' @ b64_encode ''aa''"

lemma demo_plain_text: "\<forall>c \<in> set ''notes.txt''. plain_char c" "\<forall>c \<in> set ''key-0001''. plain_char c" "\<forall>c \<in> set ''text/plain''. plain_char c"
  by (simp_all add: plain_char_def)

lemma demo_name: "safeDisplayName ''notes.txt'' = ''notes.txt''"
proof -
  have "map (\<lambda>c. if c = backslash then CHR ''/'' else c) ''notes.txt'' = ''notes.txt''"
  proof -
    have "c \<noteq> backslash" if "c \<in> set ''notes.txt''" for c
    proof
      assume "c = backslash"
      then have "of_char c = (92 :: nat)" by (simp add: backslash_def)
      with that show False by auto
    qed
    then show ?thesis by (intro map_idI) simp
  qed
  moreover have "base_path ''notes.txt'' = ''notes.txt''" by (simp add: base_path_def Let_def)
  ultimately show ?thesis
    unfolding safeDisplayName_def
    by (simp only: trim_space_plain [OF demo_plain_text(1)] plain_no_control [OF demo_plain_text(1)] Let_def) simp
qed

lemma demo_env_simps [simp]:
  "ie_faults demo_env = (\<lambda>_. None)" "ie_now demo_env = 0" "ie_draws demo_env 0 = Inr ''aa''" "ie_draws demo_env (Suc 0) = Inr ''bb''"
  "ie_prepare demo_env = None" "ie_sniff demo_env b = ''text/plain''" "ie_surroundings demo_env = demo_surroundings" "ie_file_draw demo_env = Inr ''ff''"
  by (simp_all add: demo_env_def)

definition demo_admitted :: "(memory_ingest, memory_protected) manager \<times> admission" where
  "demo_admitted = create_admit demo_platform demo_env ''usr_1'' ''key-0001'' ''notes.txt'' ''text/plain'' True 0 demo_manager"

lemma demo_key: "contains_any ''key-0001'' CRLFNUL = False" "contains_any ''text/plain'' CRLFNUL = False"
  using plain_no_control demo_plain_text by blast+

definition demo_corr :: string where "demo_corr = ''corr'' @ ''_'' @ b64_encode ''bb''"

definition demo_entry :: persisted_record where
  "demo_entry = new_entry demo_id demo_corr ''usr_1'' (hex_encode (p_sha256 demo_platform ''key-0001'')) ''notes.txt'' ''text/plain'' 0"

definition demo_task :: upload_task where
  "demo_task = \<lparr>tk_entry = demo_entry, tk_index = entry_index demo_entry, tk_expected = 0, tk_remaining = 101, tk_reserved = 0, tk_received = 0,
     tk_header = [], tk_content = []\<rparr>"

lemma demo_manager_simps [simp]:
  "mg_uploads demo_manager = []" "mg_idempotency demo_manager = []" "mg_quarantine demo_manager = []" "mg_max_upload demo_manager = 100"
  "mg_ops demo_manager = memory_ingest_ops" "mg_repo demo_manager = NewMemoryIngest" "mg_owner_reservations demo_manager = []"
  "mg_owner_quotas demo_manager = []" "mg_default_quota demo_manager = 1073741824" "mg_store demo_manager = Some (demo_store NewMemoryProtected [])"
  by (simp_all add: demo_manager_def)

lemma demo_empty_repo [simp]: "mr_records NewMemoryIngest = []" "mr_by_idempotency NewMemoryIngest = []" "mr_reservations NewMemoryIngest = []"
  by (simp_all add: NewMemoryIngest_def)

lemma demo_draw: "randomID ''upl'' (ie_draws demo_env 0) = Inr demo_id" "randomID ''corr'' (ie_draws demo_env 1) = Inr demo_corr"
  by (simp_all add: randomID_def demo_id_def demo_corr_def)

lemma demo_admitted_ok: "\<exists>m1. demo_admitted = (m1, Admitted demo_task) \<and> mg_quarantine m1 = [] \<and> mg_max_upload m1 = 100 \<and> mg_ops m1 = memory_ingest_ops
    \<and> map_of (mg_uploads m1) demo_id = Some demo_entry \<and> mg_uploads m1 = [(demo_id, demo_entry)] \<and> mg_owner_reservations m1 = []
    \<and> mg_default_quota m1 = 1073741824 \<and> mg_owner_quotas m1 = [] \<and> map_of (mr_records (mg_repo m1)) demo_id = Some demo_entry"
proof -
  have id: "record_id demo_entry = demo_id" by (simp add: demo_entry_def new_entry_def)
  have ix: "idempotency_index ''usr_1'' (hex_encode (p_sha256 demo_platform ''key-0001'')) = entry_index demo_entry"
    "idempotency_index (pr_owner_id demo_entry) (pr_idempotency_hash demo_entry) = entry_index demo_entry"
    by (simp_all add: demo_entry_def new_entry_def entry_index_def)
  show ?thesis
    by (simp add: demo_admitted_def create_admit_def Let_def demo_name demo_key admit_locked_def demo_draw [simplified] on_repo_def ix id
        ingest_Create_def admit_reserve_def demo_entry_def [symmetric] demo_task_def add64_def wrap64_def)
qed


lemma demo_stored:
  assumes "mg_quarantine m1 = []" "mg_max_upload m1 = 100" "mg_ops m1 = memory_ingest_ops" "mg_uploads m1 = [(demo_id, demo_entry)]"
    and "mg_owner_reservations m1 = []" "mg_default_quota m1 = 1073741824" "mg_owner_quotas m1 = []"
    and "map_of (mr_records (mg_repo m1)) demo_id = Some demo_entry"
  shows "\<exists>m2 u. create_store demo_platform demo_env demo_source demo_task m1 = (m2, Inr u)"
proof -
  have e: "record_id demo_entry = demo_id" "record_bytes demo_entry = 0" "pr_owner_id demo_entry = ''usr_1''"
    by (simp_all add: demo_entry_def new_entry_def)
  have len: "length demo_content = 32" by (simp add: demo_content_def)
  have take: "take 101 demo_content = demo_content" "demo_content \<noteq> []" using len by auto
  have usage: "ownerQuotaUsageLocked ''usr_1'' (m1\<lparr>mg_quarantine := q\<rparr>) = 0" for q
    by (simp add: ownerQuotaUsageLocked_def assms(4) mvals_def e sum64_def add64_def wrap64_def)
  show ?thesis
    by (simp add: create_store_def create_open_def assms demo_task_def demo_source_def receive_block_def Let_def take len reserve_block_def e usage
        ownerQuotaLocked_def mget_def add64_def wrap64_def create_check_def create_publish_def create_commit_def persistLifecycle_def on_repo_def
        ingest_Update_def)
qed

lemma demo_received: "\<exists>u. snd demo_receive = Inr (u, False)"
proof -
  from demo_admitted_ok obtain m1 where m1: "demo_admitted = (m1, Admitted demo_task)" and facts: "mg_quarantine m1 = []" "mg_max_upload m1 = 100"
    "mg_ops m1 = memory_ingest_ops" "mg_uploads m1 = [(demo_id, demo_entry)]" "mg_owner_reservations m1 = []" "mg_default_quota m1 = 1073741824"
    "mg_owner_quotas m1 = []" "map_of (mr_records (mg_repo m1)) demo_id = Some demo_entry" by blast
  from demo_stored [OF facts] m1 show ?thesis by (auto simp: demo_receive_def create_def demo_admitted_def)
qed


section \<open>Reception\<close>

lemma demo_invar: "ingest_invar demo_manager"
  by (simp add: ingest_invar_def catalogued_def)

lemma demo_fresh: "\<forall>i. randomID ''upl'' (ie_draws demo_env 0) = Inr i \<longrightarrow> fresh_upload i demo_manager"
  by (simp add: fresh_upload_def)

lemma demo_run: "create demo_platform demo_env ''usr_1'' ''key-0001'' ''notes.txt'' ''text/plain'' (Some demo_source) 0 demo_manager = demo_receive"
  by (simp add: demo_receive_def)


theorem upload_fails_clean_witness:
  "\<exists>m'. create demo_platform demo_env ''usr_1'' ''key-0001'' ''notes.txt'' ''text/plain'' (Some []) 0 demo_manager = (m', Inl ErrInvalidFile)
     \<and> undone demo_env demo_manager m'"
proof -
  obtain m' where m': "create demo_platform demo_env ''usr_1'' ''key-0001'' ''notes.txt'' ''text/plain'' (Some []) 0 demo_manager = (m', Inl ErrInvalidFile)"
    using demo_admitted_ok by (auto simp: create_def demo_admitted_def create_store_def create_open_def demo_task_def create_check_def)
  from upload_fails_clean [OF m' demo_invar demo_fresh] m' show ?thesis by (auto simp: int64_max_def)
qed

section \<open>Restart\<close>

definition demo_row :: "status \<Rightarrow> persisted_record" where
  "demo_row s = \<lparr>pr_upload = \<lparr>up_id = ''up_1'', up_name = ''notes.txt'', up_bytes = 32, up_declared = ''text/plain'', up_detected = ''text/plain'',
     up_status = s, up_progress = 60, up_reason = [], up_correlation_id = ''corr_1'', up_created_at = 0\<rparr>,
     pr_owner_id = ''usr_1'', pr_object = ''up_1.upload'', pr_digest = hex_encode demo_content, pr_idempotency_hash = replicate 64 (CHR ''a'')\<rparr>"

definition demo_rows :: "status \<Rightarrow> memory_ingest" where
  "demo_rows s = \<lparr>mr_records = [(''up_1'', demo_row s)], mr_by_idempotency = [(entry_index (demo_row s), ''up_1'')], mr_quotas = [], mr_reservations = []\<rparr>"

definition demo_directory :: directory where
  "demo_directory = [(''up_1.upload'', \<lparr>so_kind = RegularFile, so_bytes = demo_content, so_modified = 0\<rparr>)]"

definition demo_restarted :: "status \<Rightarrow> (memory_ingest, memory_protected) manager" where
  "demo_restarted s = demo_manager\<lparr>mg_uploads := [(''up_1'', demo_row s)], mg_idempotency := [(entry_index (demo_row s), ''up_1'')],
     mg_quarantine := demo_directory, mg_repo := demo_rows s\<rparr>"

lemma demo_row_simps [simp]:
  "record_id (demo_row s) = ''up_1''" "record_status (demo_row s) = s" "record_bytes (demo_row s) = 32" "pr_object (demo_row s) = ''up_1.upload''"
  "pr_owner_id (demo_row s) = ''usr_1''" "length (pr_idempotency_hash (demo_row s)) = 64" "pr_digest (demo_row s) = hex_encode demo_content"
  by (simp_all add: demo_row_def)

lemma demo_rows_ok: "repository_ok (demo_rows s)"
  by (auto simp: repository_ok_def demo_rows_def catalogued_def)

lemma demo_rows_sel [simp]: "mr_records (demo_rows s) = [(''up_1'', demo_row s)]"
  by (simp add: demo_rows_def)

lemma demo_config_simps [simp]:
  "ic_repository (demo_config r) = (memory_ingest_ops, r)" "ic_max_upload (demo_config r) = 100" "ic_store (demo_config r) = Some (demo_store NewMemoryProtected [])"
  by (simp_all add: demo_config_def)

lemma recover_one_kept:
  assumes "recordFromPersisted e = Inr e" "record_bytes e \<noteq> 0" "pending (record_status e)" "ie_faults env (StatQuarantine (pr_object e)) = None"
    and "map_of (mg_quarantine m) (pr_object e) = Some ob"
  shows "recover_one env e m = (m\<lparr>mg_uploads := mput (record_id e) e (mg_uploads m), mg_idempotency := mput (entry_index e) (record_id e) (mg_idempotency m)\<rparr>,
    Inr (if resumable (mg_store m \<noteq> None) (record_status e) then [record_id e] else []))"
  using assms by (simp add: recover_one_def Let_def entry_index_def)

lemma demo_restart:
  assumes "s = StatusAccepted \<or> s = StatusEncrypting"
  shows "NewManager demo_env demo_directory (demo_config (demo_rows s)) = (Some (demo_restarted s), Inr [ProtectBegin ''up_1''])"
proof -
  define K :: "(memory_ingest, memory_protected) ingest_config" where "K = \<lparr>ic_quarantine_dir = ''/q'', ic_max_upload = 100, ic_inspection_ttl = 5 * second,
     ic_has_scanner = True, ic_repository = (memory_ingest_ops, demo_rows s), ic_default_quota = 1024 * 1024 * 1024, ic_capacity = 50 * 1024 * 1024 * 1024,
     ic_reserve = 5 * 1024 * 1024 * 1024, ic_reservation_ttl = hour, ic_store = Some (demo_store NewMemoryProtected [])\<rparr>"
  have c: "checked_config (demo_config (demo_rows s)) = Inr K" by (simp add: checked_config_def demo_config_def K_def)
  have r: "recordFromPersisted (demo_row s) = Inr (demo_row s)" using assms by (auto simp: recordFromPersisted_def)
  have q: "map_of demo_directory ''up_1.upload'' = Some \<lparr>so_kind = RegularFile, so_bytes = demo_content, so_modified = 0\<rparr>" by (simp add: demo_directory_def)
  have load: "ingest_LoadAll (demo_rows s) = Inr [demo_row s]" "ingest_LoadQuotas (demo_rows s) = Inr []"
    by (simp_all add: ingest_LoadAll_def ingest_LoadQuotas_def mvals_def demo_rows_def)
  have "recover_one demo_env (demo_row s) (fresh_manager demo_directory [] K)
      = ((fresh_manager demo_directory [] K)\<lparr>mg_uploads := mput ''up_1'' (demo_row s) [], mg_idempotency := mput (entry_index (demo_row s)) ''up_1'' []\<rparr>,
         Inr [''up_1''])"
    using assms q r by (subst recover_one_kept) (auto simp: fresh_manager_def resumable_def K_def)
  moreover have "(fresh_manager demo_directory [] K)\<lparr>mg_uploads := mput ''up_1'' (demo_row s) [], mg_idempotency := mput (entry_index (demo_row s)) ''up_1'' []\<rparr>
      = demo_restarted s" by (simp add: fresh_manager_def K_def demo_restarted_def demo_manager_def)
  ultimately have one: "recover_one demo_env (demo_row s) (fresh_manager demo_directory [] K) = (demo_restarted s, Inr [''up_1''])" by simp
  have "ic_repository K = (memory_ingest_ops, demo_rows s)" by (simp add: K_def)
  moreover have "resumed_job (demo_restarted s) ''up_1'' = ProtectBegin ''up_1''"
    using assms by (auto simp: resumed_job_def demo_restarted_def mget_def)
  ultimately show ?thesis by (simp add: NewManager_def c load one)
qed

lemma demo_reachable: "s = StatusAccepted \<or> s = StatusEncrypting \<Longrightarrow> reachable_pool demo_platform True ([ProtectBegin ''up_1''], demo_restarted s)"
  unfolding reachable_pool_def
  by (rule exI [of _ demo_env], rule exI [of _ demo_directory], rule exI [of _ "demo_config (demo_rows s)"], rule exI [of _ "demo_rows s"],
      rule exI [of _ "demo_restarted s"], rule exI [of _ "[ProtectBegin ''up_1'']"])
    (simp add: demo_restart demo_rows_ok int64_max_def)

theorem restart_classifies_witness:
  "recovered_entry [] (demo_row StatusAccepted) = set_outcome StatusFailed 100 ''quarantine_object_missing'' (demo_row StatusAccepted)
   \<and> map_of (mg_uploads (demo_restarted StatusAccepted)) ''up_1'' = Some (recovered_entry demo_directory (demo_row StatusAccepted))"
  using restart_classifies [OF demo_restart [of StatusAccepted], of "demo_rows StatusAccepted" "''up_1''"] demo_rows_ok [of StatusAccepted]
  by (simp add: recovered_entry_def)

theorem verdicts_match_repository_witness:
  "\<exists>r. map_of (mr_records (mg_repo (demo_restarted StatusAccepted))) ''up_1'' = Some r \<and> pr_upload r = pr_upload (demo_row StatusAccepted)"
  using verdicts_match_repository [OF demo_reachable [of StatusAccepted], of "''usr_1''" "''up_1''" "pr_upload (demo_row StatusAccepted)"]
  by (auto simp: Get_def demo_restarted_def)


section \<open>The pool\<close>




lemma demo_calm_ingest: "calm_ingest demo_env"
  using demo_calm by (simp add: calm_ingest_def)

text \<open>The goroutine of the restarted upload up to the point where the protected copy is registered.\<close>

lemma demo_protected:
  "\<exists>m :: (memory_ingest, memory_protected) manager. reachable_pool demo_platform True ([ProtectFinish ''up_1''], m)"
proof -
  define e where "e = set_outcome StatusEncrypting 85 ''protection_in_progress'' (demo_row StatusAccepted)"
  have goes: "reachable_pool demo_platform True ([j'], m')"
    if "reachable_pool demo_platform True ([j], m :: (memory_ingest, memory_protected) manager)" "job_step demo_platform demo_env j m = (m', j')" "j' \<noteq> Finished" for j m m' j'
  proof -
    have "pool_step demo_platform ([j], m) ([j'], m')"
      using go_step.Go [OF that(2), of "[]" "[]"] that(3) by (simp add: pool_step.Job running_def)
    with that(1) show ?thesis unfolding reachable_pool_def by (meson rtranclp.rtrancl_into_rtrancl)
  qed
  have u0: "under_inspection ''up_1'' (demo_row StatusAccepted) demo_content (demo_store NewMemoryProtected []) (demo_restarted StatusAccepted)"
    by (simp add: under_inspection_def demo_restarted_def demo_directory_def)
  obtain m1 where m1: "job_step demo_platform demo_env (ProtectBegin ''up_1'') (demo_restarted StatusAccepted) = (m1, ProtectStarted e)"
    "under_inspection ''up_1'' e demo_content (demo_store NewMemoryProtected []) m1"
    using under_track [OF u0, of "set_outcome StatusEncrypting 85 ''protection_in_progress''" ProtectStarted]
    by (auto simp: protect_begin_def e_def demo_restarted_def)
  have id: "record_id e = ''up_1''" by (simp add: e_def)
  obtain m2 where m2: "job_step demo_platform demo_env (ProtectStarted e) m1 = (m2, Protecting e)"
    "under_inspection ''up_1'' e demo_content (demo_store NewMemoryProtected []) m2"
    using under_persist [OF m1(2) demo_calm_ingest id] by (auto simp: protect_started_def)
  have "valid_request demo_platform (request_of e) demo_content (sv_max_plaintext (demo_store NewMemoryProtected []))"
    by (simp add: valid_request_def request_of_def e_def set_outcome_def demo_row_def is_ascii_hex equal_fold_def demo_digest) (simp add: demo_content_def)
  from protect_step [OF m2(2) demo_calm_ingest demo_local_store this] obtain st' where
    m3: "job_step demo_platform demo_env (Protecting e) m2 = (m2\<lparr>mg_store := Some st'\<rparr>, ProtectFinish ''up_1'')"
    by (auto simp: NewMemoryProtected_def mvals_def)
  have "reachable_pool demo_platform True ([ProtectFinish ''up_1''], m2\<lparr>mg_store := Some st'\<rparr>)"
    using goes [OF goes [OF goes [OF demo_reachable [of StatusAccepted] m1(1)] m2(1)] m3] by simp
  then show ?thesis by blast
qed

definition demo_failing :: ingest_env where
  "demo_failing = demo_env\<lparr>ie_prepare := Some (\<lambda>_. Inl ''outbox'')\<rparr>"

theorem stored_before_commit_witness:
  "\<exists>m :: (memory_ingest, memory_protected) manager. \<exists>e r. let m' = fst (job_step demo_platform demo_env (ProtectFinish ''up_1'') m) in
     Get (pr_owner_id e) ''up_1'' m' = Inr (pr_upload e) \<and> record_status e = StatusStored
     \<and> map_of (mr_records (mg_repo m')) ''up_1'' = Some r \<and> record_status r = StatusEncrypting"
proof -
  obtain m :: "(memory_ingest, memory_protected) manager" where m: "reachable_pool demo_platform True ([ProtectFinish ''up_1''], m)"
    using demo_protected by blast
  obtain m' j where step: "job_step demo_platform demo_env (ProtectFinish ''up_1'') m = (m', j)" by fastforce
  have "ie_prepare demo_failing = Some (\<lambda>_. Inl ''outbox'')" "ie_faults demo_failing RemoveQuarantine = None" by (simp_all add: demo_failing_def)
  from stored_before_commit [OF m _ step this] obtain e r where
    "Get (pr_owner_id e) ''up_1'' m' = Inr (pr_upload e)" "record_status e = StatusStored" "map_of (mr_records (mg_repo m')) ''up_1'' = Some r"
    "record_status r = StatusEncrypting" by auto
  with step show ?thesis by (intro exI [of _ m] exI [of _ e] exI [of _ r]) (simp del: job_step.simps)
qed

section \<open>From upload to download\<close>

theorem upload_to_download_witness:
  "\<exists>u m2 st' md. snd demo_receive = Inr (u, False) \<and> inspect demo_platform demo_env (up_id u) (fst demo_receive) = m2
     \<and> mg_store m2 = Some st' \<and> Open demo_platform no_faults ''usr_1'' (up_id u) st' = Inr \<lparr>pf_metadata = md, pf_bytes = demo_content\<rparr>"
proof -
  obtain u where u: "snd demo_receive = Inr (u, False)" using demo_received by blast
  then have run: "create demo_platform demo_env ''usr_1'' ''key-0001'' ''notes.txt'' ''text/plain'' (Some demo_source) 0 demo_manager = (fst demo_receive, Inr (u, False))"
    by (simp add: demo_run prod_eq_iff)
  have content: "concat (map ar_block (case Some demo_source of None \<Rightarrow> [] | Some as \<Rightarrow> as)) = demo_content" by (simp add: demo_source_def)
  have empty: "map_of (ps_entries (sv_repo (demo_store NewMemoryProtected []))) (up_id u) = None"
    "\<forall>v. store_opaqueID ''ver'' (su_draws (ie_surroundings demo_env) 0) = Inr v \<longrightarrow>
       v \<notin> lf_current_version_id ` set (mvals (ps_files (sv_repo (demo_store NewMemoryProtected []))))"
    by (simp_all add: NewMemoryProtected_def mvals_def)
  have scan: "\<forall>ev. \<exists>r. ie_scan demo_env ev = Inr r \<and> sc_accepted r" by (simp add: demo_env_def)
  have bounds: "0 \<le> mg_max_upload demo_manager" "mg_max_upload demo_manager < int64_max"
    "mg_max_upload demo_manager \<le> sv_max_plaintext (demo_store NewMemoryProtected [])" "length (p_sha256 demo_platform demo_content) = 32"
    by (simp_all add: int64_max_def demo_digest) (simp add: demo_content_def)
  from upload_to_download [OF run demo_invar demo_fresh bounds(1,2) _ demo_local_store bounds(3) _ _ empty demo_calm_ingest scan] bounds(4)
  show ?thesis unfolding content using u by auto
qed

section \<open>The scanner\<close>

definition demo_connection :: "string \<Rightarrow> connection" where
  "demo_connection reply = \<lparr>cn_accepts = [Some 3], cn_reply = Some (reply @ NUL), cn_received = []\<rparr>"

definition demo_parser :: time_parser where
  "demo_parser layout stamp = (if layout = ''Mon Jan _2 15:04:05 2006'' then Some 0 else None)"

definition demo_scanner :: clamd_scanner where
  "demo_scanner = \<lparr>cl_network = ''tcp'', cl_address = ''clamd:3310'', cl_max_stream = 100, cl_dial_timeout = second, cl_io_timeout = second, cl_max_age = hour\<rparr>"

definition demo_evidence :: evidence where
  "demo_evidence = \<lparr>ev_name = ''notes.txt'', ev_digest = [], ev_detected = ''text/plain'', ev_object = ''up_1.upload''\<rparr>"

definition demo_scan :: "bytes \<times> (ingest_error + scan_result)" where
  "demo_scan = clamd_Inspect demo_parser (Some (demo_connection ''ClamAV 1.4/27000/now'')) (Some (demo_connection ''stream: OK''))
     (Some [(''hello'', False), ([], False)]) 0 demo_evidence demo_scanner"

lemma demo_record:
  assumes "\<forall>ch \<in> set reply. of_char ch \<noteq> (0 :: nat)" "length reply < 100" "cn_reply c = Some (reply @ NUL)"
  shows "readClamdRecord c = Some reply"
proof -
  define z where "z = (char_of (0 :: nat) :: char)"
  have nul: "NUL = [z]" by (simp add: NUL_def byte_str_def z_def)
  have "\<forall>ch \<in> set reply. ch \<noteq> z" using assms(1) by (auto simp: z_def)
  then have tw: "takeWhile (\<lambda>b. b \<noteq> z) (reply @ [z]) = reply" by (simp add: takeWhile_append2)
  have tk: "take (clamdMaxReplySize + 1) (reply @ [z]) = reply @ [z]" using assms(2) by (simp add: clamdMaxReplySize_def)
  have "clamdMaxReplySize = 8192" by (simp add: clamdMaxReplySize_def)
  with assms(2) show ?thesis
    unfolding readClamdRecord_def assms(3) nul option.case tk Let_def z_def [symmetric] tw by simp
qed

lemma demo_write:
  assumes "v \<noteq> []" "cn_accepts c = [] \<or> cn_accepts c = [Some 3]"
  shows "writeAll v c = (c\<lparr>cn_accepts := [], cn_received := cn_received c @ v\<rparr>, True)"
proof -
  have "writeAll w (c\<lparr>cn_accepts := [], cn_received := r\<rparr>) = (c\<lparr>cn_accepts := [], cn_received := r @ w\<rparr>, True)" for w r
    by (simp add: writeAll.simps)
  then show ?thesis using assms by (auto simp: writeAll.simps [of v c])
qed

lemma demo_command: "command ''VERSION'' (Some (demo_connection ''ClamAV 1.4/27000/now'')) = Some ''ClamAV 1.4/27000/now''"
  by (simp add: command_def demo_write demo_connection_def NUL_def byte_str_def)
    (rule demo_record, simp_all add: NUL_def byte_str_def)

lemma demo_version: "parseClamdVersion demo_parser ''ClamAV 1.4/27000/now'' = Some (''1.4'', ''27000'', 0)"
  by (simp add: parseClamdVersion_def clamd_prefix_def safeVersionToken_def version_char_def ascii_class_def demo_parser_def)

lemma demo_scan_accepts: "\<exists>received r. demo_scan = (received, Inr r) \<and> sc_accepted r"
proof -
  have sig: "signatureStatus demo_parser (Some (demo_connection ''ClamAV 1.4/27000/now'')) 0 demo_scanner = (''1.4'', ''27000'', Some 0, True)"
    by (simp add: signatureStatus_def demo_command demo_version time_sub_def int64_min_def int64_max_def demo_scanner_def)
  have w: "writeChunk ''hello'' c = (c\<lparr>cn_accepts := [], cn_received := cn_received c @ be32 5 @ ''hello''\<rparr>, True)"
    "writeChunk [] c = (c\<lparr>cn_accepts := [], cn_received := cn_received c @ be32 0\<rparr>, True)" if "cn_accepts c = []" for c
  proof -
    have "be32 n \<noteq> []" for n by (metis length_be32 list.size(3) zero_neq_numeral)
    then show "writeChunk ''hello'' c = (c\<lparr>cn_accepts := [], cn_received := cn_received c @ be32 5 @ ''hello''\<rparr>, True)"
      "writeChunk [] c = (c\<lparr>cn_accepts := [], cn_received := cn_received c @ be32 0\<rparr>, True)"
      using that by (simp_all add: writeChunk_def demo_write)
  qed
  have reply: "readClamdRecord (demo_connection ''stream: OK''\<lparr>cn_accepts := [], cn_received := x\<rparr>) = Some ''stream: OK''" for x
    by (rule demo_record) (simp_all add: demo_connection_def)
  have c: "cn_accepts (demo_connection r) = [Some 3]" "cn_received (demo_connection r) = []" "cl_max_stream demo_scanner = 100" "ev_object demo_evidence \<noteq> []" for r
    by (simp_all add: demo_connection_def demo_scanner_def demo_evidence_def)
  show ?thesis
    by (simp add: demo_scan_def clamd_Inspect_def sig c demo_write w add64_def wrap64_def reply clamd_verdict_def suffix_def)
qed

theorem accepted_means_scanned_witness:
  "\<exists>frames. fst demo_scan = ''zINSTREAM'' @ NUL @ frames \<and> instream_parse 3 frames = Some ''hello''"
proof -
  obtain received r where run: "demo_scan = (received, Inr r)" "sc_accepted r" using demo_scan_accepts by blast
  have c: "cn_received (demo_connection x) = []" for x by (simp add: demo_connection_def)
  have "0 \<le> cl_max_stream demo_scanner" "cl_max_stream demo_scanner \<le> int64_max - int clamdChunkBytes"
    "\<forall>(b, failed) \<in> set [(''hello'', False), ([], False)]. length b \<le> clamdChunkBytes"
    by (simp_all add: demo_scanner_def int64_max_def clamdChunkBytes_def)
  from accepted_means_scanned [OF run(1) [unfolded demo_scan_def] run(2) c this] obtain frames where
    f: "received = ''zINSTREAM'' @ NUL @ frames"
    "instream_parse (length [(''hello'', False), ([], False)] + 1) frames = Some (concat (map fst [(''hello'', False), ([], False)]))" by blast
  have eq: "length [(''hello'', False), ([], False)] + 1 = 3" "concat (map fst [(''hello'', False), ([], False)]) = ''hello''" by simp_all
  from f [unfolded eq] run(1) show ?thesis by (metis fst_conv)
qed

section \<open>Capacity and orphans\<close>

definition demo_reservation :: capacity_request where
  "demo_reservation = \<lparr>cr_upload_id = ''up_2'', cr_owner_id = ''usr_1'', cr_bytes = 40, cr_owner_quota = 72, cr_storage_capacity = 100,
     cr_storage_reserve = 10, cr_now = 5, cr_expires_at = 9\<rparr>"

theorem reservations_within_limits_witness:
  "\<exists>r'. ingest_ReserveCapacity demo_reservation (demo_rows StatusAccepted) = (r', Inr ()) \<and> committed (\<lambda>_. True) r' \<le> 90"
proof -
  define live where "live = (demo_rows StatusAccepted)\<lparr>mr_reservations := live_reservations (cr_now demo_reservation) (mr_reservations (demo_rows StatusAccepted))\<rparr>"
  have live: "live = demo_rows StatusAccepted" by (simp add: live_def demo_rows_def live_reservations_def mretain_def)
  have none: "mr_reservations (demo_rows StatusAccepted) = []" by (simp add: demo_rows_def)
  have sums: "committed (\<lambda>_. True) live = 32" "committed (\<lambda>o'. o' = ''usr_1'') live = 32"
    by (simp_all add: live committed_def unreserved_usage_def reserved_bytes_def none countsTowardQuota_def)
  have plausible: "plausible live (cr_bytes demo_reservation)"
    using sums by (simp add: plausible_def live mvals_def none demo_reservation_def int64_max_def)
  obtain r' res where run: "ingest_ReserveCapacity demo_reservation (demo_rows StatusAccepted) = (r', res)" by fastforce
  have fields: "0 < cr_bytes demo_reservation" "0 < cr_owner_quota demo_reservation" "0 \<le> cr_storage_reserve demo_reservation"
    "cr_storage_reserve demo_reservation < cr_storage_capacity demo_reservation" "cr_storage_capacity demo_reservation \<le> int64_max"
    "cr_now demo_reservation < cr_expires_at demo_reservation" "map_of (mr_reservations live) (cr_upload_id demo_reservation) = None"
    "cr_owner_id demo_reservation = ''usr_1''" "cr_bytes demo_reservation = 40" "cr_owner_quota demo_reservation = 72"
    "cr_storage_capacity demo_reservation = 100" "cr_storage_reserve demo_reservation = 10"
    by (simp_all add: demo_reservation_def live none int64_max_def)
  from reservations_within_limits [OF run live_def fields(1-6) plausible fields(7)] sums fields(8-12) run show ?thesis by auto
qed

definition demo_orphan :: stored_object where
  "demo_orphan = \<lparr>so_kind = RegularFile, so_bytes = ''x'', so_modified = - hour\<rparr>"

theorem orphan_deletion_is_exact_witness:
  "let m = demo_manager\<lparr>mg_quarantine := [(''old'', demo_orphan)]\<rparr>;
       token = orphan_token demo_platform ''quarantine'' ''old'' 1 (- hour)
   in mg_quarantine (fst (quarantine_DeleteOrphan demo_platform no_faults token hour 0 m)) = []
     \<and> (\<forall>e \<in> set (mvals (mg_uploads m)). pr_object e \<noteq> ''old'')"
proof -
  define m where "m = demo_manager\<lparr>mg_quarantine := [(''old'', demo_orphan)]\<rparr>"
  define token where "token = orphan_token demo_platform ''quarantine'' ''old'' 1 (- hour)"
  have o1: "object_size demo_orphan = 1" "truncate_us (so_modified demo_orphan) = - hour" "so_kind demo_orphan = RegularFile"
    by (simp_all add: demo_orphan_def object_size_def truncate_us_def)
  obtain m' res where run: "quarantine_DeleteOrphan demo_platform no_faults token hour 0 m = (m', res)" by fastforce
  have "m' \<noteq> m"
  proof -
    have "scan_orphans demo_platform no_faults ''quarantine'' [] hour 0 [(''old'', demo_orphan)]
        = Inr [candidate_of demo_platform ''quarantine'' hour 0 ''old'' demo_orphan]" by (simp add: o1 no_faults_def)
    moreover have "unchanged [(''old'', demo_orphan)] ''old'' 1 (- hour)" by (simp add: unchanged_def lstat_def o1)
    moreover have "tracked_objects m = []" by (simp add: m_def tracked_objects_def mvals_def)
    ultimately have "mg_quarantine m' = []"
      using run by (simp add: m_def quarantine_DeleteOrphan_def orphan_Delete_def orphan_List_def o1 token_def no_faults_def mdelete_def)
        (auto simp: m_def quarantine_DeleteOrphan_def)
    then show ?thesis by (auto simp: m_def)
  qed
  with orphan_deletion_is_exact [OF run] obtain name ob where r: "m' = m\<lparr>mg_quarantine := mdelete name (mg_quarantine m)\<rparr>"
    "map_of (mg_quarantine m) name = Some ob" "\<forall>e \<in> set (mvals (mg_uploads m)). pr_object e \<noteq> name" by blast
  then have "name = ''old''" by (auto simp: m_def split: if_splits)
  with r run show ?thesis unfolding Let_def m_def [symmetric] token_def [symmetric] by (simp add: m_def mdelete_def)
qed

end
