(* ===== verification/ApiTypes.thy ===== *)
theory ApiTypes
  imports RateLimiter AuditService IdentityMfa ProtectedLifecycle ProtectedMaintenance IngestAdmin IngestScanner
begin

text \<open>
  What the HTTP handlers of \<open>internal/api/server.go\<close> are written in: requests, replies, the state of the
  server, reading JSON bodies and query values, and the way a handler ends early once it has written an
  answer. The handlers themselves follow in \<open>ApiGuards\<close>, \<open>ApiIdentity\<close>, \<open>ApiFiles\<close> and \<open>ApiAdmin\<close>.
\<close>

section \<open>Requests\<close>

text \<open>
  A request as the handlers see it. \<open>Header.Get\<close>, \<open>PathValue\<close> and \<open>URL.Query().Get\<close> answer the empty
  string for what is absent. The body is given by what successive calls of the JSON decoder read from
  it, an error text or a value, behind the limit of 1 MB; a form by what successive calls of \<open>NextPart\<close>
  give, or the error of \<open>MultipartReader\<close>, behind the limit of the request size.
\<close>

datatype json = JNull | JBool bool | JNumber string | JString string | JArray "json list" | JObject "(string \<times> json) list"

record form_part =
  fp_form_name :: string
  fp_file_name :: string
  fp_content_type :: string
  fp_source :: "arrival list"

record request =
  rq_method :: string
  rq_segments :: "string list"
  rq_path_value :: "string \<Rightarrow> string"
  rq_header :: "string \<Rightarrow> string"
  rq_query :: "string \<Rightarrow> string"
  rq_cookie :: "string option"
  rq_remote_addr :: string
  rq_tls :: bool
  rq_content_length :: int64
  rq_body :: "(string + json) list"
  rq_multipart :: "string + (string + form_part) list"
  rq_correlation :: string

text \<open>
  What the handlers take from outside, besides the state: the clock and the random source, by the number
  of the call within the handler (for a rewrapped version by its identifier), the surroundings of the stores, and functions of the standard library
  whose tables are not modelled: \<open>time.Parse\<close> with the RFC 3339 layout, \<open>net.SplitHostPort\<close> and
  \<open>mime.FormatMediaType\<close> for the attachment of a file name.
\<close>

record http_env =
  he_clock :: "nat \<Rightarrow> nat \<Rightarrow> time"
  he_draws :: "nat \<Rightarrow> nat \<Rightarrow> string + bytes"
  he_store :: "nat \<Rightarrow> surroundings"
  he_version_draw :: "string \<Rightarrow> (string + bytes) \<times> time"
  he_upload :: ingest_env
  he_disk :: faults
  he_volume :: "string + int \<times> int"
  he_scanner :: "(time \<Rightarrow> scanner_posture) option"
  he_scanner_connected :: bool
  he_parse_time :: "string \<Rightarrow> time option"
  he_host_of :: "string \<Rightarrow> string option"
  he_attachment :: "string \<Rightarrow> string"

section \<open>Reading JSON\<close>

text \<open>
  The structures a body is decoded into have fields of five types. \<open>readJSON\<close> takes the list of the
  fields with their initial values and answers it updated, or the text of an error; every handler
  drops a partly filled structure when there is an error.
\<close>

datatype field_value = TextField string | FlagField bool | NumberField int64 | TimeField "time option" | TextsField "string list"

text \<open>\<open>strconv.ParseInt(s, 10, 64)\<close> and, on a 64-bit system, \<open>strconv.Atoi\<close>.\<close>

definition ParseInt :: "string \<Rightarrow> int64 option" where
  "ParseInt s = (case atoi s of None \<Rightarrow> None
     | Some n \<Rightarrow> if int64_min \<le> n \<and> n \<le> int64_max then Some n else None)"

fun text_items :: "json list \<Rightarrow> string list option" where
  "text_items [] = Some []"
| "text_items (JString s # js) = map_option ((#) s) (text_items js)"
| "text_items (JNull # js) = map_option ((#) []) (text_items js)"
| "text_items (_ # js) = None"

fun decode_field :: "http_env \<Rightarrow> field_value \<Rightarrow> json \<Rightarrow> field_value option" where
  "decode_field env (TimeField t) JNull = Some (TimeField None)"
| "decode_field env (TextsField ts) JNull = Some (TextsField [])"
| "decode_field env v JNull = Some v"
| "decode_field env (TextField _) (JString s) = Some (TextField s)"
| "decode_field env (FlagField _) (JBool b) = Some (FlagField b)"
| "decode_field env (NumberField _) (JNumber n) = map_option NumberField (ParseInt n)"
| "decode_field env (TimeField _) (JString s) = map_option (\<lambda>t. TimeField (Some t)) (he_parse_time env s)"
| "decode_field env (TextsField _) (JArray js) = map_option TextsField (text_items js)"
| "decode_field env _ _ = None"

type_synonym fields = "(string, field_value) gomap"

text \<open>A key selects the field of the same name up to letter case; an unknown key is an error.\<close>

fun decode_members :: "platform \<Rightarrow> http_env \<Rightarrow> (string \<times> json) list \<Rightarrow> fields \<Rightarrow> string + fields" where
  "decode_members P env [] fs = Inr fs"
| "decode_members P env ((key, value) # rest) fs =
     (case find (\<lambda>(name, _). equal_fold P name key) fs of None \<Rightarrow> Inl (''json: unknown field '' @ key)
      | Some (name, old) \<Rightarrow>
          (case decode_field env old value of None \<Rightarrow> Inl ''json: cannot unmarshal''
           | Some new \<Rightarrow> decode_members P env rest (mput name new fs)))"

definition decode_struct :: "platform \<Rightarrow> http_env \<Rightarrow> json \<Rightarrow> fields \<Rightarrow> string + fields" where
  "decode_struct P env v fs =
     (case v of JNull \<Rightarrow> Inr fs | JObject ms \<Rightarrow> decode_members P env ms fs | _ \<Rightarrow> Inl ''json: cannot unmarshal'')"

definition readJSON :: "platform \<Rightarrow> http_env \<Rightarrow> request \<Rightarrow> fields \<Rightarrow> string + fields" where
  "readJSON P env rq fs =
     (case rq_body rq of [] \<Rightarrow> Inl ''EOF''
      | Inl e # _ \<Rightarrow> Inl e
      | Inr v # rest \<Rightarrow>
          (case decode_struct P env v fs of Inl e \<Rightarrow> Inl e
           | Inr fs' \<Rightarrow> if rest = [] then Inr fs' else Inl ''request must contain one JSON object''))"

fun text_of :: "field_value \<Rightarrow> string" where
  "text_of (TextField s) = s" | "text_of _ = []"

fun number_of :: "field_value \<Rightarrow> int64" where
  "number_of (NumberField n) = n" | "number_of _ = 0"

fun flag_of :: "field_value \<Rightarrow> bool" where
  "flag_of (FlagField b) = b" | "flag_of _ = False"

fun time_of :: "field_value \<Rightarrow> time option" where
  "time_of (TimeField t) = t" | "time_of _ = None"

fun texts_of :: "field_value \<Rightarrow> string list" where
  "texts_of (TextsField ts) = ts" | "texts_of _ = []"

definition field :: "string \<Rightarrow> fields \<Rightarrow> field_value" where
  "field name fs = mget (TextField []) fs name"

section \<open>Small functions of the server\<close>

definition validCSRF :: "string \<Rightarrow> string \<Rightarrow> bool" where
  "validCSRF provided expected =
     (if provided = [] \<or> length provided \<noteq> length expected then False else provided = expected)"

definition validCorrelationID :: "string \<Rightarrow> bool" where
  "validCorrelationID value \<longleftrightarrow> length value \<ge> 8 \<and> length value \<le> 80 \<and> \<not> contains_any value CRLFNUL"

definition randomCorrelationID :: "string + bytes \<Rightarrow> string" where
  "randomCorrelationID draw = (case draw of Inl _ \<Rightarrow> ''corr_unavailable'' | Inr raw \<Rightarrow> ''corr_'' @ b64_encode raw)"

definition correlationID :: "request \<Rightarrow> string" where
  "correlationID rq = (if rq_correlation rq = [] then ''corr_unavailable'' else rq_correlation rq)"

definition parsePositiveInt :: "string \<Rightarrow> int64 \<Rightarrow> int64" where
  "parsePositiveInt value fallback =
     (if value = [] then fallback
      else case ParseInt value of None \<Rightarrow> fallback | Some parsed \<Rightarrow> if parsed < 0 then fallback else parsed)"

definition clientAddress :: "http_env \<Rightarrow> request \<Rightarrow> string" where
  "clientAddress env rq = (case he_host_of env (rq_remote_addr rq) of Some host \<Rightarrow> host | None \<Rightarrow> rq_remote_addr rq)"

text \<open>\<open>parseAuditQuery\<close>: \<open>None\<close> is its error.\<close>

definition query_time :: "http_env \<Rightarrow> string \<Rightarrow> time option" where
  "query_time env value = (if value = [] then Some zero_time else he_parse_time env value)"

definition parseAuditQuery :: "http_env \<Rightarrow> request \<Rightarrow> query option" where
  "parseAuditQuery env rq =
     (let get = rq_query rq in
      case query_time env (get ''from'') of None \<Rightarrow> None
      | Some from_time \<Rightarrow>
     (case query_time env (get ''to'') of None \<Rightarrow> None
      | Some to_time \<Rightarrow>
          if from_time \<noteq> zero_time \<and> to_time \<noteq> zero_time \<and> to_time < from_time then None
          else Some \<lparr>q_search = get ''search'', q_actor_id = get ''actorId'', q_action = get ''action'',
                 q_resource_type = get ''resourceType'', q_outcome = get ''outcome'',
                 q_network_address = get ''ipAddress'', q_from = from_time, q_to = to_time,
                 q_limit = parsePositiveInt (get ''limit'') 50, q_offset = parsePositiveInt (get ''offset'') 0\<rparr>))"

text \<open>\<open>nextFilePart\<close>: the first part that is a file field with a name.\<close>

fun nextFilePart :: "(string + form_part) list \<Rightarrow> string + form_part" where
  "nextFilePart [] = Inl ''EOF''"
| "nextFilePart (Inl e # _) = Inl e"
| "nextFilePart (Inr p # ps) =
     (if fp_form_name p = ''file'' \<and> fp_file_name p \<noteq> [] then Inr p else nextFilePart ps)"

definition auditReason :: "auth_error \<Rightarrow> string" where
  "auditReason e =
     (case e of ErrEmailNotVerified \<Rightarrow> ''email_not_verified''
      | ErrInvalidCredentials \<Rightarrow> ''invalid_credentials''
      | ErrMFAInvalid \<Rightarrow> ''mfa_code_invalid''
      | ErrMFAChallenge \<Rightarrow> ''mfa_challenge_invalid_or_expired''
      | _ \<Rightarrow> ''authentication_error'')"

definition lifecycleDenialReason :: "store_error \<Rightarrow> string" where
  "lifecycleDenialReason e =
     (case e of ErrRetentionActive \<Rightarrow> ''retention_active''
      | ErrLegalHold \<Rightarrow> ''legal_hold_active''
      | ErrPurgeTooEarly \<Rightarrow> ''deletion_grace_active''
      | ErrNotInTrash \<Rightarrow> ''file_not_in_trash''
      | ErrStoreNotFound \<Rightarrow> ''file_not_found''
      | _ \<Rightarrow> ''lifecycle_policy_denied'')"

text \<open>The decimal rendering of an integer, as \<open>%d\<close> and \<open>strconv.Itoa\<close> give it.\<close>

fun decimal_digits :: "nat \<Rightarrow> string" where
  "decimal_digits n = (if n < 10 then [char_of (48 + n)] else decimal_digits (n div 10) @ [char_of (48 + n mod 10)])"

definition decimal :: "int \<Rightarrow> string" where
  "decimal n = (if n < 0 then ''-'' @ decimal_digits (nat (- n)) else decimal_digits (nat n))"

declare decimal_digits.simps [simp del]

end
