(* ===== verification/ApiTelemetry.thy ===== *)
theory ApiTelemetry
  imports ApiTypes
begin

text \<open>
  The metrics endpoint's registry, \<open>internal/api/telemetry.go\<close>: the collector's credential, the count
  of requests by bounded dimensions, and the text it renders. A \<open>uint64\<close> counter wraps. The sum of the
  request times is a \<open>float64\<close> that is added to in the order the requests end; the registry keeps that
  order and the rendering of the sum is an argument of \<open>renderHTTP\<close>.
\<close>

record telemetry_posture =
  tp_exporter_enabled :: bool
  tp_connected :: bool
  tp_scrapes_total :: int
  tp_last_scrape_at :: "time option"
  tp_stale_after_seconds :: int64

record http_metric_key =
  hk_method :: string
  hk_route :: string
  hk_status_class :: string

record http_metric_value =
  hv_count :: int
  hv_durations :: "duration list"

record telemetry_registry =
  tr_token_hash :: bytes
  tr_enabled :: bool
  tr_stale_after :: duration
  tr_requests :: "(http_metric_key, http_metric_value) gomap"
  tr_scrapes :: int
  tr_last_scrape :: "time option"

definition no_digest :: bytes where "no_digest = replicate 32 (char_of (0 :: nat))"

definition token_space :: string where
  "token_space = CHR '' '' # char_of (9 :: nat) # CRLFNUL"

definition newTelemetryRegistry :: "platform \<Rightarrow> string \<Rightarrow> duration \<Rightarrow> string + telemetry_registry" where
  "newTelemetryRegistry P token staleAfter =
     (let token = trim_space token in
      if token = []
      then Inr \<lparr>tr_token_hash = no_digest, tr_enabled = False, tr_stale_after = staleAfter, tr_requests = [],
             tr_scrapes = 0, tr_last_scrape = None\<rparr>
      else if length token < 32 \<or> length token > 256 \<or> contains_any token token_space
      then Inl ''metrics bearer token must contain 32 to 256 non-whitespace characters''
      else Inr \<lparr>tr_token_hash = p_sha256 P token, tr_enabled = True,
             tr_stale_after = (if staleAfter \<le> 0 then 5 * minute else staleAfter), tr_requests = [],
             tr_scrapes = 0, tr_last_scrape = None\<rparr>)"

definition authorized :: "platform \<Rightarrow> string \<Rightarrow> telemetry_registry \<Rightarrow> bool" where
  "authorized P header tr =
     (if \<not> tr_enabled tr \<or> \<not> prefix ''Bearer '' header then False
      else p_sha256 P (drop (length ''Bearer '') header) = tr_token_hash tr)"

definition safeMetricMethod :: "string \<Rightarrow> string" where
  "safeMetricMethod m =
     (if m \<in> {''GET'', ''POST'', ''PUT'', ''PATCH'', ''DELETE'', ''HEAD'', ''OPTIONS''} then m else ''OTHER'')"

text \<open>
  \<open>safeMetricRoute\<close>: a registered pattern is a method and a path; \<open>ServeMux\<close> answers the empty pattern
  where none matches. \<open>strings.Fields\<close> is written out for the strings without other white space than
  the blank, which the registered patterns are.
\<close>

fun blank_fields :: "string \<Rightarrow> string \<Rightarrow> string list" where
  "blank_fields word [] = (if word = [] then [] else [word])"
| "blank_fields word (c # cs) =
     (if c = CHR '' '' then (if word = [] then [] else [word]) @ blank_fields [] cs else blank_fields (word @ [c]) cs)"

definition safeMetricRoute :: "string \<Rightarrow> string" where
  "safeMetricRoute pattern =
     (let pattern = (case blank_fields [] pattern of [_, path] \<Rightarrow> path | _ \<Rightarrow> pattern)
      in if pattern = [] \<or> length pattern > 160 \<or> \<not> prefix ''/'' pattern then ''unmatched'' else pattern)"

definition uint64 :: "int \<Rightarrow> int" where "uint64 n = n mod 2 ^ 64"

definition metric_key :: "string \<Rightarrow> string \<Rightarrow> int \<Rightarrow> http_metric_key" where
  "metric_key m pattern status =
     \<lparr>hk_method = safeMetricMethod m, hk_route = safeMetricRoute pattern,
      hk_status_class = decimal (status div 100) @ ''xx''\<rparr>"

text \<open>What \<open>observe\<close> records once the request has been served.\<close>

definition observed :: "http_metric_key \<Rightarrow> duration \<Rightarrow> telemetry_registry \<Rightarrow> telemetry_registry" where
  "observed key elapsed tr =
     (let value = mget \<lparr>hv_count = 0, hv_durations = []\<rparr> (tr_requests tr) key
      in tr\<lparr>tr_requests := mput key \<lparr>hv_count = uint64 (hv_count value + 1),
            hv_durations = hv_durations value @ [elapsed]\<rparr> (tr_requests tr)\<rparr>)"

definition recordScrape :: "time \<Rightarrow> telemetry_registry \<Rightarrow> telemetry_registry" where
  "recordScrape now tr = tr\<lparr>tr_scrapes := uint64 (tr_scrapes tr + 1), tr_last_scrape := Some (truncate_us now)\<rparr>"

text \<open>Whole seconds of a duration, towards zero.\<close>

definition seconds_of :: "duration \<Rightarrow> int64" where
  "seconds_of d = quo d second"

definition telemetry_status :: "time \<Rightarrow> telemetry_registry \<Rightarrow> telemetry_posture" where
  "telemetry_status now tr =
     \<lparr>tp_exporter_enabled = tr_enabled tr,
      tp_connected = (case tr_last_scrape tr of None \<Rightarrow> False
        | Some t \<Rightarrow> tr_enabled tr \<and> time_sub now t \<le> tr_stale_after tr),
      tp_scrapes_total = tr_scrapes tr, tp_last_scrape_at = tr_last_scrape tr,
      tp_stale_after_seconds = seconds_of (tr_stale_after tr)\<rparr>"

section \<open>Rendering\<close>

text \<open>\<open>%q\<close> for text without control characters.\<close>

definition quoted :: "string \<Rightarrow> string" where
  "quoted s = CHR 0x22 # concat (map (\<lambda>c. if c = CHR 0x22 \<or> c = backslash then [backslash, c] else [c]) s) @ [CHR 0x22]"

definition NL :: string where "NL = [char_of (10 :: nat)]"

definition metric_labels :: "http_metric_key \<Rightarrow> string" where
  "metric_labels k = ''method='' @ quoted (hk_method k) @ '',route='' @ quoted (hk_route k)
     @ '',status_class='' @ quoted (hk_status_class k)"

definition sorted_metrics :: "telemetry_registry \<Rightarrow> (http_metric_key \<times> http_metric_value) list" where
  "sorted_metrics tr = sort_key (\<lambda>(k, _). (hk_route k, hk_method k, hk_status_class k)) (tr_requests tr)"

definition renderHTTP :: "(duration list \<Rightarrow> string) \<Rightarrow> telemetry_registry \<Rightarrow> string" where
  "renderHTTP seconds_sum tr =
     ''# HELP securestore_http_requests_total Completed HTTP requests by bounded route template.'' @ NL
     @ ''# TYPE securestore_http_requests_total counter'' @ NL
     @ concat (map (\<lambda>(k, v). ''securestore_http_requests_total{'' @ metric_labels k @ ''} '' @ decimal (hv_count v) @ NL) (sorted_metrics tr))
     @ ''# HELP securestore_http_request_duration_seconds Request processing time by bounded route template.'' @ NL
     @ ''# TYPE securestore_http_request_duration_seconds summary'' @ NL
     @ concat (map (\<lambda>(k, v).
          ''securestore_http_request_duration_seconds_sum{'' @ metric_labels k @ ''} '' @ seconds_sum (hv_durations v) @ NL
        @ ''securestore_http_request_duration_seconds_count{'' @ metric_labels k @ ''} '' @ decimal (hv_count v) @ NL) (sorted_metrics tr))
     @ ''# HELP securestore_telemetry_scrapes_total Successful authenticated metric scrapes.'' @ NL
     @ ''# TYPE securestore_telemetry_scrapes_total counter'' @ NL
     @ ''securestore_telemetry_scrapes_total '' @ decimal (tr_scrapes tr) @ NL"

record operational_metrics =
  om_uptime_seconds :: int64
  om_quarantine_bytes :: int64
  om_reserved_capacity_bytes :: int64
  om_storage_capacity_bytes :: int64
  om_storage_reserve_bytes :: int64
  om_scanner_signature_age_seconds :: int64
  om_scanner_signature_max_age_seconds :: int64
  om_pending_processing :: int
  om_failed_records :: int
  om_active_reservations :: int
  om_orphaned_quarantine_objects :: int
  om_protected_ciphertext_bytes :: int64
  om_audit_pending_evidence :: int64
  om_audit_anchor_lag_events :: int64
  om_protected_objects :: int
  om_protected_orphans :: int
  om_protected_missing :: int
  om_ingestion_durable :: bool
  om_protected_durable :: bool
  om_scanner_connected :: bool
  om_scanner_production_ready :: bool
  om_scanner_signatures_fresh :: bool
  om_key_service_connected :: bool
  om_key_service_production_ready :: bool
  om_key_service_hardware_backed :: bool
  om_audit_anchor_connected :: bool
  om_audit_anchor_production_ready :: bool
  om_audit_anchor_valid :: bool

definition zero_metrics :: operational_metrics where
  "zero_metrics = \<lparr>om_uptime_seconds = 0, om_quarantine_bytes = 0, om_reserved_capacity_bytes = 0, om_storage_capacity_bytes = 0,
     om_storage_reserve_bytes = 0, om_scanner_signature_age_seconds = 0, om_scanner_signature_max_age_seconds = 0, om_pending_processing = 0,
     om_failed_records = 0, om_active_reservations = 0, om_orphaned_quarantine_objects = 0, om_protected_ciphertext_bytes = 0,
     om_audit_pending_evidence = 0, om_audit_anchor_lag_events = 0, om_protected_objects = 0, om_protected_orphans = 0,
     om_protected_missing = 0, om_ingestion_durable = False, om_protected_durable = False, om_scanner_connected = False,
     om_scanner_production_ready = False, om_scanner_signatures_fresh = False, om_key_service_connected = False, om_key_service_production_ready = False,
     om_key_service_hardware_backed = False, om_audit_anchor_connected = False, om_audit_anchor_production_ready = False, om_audit_anchor_valid = False\<rparr>"

definition gauge :: "string \<Rightarrow> string \<Rightarrow> int \<Rightarrow> string" where
  "gauge name help value = ''# HELP '' @ name @ '' '' @ help @ NL @ ''# TYPE '' @ name @ '' gauge'' @ NL
     @ name @ '' '' @ decimal value @ NL"

definition bool_value :: "bool \<Rightarrow> int" where "bool_value b = (if b then 1 else 0)"

definition renderOperationalMetrics :: "operational_metrics \<Rightarrow> string" where
  "renderOperationalMetrics m = concat [
     gauge ''securestore_uptime_seconds'' ''Current API process uptime.''
       (om_uptime_seconds m),
     gauge ''securestore_ingestion_pending_records'' ''Uploads awaiting a terminal lifecycle state.''
       (om_pending_processing m),
     gauge ''securestore_ingestion_failed_records'' ''Durable failed upload records.''
       (om_failed_records m),
     gauge ''securestore_quarantine_bytes'' ''Measured regular-file bytes in quarantine.''
       (om_quarantine_bytes m),
     gauge ''securestore_quarantine_orphan_objects'' ''Unmatched regular objects in quarantine.''
       (om_orphaned_quarantine_objects m),
     gauge ''securestore_capacity_active_reservations'' ''Active durable upload capacity reservations.''
       (om_active_reservations m),
     gauge ''securestore_capacity_reserved_bytes'' ''Bytes held by active durable capacity reservations.''
       (om_reserved_capacity_bytes m),
     gauge ''securestore_capacity_configured_bytes'' ''Configured logical protected-storage pool.''
       (om_storage_capacity_bytes m),
     gauge ''securestore_capacity_safety_reserve_bytes'' ''Configured non-admissible safety reserve.''
       (om_storage_reserve_bytes m),
     gauge ''securestore_protected_objects'' ''Tracked encrypted storage objects.''
       (om_protected_objects m),
     gauge ''securestore_protected_ciphertext_bytes'' ''Tracked encrypted object bytes.''
       (om_protected_ciphertext_bytes m),
     gauge ''securestore_protected_orphan_objects'' ''Encrypted objects without active metadata.''
       (om_protected_orphans m),
     gauge ''securestore_protected_missing_objects'' ''Metadata records whose encrypted object is absent.''
       (om_protected_missing m),
     gauge ''securestore_audit_pending_evidence'' ''Committed audit intents awaiting signed-chain delivery.''
       (om_audit_pending_evidence m),
     gauge ''securestore_audit_anchor_connected'' ''Whether a checkpoint anchor is reachable.''
       (bool_value (om_audit_anchor_connected m)),
     gauge ''securestore_audit_anchor_production_ready'' ''Whether checkpoint anchoring is independent, immutable, and server-attested.''
       (bool_value (om_audit_anchor_production_ready m)),
     gauge ''securestore_audit_anchor_valid'' ''Whether the latest trusted anchor receipt agrees with the database checkpoint.''
       (bool_value (om_audit_anchor_valid m)),
     gauge ''securestore_audit_anchor_lag_events'' ''Number of verified audit events beyond the latest valid anchored checkpoint.''
       (om_audit_anchor_lag_events m),
     gauge ''securestore_ingestion_repository_durable'' ''Whether ingestion metadata uses durable persistence.''
       (bool_value (om_ingestion_durable m)),
     gauge ''securestore_protected_repository_durable'' ''Whether protected metadata uses durable persistence.''
       (bool_value (om_protected_durable m)),
     gauge ''securestore_scanner_connected'' ''Whether an inspection adapter is connected.''
       (bool_value (om_scanner_connected m)),
     gauge ''securestore_scanner_production_ready'' ''Whether scanner posture satisfies production requirements.''
       (bool_value (om_scanner_production_ready m)),
     gauge ''securestore_scanner_signatures_fresh'' ''Whether scanner signature timestamp evidence is within policy.''
       (bool_value (om_scanner_signatures_fresh m)),
     gauge ''securestore_scanner_signature_age_seconds'' ''Age of the scanner signature database timestamp, or zero when unavailable.''
       (om_scanner_signature_age_seconds m),
     gauge ''securestore_scanner_signature_max_age_seconds'' ''Maximum signature database age permitted by policy.''
       (om_scanner_signature_max_age_seconds m),
     gauge ''securestore_key_service_connected'' ''Whether the managed key-service control plane is reachable.''
       (bool_value (om_key_service_connected m)),
     gauge ''securestore_key_service_production_ready'' ''Whether managed key custody satisfies the production policy.''
       (bool_value (om_key_service_production_ready m)),
     gauge ''securestore_key_service_hardware_backed'' ''Whether the active wrapping key reports hardware-backed custody.''
       (bool_value (om_key_service_hardware_backed m))]"

definition metricsFromResources :: "admin_page \<Rightarrow> operational_metrics" where
  "metricsFromResources page =
     (let s = ap_summary page in
      zero_metrics\<lparr>om_quarantine_bytes := as_quarantine_bytes s, om_pending_processing := as_pending s,
        om_failed_records := mget 0 (as_status_counts s) StatusFailed, om_active_reservations := as_reservations s,
        om_reserved_capacity_bytes := as_reserved s, om_storage_capacity_bytes := as_capacity s,
        om_storage_reserve_bytes := as_reserve s, om_orphaned_quarantine_objects := as_orphaned_objects s,
        om_ingestion_durable := as_durable s\<rparr>)"

end
