(* ===== verification/ApiReplies.thy ===== *)
theory ApiReplies
  imports ApiTelemetry
begin

text \<open>
  The state of the server and what it answers. The protected store is one object that the upload manager
  and the handlers share, as \<open>main\<close> sets them up, so it is the manager's. A reply is the status, the
  headers the handler sets, the session cookie if it sets one, and the body, a value of the model's types
  where the code encodes one as JSON; or the handler panics, which \<open>net/http\<close> ends by closing the
  connection. The handlers are written with two combinators for the early return of Go.
\<close>

section \<open>Summaries for administrators\<close>

record security_posture =
  sy_hash_algorithm :: string
  sy_hash_cost :: int
  sy_session_ttl :: int64
  sy_verification_ttl :: int64
  sy_email_verification_required :: bool
  sy_opaque_sessions :: bool
  sy_csrf_protection :: bool
  sy_privileged_boundary :: bool
  sy_mfa_enforced :: bool
  sy_lockout_enabled :: bool
  sy_failure_threshold :: int
  sy_failure_window :: int64
  sy_lock_seconds :: int64
  sy_step_up_enforced :: bool
  sy_step_up_ttl :: int64

record security_accounts =
  sa_total :: int
  sa_verified :: int
  sa_unverified :: int
  sa_active :: int
  sa_suspended :: int
  sa_locked :: int
  sa_administrators :: int
  sa_auditors :: int

record security_summary =
  se_generated_at :: time
  se_auth :: security_posture
  se_accounts :: security_accounts
  se_status_counts :: "(status, int) gomap"
  se_scanner :: scanner_posture
  se_audit_chain_connected :: bool
  se_audit_anchor :: anchor_verification
  se_encryption_connected :: bool
  se_key_service :: key_posture
  se_key_rotation :: key_rotation_posture

record policy_posture =
  py_max_upload :: int64
  py_default_quota :: int64
  py_inspection_ttl :: int64
  py_capacity :: int64
  py_reserve :: int64
  py_reservation_ttl :: int64

record monitoring_summary =
  mn_generated_at :: time
  mn_started_at :: time
  mn_uptime_seconds :: int64
  mn_api_status :: string
  mn_auth_persistence :: "bool \<times> string"
  mn_ingestion_durable :: bool
  mn_worker_mode :: string
  mn_pending :: int
  mn_failed_records :: int
  mn_quarantine_bytes :: int64
  mn_orphaned_objects :: int
  mn_orphaned_bytes :: int64
  mn_scanner :: scanner_posture
  mn_ingestion_policy :: policy_posture
  mn_session_ttl :: int64
  mn_secure_cookies :: bool
  mn_allowed_origins :: int
  mn_deployment_mode :: string
  mn_https_required :: bool
  mn_telemetry :: telemetry_posture
  mn_telemetry_connected :: bool
  mn_encryption_connected :: bool
  mn_key_service :: key_posture
  mn_audit_durable :: bool
  mn_audit_valid :: bool
  mn_event_count :: int
  mn_events_day :: int
  mn_denied_day :: int
  mn_high_risk_day :: int
  mn_pending_evidence :: int
  mn_anchor :: anchor_verification
  mn_alerts :: "audit_alert list"

text \<open>The capabilities besides the two that are always true: protected storage and its four policies.\<close>

record lifecycle_report =
  lr_generated_at :: time
  lr_lifecycle :: lifecycle_posture
  lr_protected :: "lifecycle_summary option"
  lr_protected_storage :: bool
  lr_policies :: bool

record orphan_preview =
  op_generated_at :: time
  op_minimum_age_seconds :: int64
  op_candidates :: "candidate list"

record reconcile_result =
  rn_requested :: int
  rn_completed :: int
  rn_failed :: int

definition zero_key_posture :: key_posture where
  "zero_key_posture = \<lparr>ky_connected = False, ky_production_ready = False, ky_hardware_backed = False, ky_adapter = [],
     ky_provider = [], ky_key_id = [], ky_key_version = [], ky_checked_at = None, ky_detail = []\<rparr>"

definition zero_rotation_posture :: key_rotation_posture where
  "zero_rotation_posture = \<lparr>kp_current_kek_id = [], kp_current_kek_version = [], kp_protected_versions = 0,
     kp_current_versions = 0, kp_pending_versions = 0, kp_completed_rewraps = 0, kp_durable = False\<rparr>"

section \<open>Replies\<close>

record cookie =
  ck_value :: string
  ck_expires :: "time option"
  ck_http_only :: bool
  ck_secure :: bool
  ck_same_site_strict :: bool
  ck_delete :: bool

text \<open>\<open>ErrorBody\<close> is \<open>errorResponse\<close>: code, message and correlation identifier. \<open>PlainBody\<close> is not JSON.\<close>

datatype (discs_sels) body = NoBody | ErrorBody string string string | MessageBody string | StatusBody string | PlainBody string
  | FileContent bytes | TableBody "string list list" | SessionBody user string | ChallengeBody mfa_challenge
  | CompletionBody user string "string list" | ProofBody step_up_proof | UsersBody "admin_user list" int int int
  | AuditPageBody audit_page | LifecycleReportBody lifecycle_report | LifecycleFileBody lifecycle_file
  | WorkerBody worker_result | DrillBody recovery_drill | MonitoringBody monitoring_summary
  | SecurityBody security_summary | RewrapBody rewrap_result | ResourcesBody admin_page "capacity_summary option"
  | OrphansBody orphan_preview | ReconcileBody reconcile_result | UploadBody upload | FilesBody "logical_file list"
  | TrashBody "lifecycle_file list" | PurgeBody purge_result | SharedBody "shared_file list" | DetailsBody file_details
  | GrantsBody "access_grant list" | GrantBody access_grant | VersionBody file_version

record response =
  rp_status :: int
  rp_headers :: "(string \<times> string) list"
  rp_cookie :: "cookie option"
  rp_body :: body

datatype reply = Answered response | Panicked

definition json_type :: "string \<times> string" where
  "json_type = (''Content-Type'', ''application/json; charset=utf-8'')"

definition writeJSONStatus :: "int \<Rightarrow> body \<Rightarrow> reply" where
  "writeJSONStatus status b = Answered \<lparr>rp_status = status, rp_headers = [json_type], rp_cookie = None, rp_body = b\<rparr>"

definition writeJSON :: "int \<Rightarrow> body \<Rightarrow> reply" where
  "writeJSON status b = writeJSONStatus status b"

definition writeError :: "request \<Rightarrow> int \<Rightarrow> string \<Rightarrow> string \<Rightarrow> reply" where
  "writeError rq status code message = writeJSONStatus status (ErrorBody code message (correlationID rq))"

text \<open>\<open>internalError\<close> also logs the error, which the reply does not show.\<close>

definition internalError :: "request \<Rightarrow> reply" where
  "internalError rq = writeError rq 500 ''INTERNAL_ERROR'' ''The request could not be completed.''"

text \<open>A handler that returns without writing: the server completes the answer with status 200 and no body.\<close>

definition nothing_written :: reply where
  "nothing_written = Answered \<lparr>rp_status = 200, rp_headers = [], rp_cookie = None, rp_body = NoBody\<rparr>"

definition with_header :: "string \<times> string \<Rightarrow> reply \<Rightarrow> reply" where
  "with_header h r = (case r of Panicked \<Rightarrow> Panicked | Answered a \<Rightarrow> Answered (a\<lparr>rp_headers := h # rp_headers a\<rparr>))"

definition with_cookie :: "cookie \<Rightarrow> reply \<Rightarrow> reply" where
  "with_cookie c r = (case r of Panicked \<Rightarrow> Panicked | Answered a \<Rightarrow> Answered (a\<lparr>rp_cookie := Some c\<rparr>))"

section \<open>The server\<close>

record ('i, 'g, 's, 'a, 'c) server =
  hs_auth :: "'i store"
  hs_auth_postgres :: bool
  hs_ingest :: "('g, 's) manager"
  hs_jobs :: "job list"
  hs_audit :: "('a, 'c) audit_service"
  hs_limiter :: rate_limiter
  hs_telemetry :: telemetry_registry
  hs_allowed_origins :: "string list"
  hs_secure_cookies :: bool
  hs_deployment_mode :: string
  hs_max_request :: int64
  hs_started_at :: time

record ('i, 'g, 's, 'a, 'c) server_config =
  sc_auth :: "('i store \<times> bool) option"
  sc_ingest :: "(('g, 's) manager \<times> job list) option"
  sc_audit :: "('a, 'c) audit_service option"
  sc_allowed_origins :: "string list"
  sc_secure_cookies :: bool
  sc_max_request :: int64
  sc_rate_limit :: int
  sc_rate_window :: duration
  sc_metrics_token :: string
  sc_stale_after :: duration
  sc_deployment_mode :: string

definition NewServer :: "platform \<Rightarrow> time \<Rightarrow> ('i, 'g, 's, 'a, 'c) server_config \<Rightarrow> string + ('i, 'g, 's, 'a, 'c) server" where
  "NewServer P now c =
     (case (sc_auth c, sc_ingest c, sc_audit c) of
        (Some (auth, postgres), Some (ingest, jobs), Some audit) \<Rightarrow>
          (case newTelemetryRegistry P (sc_metrics_token c) (sc_stale_after c) of Inl e \<Rightarrow> Inl e
           | Inr telemetry \<Rightarrow>
               (let mode = to_lower P (trim_space (sc_deployment_mode c));
                    mode = (if mode = [] then ''development'' else mode)
                in if mode \<noteq> ''development'' \<and> mode \<noteq> ''production''
                   then Inl ''deployment mode must be development or production''
                   else Inr \<lparr>hs_auth = auth, hs_auth_postgres = postgres, hs_ingest = ingest, hs_jobs = jobs, hs_audit = audit,
                     hs_limiter = newAuthenticationRateLimiter (if sc_rate_limit c \<le> 0 then 10 else sc_rate_limit c)
                       (if sc_rate_window c \<le> 0 then 5 * minute else sc_rate_window c),
                     hs_telemetry = telemetry, hs_allowed_origins = sc_allowed_origins c,
                     hs_secure_cookies = sc_secure_cookies c, hs_deployment_mode = mode,
                     hs_max_request = (if sc_max_request c \<le> 0 then 26 * 1024 * 1024 else sc_max_request c),
                     hs_started_at = now\<rparr>))
      | _ \<Rightarrow> Inl ''auth, ingest, and audit services are required'')"

section \<open>Calls and early returns\<close>

definition on_auth :: "('i store \<Rightarrow> 'i store \<times> 'x) \<Rightarrow> ('i, 'g, 's, 'a, 'c) server \<Rightarrow> ('i, 'g, 's, 'a, 'c) server \<times> 'x" where
  "on_auth f w = (case f (hs_auth w) of (st, x) \<Rightarrow> (w\<lparr>hs_auth := st\<rparr>, x))"

definition on_audit ::
    "(('a, 'c) audit_service \<Rightarrow> ('a, 'c) audit_service \<times> 'x) \<Rightarrow> ('i, 'g, 's, 'a, 'c) server \<Rightarrow> ('i, 'g, 's, 'a, 'c) server \<times> 'x" where
  "on_audit f w = (case f (hs_audit w) of (st, x) \<Rightarrow> (w\<lparr>hs_audit := st\<rparr>, x))"

definition on_ingest ::
    "(('g, 's) manager \<Rightarrow> ('g, 's) manager \<times> 'x) \<Rightarrow> ('i, 'g, 's, 'a, 'c) server \<Rightarrow> ('i, 'g, 's, 'a, 'c) server \<times> 'x" where
  "on_ingest f w = (case f (hs_ingest w) of (st, x) \<Rightarrow> (w\<lparr>hs_ingest := st\<rparr>, x))"

abbreviation hs_protected :: "('i, 'g, 's, 'a, 'c) server \<Rightarrow> 's protected_service option" where
  "hs_protected w \<equiv> mg_store (hs_ingest w)"

text \<open>A method of the nil pointer panics: \<open>None\<close>.\<close>

definition on_protected ::
    "('s protected_service \<Rightarrow> 's protected_service \<times> 'x) \<Rightarrow> ('i, 'g, 's, 'a, 'c) server \<Rightarrow> ('i, 'g, 's, 'a, 'c) server \<times> 'x option" where
  "on_protected f w =
     (case hs_protected w of None \<Rightarrow> (w, None)
      | Some st \<Rightarrow> (case f st of (st', x) \<Rightarrow> (w\<lparr>hs_ingest := (hs_ingest w)\<lparr>mg_store := Some st'\<rparr>\<rparr>, Some x)))"

definition calling :: "('w \<Rightarrow> 'w \<times> 'x) \<Rightarrow> ('x \<Rightarrow> 'w \<Rightarrow> 'w \<times> 'y) \<Rightarrow> 'w \<Rightarrow> 'w \<times> 'y" where
  "calling m f w = (case m w of (w1, x) \<Rightarrow> f x w1)"

definition andthen :: "('w \<Rightarrow> 'w \<times> (reply + 'x)) \<Rightarrow> ('x \<Rightarrow> 'w \<Rightarrow> 'w \<times> (reply + 'y)) \<Rightarrow> 'w \<Rightarrow> 'w \<times> (reply + 'y)" where
  "andthen m f w = (case m w of (w1, Inl r) \<Rightarrow> (w1, Inl r) | (w1, Inr x) \<Rightarrow> f x w1)"

definition after :: "('w \<Rightarrow> 'w \<times> (reply + 'x)) \<Rightarrow> ('x \<Rightarrow> 'w \<Rightarrow> 'w \<times> reply) \<Rightarrow> 'w \<Rightarrow> 'w \<times> reply" where
  "after m f w = (case m w of (w1, Inl r) \<Rightarrow> (w1, r) | (w1, Inr x) \<Rightarrow> f x w1)"

definition protected_call ::
    "('s protected_service \<Rightarrow> 's protected_service \<times> 'x)
       \<Rightarrow> ('x \<Rightarrow> ('i, 'g, 's, 'a, 'c) server \<Rightarrow> ('i, 'g, 's, 'a, 'c) server \<times> reply)
       \<Rightarrow> ('i, 'g, 's, 'a, 'c) server \<Rightarrow> ('i, 'g, 's, 'a, 'c) server \<times> reply" where
  "protected_call f k = calling (on_protected f) (\<lambda>x. case x of None \<Rightarrow> (\<lambda>w. (w, Panicked)) | Some y \<Rightarrow> k y)"

lemma after_stop [simp]: "m w = (w1, Inl r) \<Longrightarrow> after m f w = (w1, r)"
  and after_go [simp]: "m w = (w1, Inr x) \<Longrightarrow> after m f w = f x w1"
  by (simp_all add: after_def)

lemma andthen_stop [simp]: "m w = (w1, Inl r) \<Longrightarrow> andthen m f w = (w1, Inl r)"
  and andthen_go [simp]: "m w = (w1, Inr x) \<Longrightarrow> andthen m f w = f x w1"
  by (simp_all add: andthen_def)

end
