(* ===== verification/ApiGuards.thy ===== *)
theory ApiGuards
  imports ApiReplies
begin

text \<open>
  What the handlers share: the guards at their head, which end a request that is not entitled to what it
  asks for, the calls of the audit service, the rate limit, and the middleware around all handlers.
  Every call of a service is numbered within its handler, for its clock readings and random draws;
  number 0 is \<open>Authenticate\<close>, number 1 the check of a step-up proof.
\<close>

section \<open>Sessions\<close>

definition authentication_required :: "request \<Rightarrow> reply" where
  "authentication_required rq = writeError rq 401 ''AUTHENTICATION_REQUIRED'' ''Sign in to continue.''"

definition csrf_rejected :: "request \<Rightarrow> reply" where
  "csrf_rejected rq = writeError rq 403 ''CSRF_REJECTED'' ''The request could not be authorized.''"

definition requireSession ::
    "platform \<Rightarrow> http_env \<Rightarrow> request \<Rightarrow> ('i, 'g, 's, 'a, 'c) server \<Rightarrow> ('i, 'g, 's, 'a, 'c) server \<times> (reply + string \<times> session)" where
  "requireSession P env rq =
     (case rq_cookie rq of None \<Rightarrow> (\<lambda>w. (w, Inl (authentication_required rq)))
      | Some token \<Rightarrow> calling (on_auth (Authenticate P (he_clock env 0 0) token)) (\<lambda>res w.
          case res of Inl _ \<Rightarrow> (w, Inl (authentication_required rq)) | Inr s \<Rightarrow> (w, Inr (token, s))))"

text \<open>A guard that looks at the request and the session only.\<close>

definition demanding :: "(string \<times> session \<Rightarrow> bool) \<Rightarrow> reply \<Rightarrow> string \<times> session \<Rightarrow> 'w \<Rightarrow> 'w \<times> (reply + string \<times> session)" where
  "demanding ok refusal ts w = (w, if ok ts then Inr ts else Inl refusal)"

definition requireAdmin ::
    "platform \<Rightarrow> http_env \<Rightarrow> request \<Rightarrow> ('i, 'g, 's, 'a, 'c) server \<Rightarrow> ('i, 'g, 's, 'a, 'c) server \<times> (reply + string \<times> session)" where
  "requireAdmin P env rq = andthen (requireSession P env rq)
     (demanding (\<lambda>(_, s). \<not> (ss_audience s \<noteq> SessionAudiencePrivileged \<or> u_role (ss_user s) \<noteq> ''admin''))
        (writeError rq 403 ''ADMINISTRATOR_REQUIRED'' ''Administrator access is required.''))"

definition requirePrivileged ::
    "platform \<Rightarrow> http_env \<Rightarrow> request \<Rightarrow> ('i, 'g, 's, 'a, 'c) server \<Rightarrow> ('i, 'g, 's, 'a, 'c) server \<times> (reply + string \<times> session)" where
  "requirePrivileged P env rq = andthen (requireSession P env rq)
     (demanding (\<lambda>(_, s). \<not> (ss_audience s \<noteq> SessionAudiencePrivileged
          \<or> u_role (ss_user s) \<noteq> ''admin'' \<and> u_role (ss_user s) \<noteq> ''auditor''))
        (writeError rq 403 ''PRIVILEGED_ACCESS_REQUIRED'' ''Privileged access is required.''))"

definition requireStandardUser ::
    "platform \<Rightarrow> http_env \<Rightarrow> request \<Rightarrow> ('i, 'g, 's, 'a, 'c) server \<Rightarrow> ('i, 'g, 's, 'a, 'c) server \<times> (reply + string \<times> session)" where
  "requireStandardUser P env rq = andthen (requireSession P env rq)
     (demanding (\<lambda>(_, s). \<not> (ss_audience s \<noteq> SessionAudienceUser \<or> u_role (ss_user s) \<noteq> ''user''))
        (writeError rq 403 ''STANDARD_USER_REQUIRED'' ''A standard-user account is required for file operations.''))"

definition csrf_checked :: "request \<Rightarrow> string \<times> session \<Rightarrow> 'w \<Rightarrow> 'w \<times> (reply + string \<times> session)" where
  "csrf_checked rq = demanding (\<lambda>(_, s). validCSRF (rq_header rq ''X-CSRF-Token'') (ss_csrf_token s)) (csrf_rejected rq)"

definition requireAdminCSRF ::
    "platform \<Rightarrow> http_env \<Rightarrow> request \<Rightarrow> ('i, 'g, 's, 'a, 'c) server \<Rightarrow> ('i, 'g, 's, 'a, 'c) server \<times> (reply + string \<times> session)" where
  "requireAdminCSRF P env rq = andthen (requireAdmin P env rq) (csrf_checked rq)"

definition requireAdminMutation ::
    "platform \<Rightarrow> http_env \<Rightarrow> request \<Rightarrow> ('i, 'g, 's, 'a, 'c) server \<Rightarrow> ('i, 'g, 's, 'a, 'c) server \<times> (reply + string \<times> session)" where
  "requireAdminMutation P env rq = andthen (requireAdminCSRF P env rq) (\<lambda>(token, s) w.
     if st_require_admin_step_up (hs_auth w)
        \<and> \<not> ValidateStepUpProof P (he_clock env 1 0) token s (rq_header rq ''X-Step-Up-Token'') (hs_auth w)
     then (w, Inl (writeError rq 428 ''STEP_UP_REQUIRED'' ''Confirm your password and a fresh authenticator code to continue.''))
     else (w, Inr (token, s)))"

definition requireStandardUserMutation ::
    "platform \<Rightarrow> http_env \<Rightarrow> request \<Rightarrow> ('i, 'g, 's, 'a, 'c) server \<Rightarrow> ('i, 'g, 's, 'a, 'c) server \<times> (reply + string \<times> session)" where
  "requireStandardUserMutation P env rq = andthen (requireStandardUser P env rq) (csrf_checked rq)"

section \<open>The audit service\<close>

text \<open>The inputs of the handlers: the actor is the user of a session or anonymous.\<close>

definition user_input :: "request \<Rightarrow> string \<Rightarrow> string \<Rightarrow> string \<Rightarrow> string \<Rightarrow> string \<Rightarrow> string \<Rightarrow> audit_input" where
  "user_input rq actorID action resourceType resourceID outcome reason =
     \<lparr>ip_actor_type = ''user'', ip_actor_id = actorID, ip_action = action, ip_resource_type = resourceType,
      ip_resource_id = resourceID, ip_outcome = outcome, ip_reason_code = reason,
      ip_correlation_id = correlationID rq, ip_from_state = [], ip_to_state = [], ip_network_address = []\<rparr>"

definition anonymous_input :: "http_env \<Rightarrow> request \<Rightarrow> string \<Rightarrow> string \<Rightarrow> string \<Rightarrow> audit_input" where
  "anonymous_input env rq action outcome reason =
     (user_input rq [] action ''session'' [] outcome reason)\<lparr>ip_actor_type := ''anonymous'', ip_network_address := clientAddress env rq\<rparr>"

abbreviation user_of :: "session \<Rightarrow> string" where
  "user_of s \<equiv> u_id (ss_user s)"

text \<open>\<open>s.audit.Append\<close> with the failure answered as an internal error.\<close>

definition required_audit ::
    "platform \<Rightarrow> http_env \<Rightarrow> nat \<Rightarrow> request \<Rightarrow> audit_input \<Rightarrow> ('i, 'g, 's, 'a, 'c) server \<Rightarrow> ('i, 'g, 's, 'a, 'c) server \<times> (reply + unit)" where
  "required_audit P env n rq input = calling (on_audit (Append P (he_draws env n 0) (he_clock env n) input))
     (\<lambda>res w. case res of Inl _ \<Rightarrow> (w, Inl (internalError rq)) | Inr _ \<Rightarrow> (w, Inr ()))"

text \<open>\<open>bestEffortAudit\<close>: a failure is logged and otherwise ignored.\<close>

definition bestEffortAudit ::
    "platform \<Rightarrow> http_env \<Rightarrow> nat \<Rightarrow> audit_input \<Rightarrow> ('i, 'g, 's, 'a, 'c) server \<Rightarrow> ('i, 'g, 's, 'a, 'c) server" where
  "bestEffortAudit P env n input w = fst (on_audit (Append P (he_draws env n 0) (he_clock env n) input) w)"

definition new_intent :: "http_env \<Rightarrow> nat \<Rightarrow> request \<Rightarrow> audit_input \<Rightarrow> 'w \<Rightarrow> 'w \<times> (reply + intent)" where
  "new_intent env n rq input w =
     (w, case NewMutationIntent (he_draws env n 0) (he_clock env n 0) input of Inl _ \<Rightarrow> Inl (internalError rq) | Inr i \<Rightarrow> Inr i)"

text \<open>\<open>s.audit.DeliverMutationIntent\<close> with the failure answered as an internal error.\<close>

definition deliver ::
    "platform \<Rightarrow> http_env \<Rightarrow> nat \<Rightarrow> request \<Rightarrow> intent \<Rightarrow> bool \<Rightarrow> ('i, 'g, 's, 'a, 'c) server \<Rightarrow> ('i, 'g, 's, 'a, 'c) server \<times> (reply + unit)" where
  "deliver P env n rq i durable = calling (on_audit (DeliverMutationIntent P (he_clock env n) i durable))
     (\<lambda>res w. case res of Some _ \<Rightarrow> (w, Inl (internalError rq)) | None \<Rightarrow> (w, Inr ()))"

section \<open>The rate limit\<close>

definition throttled :: "request \<Rightarrow> string \<Rightarrow> reply" where
  "throttled rq message = with_header (''Retry-After'', ''300'') (writeError rq 429 ''AUTHENTICATION_THROTTLED'' message)"

definition limited ::
    "platform \<Rightarrow> http_env \<Rightarrow> nat \<Rightarrow> request \<Rightarrow> string \<Rightarrow> ('i, 'g, 's, 'a, 'c) server \<Rightarrow> ('i, 'g, 's, 'a, 'c) server \<times> bool" where
  "limited P env n rq scope w =
     (case Allow P scope (clientAddress env rq) (he_clock env n 0) (hs_limiter w) of
        (allowed, rl) \<Rightarrow> (w\<lparr>hs_limiter := rl\<rparr>, allowed))"

section \<open>Middleware\<close>

definition originCheck ::
    "(request \<Rightarrow> ('i, 'g, 's, 'a, 'c) server \<Rightarrow> ('i, 'g, 's, 'a, 'c) server \<times> reply)
       \<Rightarrow> request \<Rightarrow> ('i, 'g, 's, 'a, 'c) server \<Rightarrow> ('i, 'g, 's, 'a, 'c) server \<times> reply" where
  "originCheck next_handler rq w =
     (let origin = rq_header rq ''Origin'' in
      if rq_method rq \<noteq> ''GET'' \<and> rq_method rq \<noteq> ''HEAD'' \<and> rq_method rq \<noteq> ''OPTIONS''
         \<and> origin \<noteq> [] \<and> origin \<notin> set (hs_allowed_origins w)
      then (w, writeError rq 403 ''ORIGIN_REJECTED'' ''The request origin is not allowed.'')
      else next_handler rq w)"

definition request_correlation :: "string + bytes \<Rightarrow> request \<Rightarrow> string" where
  "request_correlation draw rq =
     (let given = rq_header rq ''X-Correlation-ID'' in if validCorrelationID given then given else randomCorrelationID draw)"

definition correlation ::
    "string + bytes \<Rightarrow> (request \<Rightarrow> 'w \<Rightarrow> 'w \<times> reply) \<Rightarrow> request \<Rightarrow> 'w \<Rightarrow> 'w \<times> reply" where
  "correlation draw next_handler rq w =
     (let i = request_correlation draw rq
      in case next_handler (rq\<lparr>rq_correlation := i\<rparr>) w of (w1, r) \<Rightarrow> (w1, with_header (''X-Correlation-ID'', i) r))"

definition quoted_none :: string where "quoted_none = CHR 0x27 # ''none'' @ [CHR 0x27]"

definition security_header_list :: "(string \<times> string) list" where
  "security_header_list =
     [(''Cache-Control'', ''no-store''), (''X-Content-Type-Options'', ''nosniff''), (''X-Frame-Options'', ''DENY''),
      (''Referrer-Policy'', ''no-referrer''),
      (''Content-Security-Policy'', ''default-src '' @ quoted_none @ ''; frame-ancestors '' @ quoted_none
         @ ''; base-uri '' @ quoted_none @ ''; form-action '' @ quoted_none),
      (''Permissions-Policy'', ''camera=(), microphone=(), geolocation=(), payment=(), usb=()'')]"

definition securityHeaders :: "(request \<Rightarrow> 'w \<Rightarrow> 'w \<times> reply) \<Rightarrow> request \<Rightarrow> 'w \<Rightarrow> 'w \<times> reply" where
  "securityHeaders next_handler rq w =
     (case next_handler rq w of (w1, r) \<Rightarrow>
        (w1, foldr with_header (security_header_list
           @ (if rq_tls rq then [(''Strict-Transport-Security'', ''max-age=63072000; includeSubDomains'')] else [])) r))"

definition session_cookie :: "string \<Rightarrow> time \<Rightarrow> bool \<Rightarrow> cookie" where
  "session_cookie token expires secure =
     \<lparr>ck_value = token, ck_expires = Some expires, ck_http_only = True, ck_secure = secure,
      ck_same_site_strict = True, ck_delete = False\<rparr>"

end
