(* ===== verification/ApiIdentity.thy ===== *)
theory ApiIdentity
  imports ApiGuards
begin

text \<open>
  The handlers of accounts, sessions and privileged provisioning in \<open>internal/api/server.go\<close>. Go's
  \<open>errors.Is\<close> chains are cases over \<open>auth_error\<close>; a panic of the store passes through.
\<close>

definition auth_outcome ::
    "(auth_error \<Rightarrow> 'w \<Rightarrow> 'w \<times> reply) \<Rightarrow> ('x \<Rightarrow> 'w \<Rightarrow> 'w \<times> reply) \<Rightarrow> auth_error + 'x \<Rightarrow> 'w \<Rightarrow> 'w \<times> reply" where
  "auth_outcome on_error on_ok res w =
     (case res of Inl e \<Rightarrow> if e = AuthPanic then (w, Panicked) else on_error e w | Inr x \<Rightarrow> on_ok x w)"

definition invalid_credentials :: "request \<Rightarrow> reply" where
  "invalid_credentials rq = writeError rq 401 ''INVALID_CREDENTIALS'' ''Email or password is incorrect.''"

definition mfa_invalid :: "request \<Rightarrow> reply" where
  "mfa_invalid rq = writeError rq 401 ''MFA_INVALID'' ''The verification code is invalid or expired.''"

text \<open>\<open>t.Format(time.RFC3339)\<close>: the rendering with nanoseconds of a time without a fraction shows none.\<close>

definition rfc3339_seconds :: "platform \<Rightarrow> time \<Rightarrow> string" where
  "rfc3339_seconds P t = p_rfc3339 P (t - t mod second)"

section \<open>Registration and verification\<close>

definition register ::
    "platform \<Rightarrow> http_env \<Rightarrow> request \<Rightarrow> ('i, 'g, 's, 'a, 'c) server \<Rightarrow> ('i, 'g, 's, 'a, 'c) server \<times> reply" where
  "register P env rq w =
     (case readJSON P env rq [(''name'', TextField []), (''email'', TextField []), (''password'', TextField [])] of
        Inl _ \<Rightarrow> (w, writeError rq 400 ''INVALID_REQUEST'' ''Account details do not meet requirements.'')
      | Inr fs \<Rightarrow>
          calling (on_auth (Register P (he_draws env 2) (he_clock env 2 0) (text_of (field ''name'' fs))
              (text_of (field ''email'' fs)) (text_of (field ''password'' fs))))
            (auth_outcome
              (\<lambda>e w. (w, if e = ErrInvalidInput
                 then writeError rq 400 ''INVALID_ACCOUNT_DETAILS'' ''Account details do not meet requirements.''
                 else internalError rq))
              (\<lambda>_ w. (w, writeJSON 202 (MessageBody ''If the address can be registered, verification instructions will be sent.'')))) w)"

definition verifyEmail ::
    "platform \<Rightarrow> http_env \<Rightarrow> request \<Rightarrow> ('i, 'g, 's, 'a, 'c) server \<Rightarrow> ('i, 'g, 's, 'a, 'c) server \<times> reply" where
  "verifyEmail P env rq w =
     (let invalid = writeError rq 400 ''INVALID_VERIFICATION_TOKEN'' ''This verification link is invalid or has expired.'' in
      case readJSON P env rq [(''token'', TextField [])] of Inl _ \<Rightarrow> (w, invalid)
      | Inr fs \<Rightarrow>
          calling (on_auth (VerifyEmail P (he_clock env 2 0) (text_of (field ''token'' fs))))
            (auth_outcome (\<lambda>e w. (w, if e = ErrVerificationToken then invalid else internalError rq))
              (\<lambda>_ w. (w, writeJSON 200 (MessageBody ''Email verified. Sign in to continue.'')))) w)"

definition resendVerification ::
    "platform \<Rightarrow> http_env \<Rightarrow> request \<Rightarrow> ('i, 'g, 's, 'a, 'c) server \<Rightarrow> ('i, 'g, 's, 'a, 'c) server \<times> reply" where
  "resendVerification P env rq w =
     (case readJSON P env rq [(''email'', TextField [])] of
        Inl _ \<Rightarrow> (w, writeError rq 400 ''INVALID_REQUEST'' ''Enter a valid email address.'')
      | Inr fs \<Rightarrow>
          calling (on_auth (ResendVerification P (he_draws env 2) (he_clock env 2 0) (text_of (field ''email'' fs))))
            (auth_outcome (\<lambda>_ w. (w, internalError rq))
              (\<lambda>_ w. (w, writeJSON 202 (MessageBody ''If an unverified account exists, new verification instructions will be sent.'')))) w)"

section \<open>Signing in\<close>

text \<open>Number 2 is the rate limit, 3 an audit event on the way out, 4 the store, 5 the audit event of success.\<close>

definition login_throttled ::
    "platform \<Rightarrow> http_env \<Rightarrow> request \<Rightarrow> ('i, 'g, 's, 'a, 'c) server \<Rightarrow> ('i, 'g, 's, 'a, 'c) server \<times> reply" where
  "login_throttled P env rq w =
     (bestEffortAudit P env 3 (anonymous_input env rq ''AUTHENTICATION_RATE_LIMIT'' ''denied'' ''network_rate_limited'') w,
      throttled rq ''Too many authentication attempts. Try again later.'')"

definition login_refused :: "request \<Rightarrow> auth_error \<Rightarrow> reply" where
  "login_refused rq e =
     (if e = ErrEmailNotVerified then writeError rq 403 ''EMAIL_NOT_VERIFIED'' ''Verify your email address before signing in.''
      else if e = ErrInvalidCredentials then invalid_credentials rq else internalError rq)"

text \<open>The session is withdrawn again when the sign-in cannot be recorded.\<close>

definition signed_in ::
    "platform \<Rightarrow> http_env \<Rightarrow> request \<Rightarrow> string \<Rightarrow> user \<Rightarrow> string \<Rightarrow> session \<Rightarrow> body
       \<Rightarrow> ('i, 'g, 's, 'a, 'c) server \<Rightarrow> ('i, 'g, 's, 'a, 'c) server \<times> reply" where
  "signed_in P env rq reason u token s b =
     calling (on_audit (Append P (he_draws env 5 0) (he_clock env 5)
         ((user_input rq (u_id u) ''AUTHENTICATION'' ''session'' (ss_audience s) ''success'' reason)
            \<lparr>ip_network_address := clientAddress env rq\<rparr>)))
       (\<lambda>res w. case res of
          Inl _ \<Rightarrow> (w\<lparr>hs_auth := Logout P token (hs_auth w)\<rparr>, internalError rq)
        | Inr _ \<Rightarrow> (w, with_cookie (session_cookie token (ss_expires_at s) (hs_secure_cookies w)) (writeJSON 200 b)))"

definition begin_mfa ::
    "platform \<Rightarrow> http_env \<Rightarrow> request \<Rightarrow> string \<Rightarrow> string \<Rightarrow> ('i, 'g, 's, 'a, 'c) server \<Rightarrow> ('i, 'g, 's, 'a, 'c) server \<times> reply" where
  "begin_mfa P env rq email password =
     calling (on_auth (BeginPrivilegedLogin P (he_draws env 4) (he_clock env 4) email password))
       (auth_outcome
         (\<lambda>e w. (bestEffortAudit P env 3 (anonymous_input env rq ''PRIVILEGED_MFA_BEGIN'' ''denied'' (auditReason e)) w,
                  login_refused rq e))
         (\<lambda>challenge w. (bestEffortAudit P env 3 ((anonymous_input env rq ''PRIVILEGED_MFA_BEGIN'' ''success''
                  ''password_verified_mfa_pending'')\<lparr>ip_to_state := mf_mode challenge\<rparr>) w,
                  writeJSON 202 (ChallengeBody challenge))))"

definition api_loginForAudience ::
    "platform \<Rightarrow> http_env \<Rightarrow> bool \<Rightarrow> request \<Rightarrow> ('i, 'g, 's, 'a, 'c) server \<Rightarrow> ('i, 'g, 's, 'a, 'c) server \<times> reply" where
  "api_loginForAudience P env privileged rq =
     calling (limited P env 2 rq (if privileged then ''privileged-password'' else ''standard-password'')) (\<lambda>allowed w.
       if \<not> allowed then login_throttled P env rq w
       else case readJSON P env rq [(''email'', TextField []), (''password'', TextField [])] of
         Inl _ \<Rightarrow> (w, invalid_credentials rq)
       | Inr fs \<Rightarrow>
           (let email = text_of (field ''email'' fs); password = text_of (field ''password'' fs) in
            if privileged \<and> st_require_privileged_mfa (hs_auth w) then begin_mfa P env rq email password w
            else calling (on_auth ((if privileged then LoginPrivileged else Login) P (he_draws env 4) (he_clock env 4) email password))
              (auth_outcome
                (\<lambda>e w. (bestEffortAudit P env 3 (anonymous_input env rq ''AUTHENTICATION'' ''denied'' (auditReason e)) w,
                         login_refused rq e))
                (\<lambda>(u, token, s). signed_in P env rq ''credentials_verified'' u token s (SessionBody u (ss_csrf_token s)))) w))"

definition login where "login P env rq = api_loginForAudience P env False rq"
definition privilegedLogin where "privilegedLogin P env rq = api_loginForAudience P env True rq"

definition completePrivilegedMFA ::
    "platform \<Rightarrow> http_env \<Rightarrow> request \<Rightarrow> ('i, 'g, 's, 'a, 'c) server \<Rightarrow> ('i, 'g, 's, 'a, 'c) server \<times> reply" where
  "completePrivilegedMFA P env rq =
     calling (limited P env 2 rq ''privileged-mfa'') (\<lambda>allowed w.
       if \<not> allowed then login_throttled P env rq w
       else case readJSON P env rq [(''challengeToken'', TextField []), (''code'', TextField [])] of
         Inl _ \<Rightarrow> (w, mfa_invalid rq)
       | Inr fs \<Rightarrow>
           calling (on_auth (CompletePrivilegedLogin P (he_draws env 4) (he_clock env 4)
               (text_of (field ''challengeToken'' fs)) (text_of (field ''code'' fs))))
             (auth_outcome
               (\<lambda>e w. (bestEffortAudit P env 3 (anonymous_input env rq ''PRIVILEGED_MFA_COMPLETE'' ''denied'' (auditReason e)) w,
                        if e = ErrMFAInvalid \<or> e = ErrMFAChallenge then mfa_invalid rq else internalError rq))
               (\<lambda>c. signed_in P env rq ''password_and_mfa_verified'' (mp_user c) (mp_token c) (mp_session c)
                  (CompletionBody (mp_user c) (ss_csrf_token (mp_session c)) (mp_recovery_codes c)))) w)"

definition createStepUpProof ::
    "platform \<Rightarrow> http_env \<Rightarrow> request \<Rightarrow> ('i, 'g, 's, 'a, 'c) server \<Rightarrow> ('i, 'g, 's, 'a, 'c) server \<times> reply" where
  "createStepUpProof P env rq =
     after (requireAdminCSRF P env rq) (\<lambda>(token, s).
     calling (limited P env 2 rq ''privileged-step-up'') (\<lambda>allowed w.
       if \<not> allowed then (w, throttled rq ''Too many authentication attempts. Try again later.'')
       else let failed = writeError rq 401 ''STEP_UP_FAILED'' ''Password or verification code is incorrect.'';
                entry = (\<lambda>outcome reason. (user_input rq (user_of s) ''ADMIN_STEP_UP'' ''session'' ''privileged'' outcome reason)
                   \<lparr>ip_network_address := clientAddress env rq\<rparr>)
         in case readJSON P env rq [(''password'', TextField []), (''code'', TextField [])] of
         Inl _ \<Rightarrow> (w, failed)
       | Inr fs \<Rightarrow>
           calling (on_auth (CreateStepUpProof P (he_draws env 4 0) (he_clock env 4) token s
               (text_of (field ''password'' fs)) (text_of (field ''code'' fs))))
             (auth_outcome
               (\<lambda>e w. (bestEffortAudit P env 3 (entry ''denied'' (auditReason e)) w,
                        if e = ErrStepUpRequired \<or> e = ErrInvalidCredentials then failed else internalError rq))
               (\<lambda>pf. after (required_audit P env 5 rq ((entry ''success'' ''password_and_fresh_totp_verified'')
                     \<lparr>ip_to_state := rfc3339_seconds P (su_expires_at pf)\<rparr>))
                  (\<lambda>_ w. (w, writeJSON 200 (ProofBody pf))))) w))"

definition expired_cookie :: "bool \<Rightarrow> cookie" where
  "expired_cookie secure =
     \<lparr>ck_value = [], ck_expires = None, ck_http_only = True, ck_secure = secure, ck_same_site_strict = True, ck_delete = True\<rparr>"

definition logout ::
    "platform \<Rightarrow> http_env \<Rightarrow> request \<Rightarrow> ('i, 'g, 's, 'a, 'c) server \<Rightarrow> ('i, 'g, 's, 'a, 'c) server \<times> reply" where
  "logout P env rq =
     after (andthen (requireSession P env rq) (csrf_checked rq)) (\<lambda>(token, s).
     after (required_audit P env 2 rq ((user_input rq (user_of s) ''SESSION_LOGOUT'' ''session'' (ss_audience s) ''success''
         ''user_requested'')\<lparr>ip_network_address := clientAddress env rq\<rparr>)) (\<lambda>_ w.
       (w\<lparr>hs_auth := Logout P token (hs_auth w)\<rparr>,
        Answered \<lparr>rp_status = 204, rp_headers = [], rp_cookie = Some (expired_cookie (hs_secure_cookies w)), rp_body = NoBody\<rparr>)))"

definition getSession ::
    "platform \<Rightarrow> http_env \<Rightarrow> request \<Rightarrow> ('i, 'g, 's, 'a, 'c) server \<Rightarrow> ('i, 'g, 's, 'a, 'c) server \<times> reply" where
  "getSession P env rq =
     after (requireSession P env rq) (\<lambda>(token, s) w. (w, writeJSON 200 (SessionBody (ss_user s) (ss_csrf_token s))))"

section \<open>Accounts\<close>

definition api_listUsers ::
    "platform \<Rightarrow> http_env \<Rightarrow> request \<Rightarrow> ('i, 'g, 's, 'a, 'c) server \<Rightarrow> ('i, 'g, 's, 'a, 'c) server \<times> reply" where
  "api_listUsers P env rq =
     after (requireAdmin P env rq) (\<lambda>_ w.
       case ListUsers (rq_query rq ''search'') (parsePositiveInt (rq_query rq ''limit'') 50)
              (parsePositiveInt (rq_query rq ''offset'') 0) (\<lambda>_. he_clock env 2 0) (hs_auth w) of
         Inl e \<Rightarrow> (w, if e = ErrInvalidInput
           then writeError rq 400 ''INVALID_QUERY'' ''The user search could not be completed.'' else internalError rq)
       | Inr (users, n, limit, offset) \<Rightarrow> (w, writeJSON 200 (UsersBody users n limit offset)))"

definition invitePrivilegedAccount ::
    "platform \<Rightarrow> http_env \<Rightarrow> request \<Rightarrow> ('i, 'g, 's, 'a, 'c) server \<Rightarrow> ('i, 'g, 's, 'a, 'c) server \<times> reply" where
  "invitePrivilegedAccount P env rq =
     after (requireAdminMutation P env rq) (\<lambda>(token, s) w.
       let invalid = writeError rq 400 ''INVALID_INVITATION'' ''Provide a valid name, email address, and privileged role.'' in
       case readJSON P env rq [(''name'', TextField []), (''email'', TextField []), (''role'', TextField [])] of
         Inl _ \<Rightarrow> (w, invalid)
       | Inr fs \<Rightarrow>
           (let name = text_of (field ''name'' fs); email = text_of (field ''email'' fs); role = text_of (field ''role'' fs) in
            after (new_intent env 2 rq ((user_input rq (user_of s) ''PRIVILEGED_ACCOUNT_INVITED'' ''identity''
                (to_lower P (trim_space email)) ''success'' ''controlled_provisioning'')\<lparr>ip_to_state := role\<rparr>)) (\<lambda>i.
            calling (on_auth (InvitePrivilegedAccountAudited P (he_draws env 3 0) (he_clock env 3 0) (user_of s) name email role i))
              (\<lambda>(durable, res). auth_outcome
                (\<lambda>e w. (w, if e = ErrInvalidInput then invalid
                   else if e = ErrDuplicateUser
                     then writeError rq 409 ''IDENTITY_ALREADY_EXISTS'' ''An account or pending invitation already uses this email address.''
                   else internalError rq))
                (\<lambda>_. after (deliver P env 4 rq i durable) (\<lambda>_ w. (w, writeJSON 202 (MessageBody
                   ''The privileged invitation was created and delivered without exposing recipient credentials.''))))
                res)) w))"

text \<open>
  \<open>activatePrivilegedAccount\<close>: the memory repository gets a new intent with the created account in it.
\<close>

definition activatePrivilegedAccount ::
    "platform \<Rightarrow> http_env \<Rightarrow> request \<Rightarrow> ('i, 'g, 's, 'a, 'c) server \<Rightarrow> ('i, 'g, 's, 'a, 'c) server \<times> reply" where
  "activatePrivilegedAccount P env rq =
     calling (limited P env 2 rq ''privileged-activation'') (\<lambda>allowed w.
       if \<not> allowed then (w, throttled rq ''Too many activation attempts. Try again later.'')
       else let invalid = writeError rq 400 ''INVITATION_INVALID'' ''The invitation is invalid or expired.'' in
       case readJSON P env rq [(''token'', TextField []), (''password'', TextField [])] of
         Inl _ \<Rightarrow> (w, invalid)
       | Inr fs \<Rightarrow>
           after (new_intent env 3 rq (user_input rq [] ''PRIVILEGED_ACCOUNT_ACTIVATED'' ''identity'' [] ''success'' ''invitation_accepted'')) (\<lambda>i.
           calling (on_auth (ActivatePrivilegedAccountAudited P (he_draws env 4) (he_clock env 4)
               (text_of (field ''token'' fs)) (text_of (field ''password'' fs)) i))
             (auth_outcome (\<lambda>e w. (w, if e = ErrInvitationToken then invalid else internalError rq))
               (\<lambda>(u, durable).
                 after (if durable
                     then (\<lambda>w. (w, Inr (i\<lparr>in_actor_id := u_id u, in_resource_id := u_id u, in_to_state := u_role u\<rparr>)))
                     else new_intent env 5 rq ((user_input rq (u_id u) ''PRIVILEGED_ACCOUNT_ACTIVATED'' ''identity'' (u_id u)
                       ''success'' ''invitation_accepted'')\<lparr>ip_to_state := u_role u\<rparr>)) (\<lambda>i.
                 after (deliver P env 6 rq i durable) (\<lambda>_ w. (w, writeJSON 200 (MessageBody
                   ''Privileged account activated. Sign in separately and enroll multi-factor authentication.''))))))) w)"

definition writeAdminIdentityError :: "request \<Rightarrow> auth_error \<Rightarrow> reply" where
  "writeAdminIdentityError rq e =
     (case e of ErrInvalidInput \<Rightarrow> writeError rq 400 ''INVALID_ACCOUNT_STATUS'' ''Choose a supported account status.''
      | ErrSelfManagement \<Rightarrow> writeError rq 409 ''SELF_MANAGEMENT_PROHIBITED''
          ''Use another administrator for changes to your own privileged account.''
      | ErrUserNotFound \<Rightarrow> writeError rq 404 ''USER_NOT_FOUND'' ''The account could not be found.''
      | _ \<Rightarrow> internalError rq)"

text \<open>The denial of a change to one's own account is recorded.\<close>

definition identity_denied ::
    "platform \<Rightarrow> http_env \<Rightarrow> request \<Rightarrow> session \<Rightarrow> string \<Rightarrow> string \<Rightarrow> string \<Rightarrow> auth_error
       \<Rightarrow> ('i, 'g, 's, 'a, 'c) server \<Rightarrow> ('i, 'g, 's, 'a, 'c) server \<times> reply" where
  "identity_denied P env rq s action userID toState e w =
     (if e = ErrSelfManagement
      then bestEffortAudit P env 4 ((user_input rq (user_of s) action ''user'' userID ''denied'' ''self_management_prohibited'')
             \<lparr>ip_network_address := clientAddress env rq, ip_to_state := toState\<rparr>) w
      else w, writeAdminIdentityError rq e)"

definition updateUserStatus ::
    "platform \<Rightarrow> http_env \<Rightarrow> request \<Rightarrow> ('i, 'g, 's, 'a, 'c) server \<Rightarrow> ('i, 'g, 's, 'a, 'c) server \<times> reply" where
  "updateUserStatus P env rq =
     after (requireAdminMutation P env rq) (\<lambda>(token, s) w.
       case readJSON P env rq [(''status'', TextField [])] of
         Inl _ \<Rightarrow> (w, writeError rq 400 ''INVALID_REQUEST'' ''Choose a supported account status.'')
       | Inr fs \<Rightarrow>
           (let status = text_of (field ''status'' fs); userID = rq_path_value rq ''userId'' in
            after (new_intent env 2 rq ((user_input rq (user_of s) ''ACCOUNT_STATUS_UPDATED'' ''user'' userID ''success''
                ''administrator_action'')\<lparr>ip_to_state := status\<rparr>)) (\<lambda>i.
            calling (on_auth (UpdateUserStatusAudited (user_of s) userID status i)) (\<lambda>(durable, res).
              auth_outcome (identity_denied P env rq s ''ACCOUNT_STATUS_UPDATED'' userID status)
                (\<lambda>_. after (deliver P env 3 rq i durable) (\<lambda>_ w. (w, writeJSON 200 (MessageBody
                   ''Account status updated and existing sessions revoked.'')))) res)) w))"

definition revokeUserSessions ::
    "platform \<Rightarrow> http_env \<Rightarrow> request \<Rightarrow> ('i, 'g, 's, 'a, 'c) server \<Rightarrow> ('i, 'g, 's, 'a, 'c) server \<times> reply" where
  "revokeUserSessions P env rq =
     after (requireAdminMutation P env rq) (\<lambda>(token, s).
       let userID = rq_path_value rq ''userId'' in
       after (new_intent env 2 rq (user_input rq (user_of s) ''USER_SESSIONS_REVOKED'' ''user'' userID ''success'' ''administrator_action'')) (\<lambda>i.
       calling (on_auth (RevokeUserSessionsAudited (user_of s) userID i)) (\<lambda>(durable, res).
         auth_outcome (identity_denied P env rq s ''USER_SESSIONS_REVOKED'' userID ''unchanged'')
           (\<lambda>_. after (deliver P env 3 rq i durable) (\<lambda>_ w. (w, writeJSON 200 (MessageBody
              ''All sessions for this account were revoked.'')))) res)))"

end
