(* ===== verification/ApiFiles.thy ===== *)
theory ApiFiles
  imports ApiIdentity
begin

text \<open>
  The handlers of uploads and files in \<open>internal/api/server.go\<close>: every one is for standard users. Some
  check that the protected store is there before they call it; the others call a method of the nil
  pointer when it is not, which panics.
\<close>

type_synonym ('i, 'g, 's, 'a, 'c) handler = "('i, 'g, 's, 'a, 'c) server \<Rightarrow> ('i, 'g, 's, 'a, 'c) server \<times> reply"

definition store_outcome ::
    "(store_error \<Rightarrow> 'w \<Rightarrow> 'w \<times> reply) \<Rightarrow> ('x \<Rightarrow> 'w \<Rightarrow> 'w \<times> reply) \<Rightarrow> store_error + 'x \<Rightarrow> 'w \<Rightarrow> 'w \<times> reply" where
  "store_outcome on_error on_ok res w =
     (case res of Inl e \<Rightarrow> if e = StorePanic then (w, Panicked) else on_error e w | Inr x \<Rightarrow> on_ok x w)"

text \<open>A call that reads the protected store; \<open>if_connected\<close> is the check for the nil pointer.\<close>

definition protected_read ::
    "('s protected_service \<Rightarrow> 'x) \<Rightarrow> ('x \<Rightarrow> ('i, 'g, 's, 'a, 'c) handler) \<Rightarrow> ('i, 'g, 's, 'a, 'c) handler" where
  "protected_read f k w = (case hs_protected w of None \<Rightarrow> (w, Panicked) | Some st \<Rightarrow> k (f st) w)"

definition if_connected :: "reply \<Rightarrow> ('i, 'g, 's, 'a, 'c) handler \<Rightarrow> ('i, 'g, 's, 'a, 'c) handler" where
  "if_connected unavailable h w = (if hs_protected w = None then (w, unavailable) else h w)"

definition answer :: "reply \<Rightarrow> 'w \<Rightarrow> 'w \<times> reply" where
  "answer r w = (w, r)"

abbreviation fault_of :: "http_env \<Rightarrow> nat \<Rightarrow> faults" where
  "fault_of env n \<equiv> su_faults (he_store env n)"

definition networked :: "http_env \<Rightarrow> request \<Rightarrow> audit_input \<Rightarrow> audit_input" where
  "networked env rq i = i\<lparr>ip_network_address := clientAddress env rq\<rparr>"

section \<open>Errors of the lifecycle\<close>

definition file_not_found :: "request \<Rightarrow> reply" where
  "file_not_found rq = writeError rq 404 ''FILE_NOT_FOUND'' ''The file could not be found.''"

definition writeLifecycleError :: "request \<Rightarrow> store_error \<Rightarrow> reply" where
  "writeLifecycleError rq e =
     (case e of
        ErrRetentionActive \<Rightarrow> writeError rq 409 ''RETENTION_ACTIVE'' ''The file is protected by an active retention period.''
      | ErrLegalHold \<Rightarrow> writeError rq 409 ''LEGAL_HOLD_ACTIVE'' ''The file is protected by a legal hold.''
      | ErrPurgeTooEarly \<Rightarrow> writeError rq 409 ''DELETION_GRACE_ACTIVE''
          ''Permanent deletion is unavailable until the recovery period ends.''
      | ErrNotInTrash \<Rightarrow> writeError rq 409 ''FILE_NOT_IN_TRASH'' ''The file is not available in Trash.''
      | ErrStoreNotFound \<Rightarrow> file_not_found rq
      | _ \<Rightarrow> internalError rq)"

section \<open>Uploads\<close>

definition upload_refused :: "request \<Rightarrow> ingest_error \<Rightarrow> reply" where
  "upload_refused rq e =
     (case e of
        ErrTooLarge \<Rightarrow> writeError rq 413 ''UPLOAD_TOO_LARGE'' ''This file exceeds the configured upload limit.''
      | ErrQuotaExceeded \<Rightarrow> writeError rq 409 ''STORAGE_QUOTA_EXCEEDED'' ''This upload would exceed the account storage quota.''
      | ErrCapacityExceeded \<Rightarrow> writeError rq 507 ''STORAGE_CAPACITY_RESERVED''
          ''Protected storage cannot safely reserve capacity for this upload.''
      | ErrInvalidKey \<Rightarrow> writeError rq 400 ''INVALID_IDEMPOTENCY_KEY'' ''The upload request could not be finalized.''
      | ErrInvalidFile \<Rightarrow> writeError rq 400 ''INVALID_FILE'' ''Choose a non-empty file and try again.''
      | _ \<Rightarrow> internalError rq)"

text \<open>A new upload leaves the goroutine that inspects it behind.\<close>

definition createUpload :: "platform \<Rightarrow> http_env \<Rightarrow> request \<Rightarrow> ('i, 'g, 's, 'a, 'c) handler" where
  "createUpload P env rq =
     after (andthen (requireStandardUser P env rq) (csrf_checked rq)) (\<lambda>(token, s).
       let invalid_size = writeError rq 400 ''INVALID_FILE_SIZE''
             ''A valid X-File-Size header is required for capacity reservation.'' in
       case ParseInt (trim_space (rq_header rq ''X-File-Size'')) of None \<Rightarrow> answer invalid_size
       | Some expectedSize \<Rightarrow>
         if expectedSize \<le> 0 then answer invalid_size
         else case rq_multipart rq of
           Inl _ \<Rightarrow> answer (writeError rq 400 ''INVALID_MULTIPART'' ''Choose one file and try again.'')
         | Inr parts \<Rightarrow>
             (case nextFilePart parts of
                Inl _ \<Rightarrow> answer (writeError rq 400 ''FILE_REQUIRED'' ''Choose one file and try again.'')
              | Inr p \<Rightarrow>
                  calling (on_ingest (CreateSized P (he_upload env) (user_of s) (rq_header rq ''Idempotency-Key'')
                      (fp_file_name p) (fp_content_type p) (Some (fp_source p)) expectedSize)) (\<lambda>res w.
                    case res of Inl e \<Rightarrow> (w, upload_refused rq e)
                    | Inr (u, existing) \<Rightarrow>
                        (w\<lparr>hs_jobs := hs_jobs w @ (if existing then [] else [InspectBegin (up_id u)])\<rparr>,
                         writeJSON 202 (UploadBody u)))))"

definition getUpload :: "platform \<Rightarrow> http_env \<Rightarrow> request \<Rightarrow> ('i, 'g, 's, 'a, 'c) handler" where
  "getUpload P env rq =
     after (requireStandardUser P env rq) (\<lambda>(token, s) w.
       case Get (user_of s) (rq_path_value rq ''uploadId'') (hs_ingest w) of
         Inl _ \<Rightarrow> (w, writeError rq 404 ''UPLOAD_NOT_FOUND'' ''The upload could not be found.'')
       | Inr u \<Rightarrow> (w, writeJSON 200 (UploadBody u)))"

section \<open>Files\<close>

definition catalog_unavailable_reply :: "request \<Rightarrow> reply" where
  "catalog_unavailable_reply rq = writeError rq 503 ''FILE_CATALOG_UNAVAILABLE'' ''The protected file catalog is unavailable.''"

definition grants_unavailable :: "request \<Rightarrow> string \<Rightarrow> reply" where
  "grants_unavailable rq message = writeError rq 503 ''ACCESS_GRANTS_UNAVAILABLE'' message"

definition listUserFiles :: "platform \<Rightarrow> http_env \<Rightarrow> request \<Rightarrow> ('i, 'g, 's, 'a, 'c) handler" where
  "listUserFiles P env rq =
     after (requireStandardUser P env rq) (\<lambda>(token, s).
       if_connected (catalog_unavailable_reply rq) (protected_read (ListFiles (user_of s))
         (store_outcome (\<lambda>_. answer (internalError rq)) (\<lambda>files. answer (writeJSON 200 (FilesBody files))))))"

definition listTrash :: "platform \<Rightarrow> http_env \<Rightarrow> request \<Rightarrow> ('i, 'g, 's, 'a, 'c) handler" where
  "listTrash P env rq =
     after (requireStandardUser P env rq) (\<lambda>(token, s). protected_read (svc_ListTrash (user_of s))
       (store_outcome (\<lambda>_. answer (internalError rq)) (\<lambda>files. answer (writeJSON 200 (TrashBody files)))))"

definition moveFileToTrash :: "platform \<Rightarrow> http_env \<Rightarrow> request \<Rightarrow> ('i, 'g, 's, 'a, 'c) handler" where
  "moveFileToTrash P env rq =
     after (requireStandardUserMutation P env rq) (\<lambda>(token, s).
       let fileID = rq_path_value rq ''fileId'' in
       after (new_intent env 2 rq ((user_input rq (user_of s) ''FILE_MOVED_TO_TRASH'' ''file'' fileID ''success''
           ''grace_period_started'')\<lparr>ip_to_state := ''trashed''\<rparr>)) (\<lambda>i.
       protected_call (MoveToTrashAudited (he_clock env 3 0) (user_of s) fileID i) (\<lambda>(durable, res).
         store_outcome
           (\<lambda>e w. (bestEffortAudit P env 4 ((networked env rq (user_input rq (user_of s) ''FILE_MOVED_TO_TRASH'' ''file'' fileID
                ''denied'' (lifecycleDenialReason e)))\<lparr>ip_to_state := ''active''\<rparr>) w, writeLifecycleError rq e))
           (\<lambda>f. after (deliver P env 5 rq i durable) (\<lambda>_. answer (writeJSON 200 (LifecycleFileBody f)))) res)))"

definition restoreFileFromTrash :: "platform \<Rightarrow> http_env \<Rightarrow> request \<Rightarrow> ('i, 'g, 's, 'a, 'c) handler" where
  "restoreFileFromTrash P env rq =
     after (requireStandardUserMutation P env rq) (\<lambda>(token, s).
       let fileID = rq_path_value rq ''fileId'' in
       after (new_intent env 2 rq ((user_input rq (user_of s) ''FILE_RESTORED_FROM_TRASH'' ''file'' fileID ''success''
           ''owner_requested'')\<lparr>ip_to_state := ''active''\<rparr>)) (\<lambda>i.
       protected_call (RestoreFromTrashAudited (he_clock env 3 0) (user_of s) fileID i) (\<lambda>(durable, res).
         store_outcome (\<lambda>e. answer (writeLifecycleError rq e))
           (\<lambda>f. after (deliver P env 5 rq i durable) (\<lambda>_. answer (writeJSON 200 (LifecycleFileBody f)))) res)))"

definition invalid_idempotency_key :: "request \<Rightarrow> reply" where
  "invalid_idempotency_key rq = writeError rq 400 ''INVALID_IDEMPOTENCY_KEY'' ''A valid Idempotency-Key header is required.''"

definition usable_key :: "string \<Rightarrow> bool" where
  "usable_key key \<longleftrightarrow> \<not> (length (trim_space key) < 8 \<or> length key > 128)"

definition purgeFile :: "platform \<Rightarrow> http_env \<Rightarrow> request \<Rightarrow> ('i, 'g, 's, 'a, 'c) handler" where
  "purgeFile P env rq =
     after (requireStandardUserMutation P env rq) (\<lambda>(token, s).
       let fileID = rq_path_value rq ''fileId''; key = rq_header rq ''Idempotency-Key'' in
       if \<not> usable_key key then answer (invalid_idempotency_key rq)
       else after (new_intent env 2 rq ((user_input rq (user_of s) ''FILE_CRYPTOGRAPHICALLY_DELETED'' ''file'' fileID ''success''
           ''wrapped_keys_destroyed'')\<lparr>ip_to_state := ''purged''\<rparr>)) (\<lambda>i.
       case PurgeOperationIDs P (user_of s) fileID key of Inl _ \<Rightarrow> answer (invalid_idempotency_key rq)
       | Inr (_, auditEventID) \<Rightarrow>
           (let i = i\<lparr>in_event_id := auditEventID\<rparr> in
            protected_call (PurgeAudited P (fault_of env 3) (he_clock env 3 0) (user_of s) fileID key i) (\<lambda>(durable, res).
              store_outcome
                (\<lambda>e w. (bestEffortAudit P env 4 ((networked env rq (user_input rq (user_of s) ''FILE_CRYPTOGRAPHICALLY_DELETED''
                     ''file'' fileID ''denied'' (lifecycleDenialReason e)))\<lparr>ip_to_state := ''retained''\<rparr>) w, writeLifecycleError rq e))
                (\<lambda>result. after (deliver P env 5 rq i durable) (\<lambda>_. answer (writeJSON 200 (PurgeBody result)))) res))))"

definition listSharedFiles :: "platform \<Rightarrow> http_env \<Rightarrow> request \<Rightarrow> ('i, 'g, 's, 'a, 'c) handler" where
  "listSharedFiles P env rq =
     after (requireStandardUser P env rq) (\<lambda>(token, s).
       if_connected (grants_unavailable rq ''Shared files are unavailable.'')
         (protected_read (svc_ListSharedFiles (he_clock env 2 0) (user_of s))
           (store_outcome (\<lambda>_. answer (internalError rq)) (\<lambda>files. answer (writeJSON 200 (SharedBody files))))))"

definition getUserFile :: "platform \<Rightarrow> http_env \<Rightarrow> request \<Rightarrow> ('i, 'g, 's, 'a, 'c) handler" where
  "getUserFile P env rq =
     after (requireStandardUser P env rq) (\<lambda>(token, s).
       let fileID = rq_path_value rq ''fileId'' in
       if_connected (catalog_unavailable_reply rq) (protected_read (AuthorizedDetails (he_clock env 2 0) (user_of s) fileID)
         (store_outcome
           (\<lambda>_ w. (bestEffortAudit P env 3 (user_input rq (user_of s) ''FILE_METADATA_READ'' ''file'' fileID ''denied''
                ''not_authorized_or_missing'') w, file_not_found rq))
           (\<lambda>details w. (bestEffortAudit P env 3 (user_input rq (user_of s) ''FILE_METADATA_READ'' ''file'' (lf_file_id (fd_file details))
                ''success'' (if lf_owner_id (fd_file details) = user_of s then ''owner_authorized'' else ''grant_authorized'')) w,
              writeJSON 200 (DetailsBody details))))))"

section \<open>Grants\<close>

definition listFileGrants :: "platform \<Rightarrow> http_env \<Rightarrow> request \<Rightarrow> ('i, 'g, 's, 'a, 'c) handler" where
  "listFileGrants P env rq =
     after (requireStandardUser P env rq) (\<lambda>(token, s).
       if_connected (grants_unavailable rq ''File access grants are unavailable.'')
         (protected_read (svc_ListGrants (he_clock env 2 0) (user_of s) (rq_path_value rq ''fileId''))
           (store_outcome (\<lambda>_. answer (file_not_found rq)) (\<lambda>grants. answer (writeJSON 200 (GrantsBody grants))))))"

definition createFileGrant :: "platform \<Rightarrow> http_env \<Rightarrow> request \<Rightarrow> ('i, 'g, 's, 'a, 'c) handler" where
  "createFileGrant P env rq =
     after (andthen (requireStandardUser P env rq) (csrf_checked rq)) (\<lambda>(token, s) w.
       let invalid = writeError rq 400 ''INVALID_ACCESS_GRANT'' ''Choose a verified user and supported permission.'' in
       case readJSON P env rq [(''recipientEmail'', TextField []), (''permission'', TextField []), (''expiresAt'', TimeField None)] of
         Inl _ \<Rightarrow> (w, invalid)
       | Inr fs \<Rightarrow>
           (let permission = text_of (field ''permission'' fs);
                unavailable = writeError rq 404 ''RECIPIENT_NOT_AVAILABLE''
                  ''A verified standard-user account could not be found for that address.'' in
            if permission \<noteq> PermissionRead \<and> permission \<noteq> PermissionDownload then (w, invalid)
            else case GrantRecipient P (text_of (field ''recipientEmail'' fs)) (hs_auth w) of Inl _ \<Rightarrow> (w, unavailable)
            | Inr recipient \<Rightarrow>
                if u_id recipient = user_of s then (w, unavailable)
                else let fileID = rq_path_value rq ''fileId'' in
                after (new_intent env 2 rq ((user_input rq (user_of s) ''FILE_GRANT_CREATED'' ''file'' fileID ''success'' permission)
                    \<lparr>ip_to_state := u_id recipient\<rparr>)) (\<lambda>i.
                protected_call (CreateGrantAudited P (he_store env 3) (user_of s) fileID
                    \<lparr>rc_id = u_id recipient, rc_name = u_name recipient, rc_email = u_email recipient\<rparr>
                    permission (time_of (field ''expiresAt'' fs)) i) (\<lambda>(durable, res).
                  store_outcome
                    (\<lambda>e. answer (if e = ErrStoreNotFound then file_not_found rq
                       else writeError rq 400 ''INVALID_ACCESS_GRANT'' ''Choose a future expiry and supported permission.''))
                    (\<lambda>grant. after (deliver P env 4 rq i durable) (\<lambda>_. answer (writeJSON 201 (GrantBody grant)))) res)) w))"

definition revokeFileGrant :: "platform \<Rightarrow> http_env \<Rightarrow> request \<Rightarrow> ('i, 'g, 's, 'a, 'c) handler" where
  "revokeFileGrant P env rq =
     after (andthen (requireStandardUser P env rq) (csrf_checked rq)) (\<lambda>(token, s).
       if_connected (grants_unavailable rq ''File access grants are unavailable.'')
         (let fileID = rq_path_value rq ''fileId''; grantID = rq_path_value rq ''grantId'' in
          after (new_intent env 2 rq ((user_input rq (user_of s) ''FILE_GRANT_REVOKED'' ''file'' fileID ''success'' ''owner_revoked'')
              \<lparr>ip_to_state := grantID\<rparr>)) (\<lambda>i.
          protected_call (RevokeGrantAudited (he_clock env 3 0) (user_of s) fileID grantID i) (\<lambda>(durable, res).
            store_outcome
              (\<lambda>_. answer (writeError rq 404 ''ACCESS_GRANT_NOT_FOUND'' ''The active access grant could not be found.''))
              (\<lambda>_. after (deliver P env 4 rq i durable) (\<lambda>_. answer (writeJSON 200 (MessageBody ''File access was revoked.'')))) res))))"

section \<open>Versions and downloads\<close>

definition restoreUserFileVersion :: "platform \<Rightarrow> http_env \<Rightarrow> request \<Rightarrow> ('i, 'g, 's, 'a, 'c) handler" where
  "restoreUserFileVersion P env rq =
     after (andthen (requireStandardUser P env rq) (csrf_checked rq)) (\<lambda>(token, s).
       if_connected (catalog_unavailable_reply rq)
         (let fileID = rq_path_value rq ''fileId''; versionID = rq_path_value rq ''versionId'';
              key = rq_header rq ''Idempotency-Key'' in
          if \<not> usable_key key then answer (invalid_idempotency_key rq)
          else after (new_intent env 2 rq ((user_input rq (user_of s) ''FILE_VERSION_RESTORE_COMPLETED'' ''file'' fileID ''success''
              ''new_immutable_version_created'')\<lparr>ip_from_state := versionID\<rparr>)) (\<lambda>i.
          protected_call (RestoreAudited P (he_store env 3) (user_of s) fileID versionID key i) (\<lambda>(durable, res).
            store_outcome
              (\<lambda>e w. (bestEffortAudit P env 4 (user_input rq (user_of s) ''FILE_VERSION_RESTORE_COMPLETED'' ''file'' fileID
                   ''failed'' ''restore_unavailable'') w,
                 if e = ErrStoreNotFound
                 then writeError rq 404 ''FILE_VERSION_NOT_FOUND'' ''The file version could not be found.'' else internalError rq))
              (\<lambda>v. after (deliver P env 5 rq i durable) (\<lambda>_. answer (writeJSON 201 (VersionBody v)))) res))))"

definition file_unavailable :: "request \<Rightarrow> reply" where
  "file_unavailable rq = writeError rq 404 ''FILE_NOT_AVAILABLE'' ''The protected file could not be found.''"

definition unverified_file :: "request \<Rightarrow> reply" where
  "unverified_file rq = writeError rq 503 ''PROTECTED_FILE_UNAVAILABLE'' ''The protected file could not be verified.''"

definition send_file :: "string \<Rightarrow> protected_file \<Rightarrow> reply" where
  "send_file disposition pf =
     (let mediaType = md_media_type (pf_metadata pf) in
      Answered \<lparr>rp_status = 200, rp_headers =
          [(''Content-Type'', if mediaType = [] then ''application/octet-stream'' else mediaType),
           (''Content-Disposition'', disposition), (''Content-Length'', decimal (int (length (pf_bytes pf))))],
        rp_cookie = None, rp_body = FileContent (pf_bytes pf)\<rparr>)"

definition downloadUserFile :: "platform \<Rightarrow> http_env \<Rightarrow> request \<Rightarrow> ('i, 'g, 's, 'a, 'c) handler" where
  "downloadUserFile P env rq =
     after (requireStandardUser P env rq) (\<lambda>(token, s).
       let fileID = rq_path_value rq ''fileId'';
           entry = (\<lambda>outcome reason. networked env rq (user_input rq (user_of s) ''FILE_DOWNLOAD'' ''file'' fileID outcome reason)) in
       if_connected (file_unavailable rq) (protected_read (AuthorizedDetails (he_clock env 2 0) (user_of s) fileID)
         (store_outcome
           (\<lambda>_ w. (bestEffortAudit P env 4 (entry ''denied'' ''not_authorized_or_missing'') w, file_unavailable rq))
           (\<lambda>details. protected_read (OpenCurrentAuthorized P (fault_of env 3) (he_clock env 3 0) (user_of s) fileID)
             (store_outcome
               (\<lambda>e w. if e = ErrStoreNotFound
                  then (bestEffortAudit P env 4 (entry ''denied'' ''download_permission_required'') w, file_unavailable rq)
                  else (w, unverified_file rq))
               (\<lambda>f. after (required_audit P env 5 rq (entry ''success'' (if lf_owner_id (fd_file details) = user_of s
                       then ''owner_authorized_current_version'' else ''grant_authorized_current_version'')))
                  (\<lambda>_. answer (send_file (he_attachment env (lf_name (fd_file details))) f))))))))"

definition downloadUpload :: "platform \<Rightarrow> http_env \<Rightarrow> request \<Rightarrow> ('i, 'g, 's, 'a, 'c) handler" where
  "downloadUpload P env rq =
     after (requireStandardUser P env rq) (\<lambda>(token, s) w.
       let uploadID = rq_path_value rq ''uploadId'';
           entry = (\<lambda>outcome reason. user_input rq (user_of s) ''FILE_DOWNLOAD'' ''upload'' uploadID outcome reason);
           unavailable = (bestEffortAudit P env 2 (entry ''denied'' ''resource_unavailable'') w, file_unavailable rq) in
       case Get (user_of s) uploadID (hs_ingest w) of Inl _ \<Rightarrow> unavailable
       | Inr u \<Rightarrow>
           if up_status u \<noteq> StatusStored \<or> hs_protected w = None then unavailable
           else protected_read (Open P (fault_of env 3) (user_of s) uploadID)
             (store_outcome
               (\<lambda>_ w. (bestEffortAudit P env 2 (entry ''failed'' ''integrity_or_storage_failure'') w, unverified_file rq))
               (\<lambda>f. after (required_audit P env 4 rq (entry ''success'' ''owner_authorized''))
                  (\<lambda>_. let disposition = he_attachment env (up_name u) in
                     answer (send_file (if disposition = [] then ''attachment'' else disposition) f)))) w)"

end
