(* ===== verification/ApiAdmin.thy ===== *)
theory ApiAdmin
  imports ApiFiles
begin

text \<open>
  The handlers for administrators and auditors in \<open>internal/api/server.go\<close>, besides those of accounts:
  the audit trail, the lifecycle, key rotation, quotas, the summaries and the metrics endpoint.
\<close>

section \<open>The audit trail\<close>

definition invalid_audit_filter :: "request \<Rightarrow> reply" where
  "invalid_audit_filter rq = writeError rq 400 ''INVALID_AUDIT_FILTER'' ''Choose a valid audit date range and supported filters.''"

definition listAuditEvents :: "platform \<Rightarrow> http_env \<Rightarrow> request \<Rightarrow> ('i, 'g, 's, 'a, 'c) handler" where
  "listAuditEvents P env rq =
     after (requirePrivileged P env rq) (\<lambda>(token, s).
     after (required_audit P env 2 rq (networked env rq (user_input rq (user_of s) ''AUDIT_READ'' ''audit_chain'' ''main'' ''success''
         ''privileged_review''))) (\<lambda>_ w.
       case parseAuditQuery env rq of None \<Rightarrow> (w, invalid_audit_filter rq)
       | Some q \<Rightarrow>
           (case audit_List P (he_clock env 3) q (hs_audit w) of Inl _ \<Rightarrow> (w, internalError rq)
            | Inr page \<Rightarrow> (w, writeJSON 200 (AuditPageBody page)))))"

definition export_header :: "string list" where
  "export_header = [''sequence'', ''occurred_at'', ''actor_type'', ''actor_id'', ''action'', ''resource_type'', ''resource_id'',
     ''outcome'', ''reason_code'', ''correlation_id'', ''network_source'', ''from_state'', ''to_state'']"

definition export_row :: "platform \<Rightarrow> event \<Rightarrow> string list" where
  "export_row P e = [decimal (ev_sequence e), p_rfc3339 P (ev_occurred_at e), ev_actor_type e, ev_actor_id e, ev_action e,
     ev_resource_type e, ev_resource_id e, ev_outcome e, ev_reason_code e, ev_correlation_id e, ev_network_source e,
     ev_from_state e, ev_to_state e]"

text \<open>The rows; \<open>encoding/csv\<close> writes them.\<close>

definition exportAuditEvents :: "platform \<Rightarrow> http_env \<Rightarrow> request \<Rightarrow> ('i, 'g, 's, 'a, 'c) handler" where
  "exportAuditEvents P env rq =
     after (requirePrivileged P env rq) (\<lambda>(token, s).
       case parseAuditQuery env rq of None \<Rightarrow> answer (invalid_audit_filter rq)
       | Some q \<Rightarrow>
           after (required_audit P env 2 rq (networked env rq (user_input rq (user_of s) ''AUDIT_EXPORT'' ''audit_chain'' ''main''
               ''success'' ''privileged_export''))) (\<lambda>_ w.
             case Export P q 5000 (hs_audit w) of Inl _ \<Rightarrow> (w, internalError rq)
             | Inr (events, v) \<Rightarrow>
                 (w, Answered \<lparr>rp_status = 200, rp_headers = [(''Content-Type'', ''text/csv; charset=utf-8''),
                    (''Content-Disposition'', ''attachment; filename='' @ quoted ''securestore-audit-events.csv''),
                    (''X-Audit-Chain-Valid'', if vf_valid v then ''true'' else ''false'')], rp_cookie = None,
                    rp_body = TableBody (export_header # map (export_row P) events)\<rparr>)))"

section \<open>The lifecycle\<close>

definition svc_Durable :: "'s protected_service \<Rightarrow> bool" where
  "svc_Durable st = po_durable (ProtectedService.sv_ops st)"

definition adminLifecycle :: "platform \<Rightarrow> http_env \<Rightarrow> request \<Rightarrow> ('i, 'g, 's, 'a, 'c) handler" where
  "adminLifecycle P env rq =
     after (requirePrivileged P env rq) (\<lambda>_.
     calling (on_ingest (LifecyclePosture P (he_disk env) (he_clock env 2 0))) (\<lambda>res w.
       case res of Inl _ \<Rightarrow> (w, internalError rq)
       | Inr posture \<Rightarrow>
           (let durable = (case hs_protected w of None \<Rightarrow> False | Some st \<Rightarrow> svc_Durable st);
                report = \<lparr>lr_generated_at = he_clock env 3 0, lr_lifecycle = posture, lr_protected = None,
                  lr_protected_storage = durable, lr_policies = durable\<rparr>
            in case hs_protected w of None \<Rightarrow> (w, writeJSON 200 (LifecycleReportBody report))
               | Some st \<Rightarrow> store_outcome (\<lambda>_. answer (internalError rq))
                   (\<lambda>summary. answer (writeJSON 200 (LifecycleReportBody (report\<lparr>lr_protected := Some summary\<rparr>))))
                   (svc_LifecycleSummary (he_clock env 4 0) 50 st) w)))"

definition setFileRetention :: "platform \<Rightarrow> http_env \<Rightarrow> request \<Rightarrow> ('i, 'g, 's, 'a, 'c) handler" where
  "setFileRetention P env rq =
     after (requireAdminMutation P env rq) (\<lambda>(token, s).
       let invalid = writeError rq 400 ''INVALID_RETENTION'' ''Choose a future retention date.'' in
       case readJSON P env rq [(''retentionUntil'', TimeField None)] of Inl _ \<Rightarrow> answer invalid
       | Inr fs \<Rightarrow>
           (case time_of (field ''retentionUntil'' fs) of None \<Rightarrow> answer invalid
            | Some until \<Rightarrow>
                if until < he_clock env 2 0 then answer invalid
                else let fileID = rq_path_value rq ''fileId'' in
                after (new_intent env 3 rq ((user_input rq (user_of s) ''FILE_RETENTION_UPDATED'' ''file'' fileID ''success''
                    ''administrator_policy'')\<lparr>ip_to_state := rfc3339_seconds P until\<rparr>)) (\<lambda>i.
                protected_call (SetRetentionAudited fileID (Some until) i) (\<lambda>(durable, res).
                  store_outcome (\<lambda>e. answer (writeLifecycleError rq e))
                    (\<lambda>f. after (deliver P env 4 rq i durable) (\<lambda>_. answer (writeJSON 200 (LifecycleFileBody f)))) res))))"

definition worker_state :: "worker_result \<Rightarrow> string" where
  "worker_state r = ''examined='' @ decimal (wr_examined r) @ '';completed='' @ decimal (wr_completed r) @ '';failed='' @ decimal (wr_failed r)"

definition processLifecycleDeletions :: "platform \<Rightarrow> http_env \<Rightarrow> request \<Rightarrow> ('i, 'g, 's, 'a, 'c) handler" where
  "processLifecycleDeletions P env rq =
     after (requireAdminMutation P env rq) (\<lambda>(token, s).
       if_connected (writeError rq 503 ''LIFECYCLE_UNAVAILABLE'' ''Protected-storage lifecycle processing is unavailable.'')
         (after (required_audit P env 2 rq (user_input rq (user_of s) ''LIFECYCLE_PROCESSING_REQUESTED'' ''lifecycle'' ''due-deletions''
             ''success'' ''administrator_action'')) (\<lambda>_.
          protected_call (ProcessDuePurgesAudited P (he_store env 3) 25 ''user'' (user_of s) (correlationID rq))
            (store_outcome (\<lambda>_. answer Panicked)
              (\<lambda>r w. (bestEffortAudit P env 4 ((user_input rq (user_of s) ''LIFECYCLE_PROCESSING_COMPLETED'' ''lifecycle'' ''due-deletions''
                    (if wr_failed r > 0 then ''failure'' else ''success'') ''scheduled_policy_evaluation'')
                    \<lparr>ip_to_state := worker_state r\<rparr>) w, writeJSON 200 (WorkerBody r)))))))"

text \<open>
  The intent of a drill that was recorded without evidence gets the outcome; one that failed earlier keeps
  its own. (A drill without an error is never absent; the last case is for the type.)
\<close>

definition drill_intent :: "recovery_drill option \<Rightarrow> bool \<Rightarrow> intent \<Rightarrow> intent" where
  "drill_intent drill durable i =
     (case drill of None \<Rightarrow> i
      | Some d \<Rightarrow> if \<not> durable \<and> rd_drill_id d \<noteq> []
          then i\<lparr>in_outcome := rd_outcome d, in_reason_code := rd_reason_code d, in_to_state := rd_outcome d\<rparr> else i)"

definition runRecoveryDrill :: "platform \<Rightarrow> http_env \<Rightarrow> request \<Rightarrow> ('i, 'g, 's, 'a, 'c) handler" where
  "runRecoveryDrill P env rq =
     after (requireAdminMutation P env rq) (\<lambda>(token, s).
       let fileID = rq_path_value rq ''fileId'' in
       if_connected (writeError rq 503 ''RECOVERY_DRILL_UNAVAILABLE'' ''Protected-storage recovery verification is unavailable.'')
         (after (required_audit P env 2 rq (user_input rq (user_of s) ''RECOVERY_DRILL_REQUESTED'' ''file'' fileID ''success''
             ''administrator_assurance'')) (\<lambda>_.
          after (new_intent env 3 rq (user_input rq (user_of s) ''RECOVERY_DRILL_COMPLETED'' ''file'' fileID ''success''
             ''verification_pending'')) (\<lambda>i.
          protected_call (RunRecoveryDrillAudited P (he_store env 4) fileID (user_of s) i) (\<lambda>(drill, durable, err).
            let i = drill_intent drill durable i in
            case (err, drill) of
              (Some e, _) \<Rightarrow> (\<lambda>w.
                if e = StorePanic then (w, Panicked)
                else (fst (on_audit (DeliverMutationIntent P (he_clock env 5) i durable) w),
                  if e = ErrStoreNotFound then writeLifecycleError rq e
                  else writeError rq 422 ''RECOVERY_VERIFICATION_FAILED'' ''The encrypted version did not pass recovery verification.''))
            | (None, Some d) \<Rightarrow> after (deliver P env 5 rq i durable) (\<lambda>_. answer (writeJSON 200 (DrillBody d)))
            | (None, None) \<Rightarrow> answer nothing_written)))))"

definition setFileLegalHold :: "platform \<Rightarrow> http_env \<Rightarrow> request \<Rightarrow> ('i, 'g, 's, 'a, 'c) handler" where
  "setFileLegalHold P env rq =
     after (requireAdminMutation P env rq) (\<lambda>(token, s).
       case readJSON P env rq [(''enabled'', FlagField False), (''reason'', TextField [])] of
         Inl _ \<Rightarrow> answer (writeError rq 400 ''INVALID_LEGAL_HOLD'' ''Provide a valid legal-hold instruction.'')
       | Inr fs \<Rightarrow>
           (let fileID = rq_path_value rq ''fileId''; enabled = flag_of (field ''enabled'' fs) in
            after (new_intent env 2 rq ((user_input rq (user_of s) ''LEGAL_HOLD_UPDATED'' ''file'' fileID ''success'' ''administrator_action'')
                \<lparr>ip_to_state := if enabled then ''active'' else ''released''\<rparr>)) (\<lambda>i.
            protected_call (SetLegalHoldAudited fileID enabled (text_of (field ''reason'' fs)) i) (\<lambda>(durable, res).
              store_outcome (\<lambda>e. answer (writeLifecycleError rq e))
                (\<lambda>f. after (deliver P env 3 rq i durable) (\<lambda>_. answer (writeJSON 200 (LifecycleFileBody f)))) res))))"

section \<open>Key rotation\<close>

definition rewrap_factory :: "http_env \<Rightarrow> request \<Rightarrow> session \<Rightarrow> intent_factory" where
  "rewrap_factory env rq s m fromID fromVersion toID toVersion =
     (case he_version_draw env (md_version_id m) of (draw, now) \<Rightarrow>
      case NewMutationIntent draw now ((user_input rq (user_of s) ''FILE_DEK_REWRAPPED'' ''file_version'' (md_version_id m) ''success''
          ''administrator_key_rotation'')\<lparr>ip_from_state := fromID @ '':'' @ fromVersion, ip_to_state := toID @ '':'' @ toVersion\<rparr>) of
        Inl _ \<Rightarrow> Inl ''audit event identifier unavailable'' | Inr i \<Rightarrow> Inr i)"

fun deliver_all ::
    "platform \<Rightarrow> http_env \<Rightarrow> nat \<Rightarrow> request \<Rightarrow> bool \<Rightarrow> intent list \<Rightarrow> ('i, 'g, 's, 'a, 'c) server \<Rightarrow> ('i, 'g, 's, 'a, 'c) server \<times> (reply + unit)" where
  "deliver_all P env n rq durable [] = (\<lambda>w. (w, Inr ()))"
| "deliver_all P env n rq durable (i # is) = andthen (deliver P env n rq i durable) (\<lambda>_. deliver_all P env (Suc n) rq durable is)"

text \<open>A body that cannot be read ends the handler before it has written anything.\<close>

definition rewrapDEKs :: "platform \<Rightarrow> http_env \<Rightarrow> request \<Rightarrow> ('i, 'g, 's, 'a, 'c) handler" where
  "rewrapDEKs P env rq =
     after (requireAdminMutation P env rq) (\<lambda>(token, s).
       if_connected (writeError rq 503 ''PROTECTED_STORAGE_UNAVAILABLE'' ''Protected storage is not connected.'')
         (case (if rq_content_length rq = 0 then Inr [(''limit'', NumberField 25)]
                else readJSON P env rq [(''limit'', NumberField 25)]) of
            Inl _ \<Rightarrow> answer nothing_written
          | Inr fs \<Rightarrow>
              (let limit = number_of (field ''limit'' fs) in
               if limit < 1 \<or> limit > 100
               then answer (writeError rq 400 ''INVALID_REWRAP_REQUEST'' ''Choose a batch size from 1 to 100.'')
               else protected_call (RewrapDEKs (he_store env 2) limit (Some (rewrap_factory env rq s))) (\<lambda>(result, err).
                 case err of
                   Some e \<Rightarrow> answer (if e = StorePanic then Panicked else internalError rq)
                 | None \<Rightarrow> after (deliver_all P env 3 rq (rw_durable result) (rw_intents result))
                     (\<lambda>_. answer (writeJSON 200 (RewrapBody result)))))))"

end
