(* ===== verification/ApiReports.thy ===== *)
theory ApiReports
  imports ApiAdmin
begin

text \<open>
  The summaries, quotas and orphan reconciliation of \<open>internal/api/server.go\<close>, with the posture methods of
  \<open>authn/store.go\<close> and \<open>ingest/manager.go\<close> they call.
\<close>

section \<open>Postures\<close>

definition SecurityPosture :: "'i store \<Rightarrow> security_posture" where
  "SecurityPosture st = \<lparr>sy_hash_algorithm = ''bcrypt'', sy_hash_cost = int passwordHashCost,
     sy_session_ttl = seconds_of (st_session_ttl st), sy_verification_ttl = seconds_of (st_verification_ttl st),
     sy_email_verification_required = True, sy_opaque_sessions = True, sy_csrf_protection = True, sy_privileged_boundary = True,
     sy_mfa_enforced = st_require_privileged_mfa st, sy_lockout_enabled = True,
     sy_failure_threshold = st_login_failure_threshold st, sy_failure_window = seconds_of (st_login_failure_window st),
     sy_lock_seconds = seconds_of (st_account_lock_duration st), sy_step_up_enforced = st_require_admin_step_up st,
     sy_step_up_ttl = seconds_of (st_step_up_ttl st)\<rparr>"

definition PersistencePosture :: "bool \<Rightarrow> bool \<times> string" where
  "PersistencePosture postgres = (if postgres then (True, ''postgresql'') else (False, ''memory''))"

definition PolicyPosture :: "('g, 's) manager \<Rightarrow> policy_posture" where
  "PolicyPosture m = \<lparr>py_max_upload = mg_max_upload m, py_default_quota = mg_default_quota m,
     py_inspection_ttl = seconds_of (mg_inspection_ttl m), py_capacity = mg_capacity m, py_reserve = mg_reserve m,
     py_reservation_ttl = seconds_of (mg_reservation_ttl m)\<rparr>"

definition scanner_status :: "http_env \<Rightarrow> time \<Rightarrow> scanner_posture" where
  "scanner_status env now = ScannerPosture (he_scanner env) (he_scanner_connected env) now"

text \<open>\<open>result.KeyService\<close> and \<open>result.EncryptionServiceConnected\<close>, zero without a protected store.\<close>

definition key_status :: "time \<Rightarrow> 's protected_service option \<Rightarrow> key_posture \<times> bool" where
  "key_status now p =
     (case p of None \<Rightarrow> (zero_key_posture, False)
      | Some st \<Rightarrow> (let k = KeyPosture now st in (k, svc_Durable st \<and> ky_production_ready k)))"

definition service_Durable :: "('a, 'c) audit_service \<Rightarrow> bool" where
  "service_Durable sv = op_durable (AuditService.sv_ops sv)"

section \<open>Monitoring\<close>

text \<open>What \<open>adminMonitoring\<close> fills in before it reads the audit trail.\<close>

definition monitoring_base :: "http_env \<Rightarrow> time \<Rightarrow> admin_summary \<Rightarrow> ('i, 'g, 's, 'a, 'c) server \<Rightarrow> audit_page \<Rightarrow> int \<Rightarrow> monitoring_summary" where
  "monitoring_base env now r w page pending_evidence =
     (let telemetry = telemetry_status now (hs_telemetry w); v = pg_verification page; a = vf_anchor v;
          (keys, connected) = key_status (he_clock env 4 0) (hs_protected w)
      in \<lparr>mn_generated_at = now, mn_started_at = hs_started_at w,
          mn_uptime_seconds = seconds_of (time_sub now (hs_started_at w)), mn_api_status = ''operational'',
          mn_auth_persistence = PersistencePosture (hs_auth_postgres w), mn_ingestion_durable = as_durable r,
          mn_worker_mode = ''in-process'', mn_pending = as_pending r,
          mn_failed_records = mget 0 (as_status_counts r) StatusFailed, mn_quarantine_bytes = as_quarantine_bytes r,
          mn_orphaned_objects = as_orphaned_objects r, mn_orphaned_bytes = as_orphaned_bytes r,
          mn_scanner = scanner_status env (he_clock env 4 1), mn_ingestion_policy = PolicyPosture (hs_ingest w),
          mn_session_ttl = sy_session_ttl (SecurityPosture (hs_auth w)), mn_secure_cookies = hs_secure_cookies w,
          mn_allowed_origins = int (length (remdups (hs_allowed_origins w))), mn_deployment_mode = hs_deployment_mode w,
          mn_https_required = (hs_deployment_mode w = ''production''), mn_telemetry = telemetry,
          mn_telemetry_connected = tp_connected telemetry, mn_encryption_connected = connected, mn_key_service = keys,
          mn_audit_durable = service_Durable (hs_audit w), mn_audit_valid = (vf_valid v \<and> (\<not> av_connected a \<or> av_valid a)),
          mn_event_count = vf_event_count v, mn_events_day = as_matching (pg_summary page),
          mn_denied_day = as_denied (pg_summary page), mn_high_risk_day = as_high_risk (pg_summary page),
          mn_pending_evidence = pending_evidence, mn_anchor = a, mn_alerts = pg_alerts page\<rparr>)"

definition adminMonitoring :: "platform \<Rightarrow> http_env \<Rightarrow> request \<Rightarrow> ('i, 'g, 's, 'a, 'c) handler" where
  "adminMonitoring P env rq =
     after (requirePrivileged P env rq) (\<lambda>(token, s).
     after (required_audit P env 2 rq (networked env rq (user_input rq (user_of s) ''MONITORING_READ'' ''system'' ''runtime'' ''success''
         ''privileged_review''))) (\<lambda>_.
     calling (on_ingest (ListAdminResources P (he_disk env) (he_clock env 3 0) [] 1 0)) (\<lambda>res w.
       case res of Inl _ \<Rightarrow> (w, internalError rq)
       | Inr resources \<Rightarrow>
           (let now = he_clock env 3 1 in
            case audit_List P (he_clock env 5) (empty_query\<lparr>q_from := now - 24 * hour, q_limit := 1\<rparr>) (hs_audit w) of
              Inl _ \<Rightarrow> (w, internalError rq)
            | Inr page \<Rightarrow>
                (case PendingOutboxCount (hs_audit w) of Inl _ \<Rightarrow> (w, internalError rq)
                 | Inr n \<Rightarrow> (w, writeJSON 200 (MonitoringBody (monitoring_base env now (ap_summary resources) w page n))))))))"

section \<open>Security\<close>

definition tally :: "admin_user \<Rightarrow> security_accounts \<Rightarrow> security_accounts" where
  "tally u a =
     (let a = (if au_verification_status u = ''verified'' then a\<lparr>sa_verified := sa_verified a + 1\<rparr>
               else a\<lparr>sa_unverified := sa_unverified a + 1\<rparr>);
          a = (if au_account_status u = ''active'' then a\<lparr>sa_active := sa_active a + 1\<rparr>
               else if au_account_status u = ''suspended'' then a\<lparr>sa_suspended := sa_suspended a + 1\<rparr>
               else if au_account_status u = ''locked'' then a\<lparr>sa_locked := sa_locked a + 1\<rparr> else a);
          a = (if au_role u = ''admin'' then a\<lparr>sa_administrators := sa_administrators a + 1\<rparr> else a)
      in if au_role u = ''auditor'' then a\<lparr>sa_auditors := sa_auditors a + 1\<rparr> else a)"

text \<open>
  The loop over the pages of the directory, with fuel: it ends when the offset reaches the total, which
  rises by 100 with every page. \<open>account_fuel\<close> is enough when the total does not grow in between.
\<close>

fun count_accounts ::
    "nat \<Rightarrow> (int \<Rightarrow> auth_error + (admin_user list \<times> int \<times> int \<times> int)) \<Rightarrow> int \<Rightarrow> security_accounts \<Rightarrow> auth_error + security_accounts" where
  "count_accounts 0 pages offset a = Inr a"
| "count_accounts (Suc fuel) pages offset a =
     (case pages offset of Inl e \<Rightarrow> Inl e
      | Inr (users, n, _, _) \<Rightarrow>
          (let a = fold tally users (a\<lparr>sa_total := n\<rparr>)
           in if offset + int (length users) \<ge> n \<or> users = [] then Inr a else count_accounts fuel pages (offset + 100) a))"

definition zero_accounts :: security_accounts where
  "zero_accounts = \<lparr>sa_total = 0, sa_verified = 0, sa_unverified = 0, sa_active = 0, sa_suspended = 0, sa_locked = 0,
     sa_administrators = 0, sa_auditors = 0\<rparr>"

definition account_pages :: "http_env \<Rightarrow> 'i store \<Rightarrow> int \<Rightarrow> auth_error + (admin_user list \<times> int \<times> int \<times> int)" where
  "account_pages env st offset = ListUsers [] 100 offset (\<lambda>_. he_clock env 2 0) st"

definition account_fuel :: "http_env \<Rightarrow> 'i store \<Rightarrow> nat" where
  "account_fuel env st = (case account_pages env st 0 of Inl _ \<Rightarrow> 1 | Inr (_, n, _, _) \<Rightarrow> Suc (nat n))"

definition adminSecurity :: "platform \<Rightarrow> http_env \<Rightarrow> request \<Rightarrow> ('i, 'g, 's, 'a, 'c) handler" where
  "adminSecurity P env rq =
     after (requirePrivileged P env rq) (\<lambda>_ w.
       case count_accounts (account_fuel env (hs_auth w)) (account_pages env (hs_auth w)) 0 zero_accounts of
         Inl _ \<Rightarrow> (w, internalError rq)
       | Inr accounts \<Rightarrow>
           calling (on_ingest (ListAdminResources P (he_disk env) (he_clock env 3 0) [] 1 0)) (\<lambda>res w.
             case res of Inl _ \<Rightarrow> (w, internalError rq)
             | Inr resources \<Rightarrow>
                 (case Verify P (hs_audit w) of Inl _ \<Rightarrow> (w, internalError rq)
                  | Inr v \<Rightarrow>
                      (let (keys, connected) = key_status (he_clock env 4 0) (hs_protected w);
                           summary = \<lparr>se_generated_at = he_clock env 5 0, se_auth = SecurityPosture (hs_auth w), se_accounts = accounts,
                             se_status_counts = as_status_counts (ap_summary resources), se_scanner = scanner_status env (he_clock env 4 1),
                             se_audit_chain_connected = (service_Durable (hs_audit w) \<and> vf_valid v), se_audit_anchor = vf_anchor v,
                             se_encryption_connected = connected, se_key_service = keys, se_key_rotation = zero_rotation_posture\<rparr>
                       in case hs_protected w of None \<Rightarrow> (w, writeJSON 200 (SecurityBody summary))
                          | Some st \<Rightarrow> store_outcome (\<lambda>_. answer (internalError rq))
                              (\<lambda>rotation. answer (writeJSON 200 (SecurityBody (summary\<lparr>se_key_rotation := rotation\<rparr>))))
                              (svc_KeyRotationPosture st) w))) w)"

section \<open>Resources\<close>

definition listAdminResources :: "platform \<Rightarrow> http_env \<Rightarrow> request \<Rightarrow> ('i, 'g, 's, 'a, 'c) handler" where
  "listAdminResources P env rq =
     after (requirePrivileged P env rq) (\<lambda>_.
     calling (on_ingest (ListAdminResources P (he_disk env) (he_clock env 2 0) (rq_query rq ''search'')
         (parsePositiveInt (rq_query rq ''limit'') 50) (parsePositiveInt (rq_query rq ''offset'') 0))) (\<lambda>res w.
       case res of
         Inl e \<Rightarrow> (w, if e = ErrInvalidQuery
           then writeError rq 400 ''INVALID_QUERY'' ''The resource search could not be completed.'' else internalError rq)
       | Inr page \<Rightarrow>
           (case hs_protected w of None \<Rightarrow> (w, writeJSON 200 (ResourcesBody page None))
            | Some st \<Rightarrow> store_outcome (\<lambda>_. answer (internalError rq))
                (\<lambda>capacity. answer (writeJSON 200 (ResourcesBody page (Some capacity))))
                (CapacitySummary (fault_of env 3) (he_volume env) st) w)))"

section \<open>Metrics\<close>

definition health :: "('i, 'g, 's, 'a, 'c) handler" where
  "health = answer (writeJSON 200 (StatusBody ''ok''))"

text \<open>\<open>http.Error\<close> and \<open>http.NotFound\<close>.\<close>

definition plain_error :: "int \<Rightarrow> string \<Rightarrow> reply" where
  "plain_error status message = Answered \<lparr>rp_status = status, rp_headers = [(''Content-Type'', ''text/plain; charset=utf-8''),
     (''X-Content-Type-Options'', ''nosniff'')], rp_cookie = None, rp_body = PlainBody (message @ NL)\<rparr>"

definition metrics_unavailable :: reply where
  "metrics_unavailable = plain_error 503 ''metrics collection unavailable''"

definition scanner_metrics :: "scanner_posture \<Rightarrow> int64 \<Rightarrow> operational_metrics \<Rightarrow> operational_metrics" where
  "scanner_metrics sp max_age m = m\<lparr>om_scanner_connected := sp_connected sp, om_scanner_production_ready := sp_production_ready sp,
     om_scanner_signatures_fresh := sp_fresh sp, om_scanner_signature_age_seconds := sp_age_seconds sp,
     om_scanner_signature_max_age_seconds := max_age\<rparr>"

definition storage_metrics :: "key_posture \<Rightarrow> bool \<Rightarrow> capacity_summary \<Rightarrow> operational_metrics \<Rightarrow> operational_metrics" where
  "storage_metrics k durable c m = m\<lparr>om_key_service_connected := ky_connected k, om_key_service_production_ready := ky_production_ready k,
     om_key_service_hardware_backed := ky_hardware_backed k, om_protected_durable := durable,
     om_protected_objects := cs_tracked_objects c, om_protected_ciphertext_bytes := cs_tracked_bytes c,
     om_protected_orphans := cs_orphaned_objects c, om_protected_missing := cs_missing_objects c\<rparr>"

definition audit_metrics :: "int \<Rightarrow> verification \<Rightarrow> operational_metrics \<Rightarrow> operational_metrics" where
  "audit_metrics n v m = (let a = vf_anchor v in
     m\<lparr>om_audit_pending_evidence := n, om_audit_anchor_connected := av_connected a,
       om_audit_anchor_production_ready := av_production_ready a, om_audit_anchor_valid := av_valid a,
       om_audit_anchor_lag_events := (if vf_verified_through v > av_anchored_through a
         then sub64 (vf_verified_through v) (av_anchored_through a) else om_audit_anchor_lag_events m)\<rparr>)"

text \<open>
  The arguments besides the environment: the maximum signature age the scanner reports, which its
  posture record here leaves out, and the rendering of a sum of request times.
\<close>

definition metrics ::
    "platform \<Rightarrow> http_env \<Rightarrow> int64 \<Rightarrow> (duration list \<Rightarrow> string) \<Rightarrow> request \<Rightarrow> ('i, 'g, 's, 'a, 'c) handler" where
  "metrics P env max_age seconds_sum rq w =
     (if \<not> tr_enabled (hs_telemetry w) then (w, plain_error 404 ''404 page not found'')
      else if \<not> authorized P (rq_header rq ''Authorization'') (hs_telemetry w)
      then (w, with_header (''WWW-Authenticate'', ''Bearer realm='' @ quoted ''securestore-metrics'')
             (plain_error 401 ''metrics authentication required''))
      else calling (on_ingest (ListAdminResources P (he_disk env) (he_clock env 2 0) [] 1 0)) (\<lambda>res w.
        case res of Inl _ \<Rightarrow> (w, metrics_unavailable)
        | Inr resources \<Rightarrow>
            (let now = he_clock env 2 1;
                 m = scanner_metrics (scanner_status env (he_clock env 3 0)) max_age ((metricsFromResources resources)
                   \<lparr>om_uptime_seconds := seconds_of (time_sub now (hs_started_at w))\<rparr>)
             in case (case hs_protected w of None \<Rightarrow> Inr m
                  | Some st \<Rightarrow> (case CapacitySummary (fault_of env 3) (he_volume env) st of Inl e \<Rightarrow> Inl e
                      | Inr c \<Rightarrow> Inr (storage_metrics (KeyPosture (he_clock env 3 1) st) (svc_Durable st) c m))) of
                Inl _ \<Rightarrow> (w, metrics_unavailable)
              | Inr m \<Rightarrow>
                  (case (PendingOutboxCount (hs_audit w), Verify P (hs_audit w)) of
                     (Inr n, Inr v) \<Rightarrow>
                       (let tr = recordScrape now (hs_telemetry w) in
                        (w\<lparr>hs_telemetry := tr\<rparr>, Answered \<lparr>rp_status = 200,
                           rp_headers = [(''Content-Type'', ''text/plain; version=0.0.4; charset=utf-8'')], rp_cookie = None,
                           rp_body = PlainBody (renderHTTP seconds_sum tr @ renderOperationalMetrics (audit_metrics n v m))\<rparr>))
                   | _ \<Rightarrow> (w, metrics_unavailable)))) w)"

end
