(* ===== verification/ApiOrphans.thy ===== *)
theory ApiOrphans
  imports ApiReports
begin

text \<open>
  Orphan reconciliation and quotas, the last administrator handlers of \<open>internal/api/server.go\<close>.
\<close>

section \<open>Orphans\<close>

definition orphanReconciliationMinimumAge :: duration where "orphanReconciliationMinimumAge = hour"

definition orphanCandidates :: "platform \<Rightarrow> http_env \<Rightarrow> ('i, 'g, 's, 'a, 'c) server \<Rightarrow> unit + candidate list" where
  "orphanCandidates P env w =
     (case quarantine_OrphanCandidates P (he_disk env) orphanReconciliationMinimumAge (he_clock env 2 0) (hs_ingest w) of
        Inl _ \<Rightarrow> Inl ()
      | Inr candidates \<Rightarrow>
          (case hs_protected w of None \<Rightarrow> Inr candidates
           | Some st \<Rightarrow>
               (case OrphanCandidates P (fault_of env 2) orphanReconciliationMinimumAge (he_clock env 2 1) st of Inl _ \<Rightarrow> Inl ()
                | Inr protected_candidates \<Rightarrow> Inr (candidates @ protected_candidates))))"

definition listOrphans :: "platform \<Rightarrow> http_env \<Rightarrow> request \<Rightarrow> ('i, 'g, 's, 'a, 'c) handler" where
  "listOrphans P env rq =
     after (requirePrivileged P env rq) (\<lambda>_ w.
       case orphanCandidates P env w of Inl _ \<Rightarrow> (w, internalError rq)
       | Inr candidates \<Rightarrow> (w, writeJSON 200 (OrphansBody \<lparr>op_generated_at = he_clock env 3 0,
            op_minimum_age_seconds = seconds_of orphanReconciliationMinimumAge, op_candidates = candidates\<rparr>)))"

text \<open>
  The deletion of one authorized object: \<open>None\<close> where the store answers an error, which leaves the
  operation to the recovery worker.
\<close>

definition resume_orphan ::
    "faults \<Rightarrow> orphan_reconciliation \<Rightarrow> ('i, 'g, 's, 'a, 'c) server \<Rightarrow> ('i, 'g, 's, 'a, 'c) server \<times> resume_outcome option" where
  "resume_orphan io operation w =
     (if or_zone operation = ''quarantine''
      then (case on_ingest (ResumeOrphanReconciliation io operation) w of
          (w1, Inl _) \<Rightarrow> (w1, None) | (w1, Inr outcome) \<Rightarrow> (w1, Some outcome))
      else (case on_protected (ResumeProtectedOrphan io operation) w of
          (w1, Some (Inr outcome)) \<Rightarrow> (w1, Some outcome) | (w1, _) \<Rightarrow> (w1, None)))"

text \<open>The completion of a resumed operation: the evidence, the journal, and the delivery when it was updated.\<close>

definition orphan_completed ::
    "platform \<Rightarrow> http_env \<Rightarrow> nat \<Rightarrow> request \<Rightarrow> session \<Rightarrow> string \<Rightarrow> orphan_reconciliation \<Rightarrow> resume_outcome
       \<Rightarrow> ('i, 'g, 's, 'a, 'c) server \<Rightarrow> ('i, 'g, 's, 'a, 'c) server \<times> (reply + unit)" where
  "orphan_completed P env n rq s token operation outcome =
     (let failed = (ro_status outcome = ReconciliationFailed) in
      andthen (new_intent env n rq ((user_input rq (user_of s) ''ORPHAN_DELETION_COMPLETED'' ''storage_orphan'' token
          (if failed then ''failed'' else ''success'') (ro_reason_code outcome))
          \<lparr>ip_correlation_id := or_correlation_id operation, ip_from_state := or_zone operation,
           ip_to_state := if failed then ''retained'' else ''deleted''\<rparr>)) (\<lambda>i w.
      case on_protected (CompleteOrphanReconciliation (he_clock env n 1) (or_operation_id operation) (ro_status outcome)
              (ro_reason_code outcome) i) w of
        (w1, Some (Inr updated)) \<Rightarrow>
          (if updated then deliver P env (Suc n) rq i (case hs_protected w1 of None \<Rightarrow> False | Some st \<Rightarrow> svc_Durable st) w1
           else (w1, Inr ()))
      | (w1, _) \<Rightarrow> (w1, Inl (internalError rq))))"

definition orphan_resumed ::
    "platform \<Rightarrow> http_env \<Rightarrow> nat \<Rightarrow> request \<Rightarrow> session \<Rightarrow> string \<Rightarrow> orphan_reconciliation
       \<Rightarrow> ('i, 'g, 's, 'a, 'c) server \<Rightarrow> ('i, 'g, 's, 'a, 'c) server \<times> (reply + bool)" where
  "orphan_resumed P env n rq s token operation =
     calling (resume_orphan (fault_of env (n + 1)) operation) (\<lambda>x.
       case x of None \<Rightarrow> (\<lambda>w. (w, Inr False))
       | Some outcome \<Rightarrow> andthen (orphan_completed P env (n + 2) rq s token operation outcome)
           (\<lambda>_ w. (w, Inr (ro_status outcome \<noteq> ReconciliationFailed))))"

text \<open>One selected token that names an eligible candidate: the result is whether it counts as completed.\<close>

definition reconcile_one ::
    "platform \<Rightarrow> http_env \<Rightarrow> nat \<Rightarrow> request \<Rightarrow> session \<Rightarrow> string \<Rightarrow> candidate
       \<Rightarrow> ('i, 'g, 's, 'a, 'c) server \<Rightarrow> ('i, 'g, 's, 'a, 'c) server \<times> (reply + bool)" where
  "reconcile_one P env n rq s token c =
     andthen (new_intent env n rq ((user_input rq (user_of s) ''ORPHAN_DELETION_AUTHORIZED'' ''storage_orphan'' token ''success''
         ''administrator_reconciliation'')\<lparr>ip_to_state := cd_zone c\<rparr>)) (\<lambda>i w.
       case on_protected (AuthorizeOrphanReconciliation (he_store env n) c (user_of s) (correlationID rq) i) w of
         (w1, Some (Inr (operation, created))) \<Rightarrow>
           (if created
            then andthen (deliver P env (n + 4) rq i (case hs_protected w1 of None \<Rightarrow> False | Some st \<Rightarrow> svc_Durable st))
              (\<lambda>_. orphan_resumed P env n rq s token operation) w1
            else if or_status operation = ReconciliationCompleted then (w1, Inr True)
            else if or_status operation = ReconciliationFailed then (w1, Inr False)
            else orphan_resumed P env n rq s token operation w1)
       | (w1, _) \<Rightarrow> (w1, Inl (internalError rq)))"

text \<open>Five calls per token; a duplicate, an unknown or an ineligible token counts as failed.\<close>

fun reconcile_each ::
    "platform \<Rightarrow> http_env \<Rightarrow> nat \<Rightarrow> request \<Rightarrow> session \<Rightarrow> (string, candidate) gomap \<Rightarrow> string list \<Rightarrow> string list
       \<Rightarrow> reconcile_result \<Rightarrow> ('i, 'g, 's, 'a, 'c) server \<Rightarrow> ('i, 'g, 's, 'a, 'c) server \<times> (reply + reconcile_result)" where
  "reconcile_each P env n rq s available seen [] r = (\<lambda>w. (w, Inr r))"
| "reconcile_each P env n rq s available seen (token # tokens) r =
     (let failed = r\<lparr>rn_failed := rn_failed r + 1\<rparr>; completed = r\<lparr>rn_completed := rn_completed r + 1\<rparr> in
      case map_of available token of
        None \<Rightarrow> reconcile_each P env n rq s available seen tokens failed
      | Some c \<Rightarrow>
          if token \<in> set seen \<or> \<not> cd_eligible c then reconcile_each P env n rq s available seen tokens failed
          else andthen (reconcile_one P env n rq s token c) (\<lambda>ok.
            reconcile_each P env (n + 5) rq s available (token # seen) tokens (if ok then completed else failed)))"

text \<open>A body that cannot be read ends the handler before it has written anything.\<close>

definition reconcileOrphans :: "platform \<Rightarrow> http_env \<Rightarrow> request \<Rightarrow> ('i, 'g, 's, 'a, 'c) handler" where
  "reconcileOrphans P env rq =
     after (requireAdminMutation P env rq) (\<lambda>(token, s).
       case readJSON P env rq [(''tokens'', TextsField [])] of Inl _ \<Rightarrow> answer nothing_written
       | Inr fs \<Rightarrow>
           (let tokens = texts_of (field ''tokens'' fs) in
            if length tokens < 1 \<or> length tokens > 25
            then answer (writeError rq 400 ''INVALID_RECONCILIATION_SELECTION'' ''Select between 1 and 25 eligible orphan objects.'')
            else if_connected (writeError rq 503 ''RECONCILIATION_UNAVAILABLE'' ''Durable orphan reconciliation is unavailable.'')
              (\<lambda>w. case orphanCandidates P env w of Inl _ \<Rightarrow> (w, internalError rq)
                 | Inr candidates \<Rightarrow>
                     after (reconcile_each P env 3 rq s (fold (\<lambda>c. mput (cd_token c) c) candidates []) [] tokens
                         \<lparr>rn_requested = int (length tokens), rn_completed = 0, rn_failed = 0\<rparr>)
                       (\<lambda>r. answer (writeJSON 200 (ReconcileBody r))) w)))"

section \<open>Quotas\<close>

text \<open>The account must be a standard user.\<close>

definition quota_owner :: "request \<Rightarrow> string \<Rightarrow> ('i, 'g, 's, 'a, 'c) server \<Rightarrow> ('i, 'g, 's, 'a, 'c) server \<times> (reply + unit)" where
  "quota_owner rq ownerID w =
     (w, case UserRole ownerID (hs_auth w) of
        Inl e \<Rightarrow> Inl (if e = ErrUserNotFound then writeError rq 404 ''USER_NOT_FOUND'' ''The standard-user account could not be found.''
          else internalError rq)
      | Inr role \<Rightarrow> if role \<noteq> ''user''
          then Inl (writeError rq 409 ''STANDARD_USER_REQUIRED'' ''Quota overrides apply only to standard-user accounts.'') else Inr ())"

definition updateOwnerQuota :: "platform \<Rightarrow> http_env \<Rightarrow> request \<Rightarrow> ('i, 'g, 's, 'a, 'c) handler" where
  "updateOwnerQuota P env rq =
     after (requireAdminMutation P env rq) (\<lambda>(token, s).
       let ownerID = rq_path_value rq ''ownerId'';
           invalid = writeError rq 400 ''INVALID_QUOTA'' ''Choose a quota between 1 MB and 10 TB.'' in
       after (quota_owner rq ownerID) (\<lambda>_.
       case readJSON P env rq [(''quotaBytes'', NumberField 0)] of Inl _ \<Rightarrow> answer invalid
       | Inr fs \<Rightarrow>
           (let quota = number_of (field ''quotaBytes'' fs) in
            after (new_intent env 2 rq ((user_input rq (user_of s) ''OWNER_QUOTA_UPDATED'' ''user'' ownerID ''success'' ''administrator_policy'')
                \<lparr>ip_to_state := decimal quota\<rparr>)) (\<lambda>i.
            calling (on_ingest (SetOwnerQuotaAudited ownerID quota i)) (\<lambda>res.
              case res of Inl e \<Rightarrow> answer (if e = ErrInvalidQuery then invalid else internalError rq)
              | Inr durable \<Rightarrow> after (deliver P env 3 rq i durable)
                  (\<lambda>_. answer (writeJSON 200 (MessageBody ''The account quota was updated.'')))))))) "

definition resetOwnerQuota :: "platform \<Rightarrow> http_env \<Rightarrow> request \<Rightarrow> ('i, 'g, 's, 'a, 'c) handler" where
  "resetOwnerQuota P env rq =
     after (requireAdminMutation P env rq) (\<lambda>(token, s).
       let ownerID = rq_path_value rq ''ownerId'' in
       after (quota_owner rq ownerID) (\<lambda>_.
       after (new_intent env 2 rq ((user_input rq (user_of s) ''OWNER_QUOTA_UPDATED'' ''user'' ownerID ''success''
           ''organization_default_restored'')\<lparr>ip_to_state := ''default''\<rparr>)) (\<lambda>i.
       calling (on_ingest (ResetOwnerQuotaAudited ownerID i)) (\<lambda>res.
         case res of
           Inl e \<Rightarrow> answer (if e = ErrInvalidQuery
             then writeError rq 400 ''INVALID_OWNER'' ''Choose a valid standard-user account.'' else internalError rq)
         | Inr durable \<Rightarrow> after (deliver P env 3 rq i durable)
             (\<lambda>_. answer (writeJSON 200 (MessageBody ''The organization default quota was restored.'')))))))"

end
