(* ===== verification/ApiRoutes.thy ===== *)
theory ApiRoutes
  imports ApiOrphans
begin

text \<open>
  The routes of \<open>NewServer\<close> and \<open>ServeHTTP\<close>: the pattern matching of \<open>net/http.ServeMux\<close> for the patterns that
  are registered, and the chain of middleware around it. A request's path is given by its decoded
  segments; paths that are not clean, which the mux redirects before a handler runs, are left out.
\<close>

section \<open>The routes\<close>

datatype endpoint = EpHealth | EpMetrics | EpRegister | EpVerifyEmail | EpResendVerification
  | EpLogin | EpPrivilegedLogin | EpCompletePrivilegedMFA | EpCreateStepUpProof | EpActivatePrivilegedAccount
  | EpLogout | EpGetSession | EpListUsers | EpInvitePrivilegedAccount | EpUpdateUserStatus
  | EpRevokeUserSessions | EpListAdminResources | EpListOrphans | EpReconcileOrphans | EpAdminSecurity
  | EpRewrapDEKs | EpAdminMonitoring | EpAdminLifecycle | EpProcessLifecycleDeletions | EpRunRecoveryDrill
  | EpListAuditEvents | EpExportAuditEvents | EpUpdateOwnerQuota | EpResetOwnerQuota | EpCreateUpload
  | EpListUserFiles | EpListTrash | EpMoveFileToTrash | EpRestoreFileFromTrash | EpPurgeFile
  | EpListSharedFiles | EpGetUserFile | EpDownloadUserFile | EpRestoreUserFileVersion | EpListFileGrants
  | EpCreateFileGrant | EpRevokeFileGrant | EpSetFileRetention | EpSetFileLegalHold | EpGetUpload
  | EpDownloadUpload

type_synonym route_row = "string \<times> string \<times> endpoint"

definition routes :: "route_row list" where
  "routes = [
     (''GET'', ''/healthz'', EpHealth),
     (''GET'', ''/metrics'', EpMetrics),
     (''POST'', ''/api/v1/auth/register'', EpRegister),
     (''POST'', ''/api/v1/auth/verify-email'', EpVerifyEmail),
     (''POST'', ''/api/v1/auth/resend-verification'', EpResendVerification),
     (''POST'', ''/api/v1/auth/login'', EpLogin),
     (''POST'', ''/api/v1/admin/auth/login'', EpPrivilegedLogin),
     (''POST'', ''/api/v1/admin/auth/mfa/complete'', EpCompletePrivilegedMFA),
     (''POST'', ''/api/v1/admin/auth/step-up'', EpCreateStepUpProof),
     (''POST'', ''/api/v1/admin/auth/activate'', EpActivatePrivilegedAccount),
     (''POST'', ''/api/v1/auth/logout'', EpLogout),
     (''GET'', ''/api/v1/session'', EpGetSession),
     (''GET'', ''/api/v1/admin/users'', EpListUsers),
     (''POST'', ''/api/v1/admin/users/invitations'', EpInvitePrivilegedAccount),
     (''PATCH'', ''/api/v1/admin/users/{userId}/status'', EpUpdateUserStatus),
     (''POST'', ''/api/v1/admin/users/{userId}/sessions/revoke'', EpRevokeUserSessions),
     (''GET'', ''/api/v1/admin/resources'', EpListAdminResources),
     (''GET'', ''/api/v1/admin/resources/orphans'', EpListOrphans),
     (''POST'', ''/api/v1/admin/resources/orphans/reconcile'', EpReconcileOrphans),
     (''GET'', ''/api/v1/admin/security'', EpAdminSecurity),
     (''POST'', ''/api/v1/admin/security/keys/rewrap'', EpRewrapDEKs),
     (''GET'', ''/api/v1/admin/monitoring'', EpAdminMonitoring),
     (''GET'', ''/api/v1/admin/lifecycle'', EpAdminLifecycle),
     (''POST'', ''/api/v1/admin/lifecycle/process'', EpProcessLifecycleDeletions),
     (''POST'', ''/api/v1/admin/lifecycle/files/{fileId}/recovery-drill'', EpRunRecoveryDrill),
     (''GET'', ''/api/v1/admin/audit'', EpListAuditEvents),
     (''GET'', ''/api/v1/admin/audit/export'', EpExportAuditEvents),
     (''PUT'', ''/api/v1/admin/resources/owners/{ownerId}/quota'', EpUpdateOwnerQuota),
     (''DELETE'', ''/api/v1/admin/resources/owners/{ownerId}/quota'', EpResetOwnerQuota),
     (''POST'', ''/api/v1/uploads'', EpCreateUpload),
     (''GET'', ''/api/v1/files'', EpListUserFiles),
     (''GET'', ''/api/v1/files/trash'', EpListTrash),
     (''POST'', ''/api/v1/files/{fileId}/trash'', EpMoveFileToTrash),
     (''POST'', ''/api/v1/files/{fileId}/restore'', EpRestoreFileFromTrash),
     (''DELETE'', ''/api/v1/files/{fileId}'', EpPurgeFile),
     (''GET'', ''/api/v1/files/shared'', EpListSharedFiles),
     (''GET'', ''/api/v1/files/{fileId}'', EpGetUserFile),
     (''GET'', ''/api/v1/files/{fileId}/content'', EpDownloadUserFile),
     (''POST'', ''/api/v1/files/{fileId}/versions/{versionId}/restore'', EpRestoreUserFileVersion),
     (''GET'', ''/api/v1/files/{fileId}/grants'', EpListFileGrants),
     (''POST'', ''/api/v1/files/{fileId}/grants'', EpCreateFileGrant),
     (''DELETE'', ''/api/v1/files/{fileId}/grants/{grantId}'', EpRevokeFileGrant),
     (''PUT'', ''/api/v1/admin/lifecycle/files/{fileId}/retention'', EpSetFileRetention),
     (''PUT'', ''/api/v1/admin/lifecycle/files/{fileId}/legal-hold'', EpSetFileLegalHold),
     (''GET'', ''/api/v1/uploads/{uploadId}'', EpGetUpload),
     (''GET'', ''/api/v1/uploads/{uploadId}/content'', EpDownloadUpload)]"

text \<open>The segments of a pattern, and the values its wildcards take; a wildcard takes no empty segment.\<close>

fun split_path :: "string \<Rightarrow> string \<Rightarrow> string list" where
  "split_path word [] = [word]"
| "split_path word (c # cs) = (if c = CHR ''/'' then word # split_path [] cs else split_path (word @ [c]) cs)"

definition pattern_segments :: "string \<Rightarrow> string list" where
  "pattern_segments pattern = tl (split_path [] pattern)"

definition wildcard :: "string \<Rightarrow> string option" where
  "wildcard segment = (if segment \<noteq> [] \<and> hd segment = CHR 0x7B then Some (butlast (tl segment)) else None)"

fun match_segments :: "string list \<Rightarrow> string list \<Rightarrow> (string, string) gomap option" where
  "match_segments [] [] = Some []"
| "match_segments (p # ps) (s # ss) =
     (case wildcard p of
        Some name \<Rightarrow> if s = [] then None else map_option ((#) (name, s)) (match_segments ps ss)
      | None \<Rightarrow> if p = s then match_segments ps ss else None)"
| "match_segments _ _ = None"

definition literals :: "string \<Rightarrow> nat" where
  "literals pattern = length (filter (\<lambda>p. wildcard p = None) (pattern_segments pattern))"

text \<open>\<open>GET\<close> patterns also serve \<open>HEAD\<close>.\<close>

definition method_matches :: "string \<Rightarrow> string \<Rightarrow> bool" where
  "method_matches pattern m \<longleftrightarrow> pattern = m \<or> pattern = ''GET'' \<and> m = ''HEAD''"

definition path_matches :: "string list \<Rightarrow> route_row list" where
  "path_matches segments = filter (\<lambda>(_, pattern, _). match_segments (pattern_segments pattern) segments \<noteq> None) routes"

text \<open>The more specific pattern wins: where two of these patterns match a path, the one with more literal segments.\<close>

definition find_route :: "request \<Rightarrow> (route_row \<times> (string, string) gomap) option" where
  "find_route rq =
     (case sort_key (\<lambda>(_, pattern, _). - int (literals pattern))
         (filter (\<lambda>(m, _, _). method_matches m (rq_method rq)) (path_matches (rq_segments rq))) of
        [] \<Rightarrow> None
      | (m, pattern, ep) # _ \<Rightarrow>
          map_option (\<lambda>b. ((m, pattern, ep), b)) (match_segments (pattern_segments pattern) (rq_segments rq)))"

section \<open>Serving a request\<close>

definition handle ::
    "platform \<Rightarrow> http_env \<Rightarrow> int64 \<Rightarrow> (duration list \<Rightarrow> string) \<Rightarrow> endpoint \<Rightarrow> request \<Rightarrow> ('i, 'g, 's, 'a, 'c) handler" where
  "handle P env max_age seconds_sum ep rq =
     (case ep of EpHealth \<Rightarrow> health
      | EpMetrics \<Rightarrow> metrics P env max_age seconds_sum rq
      | EpRegister \<Rightarrow> register P env rq
      | EpVerifyEmail \<Rightarrow> verifyEmail P env rq
      | EpResendVerification \<Rightarrow> resendVerification P env rq
      | EpLogin \<Rightarrow> login P env rq
      | EpPrivilegedLogin \<Rightarrow> privilegedLogin P env rq
      | EpCompletePrivilegedMFA \<Rightarrow> completePrivilegedMFA P env rq
      | EpCreateStepUpProof \<Rightarrow> createStepUpProof P env rq
      | EpActivatePrivilegedAccount \<Rightarrow> activatePrivilegedAccount P env rq
      | EpLogout \<Rightarrow> logout P env rq
      | EpGetSession \<Rightarrow> getSession P env rq
      | EpListUsers \<Rightarrow> api_listUsers P env rq
      | EpInvitePrivilegedAccount \<Rightarrow> invitePrivilegedAccount P env rq
      | EpUpdateUserStatus \<Rightarrow> updateUserStatus P env rq
      | EpRevokeUserSessions \<Rightarrow> revokeUserSessions P env rq
      | EpListAdminResources \<Rightarrow> listAdminResources P env rq
      | EpListOrphans \<Rightarrow> listOrphans P env rq
      | EpReconcileOrphans \<Rightarrow> reconcileOrphans P env rq
      | EpAdminSecurity \<Rightarrow> adminSecurity P env rq
      | EpRewrapDEKs \<Rightarrow> rewrapDEKs P env rq
      | EpAdminMonitoring \<Rightarrow> adminMonitoring P env rq
      | EpAdminLifecycle \<Rightarrow> adminLifecycle P env rq
      | EpProcessLifecycleDeletions \<Rightarrow> processLifecycleDeletions P env rq
      | EpRunRecoveryDrill \<Rightarrow> runRecoveryDrill P env rq
      | EpListAuditEvents \<Rightarrow> listAuditEvents P env rq
      | EpExportAuditEvents \<Rightarrow> exportAuditEvents P env rq
      | EpUpdateOwnerQuota \<Rightarrow> updateOwnerQuota P env rq
      | EpResetOwnerQuota \<Rightarrow> resetOwnerQuota P env rq
      | EpCreateUpload \<Rightarrow> createUpload P env rq
      | EpListUserFiles \<Rightarrow> listUserFiles P env rq
      | EpListTrash \<Rightarrow> listTrash P env rq
      | EpMoveFileToTrash \<Rightarrow> moveFileToTrash P env rq
      | EpRestoreFileFromTrash \<Rightarrow> restoreFileFromTrash P env rq
      | EpPurgeFile \<Rightarrow> purgeFile P env rq
      | EpListSharedFiles \<Rightarrow> listSharedFiles P env rq
      | EpGetUserFile \<Rightarrow> getUserFile P env rq
      | EpDownloadUserFile \<Rightarrow> downloadUserFile P env rq
      | EpRestoreUserFileVersion \<Rightarrow> restoreUserFileVersion P env rq
      | EpListFileGrants \<Rightarrow> listFileGrants P env rq
      | EpCreateFileGrant \<Rightarrow> createFileGrant P env rq
      | EpRevokeFileGrant \<Rightarrow> revokeFileGrant P env rq
      | EpSetFileRetention \<Rightarrow> setFileRetention P env rq
      | EpSetFileLegalHold \<Rightarrow> setFileLegalHold P env rq
      | EpGetUpload \<Rightarrow> getUpload P env rq
      | EpDownloadUpload \<Rightarrow> downloadUpload P env rq)"

text \<open>What the mux answers itself: 405 with the methods of the patterns that match the path, or 404.\<close>

fun join_commas :: "string list \<Rightarrow> string" where
  "join_commas [] = []"
| "join_commas [s] = s"
| "join_commas (s # ss) = s @ '', '' @ join_commas ss"

definition allowed_methods :: "request \<Rightarrow> string list" where
  "allowed_methods rq =
     (let ms = map fst (path_matches (rq_segments rq))
      in sort (remdups (ms @ (if ''GET'' \<in> set ms then [''HEAD''] else []))))"

definition mux_error :: "request \<Rightarrow> reply" where
  "mux_error rq =
     (if allowed_methods rq = [] then plain_error 404 ''404 page not found''
      else with_header (''Allow'', join_commas (allowed_methods rq)) (plain_error 405 ''Method Not Allowed''))"

definition mux ::
    "platform \<Rightarrow> http_env \<Rightarrow> int64 \<Rightarrow> (duration list \<Rightarrow> string) \<Rightarrow> request \<Rightarrow> ('i, 'g, 's, 'a, 'c) handler" where
  "mux P env max_age seconds_sum rq =
     (case find_route rq of None \<Rightarrow> answer (mux_error rq)
      | Some ((_, _, ep), bindings) \<Rightarrow> handle P env max_age seconds_sum ep (rq\<lparr>rq_path_value := mget [] bindings\<rparr>))"

definition matched_pattern :: "request \<Rightarrow> string" where
  "matched_pattern rq = (case find_route rq of None \<Rightarrow> [] | Some ((m, pattern, _), _) \<Rightarrow> m @ '' '' @ pattern)"

text \<open>\<open>observe\<close>: a panic passes it before anything is counted. The elapsed time is between readings 1 and 2 of call 0.\<close>

definition observe ::
    "http_env \<Rightarrow> (request \<Rightarrow> ('i, 'g, 's, 'a, 'c) handler) \<Rightarrow> request \<Rightarrow> ('i, 'g, 's, 'a, 'c) handler" where
  "observe env next_handler rq w =
     (case next_handler rq w of
        (w1, Panicked) \<Rightarrow> (w1, Panicked)
      | (w1, Answered a) \<Rightarrow>
          (w1\<lparr>hs_telemetry := observed (metric_key (rq_method rq) (matched_pattern rq) (rp_status a))
                (time_sub (he_clock env 0 2) (he_clock env 0 1)) (hs_telemetry w1)\<rparr>, Answered a))"

definition ServeHTTP ::
    "platform \<Rightarrow> http_env \<Rightarrow> int64 \<Rightarrow> (duration list \<Rightarrow> string) \<Rightarrow> request \<Rightarrow> ('i, 'g, 's, 'a, 'c) handler" where
  "ServeHTTP P env max_age seconds_sum =
     observe env (securityHeaders (correlation (he_draws env 0 0) (originCheck (mux P env max_age seconds_sum))))"

end
