(* ===== verification/ApiAccess.thy ===== *)
theory ApiAccess
  imports ApiRoutes
begin

text \<open>
  Who may ask for what: a table of what each endpoint demands of the sender, kept apart from the handlers,
  and the proof that every handler starts with a guard that enforces its entry. A guard is an interface:
  it ends the request of a sender that is not allowed, having done no more than look up the session.
\<close>

section \<open>The policy\<close>

datatype demand = Anyone | SignedIn | SignedInChange | Privileged | Administrator | AdministratorToken
  | AdministratorChange | StandardUser | StandardChange

fun demand_of :: "endpoint \<Rightarrow> demand" where
  "demand_of EpLogout = SignedInChange"
| "demand_of EpGetSession = SignedIn"
| "demand_of EpCreateStepUpProof = AdministratorToken"
| "demand_of EpListUsers = Administrator"
| "demand_of EpInvitePrivilegedAccount = AdministratorChange"
| "demand_of EpUpdateUserStatus = AdministratorChange"
| "demand_of EpRevokeUserSessions = AdministratorChange"
| "demand_of EpListAdminResources = Privileged"
| "demand_of EpListOrphans = Privileged"
| "demand_of EpReconcileOrphans = AdministratorChange"
| "demand_of EpAdminSecurity = Privileged"
| "demand_of EpRewrapDEKs = AdministratorChange"
| "demand_of EpAdminMonitoring = Privileged"
| "demand_of EpAdminLifecycle = Privileged"
| "demand_of EpProcessLifecycleDeletions = AdministratorChange"
| "demand_of EpRunRecoveryDrill = AdministratorChange"
| "demand_of EpListAuditEvents = Privileged"
| "demand_of EpExportAuditEvents = Privileged"
| "demand_of EpUpdateOwnerQuota = AdministratorChange"
| "demand_of EpResetOwnerQuota = AdministratorChange"
| "demand_of EpSetFileRetention = AdministratorChange"
| "demand_of EpSetFileLegalHold = AdministratorChange"
| "demand_of EpCreateUpload = StandardChange"
| "demand_of EpMoveFileToTrash = StandardChange"
| "demand_of EpRestoreFileFromTrash = StandardChange"
| "demand_of EpPurgeFile = StandardChange"
| "demand_of EpRestoreUserFileVersion = StandardChange"
| "demand_of EpCreateFileGrant = StandardChange"
| "demand_of EpRevokeFileGrant = StandardChange"
| "demand_of EpListUserFiles = StandardUser"
| "demand_of EpListTrash = StandardUser"
| "demand_of EpListSharedFiles = StandardUser"
| "demand_of EpGetUserFile = StandardUser"
| "demand_of EpDownloadUserFile = StandardUser"
| "demand_of EpListFileGrants = StandardUser"
| "demand_of EpGetUpload = StandardUser"
| "demand_of EpDownloadUpload = StandardUser"
| "demand_of _ = Anyone"

definition csrf_ok :: "request \<Rightarrow> session \<Rightarrow> bool" where
  "csrf_ok rq s \<longleftrightarrow> ss_csrf_token s \<noteq> [] \<and> rq_header rq ''X-CSRF-Token'' = ss_csrf_token s"

definition acts_as :: "session \<Rightarrow> string \<Rightarrow> string list \<Rightarrow> bool" where
  "acts_as s audience roles \<longleftrightarrow> ss_audience s = audience \<and> u_role (ss_user s) \<in> set roles"

text \<open>What a session, given with its token, may do; the store is the one the session was found in.\<close>

fun may :: "platform \<Rightarrow> http_env \<Rightarrow> request \<Rightarrow> 'i store \<Rightarrow> string \<times> session \<Rightarrow> demand \<Rightarrow> bool" where
  "may P env rq st (t, s) Anyone = True"
| "may P env rq st (t, s) SignedIn = True"
| "may P env rq st (t, s) SignedInChange = csrf_ok rq s"
| "may P env rq st (t, s) Privileged = acts_as s ''privileged'' [''admin'', ''auditor'']"
| "may P env rq st (t, s) Administrator = acts_as s ''privileged'' [''admin'']"
| "may P env rq st (t, s) AdministratorToken = (acts_as s ''privileged'' [''admin''] \<and> csrf_ok rq s)"
| "may P env rq st (t, s) AdministratorChange = (acts_as s ''privileged'' [''admin''] \<and> csrf_ok rq s
     \<and> (st_require_admin_step_up st \<longrightarrow> ValidateStepUpProof P (he_clock env 1 0) t s (rq_header rq ''X-Step-Up-Token'') st))"
| "may P env rq st (t, s) StandardUser = acts_as s ''user'' [''user'']"
| "may P env rq st (t, s) StandardChange = (acts_as s ''user'' [''user''] \<and> csrf_ok rq s)"

section \<open>The session of a request\<close>

text \<open>Looking up a session drops it when it has expired; that is all a refused request does.\<close>

definition looked_up :: "platform \<Rightarrow> http_env \<Rightarrow> request \<Rightarrow> ('i, 'g, 's, 'a, 'c) server \<Rightarrow> ('i, 'g, 's, 'a, 'c) server" where
  "looked_up P env rq w =
     (case rq_cookie rq of None \<Rightarrow> w
      | Some t \<Rightarrow> w\<lparr>hs_auth := fst (Authenticate P (he_clock env 0 0) t (hs_auth w))\<rparr>)"

definition session_of :: "platform \<Rightarrow> http_env \<Rightarrow> request \<Rightarrow> ('i, 'g, 's, 'a, 'c) server \<Rightarrow> (string \<times> session) option" where
  "session_of P env rq w =
     (case rq_cookie rq of None \<Rightarrow> None
      | Some t \<Rightarrow> (case snd (Authenticate P (he_clock env 0 0) t (hs_auth w)) of Inl _ \<Rightarrow> None | Inr s \<Rightarrow> Some (t, s)))"

definition entitled :: "platform \<Rightarrow> http_env \<Rightarrow> demand \<Rightarrow> request \<Rightarrow> ('i, 'g, 's, 'a, 'c) server \<Rightarrow> bool" where
  "entitled P env d rq w \<longleftrightarrow> d = Anyone
     \<or> (case session_of P env rq w of None \<Rightarrow> False | Some ts \<Rightarrow> may P env rq (hs_auth (looked_up P env rq w)) ts d)"

definition refusal :: "reply \<Rightarrow> bool" where
  "refusal r \<longleftrightarrow> (case r of Panicked \<Rightarrow> False
     | Answered a \<Rightarrow> rp_status a \<in> {401, 403, 428} \<and> rp_cookie a = None
         \<and> (case rp_body a of ErrorBody _ _ _ \<Rightarrow> True | _ \<Rightarrow> False))"

lemma refusal_writeError [simp]: "refusal (writeError rq status code message) \<longleftrightarrow> status \<in> {401, 403, 428}"
  by (simp add: refusal_def writeError_def writeJSONStatus_def)

section \<open>Guards\<close>

locale request_guard =
  fixes guard :: "('i, 'g, 's, 'a, 'c) server \<Rightarrow> ('i, 'g, 's, 'a, 'c) server \<times> (reply + string \<times> session)"
    and look :: "('i, 'g, 's, 'a, 'c) server \<Rightarrow> ('i, 'g, 's, 'a, 'c) server"
    and subject :: "('i, 'g, 's, 'a, 'c) server \<Rightarrow> (string \<times> session) option"
    and allowed :: "('i, 'g, 's, 'a, 'c) server \<Rightarrow> string \<times> session \<Rightarrow> bool"
  assumes stops: "(case subject w of None \<Rightarrow> True | Some ts \<Rightarrow> \<not> allowed w ts) \<Longrightarrow> \<exists>r. guard w = (look w, Inl r) \<and> refusal r"
    and passes: "subject w = Some ts \<Longrightarrow> allowed w ts \<Longrightarrow> guard w = (look w, Inr ts)"
begin

lemma stopped:
  assumes "case subject w of None \<Rightarrow> True | Some ts \<Rightarrow> \<not> allowed w ts"
  shows "\<exists>r. after guard h w = (look w, r) \<and> refusal r"
  using stops [OF assms] by auto

lemma passed: "subject w = Some ts \<Longrightarrow> allowed w ts \<Longrightarrow> after guard h w = h ts (look w)"
  by (simp add: passes)

lemma outcome:
  assumes "after guard h w = (w', r)" and "\<not> refusal r"
  obtains ts where "subject w = Some ts" "allowed w ts" "h ts (look w) = (w', r)"
proof (cases "case subject w of None \<Rightarrow> True | Some ts \<Rightarrow> \<not> allowed w ts")
  case True
  with stopped [of w h] assms show thesis by auto
next
  case False
  then obtain ts where "subject w = Some ts" "allowed w ts" by (auto split: option.splits)
  with passed [of w ts h] assms that show thesis by auto
qed

end

text \<open>The guards of the server, one for every demand but the empty one.\<close>

definition guard_of ::
    "platform \<Rightarrow> http_env \<Rightarrow> request \<Rightarrow> demand \<Rightarrow> ('i, 'g, 's, 'a, 'c) server \<Rightarrow> ('i, 'g, 's, 'a, 'c) server \<times> (reply + string \<times> session)" where
  "guard_of P env rq d =
     (case d of SignedIn \<Rightarrow> requireSession P env rq
      | SignedInChange \<Rightarrow> andthen (requireSession P env rq) (csrf_checked rq)
      | Privileged \<Rightarrow> requirePrivileged P env rq
      | Administrator \<Rightarrow> requireAdmin P env rq
      | AdministratorToken \<Rightarrow> requireAdminCSRF P env rq
      | AdministratorChange \<Rightarrow> requireAdminMutation P env rq
      | StandardUser \<Rightarrow> requireStandardUser P env rq
      | StandardChange \<Rightarrow> requireStandardUserMutation P env rq
      | Anyone \<Rightarrow> requireSession P env rq)"

lemma requireSession_eq:
  "requireSession P env rq w = (looked_up P env rq w,
     case session_of P env rq w of None \<Rightarrow> Inl (authentication_required rq) | Some ts \<Rightarrow> Inr ts)"
  by (auto simp: requireSession_def looked_up_def session_of_def calling_def on_auth_def
      split: option.splits prod.splits sum.splits)

lemma andthen_pair:
  "m w = (w1, x) \<Longrightarrow> andthen m f w = (case x of Inl r \<Rightarrow> (w1, Inl r) | Inr y \<Rightarrow> f y w1)"
  by (simp add: andthen_def split: sum.splits)

lemma validCSRF_iff: "validCSRF (rq_header rq ''X-CSRF-Token'') (ss_csrf_token s) \<longleftrightarrow> csrf_ok rq s"
  by (auto simp: validCSRF_def csrf_ok_def)

lemma guard_of_eq:
  "guard_of P env rq d w = (looked_up P env rq w,
     case session_of P env rq w of None \<Rightarrow> Inl (authentication_required rq)
     | Some ts \<Rightarrow> if may P env rq (hs_auth (looked_up P env rq w)) ts d then Inr ts else snd (guard_of P env rq d w))"
  "session_of P env rq w = Some ts \<Longrightarrow> \<not> may P env rq (hs_auth (looked_up P env rq w)) ts d \<Longrightarrow>
     \<exists>r. snd (guard_of P env rq d w) = Inl r \<and> refusal r"
  by (cases ts; cases d;
      auto simp: guard_of_def requireAdmin_def requirePrivileged_def requireStandardUser_def requireAdminCSRF_def
        requireAdminMutation_def requireStandardUserMutation_def csrf_checked_def csrf_rejected_def demanding_def andthen_def
        requireSession_eq validCSRF_iff acts_as_def SessionAudiencePrivileged_def SessionAudienceUser_def
        split: option.splits)+

lemma guard_stops:
  assumes "case session_of P env rq w of None \<Rightarrow> True | Some ts \<Rightarrow> \<not> may P env rq (hs_auth (looked_up P env rq w)) ts d"
  shows "\<exists>r. guard_of P env rq d w = (looked_up P env rq w, Inl r) \<and> refusal r"
  using assms guard_of_eq(1) [of P env rq d w] guard_of_eq(2) [of P env rq w _ d]
  by (cases "session_of P env rq w") (auto simp: authentication_required_def)

lemma guard_passes:
  "session_of P env rq w = Some ts \<Longrightarrow> may P env rq (hs_auth (looked_up P env rq w)) ts d \<Longrightarrow>
   guard_of P env rq d w = (looked_up P env rq w, Inr ts)"
  using guard_of_eq(1) [of P env rq d w] by simp

interpretation server_guard: request_guard "guard_of P env rq d" "looked_up P env rq" "session_of P env rq"
    "\<lambda>w ts. may P env rq (hs_auth (looked_up P env rq w)) ts d" for P env rq d
  by unfold_locales (fact guard_stops, fact guard_passes)

text \<open>Every handler that demands something is its guard and what follows it.\<close>

lemma guarded:
  assumes "demand_of ep \<noteq> Anyone"
  obtains h where "handle P env x f ep rq = after (guard_of P env rq (demand_of ep)) h"
proof -
  have "\<exists>h. handle P env x f ep rq = after (guard_of P env rq (demand_of ep)) h"
    using assms
    by (cases ep; simp add: handle_def guard_of_def requireStandardUserMutation_def [symmetric]
        logout_def createStepUpProof_def getSession_def api_listUsers_def invitePrivilegedAccount_def updateUserStatus_def
        revokeUserSessions_def createUpload_def getUpload_def listUserFiles_def listTrash_def moveFileToTrash_def
        restoreFileFromTrash_def purgeFile_def listSharedFiles_def getUserFile_def listFileGrants_def createFileGrant_def
        revokeFileGrant_def restoreUserFileVersion_def downloadUserFile_def downloadUpload_def listAuditEvents_def
        exportAuditEvents_def adminLifecycle_def setFileRetention_def processLifecycleDeletions_def runRecoveryDrill_def
        setFileLegalHold_def rewrapDEKs_def adminMonitoring_def adminSecurity_def listAdminResources_def listOrphans_def
        reconcileOrphans_def updateOwnerQuota_def resetOwnerQuota_def; blast)
  with that show thesis by blast
qed

section \<open>Through the middleware\<close>

lemma session_of_update [simp]:
  "session_of P env (rq\<lparr>rq_path_value := v\<rparr>) w = session_of P env rq w"
  "session_of P env (rq\<lparr>rq_correlation := i\<rparr>) w = session_of P env rq w"
  "looked_up P env (rq\<lparr>rq_path_value := v\<rparr>) w = looked_up P env rq w"
  "looked_up P env (rq\<lparr>rq_correlation := i\<rparr>) w = looked_up P env rq w"
  by (simp_all add: session_of_def looked_up_def)

lemma may_update [simp]:
  "may P env (rq\<lparr>rq_path_value := v\<rparr>) st ts d = may P env rq st ts d"
  "may P env (rq\<lparr>rq_correlation := i\<rparr>) st ts d = may P env rq st ts d"
  by (cases ts; cases d; simp add: csrf_ok_def)+

lemma entitled_update [simp]:
  "entitled P env d (rq\<lparr>rq_path_value := v\<rparr>) w = entitled P env d rq w"
  "entitled P env d (rq\<lparr>rq_correlation := i\<rparr>) w = entitled P env d rq w"
  by (simp_all add: entitled_def split: option.splits)

lemma find_route_correlation [simp]: "find_route (rq\<lparr>rq_correlation := i\<rparr>) = find_route rq"
  by (simp add: find_route_def cong del: list.case_cong_weak)

text \<open>What the middleware does to a reply.\<close>

definition dressed :: "http_env \<Rightarrow> request \<Rightarrow> reply \<Rightarrow> reply" where
  "dressed env rq r = foldr with_header (security_header_list
      @ (if rq_tls rq then [(''Strict-Transport-Security'', ''max-age=63072000; includeSubDomains'')] else []))
    (with_header (''X-Correlation-ID'', request_correlation (he_draws env 0 0) rq) r)"

lemma with_header_simps [simp]:
  "with_header h (Answered a) = Answered (a\<lparr>rp_headers := h # rp_headers a\<rparr>)" "with_header h Panicked = Panicked"
  by (simp_all add: with_header_def)

lemma foldr_with_header [simp]:
  "foldr with_header hs (Answered a) = Answered (a\<lparr>rp_headers := hs @ rp_headers a\<rparr>)" "foldr with_header hs Panicked = Panicked"
  by (induction hs) simp_all

definition dressed_headers :: "http_env \<Rightarrow> request \<Rightarrow> (string \<times> string) list" where
  "dressed_headers env rq = security_header_list
      @ (if rq_tls rq then [(''Strict-Transport-Security'', ''max-age=63072000; includeSubDomains'')] else [])
      @ [(''X-Correlation-ID'', request_correlation (he_draws env 0 0) rq)]"

lemma dressed_simps [simp]:
  "dressed env rq (Answered a) = Answered (a\<lparr>rp_headers := dressed_headers env rq @ rp_headers a\<rparr>)" "dressed env rq Panicked = Panicked"
  by (simp_all add: dressed_def dressed_headers_def)

definition counted :: "http_env \<Rightarrow> request \<Rightarrow> int \<Rightarrow> ('i, 'g, 's, 'a, 'c) server \<Rightarrow> ('i, 'g, 's, 'a, 'c) server" where
  "counted env rq status w = w\<lparr>hs_telemetry := observed (metric_key (rq_method rq) (matched_pattern rq) status)
      (time_sub (he_clock env 0 2) (he_clock env 0 1)) (hs_telemetry w)\<rparr>"

definition origin_rejected :: "request \<Rightarrow> ('i, 'g, 's, 'a, 'c) server \<Rightarrow> bool" where
  "origin_rejected rq w \<longleftrightarrow> rq_method rq \<notin> {''GET'', ''HEAD'', ''OPTIONS''} \<and> rq_header rq ''Origin'' \<noteq> []
     \<and> rq_header rq ''Origin'' \<notin> set (hs_allowed_origins w)"

definition with_correlation :: "http_env \<Rightarrow> request \<Rightarrow> request" where
  "with_correlation env rq = rq\<lparr>rq_correlation := request_correlation (he_draws env 0 0) rq\<rparr>"

lemma ServeHTTP_eq:
  "ServeHTTP P env x f rq w =
     (case (if origin_rejected rq w
            then (w, writeError (with_correlation env rq) 403 ''ORIGIN_REJECTED'' ''The request origin is not allowed.'')
            else mux P env x f (with_correlation env rq) w) of
        (w1, Panicked) \<Rightarrow> (w1, Panicked)
      | (w1, Answered a) \<Rightarrow> (counted env rq (rp_status a) w1, dressed env rq (Answered a)))"
proof -
  obtain w1 r where inner: "originCheck (mux P env x f) (with_correlation env rq) w = (w1, r)" by fastforce
  then have outer: "securityHeaders (correlation (he_draws env 0 0) (originCheck (mux P env x f))) rq w = (w1, dressed env rq r)"
    by (simp add: securityHeaders_def correlation_def with_correlation_def dressed_def Let_def)
  have "(if origin_rejected rq w
       then (w, writeError (with_correlation env rq) 403 ''ORIGIN_REJECTED'' ''The request origin is not allowed.'')
       else mux P env x f (with_correlation env rq) w) = (w1, r)"
    unfolding inner [symmetric] by (auto simp: originCheck_def Let_def origin_rejected_def with_correlation_def)
  then show ?thesis
    unfolding ServeHTTP_def observe_def outer by (cases r) (simp_all only: prod.case reply.case dressed_simps, simp add: counted_def)
qed

text \<open>
  C1: no request gets past the entry of its endpoint in the access policy. Whatever else it carries, the
  server answers it with status 401, 403 or 428 and an error body, sets no cookie, and is left as it was, but for the
  request counters and the sender's own session, which looking it up drops if it has expired.
\<close>

theorem refused_requests_change_nothing:
  fixes w :: "('i, 'g, 's, 'a, 'c) server"
  assumes "find_route rq = Some ((m, pattern, ep), bindings)" and "\<not> entitled P env (demand_of ep) rq w"
  shows "\<exists>w0 tr a. ServeHTTP P env x f rq w = (w0\<lparr>hs_telemetry := tr\<rparr>, Answered a)
    \<and> (w0 = w \<or> w0 = looked_up P env rq w) \<and> refusal (Answered a)"
proof -
  define rq1 where "rq1 = with_correlation env rq"
  have demands: "demand_of ep \<noteq> Anyone" using assms(2) by (auto simp: entitled_def)
  from guarded [OF this] obtain h :: "string \<times> session \<Rightarrow> ('i, 'g, 's, 'a, 'c) handler" where
    h: "handle P env x f ep (rq1\<lparr>rq_path_value := mget [] bindings\<rparr>) =
      after (guard_of P env (rq1\<lparr>rq_path_value := mget [] bindings\<rparr>) (demand_of ep)) h" .
  have "\<exists>r. mux P env x f rq1 w = (looked_up P env rq w, r) \<and> refusal r"
    using server_guard.stopped [of P env "rq1\<lparr>rq_path_value := mget [] bindings\<rparr>" w "demand_of ep" h] assms demands
    by (simp add: mux_def rq1_def with_correlation_def h [unfolded rq1_def with_correlation_def] entitled_def split: option.splits)
  moreover have "refusal (writeError rq1 403 code message)" for code message by simp
  ultimately obtain w0 r where served: "(if origin_rejected rq w
      then (w, writeError rq1 403 ''ORIGIN_REJECTED'' ''The request origin is not allowed.'') else mux P env x f rq1 w) = (w0, r)"
    and w0: "w0 = w \<or> w0 = looked_up P env rq w" and r: "refusal r"
    by (cases "origin_rejected rq w") auto
  from r obtain a where a: "r = Answered a" by (cases r) (auto simp: refusal_def)
  with served r have "ServeHTTP P env x f rq w = (counted env rq (rp_status a) w0, dressed env rq (Answered a))"
    by (simp add: ServeHTTP_eq rq1_def split: if_splits)
  moreover from r a have "refusal (dressed env rq (Answered a))" by (simp add: refusal_def)
  ultimately show ?thesis
    using w0 unfolding counted_def dressed_simps by blast
qed

end
