(* ===== verification/ApiTyping.thy ===== *)
theory ApiTyping
  imports ApiAccess
begin

text \<open>
  The type of the interface: for each endpoint the answers it may give besides errors, as status, form of
  the body and whether a cookie comes with it; and the proof that nothing else leaves the server.
\<close>

section \<open>The signatures\<close>

type_synonym shape = "int \<times> (body \<Rightarrow> bool) \<times> bool"

fun shapes :: "endpoint \<Rightarrow> shape list" where
  "shapes EpHealth = [(200, is_StatusBody, False)]"
| "shapes EpMetrics = [(200, is_PlainBody, False), (401, is_PlainBody, False), (404, is_PlainBody, False), (503, is_PlainBody, False)]"
| "shapes EpLogin = [(200, is_SessionBody, True)]"
| "shapes EpPrivilegedLogin = [(200, is_SessionBody, True), (202, is_ChallengeBody, False)]"
| "shapes EpCompletePrivilegedMFA = [(200, is_CompletionBody, True)]"
| "shapes EpLogout = [(204, (\<lambda>b. b = NoBody), True)]"
| "shapes EpCreateStepUpProof = [(200, is_ProofBody, False)]"
| "shapes EpGetSession = [(200, is_SessionBody, False)]"
| "shapes EpListUsers = [(200, is_UsersBody, False)]"
| "shapes EpRegister = [(202, is_MessageBody, False)]"
| "shapes EpResendVerification = [(202, is_MessageBody, False)]"
| "shapes EpInvitePrivilegedAccount = [(202, is_MessageBody, False)]"
| "shapes EpVerifyEmail = [(200, is_MessageBody, False)]"
| "shapes EpActivatePrivilegedAccount = [(200, is_MessageBody, False)]"
| "shapes EpUpdateUserStatus = [(200, is_MessageBody, False)]"
| "shapes EpRevokeUserSessions = [(200, is_MessageBody, False)]"
| "shapes EpUpdateOwnerQuota = [(200, is_MessageBody, False)]"
| "shapes EpResetOwnerQuota = [(200, is_MessageBody, False)]"
| "shapes EpRevokeFileGrant = [(200, is_MessageBody, False)]"
| "shapes EpListAdminResources = [(200, is_ResourcesBody, False)]"
| "shapes EpListOrphans = [(200, is_OrphansBody, False)]"
| "shapes EpReconcileOrphans = [(200, is_ReconcileBody, False), (200, (\<lambda>b. b = NoBody), False)]"
| "shapes EpAdminSecurity = [(200, is_SecurityBody, False)]"
| "shapes EpRewrapDEKs = [(200, is_RewrapBody, False), (200, (\<lambda>b. b = NoBody), False)]"
| "shapes EpAdminMonitoring = [(200, is_MonitoringBody, False)]"
| "shapes EpAdminLifecycle = [(200, is_LifecycleReportBody, False)]"
| "shapes EpProcessLifecycleDeletions = [(200, is_WorkerBody, False)]"
| "shapes EpRunRecoveryDrill = [(200, is_DrillBody, False)]"
| "shapes EpListAuditEvents = [(200, is_AuditPageBody, False)]"
| "shapes EpExportAuditEvents = [(200, is_TableBody, False)]"
| "shapes EpSetFileRetention = [(200, is_LifecycleFileBody, False)]"
| "shapes EpSetFileLegalHold = [(200, is_LifecycleFileBody, False)]"
| "shapes EpMoveFileToTrash = [(200, is_LifecycleFileBody, False)]"
| "shapes EpRestoreFileFromTrash = [(200, is_LifecycleFileBody, False)]"
| "shapes EpCreateUpload = [(202, is_UploadBody, False)]"
| "shapes EpGetUpload = [(200, is_UploadBody, False)]"
| "shapes EpListUserFiles = [(200, is_FilesBody, False)]"
| "shapes EpListTrash = [(200, is_TrashBody, False)]"
| "shapes EpPurgeFile = [(200, is_PurgeBody, False)]"
| "shapes EpListSharedFiles = [(200, is_SharedBody, False)]"
| "shapes EpGetUserFile = [(200, is_DetailsBody, False)]"
| "shapes EpRestoreUserFileVersion = [(201, is_VersionBody, False)]"
| "shapes EpListFileGrants = [(200, is_GrantsBody, False)]"
| "shapes EpCreateFileGrant = [(201, is_GrantBody, False)]"
| "shapes EpDownloadUserFile = [(200, is_FileContent, False)]"
| "shapes EpDownloadUpload = [(200, is_FileContent, False)]"

text \<open>An error carries the correlation identifier of its request and no cookie; cookies stay out of scripts and foreign sites.\<close>

definition error_answer :: "string \<Rightarrow> response \<Rightarrow> bool" where
  "error_answer i a \<longleftrightarrow> 400 \<le> rp_status a \<and> rp_status a < 600 \<and> rp_cookie a = None
     \<and> (case rp_body a of ErrorBody code _ c \<Rightarrow> code \<noteq> [] \<and> c = i | _ \<Rightarrow> False)"

definition fits :: "response \<Rightarrow> shape \<Rightarrow> bool" where
  "fits a sh \<longleftrightarrow> (case sh of (status, form, cookie) \<Rightarrow> rp_status a = status \<and> form (rp_body a)
     \<and> (case rp_cookie a of None \<Rightarrow> \<not> cookie | Some c \<Rightarrow> cookie \<and> ck_http_only c \<and> ck_same_site_strict c))"

text \<open>Most handlers pass on the panic of a store without the interface they need; these have nothing that panics.\<close>

definition unfailing :: "endpoint list" where
  "unfailing = [EpHealth, EpMetrics, EpLogout, EpGetSession, EpListUsers, EpListAuditEvents, EpExportAuditEvents, EpAdminMonitoring,
     EpListOrphans, EpReconcileOrphans, EpUpdateOwnerQuota, EpResetOwnerQuota, EpCreateUpload, EpGetUpload]"

definition may_panic :: "endpoint \<Rightarrow> bool" where
  "may_panic ep \<longleftrightarrow> ep \<notin> set unfailing"

definition well :: "endpoint \<Rightarrow> string \<Rightarrow> reply \<Rightarrow> bool" where
  "well ep i r \<longleftrightarrow> (case r of Panicked \<Rightarrow> may_panic ep | Answered a \<Rightarrow> error_answer i a \<or> list_ex (fits a) (shapes ep))"

section \<open>Rules for the combinators\<close>

lemmas may_panic_iff [simp] = may_panic_def unfailing_def

named_theorems reply_rules "the replies of a combinator are well-typed if those of its parts are"
named_theorems stop_rules "a step that ends a handler early answers with an error"

definition errs :: "string \<Rightarrow> ('w \<Rightarrow> 'w \<times> (reply + 'x)) \<Rightarrow> bool" where
  "errs i m \<longleftrightarrow> (\<forall>w w1 r. m w = (w1, Inl r) \<longrightarrow> (\<forall>ep. well ep i r))"

lemma errsI: "(\<And>w w1 r ep. m w = (w1, Inl r) \<Longrightarrow> well ep i r) \<Longrightarrow> errs i m"
  by (simp add: errs_def)

lemma errsD: "errs i m \<Longrightarrow> m w = (w1, Inl r) \<Longrightarrow> well ep i r"
  by (simp add: errs_def)

lemma well_Panicked [simp]: "well ep i Panicked \<longleftrightarrow> may_panic ep"
  by (simp add: well_def)

lemma well_writeError [simp]:
  "400 \<le> status \<Longrightarrow> status < 600 \<Longrightarrow> code \<noteq> [] \<Longrightarrow> well ep (correlationID rq) (writeError rq status code message)"
  by (simp add: well_def error_answer_def writeError_def writeJSONStatus_def)

lemma well_internalError [simp]: "well ep (correlationID rq) (internalError rq)"
  by (simp add: internalError_def)

lemma well_throttled [simp]: "well ep (correlationID rq) (throttled rq message)"
  by (simp add: throttled_def well_def error_answer_def writeError_def writeJSONStatus_def)

lemma well_writeJSON [simp]: "list_ex (\<lambda>(s, form, cookie). s = status \<and> form b \<and> \<not> cookie) (shapes ep) \<Longrightarrow> well ep i (writeJSON status b)"
  unfolding well_def writeJSON_def writeJSONStatus_def fits_def list_ex_iff by (auto split: prod.splits)

lemma well_after [reply_rules]:
  assumes "errs i m" "\<And>w1 x. well ep i (snd (f x w1))"
  shows "well ep i (snd (after m f w))"
proof (cases "m w")
  case (Pair w1 y)
  with assms show ?thesis by (cases y) (auto simp: errs_def)
qed

lemma well_calling [reply_rules]: "(\<And>w1 x. well ep i (snd (f x w1))) \<Longrightarrow> well ep i (snd (calling m f w))"
  by (simp add: calling_def split: prod.splits)

lemma well_protected_call [reply_rules]: "may_panic ep \<Longrightarrow> (\<And>w1 x. well ep i (snd (k x w1))) \<Longrightarrow> well ep i (snd (protected_call f k w))"
  by (simp add: protected_call_def calling_def split: prod.splits option.splits)

lemma well_protected_read [reply_rules]: "may_panic ep \<Longrightarrow> (\<And>x. well ep i (snd (k x w))) \<Longrightarrow> well ep i (snd (protected_read f k w))"
  by (simp add: protected_read_def split: option.splits)

lemma well_if_connected [reply_rules]: "well ep i r \<Longrightarrow> well ep i (snd (h w)) \<Longrightarrow> well ep i (snd (if_connected r h w))"
  by (simp add: if_connected_def)

lemma well_answer [reply_rules]: "well ep i r \<Longrightarrow> well ep i (snd (answer r w))"
  by (simp add: answer_def)

lemma well_auth_outcome [reply_rules]:
  "may_panic ep \<Longrightarrow> (\<And>e. well ep i (snd (g e w))) \<Longrightarrow> (\<And>x. well ep i (snd (h x w))) \<Longrightarrow> well ep i (snd (auth_outcome g h res w))"
  by (simp add: auth_outcome_def split: sum.splits)

lemma well_store_outcome [reply_rules]:
  "may_panic ep \<Longrightarrow> (\<And>e. well ep i (snd (g e w))) \<Longrightarrow> (\<And>x. well ep i (snd (h x w))) \<Longrightarrow> well ep i (snd (store_outcome g h res w))"
  by (simp add: store_outcome_def split: sum.splits)

lemma errs_andthen [stop_rules]: "errs i m \<Longrightarrow> (\<And>x. errs i (f x)) \<Longrightarrow> errs i (andthen m f)"
  by (fastforce simp: errs_def andthen_def split: prod.splits sum.splits)

lemma errs_requireSession [stop_rules]: "errs (correlationID rq) (requireSession P env rq)"
  by (auto simp: errs_def requireSession_eq authentication_required_def split: option.splits)

lemma errs_demanding: "(\<And>ep. well ep i r) \<Longrightarrow> errs i (demanding ok r ts)"
  by (simp add: errs_def demanding_def)

lemma errs_csrf [stop_rules]: "errs (correlationID rq) (csrf_checked rq ts)"
  unfolding csrf_checked_def by (rule errs_demanding) (simp add: csrf_rejected_def)

lemma errs_requireSession_demanding: "(\<And>ep. well ep (correlationID rq) r) \<Longrightarrow> errs (correlationID rq) (andthen (requireSession P env rq) (demanding ok r))"
  by (rule errs_andthen [OF errs_requireSession]) (rule errs_demanding)

lemma errs_requireAdmin [stop_rules]: "errs (correlationID rq) (requireAdmin P env rq)"
  unfolding requireAdmin_def by (rule errs_requireSession_demanding) simp

lemma errs_requirePrivileged [stop_rules]: "errs (correlationID rq) (requirePrivileged P env rq)"
  unfolding requirePrivileged_def by (rule errs_requireSession_demanding) simp

lemma errs_requireStandardUser [stop_rules]: "errs (correlationID rq) (requireStandardUser P env rq)"
  unfolding requireStandardUser_def by (rule errs_requireSession_demanding) simp

lemma errs_requireAdminCSRF [stop_rules]: "errs (correlationID rq) (requireAdminCSRF P env rq)"
  unfolding requireAdminCSRF_def by (intro stop_rules)

lemma errs_requireStandardUserMutation [stop_rules]: "errs (correlationID rq) (requireStandardUserMutation P env rq)"
  unfolding requireStandardUserMutation_def by (intro stop_rules)

lemma errs_requireAdminMutation [stop_rules]: "errs (correlationID rq) (requireAdminMutation P env rq)"
  unfolding requireAdminMutation_def
  by (rule errs_andthen, rule stop_rules) (auto simp: errs_def split: prod.splits if_splits)

lemma errs_steps [stop_rules]:
  "errs (correlationID rq) (new_intent env n rq input)" "errs (correlationID rq) (required_audit P env n rq input)"
  "errs (correlationID rq) (deliver P env n rq i durable)" "errs (correlationID rq) (quota_owner rq ownerID)"
  by (auto simp: errs_def new_intent_def required_audit_def deliver_def calling_def quota_owner_def
      split: prod.splits sum.splits option.splits if_splits)

lemma errs_go_on [stop_rules]: "errs i (\<lambda>w. (f w, Inr (g w)))"
  by (simp add: errs_def)

lemma errs_deliver_all [stop_rules]: "errs (correlationID rq) (deliver_all P env n rq durable is)"
proof (induction "is" arbitrary: n)
  case (Cons i rest)
  then show ?case by (simp add: errs_andthen errs_steps)
qed (simp add: errs_def)

lemma errs_orphan_completed [stop_rules]: "errs (correlationID rq) (orphan_completed P env n rq s token operation outcome)"
  unfolding orphan_completed_def Let_def
proof (intro stop_rules)
  fix i
  show "errs (correlationID rq) (\<lambda>w. case on_protected (CompleteOrphanReconciliation (he_clock env n 1) (or_operation_id operation)
        (ro_status outcome) (ro_reason_code outcome) i) w of
      (w1, None) \<Rightarrow> (w1, Inl (internalError rq)) | (w1, Some (Inl x)) \<Rightarrow> (w1, Inl (internalError rq))
    | (w1, Some (Inr updated)) \<Rightarrow> if updated
        then deliver P env (Suc n) rq i (case hs_protected w1 of None \<Rightarrow> False | Some st \<Rightarrow> svc_Durable st) w1 else (w1, Inr ()))"
    by (rule errsI) (auto dest: errsD [OF errs_steps(3)] split: prod.splits option.splits sum.splits if_splits)
qed

lemma errs_calling [stop_rules]: "(\<And>x. errs i (f x)) \<Longrightarrow> errs i (calling m f)"
  by (rule errsI) (auto simp: calling_def dest: errsD split: prod.splits)

lemma errs_orphan_resumed [stop_rules]: "errs (correlationID rq) (orphan_resumed P env n rq s token operation)"
  unfolding orphan_resumed_def by (intro errs_calling) (auto intro!: stop_rules split: option.splits)

lemma errs_reconcile_one [stop_rules]: "errs (correlationID rq) (reconcile_one P env n rq s token c)"
  unfolding reconcile_one_def
proof (intro errs_andthen errs_steps)
  fix i
  have delivered: "errs (correlationID rq) (andthen (deliver P env (n + 4) rq i durable) (\<lambda>_. orphan_resumed P env n rq s token operation))"
    for durable operation by (intro stop_rules)
  show "errs (correlationID rq) (\<lambda>w. case on_protected (AuthorizeOrphanReconciliation (he_store env n) c (user_of s) (correlationID rq) i) w of
       (w1, None) \<Rightarrow> (w1, Inl (internalError rq)) | (w1, Some (Inl e)) \<Rightarrow> (w1, Inl (internalError rq))
     | (w1, Some (Inr (operation, created))) \<Rightarrow>
         if created
         then andthen (deliver P env (n + 4) rq i (case hs_protected w1 of None \<Rightarrow> False | Some st \<Rightarrow> svc_Durable st))
           (\<lambda>_. orphan_resumed P env n rq s token operation) w1
         else if or_status operation = ReconciliationCompleted then (w1, Inr True)
         else if or_status operation = ReconciliationFailed then (w1, Inr False)
         else orphan_resumed P env n rq s token operation w1)"
    by (rule errsI) (auto dest: errsD [OF errs_orphan_resumed] errsD [OF delivered] split: prod.splits option.splits sum.splits if_splits)
qed

lemma errs_reconcile_each [stop_rules]: "errs (correlationID rq) (reconcile_each P env n rq s available seen tokens r)"
proof (induction tokens arbitrary: n seen r)
  case (Cons token tokens)
  then show ?case
    by (auto simp: Let_def errs_andthen errs_reconcile_one split: option.splits)
qed (simp add: errs_def)

section \<open>The answers of the parts\<close>

lemma well_outcomes [simp]:
  "well ep (correlationID rq) (writeLifecycleError rq e)" "well ep (correlationID rq) (writeAdminIdentityError rq ae)"
  "well ep (correlationID rq) (upload_refused rq ie)"
  by (cases e; simp add: writeLifecycleError_def file_not_found_def)
    ((cases ae; simp add: writeAdminIdentityError_def), (cases ie; simp add: upload_refused_def))

lemma well_parts [simp]:
  "well ep (correlationID rq) (login_refused rq ae)"
  "well ep (correlationID rq) (file_not_found rq)" "well ep (correlationID rq) (invalid_credentials rq)"
  "well ep (correlationID rq) (mfa_invalid rq)" "well ep (correlationID rq) (catalog_unavailable_reply rq)"
  "well ep (correlationID rq) (grants_unavailable rq message)" "well ep (correlationID rq) (invalid_idempotency_key rq)"
  "well ep (correlationID rq) (file_unavailable rq)" "well ep (correlationID rq) (unverified_file rq)"
  "well ep (correlationID rq) (invalid_audit_filter rq)"
  by (simp_all add: login_refused_def invalid_credentials_def file_not_found_def mfa_invalid_def catalog_unavailable_reply_def
      grants_unavailable_def invalid_idempotency_key_def file_unavailable_def unverified_file_def invalid_audit_filter_def)

lemma well_cookie [simp]:
  "ck_http_only c \<Longrightarrow> ck_same_site_strict c \<Longrightarrow> list_ex (\<lambda>(s, form, cookie). s = status \<and> form b \<and> cookie) (shapes ep)
     \<Longrightarrow> well ep i (with_cookie c (writeJSON status b))"
  unfolding well_def with_cookie_def writeJSON_def writeJSONStatus_def fits_def list_ex_iff by (auto split: prod.splits)

lemma cookies [simp]: "ck_http_only (session_cookie t e secure)" "ck_same_site_strict (session_cookie t e secure)"
  by (simp_all add: session_cookie_def)

lemma well_login_throttled [simp]: "well ep (correlationID rq) (snd (login_throttled P env rq w))"
  by (simp add: login_throttled_def)

lemma well_signed_in [reply_rules]:
  "list_ex (\<lambda>(s, form, cookie). s = 200 \<and> form b \<and> cookie) (shapes ep) \<Longrightarrow>
   well ep (correlationID rq) (snd (signed_in P env rq reason u token s b w))"
  unfolding signed_in_def by (intro reply_rules) (auto split: sum.splits)

lemma well_identity_denied [simp]: "well ep (correlationID rq) (snd (identity_denied P env rq s action userID toState e w))"
  by (simp add: identity_denied_def)

section \<open>The handlers\<close>

lemmas reply_splits = option.splits sum.splits prod.splits if_splits list.splits

lemma well_register: "well EpRegister (correlationID rq) (snd (register P env rq w))"
  unfolding register_def by (auto intro!: reply_rules stop_rules split: reply_splits)

lemma well_verifyEmail: "well EpVerifyEmail (correlationID rq) (snd (verifyEmail P env rq w))"
  unfolding verifyEmail_def Let_def by (auto intro!: reply_rules stop_rules split: reply_splits)

lemma well_resend: "well EpResendVerification (correlationID rq) (snd (resendVerification P env rq w))"
  unfolding resendVerification_def by (auto intro!: reply_rules stop_rules split: reply_splits)

lemma well_begin_mfa: "well EpPrivilegedLogin (correlationID rq) (snd (begin_mfa P env rq email password w))"
  unfolding begin_mfa_def by (auto intro!: reply_rules stop_rules split: reply_splits)

lemma well_login: "well EpLogin (correlationID rq) (snd (login P env rq w))"
  unfolding login_def api_loginForAudience_def Let_def
  by (auto intro!: reply_rules stop_rules split: reply_splits)

lemma well_privilegedLogin: "well EpPrivilegedLogin (correlationID rq) (snd (privilegedLogin P env rq w))"
  unfolding privilegedLogin_def api_loginForAudience_def Let_def
  by (auto intro!: reply_rules stop_rules well_begin_mfa split: reply_splits)

lemma well_complete: "well EpCompletePrivilegedMFA (correlationID rq) (snd (completePrivilegedMFA P env rq w))"
  unfolding completePrivilegedMFA_def Let_def
  by (auto intro!: reply_rules stop_rules split: reply_splits)

lemma well_stepUp: "well EpCreateStepUpProof (correlationID rq) (snd (createStepUpProof P env rq w))"
  unfolding createStepUpProof_def Let_def
  by (auto intro!: reply_rules stop_rules split: reply_splits)

lemma well_signed_out: "well EpLogout i (Answered \<lparr>rp_status = 204, rp_headers = hs, rp_cookie = Some (expired_cookie secure), rp_body = NoBody\<rparr>)"
  by (simp add: well_def fits_def expired_cookie_def)

lemma well_logout: "well EpLogout (correlationID rq) (snd (logout P env rq w))"
  unfolding logout_def Let_def
  by (auto intro!: reply_rules stop_rules well_signed_out split: reply_splits)

lemma well_accounts:
  "well EpGetSession (correlationID rq) (snd (getSession P env rq w))"
  "well EpListUsers (correlationID rq) (snd (api_listUsers P env rq w))"
  unfolding getSession_def api_listUsers_def
  by (auto intro!: reply_rules stop_rules split: reply_splits)

lemma well_invite: "well EpInvitePrivilegedAccount (correlationID rq) (snd (invitePrivilegedAccount P env rq w))"
  unfolding invitePrivilegedAccount_def Let_def
  by (auto intro!: reply_rules stop_rules split: reply_splits)

lemma well_activate: "well EpActivatePrivilegedAccount (correlationID rq) (snd (activatePrivilegedAccount P env rq w))"
  unfolding activatePrivilegedAccount_def Let_def
  by (auto intro!: reply_rules stop_rules split: reply_splits)

lemma well_status: "well EpUpdateUserStatus (correlationID rq) (snd (updateUserStatus P env rq w))"
  unfolding updateUserStatus_def Let_def
  by (auto intro!: reply_rules stop_rules split: reply_splits)

lemma well_revoke: "well EpRevokeUserSessions (correlationID rq) (snd (revokeUserSessions P env rq w))"
  unfolding revokeUserSessions_def Let_def
  by (auto intro!: reply_rules stop_rules split: reply_splits)

lemma well_createUpload: "well EpCreateUpload (correlationID rq) (snd (createUpload P env rq w))"
  unfolding createUpload_def Let_def
  by (auto intro!: reply_rules stop_rules split: reply_splits)

lemma well_getUpload: "well EpGetUpload (correlationID rq) (snd (getUpload P env rq w))"
  unfolding getUpload_def Let_def
  by (auto intro!: reply_rules stop_rules split: reply_splits)

lemma well_listUserFiles: "well EpListUserFiles (correlationID rq) (snd (listUserFiles P env rq w))"
  unfolding listUserFiles_def Let_def
  by (auto intro!: reply_rules stop_rules split: reply_splits)

lemma well_listTrash: "well EpListTrash (correlationID rq) (snd (listTrash P env rq w))"
  unfolding listTrash_def Let_def
  by (auto intro!: reply_rules stop_rules split: reply_splits)

lemma well_moveFileToTrash: "well EpMoveFileToTrash (correlationID rq) (snd (moveFileToTrash P env rq w))"
  unfolding moveFileToTrash_def Let_def
  by (auto intro!: reply_rules stop_rules split: reply_splits)

lemma well_restoreFileFromTrash: "well EpRestoreFileFromTrash (correlationID rq) (snd (restoreFileFromTrash P env rq w))"
  unfolding restoreFileFromTrash_def Let_def
  by (auto intro!: reply_rules stop_rules split: reply_splits)

lemma well_purgeFile: "well EpPurgeFile (correlationID rq) (snd (purgeFile P env rq w))"
  unfolding purgeFile_def Let_def
  by (auto intro!: reply_rules stop_rules split: reply_splits)

lemma well_listSharedFiles: "well EpListSharedFiles (correlationID rq) (snd (listSharedFiles P env rq w))"
  unfolding listSharedFiles_def Let_def
  by (auto intro!: reply_rules stop_rules split: reply_splits)

lemma well_getUserFile: "well EpGetUserFile (correlationID rq) (snd (getUserFile P env rq w))"
  unfolding getUserFile_def Let_def
  by (auto intro!: reply_rules stop_rules split: reply_splits)

lemma well_listFileGrants: "well EpListFileGrants (correlationID rq) (snd (listFileGrants P env rq w))"
  unfolding listFileGrants_def Let_def
  by (auto intro!: reply_rules stop_rules split: reply_splits)

lemma well_createFileGrant: "well EpCreateFileGrant (correlationID rq) (snd (createFileGrant P env rq w))"
  unfolding createFileGrant_def Let_def
  by (auto intro!: reply_rules stop_rules split: reply_splits)

lemma well_revokeFileGrant: "well EpRevokeFileGrant (correlationID rq) (snd (revokeFileGrant P env rq w))"
  unfolding revokeFileGrant_def Let_def
  by (auto intro!: reply_rules stop_rules split: reply_splits)

lemma well_restoreUserFileVersion: "well EpRestoreUserFileVersion (correlationID rq) (snd (restoreUserFileVersion P env rq w))"
  unfolding restoreUserFileVersion_def Let_def
  by (auto intro!: reply_rules stop_rules split: reply_splits)

lemma well_send_file [simp]: "list_ex (\<lambda>(s, form, cookie). s = 200 \<and> form (FileContent (pf_bytes f)) \<and> \<not> cookie) (shapes ep) \<Longrightarrow> well ep i (send_file d f)"
  unfolding well_def send_file_def fits_def list_ex_iff Let_def by (auto split: prod.splits)

lemma well_downloadUserFile: "well EpDownloadUserFile (correlationID rq) (snd (downloadUserFile P env rq w))"
  unfolding downloadUserFile_def Let_def
  by (auto intro!: reply_rules stop_rules split: reply_splits)

lemma well_downloadUpload: "well EpDownloadUpload (correlationID rq) (snd (downloadUpload P env rq w))"
  unfolding downloadUpload_def Let_def
  by (auto intro!: reply_rules stop_rules split: reply_splits)

lemma well_listAuditEvents: "well EpListAuditEvents (correlationID rq) (snd (listAuditEvents P env rq w))"
  unfolding listAuditEvents_def Let_def
  by (auto intro!: reply_rules stop_rules split: reply_splits)

lemma well_adminLifecycle: "well EpAdminLifecycle (correlationID rq) (snd (adminLifecycle P env rq w))"
  unfolding adminLifecycle_def Let_def
  by (auto intro!: reply_rules stop_rules split: reply_splits)

lemma well_setFileRetention: "well EpSetFileRetention (correlationID rq) (snd (setFileRetention P env rq w))"
  unfolding setFileRetention_def Let_def
  by (auto intro!: reply_rules stop_rules split: reply_splits)

lemma well_processLifecycleDeletions: "well EpProcessLifecycleDeletions (correlationID rq) (snd (processLifecycleDeletions P env rq w))"
  unfolding processLifecycleDeletions_def Let_def
  by (auto intro!: reply_rules stop_rules split: reply_splits)

lemma well_setFileLegalHold: "well EpSetFileLegalHold (correlationID rq) (snd (setFileLegalHold P env rq w))"
  unfolding setFileLegalHold_def Let_def
  by (auto intro!: reply_rules stop_rules split: reply_splits)

lemma well_adminMonitoring: "well EpAdminMonitoring (correlationID rq) (snd (adminMonitoring P env rq w))"
  unfolding adminMonitoring_def Let_def
  by (auto intro!: reply_rules stop_rules split: reply_splits)

lemma well_adminSecurity: "well EpAdminSecurity (correlationID rq) (snd (adminSecurity P env rq w))"
  unfolding adminSecurity_def Let_def
  by (auto intro!: reply_rules stop_rules split: reply_splits)

lemma well_listAdminResources: "well EpListAdminResources (correlationID rq) (snd (listAdminResources P env rq w))"
  unfolding listAdminResources_def Let_def
  by (auto intro!: reply_rules stop_rules split: reply_splits)

lemma well_listOrphans: "well EpListOrphans (correlationID rq) (snd (listOrphans P env rq w))"
  unfolding listOrphans_def Let_def
  by (auto intro!: reply_rules stop_rules split: reply_splits)

lemma well_updateOwnerQuota: "well EpUpdateOwnerQuota (correlationID rq) (snd (updateOwnerQuota P env rq w))"
  unfolding updateOwnerQuota_def Let_def
  by (auto intro!: reply_rules stop_rules split: reply_splits)

lemma well_resetOwnerQuota: "well EpResetOwnerQuota (correlationID rq) (snd (resetOwnerQuota P env rq w))"
  unfolding resetOwnerQuota_def Let_def
  by (auto intro!: reply_rules stop_rules split: reply_splits)

lemma well_nothing_written [simp]: "(200, (\<lambda>b. b = NoBody), False) \<in> set (shapes ep) \<Longrightarrow> well ep i nothing_written"
  unfolding well_def nothing_written_def fits_def list_ex_iff by force

lemma well_rewrapDEKs: "well EpRewrapDEKs (correlationID rq) (snd (rewrapDEKs P env rq w))"
  unfolding rewrapDEKs_def Let_def
  by (auto intro!: reply_rules stop_rules split: reply_splits)

lemma well_reconcileOrphans: "well EpReconcileOrphans (correlationID rq) (snd (reconcileOrphans P env rq w))"
  unfolding reconcileOrphans_def Let_def
  by (auto intro!: reply_rules stop_rules split: reply_splits)

lemma drill_present:
  "RunRecoveryDrillAudited P su fileID requestedBy i st = (st', drill, durable, None) \<Longrightarrow> drill \<noteq> None"
  by (auto simp: RunRecoveryDrillAudited_def Let_def split: option.splits sum.splits prod.splits)

lemma well_protected_outcome:
  "may_panic ep \<Longrightarrow> (\<And>st st' x w1. f st = (st', x) \<Longrightarrow> well ep i (snd (k x w1))) \<Longrightarrow> well ep i (snd (protected_call f k w))"
  by (auto simp: protected_call_def calling_def on_protected_def split: prod.splits option.splits)

lemma well_runRecoveryDrill: "well EpRunRecoveryDrill (correlationID rq) (snd (runRecoveryDrill P env rq w))"
  unfolding runRecoveryDrill_def Let_def case_prod_beta
  by (intro reply_rules stop_rules well_protected_outcome)
    (auto intro!: reply_rules stop_rules dest: drill_present split: reply_splits)

lemma well_exportAuditEvents: "well EpExportAuditEvents (correlationID rq) (snd (exportAuditEvents P env rq w))"
  unfolding exportAuditEvents_def
  by (auto intro!: reply_rules stop_rules simp: well_def [of _ _ "Answered _"] fits_def split: reply_splits)

lemma well_health: "well EpHealth i (snd (health w))"
  unfolding health_def by (simp add: answer_def)

lemma well_plain_error: "list_ex (\<lambda>(s, form, cookie). s = status \<and> form (PlainBody (message @ NL)) \<and> \<not> cookie) (shapes ep) \<Longrightarrow> well ep i (plain_error status message)"
  unfolding well_def plain_error_def fits_def list_ex_iff by (auto split: prod.splits)

lemma well_with_header: "well ep i r \<Longrightarrow> well ep i (with_header h r)"
  by (cases r) (auto simp: well_def error_answer_def fits_def list_ex_iff split: body.splits)

lemma well_metrics: "well EpMetrics i (snd (metrics P env x f rq w))"
proof -
  have unavailable: "well EpMetrics i metrics_unavailable"
    unfolding metrics_unavailable_def by (simp add: well_plain_error)
  then show ?thesis
    unfolding metrics_def Let_def
    by (auto intro!: reply_rules well_plain_error well_with_header simp: well_def [of _ _ "Answered _"] fits_def split: reply_splits)
qed

lemmas handlers_well = well_register well_verifyEmail well_resend well_login well_privilegedLogin well_complete well_stepUp well_logout
  well_accounts well_invite well_activate well_status well_revoke well_createUpload well_getUpload well_listUserFiles well_listTrash
  well_moveFileToTrash well_restoreFileFromTrash well_purgeFile well_listSharedFiles well_getUserFile well_listFileGrants
  well_createFileGrant well_revokeFileGrant well_restoreUserFileVersion well_downloadUserFile well_downloadUpload
  well_listAuditEvents well_exportAuditEvents well_adminLifecycle well_setFileRetention well_processLifecycleDeletions
  well_setFileLegalHold well_adminMonitoring well_adminSecurity well_listAdminResources well_listOrphans well_updateOwnerQuota
  well_resetOwnerQuota well_rewrapDEKs well_reconcileOrphans well_runRecoveryDrill well_health well_metrics

lemma handle_well: "well ep (correlationID rq) (snd (handle P env x f ep rq w))"
  by (cases ep; simp add: handle_def handlers_well)

section \<open>Through the middleware\<close>

lemma dressed_fits [simp]:
  "error_answer i (a\<lparr>rp_headers := hs\<rparr>) = error_answer i a" "fits (a\<lparr>rp_headers := hs\<rparr>) = fits a"
  by (auto simp: error_answer_def fits_def fun_eq_iff split: prod.split)

lemma correlation_found: "correlationID ((with_correlation env rq)\<lparr>rq_path_value := v\<rparr>) = request_correlation (he_draws env 0 0) rq"
  "correlationID (with_correlation env rq) = request_correlation (he_draws env 0 0) rq"
  by (auto simp: correlationID_def with_correlation_def request_correlation_def randomCorrelationID_def validCorrelationID_def Let_def
      split: sum.splits)

definition reply_fits :: "(route_row \<times> (string, string) gomap) option \<Rightarrow> string \<Rightarrow> reply \<Rightarrow> bool" where
  "reply_fits route i r = (case (r, route) of
       (Panicked, Some ((_, _, ep), _)) \<Rightarrow> may_panic ep
     | (Panicked, None) \<Rightarrow> False
     | (Answered a, Some ((_, _, ep), _)) \<Rightarrow> error_answer i a \<or> list_ex (fits a) (shapes ep)
     | (Answered a, None) \<Rightarrow> error_answer i a \<or> rp_status a \<in> {404, 405} \<and> is_PlainBody (rp_body a) \<and> rp_cookie a = None)"

lemma reply_fits_well: "reply_fits (Some ((m, p, ep), b)) i r = well ep i r"
  by (cases r) (simp_all add: reply_fits_def well_def del: may_panic_iff)

lemma mux_fits: "reply_fits (find_route rq) (request_correlation (he_draws env 0 0) rq) (snd (mux P env x f (with_correlation env rq) w))"
proof (cases "find_route rq")
  case None
  then show ?thesis
    by (simp add: mux_def with_correlation_def answer_def reply_fits_def mux_error_def plain_error_def)
next
  case (Some route)
  obtain m p ep b where route: "route = ((m, p, ep), b)" by (metis prod.exhaust)
  have "find_route (with_correlation env rq) = Some route" using Some by (simp add: with_correlation_def)
  then show ?thesis
    using handle_well [of ep "(with_correlation env rq)\<lparr>rq_path_value := mget [] b\<rparr>" P env x f w]
    by (simp add: mux_def route Some reply_fits_well correlation_found del: may_panic_iff)
qed

text \<open>
  C4: every reply of the server is well-typed. An error answer has a status between 400 and 599, a
  code, the correlation identifier of its request, and no cookie; any other answer has a status, a form of body and a cookie
  that the signature of its endpoint lists, and a cookie is closed to scripts and to foreign sites; a path
  that is not served gets 404 or 405. The security headers come first in every answer. Only endpoints that call a store
  through an optional interface may panic.
\<close>

theorem replies_well_typed:
  "reply_fits (find_route rq) (request_correlation (he_draws env 0 0) rq) (snd (ServeHTTP P env x f rq w))
   \<and> (case snd (ServeHTTP P env x f rq w) of Panicked \<Rightarrow> True | Answered a \<Rightarrow> \<exists>hs. rp_headers a = dressed_headers env rq @ hs)"
proof -
  let ?i = "request_correlation (he_draws env 0 0) rq"
  obtain w1 r where inner: "(if origin_rejected rq w
      then (w, writeError (with_correlation env rq) 403 ''ORIGIN_REJECTED'' ''The request origin is not allowed.'')
      else mux P env x f (with_correlation env rq) w) = (w1, r)" by fastforce
  have rejected: "reply_fits route ?i (writeError (with_correlation env rq) 403 ''ORIGIN_REJECTED'' message)" for route message
    by (cases route) (auto simp: reply_fits_def writeError_def writeJSONStatus_def error_answer_def correlation_found)
  have fits: "reply_fits (find_route rq) ?i r"
    using inner rejected mux_fits [of rq env P x f w] by (cases "origin_rejected rq w") auto
  have served: "ServeHTTP P env x f rq w = (case (w1, r) of (w1, Panicked) \<Rightarrow> (w1, Panicked)
      | (w1, Answered a) \<Rightarrow> (counted env rq (rp_status a) w1, dressed env rq (Answered a)))"
    unfolding ServeHTTP_eq inner ..
  show ?thesis
    using fits by (cases r) (auto simp: served reply_fits_def split: option.splits)
qed

end
