(* ===== verification/ApiRelease.thy ===== *)
theory ApiRelease
  imports ApiTyping
begin

text \<open>
  The content of files leaves the server through two handlers only, and only after the audit service took the record of it.
\<close>

lemma handle_releases:
  assumes "snd (handle P env x f ep rq w) = Answered a" and "rp_body a = FileContent c"
  shows "ep = EpDownloadUserFile \<or> ep = EpDownloadUpload"
  using handle_well [of ep rq P env x f w] assms
  by (cases ep) (simp_all add: well_def error_answer_def fits_def)

definition recorded :: "platform \<Rightarrow> ('a, 'c) audit_service \<Rightarrow> ('a, 'c) audit_service \<Rightarrow> audit_input \<Rightarrow> bool" where
  "recorded P sv sv' input \<longleftrightarrow> (\<exists>draw clock e. Append P draw clock input sv = (sv', Inr e))"

definition download_entry :: "string \<Rightarrow> string \<Rightarrow> audit_input \<Rightarrow> bool" where
  "download_entry userID resource i \<longleftrightarrow> ip_actor_type i = ''user'' \<and> ip_actor_id i = userID \<and> ip_action i = ''FILE_DOWNLOAD''
     \<and> ip_resource_id i = resource \<and> ip_outcome i = ''success''"

text \<open>The content a reply carries, and how it comes through the combinators.\<close>

definition content :: "reply \<Rightarrow> bytes option" where
  "content r = (case r of Panicked \<Rightarrow> None | Answered a \<Rightarrow> (case rp_body a of FileContent c \<Rightarrow> Some c | _ \<Rightarrow> None))"

lemma content_simps [simp]:
  "content Panicked = None" "content (writeError rq status code message) = None"
  "content (send_file d pf) = Some (pf_bytes pf)" "content (internalError rq) = None"
  "content (file_unavailable rq) = None" "content (unverified_file rq) = None"
  by (simp_all add: content_def writeError_def writeJSONStatus_def send_file_def internalError_def file_unavailable_def unverified_file_def Let_def)

lemma answer_simp [simp]: "answer r w = (w, r)"
  by (simp add: answer_def)

lemma content_refusal: "content r \<noteq> None \<Longrightarrow> \<not> refusal r"
  by (auto simp: content_def refusal_def split: reply.splits body.splits)

lemma content_if_connected:
  "if_connected r h w = (w', r') \<Longrightarrow> content r' \<noteq> None \<Longrightarrow> content r = None \<Longrightarrow> hs_protected w \<noteq> None \<and> h w = (w', r')"
  by (auto simp: if_connected_def split: if_splits)

lemma content_protected_read:
  "protected_read f k w = (w', r) \<Longrightarrow> content r \<noteq> None \<Longrightarrow> \<exists>st. hs_protected w = Some st \<and> k (f st) w = (w', r)"
  by (auto simp: protected_read_def split: option.splits)

lemma content_store_outcome:
  "store_outcome g h res w = (w', r) \<Longrightarrow> content r \<noteq> None \<Longrightarrow> (\<And>e. content (snd (g e w)) = None) \<Longrightarrow> \<exists>x. res = Inr x \<and> h x w = (w', r)"
  by (cases res) (auto simp: store_outcome_def split: if_splits, metis option.distinct(1) snd_conv)

lemma content_required_audit:
  assumes "after (required_audit P env n rq i) (\<lambda>_. answer r) w = (w', r')" and "content r' \<noteq> None"
  shows "recorded P (hs_audit w) (hs_audit w') i \<and> r' = r"
proof -
  obtain sv res where append: "Append P (he_draws env n 0) (he_clock env n) i (hs_audit w) = (sv, res)" by fastforce
  with assms show ?thesis
    by (cases res) (auto simp: required_audit_def after_def calling_def on_audit_def recorded_def intro!: exI)
qed

lemma looked_up_parts [simp]:
  "hs_protected (looked_up P env rq w) = hs_protected w" "hs_ingest (looked_up P env rq w) = hs_ingest w"
  "hs_audit (looked_up P env rq w) = hs_audit w"
  by (simp_all add: looked_up_def split: option.splits)

definition released :: "platform \<Rightarrow> http_env \<Rightarrow> endpoint \<Rightarrow> request \<Rightarrow> string \<Rightarrow> ('i, 'g, 's, 'a, 'c) server \<Rightarrow> 's protected_service \<Rightarrow> bytes \<Rightarrow> string \<Rightarrow> bool" where
  "released P env ep rq userID w st c resource \<longleftrightarrow> (\<exists>pf. pf_bytes pf = c \<and>
     (case ep of
        EpDownloadUserFile \<Rightarrow> resource = rq_path_value rq ''fileId''
          \<and> OpenCurrentAuthorized P (fault_of env 3) (he_clock env 3 0) userID resource st = Inr pf
      | EpDownloadUpload \<Rightarrow> resource = rq_path_value rq ''uploadId''
          \<and> (\<exists>u. Get userID resource (hs_ingest w) = Inr u \<and> up_status u = StatusStored)
          \<and> Open P (fault_of env 3) userID resource st = Inr pf
      | _ \<Rightarrow> False))"

lemma downloadUserFile_releases:
  assumes "(\<lambda>(token, s).
       let fileID = rq_path_value rq ''fileId'';
           entry = (\<lambda>outcome reason. networked env rq (user_input rq (user_of s) ''FILE_DOWNLOAD'' ''file'' fileID outcome reason)) in
       if_connected (file_unavailable rq) (protected_read (AuthorizedDetails (he_clock env 2 0) (user_of s) fileID)
         (store_outcome
           (\<lambda>_ w. (bestEffortAudit P env 4 (entry ''denied'' ''not_authorized_or_missing'') w, file_unavailable rq))
           (\<lambda>details. protected_read (OpenCurrentAuthorized P (fault_of env 3) (he_clock env 3 0) (user_of s) fileID)
             (store_outcome
               (\<lambda>e w. if e = ErrStoreNotFound
                  then (bestEffortAudit P env 4 (entry ''denied'' ''download_permission_required'') w, file_unavailable rq)
                  else (w, unverified_file rq))
               (\<lambda>f. after (required_audit P env 5 rq (entry ''success'' (if lf_owner_id (fd_file details) = user_of s
                       then ''owner_authorized_current_version'' else ''grant_authorized_current_version'')))
                  (\<lambda>_. answer (send_file (he_attachment env (lf_name (fd_file details))) f)))))))) (token, s) w = (w', r)"
    and "content r = Some c"
  shows "\<exists>st i. hs_protected w = Some st \<and> released P env EpDownloadUserFile rq (user_of s) w st c (rq_path_value rq ''fileId'')
     \<and> download_entry (user_of s) (rq_path_value rq ''fileId'') i \<and> recorded P (hs_audit w) (hs_audit w') i"
proof -
  have some: "content r \<noteq> None" using assms(2) by simp
  let ?entry = "\<lambda>reason. networked env rq (user_input rq (user_of s) ''FILE_DOWNLOAD'' ''file'' (rq_path_value rq ''fileId'') ''success'' reason)"
  have "\<exists>st reason disposition pf. hs_protected w = Some st
      \<and> OpenCurrentAuthorized P (fault_of env 3) (he_clock env 3 0) (user_of s) (rq_path_value rq ''fileId'') st = Inr pf
      \<and> after (required_audit P env 5 rq (?entry reason)) (\<lambda>_. answer (send_file disposition pf)) w = (w', r)"
    using content_if_connected [OF assms(1) [unfolded Let_def prod.case] some]
    by (auto dest!: content_protected_read [OF _ some] content_store_outcome [OF _ some])
  then obtain st reason disposition pf where st: "hs_protected w = Some st"
    and pf: "OpenCurrentAuthorized P (fault_of env 3) (he_clock env 3 0) (user_of s) (rq_path_value rq ''fileId'') st = Inr pf"
    and sent: "after (required_audit P env 5 rq (?entry reason)) (\<lambda>_. answer (send_file disposition pf)) w = (w', r)"
    by blast
  from content_required_audit [OF sent some] assms(2) pf st show ?thesis
    by (auto simp: released_def download_entry_def networked_def user_input_def intro!: exI)
qed

lemma downloadUpload_releases:
  assumes "(\<lambda>(token, s) w.
       let uploadID = rq_path_value rq ''uploadId'';
           entry = (\<lambda>outcome reason. user_input rq (user_of s) ''FILE_DOWNLOAD'' ''upload'' uploadID outcome reason);
           unavailable = (bestEffortAudit P env 2 (entry ''denied'' ''resource_unavailable'') w, file_unavailable rq) in
       case Get (user_of s) uploadID (hs_ingest w) of Inl _ \<Rightarrow> unavailable
       | Inr u \<Rightarrow>
           if up_status u \<noteq> StatusStored \<or> hs_protected w = None then unavailable
           else protected_read (Open P (fault_of env 3) (user_of s) uploadID)
             (store_outcome
               (\<lambda>_ w. (bestEffortAudit P env 2 (entry ''failed'' ''integrity_or_storage_failure'') w, unverified_file rq))
               (\<lambda>f. after (required_audit P env 4 rq (entry ''success'' ''owner_authorized''))
                  (\<lambda>_. let disposition = he_attachment env (up_name u) in
                     answer (send_file (if disposition = [] then ''attachment'' else disposition) f)))) w) (token, s) w = (w', r)"
    and "content r = Some c"
  shows "\<exists>st i. hs_protected w = Some st \<and> released P env EpDownloadUpload rq (user_of s) w st c (rq_path_value rq ''uploadId'')
     \<and> download_entry (user_of s) (rq_path_value rq ''uploadId'') i \<and> recorded P (hs_audit w) (hs_audit w') i"
proof -
  have some: "content r \<noteq> None" using assms(2) by simp
  let ?entry = "user_input rq (user_of s) ''FILE_DOWNLOAD'' ''upload'' (rq_path_value rq ''uploadId'') ''success'' ''owner_authorized''"
  obtain u where u: "Get (user_of s) (rq_path_value rq ''uploadId'') (hs_ingest w) = Inr u" "up_status u = StatusStored"
    and read: "protected_read (Open P (fault_of env 3) (user_of s) (rq_path_value rq ''uploadId''))
             (store_outcome
               (\<lambda>_ w. (bestEffortAudit P env 2 (user_input rq (user_of s) ''FILE_DOWNLOAD'' ''upload'' (rq_path_value rq ''uploadId'')
                  ''failed'' ''integrity_or_storage_failure'') w, unverified_file rq))
               (\<lambda>f. after (required_audit P env 4 rq ?entry)
                  (\<lambda>_. answer (send_file (if he_attachment env (up_name u) = [] then ''attachment'' else he_attachment env (up_name u)) f)))) w
       = (w', r)"
    using assms(1) some by (auto simp: Let_def split: sum.splits if_splits)
  have "\<exists>st pf. hs_protected w = Some st \<and> Open P (fault_of env 3) (user_of s) (rq_path_value rq ''uploadId'') st = Inr pf
      \<and> after (required_audit P env 4 rq ?entry) (\<lambda>_. answer
          (send_file (if he_attachment env (up_name u) = [] then ''attachment'' else he_attachment env (up_name u)) pf)) w = (w', r)"
    using read by (auto dest!: content_protected_read [OF _ some] content_store_outcome [OF _ some] simp del: answer_simp)
  then obtain st pf where "hs_protected w = Some st" "Open P (fault_of env 3) (user_of s) (rq_path_value rq ''uploadId'') st = Inr pf"
    and sent: "after (required_audit P env 4 rq ?entry) (\<lambda>_. answer
          (send_file (if he_attachment env (up_name u) = [] then ''attachment'' else he_attachment env (up_name u)) pf)) w = (w', r)" by blast
  with content_required_audit [OF sent some] assms(2) u show ?thesis
    by (auto simp: released_def download_entry_def user_input_def intro!: exI)
qed

lemma released_simps [simp]:
  "released P env ep (rq\<lparr>rq_correlation := i, rq_path_value := v\<rparr>) userID w st c resource
     = released P env ep (rq\<lparr>rq_path_value := v\<rparr>) userID w st c resource"
  "released P env ep rq userID (looked_up P env rq' w) st c resource = released P env ep rq userID w st c resource"
  by (simp_all add: released_def split: endpoint.splits)

lemma handle_content:
  fixes w :: "('i, 'g, 's, 'a, 'c) server"
  assumes "handle P env x f ep rq w = (w', r)" and "content r = Some c"
  shows "\<exists>token s st resource i. session_of P env rq w = Some (token, s) \<and> acts_as s ''user'' [''user'']
     \<and> hs_protected w = Some st \<and> released P env ep rq (user_of s) w st c resource
     \<and> download_entry (user_of s) resource i \<and> recorded P (hs_audit w) (hs_audit w') i"
proof -
  obtain a where a: "r = Answered a" "rp_body a = FileContent c"
    using assms(2) by (auto simp: content_def split: reply.splits body.splits)
  have kept: "\<not> refusal r" using assms(2) by (intro content_refusal) simp
  have guard: "requireStandardUser P env rq = guard_of P env rq StandardUser" by (simp add: guard_of_def)
  from handle_releases [of P env x f ep rq w a c] assms(1) a consider "ep = EpDownloadUserFile" | "ep = EpDownloadUpload" by auto
  then show ?thesis
  proof cases
    case 1
    with assms(1) have call: "downloadUserFile P env rq w = (w', r)" by (simp add: handle_def)
    note outcome = server_guard.outcome [OF call [unfolded downloadUserFile_def guard] kept]
    show ?thesis
    proof (rule outcome, goal_cases)
      case (1 ts)
      obtain token s where ts: "ts = (token, s)" by (cases ts)
      from downloadUserFile_releases [OF 1(3) [unfolded ts] assms(2)] 1(1,2) ts \<open>ep = EpDownloadUserFile\<close> show ?thesis
        by auto
    qed
  next
    case 2
    with assms(1) have call: "downloadUpload P env rq w = (w', r)" by (simp add: handle_def)
    note outcome = server_guard.outcome [OF call [unfolded downloadUpload_def guard] kept]
    show ?thesis
    proof (rule outcome, goal_cases)
      case (1 ts)
      obtain token s where ts: "ts = (token, s)" by (cases ts)
      from downloadUpload_releases [OF 1(3) [unfolded ts] assms(2)] 1(1,2) ts \<open>ep = EpDownloadUpload\<close> show ?thesis
        by auto
    qed
  qed
qed

lemma content_dressed [simp]: "content (Answered (a\<lparr>rp_headers := hs\<rparr>)) = content (Answered a)"
  by (simp add: content_def)

text \<open>
  C2: the content of a file leaves the server only to the standard user of the request's session, only as what
  the protected store opens for that user (the current version of a file the user may download, or a stored upload of
  the user's own), and only after the audit service accepted the record of this download by this user.
\<close>

theorem content_released:
  fixes w :: "('i, 'g, 's, 'a, 'c) server"
  assumes "ServeHTTP P env x f rq w = (w', r)" and "content r = Some c"
  shows "\<exists>m pattern ep bindings token s st resource i. find_route rq = Some ((m, pattern, ep), bindings)
     \<and> session_of P env rq w = Some (token, s) \<and> acts_as s ''user'' [''user''] \<and> hs_protected w = Some st
     \<and> released P env ep (rq\<lparr>rq_path_value := mget [] bindings\<rparr>) (user_of s) w st c resource
     \<and> download_entry (user_of s) resource i \<and> recorded P (hs_audit w) (hs_audit w') i"
proof -
  let ?rq = "with_correlation env rq"
  obtain w1 r1 where inner: "(if origin_rejected rq w
      then (w, writeError ?rq 403 ''ORIGIN_REJECTED'' ''The request origin is not allowed.'')
      else mux P env x f ?rq w) = (w1, r1)" by fastforce
  from assms(1) [unfolded ServeHTTP_eq inner] assms(2) have served: "content r1 = Some c" "hs_audit w' = hs_audit w1"
    by (auto simp: counted_def split: reply.splits)
  with inner have mux: "mux P env x f ?rq w = (w1, r1)" by (auto split: if_splits)
  with served obtain m pattern ep bindings where route: "find_route rq = Some ((m, pattern, ep), bindings)"
    by (auto simp: mux_def with_correlation_def mux_error_def plain_error_def content_def split: option.splits prod.splits if_splits)
  with mux have "handle P env x f ep (?rq\<lparr>rq_path_value := mget [] bindings\<rparr>) w = (w1, r1)"
    by (simp add: mux_def with_correlation_def)
  from handle_content [OF this served(1)] show ?thesis
    unfolding served(2) by (auto simp: with_correlation_def route)
qed

end
