(* ===== verification/ApiEvidence.thy ===== *)
theory ApiEvidence
  imports ApiRelease
begin

text \<open>
  The record of what was done: a table of the action each endpoint leaves in the audit trail, and the proof that
  no success is answered before the audit service accepted that record. This is for repositories
  without transactional evidence, where the server itself has to deliver it.
\<close>

section \<open>What is recorded\<close>

fun evidence :: "endpoint \<Rightarrow> string option" where
  "evidence EpLogout = Some ''SESSION_LOGOUT''"
| "evidence EpCreateStepUpProof = Some ''ADMIN_STEP_UP''"
| "evidence EpInvitePrivilegedAccount = Some ''PRIVILEGED_ACCOUNT_INVITED''"
| "evidence EpUpdateUserStatus = Some ''ACCOUNT_STATUS_UPDATED''"
| "evidence EpRevokeUserSessions = Some ''USER_SESSIONS_REVOKED''"
| "evidence EpAdminMonitoring = Some ''MONITORING_READ''"
| "evidence EpProcessLifecycleDeletions = Some ''LIFECYCLE_PROCESSING_REQUESTED''"
| "evidence EpRunRecoveryDrill = Some ''RECOVERY_DRILL_REQUESTED''"
| "evidence EpListAuditEvents = Some ''AUDIT_READ''"
| "evidence EpExportAuditEvents = Some ''AUDIT_EXPORT''"
| "evidence EpUpdateOwnerQuota = Some ''OWNER_QUOTA_UPDATED''"
| "evidence EpResetOwnerQuota = Some ''OWNER_QUOTA_UPDATED''"
| "evidence EpMoveFileToTrash = Some ''FILE_MOVED_TO_TRASH''"
| "evidence EpRestoreFileFromTrash = Some ''FILE_RESTORED_FROM_TRASH''"
| "evidence EpPurgeFile = Some ''FILE_CRYPTOGRAPHICALLY_DELETED''"
| "evidence EpRestoreUserFileVersion = Some ''FILE_VERSION_RESTORE_COMPLETED''"
| "evidence EpCreateFileGrant = Some ''FILE_GRANT_CREATED''"
| "evidence EpRevokeFileGrant = Some ''FILE_GRANT_REVOKED''"
| "evidence EpSetFileRetention = Some ''FILE_RETENTION_UPDATED''"
| "evidence EpSetFileLegalHold = Some ''LEGAL_HOLD_UPDATED''"
| "evidence EpDownloadUserFile = Some ''FILE_DOWNLOAD''"
| "evidence EpDownloadUpload = Some ''FILE_DOWNLOAD''"
| "evidence _ = None"

text \<open>The audit service accepted the event of a success of a user.\<close>

definition took :: "platform \<Rightarrow> string \<Rightarrow> string \<Rightarrow> ('a, 'c) audit_service \<Rightarrow> ('a, 'c) audit_service \<Rightarrow> bool" where
  "took P userID action sv sv' \<longleftrightarrow> (\<exists>now e committed. appendEvent P now e sv = (sv', Inr committed)
     \<and> ev_actor_id e = safe userID \<and> ev_action e = safe action \<and> ev_outcome e = safe ''success'')"

text \<open>Any further calls of the audit service.\<close>

inductive audit_run :: "platform \<Rightarrow> ('a, 'c) audit_service \<Rightarrow> ('a, 'c) audit_service \<Rightarrow> bool" for P sv where
  run_done: "audit_run P sv sv"
| run_append: "audit_run P sv sv1 \<Longrightarrow> audit_run P sv (fst (Append P draw clock input sv1))"
| run_deliver: "audit_run P sv sv1 \<Longrightarrow> audit_run P sv (fst (DeliverMutationIntent P clock i durable sv1))"

definition unaudited :: "('i, 'g, 's, 'a, 'c) server \<Rightarrow> bool" where
  "unaudited w \<longleftrightarrow> io_audited (st_ops (hs_auth w)) = None \<and> ig_audited_quota (mg_ops (hs_ingest w)) = None
     \<and> (case hs_protected w of None \<Rightarrow> True
        | Some st \<Rightarrow> po_audited_catalog (ProtectedService.sv_ops st) = None \<and> po_audited_access (ProtectedService.sv_ops st) = None
            \<and> po_audited_lifecycle (ProtectedService.sv_ops st) = None)"

definition intends :: "string \<Rightarrow> string \<Rightarrow> intent \<Rightarrow> bool" where
  "intends userID action i \<longleftrightarrow> in_actor_id i = safe userID \<and> in_action i = safe action \<and> in_outcome i = safe ''success''"

definition noted ::
    "platform \<Rightarrow> string \<Rightarrow> string \<Rightarrow> ('a, 'c) audit_service \<Rightarrow> ('i, 'g, 's, 'a, 'c) server \<times> reply \<Rightarrow> bool" where
  "noted P userID action sv outcome = (case outcome of (w', Panicked) \<Rightarrow> True
     | (w', Answered a) \<Rightarrow> rp_status a < 300 \<longrightarrow> (\<exists>sv1. took P userID action sv sv1 \<and> audit_run P sv1 (hs_audit w')))"

lemma Append_took: "Append P draw clock input sv = (sv1, Inr e) \<Longrightarrow> ip_outcome input = ''success'' \<Longrightarrow> took P (ip_actor_id input) (ip_action input) sv sv1"
  by (fastforce simp: Append_def took_def event_of_input_def split: sum.splits)

lemma deliver_took: "DeliverMutationIntent P clock i False sv = (sv1, None) \<Longrightarrow> intends userID action i \<Longrightarrow> took P userID action sv sv1"
  by (fastforce simp: DeliverMutationIntent_def took_def intends_def event_of_intent_def split: prod.splits sum.splits)

lemma intends_new: "NewMutationIntent draw now input = Inr i \<Longrightarrow> ip_outcome input = ''success'' \<Longrightarrow> intends (ip_actor_id input) (ip_action input) i"
  by (auto simp: NewMutationIntent_def intends_def split: sum.splits)

lemma intends_update [simp]: "intends userID action (i\<lparr>in_event_id := x\<rparr>) = intends userID action i"
  by (simp add: intends_def)

section \<open>Rules\<close>

named_theorems note_rules "what is recorded comes through a combinator"
named_theorems run_rules "a step only makes further calls of the audit service"

lemma noted_error: "(\<And>ep. well ep i r) \<Longrightarrow> noted P userID action sv (w, r)"
proof -
  assume "\<And>ep. well ep i r"
  from this [of EpHealth] this [of EpLogout] have "r = Panicked \<or> (\<exists>a. r = Answered a \<and> error_answer i a)"
    by (cases r) (auto simp: well_def fits_def)
  then show ?thesis by (auto simp: noted_def error_answer_def)
qed

lemma noted_Panicked [simp]: "noted P userID action sv (w, Panicked)"
  by (simp add: noted_def)

lemma noted_new_intent [note_rules]:
  assumes "ip_outcome input = ''success''" "\<And>i. intends (ip_actor_id input) (ip_action input) i \<Longrightarrow> noted P userID action sv (f i w)"
  shows "noted P userID action sv (after (new_intent env n rq input) f w)"
proof (cases "NewMutationIntent (he_draws env n 0) (he_clock env n 0) input")
  case (Inl e)
  then show ?thesis by (simp add: new_intent_def after_def noted_error [of "correlationID rq"])
next
  case (Inr i)
  with assms intends_new [OF Inr] show ?thesis by (simp add: new_intent_def after_def)
qed

lemma noted_quota_owner [note_rules]:
  "noted P userID action sv (f () w) \<Longrightarrow> noted P userID action sv (after (quota_owner rq ownerID) f w)"
  using errsD [OF errs_steps(4), of rq ownerID w]
  by (cases "snd (quota_owner rq ownerID w)")
    (auto simp: after_def quota_owner_def intro!: noted_error [of "correlationID rq"] split: sum.splits)

lemma noted_required [note_rules]:
  assumes "hs_audit w = sv" "ip_actor_id input = userID" "ip_action input = action" "ip_outcome input = ''success''"
    and "\<And>w1. audit_run P (hs_audit w1) (hs_audit (fst (f () w1)))"
  shows "noted P userID action sv (after (required_audit P env n rq input) f w)"
proof -
  obtain sv1 res where append: "Append P (he_draws env n 0) (he_clock env n) input (hs_audit w) = (sv1, res)" by fastforce
  show ?thesis
  proof (cases res)
    case (Inl e)
    with append show ?thesis
      by (simp add: required_audit_def after_def calling_def on_audit_def noted_error [of "correlationID rq"])
  next
    case (Inr e)
    have "took P userID action sv sv1" using Append_took [OF append [unfolded Inr]] assms by simp
    moreover have "audit_run P sv1 (hs_audit (fst (f () (w\<lparr>hs_audit := sv1\<rparr>))))" using assms(5) [of "w\<lparr>hs_audit := sv1\<rparr>"] by simp
    ultimately show ?thesis
      using append Inr by (auto simp: required_audit_def after_def calling_def on_audit_def noted_def split: prod.splits reply.splits)
  qed
qed

lemma noted_deliver [note_rules]:
  assumes "hs_audit w = sv" "intends userID action i" "\<not> durable"
    and "\<And>w1. audit_run P (hs_audit w1) (hs_audit (fst (f () w1)))"
  shows "noted P userID action sv (after (deliver P env n rq i durable) f w)"
proof -
  obtain sv1 res where call: "DeliverMutationIntent P (he_clock env n) i False (hs_audit w) = (sv1, res)" by fastforce
  show ?thesis
  proof (cases res)
    case (Some e)
    with call assms(3) show ?thesis
      by (simp add: deliver_def after_def calling_def on_audit_def noted_error [of "correlationID rq"])
  next
    case None
    have "took P userID action sv sv1" using deliver_took [OF call [unfolded None]] assms by simp
    moreover have "audit_run P sv1 (hs_audit (fst (f () (w\<lparr>hs_audit := sv1\<rparr>))))" using assms(4) [of "w\<lparr>hs_audit := sv1\<rparr>"] by simp
    ultimately show ?thesis
      using call None assms(3) by (auto simp: deliver_def after_def calling_def on_audit_def noted_def split: prod.splits reply.splits)
  qed
qed

lemma noted_protected_call [note_rules]:
  assumes "hs_audit w = sv"
    and "\<And>st st' x w1. hs_protected w = Some st \<Longrightarrow> f st = (st', x) \<Longrightarrow> hs_audit w1 = sv \<Longrightarrow> noted P userID action sv (k x w1)"
  shows "noted P userID action sv (protected_call f k w)"
  using assms by (auto simp: protected_call_def calling_def on_protected_def split: prod.splits option.splits)

lemma noted_protected_read [note_rules]:
  "(\<And>x. noted P userID action sv (k x w)) \<Longrightarrow> noted P userID action sv (protected_read f k w)"
  by (simp add: protected_read_def split: option.splits)

lemma noted_if_connected [note_rules]:
  "noted P userID action sv (w, r) \<Longrightarrow> noted P userID action sv (h w) \<Longrightarrow> noted P userID action sv (if_connected r h w)"
  by (simp add: if_connected_def)

lemma noted_identity_denied [note_rules]: "noted P userID action sv (identity_denied P env rq s change userID' toState e w)"
  unfolding identity_denied_def by (rule noted_error [of "correlationID rq"]) simp

lemma noted_store_outcome [note_rules]:
  "(\<And>e. noted P userID action sv (g e w)) \<Longrightarrow> (\<And>x. noted P userID action sv (h x w)) \<Longrightarrow> noted P userID action sv (store_outcome g h res w)"
  by (simp add: store_outcome_def split: sum.splits)

lemma noted_auth_outcome [note_rules]:
  "(\<And>e. noted P userID action sv (g e w)) \<Longrightarrow> (\<And>x. noted P userID action sv (h x w)) \<Longrightarrow> noted P userID action sv (auth_outcome g h res w)"
  by (simp add: auth_outcome_def split: sum.splits)

lemma noted_on_auth [note_rules]:
  assumes "hs_audit w = sv" "\<And>x st' w1. f (hs_auth w) = (st', x) \<Longrightarrow> hs_audit w1 = sv \<Longrightarrow> noted P userID action sv (k x w1)"
  shows "noted P userID action sv (calling (on_auth f) k w)"
  using assms by (auto simp: calling_def on_auth_def split: prod.splits)

lemma noted_on_ingest [note_rules]:
  assumes "hs_audit w = sv" "\<And>x m' w1. f (hs_ingest w) = (m', x) \<Longrightarrow> hs_audit w1 = sv \<Longrightarrow> noted P userID action sv (k x w1)"
  shows "noted P userID action sv (calling (on_ingest f) k w)"
  using assms by (auto simp: calling_def on_ingest_def split: prod.splits)

lemma noted_limited [note_rules]:
  assumes "hs_audit w = sv" "\<And>x w1. hs_audit w1 = sv \<Longrightarrow> noted P userID action sv (k x w1)"
  shows "noted P userID action sv (calling (limited P env n rq scope) k w)"
  using assms by (auto simp: calling_def limited_def split: prod.splits)

lemma run_calling_ingest [run_rules]:
  assumes "\<And>x w1. hs_audit w1 = hs_audit w \<Longrightarrow> audit_run P sv (hs_audit (fst (k x w1)))"
  shows "audit_run P sv (hs_audit (fst (calling (on_ingest f) k w)))"
  using assms by (auto simp: calling_def on_ingest_def split: prod.splits)

lemma run_protected_call [run_rules]:
  assumes "\<And>x w1. hs_audit w1 = hs_audit w \<Longrightarrow> audit_run P sv (hs_audit (fst (k x w1)))" "audit_run P sv (hs_audit w)"
  shows "audit_run P sv (hs_audit (fst (protected_call f k w)))"
  using assms by (auto simp: protected_call_def calling_def on_protected_def split: prod.splits option.splits)

lemma run_bestEffort [run_rules]: "audit_run P sv (hs_audit w) \<Longrightarrow> audit_run P sv (hs_audit (bestEffortAudit P env n input w))"
  by (auto simp: bestEffortAudit_def on_audit_def split: prod.splits) (metis fst_conv run_append)

lemma run_on_deliver [run_rules]:
  "audit_run P sv (hs_audit w) \<Longrightarrow> audit_run P sv (hs_audit (fst (on_audit (DeliverMutationIntent P clock i durable) w)))"
  by (auto simp: on_audit_def split: prod.splits) (metis fst_conv run_deliver)

lemma run_new_intent [run_rules]:
  "(\<And>i. audit_run P sv (hs_audit (fst (f i w)))) \<Longrightarrow> audit_run P sv (hs_audit w) \<Longrightarrow> audit_run P sv (hs_audit (fst (after (new_intent env n rq input) f w)))"
  by (simp add: after_def new_intent_def split: sum.splits)

lemma run_after_deliver [run_rules]:
  assumes "audit_run P sv (hs_audit w)" "\<And>w1. audit_run P sv (hs_audit w1) \<Longrightarrow> audit_run P sv (hs_audit (fst (f () w1)))"
  shows "audit_run P sv (hs_audit (fst (after (deliver P env n rq i durable) f w)))"
  using assms(2) [of "w\<lparr>hs_audit := fst (DeliverMutationIntent P (he_clock env n) i durable (hs_audit w))\<rparr>"]
    run_deliver [OF assms(1), of "he_clock env n" i durable]
  by (auto simp: after_def deliver_def calling_def on_audit_def split: prod.splits option.splits)

lemma run_store_outcome [run_rules]:
  "audit_run P sv (hs_audit w) \<Longrightarrow> (\<And>e. audit_run P sv (hs_audit (fst (g e w)))) \<Longrightarrow> (\<And>x. audit_run P sv (hs_audit (fst (h x w))))
     \<Longrightarrow> audit_run P sv (hs_audit (fst (store_outcome g h res w)))"
  by (simp add: store_outcome_def split: sum.splits)

lemmas [run_rules] = run_done

section \<open>No evidence of their own\<close>

lemma audited_or_undurable: "po_audited_lifecycle (ProtectedService.sv_ops st) = None \<Longrightarrow> audited_or i f g st \<noteq> (st', True, res)"
  by (auto simp: audited_or_def split: option.splits prod.splits)

lemma lifecycle_undurable:
  assumes "po_audited_lifecycle (ProtectedService.sv_ops st) = None"
  shows "MoveToTrashAudited clock ownerID fileID i st \<noteq> (st', True, res)"
    and "RestoreFromTrashAudited clock ownerID fileID i st \<noteq> (st', True, res)"
    and "SetRetentionAudited fileID until i st \<noteq> (st', True, res)"
    and "SetLegalHoldAudited fileID enabled reason i st \<noteq> (st', True, res)"
    and "PurgeAudited P io clock ownerID fileID key i st \<noteq> (st', True, resp)"
  by (auto simp: audited_or_undurable [OF assms] MoveToTrashAudited_def RestoreFromTrashAudited_def SetRetentionAudited_def SetLegalHoldAudited_def PurgeAudited_def Let_def
      split: if_splits sum.splits prod.splits)

lemma access_undurable:
  assumes "po_audited_access (ProtectedService.sv_ops st) = None"
  shows "CreateGrantAudited P su ownerID fileID rec permission expiresAt i st \<noteq> (st', True, res)"
    and "RevokeGrantAudited now ownerID fileID grantID i st \<noteq> (st', True, resp)"
  using assms by (auto simp: CreateGrantAudited_def RevokeGrantAudited_def Let_def split: if_splits option.splits prod.splits)

lemma restore_undurable:
  "po_audited_catalog (ProtectedService.sv_ops st) = None \<Longrightarrow> RestoreAudited P su ownerID fileID versionID key i st \<noteq> (st', True, res)"
  by (auto simp: RestoreAudited_def Let_def split: if_splits option.splits prod.splits sum.splits)

lemma quota_undurable:
  assumes "ig_audited_quota (mg_ops m) = None"
  shows "SetOwnerQuotaAudited ownerID quota i m \<noteq> (m', Inr True)"
    and "ResetOwnerQuotaAudited ownerID i m \<noteq> (m', Inr True)"
  using assms by (auto simp: SetOwnerQuotaAudited_def ResetOwnerQuotaAudited_def Let_def split: if_splits option.splits prod.splits sum.splits)

lemma identity_undurable:
  assumes "io_audited (st_ops st) = None"
  shows "UpdateUserStatusAudited actorID userID status i st \<noteq> (st', True, res)"
    and "RevokeUserSessionsAudited actorID userID i st \<noteq> (st', True, res)"
    and "InvitePrivilegedAccountAudited P draw now actorID name email role i st \<noteq> (st', True, resp)"
  using assms by (auto simp: UpdateUserStatusAudited_def RevokeUserSessionsAudited_def InvitePrivilegedAccountAudited_def Let_def
      split: if_splits option.splits prod.splits sum.splits)

lemma unaudited_parts:
  assumes "unaudited w"
  shows "io_audited (st_ops (hs_auth w)) = None" "ig_audited_quota (mg_ops (hs_ingest w)) = None"
    and "hs_protected w = Some st \<Longrightarrow> po_audited_catalog (ProtectedService.sv_ops st) = None"
    and "hs_protected w = Some st \<Longrightarrow> po_audited_access (ProtectedService.sv_ops st) = None"
    and "hs_protected w = Some st \<Longrightarrow> po_audited_lifecycle (ProtectedService.sv_ops st) = None"
  using assms by (auto simp: unaudited_def)

text \<open>The operations a handler calls, in the server it runs in.\<close>

lemmas undurable = lifecycle_undurable [OF unaudited_parts(5)] access_undurable [OF unaudited_parts(4)]
  restore_undurable [OF unaudited_parts(3)] quota_undurable [OF unaudited_parts(2)] identity_undurable [OF unaudited_parts(1)]

lemma Authenticate_ops [simp]: "st_ops (fst (Authenticate P now token st)) = st_ops st"
  by (simp add: Authenticate_def split: prod.splits)

lemma unaudited_looked_up [simp]: "unaudited (looked_up P env rq w) = unaudited w"
  by (simp add: unaudited_def looked_up_def split: option.splits)

section \<open>The handlers\<close>

definition accounted ::
    "platform \<Rightarrow> http_env \<Rightarrow> request \<Rightarrow> ('i, 'g, 's, 'a, 'c) server \<Rightarrow> string \<Rightarrow> ('i, 'g, 's, 'a, 'c) server \<times> reply \<Rightarrow> bool" where
  "accounted P env rq w action outcome = (case outcome of (w', Panicked) \<Rightarrow> True
     | (w', Answered a) \<Rightarrow> rp_status a < 300 \<longrightarrow> (\<exists>token s sv1. session_of P env rq w = Some (token, s)
         \<and> took P (user_of s) action (hs_audit w) sv1 \<and> audit_run P sv1 (hs_audit w')))"

lemma accounted_guard:
  assumes "\<And>token s. noted P (user_of s) action (hs_audit w) (h (token, s) (looked_up P env rq w))"
  shows "accounted P env rq w action (after (guard_of P env rq d) h w)"
proof (cases "after (guard_of P env rq d) h w")
  case (Pair w' r)
  show ?thesis
  proof (cases "refusal r")
    case True
    with Pair show ?thesis by (auto simp: accounted_def refusal_def split: reply.splits)
  next
    case False
    show ?thesis
    proof (rule server_guard.outcome [OF Pair False], goal_cases)
      case (1 ts)
      obtain token s where ts: "ts = (token, s)" by (cases ts)
      have "accounted P env rq w action (w', r)"
        using assms [of s token] 1 unfolding ts accounted_def noted_def by (cases r) auto
      with Pair show ?case by simp
    qed
  qed
qed

lemmas accounted_guards = accounted_guard [where d = SignedInChange, unfolded guard_of_def demand.case]
  accounted_guard [where d = Privileged, unfolded guard_of_def demand.case]
  accounted_guard [where d = AdministratorToken, unfolded guard_of_def demand.case]
  accounted_guard [where d = AdministratorChange, unfolded guard_of_def demand.case]
  accounted_guard [where d = StandardUser, unfolded guard_of_def demand.case]
  accounted_guard [where d = StandardChange, unfolded guard_of_def demand.case]
  accounted_guard [where d = StandardChange, unfolded guard_of_def demand.case requireStandardUserMutation_def]

lemmas inputs = user_input_def networked_def

lemma accounted_logout: "accounted P env rq w ''SESSION_LOGOUT'' (logout P env rq w)"
  unfolding logout_def prod.case
  by (rule accounted_guards) (auto intro!: note_rules run_rules simp: inputs)

lemma accounted_moveFileToTrash: "unaudited w \<Longrightarrow> accounted P env rq w ''FILE_MOVED_TO_TRASH'' (moveFileToTrash P env rq w)"
  unfolding moveFileToTrash_def Let_def
  by (rule accounted_guards) (auto intro!: note_rules run_rules noted_error [of "correlationID rq"] simp: inputs undurable split: reply_splits)

lemma accounted_restoreFileFromTrash: "unaudited w \<Longrightarrow> accounted P env rq w ''FILE_RESTORED_FROM_TRASH'' (restoreFileFromTrash P env rq w)"
  unfolding restoreFileFromTrash_def Let_def
  by (rule accounted_guards) (auto intro!: note_rules run_rules noted_error [of "correlationID rq"] simp: inputs undurable split: reply_splits)

lemma accounted_purgeFile: "unaudited w \<Longrightarrow> accounted P env rq w ''FILE_CRYPTOGRAPHICALLY_DELETED'' (purgeFile P env rq w)"
  unfolding purgeFile_def Let_def
  by (rule accounted_guards) (auto intro!: note_rules run_rules noted_error [of "correlationID rq"] simp: inputs undurable split: reply_splits)

lemma accounted_restoreUserFileVersion: "unaudited w \<Longrightarrow> accounted P env rq w ''FILE_VERSION_RESTORE_COMPLETED'' (restoreUserFileVersion P env rq w)"
  unfolding restoreUserFileVersion_def Let_def
  by (rule accounted_guards) (auto intro!: note_rules run_rules noted_error [of "correlationID rq"] simp: inputs undurable split: reply_splits)

lemma accounted_createFileGrant: "unaudited w \<Longrightarrow> accounted P env rq w ''FILE_GRANT_CREATED'' (createFileGrant P env rq w)"
  unfolding createFileGrant_def Let_def
  by (rule accounted_guards) (auto intro!: note_rules run_rules noted_error [of "correlationID rq"] simp: inputs undurable split: reply_splits)

lemma accounted_revokeFileGrant: "unaudited w \<Longrightarrow> accounted P env rq w ''FILE_GRANT_REVOKED'' (revokeFileGrant P env rq w)"
  unfolding revokeFileGrant_def Let_def
  by (rule accounted_guards) (auto intro!: note_rules run_rules noted_error [of "correlationID rq"] simp: inputs undurable split: reply_splits)

lemma accounted_setFileRetention: "unaudited w \<Longrightarrow> accounted P env rq w ''FILE_RETENTION_UPDATED'' (setFileRetention P env rq w)"
  unfolding setFileRetention_def Let_def
  by (rule accounted_guards) (auto intro!: note_rules run_rules noted_error [of "correlationID rq"] simp: inputs undurable split: reply_splits)

lemma accounted_setFileLegalHold: "unaudited w \<Longrightarrow> accounted P env rq w ''LEGAL_HOLD_UPDATED'' (setFileLegalHold P env rq w)"
  unfolding setFileLegalHold_def Let_def
  by (rule accounted_guards) (auto intro!: note_rules run_rules noted_error [of "correlationID rq"] simp: inputs undurable split: reply_splits)

lemma accounted_updateOwnerQuota: "unaudited w \<Longrightarrow> accounted P env rq w ''OWNER_QUOTA_UPDATED'' (updateOwnerQuota P env rq w)"
  unfolding updateOwnerQuota_def Let_def
  by (rule accounted_guards) (auto intro!: note_rules run_rules noted_error [of "correlationID rq"] simp: inputs undurable split: reply_splits)

lemma accounted_resetOwnerQuota: "unaudited w \<Longrightarrow> accounted P env rq w ''OWNER_QUOTA_UPDATED'' (resetOwnerQuota P env rq w)"
  unfolding resetOwnerQuota_def Let_def
  by (rule accounted_guards) (auto intro!: note_rules run_rules noted_error [of "correlationID rq"] simp: inputs undurable split: reply_splits)

lemma accounted_updateUserStatus: "unaudited w \<Longrightarrow> accounted P env rq w ''ACCOUNT_STATUS_UPDATED'' (updateUserStatus P env rq w)"
  unfolding updateUserStatus_def Let_def
  by (rule accounted_guards) (auto intro!: note_rules run_rules noted_error [of "correlationID rq"] simp: inputs undurable split: reply_splits)

lemma accounted_revokeUserSessions: "unaudited w \<Longrightarrow> accounted P env rq w ''USER_SESSIONS_REVOKED'' (revokeUserSessions P env rq w)"
  unfolding revokeUserSessions_def Let_def
  by (rule accounted_guards) (auto intro!: note_rules run_rules noted_error [of "correlationID rq"] simp: inputs undurable split: reply_splits)

lemma accounted_invitePrivilegedAccount: "unaudited w \<Longrightarrow> accounted P env rq w ''PRIVILEGED_ACCOUNT_INVITED'' (invitePrivilegedAccount P env rq w)"
  unfolding invitePrivilegedAccount_def Let_def
  by (rule accounted_guards) (auto intro!: note_rules run_rules noted_error [of "correlationID rq"] simp: inputs undurable split: reply_splits)

lemma accounted_listAuditEvents: "unaudited w \<Longrightarrow> accounted P env rq w ''AUDIT_READ'' (listAuditEvents P env rq w)"
  unfolding listAuditEvents_def Let_def
  by (rule accounted_guards) (auto intro!: note_rules run_rules noted_error [of "correlationID rq"] simp: inputs undurable split: reply_splits)

lemma accounted_exportAuditEvents: "unaudited w \<Longrightarrow> accounted P env rq w ''AUDIT_EXPORT'' (exportAuditEvents P env rq w)"
  unfolding exportAuditEvents_def Let_def
  by (rule accounted_guards) (auto intro!: note_rules run_rules noted_error [of "correlationID rq"] simp: inputs undurable split: reply_splits)

lemma accounted_adminMonitoring: "unaudited w \<Longrightarrow> accounted P env rq w ''MONITORING_READ'' (adminMonitoring P env rq w)"
  unfolding adminMonitoring_def Let_def
  by (rule accounted_guards) (auto intro!: note_rules run_rules noted_error [of "correlationID rq"] simp: inputs undurable split: reply_splits)

lemma accounted_processLifecycleDeletions: "unaudited w \<Longrightarrow> accounted P env rq w ''LIFECYCLE_PROCESSING_REQUESTED'' (processLifecycleDeletions P env rq w)"
  unfolding processLifecycleDeletions_def Let_def
  by (rule accounted_guards) (auto intro!: note_rules run_rules noted_error [of "correlationID rq"] simp: inputs undurable split: reply_splits)

lemma accounted_runRecoveryDrill: "unaudited w \<Longrightarrow> accounted P env rq w ''RECOVERY_DRILL_REQUESTED'' (runRecoveryDrill P env rq w)"
  unfolding runRecoveryDrill_def Let_def
  by (rule accounted_guards) (auto intro!: note_rules run_rules noted_error [of "correlationID rq"] simp: inputs undurable split: reply_splits)

lemma accounted_createStepUpProof: "unaudited w \<Longrightarrow> accounted P env rq w ''ADMIN_STEP_UP'' (createStepUpProof P env rq w)"
  unfolding createStepUpProof_def Let_def
  by (rule accounted_guards) (auto intro!: note_rules run_rules noted_error [of "correlationID rq"] simp: inputs undurable split: reply_splits)

lemma accounted_downloadUserFile: "unaudited w \<Longrightarrow> accounted P env rq w ''FILE_DOWNLOAD'' (downloadUserFile P env rq w)"
  unfolding downloadUserFile_def Let_def
  by (rule accounted_guards) (auto intro!: note_rules run_rules noted_error [of "correlationID rq"] simp: inputs undurable split: reply_splits)

lemma accounted_downloadUpload: "unaudited w \<Longrightarrow> accounted P env rq w ''FILE_DOWNLOAD'' (downloadUpload P env rq w)"
  unfolding downloadUpload_def Let_def
  by (rule accounted_guards) (auto intro!: note_rules run_rules noted_error [of "correlationID rq"] simp: inputs undurable split: reply_splits)

lemma handle_accounted:
  "evidence ep = Some action \<Longrightarrow> unaudited w \<Longrightarrow> accounted P env rq w action (handle P env x f ep rq w)"
  by (cases ep) (auto simp: handle_def accounted_logout accounted_moveFileToTrash accounted_restoreFileFromTrash accounted_purgeFile
      accounted_restoreUserFileVersion accounted_createFileGrant accounted_revokeFileGrant accounted_setFileRetention
      accounted_setFileLegalHold accounted_updateOwnerQuota accounted_resetOwnerQuota accounted_updateUserStatus
      accounted_revokeUserSessions accounted_invitePrivilegedAccount accounted_listAuditEvents accounted_exportAuditEvents
      accounted_adminMonitoring accounted_processLifecycleDeletions accounted_runRecoveryDrill accounted_createStepUpProof
      accounted_downloadUserFile accounted_downloadUpload)

text \<open>
  C3: with repositories that keep no evidence of their own, an endpoint of the evidence table answers a success only after
  the audit service accepted the event with the action of that endpoint, the user of the request's session as its actor and success as its outcome,
  as the first thing it was asked to append; whatever else the service is asked comes after it.
\<close>

theorem success_is_recorded:
  fixes w :: "('i, 'g, 's, 'a, 'c) server"
  assumes "ServeHTTP P env x f rq w = (w', Answered a)" and "rp_status a < 300"
    and "find_route rq = Some ((m, pattern, ep), bindings)" and "evidence ep = Some action" and "unaudited w"
  shows "\<exists>token s sv1. session_of P env rq w = Some (token, s) \<and> took P (user_of s) action (hs_audit w) sv1 \<and> audit_run P sv1 (hs_audit w')"
proof -
  let ?rq = "with_correlation env rq"
  obtain w1 r1 where inner: "(if origin_rejected rq w
      then (w, writeError ?rq 403 ''ORIGIN_REJECTED'' ''The request origin is not allowed.'')
      else mux P env x f ?rq w) = (w1, r1)" by fastforce
  from assms(1) [unfolded ServeHTTP_eq inner] obtain b where served: "r1 = Answered b" "rp_status b < 300" "hs_audit w' = hs_audit w1"
    using assms(2) by (cases r1) (auto simp: counted_def)
  with inner have "mux P env x f ?rq w = (w1, Answered b)" by (auto simp: writeError_def writeJSONStatus_def split: if_splits)
  with assms(3) have "handle P env x f ep (?rq\<lparr>rq_path_value := mget [] bindings\<rparr>) w = (w1, Answered b)"
    by (simp add: mux_def with_correlation_def)
  with handle_accounted [OF assms(4,5), of P env "?rq\<lparr>rq_path_value := mget [] bindings\<rparr>" x f] served show ?thesis
    by (auto simp: accounted_def with_correlation_def)
qed

end
