(* ===== verification/ApiWitnesses.thy ===== *)
theory ApiWitnesses
  imports ApiEvidence ProtectedWitnesses AuditProperties
begin

text \<open>
  A small server on the stand-in platform, over the store of \<open>ProtectedWitnesses\<close> and memory repositories, with
  one user signed in who has one stored upload; and the properties of the HTTP interface applied to a request of that user.
\<close>

section \<open>The server\<close>

definition demo_session :: session where
  "demo_session = \<lparr>ss_user = \<lparr>u_id = ''usr_1'', u_name = ''Ada'', u_email = ''ada@x.org'', u_role = ''user''\<rparr>,
     ss_audience = ''user'', ss_csrf_token = ''csrf'', ss_expires_at = 100\<rparr>"

definition demo_auth :: "memory_identity store" where
  "demo_auth = \<lparr>st_ops = memory_identity_ops demo_platform, st_repo = NewMemoryIdentity\<lparr>mi_sessions := [(''tok'', demo_session)]\<rparr>,
     st_mailer = (\<lambda>m. None), st_sent = [], st_dummy_hash = [], st_session_ttl = hour, st_verification_ttl = hour,
     st_verification_min_resend = minute, st_public_app_url = ''http://localhost'', st_require_privileged_mfa = True,
     st_mfa_encryption_key = replicate 32 (CHR ''m''), st_mfa_issuer = ''SecureStore'', st_login_failure_window = hour,
     st_login_failure_threshold = 2, st_account_lock_duration = hour, st_step_up_ttl = minute, st_require_admin_step_up = True\<rparr>"

definition demo_upload :: persisted_record where
  "demo_upload = \<lparr>pr_upload = \<lparr>up_id = ''up_1'', up_name = ''notes.txt'', up_bytes = 32, up_declared = ''text/plain'', up_detected = ''text/plain'',
     up_status = StatusStored, up_progress = 100, up_reason = [], up_correlation_id = ''corr_1'', up_created_at = 0\<rparr>,
     pr_owner_id = ''usr_1'', pr_object = ''up_1.upload'', pr_digest = hex_encode demo_content, pr_idempotency_hash = replicate 64 (CHR ''a'')\<rparr>"

definition demo_ingest :: "(memory_ingest, memory_protected) manager" where
  "demo_ingest = \<lparr>mg_uploads = [(''up_1'', demo_upload)], mg_idempotency = [], mg_quarantine = [], mg_max_upload = 100,
     mg_inspection_ttl = 5 * second, mg_ops = memory_ingest_ops, mg_repo = NewMemoryIngest, mg_default_quota = 1024,
     mg_capacity = 4096, mg_reserve = 0, mg_reservation_ttl = hour, mg_owner_reservations = [], mg_owner_quotas = [],
     mg_store = Some (demo_store (demo_vault demo_lifecycle) demo_root), mg_delivered = []\<rparr>"

definition demo_audit :: "(memory_audit, file_anchor) audit_service" where
  "demo_audit = \<lparr>audit_service.sv_ops = memory_ops demo_platform, audit_service.sv_repo = NewMemoryRepository demo_platform,
     audit_service.sv_keys = demo_keys,
     sv_current_key_version = ''v1'', sv_anchor = None, sv_anchor_key = []\<rparr>"

definition demo_server :: "(memory_identity, memory_ingest, memory_protected, memory_audit, file_anchor) server" where
  "demo_server = \<lparr>hs_auth = demo_auth, hs_auth_postgres = False, hs_ingest = demo_ingest, hs_jobs = [], hs_audit = demo_audit,
     hs_limiter = newAuthenticationRateLimiter 10 (5 * minute),
     hs_telemetry = \<lparr>tr_token_hash = no_digest, tr_enabled = False, tr_stale_after = minute, tr_requests = [], tr_scrapes = 0, tr_last_scrape = None\<rparr>,
     hs_allowed_origins = [], hs_secure_cookies = True, hs_deployment_mode = ''production'', hs_max_request = 1000, hs_started_at = 0\<rparr>"

definition demo_http :: http_env where
  "demo_http = \<lparr>he_clock = (\<lambda>_ _. 5), he_draws = (\<lambda>_ _. Inr ''aa''), he_store = (\<lambda>_. demo_surroundings),
     he_version_draw = (\<lambda>_. (Inr ''aa'', 5)), he_upload = \<lparr>ie_faults = (\<lambda>_. None), ie_now = 0, ie_draws = (\<lambda>n. Inr ''aa''), ie_prepare = None,
       ie_deliver = False, ie_sniff = (\<lambda>_. ''text/plain''),
       ie_scan = (\<lambda>_. Inr \<lparr>sc_accepted = True, sc_reason = ''policy_accepted'', sc_tool = ''t'', sc_policy = ''p''\<rparr>),
       ie_surroundings = demo_surroundings, ie_file_draw = Inr ''ff''\<rparr>,
     he_disk = (\<lambda>_. None), he_volume = Inr (0, 0), he_scanner = None, he_scanner_connected = False, he_parse_time = (\<lambda>_. None),
     he_host_of = (\<lambda>_. None), he_attachment = (\<lambda>_. ''attachment'')\<rparr>"

definition demo_call :: "string \<Rightarrow> string list \<Rightarrow> request" where
  "demo_call verb segments = \<lparr>rq_method = verb, rq_segments = segments, rq_path_value = (\<lambda>_. []), rq_header = (\<lambda>_. []), rq_query = (\<lambda>_. []),
     rq_cookie = Some ''tok'', rq_remote_addr = ''10.0.0.1:9'', rq_tls = True, rq_content_length = 0, rq_body = [], rq_multipart = Inl [],
     rq_correlation = []\<rparr>"

definition demo_download :: request where
  "demo_download = demo_call ''GET'' [''api'', ''v1'', ''uploads'', ''up_1'', ''content'']"

definition demo_forged :: request where
  "demo_forged = demo_call ''DELETE'' [''api'', ''v1'', ''files'', ''file_1'']"

lemma demo_download_route:
  "find_route demo_download = Some ((''GET'', ''/api/v1/uploads/{uploadId}/content'', EpDownloadUpload), [(''uploadId'', ''up_1'')])"
  by code_simp

lemma demo_forged_route:
  "find_route demo_forged = Some ((''DELETE'', ''/api/v1/files/{fileId}'', EpPurgeFile), [(''fileId'', ''file_1'')])"
  by code_simp

lemma demo_server_simps [simp]:
  "hs_auth demo_server = demo_auth" "hs_ingest demo_server = demo_ingest" "hs_audit demo_server = demo_audit"
  "mg_store demo_ingest = Some (demo_store (demo_vault demo_lifecycle) demo_root)"
  by (simp_all add: demo_server_def demo_ingest_def)

lemma demo_call_simps [simp]:
  "rq_cookie (demo_call m ss) = Some ''tok''" "rq_header (demo_call m ss) = (\<lambda>_. [])" "rq_method (demo_call m ss) = m"
  by (simp_all add: demo_call_def)

lemma demo_authenticated: "Authenticate demo_platform 5 ''tok'' demo_auth = (demo_auth, Inr demo_session)"
proof -
  have "io_session_by_hash (memory_identity_ops demo_platform) = SessionByHash" by (simp add: memory_identity_ops_def)
  then show ?thesis
    by (simp add: Authenticate_def demo_auth_def SessionByHash_def demo_session_def demo_platform_def NewMemoryIdentity_def)
qed

lemma demo_session_of: "session_of demo_platform demo_http (demo_call m ss) demo_server = Some (''tok'', demo_session)"
  by (simp add: session_of_def demo_http_def demo_authenticated)

lemma demo_looked_up: "looked_up demo_platform demo_http (demo_call m ss) demo_server = demo_server"
  by (simp add: looked_up_def demo_http_def demo_authenticated)

section \<open>Witnesses\<close>

text \<open>A deletion with the cookie of the session but without its token, as a foreign site could send it.\<close>

theorem refused_requests_change_nothing_witness:
  "\<exists>w0 tr a. ServeHTTP demo_platform demo_http 0 (\<lambda>_. []) demo_forged demo_server = (w0\<lparr>hs_telemetry := tr\<rparr>, Answered a)
     \<and> w0 = demo_server \<and> refusal (Answered a)"
proof -
  have "\<not> entitled demo_platform demo_http (demand_of EpPurgeFile) demo_forged demo_server"
    by (simp add: entitled_def demo_forged_def demo_session_of csrf_ok_def demo_session_def)
  from refused_requests_change_nothing [OF demo_forged_route this, of 0 "\<lambda>_. []"] show ?thesis
    unfolding demo_forged_def demo_looked_up by blast
qed

lemma demo_open_upload: "Open demo_platform no_faults ''usr_1'' ''up_1'' (demo_store (demo_vault demo_lifecycle) demo_root)
    = Inr \<lparr>pf_metadata = demo_metadata, pf_bytes = demo_content\<rparr>"
proof -
  have "memory_FindByUpload ''usr_1'' ''up_1'' (demo_vault demo_lifecycle) = Inr demo_metadata"
    by (simp add: memory_FindByUpload_def demo_metadata_def demo_bare_def)
  moreover have "po_find_by_upload memory_protected_ops = memory_FindByUpload" by (simp add: memory_protected_ops_def)
  ultimately show ?thesis by (simp add: Open_def demo_opens)
qed

lemma demo_get: "Get ''usr_1'' ''up_1'' demo_ingest = Inr (pr_upload demo_upload)"
  by (simp add: Get_def demo_ingest_def demo_upload_def)

lemma demo_append:
  obtains sv e where "Append demo_platform (Inr ''aa'') (\<lambda>_. 5) input demo_audit = (sv, Inr e)"
proof -
  have "op_append (memory_ops demo_platform) = memory_Append" by (simp add: memory_ops_def)
  then show thesis
    by (intro that) (simp add: Append_def audit_opaqueID_def appendEvent_def demo_audit_def memory_Append_def NewMemoryRepository_def event_of_input_def Let_def)
qed

lemma demo_downloaded:
  obtains w a where "ServeHTTP demo_platform demo_http 0 (\<lambda>_. []) demo_download demo_server = (w, Answered a)"
    "rp_status a = 200" "content (Answered a) = Some demo_content"
proof -
  define rq1 where "rq1 = (with_correlation demo_http demo_download)\<lparr>rq_path_value := mget [] [(''uploadId'', ''up_1'')]\<rparr>"
  have "session_of demo_platform demo_http rq1 demo_server = Some (''tok'', demo_session)"
    and looked: "looked_up demo_platform demo_http rq1 demo_server = demo_server"
    by (simp_all add: rq1_def with_correlation_def demo_download_def demo_session_of demo_looked_up)
  moreover have "may demo_platform demo_http rq1 (hs_auth demo_server) (''tok'', demo_session) StandardUser"
    by (simp add: acts_as_def demo_session_def)
  ultimately have guard: "requireStandardUser demo_platform demo_http rq1 demo_server = (demo_server, Inr (''tok'', demo_session))"
    using guard_passes [of demo_platform demo_http rq1 demo_server "(''tok'', demo_session)" StandardUser]
    by (simp add: guard_of_def del: may.simps)
  obtain sv e where sv: "Append demo_platform (Inr ''aa'') (\<lambda>_. 5)
      (user_input rq1 ''usr_1'' ''FILE_DOWNLOAD'' ''upload'' ''up_1'' ''success'' ''owner_authorized'') demo_audit = (sv, Inr e)"
    by (rule demo_append)
  have env: "he_clock demo_http n = (\<lambda>_. 5)" "he_draws demo_http n i = Inr ''aa''" "su_faults (he_store demo_http n) = no_faults"
    "he_attachment demo_http s = ''attachment''" for n i s
    by (simp_all add: demo_http_def demo_surroundings_def)
  have id: "user_of demo_session = ''usr_1''" "rq_path_value rq1 ''uploadId'' = ''up_1''" "up_status (pr_upload demo_upload) = StatusStored"
    by (simp_all add: demo_session_def rq1_def mget_def demo_upload_def)
  have "downloadUpload demo_platform demo_http rq1 demo_server
      = (demo_server\<lparr>hs_audit := sv\<rparr>, send_file ''attachment'' \<lparr>pf_metadata = demo_metadata, pf_bytes = demo_content\<rparr>)"
    unfolding downloadUpload_def after_go [of "requireStandardUser demo_platform demo_http rq1", OF guard]
    by (simp add: id Let_def demo_get protected_read_def env demo_open_upload store_outcome_def required_audit_def calling_def on_audit_def sv after_def)
  then have "mux demo_platform demo_http 0 (\<lambda>_. []) (with_correlation demo_http demo_download) demo_server
      = (demo_server\<lparr>hs_audit := sv\<rparr>, send_file ''attachment'' \<lparr>pf_metadata = demo_metadata, pf_bytes = demo_content\<rparr>)"
    using demo_download_route by (simp add: mux_def with_correlation_def handle_def rq1_def)
  moreover have "\<not> origin_rejected demo_download demo_server" by (simp add: origin_rejected_def demo_download_def)
  ultimately have "\<exists>w a. ServeHTTP demo_platform demo_http 0 (\<lambda>_. []) demo_download demo_server = (w, Answered a)
      \<and> rp_status a = 200 \<and> content (Answered a) = Some demo_content"
    by (simp add: ServeHTTP_eq send_file_def Let_def content_def)
  then show thesis using that by blast
qed

theorem content_released_witness:
  "\<exists>w r st i. ServeHTTP demo_platform demo_http 0 (\<lambda>_. []) demo_download demo_server = (w, r) \<and> content r = Some demo_content
     \<and> hs_protected demo_server = Some st \<and> download_entry ''usr_1'' ''up_1'' i \<and> recorded demo_platform demo_audit (hs_audit w) i"
proof -
  obtain w a where served: "ServeHTTP demo_platform demo_http 0 (\<lambda>_. []) demo_download demo_server = (w, Answered a)"
    "content (Answered a) = Some demo_content" by (rule demo_downloaded)
  from content_released [OF this] obtain token s st resource i bindings m pattern ep where
    "find_route demo_download = Some ((m, pattern, ep), bindings)"
    "session_of demo_platform demo_http demo_download demo_server = Some (token, s)" "hs_protected demo_server = Some st"
    "released demo_platform demo_http ep (demo_download\<lparr>rq_path_value := mget [] bindings\<rparr>) (user_of s) demo_server st demo_content resource"
    "download_entry (user_of s) resource i" "recorded demo_platform (hs_audit demo_server) (hs_audit w) i"
    by blast
  moreover from this(1) have "ep = EpDownloadUpload" "bindings = [(''uploadId'', ''up_1'')]" by (simp_all add: demo_download_route)
  moreover from calculation(2) have "user_of s = ''usr_1''" by (auto simp: demo_download_def demo_session_of demo_session_def)
  ultimately show ?thesis using served by (auto simp: released_def mget_def)
qed

lemma demo_unaudited: "unaudited demo_server"
  by (simp add: unaudited_def demo_auth_def demo_ingest_def memory_identity_ops_def memory_protected_ops_def)

theorem success_is_recorded_witness:
  "\<exists>w a sv. ServeHTTP demo_platform demo_http 0 (\<lambda>_. []) demo_download demo_server = (w, Answered a) \<and> rp_status a = 200
     \<and> took demo_platform ''usr_1'' ''FILE_DOWNLOAD'' demo_audit sv \<and> audit_run demo_platform sv (hs_audit w)"
proof -
  obtain w a where served: "ServeHTTP demo_platform demo_http 0 (\<lambda>_. []) demo_download demo_server = (w, Answered a)"
    "rp_status a = 200" by (rule demo_downloaded)
  from success_is_recorded [OF served(1) _ demo_download_route _ demo_unaudited] served show ?thesis
    by (auto simp: demo_download_def demo_session_of demo_session_def)
qed

end
