(* ===== verification/Spec2Isabelle.thy ===== *)
theory Spec2Isabelle
  imports RateLimiter AuditProperties IdentityProperties IngestWitnesses ApiWitnesses
begin

text \<open>
  A verification development of the secure file storage server (Go, \<open>src/internal\<close> and \<open>src/cmd/server\<close>).

  \<^bold>\<open>The program.\<close> One process serves an HTTP interface. A request passes the middleware (security headers,
  correlation identifier, origin check), a guard for its session, role, CSRF and step-up tokens, and a handler, which calls four
  services: identities and sessions, the upload manager with its quarantine and its inspection goroutines, the store of protected
  files with envelope encryption, and the audit service with its HMAC chain. Every service sits on a repository interface
  with an in-memory and a PostgreSQL implementation. What a mutation did becomes an intent, which either goes into the
  outbox in the transaction of the mutation, or is delivered by the handler after it.

  \<^bold>\<open>The theories\<close>, from the leaves up; each opens with what it holds.
  \<^item> \<open>Prelude\<close>, \<open>Base64\<close>: Go's basic types and library functions; \<open>platform\<close> holds the primitives that are arguments (SHA-256,
    HMAC, bcrypt, AES-GCM, mail address parsing, Unicode tables, RFC 3339), with their documented behaviour as named predicates.
    Times are nanoseconds since the epoch as integers, with 64-bit arithmetic written out where it can wrap (\<open>wrap64\<close>, \<open>add64\<close>,
    \<open>sub64\<close>); strings and byte slices are lists of bytes; maps are association lists (\<open>gomap\<close>) whose order stands for the
    order of iteration.
  \<^item> \<open>RateLimiter\<close>: \<open>internal/api/rate_limiter.go\<close>.
  \<^item> \<open>AuditOutbox\<close>, \<open>AuditChain\<close>, \<open>AuditService\<close>, \<open>AuditProperties\<close>: \<open>internal/auditoutbox\<close> and \<open>internal/audit\<close> with both
    repositories; the locale \<open>audit_repository\<close> is the contract the service needs, interpreted on both.
  \<^item> \<open>IdentityRepo\<close>, \<open>IdentityStore\<close>, \<open>IdentityMfa\<close>, \<open>IdentityProperties\<close>: \<open>internal/authn\<close>; the locale \<open>identity_repository\<close>
    is interpreted on the memory repository.
  \<^item> \<open>ProtectedRepo\<close>, \<open>ProtectedKeys\<close>, \<open>ProtectedService\<close>, \<open>ProtectedLifecycle\<close>, \<open>ProtectedMaintenance\<close> with \<open>OrphanObjects\<close>:
    \<open>internal/protectedstore\<close> and \<open>internal/orphan\<close>; \<open>ProtectedEnvelope\<close>, \<open>RewrapProofs\<close>, \<open>ProtectedMachine\<close>,
    \<open>ProtectedInvariant\<close>, \<open>OrphanProofs\<close>: the proofs; \<open>ProtectedProperties\<close>, \<open>ProtectedWitnesses\<close>: the properties.
  \<^item> \<open>IngestRepo\<close>, \<open>IngestManager\<close>, \<open>IngestInspection\<close>, \<open>IngestAdmin\<close>, \<open>IngestScanner\<close>: \<open>internal/ingest\<close>. A method of the manager is
    split where it releases the mutex; a goroutine is a value of \<open>job\<close>, the point it has reached. \<open>IngestReception\<close>,
    \<open>IngestMachine\<close>, \<open>IngestRecovery\<close> and \<open>IngestDelivery\<close> hold the proofs, \<open>IngestProperties\<close>, \<open>ScannerProperties\<close> and
    \<open>IngestWitnesses\<close> the properties.
  \<^item> \<open>ApiTypes\<close>, \<open>ApiTelemetry\<close>, \<open>ApiReplies\<close>, \<open>ApiGuards\<close>, \<open>ApiIdentity\<close>, \<open>ApiFiles\<close>, \<open>ApiAdmin\<close>, \<open>ApiReports\<close>,
    \<open>ApiOrphans\<close>, \<open>ApiRoutes\<close>: \<open>internal/api/server.go\<close> and \<open>telemetry.go\<close>, from reading a body to \<open>ServeHTTP\<close>. The record \<open>server\<close> holds the
    states of all services; a handler maps it and a request to its next value and a reply. \<open>ApiAccess\<close>, \<open>ApiTyping\<close>,
    \<open>ApiRelease\<close>, \<open>ApiEvidence\<close>: what holds of every handler, each by a set of rules for the combinators the handlers are written
    with; the guards are the locale \<open>request_guard\<close>, interpreted on the server's. \<open>ApiWitnesses\<close>: a server they are applied to.

  \<^bold>\<open>What is shown.\<close> Of the interface: a table of what each endpoint demands is enforced and a refused request changes
  nothing; content is released only to the user of the session and only after it is on the record; successes are recorded; every
  reply has the type of its endpoint. Of the audit chain: histories verify, a checkpoint determines the log, the outbox is delivered exactly
  once, rotation is atomic. Of identities: sessions follow accounts, secrets and codes work once, repeated failures
  lock. Of protected files: the envelope round trip and what it binds, clean failure, access, trash, retention, purge and
  version histories, with the lifecycle of a file as the refinement of an abstract machine. Of uploads: reception and its clean failure, the
  agreement of what readers see with the repository under every interleaving of the goroutines, their termination, restart, and the way from the
  network to the download.

  \<^bold>\<open>Loops and bounds.\<close> Most loops run over a finite list and are structural. \<open>count_accounts\<close> pages through the
  account directory with fuel one more than the number of accounts, and every page advances the offset by 100. Locks are not modelled as
  objects: what runs under one is one step.

  \<^bold>\<open>What is an argument.\<close> Clock readings, random draws, faults of the file system, the network, and replies of the mailer are
  arguments of the call they occur in (\<open>http_env\<close>, \<open>surroundings\<close>, \<open>ingest_env\<close>), so every theorem holds for all of them.

  \<^bold>\<open>Not modelled.\<close> The PostgreSQL repositories of identities, protected files and uploads: they are SQL text, and what a statement does is the
  database's (the audit repository's transactions are modelled, since its outbox is shared). The clients of the
  remote key service and of the remote audit anchor, and the mailers: HTTP and SMTP exchanges with services that are not in the repository; their interfaces
  are arguments. The volume statistics: one system call. JSON text, multipart framing, CSV text and TLS, which the standard library produces.
\<close>

end
